(* ===== verification/Sec_Prelude.thy ===== *)
theory Sec_Prelude
  imports
    Main
    "HOL-Library.AList"
    "HOL-Library.List_Lexorder"
    "HOL-Library.Char_ord"
    "HOL-Library.Product_Lexorder"
    "HOL-Library.Multiset"
begin

section \<open>Prelude: results, dictionaries, sorting\<close>

text \<open>
  What every component shares.  A Python function that can raise is a HOL function into
  \<open>'e raised + 'a\<close>: \<open>Inl\<close> is the exception, \<open>Inr\<close> the returned value.  \<open>Raised e\<close> is an
  exception class of the repository (its type \<open>'e\<close> is declared by the component that raises
  it), \<open>PyError\<close> one of the interpreter's own (\<open>LibraryError\<close> an exception class of a library module).  \<open>bindE\<close> is sequencing: the continuation runs
  only when nothing was raised.  Dictionaries are association lists in insertion order, updated
  by \<open>AList.update\<close>, which keeps the position of a key that is present, as Python does.
\<close>

named_theorems res_simps \<open>characterisation of successful results\<close>
named_theorems rule_defs \<open>the per-module helpers of the rule engine\<close>
named_theorems decision_defs \<open>decision constructors of the rule engine\<close>

subsection \<open>Results\<close>

datatype py_error =
    TypeError | OverflowError | KeyError | ValueError | AttributeError | LibraryError

datatype 'e raised = Raised 'e | PyError py_error

type_synonym ('e, 'a) result = "'e raised + 'a"

definition raise_error :: "'e \<Rightarrow> ('e, 'a) result" where
  "raise_error e = Inl (Raised e)"

definition bindE :: "'e + 'a \<Rightarrow> ('a \<Rightarrow> 'e + 'b) \<Rightarrow> 'e + 'b" where
  "bindE m f = (case m of Inl e \<Rightarrow> Inl e | Inr x \<Rightarrow> f x)"

lemma bindE_simps [simp]:
  "bindE (Inl e) f = Inl e"
  "bindE (Inr x) f = f x"
  by (simp_all add: bindE_def)

lemma bindE_cong [fundef_cong]:
  "m = m' \<Longrightarrow> (\<And>x. m' = Inr x \<Longrightarrow> f x = f' x) \<Longrightarrow> bindE m f = bindE m' f'"
  by (cases m') (auto simp: bindE_def)

lemma bindE_eq_Inr [res_simps]:
  "bindE m f = Inr y \<longleftrightarrow> (\<exists>x. m = Inr x \<and> f x = Inr y)"
  by (cases m) auto

lemma bindE_raise_error [simp]: "bindE (raise_error e) f = raise_error e"
  by (simp add: raise_error_def)

lemma raise_error_neq_Inr [simp]:
  "raise_error e \<noteq> Inr x" "Inr x \<noteq> raise_error e"
  by (simp_all add: raise_error_def)

lemma if_raise_eq_Inr [res_simps]:
  "(if b then raise_error e else m) = Inr y \<longleftrightarrow> \<not> b \<and> m = Inr y"
  by simp

definition is_ok :: "'e + 'a \<Rightarrow> bool" where
  "is_ok m = (case m of Inl _ \<Rightarrow> False | Inr _ \<Rightarrow> True)"

lemma is_ok_simps [simp]: "is_ok (Inr x)" "\<not> is_ok (Inl e)" "\<not> is_ok (raise_error e)"
  by (simp_all add: is_ok_def raise_error_def)

lemma is_ok_iff: "is_ok m \<longleftrightarrow> (\<exists>x. m = Inr x)"
  by (cases m) auto

text \<open>An exception of another module that passes through, under this module's error type.\<close>

definition lift_error :: "('e \<Rightarrow> 'f) \<Rightarrow> ('e, 'a) result \<Rightarrow> ('f, 'a) result" where
  "lift_error f m =
     (case m of Inl (Raised e) \<Rightarrow> Inl (Raised (f e)) | Inl (PyError p) \<Rightarrow> Inl (PyError p)
      | Inr x \<Rightarrow> Inr x)"

lemma lift_error_eq_Inr [res_simps]: "lift_error f m = Inr x \<longleftrightarrow> m = Inr x"
  by (auto simp: lift_error_def split: sum.splits raised.splits)

text \<open>A list comprehension whose element expression can raise.\<close>

fun mapE :: "('a \<Rightarrow> 'e + 'b) \<Rightarrow> 'a list \<Rightarrow> 'e + 'b list" where
  "mapE f [] = Inr []"
| "mapE f (x # xs) = bindE (f x) (\<lambda>y. bindE (mapE f xs) (\<lambda>ys. Inr (y # ys)))"

lemma mapE_eq_Inr [res_simps]:
  "mapE f xs = Inr ys \<longleftrightarrow> list_all2 (\<lambda>x y. f x = Inr y) xs ys"
proof (induction xs arbitrary: ys)
  case Nil
  then show ?case by auto
next
  case (Cons x xs)
  then show ?case by (cases ys) (auto simp: res_simps)
qed

text \<open>
  Every value a computation returns satisfies \<open>P\<close>.  The rules follow the structure of the code, so
  that a property of all the branches of a function is one call of the simplifier.
\<close>

definition returns_only :: "('a \<Rightarrow> bool) \<Rightarrow> 'e + 'a \<Rightarrow> bool" where
  "returns_only P m \<longleftrightarrow> (\<forall>x. m = Inr x \<longrightarrow> P x)"

lemma returns_only_simps [simp]:
  "returns_only P (Inl e)"
  "returns_only P (raise_error r)"
  "returns_only P (Inr x) \<longleftrightarrow> P x"
  "returns_only P (bindE m f) \<longleftrightarrow> (\<forall>x. m = Inr x \<longrightarrow> returns_only P (f x))"
  by (auto simp: returns_only_def res_simps)

lemma returns_only_if [simp]:
  "returns_only P (if b then m else n) \<longleftrightarrow>
     (b \<longrightarrow> returns_only P m) \<and> (\<not> b \<longrightarrow> returns_only P n)"
  by simp

lemma returns_onlyD: "returns_only P m \<Longrightarrow> m = Inr x \<Longrightarrow> P x"
  by (simp add: returns_only_def)

subsection \<open>Dictionaries\<close>

definition dict_keys :: "('k \<times> 'v) list \<Rightarrow> 'k list" where
  "dict_keys d = map fst d"

lemma dict_keys_simps [simp]:
  "dict_keys [] = []"
  "dict_keys ((k, v) # d) = k # dict_keys d"
  by (simp_all add: dict_keys_def)

lemma dict_keys_map_of: "k \<in> set (dict_keys d) \<longleftrightarrow> map_of d k \<noteq> None"
  by (simp add: dict_keys_def map_of_eq_None_iff)

subsection \<open>Sorting\<close>

text \<open>\<open>sorted(set)\<close>: the distinct elements in ascending order.\<close>

definition sorted_distinct :: "'a::linorder list \<Rightarrow> 'a list" where
  "sorted_distinct xs = sort (remdups xs)"

lemma set_sorted_distinct [simp]: "set (sorted_distinct xs) = set xs"
  by (simp add: sorted_distinct_def)

lemma sorted_sorted_distinct [simp]: "sorted (sorted_distinct xs)"
  by (simp add: sorted_distinct_def)

lemma distinct_sorted_distinct [simp]: "distinct (sorted_distinct xs)"
  by (simp add: sorted_distinct_def)

lemma sorted_distinct_Nil_iff [simp]: "sorted_distinct xs = [] \<longleftrightarrow> xs = []"
  by (metis set_empty set_sorted_distinct)

text \<open>A key that is injective on the elements makes the sorted order canonical.\<close>

lemma sort_key_permutation:
  assumes "mset xs = mset ys" and "inj_on f (set xs)"
  shows "sort_key f xs = sort_key f ys"
  by (rule sort_key_inj_key_eq) (use assms in simp_all)

subsection \<open>Operations with effects\<close>

text \<open>
  An operation may change its state and then return or raise; what it changed before a raise
  stays changed.
\<close>

type_synonym ('s, 'e, 'a) op = "'s \<Rightarrow> 's \<times> ('e + 'a)"

definition op_return :: "'a \<Rightarrow> ('s, 'e, 'a) op" where
  "op_return x db = (db, Inr x)"

definition op_raise :: "'e \<Rightarrow> ('s, 'e, 'a) op" where
  "op_raise e db = (db, Inl e)"

definition op_read :: "('s \<Rightarrow> 'a) \<Rightarrow> ('s, 'e, 'a) op" where
  "op_read f db = (db, Inr (f db))"

definition op_write :: "('s \<Rightarrow> 's) \<Rightarrow> ('s, 'e, unit) op" where
  "op_write f db = (f db, Inr ())"

definition op_bind :: "('s, 'e, 'a) op \<Rightarrow> ('a \<Rightarrow> ('s, 'e, 'b) op) \<Rightarrow> ('s, 'e, 'b) op" where
  "op_bind m f db = (case m db of (db', Inl e) \<Rightarrow> (db', Inl e) | (db', Inr x) \<Rightarrow> f x db')"

lemmas op_defs = op_return_def op_raise_def op_read_def op_write_def op_bind_def

lemma op_bind_simps [simp]:
  "op_bind (op_return x) f = f x"
  "op_bind (op_raise e) f = op_raise e"
  "op_bind (op_read g) f db = f (g db) db"
  "op_bind (op_write w) h db = h () (w db)"
  by (simp_all add: op_defs fun_eq_iff)

lemma op_eq_Inr [simp]:
  "op_return x db = (db', Inr y) \<longleftrightarrow> db' = db \<and> y = x"
  "op_raise e db \<noteq> (db', Inr z)"
  by (auto simp: op_defs)

lemma fst_op_simps [simp]:
  "fst (op_return x st) = st" "fst (op_raise e st) = st" "fst (op_read f st) = st"
  "fst (op_write g st) = g st"
  by (simp_all add: op_defs)

lemma snd_op_simps [simp]:
  "snd (op_return x st) = Inr x" "snd (op_raise e st) = Inl e" "snd (op_read f st) = Inr (f st)"
  "snd (op_write g st) = Inr ()"
  by (simp_all add: op_defs)

lemma op_bind_fst: "fst (op_bind m f db) =
   (case snd (m db) of Inl e \<Rightarrow> fst (m db) | Inr x \<Rightarrow> fst (f x (fst (m db))))"
  by (simp add: op_bind_def split: prod.splits sum.splits)

lemma op_bind_snd: "snd (op_bind m f db) =
   (case snd (m db) of Inl e \<Rightarrow> Inl e | Inr x \<Rightarrow> snd (f x (fst (m db))))"
  by (simp add: op_bind_def split: prod.splits sum.splits)

end
