(* ===== verification/Py_Values.thy ===== *)
theory Py_Values
  imports Sec_Prelude
begin

section \<open>The Python values the program handles\<close>

text \<open>
  Packs, rules, evidence and policies are JSON documents: \<open>pyval\<close> is the type of the decoded
  values.  A string is its UTF-8 encoding (\<open>char list\<close>, one \<open>char\<close> per byte), which keeps
  equality and the code-point order of Python strings.  A mapping is an association list with
  \<open>py_get\<close> for \<open>dict.get\<close> (a missing key gives \<open>PNone\<close>, as in Python).  Integers are unbounded.
  A finite float is its exact value \<open>PFloat m e\<close>, the number \<open>m * 2 ^ e\<close> with \<open>m\<close> odd or both zero, so
  that the sign of zero is not kept.
\<close>

datatype pyval =
    PNone
  | PBool bool
  | PInt int
  | PFloat int int
  | PStr string
  | PList "pyval list"
  | PDict "(string \<times> pyval) list"

type_synonym dict = "(string \<times> pyval) list"

definition py_get :: "dict \<Rightarrow> string \<Rightarrow> pyval" where
  "py_get d k = (case map_of d k of None \<Rightarrow> PNone | Some v \<Rightarrow> v)"

lemma py_get_Nil [simp]: "py_get [] k = PNone"
  by (simp add: py_get_def)

lemma py_get_Cons [simp]: "py_get ((k', v) # d) k = (if k = k' then v else py_get d k)"
  by (simp add: py_get_def)

text \<open>\<open>d[k]\<close>, which raises on a missing key.\<close>

definition py_item :: "dict \<Rightarrow> string \<Rightarrow> ('e, pyval) result" where
  "py_item d k = (case map_of d k of None \<Rightarrow> Inl (PyError KeyError) | Some v \<Rightarrow> Inr v)"

subsection \<open>Types and equality\<close>

text \<open>\<open>type(x) is type(y)\<close> and \<open>x == y\<close>; a \<open>bool\<close> equals the integer it stands for.\<close>

fun same_type :: "pyval \<Rightarrow> pyval \<Rightarrow> bool" where
  "same_type PNone PNone = True"
| "same_type (PBool _) (PBool _) = True"
| "same_type (PInt _) (PInt _) = True"
| "same_type (PFloat _ _) (PFloat _ _) = True"
| "same_type (PStr _) (PStr _) = True"
| "same_type (PList _) (PList _) = True"
| "same_type (PDict _) (PDict _) = True"
| "same_type _ _ = False"

definition float_is_int :: "int \<Rightarrow> int \<Rightarrow> int \<Rightarrow> bool" where
  "float_is_int m e i \<longleftrightarrow> (if 0 \<le> e then m * 2 ^ nat e = i else m = i * 2 ^ nat (- e))"

function py_eq :: "pyval \<Rightarrow> pyval \<Rightarrow> bool" where
  "py_eq x y =
     (case (x, y) of
        (PNone, PNone) \<Rightarrow> True
      | (PBool a, PBool b) \<Rightarrow> a = b
      | (PBool a, PInt j) \<Rightarrow> of_bool a = j
      | (PInt i, PBool b) \<Rightarrow> i = of_bool b
      | (PInt i, PInt j) \<Rightarrow> i = j
      | (PFloat m e, PFloat n f) \<Rightarrow> m = n \<and> e = f
      | (PFloat m e, PInt j) \<Rightarrow> float_is_int m e j
      | (PInt i, PFloat n f) \<Rightarrow> float_is_int n f i
      | (PFloat m e, PBool b) \<Rightarrow> float_is_int m e (of_bool b)
      | (PBool a, PFloat n f) \<Rightarrow> float_is_int n f (of_bool a)
      | (PStr s, PStr t) \<Rightarrow> s = t
      | (PList xs, PList ys) \<Rightarrow> list_all2 py_eq xs ys
      | (PDict d, PDict e) \<Rightarrow>
          set (dict_keys d) = set (dict_keys e) \<and>
          list_all (\<lambda>kv. case map_of e (fst kv) of None \<Rightarrow> False | Some w \<Rightarrow> py_eq (snd kv) w) d
      | _ \<Rightarrow> False)"
  by pat_completeness auto
termination
proof (relation "measure (\<lambda>(x, y). size x)", goal_cases)
  case 1
  then show ?case by simp
next
  case (2 x y a b xs ys)
  then show ?case by (auto dest: size_list_estimation'[where f = size, OF _ order_refl] simp: less_Suc_eq_le)
next
  case (3 x y a b d e kv w)
  then show ?case
    by (cases kv) (auto dest!: size_list_estimation'[where f = "size_prod (\<lambda>_. 0) size", OF _ order_refl]
        simp: less_Suc_eq_le)
qed

declare py_eq.simps [simp del]

lemma py_eq_simps [simp]:
  "py_eq PNone PNone"
  "py_eq (PBool a) (PBool b) \<longleftrightarrow> a = b"
  "py_eq (PInt i) (PInt j) \<longleftrightarrow> i = j"
  "py_eq (PStr s) (PStr t) \<longleftrightarrow> s = t"
  "py_eq (PBool a) (PInt j) \<longleftrightarrow> of_bool a = j"
  "py_eq (PInt i) (PBool b) \<longleftrightarrow> i = of_bool b"
  "py_eq (PFloat m x) (PFloat n f) \<longleftrightarrow> m = n \<and> x = f"
  "py_eq (PFloat m x) (PInt j) \<longleftrightarrow> float_is_int m x j"
  "py_eq (PInt i) (PFloat n f) \<longleftrightarrow> float_is_int n f i"
  "py_eq (PFloat m x) (PBool b) \<longleftrightarrow> float_is_int m x (of_bool b)"
  "py_eq (PBool a) (PFloat n f) \<longleftrightarrow> float_is_int n f (of_bool a)"
  "py_eq (PList xs) (PList ys) \<longleftrightarrow> list_all2 py_eq xs ys"
  "py_eq (PDict d) (PDict e) \<longleftrightarrow> set (dict_keys d) = set (dict_keys e) \<and>
     list_all (\<lambda>kv. case map_of e (fst kv) of None \<Rightarrow> False | Some w \<Rightarrow> py_eq (snd kv) w) d"
  by (simp_all add: py_eq.simps)

lemma py_eq_PStr [simp]: "py_eq v (PStr s) \<longleftrightarrow> v = PStr s" "py_eq (PStr s) v \<longleftrightarrow> v = PStr s"
  by (cases v; auto simp: py_eq.simps)+

subsection \<open>Strings\<close>

text \<open>Decimal text of an integer, as an f-string prints it.\<close>

definition digit_char :: "int \<Rightarrow> char" where
  "digit_char d = ''0123456789'' ! nat d"

function int_digits :: "int \<Rightarrow> string" where
  "int_digits n = (if n < 10 then [digit_char n] else int_digits (n div 10) @ [digit_char (n mod 10)])"
  by pat_completeness auto
termination by (relation "measure nat") auto

declare int_digits.simps [simp del]

definition int_str :: "int \<Rightarrow> string" where
  "int_str i = (if i < 0 then CHR ''-'' # int_digits (- i) else int_digits i)"

text \<open>\<open>str.replace\<close> of a single character by a string.\<close>

definition replace_char :: "char \<Rightarrow> string \<Rightarrow> string \<Rightarrow> string" where
  "replace_char c r s = concat (map (\<lambda>x. if x = c then r else [x]) s)"

text \<open>\<open>sep.join\<close> and \<open>str.split\<close> with a one-character separator.\<close>

fun join_with :: "string \<Rightarrow> string list \<Rightarrow> string" where
  "join_with sep [] = []"
| "join_with sep [x] = x"
| "join_with sep (x # y # ys) = x @ sep @ join_with sep (y # ys)"

fun split_char :: "char \<Rightarrow> string \<Rightarrow> string list" where
  "split_char c [] = [[]]"
| "split_char c (x # xs) =
     (if x = c then [] # split_char c xs
      else case split_char c xs of [] \<Rightarrow> [[x]] | w # ws \<Rightarrow> (x # w) # ws)"

text \<open>\<open>len\<close> of a string counts its characters, which the bytes split into.\<close>

definition continuation_byte :: "char \<Rightarrow> bool" where
  "continuation_byte c \<longleftrightarrow> (let n = of_char c :: nat in 128 \<le> n \<and> n < 192)"

function utf8_chars :: "string \<Rightarrow> string list" where
  "utf8_chars [] = []"
| "utf8_chars (c # s) =
     (c # takeWhile continuation_byte s) # utf8_chars (dropWhile continuation_byte s)"
  by pat_completeness auto
termination
  by (relation "measure length") (auto simp: le_imp_less_Suc length_dropWhile_le)

definition py_len :: "string \<Rightarrow> nat" where
  "py_len s = length (utf8_chars s)"

text \<open>
  Text outside ASCII is written as the hexadecimal digits of its UTF-8 bytes.  A digit is read by
  its bits: \<open>0\<close> to \<open>9\<close> carry their value in the low half of the byte, \<open>a\<close> to \<open>f\<close> (bit 6 set) are 9
  more than theirs.
\<close>

definition nibble :: "char \<Rightarrow> bool \<times> bool \<times> bool \<times> bool" where
  "nibble c =
     (if digit6 c
      then (\<not> digit0 c, digit1 c \<noteq> digit0 c, digit2 c \<noteq> (digit1 c \<and> digit0 c), True)
      else (digit0 c, digit1 c, digit2 c, digit3 c))"

fun hex_text :: "string \<Rightarrow> string" where
  "hex_text (a # b # cs) =
     (case (nibble a, nibble b) of
        ((h0, h1, h2, h3), (l0, l1, l2, l3)) \<Rightarrow> Char l0 l1 l2 l3 h0 h1 h2 h3) # hex_text cs"
| "hex_text _ = []"

text \<open>
  \<open>str.strip()\<close>: the leading and trailing whitespace, in UTF-8, of the characters for which
  \<open>str.isspace\<close> holds.  \<open>ws_len\<close> is the byte length of a whitespace character at the front
  (0 when there is none); the trailing end is read through the reversed encoding.
\<close>

definition ascii_space :: "nat \<Rightarrow> bool" where
  "ascii_space n \<longleftrightarrow> (9 \<le> n \<and> n \<le> 13) \<or> (28 \<le> n \<and> n \<le> 32)"

definition wide_space3 :: "nat \<Rightarrow> nat \<Rightarrow> nat \<Rightarrow> bool" where
  "wide_space3 a b c \<longleftrightarrow>
     (a = 225 \<and> b = 154 \<and> c = 128) \<or>
     (a = 226 \<and> b = 128 \<and> (128 \<le> c \<and> c \<le> 138 \<or> c = 168 \<or> c = 169 \<or> c = 175)) \<or>
     (a = 226 \<and> b = 129 \<and> c = 159) \<or>
     (a = 227 \<and> b = 128 \<and> c = 128)"

definition wide_space2 :: "nat \<Rightarrow> nat \<Rightarrow> bool" where
  "wide_space2 a b \<longleftrightarrow> a = 194 \<and> (b = 133 \<or> b = 160)"

fun lstrip :: "string \<Rightarrow> string" where
  "lstrip s =
     (case s of
        [] \<Rightarrow> []
      | a # s1 \<Rightarrow>
          if ascii_space (of_char a) then lstrip s1
          else (case s1 of
            [] \<Rightarrow> s
          | b # s2 \<Rightarrow>
              if wide_space2 (of_char a) (of_char b) then lstrip s2
              else (case s2 of
                [] \<Rightarrow> s
              | c # s3 \<Rightarrow> if wide_space3 (of_char a) (of_char b) (of_char c) then lstrip s3 else s)))"

fun rstrip_rev :: "string \<Rightarrow> string" where
  "rstrip_rev s =
     (case s of
        [] \<Rightarrow> []
      | c # s1 \<Rightarrow>
          if ascii_space (of_char c) then rstrip_rev s1
          else (case s1 of
            [] \<Rightarrow> s
          | b # s2 \<Rightarrow>
              if wide_space2 (of_char b) (of_char c) then rstrip_rev s2
              else (case s2 of
                [] \<Rightarrow> s
              | a # s3 \<Rightarrow> if wide_space3 (of_char a) (of_char b) (of_char c) then rstrip_rev s3 else s)))"

declare lstrip.simps [simp del] rstrip_rev.simps [simp del]

definition strip :: "string \<Rightarrow> string" where
  "strip s = rev (rstrip_rev (rev (lstrip s)))"

text \<open>
  \<open>str.casefold()\<close>: ASCII letters, and the characters outside ASCII whose folding lies inside
  it (U+00DF and U+1E9E to \<open>ss\<close>, U+017F to \<open>s\<close>, U+212A to \<open>k\<close>, the ligatures U+FB00 to
  U+FB06).  Every other character folds to text that is not ASCII and is left as it is; the
  modelled code compares folded text with ASCII literals only.
\<close>

definition fold_char :: "char \<Rightarrow> char" where
  "fold_char c = (let n = of_char c :: nat in if 65 \<le> n \<and> n \<le> 90 then char_of (n + 32) else c)"

definition fold2 :: "nat \<Rightarrow> nat \<Rightarrow> string" where
  "fold2 a b =
     (if a = 195 \<and> b = 159 then ''ss'' else if a = 197 \<and> b = 191 then ''s'' else [])"

definition fold3 :: "nat \<Rightarrow> nat \<Rightarrow> nat \<Rightarrow> string" where
  "fold3 a b c =
     (if a = 225 \<and> b = 186 \<and> c = 158 then ''ss''
      else if a = 226 \<and> b = 132 \<and> c = 170 then ''k''
      else if a = 239 \<and> b = 172 then
        (if c = 128 then ''ff'' else if c = 129 then ''fi'' else if c = 130 then ''fl''
         else if c = 131 then ''ffi'' else if c = 132 then ''ffl''
         else if c = 133 then ''st'' else if c = 134 then ''st'' else [])
      else [])"

fun casefold :: "string \<Rightarrow> string" where
  "casefold [] = []"
| "casefold [a] = [fold_char a]"
| "casefold [a, b] =
     (if fold2 (of_char a) (of_char b) \<noteq> [] then fold2 (of_char a) (of_char b)
      else fold_char a # casefold [b])"
| "casefold (a # b # c # s) =
     (if fold2 (of_char a) (of_char b) \<noteq> [] then fold2 (of_char a) (of_char b) @ casefold (c # s)
      else if fold3 (of_char a) (of_char b) (of_char c) \<noteq> []
      then fold3 (of_char a) (of_char b) (of_char c) @ casefold s
      else fold_char a # casefold (b # c # s))"

subsection \<open>Text of a value\<close>

text \<open>
  What an f-string prints for a value: a string as it is, anything else by \<open>repr\<close>.  Characters
  outside ASCII are kept in a quoted string.
\<close>

definition hex_digit :: "nat \<Rightarrow> char" where
  "hex_digit d = (if d < 10 then char_of (48 + d) else char_of (87 + d))"

definition repr_char :: "char \<Rightarrow> char \<Rightarrow> string" where
  "repr_char q c =
     (let n = of_char c :: nat
      in if c = q \<or> n = 92 then [char_of (92 :: nat), c]
         else if n = 10 then [char_of (92 :: nat), CHR ''n'']
         else if n = 13 then [char_of (92 :: nat), CHR ''r'']
         else if n = 9 then [char_of (92 :: nat), CHR ''t'']
         else if n < 32 \<or> n = 127
         then [char_of (92 :: nat), CHR ''x'', hex_digit (n div 16), hex_digit (n mod 16)]
         else [c])"

definition repr_str :: "string \<Rightarrow> string" where
  "repr_str s =
     (let sq = char_of (39 :: nat); dq = char_of (34 :: nat);
          q = (if sq \<in> set s \<and> dq \<notin> set s then dq else sq)
      in [q] @ concat (map (repr_char q) s) @ [q])"

text \<open>
  Floats.  \<open>float_of_ratio\<close> is the binary64 number nearest to a positive fraction, ties to even and
  with gradual underflow; \<open>None\<close> stands for infinity.  \<open>float_digits\<close> finds the shortest decimal that
  rounds to a float, and \<open>repr_float\<close> prints it as \<open>repr\<close> does.
\<close>

definition div_half_even :: "int \<Rightarrow> int \<Rightarrow> int" where
  "div_half_even n d =
     (let q = n div d; r = n mod d
      in if 2 * r < d \<or> 2 * r = d \<and> even q then q else q + 1)"

fun odd_part :: "nat \<Rightarrow> int \<Rightarrow> int \<Rightarrow> int \<times> int" where
  "odd_part 0 m e = (m, e)"
| "odd_part (Suc k) m e = (if m = 0 then (0, 0) else if even m then odd_part k (m div 2) (e + 1) else (m, e))"

fun bit_length :: "int \<Rightarrow> int" where
  "bit_length n = (if n < 1 then 0 else bit_length (n div 2) + 1)"

declare bit_length.simps [simp del]

definition floor_log :: "int \<Rightarrow> int \<Rightarrow> int \<Rightarrow> int \<Rightarrow> int" where
  "floor_log b k n d =
     (if (if 0 \<le> k then d * b ^ nat k \<le> n else d \<le> n * b ^ nat (- k)) then k else k - 1)"

definition float_of_ratio :: "int \<Rightarrow> int \<Rightarrow> (int \<times> int) option" where
  "float_of_ratio n d =
     (let k = floor_log 2 (bit_length n - bit_length d) n d;
          e = max (k - 52) (- 1074);
          m = (if 0 \<le> e then div_half_even n (d * 2 ^ nat e) else div_half_even (n * 2 ^ nat (- e)) d)
      in if (if 0 \<le> e then m * 2 ^ nat e \<ge> 2 ^ 1024 else False) then None
         else Some (odd_part 54 m e))"

definition float_ratio :: "int \<Rightarrow> int \<Rightarrow> int \<times> int" where
  "float_ratio m e = (if 0 \<le> e then (m * 2 ^ nat e, 1) else (m, 2 ^ nat (- e)))"

fun float_digits :: "nat \<Rightarrow> nat \<Rightarrow> int \<Rightarrow> int \<Rightarrow> int \<Rightarrow> int \<times> nat" where
  "float_digits 0 p k m e = (0, p)"
| "float_digits (Suc f) p k m e =
     (let (n, d) = float_ratio m e; s = int p - 1 - k;
          D = (if 0 \<le> s then div_half_even (n * 10 ^ nat s) d else div_half_even n (d * 10 ^ nat (- s)));
          back = (if 0 \<le> s then float_of_ratio D (10 ^ nat s) else float_of_ratio (D * 10 ^ nat (- s)) 1)
      in if back = Some (m, e) then (D, p) else float_digits f (p + 1) k m e)"

definition repr_float :: "int \<Rightarrow> int \<Rightarrow> string" where
  "repr_float m e =
     (if m = 0 then ''0.0''
      else
        let (n, d) = float_ratio (abs m) e;
            k = floor_log 10 (int (length (int_digits n)) - int (length (int_digits d))) n d;
            (D, p) = float_digits 17 1 k (abs m) e;
            k = k + int (length (int_digits D)) - int p;
            text = rev (dropWhile (\<lambda>c. c = CHR ''0'') (rev (int_digits D))); p = length text;
            sign = (if m < 0 then ''-'' else [])
        in sign @
           (if - 4 \<le> k \<and> k < 16
            then (if k < 0 then ''0.'' @ replicate (nat (- k - 1)) (CHR ''0'') @ text
                  else if int p \<le> k + 1 then text @ replicate (nat (k + 1 - int p)) (CHR ''0'') @ ''.0''
                  else take (nat (k + 1)) text @ ''.'' @ drop (nat (k + 1)) text)
            else take 1 text @ (if p = 1 then [] else ''.'' @ drop 1 text) @ ''e'' @
                 (if k < 0 then ''-'' else ''+'') @
                 (if abs k < 10 then ''0'' else []) @ int_digits (abs k)))"

lemma float_examples:
  "float_of_ratio 3 2 = Some (3, - 1)"
  "repr_float 3 (- 1) = ''1.5''"
  by code_simp+

fun py_repr :: "pyval \<Rightarrow> string" where
  "py_repr PNone = ''None''"
| "py_repr (PBool b) = (if b then ''True'' else ''False'')"
| "py_repr (PInt i) = int_str i"
| "py_repr (PFloat m e) = repr_float m e"
| "py_repr (PStr s) = repr_str s"
| "py_repr (PList xs) = ''['' @ join_with '', '' (map py_repr xs) @ '']''"
| "py_repr (PDict d) =
     ''{'' @ join_with '', '' (map (\<lambda>kv. repr_str (fst kv) @ '': '' @ py_repr (snd kv)) d) @ ''}''"

definition py_str :: "pyval \<Rightarrow> string" where
  "py_str v = (case v of PStr s \<Rightarrow> s | _ \<Rightarrow> py_repr v)"

text \<open>
  \<open>x in {...}\<close> for a set of string literals: a list or a mapping is not hashable and raises.
\<close>

definition in_str_set :: "pyval \<Rightarrow> string list \<Rightarrow> ('e, bool) result" where
  "in_str_set v ss =
     (case v of
        PList _ \<Rightarrow> Inl (PyError TypeError)
      | PDict _ \<Rightarrow> Inl (PyError TypeError)
      | PStr s \<Rightarrow> Inr (s \<in> set ss)
      | _ \<Rightarrow> Inr False)"

lemma in_str_set_eq_Inr [res_simps]:
  "in_str_set v ss = Inr b \<longleftrightarrow>
     (\<forall>xs. v \<noteq> PList xs) \<and> (\<forall>d. v \<noteq> PDict d) \<and> b = (\<exists>s. v = PStr s \<and> s \<in> set ss)"
  by (cases v) (auto simp: in_str_set_def)

end
