(* ===== verification/Py_Time.thy ===== *)
theory Py_Time
  imports Py_Values
begin

section \<open>Dates and timestamps\<close>

text \<open>
  What the rule engine uses of \<open>datetime\<close>: \<open>date.fromisoformat\<close>, \<open>datetime.fromisoformat\<close>,
  \<open>astimezone(UTC)\<close>, \<open>date()\<close>, \<open>isoformat\<close> of a date and the order of instants.  The functions
  follow the reference implementation of the standard library (Python 3.12), with decimal
  digits required wherever it converts a slice to an integer.  An instant is the number of
  microseconds since 0001-01-01T00:00:00 UTC, a date its proleptic Gregorian ordinal.
\<close>

subsection \<open>Calendar\<close>

definition is_leap :: "int \<Rightarrow> bool" where
  "is_leap y \<longleftrightarrow> y mod 4 = 0 \<and> (y mod 100 \<noteq> 0 \<or> y mod 400 = 0)"

definition days_before_year :: "int \<Rightarrow> int" where
  "days_before_year year =
     (let y = year - 1 in y * 365 + y div 4 - y div 100 + y div 400)"

definition month_lengths :: "int list" where
  "month_lengths = [31, 28, 31, 30, 31, 30, 31, 31, 30, 31, 30, 31]"

definition days_in_month :: "int \<Rightarrow> int \<Rightarrow> int" where
  "days_in_month year month =
     (if month = 2 \<and> is_leap year then 29 else month_lengths ! nat (month - 1))"

definition days_before_month :: "int \<Rightarrow> int \<Rightarrow> int" where
  "days_before_month year month =
     sum_list (take (nat (month - 1)) month_lengths) + of_bool (month > 2 \<and> is_leap year)"

definition ymd2ord :: "int \<Rightarrow> int \<Rightarrow> int \<Rightarrow> int" where
  "ymd2ord year month day = days_before_year year + days_before_month year month + day"

definition max_ordinal :: int where
  "max_ordinal = 3652059"

definition ord2ymd :: "int \<Rightarrow> int \<times> int \<times> int" where
  "ord2ymd n0 =
     (let n = n0 - 1;
          n400 = n div 146097; n = n mod 146097;
          year = n400 * 400 + 1;
          n100 = n div 36524; n = n mod 36524;
          n4 = n div 1461; n = n mod 1461;
          n1 = n div 365; n = n mod 365;
          year = year + n100 * 100 + n4 * 4 + n1
      in if n1 = 4 \<or> n100 = 4 then (year - 1, 12, 31)
         else
           let leapyear = n1 = 3 \<and> (n4 \<noteq> 24 \<or> n100 = 3);
               month = (n + 50) div 32;
               preceding = sum_list (take (nat (month - 1)) month_lengths)
                           + of_bool (month > 2 \<and> leapyear);
               (month, preceding) =
                 (if preceding > n
                  then (month - 1,
                        preceding - (if month - 1 = 2 \<and> leapyear then 29
                                     else month_lengths ! nat (month - 2)))
                  else (month, preceding))
           in (year, month, n - preceding + 1))"

definition isoweek1monday :: "int \<Rightarrow> int" where
  "isoweek1monday year =
     (let firstday = ymd2ord year 1 1;
          firstweekday = (firstday + 6) mod 7;
          week1monday = firstday - firstweekday
      in if firstweekday > 3 then week1monday + 7 else week1monday)"

definition isoweek_to_gregorian :: "int \<Rightarrow> int \<Rightarrow> int \<Rightarrow> (int \<times> int \<times> int) option" where
  "isoweek_to_gregorian year week day =
     (if \<not> (1 \<le> year \<and> year \<le> 9999) then None
      else if \<not> (0 < week \<and> week < 53) \<and>
              \<not> (week = 53 \<and>
                 (let fw = ymd2ord year 1 1 mod 7 in fw = 4 \<or> (fw = 3 \<and> is_leap year)))
      then None
      else if \<not> (0 < day \<and> day < 8) then None
      else Some (ord2ymd (isoweek1monday year + ((week - 1) * 7 + (day - 1)))))"

subsection \<open>Parsing\<close>

definition digit_values :: "(char \<times> int) list" where
  "digit_values =
    [(CHR ''0'', 0), (CHR ''1'', 1), (CHR ''2'', 2), (CHR ''3'', 3), (CHR ''4'', 4), (CHR ''5'', 5),
     (CHR ''6'', 6), (CHR ''7'', 7), (CHR ''8'', 8), (CHR ''9'', 9)]"

definition is_ascii_digit :: "char \<Rightarrow> bool" where
  "is_ascii_digit c \<longleftrightarrow> map_of digit_values c \<noteq> None"

definition digits_value :: "string \<Rightarrow> int" where
  "digits_value s = foldl (\<lambda>n c. 10 * n + the (map_of digit_values c)) 0 s"

definition parse_digits :: "string \<Rightarrow> int option" where
  "parse_digits s = (if s \<noteq> [] \<and> list_all is_ascii_digit s then Some (digits_value s) else None)"

definition slice :: "nat \<Rightarrow> nat \<Rightarrow> string \<Rightarrow> string" where
  "slice i j s = take (j - i) (drop i s)"

definition parse_isoformat_date :: "string \<Rightarrow> (int \<times> int \<times> int) option" where
  "parse_isoformat_date s =
     Option.bind (parse_digits (slice 0 4 s)) (\<lambda>year.
       let has_sep = (slice 4 5 s = ''-''); pos = (if has_sep then 5 else 4)
       in if slice pos (pos + 1) s = ''W'' then
            let pos = pos + 1
            in Option.bind (parse_digits (slice pos (pos + 2) s)) (\<lambda>weekno.
                 let pos = pos + 2
                 in if length s > pos then
                      (if (slice pos (pos + 1) s = ''-'') \<noteq> has_sep then None
                       else let pos = (if has_sep then pos + 1 else pos)
                            in Option.bind (parse_digits (slice pos (pos + 1) s))
                                 (isoweek_to_gregorian year weekno))
                    else isoweek_to_gregorian year weekno 1)
          else
            Option.bind (parse_digits (slice pos (pos + 2) s)) (\<lambda>month.
              let pos = pos + 2
              in if (slice pos (pos + 1) s = ''-'') \<noteq> has_sep then None
                 else let pos = (if has_sep then pos + 1 else pos)
                      in Option.bind (parse_digits (slice pos (pos + 2) s))
                           (\<lambda>day. Some (year, month, day))))"

text \<open>The date constructor's range checks.\<close>

definition date_ordinal :: "int \<times> int \<times> int \<Rightarrow> int option" where
  "date_ordinal ymd =
     (case ymd of (year, month, day) \<Rightarrow>
        if 1 \<le> year \<and> year \<le> 9999 \<and> 1 \<le> month \<and> month \<le> 12 \<and>
           1 \<le> day \<and> day \<le> days_in_month year month
        then Some (ymd2ord year month day) else None)"

definition date_fromisoformat :: "string \<Rightarrow> int option" where
  "date_fromisoformat s =
     (if length s \<in> {7, 8, 10} then Option.bind (parse_isoformat_date s) date_ordinal else None)"

definition find_separator :: "string \<Rightarrow> nat option" where
  "find_separator s =
     (let n = length s
      in if n = 7 then Some 7
         else if slice 4 5 s = ''-'' then
           (if slice 5 6 s = ''W'' then
              (if n > 8 \<and> slice 8 9 s = ''-'' then
                 (if n = 9 then None
                  else if n > 10 \<and> list_all is_ascii_digit (slice 10 11 s) then Some 8
                  else Some 10)
               else Some 8)
            else Some 10)
         else if slice 4 5 s = ''W'' then
           (let idx = 7 + length (takeWhile is_ascii_digit (drop 7 s))
            in if idx < 9 then Some idx else if even idx then Some 7 else Some 8)
         else Some 8)"

text \<open>\<open>HH[:?MM[:?SS[{.,}fff[fff]]]]\<close>; \<open>comps\<close> counts the components read so far.\<close>

primrec parse_hms :: "nat \<Rightarrow> bool \<Rightarrow> string \<Rightarrow> int list \<Rightarrow> (int list \<times> string) option" where
  "parse_hms 0 has_sep s acc = Some (acc, s)"
| "parse_hms (Suc left) has_sep s acc =
     (if length s < 2 then None
      else Option.bind (parse_digits (take 2 s)) (\<lambda>v.
        let rest = drop 2 s;
            sep = (if acc = [] then take 1 rest = '':'' else has_sep)
        in if rest = [] \<or> left = 0 then Some (acc @ [v], rest)
           else if sep \<and> take 1 rest \<noteq> '':'' then None
           else parse_hms left sep (if sep then drop 1 rest else rest) (acc @ [v])))"

definition parse_hh_mm_ss_ff :: "string \<Rightarrow> (int \<times> int \<times> int \<times> int) option" where
  "parse_hh_mm_ss_ff s =
     Option.bind (parse_hms 3 False s []) (\<lambda>(comps, rest).
       let h = comps ! 0;
           m = (if length comps > 1 then comps ! 1 else 0);
           sec = (if length comps > 2 then comps ! 2 else 0)
       in if rest = [] then Some (h, m, sec, 0)
          else if hd rest \<noteq> CHR ''.'' \<and> hd rest \<noteq> CHR '','' then None
          else
            let frac = drop 1 rest; k = min 6 (length frac)
            in Option.bind (parse_digits (take k frac)) (\<lambda>v.
                 if list_all is_ascii_digit (drop k frac)
                 then Some (h, m, sec, v * 10 ^ (6 - k)) else None))"

fun find_index :: "char \<Rightarrow> string \<Rightarrow> nat option" where
  "find_index c [] = None"
| "find_index c (x # xs) = (if x = c then Some 0 else map_option Suc (find_index c xs))"

text \<open>The time part: the components and the offset from UTC in microseconds, if given.\<close>

definition parse_isoformat_time :: "string \<Rightarrow> ((int \<times> int \<times> int \<times> int) \<times> int option) option" where
  "parse_isoformat_time s =
     (if length s < 2 then None
      else
        let tz_pos = (case find_index CHR ''-'' s of Some i \<Rightarrow> Some i
                      | None \<Rightarrow> (case find_index CHR ''+'' s of Some i \<Rightarrow> Some i
                      | None \<Rightarrow> find_index CHR ''Z'' s))
        in case tz_pos of
             None \<Rightarrow> map_option (\<lambda>t. (t, None)) (parse_hh_mm_ss_ff s)
           | Some i \<Rightarrow>
               Option.bind (parse_hh_mm_ss_ff (take i s)) (\<lambda>t.
                 let tzstr = drop (i + 1) s
                 in if tzstr = [] \<and> s ! i = CHR ''Z'' then Some (t, Some 0)
                    else if length tzstr \<in> {0, 1, 3} then None
                    else Option.bind (parse_hh_mm_ss_ff tzstr) (\<lambda>(h, m, sec, us).
                      let td = ((h * 60 + m) * 60 + sec) * 1000000 + us
                      in if td < 86400 * 1000000
                         then Some (t, Some (if s ! i = CHR ''-'' then - td else td))
                         else None)))"

text \<open>
  \<open>datetime.fromisoformat\<close>: the local instant and the offset; \<open>None\<close> stands for the
  \<open>ValueError\<close>.
\<close>

definition datetime_fromisoformat :: "string \<Rightarrow> (int \<times> int option) option" where
  "datetime_fromisoformat s =
     (if length s < 7 then None
      else Option.bind (find_separator s) (\<lambda>sep.
        if length (take sep s) \<notin> {7, 8, 10} then None
        else Option.bind (parse_isoformat_date (take sep s)) (\<lambda>ymd.
          Option.bind
            (if drop (sep + 1) s = [] then Some ((0, 0, 0, 0), None)
             else parse_isoformat_time (drop (sep + 1) s))
            (\<lambda>((h, m, sec, us), tz).
              Option.bind (date_ordinal ymd) (\<lambda>ord.
                if 0 \<le> h \<and> h \<le> 23 \<and> 0 \<le> m \<and> m \<le> 59 \<and> 0 \<le> sec \<and> sec \<le> 59 \<and>
                   0 \<le> us \<and> us \<le> 999999
                then Some ((((ord - 1) * 24 + h) * 60 + m) * 60 * 1000000 + sec * 1000000 + us, tz)
                else None)))))"

definition us_per_day :: int where
  "us_per_day = 86400 * 1000000"

definition us_per_hour :: int where
  "us_per_hour = 3600 * 1000000"

text \<open>\<open>instant.date()\<close> and the ISO text of a date.\<close>

definition instant_date :: "int \<Rightarrow> int" where
  "instant_date t = t div us_per_day + 1"

definition pad_left :: "nat \<Rightarrow> string \<Rightarrow> string" where
  "pad_left n s = replicate (n - length s) (CHR ''0'') @ s"

definition date_isoformat :: "int \<Rightarrow> string" where
  "date_isoformat ord =
     (case ord2ymd ord of (y, m, d) \<Rightarrow>
        pad_left 4 (int_str y) @ ''-'' @ pad_left 2 (int_str m) @ ''-'' @ pad_left 2 (int_str d))"

text \<open>\<open>isoformat()\<close> of an instant in UTC, with \<open>Z\<close> for the offset.\<close>

definition utc_isoformat :: "int \<Rightarrow> string" where
  "utc_isoformat t =
     (let day = t mod us_per_day; us = day mod 1000000; sec = day div 1000000
      in date_isoformat (instant_date t) @ ''T'' @ pad_left 2 (int_str (sec div 3600)) @ '':'' @
         pad_left 2 (int_str (sec div 60 mod 60)) @ '':'' @ pad_left 2 (int_str (sec mod 60)) @
         (if us = 0 then [] else ''.'' @ pad_left 6 (int_str us)) @ ''Z'')"

text \<open>
  The \<open>_timestamp\<close> helper of the rule modules, for a rejection error \<open>e\<close>: an ISO instant with an
  offset, moved to UTC.  Leaving the supported years raises \<open>OverflowError\<close>, which the helper
  does not catch.
\<close>

definition utc_instant :: "'e \<Rightarrow> string \<Rightarrow> ('e, int) result" where
  "utc_instant e text =
     (case datetime_fromisoformat (replace_char (CHR ''Z'') ''+00:00'' text) of
        None \<Rightarrow> raise_error e
      | Some (local, None) \<Rightarrow> raise_error e
      | Some (local, Some offset) \<Rightarrow>
          (let t = local - offset
           in if 0 \<le> t \<and> t < max_ordinal * us_per_day then Inr t
              else Inl (PyError OverflowError)))"

end
