(* ===== verification/Rule_Inputs.thy ===== *)
theory Rule_Inputs
  imports Py_Time
begin

section \<open>Reading untrusted rule inputs\<close>

text \<open>
  The five registries of single-evidence rules (PC-01 to PC-18 without PC-07) share the shape of
  their input checks: each module has its own copies of \<open>_mapping\<close>, \<open>_string\<close>, \<open>_integer\<close>,
  \<open>_boolean\<close>, \<open>_timestamp\<close>, \<open>_rule_ref\<close> and \<open>_exact_parameters\<close>, which differ in the exception
  class only.  The functions here take that class as an argument \<open>E\<close>; every module
  instantiates them under its own names.  The record \<open>decision\<close> holds the fields the decision
  dataclasses have in common; each module extends it with its own.
\<close>

subsection \<open>Checked readers\<close>

definition as_mapping :: "(string \<Rightarrow> 'e) \<Rightarrow> pyval \<Rightarrow> string \<Rightarrow> ('e, dict) result" where
  "as_mapping E v msg = (case v of PDict d \<Rightarrow> Inr d | _ \<Rightarrow> raise_error (E msg))"

definition as_sequence :: "(string \<Rightarrow> 'e) \<Rightarrow> pyval \<Rightarrow> string \<Rightarrow> ('e, pyval list) result" where
  "as_sequence E v msg = (case v of PList xs \<Rightarrow> Inr xs | _ \<Rightarrow> raise_error (E msg))"

definition as_string :: "(string \<Rightarrow> 'e) \<Rightarrow> pyval \<Rightarrow> string \<Rightarrow> ('e, string) result" where
  "as_string E v msg =
     (case v of PStr s \<Rightarrow> if s = [] then raise_error (E msg) else Inr s | _ \<Rightarrow> raise_error (E msg))"

definition as_integer :: "(string \<Rightarrow> 'e) \<Rightarrow> pyval \<Rightarrow> string \<Rightarrow> ('e, int) result" where
  "as_integer E v msg =
     (case v of PInt i \<Rightarrow> if i < 0 then raise_error (E msg) else Inr i | _ \<Rightarrow> raise_error (E msg))"

definition as_boolean :: "(string \<Rightarrow> 'e) \<Rightarrow> pyval \<Rightarrow> string \<Rightarrow> ('e, bool) result" where
  "as_boolean E v msg = (case v of PBool b \<Rightarrow> Inr b | _ \<Rightarrow> raise_error (E msg))"

definition as_timestamp :: "(string \<Rightarrow> 'e) \<Rightarrow> pyval \<Rightarrow> string \<Rightarrow> ('e, int) result" where
  "as_timestamp E v msg = bindE (as_string E v msg) (utc_instant (E msg))"

definition as_date :: "(string \<Rightarrow> 'e) \<Rightarrow> pyval \<Rightarrow> string \<Rightarrow> ('e, int) result" where
  "as_date E v msg =
     bindE (as_string E v msg) (\<lambda>text.
       case date_fromisoformat text of None \<Rightarrow> raise_error (E msg) | Some d \<Rightarrow> Inr d)"

definition rule_ref ::
  "(string \<Rightarrow> 'e) \<Rightarrow> pyval \<Rightarrow> ('e, (string \<times> string) \<times> dict) result" where
  "rule_ref E v =
     bindE (as_mapping E v ''Rule reference must be an object.'') (\<lambda>rule.
       if set (dict_keys rule) \<noteq> {''rule_id'', ''rule_version'', ''parameters''}
       then raise_error (E ''Rule reference fields are invalid.'')
       else
         bindE (as_string E (py_get rule ''rule_id'') ''Rule ID is invalid.'') (\<lambda>i.
         bindE (as_string E (py_get rule ''rule_version'') ''Rule version is invalid.'') (\<lambda>ver.
         bindE (as_mapping E (py_get rule ''parameters'') ''Rule parameters are invalid.'') (\<lambda>p.
           Inr ((i, ver), p)))))"

definition exact_parameters :: "dict \<Rightarrow> dict \<Rightarrow> bool" where
  "exact_parameters actual expected \<longleftrightarrow>
     py_eq (PDict actual) (PDict expected) \<and>
     list_all (\<lambda>kv. case map_of actual (fst kv) of None \<Rightarrow> False | Some w \<Rightarrow> same_type w (snd kv))
       expected"

text \<open>An optional mapping argument (\<open>Mapping | None\<close>) is an \<open>option\<close>.\<close>

type_synonym policy = "dict option"

subsection \<open>What a reader accepts\<close>

lemma as_mapping_eq_Inr [res_simps]: "as_mapping E v msg = Inr d \<longleftrightarrow> v = PDict d"
  by (cases v) (auto simp: as_mapping_def)

lemma as_sequence_eq_Inr [res_simps]: "as_sequence E v msg = Inr xs \<longleftrightarrow> v = PList xs"
  by (cases v) (auto simp: as_sequence_def)

lemma as_string_eq_Inr [res_simps]: "as_string E v msg = Inr s \<longleftrightarrow> v = PStr s \<and> s \<noteq> []"
  by (cases v) (auto simp: as_string_def)

lemma as_integer_eq_Inr [res_simps]: "as_integer E v msg = Inr i \<longleftrightarrow> v = PInt i \<and> 0 \<le> i"
  by (cases v) (auto simp: as_integer_def)

lemma as_boolean_eq_Inr [res_simps]: "as_boolean E v msg = Inr b \<longleftrightarrow> v = PBool b"
  by (cases v) (auto simp: as_boolean_def)

text \<open>The UTC instant and the date a value denotes, whatever error its reader raises otherwise.\<close>

definition instant_of :: "pyval \<Rightarrow> int option" where
  "instant_of v =
     (case v of
        PStr s \<Rightarrow>
          (if s = [] then None else
             case datetime_fromisoformat (replace_char (CHR ''Z'') ''+00:00'' s) of
               Some (local, Some offset) \<Rightarrow>
                 if 0 \<le> local - offset \<and> local - offset < max_ordinal * us_per_day
                 then Some (local - offset) else None
             | _ \<Rightarrow> None)
      | _ \<Rightarrow> None)"

definition date_of :: "pyval \<Rightarrow> int option" where
  "date_of v = (case v of PStr s \<Rightarrow> if s = [] then None else date_fromisoformat s | _ \<Rightarrow> None)"

lemma as_timestamp_eq_Inr [res_simps]: "as_timestamp E v msg = Inr t \<longleftrightarrow> instant_of v = Some t"
  by (cases v)
    (auto simp: as_timestamp_def as_string_def instant_of_def utc_instant_def Let_def
      split: option.splits prod.splits if_splits)

lemma as_date_eq_Inr [res_simps]: "as_date E v msg = Inr d \<longleftrightarrow> date_of v = Some d"
  by (cases v) (auto simp: as_date_def as_string_def date_of_def split: option.splits)

text \<open>A value that is a reference to rule \<open>i\<close> (ID and version) with parameters \<open>p\<close>.\<close>

definition names_rule :: "pyval \<Rightarrow> string \<times> string \<Rightarrow> dict \<Rightarrow> bool" where
  "names_rule v i p \<longleftrightarrow>
     (case v of
        PDict rule \<Rightarrow>
          set (dict_keys rule) = {''rule_id'', ''rule_version'', ''parameters''} \<and>
          py_get rule ''rule_id'' = PStr (fst i) \<and> fst i \<noteq> [] \<and>
          py_get rule ''rule_version'' = PStr (snd i) \<and> snd i \<noteq> [] \<and>
          py_get rule ''parameters'' = PDict p
      | _ \<Rightarrow> False)"

lemma rule_ref_eq_Inr [res_simps]: "rule_ref E v = Inr x \<longleftrightarrow> names_rule v (fst x) (snd x)"
proof (cases "\<exists>rule. v = PDict rule")
  case True
  then obtain rule where v: "v = PDict rule" ..
  obtain i ver p where x: "x = ((i, ver), p)"
    by (metis prod.exhaust)
  show ?thesis
    by (simp add: v x rule_ref_def names_rule_def res_simps conj_ac cong: conj_cong)
next
  case False
  then show ?thesis
    by (cases v) (simp_all add: rule_ref_def names_rule_def as_mapping_def)
qed

text \<open>On accepted values the readers compute.\<close>

lemma reader_simps [simp]:
  "as_mapping E (PDict d) msg = Inr d"
  "as_sequence E (PList xs) msg = Inr xs"
  "as_string E (PStr (c # s)) msg = Inr (c # s)"
  "0 \<le> i \<Longrightarrow> as_integer E (PInt i) msg = Inr i"
  "as_boolean E (PBool b) msg = Inr b"
  by (simp_all add: as_mapping_def as_sequence_def as_string_def as_integer_def as_boolean_def)

lemma exact_parameters_get:
  assumes "exact_parameters actual expected" and "map_of expected k = Some (PStr s)"
  shows "py_get actual k = PStr s"
proof -
  have "k \<in> set (dict_keys actual)"
    using assms by (auto simp: exact_parameters_def dict_keys_map_of)
  then obtain w where w: "map_of actual k = Some w"
    by (auto simp: dict_keys_map_of)
  then have kw: "(k, w) \<in> set actual"
    by (rule map_of_SomeD)
  have "\<forall>kv\<in>set actual. \<exists>v. map_of expected (fst kv) = Some v \<and> py_eq (snd kv) v"
    using assms(1) by (auto simp: exact_parameters_def list_all_iff split: option.splits)
  with kw assms(2) have "w = PStr s"
    by fastforce
  with w show ?thesis by (simp add: py_get_def)
qed

subsection \<open>Rule definitions and decisions\<close>

text \<open>An entry of a module's \<open>_RULES\<close>; two modules also fix the subject scope per rule.\<close>

record rule_def =
  rd_probe_id :: string
  rd_applicability :: "string \<times> string"
  rd_evaluation :: "string \<times> string"
  rd_applicability_parameters :: dict
  rd_evaluation_parameters :: dict

record scoped_rule_def = rule_def +
  rd_subject_scope :: string

record decision =
  dec_control_id :: string
  dec_status :: string
  dec_result_code :: string
  dec_actual :: string
  dec_expected :: string
  dec_rationale_code :: string
  dec_error_codes :: "string list"

abbreviation str_list :: "string list \<Rightarrow> pyval" where
  "str_list xs \<equiv> PList (map PStr xs)"

subsection \<open>The common part of the \<open>evaluate\<close> methods\<close>

text \<open>
  The five \<open>evaluate\<close> methods open with the same checks: the allowlist entry of the control, the
  two rule references against it, the control, probe and subject scope of the evidence, in this
  order.  They differ in four messages and in where the required scope comes from, which are the
  arguments here.  The result is the evaluation parameters, which one module reads again.
\<close>

definition admit_call ::
  "(string \<Rightarrow> 'e) \<Rightarrow> string \<Rightarrow> string \<Rightarrow> string \<Rightarrow> string \<Rightarrow> ('r rule_def_scheme \<Rightarrow> string) \<Rightarrow>
     (string \<times> 'r rule_def_scheme) list \<Rightarrow> string \<Rightarrow> pyval \<Rightarrow> pyval \<Rightarrow> dict \<Rightarrow> ('e, dict) result" where
  "admit_call E unlisted applicability_differs evaluation_differs scope_differs scope rules
      control_id applicability_rule evaluation_rule evidence =
     (case map_of rules control_id of
        None \<Rightarrow> raise_error (E unlisted)
      | Some r \<Rightarrow>
          bindE (rule_ref E applicability_rule) (\<lambda>ar.
          bindE (rule_ref E evaluation_rule) (\<lambda>er.
            if fst ar \<noteq> rd_applicability r \<or> fst er \<noteq> rd_evaluation r
            then raise_error (E ''Rule ID or version is not allowlisted.'')
            else if \<not> exact_parameters (snd ar) (rd_applicability_parameters r)
            then raise_error (E applicability_differs)
            else if \<not> exact_parameters (snd er) (rd_evaluation_parameters r)
            then raise_error (E evaluation_differs)
            else if py_get evidence ''control_id'' \<noteq> PStr control_id
            then raise_error (E ''Evidence Control scope differs.'')
            else if py_get evidence ''probe_id'' \<noteq> PStr (rd_probe_id r) \<or>
                    py_get evidence ''probe_version'' \<noteq> PStr ''0.1.0''
            then raise_error (E ''Evidence Probe is not allowlisted.'')
            else
              bindE (as_mapping E (py_get evidence ''subject'') ''Evidence subject is invalid.'')
                (\<lambda>subject.
                  if py_get subject ''scope'' \<noteq> PStr (scope r)
                  then raise_error (E scope_differs)
                  else Inr (snd er)))))"

text \<open>
  The branch on the collection status that follows: a failed collection needs an error code and
  becomes the module's collection-error decision; collected evidence must carry a value.
\<close>

definition collection_gate ::
  "(string \<Rightarrow> 'e) \<Rightarrow> string \<Rightarrow> dict \<Rightarrow> (string \<Rightarrow> 'd) \<Rightarrow> (dict \<Rightarrow> ('e, 'd) result) \<Rightarrow>
     ('e, 'd) result" where
  "collection_gate E value_missing evidence on_failure on_value =
     (if py_get evidence ''collection_status'' \<noteq> PStr ''COLLECTED'' then
        bindE (as_string E (py_get evidence ''error_code'') ''Collection error code is missing.'')
          (\<lambda>error_code.
            if error_code = ''NONE''
            then raise_error (E ''Failed collection cannot use NONE error code.'')
            else Inr (on_failure error_code))
      else if py_get evidence ''error_code'' \<noteq> PStr ''NONE''
      then raise_error (E ''Collected evidence must use NONE error code.'')
      else
        bindE (as_mapping E (py_get evidence ''normalized_value'') value_missing) on_value)"

subsection \<open>The contract of a registry\<close>

text \<open>
  The evidence and the rule references of a call are admitted by a rule definition: the exact
  identities and parameters, the control and the probe of the evidence.
\<close>

definition admits :: "'r rule_def_scheme \<Rightarrow> string \<Rightarrow> pyval \<Rightarrow> pyval \<Rightarrow> dict \<Rightarrow> bool" where
  "admits r c ar er ev \<longleftrightarrow>
     (\<exists>pa. names_rule ar (rd_applicability r) pa \<and>
           exact_parameters pa (rd_applicability_parameters r)) \<and>
     (\<exists>pe. names_rule er (rd_evaluation r) pe \<and>
           exact_parameters pe (rd_evaluation_parameters r)) \<and>
     py_get ev ''control_id'' = PStr c \<and>
     py_get ev ''probe_id'' = PStr (rd_probe_id r) \<and>
     py_get ev ''probe_version'' = PStr ''0.1.0''"

text \<open>
  What the pipeline relies on when it hands a rule, an evidence record and the remaining inputs
  (\<open>'x\<close>: policy, snapshot, catalog) to a registry.  \<open>allowlist\<close>: only an exact allowlisted rule
  produces a decision, and only for the evidence of that control and probe.  \<open>uncollected\<close>:
  failed collection is an ERROR decision that carries the collector's code.  \<open>collected\<close>: every
  other decision rests on collected evidence with a normalized value.
\<close>

lemma admit_call_admits:
  assumes "admit_call E m1 m2 m3 m4 scope rules c ar er ev = Inr pe"
  shows "\<exists>r. map_of rules c = Some r \<and> admits r c ar er ev \<and>
           names_rule er (rd_evaluation r) pe \<and>
           exact_parameters pe (rd_evaluation_parameters r) \<and>
           (\<exists>subject. py_get ev ''subject'' = PDict subject \<and>
              py_get subject ''scope'' = PStr (scope r))"
proof -
  from assms obtain r where r: "map_of rules c = Some r"
    by (auto simp: admit_call_def split: option.splits)
  with assms obtain a e where
    refs: "rule_ref E ar = Inr a" "rule_ref E er = Inr e"
      "fst a = rd_applicability r" "fst e = rd_evaluation r" and
    "pe = snd e"
    "exact_parameters (snd a) (rd_applicability_parameters r)"
    "exact_parameters (snd e) (rd_evaluation_parameters r)"
    "py_get ev ''control_id'' = PStr c" "py_get ev ''probe_id'' = PStr (rd_probe_id r)"
    "py_get ev ''probe_version'' = PStr ''0.1.0''"
    "\<exists>subject. py_get ev ''subject'' = PDict subject \<and> py_get subject ''scope'' = PStr (scope r)"
    by (auto simp: admit_call_def bindE_eq_Inr as_mapping_eq_Inr simp del: split_paired_Ex
        split: if_splits)
  moreover from refs have "names_rule ar (rd_applicability r) (snd a)"
      "names_rule er (rd_evaluation r) (snd e)"
    by (simp_all add: rule_ref_eq_Inr)
  ultimately show ?thesis
    using r unfolding admits_def by blast
qed

lemma collection_gate_eq_Inr:
  "collection_gate E msg ev on_failure on_value = Inr d \<longleftrightarrow>
     (if py_get ev ''collection_status'' = PStr ''COLLECTED''
      then py_get ev ''error_code'' = PStr ''NONE'' \<and>
           (\<exists>v. py_get ev ''normalized_value'' = PDict v \<and> on_value v = Inr d)
      else (\<exists>code. py_get ev ''error_code'' = PStr code \<and> code \<noteq> [] \<and> code \<noteq> ''NONE'' \<and>
           d = on_failure code))"
  by (auto simp: collection_gate_def res_simps)

text \<open>A decision whose codes are coherent: what every module's \<open>_decision\<close> calls produce.\<close>

definition coherent :: "string \<Rightarrow> 'd decision_scheme \<Rightarrow> bool" where
  "coherent c d \<longleftrightarrow>
     dec_control_id d = c \<and>
     dec_status d \<in> {''PASS'', ''FAIL'', ''ERROR'', ''REVIEW'', ''N/A''} \<and>
     dec_result_code d \<noteq> [] \<and> dec_rationale_code d = dec_result_code d \<and>
     (\<forall>code\<in>set (dec_error_codes d). code \<noteq> []) \<and>
     (dec_error_codes d \<noteq> [] \<longleftrightarrow> dec_status d = ''ERROR'')"

text \<open>PASS and FAIL as the two answers of a criterion on the inputs it can be applied to.\<close>

definition judged_by :: "bool \<Rightarrow> bool \<Rightarrow> 'd decision_scheme \<Rightarrow> bool" where
  "judged_by decidable compliant d \<longleftrightarrow>
     (dec_status d = ''PASS'' \<longleftrightarrow> decidable \<and> compliant) \<and>
     (dec_status d = ''FAIL'' \<longleftrightarrow> decidable \<and> \<not> compliant)"

locale decision_registry =
  fixes evaluate ::
      "string \<Rightarrow> pyval \<Rightarrow> pyval \<Rightarrow> dict \<Rightarrow> 'x \<Rightarrow> ('e, 'd decision_scheme) result"
    and rules :: "(string \<times> 'r rule_def_scheme) list"
  assumes allowlist:
      "evaluate c ar er ev x = Inr d \<Longrightarrow>
         dec_control_id d = c \<and> (\<exists>r. map_of rules c = Some r \<and> admits r c ar er ev)"
    and uncollected:
      "evaluate c ar er ev x = Inr d \<Longrightarrow> py_get ev ''collection_status'' \<noteq> PStr ''COLLECTED'' \<Longrightarrow>
         dec_status d = ''ERROR'' \<and>
         (\<exists>code. dec_error_codes d = [code] \<and> py_get ev ''error_code'' = PStr code \<and>
            code \<noteq> ''NONE'')"
    and collected:
      "evaluate c ar er ev x = Inr d \<Longrightarrow> py_get ev ''collection_status'' = PStr ''COLLECTED'' \<Longrightarrow>
         py_get ev ''error_code'' = PStr ''NONE'' \<and> (\<exists>v. py_get ev ''normalized_value'' = PDict v)"
    and coherent_codes: "evaluate c ar er ev x = Inr d \<Longrightarrow> coherent c d"
begin

text \<open>Fail closed: anything but ERROR needs collected evidence.\<close>

lemma conclusive_needs_collection:
  assumes "evaluate c ar er ev x = Inr d" and "dec_status d \<noteq> ''ERROR''"
  shows "py_get ev ''collection_status'' = PStr ''COLLECTED'' \<and>
         py_get ev ''error_code'' = PStr ''NONE'' \<and>
         (\<exists>v. py_get ev ''normalized_value'' = PDict v)"
  using assms uncollected collected by blast

lemma conclusive_has_no_error_codes:
  assumes "evaluate c ar er ev x = Inr d" and "dec_status d \<noteq> ''ERROR''"
  shows "dec_error_codes d = []"
  using coherent_codes [OF assms(1)] assms(2) by (simp add: coherent_def)

lemma unknown_control_rejected:
  assumes "map_of rules c = None"
  shows "\<exists>e. evaluate c ar er ev x = Inl e"
proof (cases "evaluate c ar er ev x")
  case (Inr d)
  from allowlist [OF this] assms show ?thesis by simp
qed simp

text \<open>Two decisions for one evidence record carry the same control.\<close>

lemma same_evidence_same_control:
  assumes "evaluate c ar er ev x = Inr d" and "evaluate c' ar' er' ev x' = Inr d'"
  shows "dec_control_id d = dec_control_id d'"
proof -
  from allowlist [OF assms(1)] have "dec_control_id d = c" "py_get ev ''control_id'' = PStr c"
    by (auto simp: admits_def)
  moreover from allowlist [OF assms(2)] have "dec_control_id d' = c'"
      "py_get ev ''control_id'' = PStr c'"
    by (auto simp: admits_def)
  ultimately show ?thesis by simp
qed

end

text \<open>
  A module whose \<open>evaluate\<close> is the common part around a decision function meets the contract as
  soon as its two decision constructors are coherent.
\<close>

lemma gated_registry:
  fixes E :: "string \<Rightarrow> 'e"
    and evaluate :: "string \<Rightarrow> pyval \<Rightarrow> pyval \<Rightarrow> dict \<Rightarrow> 'x \<Rightarrow> ('e, 'd decision_scheme) result"
    and rules :: "(string \<times> 'r rule_def_scheme) list"
  assumes gates: "\<And>c ar er ev x. evaluate c ar er ev x =
        bindE (admit_call E m1 m2 m3 m4 scope rules c ar er ev) (\<lambda>pe.
          collection_gate E m5 ev (on_failure c) (on_value c pe ev x))"
    and failure: "\<And>c code r. map_of rules c = Some r \<Longrightarrow> code \<noteq> [] \<Longrightarrow>
        coherent c (on_failure c code) \<and> dec_error_codes (on_failure c code) = [code]"
    and success: "\<And>c pe ev x v r. map_of rules c = Some r \<Longrightarrow>
        returns_only (coherent c) (on_value c pe ev x v)"
  shows "decision_registry evaluate rules"
proof
  fix c ar er ev x and d :: "'d decision_scheme"
  assume "evaluate c ar er ev x = Inr d"
  then obtain pe where
    "admit_call E m1 m2 m3 m4 scope rules c ar er ev = Inr pe" and
    gate: "collection_gate E m5 ev (on_failure c) (on_value c pe ev x) = Inr d"
    by (auto simp: gates bindE_eq_Inr)
  from admit_call_admits [OF this(1)] obtain r where
    r: "map_of rules c = Some r" "admits r c ar er ev" by blast
  show coh: "coherent c d"
    using gate failure [OF r(1)] returns_onlyD [OF success [OF r(1)]]
    by (auto simp: collection_gate_eq_Inr split: if_splits)
  from coh r show "dec_control_id d = c \<and> (\<exists>r. map_of rules c = Some r \<and> admits r c ar er ev)"
    by (auto simp: coherent_def)
  show "dec_status d = ''ERROR'' \<and> (\<exists>code. dec_error_codes d = [code] \<and>
      py_get ev ''error_code'' = PStr code \<and> code \<noteq> ''NONE'')"
    if "py_get ev ''collection_status'' \<noteq> PStr ''COLLECTED''"
  proof -
    from that gate obtain code where code: "py_get ev ''error_code'' = PStr code" "code \<noteq> []"
      "code \<noteq> ''NONE''" "d = on_failure c code"
      by (auto simp: collection_gate_eq_Inr)
    with failure [OF r(1)] have errs: "dec_error_codes d = [code]" by simp
    moreover from coh errs have "dec_status d = ''ERROR''"
      unfolding coherent_def by simp
    ultimately show ?thesis using code by simp
  qed
  show "py_get ev ''error_code'' = PStr ''NONE'' \<and> (\<exists>v. py_get ev ''normalized_value'' = PDict v)"
    if "py_get ev ''collection_status'' = PStr ''COLLECTED''"
    using that gate by (auto simp: collection_gate_eq_Inr)
qed

subsection \<open>Building blocks for concrete calls\<close>

definition example_ref :: "string \<times> string \<Rightarrow> dict \<Rightarrow> pyval" where
  "example_ref i p =
     PDict [(''rule_id'', PStr (fst i)), (''rule_version'', PStr (snd i)), (''parameters'', PDict p)]"

definition example_evidence ::
  "string \<Rightarrow> 'r rule_def_scheme \<Rightarrow> string \<Rightarrow> dict \<Rightarrow> dict \<Rightarrow> dict" where
  "example_evidence c r scope extra v =
     [(''control_id'', PStr c), (''probe_id'', PStr (rd_probe_id r)),
      (''probe_version'', PStr ''0.1.0''), (''subject'', PDict [(''scope'', PStr scope)]),
      (''collection_status'', PStr ''COLLECTED''), (''error_code'', PStr ''NONE''),
      (''normalized_value'', PDict v)] @ extra"

definition example_call ::
  "(string \<Rightarrow> pyval \<Rightarrow> pyval \<Rightarrow> dict \<Rightarrow> 'x \<Rightarrow> ('e, 'd) result) \<Rightarrow> (string \<times> 'r rule_def_scheme) list \<Rightarrow>
     string \<Rightarrow> string \<Rightarrow> dict \<Rightarrow> dict \<Rightarrow> 'x \<Rightarrow> ('e, 'd) result" where
  "example_call evaluate rules c scope extra v x =
     (let r = the (map_of rules c)
      in evaluate c (example_ref (rd_applicability r) (rd_applicability_parameters r))
           (example_ref (rd_evaluation r) (rd_evaluation_parameters r))
           (example_evidence c r scope extra v) x)"

definition status_of :: "('e, 'd decision_scheme) result \<Rightarrow> string option" where
  "status_of m = (case m of Inl _ \<Rightarrow> None | Inr d \<Rightarrow> Some (dec_status d))"

lemma status_of_eq_Some: "status_of m = Some s \<longleftrightarrow> (\<exists>d. m = Inr d \<and> dec_status d = s)"
  by (auto simp: status_of_def split: sum.splits)

lemma example_evidence_get [simp]:
  "py_get (example_evidence c r scope extra v) ''collection_status'' = PStr ''COLLECTED''"
  "py_get (example_evidence c r scope extra v) ''normalized_value'' = PDict v"
  by (simp_all add: example_evidence_def)

end
