(* ===== verification/Applicability.thy ===== *)
theory Applicability
  imports Rule_Inputs
begin

section \<open>Applicability of PC-07 (\<^verbatim>\<open>analysis/applicability\<close>)\<close>

text \<open>
  The first stage of the PC-07 pipeline: from the normalized storage evidence it selects the
  volumes to evaluate and the volumes an approved rule excludes.  The central promise is that
  no subject disappears: in an APPLICABLE decision every subject of the evidence is either
  evaluated or excluded for a reason its own evidence proves; anything uncertain makes the
  decision UNDETERMINED.
\<close>

subsection \<open>Contracts\<close>

datatype applicability_status = APPLICABLE | NOT_APPLICABLE | UNDETERMINED

record excluded_subject =
  ex_subject_id :: string
  ex_reason_code :: string

record evidence_record =
  er_evidence_id :: string
  er_job_id :: string
  er_asset_id :: string
  er_package_id :: string
  er_control_id :: string
  er_subject_key :: string
  er_probe_id :: string
  er_probe_version :: string
  er_collection_status :: string
  er_error_code :: string
  er_normalized_value :: "dict option"

record applicability_decision =
  ad_status :: applicability_status
  ad_reason_code :: string
  ad_candidate_volume_ids :: "string list"
  ad_excluded_volumes :: "excluded_subject list"
  ad_error_codes :: "string list"

subsection \<open>Approved parameters\<close>

definition included_classes :: "string list" where
  "included_classes =
    [''WINDOWS_OS_VOLUME'',
     ''LOCAL_FIXED_DATA_VOLUME'',
     ''MOUNTED_FOLDER_VOLUME'',
     ''ATTACHED_VHD_VOLUME'',
     ''STORAGE_SPACES_LOGICAL_VOLUME'',
     ''BITLOCKER_VOLUME'']"

definition excluded_classes :: "string list" where
  "excluded_classes =
    [''EFI_SYSTEM_PARTITION'',
     ''MICROSOFT_RESERVED_PARTITION'',
     ''WINDOWS_RECOVERY_PARTITION'',
     ''APPROVED_OEM_UTILITY_PARTITION'',
     ''OPTICAL_VOLUME'',
     ''REMOVABLE_VOLUME'',
     ''NETWORK_VOLUME'',
     ''DETACHED_DISK_IMAGE'',
     ''VOLATILE_RAM_DISK'']"

definition pc07_applicability_approved_parameters :: dict where
  "pc07_applicability_approved_parameters =
    [(''include_volume_classes'', str_list included_classes),
     (''exclude_volume_classes'', str_list excluded_classes),
     (''require_trusted_exclusion_identity'', PBool True),
     (''drive_letter_absence_is_exclusion'', PBool False),
     (''usb_bus_alone_is_exclusion'', PBool False),
     (''empty_evaluated_set_status'', PStr ''ERROR''),
     (''classification_unknown_status'', PStr ''ERROR'')]"

definition partition_exclusions :: "(string \<times> string \<times> string) list" where
  "partition_exclusions =
    [(''EFI_SYSTEM_PARTITION'', ''EFI_SYSTEM'', ''EXCLUDED_EFI_SYSTEM_PARTITION''),
     (''MICROSOFT_RESERVED_PARTITION'', ''MICROSOFT_RESERVED'', ''EXCLUDED_MICROSOFT_RESERVED''),
     (''WINDOWS_RECOVERY_PARTITION'', ''WINDOWS_RECOVERY'', ''EXCLUDED_WINDOWS_RECOVERY''),
     (''APPROVED_OEM_UTILITY_PARTITION'', ''OEM_UTILITY'', ''EXCLUDED_OEM_UTILITY'')]"

definition other_exclusions :: "(string \<times> string) list" where
  "other_exclusions =
    [(''OPTICAL_VOLUME'', ''EXCLUDED_OPTICAL''),
     (''REMOVABLE_VOLUME'', ''EXCLUDED_REMOVABLE''),
     (''NETWORK_VOLUME'', ''EXCLUDED_NETWORK''),
     (''DETACHED_DISK_IMAGE'', ''EXCLUDED_DETACHED_DISK_IMAGE''),
     (''VOLATILE_RAM_DISK'', ''EXCLUDED_VOLATILE_RAM_DISK'')]"

text \<open>\<open>_string_sequence\<close>: a sequence of strings, or \<open>None\<close>.\<close>

fun string_elements :: "pyval list \<Rightarrow> string list option" where
  "string_elements [] = Some []"
| "string_elements (PStr s # vs) = map_option ((#) s) (string_elements vs)"
| "string_elements (_ # vs) = None"

definition string_sequence :: "pyval \<Rightarrow> string list option" where
  "string_sequence v = (case v of PList vs \<Rightarrow> string_elements vs | _ \<Rightarrow> None)"

definition pc07_applicability_parameters_are_approved :: "dict \<Rightarrow> bool" where
  "pc07_applicability_parameters_are_approved parameters \<longleftrightarrow>
     set (dict_keys parameters) = set (dict_keys pc07_applicability_approved_parameters) \<and>
     list_all (\<lambda>kv.
         let actual = py_get parameters (fst kv); approved = snd kv
         in case approved of
              PList vs \<Rightarrow> string_sequence actual = string_elements vs
            | _ \<Rightarrow> py_eq actual approved \<and> same_type actual approved)
       pc07_applicability_approved_parameters"

subsection \<open>Grouping evidence by subject and probe\<close>

type_synonym subject_records = "(string \<times> evidence_record) list"

definition group_record ::
  "(string \<times> subject_records) list \<Rightarrow> evidence_record \<Rightarrow> (string \<times> subject_records) list" where
  "group_record g r =
     AList.update (er_subject_key r)
       (AList.update (er_probe_id r) r
         (case map_of g (er_subject_key r) of None \<Rightarrow> [] | Some m \<Rightarrow> m)) g"

definition records_by_subject ::
  "evidence_record list \<Rightarrow> (string \<times> subject_records) list" where
  "records_by_subject rs = foldl group_record [] rs"

definition group_of :: "(string \<times> subject_records) list \<Rightarrow> string \<Rightarrow> subject_records" where
  "group_of g s = (case map_of g s of None \<Rightarrow> [] | Some m \<Rightarrow> m)"

definition record_value :: "evidence_record option \<Rightarrow> dict option" where
  "record_value r =
     (case r of
        None \<Rightarrow> None
      | Some r \<Rightarrow> if er_collection_status r \<noteq> ''COLLECTED'' then None else er_normalized_value r)"

text \<open>\<open>value is not None and value.get(key) == v\<close>\<close>

definition has_field :: "dict option \<Rightarrow> string \<Rightarrow> pyval \<Rightarrow> bool" where
  "has_field d k v = (case d of None \<Rightarrow> False | Some d \<Rightarrow> py_get d k = v)"

subsection \<open>Exclusion and classification\<close>

definition trusted_exclusion_reason :: "string \<Rightarrow> subject_records \<Rightarrow> string option" where
  "trusted_exclusion_reason volume_class recs =
     (let disk = record_value (map_of recs ''win.storage.disks'');
          partition = record_value (map_of recs ''win.storage.partitions'');
          volume = record_value (map_of recs ''win.storage.volumes'')
      in case map_of partition_exclusions volume_class of
           Some (expected_role, reason) \<Rightarrow>
             if has_field partition ''partition_role'' (PStr expected_role) \<and>
                has_field partition ''trusted_role_identity'' (PBool True)
             then Some reason else None
         | None \<Rightarrow>
             if volume_class = ''DETACHED_DISK_IMAGE'' then
               (if has_field disk ''disk_image_state'' (PStr ''DETACHED'') \<and>
                   has_field disk ''is_online'' (PBool False)
                then map_of other_exclusions volume_class else None)
             else if volume_class = ''OPTICAL_VOLUME'' then
               (if has_field volume ''drive_type'' (PStr ''CDROM'')
                then map_of other_exclusions volume_class else None)
             else if volume_class = ''REMOVABLE_VOLUME'' then
               (if has_field volume ''drive_type'' (PStr ''REMOVABLE'') \<or>
                   has_field disk ''is_removable'' (PBool True)
                then map_of other_exclusions volume_class else None)
             else if volume_class = ''NETWORK_VOLUME'' then
               (if has_field volume ''drive_type'' (PStr ''NETWORK'')
                then map_of other_exclusions volume_class else None)
             else if volume_class = ''VOLATILE_RAM_DISK'' then
               (if has_field volume ''drive_type'' (PStr ''RAMDISK'')
                then map_of other_exclusions volume_class else None)
             else None)"

text \<open>
  The loop over the subjects in ascending order; its state is the candidate list, the exclusion
  list and the flag \<open>classification_incomplete\<close>.
\<close>

type_synonym classification = "string list \<times> excluded_subject list \<times> bool"

definition classify_subject ::
  "(string \<times> subject_records) list \<Rightarrow> classification \<Rightarrow> string \<Rightarrow> classification" where
  "classify_subject grouped st subject_id =
     (case st of (candidates, excluded, incomplete) \<Rightarrow>
        let recs = group_of grouped subject_id;
            disk = record_value (map_of recs ''win.storage.disks'')
        in (case disk of
             None \<Rightarrow> (candidates, excluded, True)
           | Some d \<Rightarrow>
               (case py_get d ''volume_class'' of
                  PStr volume_class \<Rightarrow>
                    if volume_class \<in> set included_classes then
                      (if py_get d ''is_online'' \<noteq> PBool True
                       then (candidates, excluded, True)
                       else (candidates @ [subject_id], excluded, incomplete))
                    else if volume_class \<in> set excluded_classes then
                      (case trusted_exclusion_reason volume_class recs of
                         None \<Rightarrow> (candidates, excluded, True)
                       | Some reason \<Rightarrow>
                           (candidates,
                            excluded @ [\<lparr>ex_subject_id = subject_id, ex_reason_code = reason\<rparr>],
                            incomplete))
                    else (candidates, excluded, True)
                | _ \<Rightarrow> (candidates, excluded, True))))"

definition classify_subjects :: "(string \<times> subject_records) list \<Rightarrow> classification" where
  "classify_subjects grouped =
     foldl (classify_subject grouped) ([], [], False) (sort (dict_keys grouped))"

definition required_probes :: "string list" where
  "required_probes = [''win.storage.disks'', ''win.storage.partitions'', ''win.storage.volumes'']"

definition failed_code :: "evidence_record \<Rightarrow> bool" where
  "failed_code r \<longleftrightarrow> er_collection_status r \<noteq> ''COLLECTED'' \<and> er_error_code r \<noteq> ''NONE''"

definition evaluate_pc07_applicability :: "evidence_record list \<Rightarrow> applicability_decision" where
  "evaluate_pc07_applicability records =
     (let grouped = records_by_subject records in
      case classify_subjects grouped of (candidates, excluded, incomplete) \<Rightarrow>
      if incomplete then
        (let errors = sorted_distinct (map er_error_code (filter failed_code records))
         in \<lparr>ad_status = UNDETERMINED, ad_reason_code = ''VOLUME_CLASSIFICATION_INCOMPLETE'',
             ad_candidate_volume_ids = candidates, ad_excluded_volumes = excluded,
             ad_error_codes = (if errors = [] then [''EVIDENCE_INCOMPLETE''] else errors)\<rparr>)
      else
        (let errors0 = map er_error_code
               (filter (\<lambda>r. er_subject_key r \<in> set candidates \<and> failed_code r) records);
             errors1 = (if \<exists>s\<in>set candidates.
                             set (dict_keys (group_of grouped s)) \<noteq> set required_probes
                        then errors0 @ [''EVIDENCE_INCOMPLETE''] else errors0);
             candidate_errors = sorted_distinct errors1
         in if candidate_errors \<noteq> [] then
              \<lparr>ad_status = UNDETERMINED, ad_reason_code = ''VOLUME_EVIDENCE_INCOMPLETE'',
               ad_candidate_volume_ids = candidates, ad_excluded_volumes = excluded,
               ad_error_codes = candidate_errors\<rparr>
            else if candidates = [] then
              \<lparr>ad_status = UNDETERMINED, ad_reason_code = ''NO_EVALUATED_VOLUME'',
               ad_candidate_volume_ids = [], ad_excluded_volumes = excluded,
               ad_error_codes = [''EVIDENCE_INCOMPLETE'']\<rparr>
            else
              \<lparr>ad_status = APPLICABLE, ad_reason_code = ''WINDOWS_FIXED_VOLUME_SET'',
               ad_candidate_volume_ids = candidates, ad_excluded_volumes = excluded,
               ad_error_codes = []\<rparr>))"

subsection \<open>Facts about the grouping\<close>

lemma map_of_group:
  "map_of (group_of (foldl group_record g rs) s) =
     map_of (group_of g s) ++
     map_of (rev (map (\<lambda>r. (er_probe_id r, r)) (filter (\<lambda>r. er_subject_key r = s) rs)))"
proof (induction rs arbitrary: g)
  case Nil
  then show ?case by simp
next
  case (Cons r rs)
  have "map_of (group_of (group_record g r) s) =
      (if er_subject_key r = s then (map_of (group_of g s))(er_probe_id r \<mapsto> r)
       else map_of (group_of g s))"
    by (auto simp: group_record_def group_of_def update_conv' split: option.splits)
  with Cons show ?case by auto
qed

lemma dict_keys_group_record:
  "set (dict_keys (group_record g r)) = insert (er_subject_key r) (set (dict_keys g))"
  "distinct (dict_keys g) \<Longrightarrow> distinct (dict_keys (group_record g r))"
  by (simp_all add: group_record_def dict_keys_def dom_update distinct_update)

lemma dict_keys_records_by_subject [simp]:
  "set (dict_keys (records_by_subject rs)) = er_subject_key ` set rs"
proof -
  have "set (dict_keys (foldl group_record g rs)) = set (dict_keys g) \<union> er_subject_key ` set rs" for g
    by (induction rs arbitrary: g) (auto simp: dict_keys_group_record)
  then show ?thesis by (simp add: records_by_subject_def)
qed

lemma distinct_records_by_subject [simp]: "distinct (dict_keys (records_by_subject rs))"
proof -
  have "distinct (dict_keys g) \<Longrightarrow> distinct (dict_keys (foldl group_record g rs))" for g
    by (induction rs arbitrary: g) (auto simp: dict_keys_group_record)
  then show ?thesis by (simp add: records_by_subject_def)
qed

lemma sort_subjects:
  "sort (dict_keys (records_by_subject rs)) = sorted_distinct (map er_subject_key rs)"
  by (rule sorted_distinct_set_unique) simp_all

text \<open>The records of one subject, as the map from probes to records.\<close>

abbreviation subject_map :: "evidence_record list \<Rightarrow> string \<Rightarrow> string \<rightharpoonup> evidence_record" where
  "subject_map rs s \<equiv> map_of (group_of (records_by_subject rs) s)"

lemma subject_map_eq:
  "subject_map rs s =
     map_of (rev (map (\<lambda>r. (er_probe_id r, r)) (filter (\<lambda>r. er_subject_key r = s) rs)))"
  by (simp add: records_by_subject_def map_of_group) (simp add: group_of_def)

lemma subject_map_SomeD:
  assumes "subject_map rs s p = Some r"
  shows "r \<in> set rs \<and> er_subject_key r = s \<and> er_probe_id r = p"
  using map_of_SomeD [OF assms [unfolded subject_map_eq]] by auto

lemma subject_map_dom:
  "set (dict_keys (group_of (records_by_subject rs) s)) =
     er_probe_id ` {r \<in> set rs. er_subject_key r = s}"
  using arg_cong [OF subject_map_eq [of rs s], of dom]
  by (simp add: dom_map_of_conv_image_fst dict_keys_def image_image)

text \<open>One record per subject and probe, as the registry's parser guarantees.\<close>

abbreviation record_key :: "evidence_record \<Rightarrow> string \<times> string" where
  "record_key r \<equiv> (er_subject_key r, er_probe_id r)"

lemma subject_map_iff:
  assumes "distinct (map record_key rs)"
  shows "subject_map rs s p = Some r \<longleftrightarrow> r \<in> set rs \<and> record_key r = (s, p)"
proof -
  have inj: "inj_on record_key (set rs)"
    using assms by (simp add: distinct_map)
  let ?ps = "rev (map (\<lambda>r. (er_probe_id r, r)) (filter (\<lambda>r. er_subject_key r = s) rs))"
  have "inj_on er_probe_id {r \<in> set rs. er_subject_key r = s}"
    using inj by (auto simp: inj_on_def)
  then have "distinct (map fst ?ps)"
    using assms by (simp add: rev_map o_def distinct_map)
  then show ?thesis
    by (auto simp: subject_map_eq image_iff)
qed

subsection \<open>Specification of the classification\<close>

text \<open>
  What the loop decides for one subject from its records alone, and the loop as a partition of
  the sorted subjects by that verdict.
\<close>

datatype verdict = Candidate | Excluded string | Uncertain

definition subject_verdict :: "subject_records \<Rightarrow> verdict" where
  "subject_verdict recs =
     (case record_value (map_of recs ''win.storage.disks'') of
        None \<Rightarrow> Uncertain
      | Some d \<Rightarrow>
          (case py_get d ''volume_class'' of
             PStr c \<Rightarrow>
               if c \<in> set included_classes
               then (if py_get d ''is_online'' = PBool True then Candidate else Uncertain)
               else if c \<in> set excluded_classes
               then (case trusted_exclusion_reason c recs of
                       None \<Rightarrow> Uncertain | Some reason \<Rightarrow> Excluded reason)
               else Uncertain
           | _ \<Rightarrow> Uncertain))"

definition exclusion_entries ::
  "(string \<times> subject_records) list \<Rightarrow> string list \<Rightarrow> excluded_subject list" where
  "exclusion_entries g ss =
     concat (map (\<lambda>s. case subject_verdict (group_of g s) of
                        Excluded reason \<Rightarrow> [\<lparr>ex_subject_id = s, ex_reason_code = reason\<rparr>]
                      | _ \<Rightarrow> []) ss)"

lemma classify_subject_verdict:
  "classify_subject g (cs, es, inc) s =
     (case subject_verdict (group_of g s) of
        Candidate \<Rightarrow> (cs @ [s], es, inc)
      | Excluded reason \<Rightarrow> (cs, es @ [\<lparr>ex_subject_id = s, ex_reason_code = reason\<rparr>], inc)
      | Uncertain \<Rightarrow> (cs, es, True))"
  by (simp add: classify_subject_def subject_verdict_def Let_def
      split: option.splits pyval.splits if_splits)

lemma classify_fold:
  "foldl (classify_subject g) (cs, es, inc) ss =
     (cs @ filter (\<lambda>s. subject_verdict (group_of g s) = Candidate) ss,
      es @ exclusion_entries g ss,
      inc \<or> (\<exists>s\<in>set ss. subject_verdict (group_of g s) = Uncertain))"
  by (induction ss arbitrary: cs es inc)
    (auto simp: classify_subject_verdict exclusion_entries_def split: verdict.splits)

theorem classify_subjects_spec:
  "classify_subjects g =
     (filter (\<lambda>s. subject_verdict (group_of g s) = Candidate) (sort (dict_keys g)),
      exclusion_entries g (sort (dict_keys g)),
      \<exists>s\<in>set (dict_keys g). subject_verdict (group_of g s) = Uncertain)"
  by (simp add: classify_subjects_def classify_fold)

lemma exclusion_entries_mem:
  "x \<in> set (exclusion_entries g ss) \<longleftrightarrow>
     ex_subject_id x \<in> set ss \<and>
     subject_verdict (group_of g (ex_subject_id x)) = Excluded (ex_reason_code x)"
  by (cases x) (auto simp: exclusion_entries_def split: verdict.splits)

lemma trusted_exclusion_reason_cong:
  "map_of recs = map_of recs' \<Longrightarrow> trusted_exclusion_reason c recs = trusted_exclusion_reason c recs'"
  by (simp add: trusted_exclusion_reason_def)

lemma subject_verdict_Candidate:
  "subject_verdict recs = Candidate \<longleftrightarrow>
     (\<exists>d c. record_value (map_of recs ''win.storage.disks'') = Some d \<and>
        py_get d ''volume_class'' = PStr c \<and> c \<in> set included_classes \<and>
        py_get d ''is_online'' = PBool True)"
  by (auto simp: subject_verdict_def split: option.splits pyval.splits if_splits)

lemma subject_verdict_Excluded:
  "subject_verdict recs = Excluded reason \<Longrightarrow>
     (\<exists>d c. record_value (map_of recs ''win.storage.disks'') = Some d \<and>
        py_get d ''volume_class'' = PStr c \<and> c \<in> set excluded_classes \<and>
        trusted_exclusion_reason c recs = Some reason)"
  by (auto simp: subject_verdict_def split: option.splits pyval.splits if_splits)


text \<open>The decision, with the loop replaced by its specification.\<close>

lemma applicability_cases:
  fixes rs :: "evidence_record list"
  defines "D \<equiv> evaluate_pc07_applicability rs"
  defines "verdict_of \<equiv> \<lambda>s. subject_verdict (group_of (records_by_subject rs) s)"
  shows "ad_candidate_volume_ids D =
           filter (\<lambda>s. verdict_of s = Candidate) (sorted_distinct (map er_subject_key rs))"
    and "ad_excluded_volumes D =
           exclusion_entries (records_by_subject rs) (sorted_distinct (map er_subject_key rs))"
    and "ad_status D = APPLICABLE \<longleftrightarrow>
           (\<forall>s\<in>er_subject_key ` set rs. verdict_of s \<noteq> Uncertain) \<and>
           (\<forall>s\<in>set (ad_candidate_volume_ids D). \<forall>r\<in>set rs.
              er_subject_key r = s \<longrightarrow> \<not> failed_code r) \<and>
           (\<forall>s\<in>set (ad_candidate_volume_ids D).
              er_probe_id ` {r \<in> set rs. er_subject_key r = s} = set required_probes) \<and>
           ad_candidate_volume_ids D \<noteq> []"
    and "ad_status D \<noteq> APPLICABLE \<longleftrightarrow> ad_status D = UNDETERMINED"
    and "ad_error_codes D \<noteq> [] \<longleftrightarrow> ad_status D = UNDETERMINED"
proof -
  show "ad_candidate_volume_ids D =
      filter (\<lambda>s. verdict_of s = Candidate) (sorted_distinct (map er_subject_key rs))"
    by (auto simp: D_def verdict_of_def evaluate_pc07_applicability_def classify_subjects_spec
        sort_subjects Let_def)
next
  show "ad_excluded_volumes D =
      exclusion_entries (records_by_subject rs) (sorted_distinct (map er_subject_key rs))"
    by (simp add: D_def evaluate_pc07_applicability_def classify_subjects_spec
        sort_subjects Let_def)
next
  show "ad_status D = APPLICABLE \<longleftrightarrow>
      (\<forall>s\<in>er_subject_key ` set rs. verdict_of s \<noteq> Uncertain) \<and>
      (\<forall>s\<in>set (ad_candidate_volume_ids D). \<forall>r\<in>set rs.
         er_subject_key r = s \<longrightarrow> \<not> failed_code r) \<and>
      (\<forall>s\<in>set (ad_candidate_volume_ids D).
         er_probe_id ` {r \<in> set rs. er_subject_key r = s} = set required_probes) \<and>
      ad_candidate_volume_ids D \<noteq> []"
    by (auto simp: D_def verdict_of_def evaluate_pc07_applicability_def classify_subjects_spec
        sort_subjects subject_map_dom Let_def filter_empty_conv)
next
  show "ad_status D \<noteq> APPLICABLE \<longleftrightarrow> ad_status D = UNDETERMINED"
    by (simp add: D_def evaluate_pc07_applicability_def classify_subjects_spec Let_def)
next
  show "ad_error_codes D \<noteq> [] \<longleftrightarrow> ad_status D = UNDETERMINED"
    by (simp add: D_def evaluate_pc07_applicability_def classify_subjects_spec Let_def)
qed

subsection \<open>No subject is dropped\<close>

definition proved_exclusion :: "evidence_record list \<Rightarrow> excluded_subject \<Rightarrow> bool" where
  "proved_exclusion rs x \<longleftrightarrow>
     (case record_value (subject_map rs (ex_subject_id x) ''win.storage.disks'') of
        None \<Rightarrow> False
      | Some d \<Rightarrow>
          (case py_get d ''volume_class'' of
             PStr c \<Rightarrow> c \<in> set excluded_classes \<and>
               trusted_exclusion_reason c (group_of (records_by_subject rs) (ex_subject_id x)) =
                 Some (ex_reason_code x)
           | _ \<Rightarrow> False))"

definition online_candidate :: "evidence_record list \<Rightarrow> string \<Rightarrow> bool" where
  "online_candidate rs s \<longleftrightarrow>
     (case record_value (subject_map rs s ''win.storage.disks'') of
        None \<Rightarrow> False
      | Some d \<Rightarrow>
          py_get d ''volume_class'' \<in> PStr ` set included_classes \<and>
          py_get d ''is_online'' = PBool True)"

lemma candidate_mem:
  "s \<in> set (ad_candidate_volume_ids (evaluate_pc07_applicability rs)) \<longleftrightarrow>
     s \<in> er_subject_key ` set rs \<and>
     subject_verdict (group_of (records_by_subject rs) s) = Candidate"
  by (auto simp: applicability_cases(1))

lemma excluded_mem:
  "x \<in> set (ad_excluded_volumes (evaluate_pc07_applicability rs)) \<longleftrightarrow>
     ex_subject_id x \<in> er_subject_key ` set rs \<and>
     subject_verdict (group_of (records_by_subject rs) (ex_subject_id x)) =
       Excluded (ex_reason_code x)"
  by (simp add: applicability_cases(2) exclusion_entries_mem)

lemma excluded_ids:
  "s \<in> ex_subject_id ` set (ad_excluded_volumes (evaluate_pc07_applicability rs)) \<longleftrightarrow>
     s \<in> er_subject_key ` set rs \<and>
     (\<exists>reason. subject_verdict (group_of (records_by_subject rs) s) = Excluded reason)"
proof
  assume "s \<in> er_subject_key ` set rs \<and>
     (\<exists>reason. subject_verdict (group_of (records_by_subject rs) s) = Excluded reason)"
  then obtain reason where
    "\<lparr>ex_subject_id = s, ex_reason_code = reason\<rparr> \<in>
       set (ad_excluded_volumes (evaluate_pc07_applicability rs))"
    by (auto simp: excluded_mem)
  then show "s \<in> ex_subject_id ` set (ad_excluded_volumes (evaluate_pc07_applicability rs))"
    by force
qed (auto simp: excluded_mem)

lemma candidate_online:
  "s \<in> set (ad_candidate_volume_ids (evaluate_pc07_applicability rs)) \<Longrightarrow> online_candidate rs s"
  by (auto simp: candidate_mem online_candidate_def subject_verdict_Candidate)

lemma exclusion_proved:
  "x \<in> set (ad_excluded_volumes (evaluate_pc07_applicability rs)) \<Longrightarrow> proved_exclusion rs x"
  by (auto simp: excluded_mem proved_exclusion_def dest!: subject_verdict_Excluded)

lemma distinct_candidates:
  "distinct (ad_candidate_volume_ids (evaluate_pc07_applicability rs))"
  by (simp add: applicability_cases(1))

text \<open>
  C2: In an APPLICABLE decision every subject of the evidence is accounted for exactly once.
  Subjects are either candidates, whose collected disk evidence names an included class on an
  online disk and whose three storage probes are all present and did not fail, or exclusions,
  whose own evidence proves the recorded reason; the candidate list is not empty.
\<close>

theorem applicable_partitions_subjects:
  assumes "ad_status (evaluate_pc07_applicability rs) = APPLICABLE"
  shows "let D = evaluate_pc07_applicability rs;
             cs = ad_candidate_volume_ids D; es = ad_excluded_volumes D
         in set cs \<union> ex_subject_id ` set es = er_subject_key ` set rs \<and>
            set cs \<inter> ex_subject_id ` set es = {} \<and>
            distinct cs \<and> cs \<noteq> [] \<and>
            (\<forall>s\<in>set cs. online_candidate rs s \<and>
               (\<forall>p\<in>set required_probes. \<exists>r\<in>set rs. record_key r = (s, p)) \<and>
               (\<forall>r\<in>set rs. er_subject_key r = s \<longrightarrow> \<not> failed_code r)) \<and>
            (\<forall>x\<in>set es. proved_exclusion rs x)"
proof -
  let ?v = "\<lambda>s. subject_verdict (group_of (records_by_subject rs) s)"
  let ?D = "evaluate_pc07_applicability rs"
  note app = applicability_cases(3) [of rs, THEN iffD1, OF assms]
  have ne: "ad_candidate_volume_ids ?D \<noteq> []"
    using app by blast
  have cert: "?v s \<noteq> Uncertain" if "s \<in> er_subject_key ` set rs" for s
    using app that by blast
  have ok: "\<not> failed_code r"
    if "s \<in> set (ad_candidate_volume_ids ?D)" "r \<in> set rs" "er_subject_key r = s" for s r
    using app that by blast
  have prb: "er_probe_id ` {r \<in> set rs. er_subject_key r = s} = set required_probes"
    if "s \<in> set (ad_candidate_volume_ids ?D)" for s
    using app that by blast
  have "\<exists>r\<in>set rs. record_key r = (s, p)"
    if "s \<in> set (ad_candidate_volume_ids ?D)" "p \<in> set required_probes" for s p
    using that(2) [folded prb [OF that(1)]] by auto
  moreover have "set (ad_candidate_volume_ids ?D) \<union> ex_subject_id ` set (ad_excluded_volumes ?D) =
      er_subject_key ` set rs"
    using cert by (simp add: set_eq_iff candidate_mem excluded_ids) (metis verdict.exhaust)
  moreover have "set (ad_candidate_volume_ids ?D) \<inter> ex_subject_id ` set (ad_excluded_volumes ?D) = {}"
    by (simp add: set_eq_iff candidate_mem excluded_ids)
  ultimately show ?thesis
    unfolding Let_def using ok ne
    by (intro conjI ballI impI) (simp_all add: distinct_candidates candidate_online exclusion_proved)
qed

text \<open>A system volume with its three storage probes and an EFI partition.\<close>

definition storage_record :: "string \<Rightarrow> string \<Rightarrow> dict \<Rightarrow> evidence_record" where
  "storage_record s p v =
     \<lparr>er_evidence_id = s @ p, er_job_id = ''job'', er_asset_id = ''asset'', er_package_id = ''package'',
      er_control_id = ''PC-07'', er_subject_key = s, er_probe_id = p, er_probe_version = ''0.1.0'',
      er_collection_status = ''COLLECTED'', er_error_code = ''NONE'', er_normalized_value = Some v\<rparr>"

definition sample_records :: "evidence_record list" where
  "sample_records =
     [storage_record ''C'' ''win.storage.disks''
        [(''volume_class'', PStr ''WINDOWS_OS_VOLUME''), (''is_online'', PBool True)],
      storage_record ''C'' ''win.storage.partitions'' [],
      storage_record ''C'' ''win.storage.volumes''
        [(''filesystem'', PStr ''NTFS''), (''bitlocker_state'', PStr ''UNLOCKED'')],
      storage_record ''E'' ''win.storage.disks'' [(''volume_class'', PStr ''EFI_SYSTEM_PARTITION'')],
      storage_record ''E'' ''win.storage.partitions''
        [(''partition_role'', PStr ''EFI_SYSTEM''), (''trusted_role_identity'', PBool True)]]"

theorem applicable_partitions_subjects_witness:
  "ad_status (evaluate_pc07_applicability sample_records) = APPLICABLE \<and>
   set (ad_candidate_volume_ids (evaluate_pc07_applicability sample_records)) \<union>
     ex_subject_id ` set (ad_excluded_volumes (evaluate_pc07_applicability sample_records)) =
     er_subject_key ` set sample_records"
proof -
  have h: "ad_status (evaluate_pc07_applicability sample_records) = APPLICABLE"
    by code_simp
  show ?thesis
    using h applicable_partitions_subjects [OF h] by (simp add: Let_def)
qed

end
