(* ===== verification/Rule_PC07.thy ===== *)
theory Rule_PC07
  imports Applicability
begin

section \<open>The PC-07 rule and its registry (\<^verbatim>\<open>analysis/rule_engine\<close>)\<close>

text \<open>
  The decision operator of PC-07 (\<open>pc07.py\<close>), the contracts of the rule engine
  (\<open>contracts.py\<close>) and the closed registry (\<open>registry.py\<close>), which admits the exact approved
  rules, parses the evidence set and runs applicability and evaluation.
\<close>

subsection \<open>Contracts\<close>

datatype rule_engine_code = RULE_NOT_ALLOWED | RULE_PARAMETERS_INVALID | EVALUATION_INPUT_INVALID

datatype rule_engine_error = RuleEngineError rule_engine_code string

datatype decision_status = COMPLIANT | NONCOMPLIANT | ERROR

definition decision_status_text :: "decision_status \<Rightarrow> string" where
  "decision_status_text s =
     (case s of COMPLIANT \<Rightarrow> ''PASS'' | NONCOMPLIANT \<Rightarrow> ''FAIL'' | ERROR \<Rightarrow> ''ERROR'')"

record decision_candidate =
  dc_status :: decision_status
  dc_applicability :: applicability_decision
  dc_subject_scope :: string
  dc_subject_key :: string
  dc_result_code :: string
  dc_evaluated_volume_ids :: "string list"
  dc_violating_volume_ids :: "string list"
  dc_error_codes :: "string list"
  dc_rationale_code :: string

subsection \<open>The NTFS operator\<close>

definition pc07_evaluation_approved_parameters :: dict where
  "pc07_evaluation_approved_parameters =
    [(''required_filesystem'', PStr ''NTFS''),
     (''comparison_profile'', PStr ''TRIM_CASE_INSENSITIVE_EXACT''),
     (''non_ntfs_status'', PStr ''FAIL''),
     (''refs_status'', PStr ''FAIL''),
     (''raw_status'', PStr ''FAIL''),
     (''filesystem_unknown_status'', PStr ''ERROR''),
     (''bitlocker_unknown_status'', PStr ''ERROR''),
     (''aggregate_subject_scope'', PStr ''VOLUME''),
     (''aggregate_subject_key'', PStr ''pc07:evaluated-volume-set''),
     (''all_match_result_code'', PStr ''ALL_EVALUATED_VOLUMES_NTFS''),
     (''non_match_result_code'', PStr ''NON_NTFS_VOLUME_FOUND'')]"

definition pc07_evaluation_parameters_are_approved :: "dict \<Rightarrow> bool" where
  "pc07_evaluation_parameters_are_approved parameters \<longleftrightarrow>
     set (dict_keys parameters) = set (dict_keys pc07_evaluation_approved_parameters) \<and>
     list_all (\<lambda>kv. py_eq (py_get parameters (fst kv)) (snd kv) \<and>
                    same_type (py_get parameters (fst kv)) (snd kv))
       pc07_evaluation_approved_parameters"

definition error_decision ::
  "applicability_decision \<Rightarrow> string \<Rightarrow> string list \<Rightarrow> decision_candidate" where
  "error_decision applicability result_code error_codes =
     \<lparr>dc_status = ERROR,
      dc_applicability = applicability,
      dc_subject_scope = ''VOLUME'',
      dc_subject_key = ''pc07:evaluated-volume-set'',
      dc_result_code = result_code,
      dc_evaluated_volume_ids = [],
      dc_violating_volume_ids = [],
      dc_error_codes = error_codes,
      dc_rationale_code = result_code\<rparr>"

text \<open>
  The loop that collects the filesystem of every candidate; \<open>Inr None\<close> is the early return with
  the decision VOLUME_FILESYSTEM_UNAVAILABLE.  The membership test of the BitLocker state raises
  on an unhashable value.
\<close>

fun collect_filesystems ::
  "(string \<times> subject_records) list \<Rightarrow> string list \<Rightarrow> (string \<times> string) list \<Rightarrow>
     ('e, (string \<times> string) list option) result" where
  "collect_filesystems grouped [] filesystems = Inr (Some filesystems)"
| "collect_filesystems grouped (subject_id # ids) filesystems =
     (case map_of (group_of grouped subject_id) ''win.storage.volumes'' of
        None \<Rightarrow> Inr None
      | Some volume \<Rightarrow>
          if er_collection_status volume \<noteq> ''COLLECTED'' then Inr None
          else (case er_normalized_value volume of
            None \<Rightarrow> Inr None
          | Some v \<Rightarrow>
              (case py_get v ''filesystem'' of
                 PStr filesystem \<Rightarrow>
                   bindE (in_str_set (py_get v ''bitlocker_state'') [''LOCKED'', ''UNKNOWN''])
                     (\<lambda>unavailable.
                        if unavailable then Inr None
                        else collect_filesystems grouped ids
                               (AList.update subject_id filesystem filesystems))
               | _ \<Rightarrow> Inr None)))"

definition folded_fs :: "string \<Rightarrow> string" where
  "folded_fs filesystem = casefold (strip filesystem)"

text \<open>The judgement of the collected filesystems.\<close>

definition judge_filesystems ::
  "applicability_decision \<Rightarrow> (string \<times> string) list \<Rightarrow> decision_candidate" where
  "judge_filesystems applicability filesystems =
     (let evaluated = sort (dict_keys filesystems);
          fs = (\<lambda>s. case map_of filesystems s of None \<Rightarrow> [] | Some f \<Rightarrow> folded_fs f);
          violating = filter (\<lambda>s. fs s \<noteq> ''ntfs'') evaluated;
          kinds = set (map fs violating);
          refs = (kinds = {''refs''}); raw = (kinds = {''raw''})
      in if violating = [] then
           \<lparr>dc_status = COMPLIANT,
            dc_applicability = applicability,
            dc_subject_scope = ''VOLUME'',
            dc_subject_key = ''pc07:evaluated-volume-set'',
            dc_result_code = ''ALL_EVALUATED_VOLUMES_NTFS'',
            dc_evaluated_volume_ids = evaluated,
            dc_violating_volume_ids = [],
            dc_error_codes = [],
            dc_rationale_code = ''ALL_EVALUATED_VOLUMES_NTFS''\<rparr>
         else
           \<lparr>dc_status = NONCOMPLIANT,
            dc_applicability = applicability,
            dc_subject_scope = ''VOLUME'',
            dc_subject_key = ''pc07:evaluated-volume-set'',
            dc_result_code =
              (if refs then ''NON_NTFS_REFS_FOUND''
               else if raw then ''NON_NTFS_RAW_VOLUME_FOUND''
               else ''NON_NTFS_VOLUME_FOUND''),
            dc_evaluated_volume_ids = evaluated,
            dc_violating_volume_ids = violating,
            dc_error_codes = [],
            dc_rationale_code =
              (if refs then ''REFS_KISA_NTFS_CONDITION_MISMATCH''
               else if raw then ''NON_NTFS_RAW_VOLUME_FOUND''
               else ''NON_NTFS_VOLUME_FOUND'')\<rparr>)"

definition evaluate_pc07_ntfs ::
  "applicability_decision \<Rightarrow> evidence_record list \<Rightarrow> ('e, decision_candidate) result" where
  "evaluate_pc07_ntfs applicability records =
     (if ad_status applicability = UNDETERMINED then
        Inr (error_decision applicability
               (if ad_reason_code applicability = ''VOLUME_EVIDENCE_INCOMPLETE''
                then ''VOLUME_COLLECTION_FAILED'' else ad_reason_code applicability)
               (ad_error_codes applicability))
      else
        bindE (collect_filesystems (records_by_subject records)
                 (ad_candidate_volume_ids applicability) [])
          (\<lambda>collected.
            case collected of
              None \<Rightarrow> Inr (error_decision applicability ''VOLUME_FILESYSTEM_UNAVAILABLE''
                             [''EVIDENCE_INCOMPLETE''])
            | Some filesystems \<Rightarrow> Inr (judge_filesystems applicability filesystems)))"

subsection \<open>The registry\<close>

definition pc07_applicability_identity :: "string \<times> string" where
  "pc07_applicability_identity = (''pc07.applicability'', ''0.1.0'')"

definition pc07_evaluation_identity :: "string \<times> string" where
  "pc07_evaluation_identity = (''pc07.ntfs'', ''0.1.0'')"

definition pc07_probes :: "string list" where
  "pc07_probes = [''win.storage.disks'', ''win.storage.partitions'', ''win.storage.volumes'']"

definition reg_reject :: "rule_engine_code \<Rightarrow> string \<Rightarrow> (rule_engine_error, 'a) result" where
  "reg_reject code message = raise_error (RuleEngineError code message)"

definition reg_mapping :: "pyval \<Rightarrow> (rule_engine_error, dict) result" where
  "reg_mapping v =
     (case v of PDict d \<Rightarrow> Inr d
      | _ \<Rightarrow> reg_reject EVALUATION_INPUT_INVALID ''Expected an object value.'')"

definition reg_string :: "dict \<Rightarrow> string \<Rightarrow> (rule_engine_error, string) result" where
  "reg_string mapping key =
     (case py_get mapping key of
        PStr s \<Rightarrow> if s = []
                  then reg_reject EVALUATION_INPUT_INVALID ''Expected a non-empty string field.''
                  else Inr s
      | _ \<Rightarrow> reg_reject EVALUATION_INPUT_INVALID ''Expected a non-empty string field.'')"

definition reg_rule_reference ::
  "dict \<Rightarrow> (rule_engine_error, (string \<times> string) \<times> dict) result" where
  "reg_rule_reference rule =
     (if set (dict_keys rule) \<noteq> {''rule_id'', ''rule_version'', ''parameters''}
      then reg_reject RULE_PARAMETERS_INVALID ''Rule reference fields are invalid.''
      else bindE (reg_string rule ''rule_id'') (\<lambda>i.
           bindE (reg_string rule ''rule_version'') (\<lambda>ver.
           bindE (reg_mapping (py_get rule ''parameters'')) (\<lambda>parameters.
             Inr ((i, ver), parameters)))))"

text \<open>
  One iteration of the parsing loop in three parts, in the order of the code: the package
  context of an item, its subject and probe, and its collection outcome.
\<close>

definition item_context ::
  "string \<Rightarrow> dict \<Rightarrow> (rule_engine_error, string \<times> string \<times> string) result" where
  "item_context control_id item =
     bindE (reg_string item ''control_id'') (\<lambda>item_control_id.
       if item_control_id \<noteq> control_id
       then reg_reject EVALUATION_INPUT_INVALID ''Evidence Control scope differs.''
       else
         bindE (reg_string item ''job_id'') (\<lambda>job_id.
         bindE (reg_string item ''asset_id'') (\<lambda>asset_id.
         bindE (reg_string item ''package_id'') (\<lambda>package_id.
           Inr (job_id, asset_id, package_id)))))"

definition item_subject_probe ::
  "dict \<Rightarrow> (rule_engine_error, string \<times> string \<times> string) result" where
  "item_subject_probe item =
     bindE (reg_mapping (py_get item ''subject'')) (\<lambda>subject.
     bindE (reg_string subject ''scope'') (\<lambda>scope.
       if scope \<noteq> ''VOLUME''
       then reg_reject EVALUATION_INPUT_INVALID ''PC-07 requires VOLUME evidence.''
       else
         bindE (reg_string subject ''subject_key'') (\<lambda>subject_key.
         bindE (reg_string item ''probe_id'') (\<lambda>probe_id.
         bindE (reg_string item ''probe_version'') (\<lambda>probe_version.
           if probe_id \<notin> set pc07_probes \<or> probe_version \<noteq> ''0.1.0''
           then reg_reject EVALUATION_INPUT_INVALID ''Evidence Probe is not allowed.''
           else Inr (subject_key, probe_id, probe_version))))))"

definition item_outcome ::
  "dict \<Rightarrow> string \<Rightarrow> (rule_engine_error, string \<times> string \<times> dict option) result" where
  "item_outcome item subject_key =
     bindE (reg_string item ''collection_status'') (\<lambda>collection_status.
     bindE (reg_string item ''error_code'') (\<lambda>error_code.
       if collection_status \<notin> {''COLLECTED'', ''ERROR'', ''SKIPPED''}
       then reg_reject EVALUATION_INPUT_INVALID ''Collection status is invalid.''
       else if (collection_status = ''COLLECTED'') \<noteq> (error_code = ''NONE'')
       then reg_reject EVALUATION_INPUT_INVALID ''Collection error state is invalid.''
       else if collection_status = ''COLLECTED'' then
         bindE (reg_mapping (py_get item ''normalized_value'')) (\<lambda>v.
           if py_get v ''volume_id'' \<noteq> PStr subject_key
           then reg_reject EVALUATION_INPUT_INVALID
                  ''Normalized volume ID differs from the subject.''
           else Inr (collection_status, error_code, Some v))
       else if ''normalized_value'' \<in> set (dict_keys item)
       then reg_reject EVALUATION_INPUT_INVALID
              ''Failed evidence cannot contain a normalized value.''
       else Inr (collection_status, error_code, None)))"

fun parse_items ::
  "string \<Rightarrow> dict list \<Rightarrow> evidence_record list \<Rightarrow> (string \<times> string) list \<Rightarrow>
     (string \<times> string \<times> string) option \<Rightarrow> (rule_engine_error, evidence_record list) result" where
  "parse_items control_id [] parsed seen context = Inr parsed"
| "parse_items control_id (item # items) parsed seen context =
     bindE (item_context control_id item) (\<lambda>ic.
       if context \<noteq> None \<and> context \<noteq> Some ic
       then reg_reject EVALUATION_INPUT_INVALID ''Evidence package scope differs.''
       else
         bindE (item_subject_probe item) (\<lambda>sp.
           if (fst sp, fst (snd sp)) \<in> set seen
           then reg_reject EVALUATION_INPUT_INVALID ''Duplicate subject Probe evidence.''
           else
             bindE (item_outcome item (fst sp)) (\<lambda>oc.
             bindE (reg_string item ''id'') (\<lambda>evidence_id.
               parse_items control_id items
                 (parsed @
                   [\<lparr>er_evidence_id = evidence_id,
                     er_job_id = fst ic,
                     er_asset_id = fst (snd ic),
                     er_package_id = snd (snd ic),
                     er_control_id = control_id,
                     er_subject_key = fst sp,
                     er_probe_id = fst (snd sp),
                     er_probe_version = snd (snd sp),
                     er_collection_status = fst oc,
                     er_error_code = fst (snd oc),
                     er_normalized_value = snd (snd oc)\<rparr>])
                 ((fst sp, fst (snd sp)) # seen)
                 (Some ic)))))"

definition parse_evidence ::
  "string \<Rightarrow> dict list \<Rightarrow> (rule_engine_error, evidence_record list) result" where
  "parse_evidence control_id evidence =
     bindE (parse_items control_id evidence [] [] None) (\<lambda>parsed.
       if parsed = [] then reg_reject EVALUATION_INPUT_INVALID ''Evidence set is empty.''
       else Inr (sort_key (\<lambda>r. (er_subject_key r, er_probe_id r, er_evidence_id r)) parsed))"

definition registry_evaluate ::
  "string \<Rightarrow> dict \<Rightarrow> dict \<Rightarrow> dict list \<Rightarrow> (rule_engine_error, decision_candidate) result" where
  "registry_evaluate control_id applicability_rule evaluation_rule evidence =
     bindE (reg_rule_reference applicability_rule) (\<lambda>ar.
     bindE (reg_rule_reference evaluation_rule) (\<lambda>er.
       if control_id \<noteq> ''PC-07'' \<or> fst ar \<noteq> pc07_applicability_identity \<or>
          fst er \<noteq> pc07_evaluation_identity
       then reg_reject RULE_NOT_ALLOWED ''Rule ID or version is not allowlisted.''
       else if \<not> pc07_applicability_parameters_are_approved (snd ar)
       then reg_reject RULE_PARAMETERS_INVALID
              ''Applicability parameters differ from the approved rule version.''
       else if \<not> pc07_evaluation_parameters_are_approved (snd er)
       then reg_reject RULE_PARAMETERS_INVALID
              ''Evaluation parameters differ from the approved rule version.''
       else
         bindE (parse_evidence control_id evidence) (\<lambda>records.
           evaluate_pc07_ntfs (evaluate_pc07_applicability records) records)))"

subsection \<open>The filesystem loop\<close>

text \<open>The filesystem the records of one subject establish.\<close>

definition volume_filesystem :: "subject_records \<Rightarrow> string option" where
  "volume_filesystem recs =
     (case record_value (map_of recs ''win.storage.volumes'') of
        None \<Rightarrow> None
      | Some v \<Rightarrow>
          (case py_get v ''filesystem'' of
             PStr f \<Rightarrow> if py_get v ''bitlocker_state'' \<in> {PStr ''LOCKED'', PStr ''UNKNOWN''}
                       then None else Some f
           | _ \<Rightarrow> None))"

lemma collect_filesystems_step:
  assumes "collect_filesystems g (s # ids) fs =
    (Inr res :: ('e, (string \<times> string) list option) result)"
  shows "case volume_filesystem (group_of g s) of
           None \<Rightarrow> res = None
         | Some f \<Rightarrow> collect_filesystems g ids (AList.update s f fs) =
             (Inr res :: ('e, (string \<times> string) list option) result)"
  using assms
  by (auto simp: volume_filesystem_def record_value_def in_str_set_eq_Inr bindE_eq_Inr
      split: option.splits pyval.splits if_splits)

lemma collect_filesystems_spec:
  assumes "collect_filesystems g ids fs = Inr res" and "distinct (dict_keys fs)"
  shows "case res of
           None \<Rightarrow> \<exists>s\<in>set ids. volume_filesystem (group_of g s) = None
         | Some fs' \<Rightarrow>
             (\<forall>s\<in>set ids. volume_filesystem (group_of g s) \<noteq> None) \<and>
             distinct (dict_keys fs') \<and>
             map_of fs' = (\<lambda>s. if s \<in> set ids then volume_filesystem (group_of g s)
                               else map_of fs s)"
  using assms
proof (induction ids arbitrary: fs)
  case Nil
  then show ?case by auto
next
  case (Cons s ids)
  show ?case
  proof (cases "volume_filesystem (group_of g s)")
    case None
    with collect_filesystems_step [OF Cons.prems(1)] show ?thesis by simp
  next
    case (Some f)
    with collect_filesystems_step [OF Cons.prems(1)]
    have step: "collect_filesystems g ids (AList.update s f fs) =
        (Inr res :: ('a, (string \<times> string) list option) result)" by simp
    have "distinct (dict_keys (AList.update s f fs))"
      using Cons.prems(2) by (simp add: dict_keys_def distinct_update)
    from Cons.IH [OF step this] Some show ?thesis
      by (auto simp: update_conv' fun_eq_iff split: option.splits)
  qed
qed

text \<open>The keys of a collected dictionary are the candidates.\<close>

lemma collected_keys:
  assumes "collect_filesystems g ids [] = Inr (Some fs)"
  shows "sort (dict_keys fs) = sorted_distinct ids"
    and "s \<in> set ids \<Longrightarrow> map_of fs s = volume_filesystem (group_of g s)"
    and "\<forall>s\<in>set ids. volume_filesystem (group_of g s) \<noteq> None"
proof -
  note spec = collect_filesystems_spec [OF assms, simplified]
  then show "\<forall>s\<in>set ids. volume_filesystem (group_of g s) \<noteq> None"
    and "s \<in> set ids \<Longrightarrow> map_of fs s = volume_filesystem (group_of g s)"
    by auto
  have "set (dict_keys fs) = set ids"
    using spec by (auto simp: set_eq_iff dict_keys_map_of simp del: not_None_eq split: if_splits)
  with spec show "sort (dict_keys fs) = sorted_distinct ids"
    by (intro sorted_distinct_set_unique) auto
qed

lemma collected_none:
  assumes "collect_filesystems g ids [] = Inr None"
  shows "\<exists>s\<in>set ids. volume_filesystem (group_of g s) = None"
  using collect_filesystems_spec [OF assms] by simp

subsection \<open>The decision\<close>

definition non_ntfs :: "evidence_record list \<Rightarrow> string \<Rightarrow> bool" where
  "non_ntfs rs s =
     (case volume_filesystem (group_of (records_by_subject rs) s) of
        None \<Rightarrow> False | Some f \<Rightarrow> folded_fs f \<noteq> ''ntfs'')"

lemma judge_filesystems_fields:
  defines "viol \<equiv> \<lambda>fs s. (case map_of fs s of None \<Rightarrow> [] | Some f \<Rightarrow> folded_fs f) \<noteq> ''ntfs''"
  shows "dc_applicability (judge_filesystems D fs) = D"
    and "dc_evaluated_volume_ids (judge_filesystems D fs) = sort (dict_keys fs)"
    and "dc_violating_volume_ids (judge_filesystems D fs) = filter (viol fs) (sort (dict_keys fs))"
    and "dc_error_codes (judge_filesystems D fs) = []"
    and "dc_status (judge_filesystems D fs) =
           (if filter (viol fs) (sort (dict_keys fs)) = [] then COMPLIANT else NONCOMPLIANT)"
  by (simp_all add: judge_filesystems_def Let_def viol_def)

lemma sorted_candidates:
  "sorted_distinct (ad_candidate_volume_ids (evaluate_pc07_applicability rs)) =
     ad_candidate_volume_ids (evaluate_pc07_applicability rs)"
  by (rule sorted_distinct_set_unique) (simp_all add: applicability_cases(1) sorted_wrt_filter)

lemma pc07_ntfs_cases:
  assumes "evaluate_pc07_ntfs (evaluate_pc07_applicability rs) rs =
    (Inr d :: ('e, decision_candidate) result)"
  defines "D \<equiv> evaluate_pc07_applicability rs"
  defines "vf \<equiv> \<lambda>s. volume_filesystem (group_of (records_by_subject rs) s)"
  shows "dc_applicability d = D \<and>
    (if ad_status D = APPLICABLE \<and> (\<forall>s\<in>set (ad_candidate_volume_ids D). vf s \<noteq> None)
     then dc_evaluated_volume_ids d = ad_candidate_volume_ids D \<and>
          dc_violating_volume_ids d = filter (non_ntfs rs) (ad_candidate_volume_ids D) \<and>
          dc_error_codes d = [] \<and>
          dc_status d = (if dc_violating_volume_ids d = [] then COMPLIANT else NONCOMPLIANT)
     else dc_status d = ERROR \<and> dc_evaluated_volume_ids d = [] \<and>
          dc_violating_volume_ids d = [] \<and> dc_error_codes d \<noteq> [])"
proof (cases "ad_status D = APPLICABLE")
  case False
  then have "ad_status D = UNDETERMINED"
    using applicability_cases(4) [of rs] by (simp add: D_def)
  with assms(1) applicability_cases(5) [of rs] show ?thesis
    by (auto simp: evaluate_pc07_ntfs_def D_def error_decision_def Let_def)
next
  case True
  then have "ad_status D \<noteq> UNDETERMINED" by simp
  with assms(1) obtain res where
    res: "collect_filesystems (records_by_subject rs) (ad_candidate_volume_ids D) [] =
      (Inr res :: ('e, (string \<times> string) list option) result)"
    by (auto simp: evaluate_pc07_ntfs_def D_def [symmetric] res_simps)
  show ?thesis
  proof (cases res)
    case None
    with collected_none [OF res [unfolded None]] assms(1) \<open>ad_status D \<noteq> UNDETERMINED\<close> res True
    show ?thesis
      by (auto simp: evaluate_pc07_ntfs_def D_def [symmetric] vf_def error_decision_def)
  next
    case (Some fs)
    note keys = collected_keys [OF res [unfolded Some]]
    have ev: "sort (dict_keys fs) = ad_candidate_volume_ids D"
      using keys(1) sorted_candidates [of rs] by (simp add: D_def)
    let ?f = "\<lambda>s. case map_of fs s of None \<Rightarrow> [] | Some f \<Rightarrow> folded_fs f"
    have viol: "filter (\<lambda>s. ?f s \<noteq> ''ntfs'') (ad_candidate_volume_ids D) =
        filter (non_ntfs rs) (ad_candidate_volume_ids D)"
      by (rule filter_cong) (use keys(2,3) in \<open>auto simp: non_ntfs_def\<close>)
    have "d = judge_filesystems D fs"
      using assms(1) \<open>ad_status D \<noteq> UNDETERMINED\<close> res
      by (simp add: evaluate_pc07_ntfs_def D_def [symmetric] Some)
    with True keys(3) show ?thesis
      by (simp add: vf_def judge_filesystems_fields ev viol)
  qed
qed

subsection \<open>The parser as a per-item function and two set-level conditions\<close>

definition item_record :: "string \<Rightarrow> dict \<Rightarrow> (rule_engine_error, evidence_record) result" where
  "item_record control_id item =
     bindE (item_context control_id item) (\<lambda>ic.
     bindE (item_subject_probe item) (\<lambda>sp.
     bindE (item_outcome item (fst sp)) (\<lambda>oc.
     bindE (reg_string item ''id'') (\<lambda>evidence_id.
       Inr \<lparr>er_evidence_id = evidence_id, er_job_id = fst ic, er_asset_id = fst (snd ic),
            er_package_id = snd (snd ic), er_control_id = control_id, er_subject_key = fst sp,
            er_probe_id = fst (snd sp), er_probe_version = snd (snd sp),
            er_collection_status = fst oc, er_error_code = fst (snd oc),
            er_normalized_value = snd (snd oc)\<rparr>))))"

abbreviation record_context :: "evidence_record \<Rightarrow> string \<times> string \<times> string" where
  "record_context r \<equiv> (er_job_id r, er_asset_id r, er_package_id r)"

lemma reg_reject_simps [simp]:
  "bindE (reg_reject c m) f = reg_reject c m" "reg_reject c m \<noteq> Inr x"
  by (simp_all add: reg_reject_def)

lemma parse_items_step:
  "parse_items c (item # items) parsed seen ctx = Inr out \<longleftrightarrow>
     (\<exists>r. item_record c item = Inr r \<and>
        (ctx = None \<or> ctx = Some (record_context r)) \<and>
        record_key r \<notin> set seen \<and>
        parse_items c items (parsed @ [r]) (record_key r # seen) (Some (record_context r)) = Inr out)"
proof (cases "\<exists>ic sp oc i. item_context c item = Inr ic \<and> item_subject_probe item = Inr sp \<and>
    item_outcome item (fst sp) = Inr oc \<and> reg_string item ''id'' = Inr i")
  case True
  then obtain ic sp oc i where
    "item_context c item = Inr ic" "item_subject_probe item = Inr sp"
    "item_outcome item (fst sp) = Inr oc" "reg_string item ''id'' = Inr i" by blast
  then show ?thesis
    by (cases ctx) (simp_all add: item_record_def)
next
  case False
  then show ?thesis
    by (auto simp: item_record_def res_simps split: if_splits)
qed

lemma parse_items_in_context:
  "parse_items c items parsed seen (Some k) = Inr out \<longleftrightarrow>
     (\<exists>rs. list_all2 (\<lambda>item r. item_record c item = Inr r) items rs \<and>
        out = parsed @ rs \<and>
        distinct (map record_key rs) \<and> set (map record_key rs) \<inter> set seen = {} \<and>
        (\<forall>r\<in>set rs. record_context r = k))"
proof (induction items arbitrary: parsed seen)
  case Nil
  then show ?case by auto
next
  case (Cons item items)
  have "parse_items c (item # items) parsed seen (Some k) = Inr out \<longleftrightarrow>
      (\<exists>r. item_record c item = Inr r \<and> record_context r = k \<and> record_key r \<notin> set seen \<and>
         parse_items c items (parsed @ [r]) (record_key r # seen) (Some k) = Inr out)"
    unfolding parse_items_step by auto
  also have "\<dots> \<longleftrightarrow> (\<exists>r rs. item_record c item = Inr r \<and>
      list_all2 (\<lambda>item r. item_record c item = Inr r) items rs \<and> out = parsed @ r # rs \<and>
      distinct (map record_key (r # rs)) \<and> set (map record_key (r # rs)) \<inter> set seen = {} \<and>
      (\<forall>r\<in>set (r # rs). record_context r = k))"
    unfolding Cons.IH by auto
  also have "\<dots> \<longleftrightarrow> (\<exists>rs. list_all2 (\<lambda>item r. item_record c item = Inr r) (item # items) rs \<and>
      out = parsed @ rs \<and> distinct (map record_key rs) \<and>
      set (map record_key rs) \<inter> set seen = {} \<and> (\<forall>r\<in>set rs. record_context r = k))"
    by (simp only: list_all2_Cons1) blast
  finally show ?case .
qed

lemma parse_items_empty:
  "parse_items c items [] [] None = Inr rs \<longleftrightarrow>
     list_all2 (\<lambda>item r. item_record c item = Inr r) items rs \<and>
     distinct (map record_key rs) \<and> (\<exists>k. \<forall>r\<in>set rs. record_context r = k)"
proof (cases items)
  case Nil
  then show ?thesis by auto
next
  case (Cons item items')
  have "parse_items c items [] [] None = Inr rs \<longleftrightarrow>
      (\<exists>r rs'. rs = r # rs' \<and> item_record c item = Inr r \<and>
         list_all2 (\<lambda>item r. item_record c item = Inr r) items' rs' \<and>
         distinct (map record_key (r # rs')) \<and>
         (\<forall>r'\<in>set rs'. record_context r' = record_context r))"
    unfolding Cons parse_items_step parse_items_in_context by auto
  also have "\<dots> \<longleftrightarrow> list_all2 (\<lambda>item r. item_record c item = Inr r) items rs \<and>
      distinct (map record_key rs) \<and> (\<exists>k. \<forall>r\<in>set rs. record_context r = k)"
    unfolding Cons list_all2_Cons1 by (intro iffI; elim exE conjE) (simp_all, blast?)
  finally show ?thesis .
qed

lemma list_all2_permutation:
  assumes "list_all2 (\<lambda>x y. f x = Inr y) xs ys" and "mset xs = mset xs'"
  shows "\<exists>ys'. list_all2 (\<lambda>x y. f x = Inr y) xs' ys' \<and> mset ys = mset ys'"
proof -
  have ys: "ys = map (\<lambda>x. projr (f x)) xs" and ok: "\<forall>x\<in>set xs. \<exists>y. f x = Inr y"
    using assms(1) by (induction rule: list_all2_induct) auto
  have "list_all2 (\<lambda>x y. f x = Inr y) xs' (map (\<lambda>x. projr (f x)) xs')"
    using ok mset_eq_setD [OF assms(2)] by (force simp: list_all2_map2 list_all2_same)
  moreover have "mset ys = mset (map (\<lambda>x. projr (f x)) xs')"
    using assms(2) by (simp add: ys)
  ultimately show ?thesis by blast
qed

lemma parse_evidence_eq_Inr:
  "parse_evidence c ev = Inr rs \<longleftrightarrow>
     (\<exists>ps. parse_items c ev [] [] None = Inr ps \<and> ps \<noteq> [] \<and>
        rs = sort_key (\<lambda>r. (er_subject_key r, er_probe_id r, er_evidence_id r)) ps)"
  by (cases "parse_items c ev [] [] None") (auto simp: parse_evidence_def reg_reject_def bindE_eq_Inr)

lemma parse_evidence_permutation:
  assumes "parse_evidence c ev = Inr rs" and "mset ev = mset ev'"
  shows "parse_evidence c ev' = Inr rs"
proof -
  let ?k = "\<lambda>r. (er_subject_key r, er_probe_id r, er_evidence_id r)"
  from assms(1) obtain ps where ps: "parse_items c ev [] [] None = Inr ps" "ps \<noteq> []"
    and rs: "rs = sort_key ?k ps"
    using parse_evidence_eq_Inr by blast
  from ps(1) have "list_all2 (\<lambda>item r. item_record c item = Inr r) ev ps"
    by (simp add: parse_items_empty)
  from list_all2_permutation [OF this assms(2)]
  obtain ps' where all2: "list_all2 (\<lambda>item r. item_record c item = Inr r) ev' ps'"
    and ms: "mset ps = mset ps'" by blast
  have "mset (map record_key ps) = mset (map record_key ps')"
    by (simp add: ms)
  from mset_eq_imp_distinct_iff [OF this] have "distinct (map record_key ps')"
    using ps(1) unfolding parse_items_empty by blast
  then have "parse_items c ev' [] [] None = Inr ps'"
    using ps(1) all2 by (simp only: parse_items_empty mset_eq_setD [OF ms])
  moreover have "ps' \<noteq> []"
    using ps(2) ms by auto
  moreover have "sort_key ?k ps = sort_key ?k ps'"
  proof (rule sort_key_permutation [OF ms])
    have "distinct (map record_key ps)" using ps(1) by (simp add: parse_items_empty)
    then show "inj_on ?k (set ps)" by (auto simp: distinct_map inj_on_def)
  qed
  ultimately show ?thesis by (simp add: parse_evidence_def rs)
qed

subsection \<open>The registry as a whole\<close>

lemma reg_mapping_eq_Inr [res_simps]: "reg_mapping v = Inr d \<longleftrightarrow> v = PDict d"
  by (cases v) (auto simp: reg_mapping_def)

lemma reg_string_eq_Inr [res_simps]: "reg_string d k = Inr s \<longleftrightarrow> py_get d k = PStr s \<and> s \<noteq> []"
  by (cases "py_get d k") (auto simp: reg_string_def)

lemma reg_rule_reference_eq_Inr [res_simps]:
  "reg_rule_reference rule = Inr x \<longleftrightarrow> names_rule (PDict rule) (fst x) (snd x)"
proof -
  obtain i ver p where x: "x = ((i, ver), p)"
    by (metis prod.exhaust)
  show ?thesis
    by (simp add: x reg_rule_reference_def names_rule_def res_simps conj_ac cong: conj_cong)
qed

lemma registry_evaluate_eq_Inr:
  "registry_evaluate c ar er ev = Inr d \<longleftrightarrow>
     c = ''PC-07'' \<and>
     (\<exists>pa. names_rule (PDict ar) pc07_applicability_identity pa \<and>
           pc07_applicability_parameters_are_approved pa) \<and>
     (\<exists>pe. names_rule (PDict er) pc07_evaluation_identity pe \<and>
           pc07_evaluation_parameters_are_approved pe) \<and>
     (\<exists>rs. parse_evidence c ev = Inr rs \<and>
           evaluate_pc07_ntfs (evaluate_pc07_applicability rs) rs =
             (Inr d :: (rule_engine_error, decision_candidate) result))"
  (is "?l \<longleftrightarrow> ?r")
proof
  assume ?l
  then obtain a e where
    refs: "reg_rule_reference ar = Inr a" "reg_rule_reference er = Inr e" and
    rest: "(if c \<noteq> ''PC-07'' \<or> fst a \<noteq> pc07_applicability_identity \<or>
        fst e \<noteq> pc07_evaluation_identity
      then reg_reject RULE_NOT_ALLOWED ''Rule ID or version is not allowlisted.''
      else if \<not> pc07_applicability_parameters_are_approved (snd a)
      then reg_reject RULE_PARAMETERS_INVALID
        ''Applicability parameters differ from the approved rule version.''
      else if \<not> pc07_evaluation_parameters_are_approved (snd e)
      then reg_reject RULE_PARAMETERS_INVALID
        ''Evaluation parameters differ from the approved rule version.''
      else bindE (parse_evidence c ev) (\<lambda>records.
        evaluate_pc07_ntfs (evaluate_pc07_applicability records) records)) = Inr d"
    unfolding registry_evaluate_def bindE_eq_Inr by blast
  from rest refs show ?r
    by (simp add: res_simps split: if_splits) (metis)
next
  assume ?r
  then obtain pa pe rs where
    "reg_rule_reference ar = Inr (pc07_applicability_identity, pa)"
    "reg_rule_reference er = Inr (pc07_evaluation_identity, pe)"
    "c = ''PC-07''" "pc07_applicability_parameters_are_approved pa"
    "pc07_evaluation_parameters_are_approved pe" "parse_evidence c ev = Inr rs"
    "evaluate_pc07_ntfs (evaluate_pc07_applicability rs) rs =
       (Inr d :: (rule_engine_error, decision_candidate) result)"
    by (auto simp: reg_rule_reference_eq_Inr)
  then show ?l
    by (simp add: registry_evaluate_def)
qed

lemma list_all2_member:
  "y \<in> set ys \<Longrightarrow> list_all2 P xs ys \<Longrightarrow> \<exists>x\<in>set xs. P x y"
  by (induction ys arbitrary: xs) (auto simp: list_all2_Cons2)

lemma parse_evidence_item:
  assumes "parse_evidence c ev = Inr rs" and "r \<in> set rs"
  shows "\<exists>item\<in>set ev. item_record c item = Inr r"
proof -
  from assms obtain ps where ps: "parse_items c ev [] [] None = Inr ps" "r \<in> set ps"
    by (auto simp: parse_evidence_eq_Inr)
  then have "list_all2 (\<lambda>item r. item_record c item = Inr r) ev ps"
    by (simp add: parse_items_empty)
  with ps(2) show ?thesis
    by (rule list_all2_member)
qed

text \<open>The raw item behind a collected record.\<close>

definition collected_item :: "string \<Rightarrow> string \<Rightarrow> string \<Rightarrow> dict \<Rightarrow> dict \<Rightarrow> bool" where
  "collected_item c s p v item \<longleftrightarrow>
     py_get item ''control_id'' = PStr c \<and>
     (\<exists>subject. py_get item ''subject'' = PDict subject \<and>
        py_get subject ''subject_key'' = PStr s \<and> py_get subject ''scope'' = PStr ''VOLUME'') \<and>
     py_get item ''probe_id'' = PStr p \<and>
     py_get item ''collection_status'' = PStr ''COLLECTED'' \<and>
     py_get item ''error_code'' = PStr ''NONE'' \<and>
     py_get item ''normalized_value'' = PDict v \<and> py_get v ''volume_id'' = PStr s"

lemma item_record_collected:
  assumes "item_record c item = Inr r" and "record_value (Some r) = Some v"
  shows "collected_item c (er_subject_key r) (er_probe_id r) v item"
  using assms
  by (auto simp: item_record_def res_simps item_context_def item_subject_probe_def
      item_outcome_def record_value_def collected_item_def split: if_splits)

lemma subject_value_item:
  assumes "parse_evidence c ev = Inr rs" and "record_value (subject_map rs s p) = Some v"
  shows "\<exists>item\<in>set ev. collected_item c s p v item"
proof -
  from assms(2) obtain r where r: "subject_map rs s p = Some r" "record_value (Some r) = Some v"
    by (cases "subject_map rs s p") (auto simp: record_value_def)
  from subject_map_SomeD [OF r(1)] have "r \<in> set rs" "er_subject_key r = s" "er_probe_id r = p"
    by simp_all
  with parse_evidence_item [OF assms(1)] item_record_collected [OF _ r(2)] show ?thesis
    by blast
qed

lemma volume_filesystem_value:
  assumes "volume_filesystem recs = Some f"
  shows "\<exists>v. record_value (map_of recs ''win.storage.volumes'') = Some v \<and>
           py_get v ''filesystem'' = PStr f \<and>
           py_get v ''bitlocker_state'' \<notin> {PStr ''LOCKED'', PStr ''UNKNOWN''}"
  using assms by (auto simp: volume_filesystem_def split: option.splits pyval.splits if_splits)

text \<open>
  C1: The decision of the registry is determined by the classification of the parsed evidence.
  When every subject is classified and every candidate volume yields a filesystem, the evaluated
  volumes are exactly the candidates, the violating ones exactly those whose trimmed and
  case-folded filesystem is not NTFS, and the decision is COMPLIANT exactly when there is no
  violating volume; in every other case it is an ERROR decision that names error codes and no
  volume.
\<close>

theorem pc07_registry_decision:
  assumes "registry_evaluate c ar er ev = Inr d"
  shows "\<exists>rs. parse_evidence c ev = Inr rs \<and>
    (let D = evaluate_pc07_applicability rs;
         vf = (\<lambda>s. volume_filesystem (group_of (records_by_subject rs) s))
     in dc_applicability d = D \<and>
        (if ad_status D = APPLICABLE \<and> (\<forall>s\<in>set (ad_candidate_volume_ids D). vf s \<noteq> None)
         then dc_evaluated_volume_ids d = ad_candidate_volume_ids D \<and>
              dc_violating_volume_ids d =
                filter (\<lambda>s. \<exists>f. vf s = Some f \<and> folded_fs f \<noteq> ''ntfs'')
                  (ad_candidate_volume_ids D) \<and>
              dc_error_codes d = [] \<and>
              dc_status d = (if dc_violating_volume_ids d = [] then COMPLIANT else NONCOMPLIANT)
         else dc_status d = ERROR \<and> dc_evaluated_volume_ids d = [] \<and>
              dc_violating_volume_ids d = [] \<and> dc_error_codes d \<noteq> []))"
proof -
  from assms [unfolded registry_evaluate_eq_Inr] obtain rs where
    rs: "parse_evidence c ev = Inr rs" and
    ev: "evaluate_pc07_ntfs (evaluate_pc07_applicability rs) rs =
      (Inr d :: (rule_engine_error, decision_candidate) result)" by blast
  have "non_ntfs rs = (\<lambda>s. \<exists>f. volume_filesystem (group_of (records_by_subject rs) s) = Some f \<and>
      folded_fs f \<noteq> ''ntfs'')"
    by (auto simp: non_ntfs_def fun_eq_iff split: option.splits)
  with rs pc07_ntfs_cases [OF ev] show ?thesis
    by (auto simp: Let_def)
qed

text \<open>
  A COMPLIANT decision rests on evidence of the call.  At least one volume was evaluated, and
  for each evaluated volume the evidence list holds a collected item of the volume probe, for that
  subject and for PC-07, whose filesystem reads NTFS after trimming and case folding and which is
  neither locked nor of unknown BitLocker state.
\<close>

theorem pc07_compliant_evidence:
  assumes "registry_evaluate c ar er ev = Inr d" and "dc_status d = COMPLIANT"
  shows "dc_evaluated_volume_ids d \<noteq> [] \<and>
    (\<forall>s\<in>set (dc_evaluated_volume_ids d). \<exists>item\<in>set ev. \<exists>v f.
       collected_item ''PC-07'' s ''win.storage.volumes'' v item \<and>
       py_get v ''filesystem'' = PStr f \<and> folded_fs f = ''ntfs'' \<and>
       py_get v ''bitlocker_state'' \<notin> {PStr ''LOCKED'', PStr ''UNKNOWN''})"
proof -
  from assms(1) [unfolded registry_evaluate_eq_Inr] obtain rs where
    c: "c = ''PC-07''" and rs: "parse_evidence c ev = Inr rs" and
    ev: "evaluate_pc07_ntfs (evaluate_pc07_applicability rs) rs =
      (Inr d :: (rule_engine_error, decision_candidate) result)" by blast
  let ?D = "evaluate_pc07_applicability rs"
  let ?vf = "\<lambda>s. volume_filesystem (group_of (records_by_subject rs) s)"
  from pc07_ntfs_cases [OF ev] assms(2) have
    app: "ad_status ?D = APPLICABLE" and
    all: "\<forall>s\<in>set (ad_candidate_volume_ids ?D). ?vf s \<noteq> None" and
    eval: "dc_evaluated_volume_ids d = ad_candidate_volume_ids ?D" and
    viol: "filter (non_ntfs rs) (ad_candidate_volume_ids ?D) = []"
    by (auto split: if_splits)
  have "\<exists>item\<in>set ev. \<exists>v f. collected_item c s ''win.storage.volumes'' v item \<and>
       py_get v ''filesystem'' = PStr f \<and> folded_fs f = ''ntfs'' \<and>
       py_get v ''bitlocker_state'' \<notin> {PStr ''LOCKED'', PStr ''UNKNOWN''}"
    if s: "s \<in> set (ad_candidate_volume_ids ?D)" for s
  proof -
    from all s obtain f where f: "?vf s = Some f" by blast
    moreover from viol s f have "folded_fs f = ''ntfs''"
      by (auto simp: filter_empty_conv non_ntfs_def)
    moreover from volume_filesystem_value [OF f] obtain v where
      "record_value (subject_map rs s ''win.storage.volumes'') = Some v"
      "py_get v ''filesystem'' = PStr f"
      "py_get v ''bitlocker_state'' \<notin> {PStr ''LOCKED'', PStr ''UNKNOWN''}" by blast
    moreover from subject_value_item [OF rs this(1)] obtain item where
      "item \<in> set ev" "collected_item c s ''win.storage.volumes'' v item" by blast
    ultimately show ?thesis
      by (intro bexI [of _ item] exI conjI)
  qed
  moreover have "ad_candidate_volume_ids ?D \<noteq> []"
    using app applicability_cases(3) [of rs] by simp
  ultimately show ?thesis
    unfolding eval c by simp
qed

text \<open>
  The order in which the evidence items arrive does not matter: any permutation of the
  evidence list gives the same decision.
\<close>

theorem pc07_order_independent:
  assumes "registry_evaluate c ar er ev = Inr d" and "mset ev = mset ev'"
  shows "registry_evaluate c ar er ev' = Inr d"
  using assms(1) parse_evidence_permutation [OF _ assms(2)]
  unfolding registry_evaluate_eq_Inr by blast

text \<open>
  The allowlist of the registry.  A decision is returned exactly when the call names PC-07,
  the two approved rule identities with exactly the approved parameters, and well-formed evidence
  (which the operator can judge); every other call raises.
\<close>

theorem pc07_allowlist:
  "is_ok (registry_evaluate c ar er ev) \<longleftrightarrow>
     c = ''PC-07'' \<and>
     (\<exists>pa. names_rule (PDict ar) pc07_applicability_identity pa \<and>
           pc07_applicability_parameters_are_approved pa) \<and>
     (\<exists>pe. names_rule (PDict er) pc07_evaluation_identity pe \<and>
           pc07_evaluation_parameters_are_approved pe) \<and>
     (\<exists>rs d. parse_evidence c ev = Inr rs \<and>
           evaluate_pc07_ntfs (evaluate_pc07_applicability rs) rs =
             (Inr d :: (rule_engine_error, decision_candidate) result))"
  unfolding is_ok_iff registry_evaluate_eq_Inr by blast

subsection \<open>A concrete package\<close>

definition sample_item :: "string \<Rightarrow> string \<Rightarrow> dict \<Rightarrow> dict" where
  "sample_item s p v =
     [(''id'', PStr (s @ p)), (''job_id'', PStr ''job''), (''asset_id'', PStr ''asset''),
      (''package_id'', PStr ''package''), (''control_id'', PStr ''PC-07''),
      (''subject'', PDict [(''scope'', PStr ''VOLUME''), (''subject_key'', PStr s)]),
      (''probe_id'', PStr p), (''probe_version'', PStr ''0.1.0''),
      (''collection_status'', PStr ''COLLECTED''), (''error_code'', PStr ''NONE''),
      (''normalized_value'', PDict ((''volume_id'', PStr s) # v))]"

definition sample_evidence :: "dict list" where
  "sample_evidence =
     [sample_item ''D'' ''win.storage.volumes''
        [(''filesystem'', PStr ''Ntfs ''), (''bitlocker_state'', PStr ''UNLOCKED'')],
      sample_item ''D'' ''win.storage.disks''
        [(''volume_class'', PStr ''WINDOWS_OS_VOLUME''), (''is_online'', PBool True)],
      sample_item ''D'' ''win.storage.partitions'' []]"

definition sample_rule :: "string \<times> string \<Rightarrow> dict \<Rightarrow> dict" where
  "sample_rule i p =
     [(''rule_id'', PStr (fst i)), (''rule_version'', PStr (snd i)), (''parameters'', PDict p)]"

definition sample_decision :: "dict list \<Rightarrow> (rule_engine_error, decision_candidate) result" where
  "sample_decision ev =
     registry_evaluate ''PC-07''
       (sample_rule pc07_applicability_identity pc07_applicability_approved_parameters)
       (sample_rule pc07_evaluation_identity pc07_evaluation_approved_parameters) ev"

lemma sample_decision_ok:
  "is_ok (sample_decision sample_evidence)"
  "dc_status (projr (sample_decision sample_evidence)) = COMPLIANT"
  "dc_evaluated_volume_ids (projr (sample_decision sample_evidence)) = [''D'']"
  by code_simp+

lemma sample_decision_Inr:
  "sample_decision sample_evidence = Inr (projr (sample_decision sample_evidence))"
  using sample_decision_ok(1) unfolding is_ok_iff by (metis sum.sel(2))

theorem pc07_registry_decision_witness:
  "\<exists>rs. parse_evidence ''PC-07'' sample_evidence = Inr rs \<and>
     dc_applicability (projr (sample_decision sample_evidence)) = evaluate_pc07_applicability rs"
  using pc07_registry_decision [OF sample_decision_Inr [unfolded sample_decision_def]]
  by (auto simp: Let_def sample_decision_def)

end
