(* ===== verification/Account_Policy.thy ===== *)
theory Account_Policy
  imports Rule_Inputs
begin

section \<open>Account policy rules PC-01 to PC-03 (\<^verbatim>\<open>rule_engine/account_policy.py\<close>)\<close>

text \<open>
  The registry of the password-age, password-policy and recovery-console rules.  The displayed
  texts are Korean.  Each Korean literal is a constant
  named after its English meaning and given by the hexadecimal digits of its UTF-8 encoding.
\<close>

subsection \<open>Texts\<close>

definition ap_ko_set_on_this_pc :: string where
  "ap_ko_set_on_this_pc =
     hex_text ''ec9db4205043ec9790ec849c20ec84a4eca095''"

definition ap_ko_set_for_the_whole_organization :: string where
  "ap_ko_set_for_the_whole_organization =
     hex_text ''eca1b0eca781ec9790ec849c20ec9dbceab48420ec84a4eca095''"

definition ap_ko_set_by_the_device_management_system :: string where
  "ap_ko_set_by_the_device_management_system =
     hex_text ''eab8b0eab8b020eab480eba6ac20ec8b9cec8aa4ed859cec9790ec849c20ec84a4eca095''"

definition ap_ko_windows_default :: string where
  "ap_ko_windows_default =
     hex_text ''57696e646f777320eab8b0ebb3b8eab092''"

definition ap_ko_source_of_the_setting_not_confirmed :: string where
  "ap_ko_source_of_the_setting_not_confirmed =
     hex_text ''ec84a4eca09520ecb69cecb298eba5bc20ed9995ec9db8ed9598eca78020ebaabbed95a8''"

definition ap_ko_setting_information_not_obtained :: string where
  "ap_ko_setting_information_not_obtained =
     hex_text ''ec84a4eca09520eca095ebb3b4eba5bc20eab080eca0b8ec98a4eca78020ebaabbed95a8''"

definition ap_ko_no_change_deadline :: string where
  "ap_ko_no_change_deadline =
     hex_text ''ebb380eab2bd20eab8b0ed959c20ec9786ec9d8c''"

definition ap_ko_changed_every_that_many_days :: string where
  "ap_ko_changed_every_that_many_days =
     hex_text ''ec9dbceba788eb8ba420ebb380eab2bd''"

definition ap_ko_changed_within_1_to_90_days :: string where
  "ap_ko_changed_within_1_to_90_days =
     hex_text ''317e3930ec9dbc20ec9db4eb82b4ec979020ebb380eab2bd''"

definition ap_ko_used :: string where
  "ap_ko_used =
     hex_text ''ec82acec9aa9''"

definition ap_ko_not_used :: string where
  "ap_ko_not_used =
     hex_text ''ec82acec9aa920ec958820ed95a8''"

definition ap_ko_optional :: string where
  "ap_ko_optional =
     hex_text ''ec84a0ed839d''"

definition ap_ko_minimum_actual :: string where
  "ap_ko_minimum_actual =
     hex_text ''ecb59cec868c20''"

definition ap_ko_characters_complexity :: string where
  "ap_ko_characters_complexity =
     hex_text ''ec9e902c20ebb3b5ec9ea1ec84b120''"

definition ap_ko_password :: string where
  "ap_ko_password =
     hex_text ''ebb984ebb080ebb288ed98b820''"

definition ap_ko_the_organization_standard_must_be_registered_first :: string where
  "ap_ko_the_organization_standard_must_be_registered_first =
     hex_text ''eca1b0eca781ec9d9820ebb984ebb080ebb288ed98b820eab8b0eca480ec9d8420eba8bceca08020eb93b1eba19ded95b4ec95bc20ed95a8''"

definition ap_ko_organization_standard_minimum :: string where
  "ap_ko_organization_standard_minimum =
     hex_text ''eca1b0eca78120eab8b0eca4803a20ecb59cec868c20''"

definition ap_ko_then_password :: string where
  "ap_ko_then_password =
     hex_text ''2c20ebb984ebb080ebb288ed98b820''"

definition ap_ko_automatic_administrator_logon_not_used :: string where
  "ap_ko_automatic_administrator_logon_not_used =
     hex_text ''ec9e90eb8f9920eab480eba6acec9e9020eba19ceab7b8ec9db820ec82acec9aa920ec958820ed95a8''"

definition ap_ko_automatic_administrator_logon_not_configured :: string where
  "ap_ko_automatic_administrator_logon_not_configured =
     hex_text ''ec9e90eb8f9920eab480eba6acec9e9020eba19ceab7b8ec9db820ebb384eb8f8420ec84a4eca09520ec9786ec9d8c''"

definition ap_ko_automatic_administrator_logon_used :: string where
  "ap_ko_automatic_administrator_logon_used =
     hex_text ''ec9e90eb8f9920eab480eba6acec9e9020eba19ceab7b8ec9db820ec82acec9aa9''"

definition ap_ko_not_used_or_not_configured :: string where
  "ap_ko_not_used_or_not_configured =
     hex_text ''ec82acec9aa920ec958820ed95a820eb9890eb8a9420ebb384eb8f8420ec84a4eca09520ec9786ec9d8c''"

definition ap_ko_state_of_the_setting_not_confirmed :: string where
  "ap_ko_state_of_the_setting_not_confirmed =
     hex_text ''ec84a4eca09520ec8381ed839ceba5bc20ed9995ec9db8ed9598eca78020ebaabbed95a8''"

definition ap_ko_organization_password_standard_met :: string where
  "ap_ko_organization_password_standard_met =
     hex_text ''eca1b0eca781ec9d9820ebb984ebb080ebb288ed98b820eab8b0eca48020ecb6a9eca1b1''"

subsection \<open>Errors, decisions and the allowlist\<close>

datatype account_policy_error = AccountPolicyRuleError string

record account_policy_decision = decision +
  ap_policy_source :: string
  ap_policy_source_label :: string

definition ap_source_labels :: "(string \<times> string) list" where
  "ap_source_labels =
    [(''LOCAL'', ap_ko_set_on_this_pc),
     (''DOMAIN'', ap_ko_set_for_the_whole_organization),
     (''MDM'', ap_ko_set_by_the_device_management_system),
     (''WINDOWS_DEFAULT'', ap_ko_windows_default),
     (''UNKNOWN'', ap_ko_source_of_the_setting_not_confirmed)]"

definition ap_applicability_parameters :: dict where
  "ap_applicability_parameters =
    [(''subject_scope'', PStr ''POLICY''),
     (''supported_policy_sources'',
        str_list [''LOCAL'', ''DOMAIN'', ''MDM'', ''WINDOWS_DEFAULT'']),
     (''unresolved_source_status'', PStr ''ERROR'')]"

definition ap_rules :: "(string \<times> rule_def) list" where
  "ap_rules =
    [(''PC-01'',
      \<lparr>rd_probe_id = ''win.security.password-age'',
       rd_applicability = (''pc01.account-policy-applicability'', ''0.1.0''),
       rd_evaluation = (''pc01.password-age'', ''0.1.0''),
       rd_applicability_parameters = ap_applicability_parameters,
       rd_evaluation_parameters =
         [(''minimum_password_age_days'', PInt 1),
          (''maximum_password_age_days'', PInt 90),
          (''unlimited_value'', PInt 0),
          (''within_range_status'', PStr ''PASS''),
          (''outside_range_status'', PStr ''FAIL''),
          (''collection_failure_status'', PStr ''ERROR'')]\<rparr>),
     (''PC-02'',
      \<lparr>rd_probe_id = ''win.security.password-policy'',
       rd_applicability = (''pc02.account-policy-applicability'', ''0.1.0''),
       rd_evaluation = (''pc02.password-policy'', ''0.1.0''),
       rd_applicability_parameters = ap_applicability_parameters,
       rd_evaluation_parameters =
         [(''organization_policy_required'', PBool True),
          (''missing_organization_policy_status'', PStr ''REVIEW''),
          (''required_policy_fields'',
             str_list [''minimum_password_length'', ''complexity_required'', ''password_required'']),
          (''comparison_profile'', PStr ''EFFECTIVE_POLICY_MEETS_ORGANIZATION_STANDARD''),
          (''collection_failure_status'', PStr ''ERROR'')]\<rparr>),
     (''PC-03'',
      \<lparr>rd_probe_id = ''win.security.recovery-console'',
       rd_applicability = (''pc03.account-policy-applicability'', ''0.1.0''),
       rd_evaluation = (''pc03.recovery-console-logon'', ''0.1.0''),
       rd_applicability_parameters = ap_applicability_parameters,
       rd_evaluation_parameters =
         [(''compliant_states'', str_list [''DISABLED'', ''NOT_DEFINED'']),
          (''noncompliant_state'', PStr ''ENABLED''),
          (''unknown_state_status'', PStr ''ERROR''),
          (''collection_failure_status'', PStr ''ERROR'')]\<rparr>)]"

subsection \<open>Helpers\<close>

definition ap_reject :: "string \<Rightarrow> (account_policy_error, 'a) result" where
  "ap_reject message = raise_error (AccountPolicyRuleError message)"

definition ap_mapping :: "pyval \<Rightarrow> string \<Rightarrow> (account_policy_error, dict) result" where
  "ap_mapping = as_mapping AccountPolicyRuleError"

definition ap_string :: "pyval \<Rightarrow> string \<Rightarrow> (account_policy_error, string) result" where
  "ap_string = as_string AccountPolicyRuleError"

definition ap_source :: "pyval \<Rightarrow> (account_policy_error, string \<times> string) result" where
  "ap_source v =
     bindE (ap_string v ''Effective policy source is missing.'') (\<lambda>source.
       case map_of ap_source_labels source of
         None \<Rightarrow> ap_reject ''Effective policy source is not allowlisted.''
       | Some label \<Rightarrow> Inr (source, label))"

text \<open>
  \<open>_SOURCE_LABELS[source]\<close> is a plain lookup; every caller passes a source of the table
  (\<open>ap_source_eq_Inr\<close> below), so the default is never returned.
\<close>

definition ap_decision ::
  "string \<Rightarrow> string \<Rightarrow> string \<Rightarrow> string \<Rightarrow> string \<Rightarrow> string \<Rightarrow> string list \<Rightarrow>
     account_policy_decision" where
  "ap_decision control_id status result_code actual expected source error_codes =
     \<lparr>dec_control_id = control_id,
      dec_status = status,
      dec_result_code = result_code,
      dec_actual = actual,
      dec_expected = expected,
      dec_rationale_code = result_code,
      dec_error_codes = error_codes,
      ap_policy_source = source,
      ap_policy_source_label =
        (case map_of ap_source_labels source of None \<Rightarrow> [] | Some label \<Rightarrow> label)\<rparr>"

definition ap_collection_error ::
  "string \<Rightarrow> string \<Rightarrow> string \<Rightarrow> account_policy_decision" where
  "ap_collection_error control_id expected error_code =
     ap_decision control_id ''ERROR''
       (replace_char (CHR ''-'') [] control_id @ ''_POLICY_COLLECTION_FAILED'')
       ap_ko_setting_information_not_obtained expected ''UNKNOWN'' [error_code]"

subsection \<open>The three rules\<close>

definition ap_evaluate_pc01 ::
  "dict \<Rightarrow> string \<Rightarrow> (account_policy_error, account_policy_decision) result" where
  "ap_evaluate_pc01 v source =
     (case py_get v ''maximum_password_age_days'' of
        PInt days \<Rightarrow>
          if days < 0 then ap_reject ''Maximum password age is invalid.''
          else
            (let actual = (if days = 0 then ap_ko_no_change_deadline
                           else int_str days @ ap_ko_changed_every_that_many_days);
                 expected = ap_ko_changed_within_1_to_90_days
             in if 1 \<le> days \<and> days \<le> 90
                then Inr (ap_decision ''PC-01'' ''PASS'' ''PASSWORD_CHANGE_PERIOD_WITHIN_90_DAYS''
                            actual expected source [])
                else Inr (ap_decision ''PC-01'' ''FAIL'' ''PASSWORD_CHANGE_PERIOD_NOT_COMPLIANT''
                            actual expected source []))
      | _ \<Rightarrow> ap_reject ''Maximum password age is invalid.'')"

text \<open>
  The two compound type tests of PC-02: the fields when all of them have the required types,
  \<open>None\<close> when the code rejects the input.
\<close>

definition ap_effective_policy :: "dict \<Rightarrow> (int \<times> bool \<times> bool) option" where
  "ap_effective_policy v =
     (case (py_get v ''minimum_password_length'', py_get v ''complexity_enabled'',
            py_get v ''password_required'') of
        (PInt len, PBool complexity, PBool required) \<Rightarrow>
          if len < 0 then None else Some (len, complexity, required)
      | _ \<Rightarrow> None)"

definition ap_organization_standard :: "dict \<Rightarrow> (int \<times> bool \<times> bool) option" where
  "ap_organization_standard p =
     (case (py_get p ''minimum_password_length'', py_get p ''complexity_required'',
            py_get p ''password_required'', py_get p ''standard_id'', py_get p ''version'') of
        (PInt minimum, PBool complexity_required, PBool required, PStr _, PStr _) \<Rightarrow>
          if minimum < 1 then None else Some (minimum, complexity_required, required)
      | _ \<Rightarrow> None)"

definition ap_evaluate_pc02 ::
  "dict \<Rightarrow> string \<Rightarrow> policy \<Rightarrow> (account_policy_error, account_policy_decision) result" where
  "ap_evaluate_pc02 v source organization_policy =
     (case ap_effective_policy v of
        None \<Rightarrow> ap_reject ''Effective password policy value is invalid.''
      | Some (len, complexity, password_required) \<Rightarrow>
          (let used = (\<lambda>b. if b then ap_ko_used else ap_ko_not_used);
               optional = (\<lambda>b. if b then ap_ko_used else ap_ko_optional);
               actual = ap_ko_minimum_actual @ int_str len @ ap_ko_characters_complexity @
                 used complexity @ '', '' @ ap_ko_password @ used password_required
           in case organization_policy of
                None \<Rightarrow>
                  Inr (ap_decision ''PC-02'' ''REVIEW'' ''ORGANIZATION_PASSWORD_STANDARD_REQUIRED''
                         actual
                         ap_ko_the_organization_standard_must_be_registered_first
                         source [])
              | Some p \<Rightarrow>
                  (case ap_organization_standard p of
                     None \<Rightarrow> ap_reject ''Organization password standard is invalid.''
                   | Some (minimum, complexity_required, required) \<Rightarrow>
                       (let expected = ap_ko_organization_standard_minimum @ int_str minimum @
                              ap_ko_characters_complexity @ optional complexity_required @
                              ap_ko_then_password @ optional required;
                            compliant = (minimum \<le> len \<and> (\<not> complexity_required \<or> complexity) \<and>
                              (\<not> required \<or> password_required))
                        in Inr (ap_decision ''PC-02''
                                  (if compliant then ''PASS'' else ''FAIL'')
                                  (if compliant then ''PASSWORD_POLICY_MEETS_ORGANIZATION_STANDARD''
                                   else ''PASSWORD_POLICY_BELOW_ORGANIZATION_STANDARD'')
                                  actual expected source [])))))"

definition ap_logon_labels :: "(string \<times> string) list" where
  "ap_logon_labels =
    [(''DISABLED'', ap_ko_automatic_administrator_logon_not_used),
     (''NOT_DEFINED'', ap_ko_automatic_administrator_logon_not_configured),
     (''ENABLED'', ap_ko_automatic_administrator_logon_used)]"

definition ap_evaluate_pc03 ::
  "dict \<Rightarrow> string \<Rightarrow> (account_policy_error, account_policy_decision) result" where
  "ap_evaluate_pc03 v source =
     (let expected = ap_ko_not_used_or_not_configured;
          unknown = Inr (ap_decision ''PC-03'' ''ERROR'' ''RECOVERY_CONSOLE_POLICY_STATE_UNKNOWN''
            ap_ko_state_of_the_setting_not_confirmed expected source
            [''EVIDENCE_INCOMPLETE''])
      in case py_get v ''automatic_admin_logon'' of
           PStr state \<Rightarrow>
             (case map_of ap_logon_labels state of
                None \<Rightarrow> unknown
              | Some label \<Rightarrow>
                  (let compliant = (state \<in> {''DISABLED'', ''NOT_DEFINED''})
                   in Inr (ap_decision ''PC-03''
                             (if compliant then ''PASS'' else ''FAIL'')
                             (if compliant then ''RECOVERY_CONSOLE_AUTO_LOGON_BLOCKED''
                              else ''RECOVERY_CONSOLE_AUTO_LOGON_ENABLED'')
                             label expected source [])))
         | _ \<Rightarrow> unknown)"

subsection \<open>The registry\<close>

definition ap_expected :: "string \<Rightarrow> string" where
  "ap_expected control_id =
     (if control_id = ''PC-01'' then ap_ko_changed_within_1_to_90_days
      else if control_id = ''PC-02'' then ap_ko_organization_password_standard_met
      else ap_ko_not_used_or_not_configured)"

text \<open>The body of \<open>evaluate\<close> after the collection branch.\<close>

definition ap_evaluate_value ::
  "string \<Rightarrow> dict \<Rightarrow> policy \<Rightarrow> dict \<Rightarrow> (account_policy_error, account_policy_decision) result" where
  "ap_evaluate_value control_id evidence organization_policy v =
     bindE (ap_source (py_get v ''policy_source'')) (\<lambda>sl.
       if py_get evidence ''policy_source'' \<noteq> PStr (fst sl)
       then ap_reject ''Effective policy source fields differ.''
       else if control_id = ''PC-01'' then ap_evaluate_pc01 v (fst sl)
       else if control_id = ''PC-02'' then ap_evaluate_pc02 v (fst sl) organization_policy
       else ap_evaluate_pc03 v (fst sl))"

definition ap_evaluate ::
  "string \<Rightarrow> pyval \<Rightarrow> pyval \<Rightarrow> dict \<Rightarrow> policy \<Rightarrow>
     (account_policy_error, account_policy_decision) result" where
  "ap_evaluate control_id applicability_rule evaluation_rule evidence organization_policy =
     bindE (admit_call AccountPolicyRuleError
              ''Control rule is not allowlisted.''
              ''Applicability parameters differ from the allowlisted version.''
              ''Evaluation parameters differ from the allowlisted version.''
              ''Account policy evidence requires POLICY scope.'' (\<lambda>_. ''POLICY'')
              ap_rules control_id applicability_rule evaluation_rule evidence) (\<lambda>_.
       collection_gate AccountPolicyRuleError ''Normalized policy value is missing.'' evidence
         (ap_collection_error control_id (ap_expected control_id))
         (ap_evaluate_value control_id evidence organization_policy))"

subsection \<open>What the helpers accept\<close>

lemmas ap_helpers [rule_defs] = ap_reject_def ap_mapping_def ap_string_def

lemma ap_source_eq_Inr:
  "ap_source v = Inr x \<longleftrightarrow>
     v = PStr (fst x) \<and> fst x \<noteq> [] \<and> map_of ap_source_labels (fst x) = Some (snd x)"
  by (cases x) (auto simp: ap_source_def rule_defs res_simps split: option.splits)

lemma ap_decision_coherent [simp]:
  "coherent c (ap_decision c' s r a e src errs) \<longleftrightarrow>
     c' = c \<and> s \<in> {''PASS'', ''FAIL'', ''ERROR'', ''REVIEW'', ''N/A''} \<and> r \<noteq> [] \<and>
     (\<forall>code\<in>set errs. code \<noteq> []) \<and> (errs \<noteq> [] \<longleftrightarrow> s = ''ERROR'')"
  by (simp add: coherent_def ap_decision_def)

lemma ap_rules_domain: "map_of ap_rules c = Some r \<Longrightarrow> c \<in> {''PC-01'', ''PC-02'', ''PC-03''}"
  by (simp add: ap_rules_def split: if_splits)

lemma ap_pc01_coherent: "returns_only (coherent ''PC-01'') (ap_evaluate_pc01 v s)"
  by (simp add: ap_evaluate_pc01_def rule_defs Let_def split: pyval.split)

lemma ap_pc02_coherent: "returns_only (coherent ''PC-02'') (ap_evaluate_pc02 v s p)"
  by (simp add: ap_evaluate_pc02_def rule_defs Let_def split: option.split)

lemma ap_pc03_coherent: "returns_only (coherent ''PC-03'') (ap_evaluate_pc03 v s)"
  by (simp add: ap_evaluate_pc03_def Let_def split: pyval.split option.split)

lemma ap_value_coherent:
  assumes "map_of ap_rules c = Some r"
  shows "returns_only (coherent c) (ap_evaluate_value c ev x v)"
  using ap_rules_domain [OF assms]
  by (auto simp: ap_evaluate_value_def rule_defs ap_pc01_coherent ap_pc02_coherent
      ap_pc03_coherent)

interpretation ap: decision_registry ap_evaluate ap_rules
proof (rule gated_registry)
  show "ap_evaluate c ar er ev x =
      bindE (admit_call AccountPolicyRuleError
              ''Control rule is not allowlisted.''
              ''Applicability parameters differ from the allowlisted version.''
              ''Evaluation parameters differ from the allowlisted version.''
              ''Account policy evidence requires POLICY scope.'' (\<lambda>_. ''POLICY'')
              ap_rules c ar er ev) (\<lambda>pe.
        collection_gate AccountPolicyRuleError ''Normalized policy value is missing.'' ev
          ((\<lambda>c. ap_collection_error c (ap_expected c)) c)
          ((\<lambda>c pe ev x. ap_evaluate_value c ev x) c pe ev x))" for c ar er ev x
    by (simp add: ap_evaluate_def)
qed (simp_all add: ap_collection_error_def ap_decision_def coherent_def ap_value_coherent)

subsection \<open>What the rules decide\<close>

text \<open>
  The criterion of each control, read from the collected value and the organization standard,
  and the inputs on which the criterion can be applied at all.
\<close>

definition ap_compliant :: "string \<Rightarrow> dict \<Rightarrow> policy \<Rightarrow> bool" where
  "ap_compliant c v pol \<longleftrightarrow>
     (if c = ''PC-01'' then
        \<exists>days. py_get v ''maximum_password_age_days'' = PInt days \<and> 1 \<le> days \<and> days \<le> 90
      else if c = ''PC-02'' then
        \<exists>p len cx pw m cr pr. pol = Some p \<and> ap_effective_policy v = Some (len, cx, pw) \<and>
          ap_organization_standard p = Some (m, cr, pr) \<and>
          m \<le> len \<and> (cr \<longrightarrow> cx) \<and> (pr \<longrightarrow> pw)
      else py_get v ''automatic_admin_logon'' \<in> {PStr ''DISABLED'', PStr ''NOT_DEFINED''})"

definition ap_decidable :: "string \<Rightarrow> dict \<Rightarrow> policy \<Rightarrow> bool" where
  "ap_decidable c v pol \<longleftrightarrow>
     (if c = ''PC-01'' then True
      else if c = ''PC-02'' then pol \<noteq> None
      else \<exists>s. py_get v ''automatic_admin_logon'' = PStr s \<and> map_of ap_logon_labels s \<noteq> None)"

lemma ap_decision_status [simp]: "dec_status (ap_decision c s r a e src errs) = s"
  by (simp add: ap_decision_def)

lemma ap_pc01_verdict:
  "returns_only (judged_by (ap_decidable ''PC-01'' v pol) (ap_compliant ''PC-01'' v pol))
     (ap_evaluate_pc01 v s)"
  by (simp add: judged_by_def ap_evaluate_pc01_def rule_defs Let_def ap_compliant_def
      ap_decidable_def split: pyval.split)

lemma ap_pc02_verdict:
  "returns_only (judged_by (ap_decidable ''PC-02'' v pol) (ap_compliant ''PC-02'' v pol))
     (ap_evaluate_pc02 v s pol)"
  by (simp add: judged_by_def ap_evaluate_pc02_def rule_defs Let_def ap_compliant_def
      ap_decidable_def split: option.split) blast

lemma ap_pc03_verdict:
  "returns_only (judged_by (ap_decidable ''PC-03'' v pol) (ap_compliant ''PC-03'' v pol))
     (ap_evaluate_pc03 v s)"
  by (simp add: judged_by_def ap_evaluate_pc03_def Let_def ap_compliant_def ap_decidable_def
      split: pyval.split option.split)

lemma ap_value_verdict:
  assumes "map_of ap_rules c = Some r"
  shows "returns_only (judged_by (ap_decidable c v pol) (ap_compliant c v pol))
           (ap_evaluate_value c ev pol v)"
  using ap_rules_domain [OF assms] ap_pc01_verdict ap_pc02_verdict ap_pc03_verdict
  by (auto simp: ap_evaluate_value_def rule_defs)


text \<open>A PC-02 call with a registered standard.\<close>

definition ap_sample_standard :: dict where
  "ap_sample_standard =
     [(''minimum_password_length'', PInt 9), (''complexity_required'', PBool True),
      (''password_required'', PBool True), (''standard_id'', PStr ''ORG-PW''),
      (''version'', PStr ''1'')]"

definition ap_example ::
  "string \<Rightarrow> string \<Rightarrow> dict \<Rightarrow> policy \<Rightarrow> (account_policy_error, account_policy_decision) result" where
  "ap_example c source v =
     example_call ap_evaluate ap_rules c ''POLICY'' [(''policy_source'', PStr source)]
       ((''policy_source'', PStr source) # v)"

definition ap_sample_value :: dict where
  "ap_sample_value =
     [(''minimum_password_length'', PInt 10), (''complexity_enabled'', PBool False),
      (''password_required'', PBool True)]"


text \<open>
  The rule parameters of PC-01 say that an unresolved policy source has status ERROR and list
  four supported sources, yet evidence whose source is UNKNOWN is judged like any other: a
  maximum age of 30 days from an UNKNOWN source is a PASS.
\<close>

theorem account_policy_unknown_source_passes:
  "status_of (ap_example ''PC-01'' ''UNKNOWN'' [(''maximum_password_age_days'', PInt 30)] None) =
     Some ''PASS''"
  by code_simp

end
