(* ===== verification/Service_Management.thy ===== *)
theory Service_Management
  imports Rule_Inputs
begin

section \<open>Service management rules (\<^verbatim>\<open>rule_engine/service_management.py\<close>)\<close>

text \<open>
  The registry of PC-04 (shares), PC-05 (services), PC-06 (messengers), PC-08 (multi-boot) and
  PC-09 (browser cache).  Each Korean literal is a constant
  named after its English meaning and given by the hexadecimal digits of its UTF-8 encoding.
\<close>

subsection \<open>Texts\<close>

definition sm_ko_inspection_information_not_obtained :: string where
  "sm_ko_inspection_information_not_obtained =
     hex_text ''eca090eab28020eca095ebb3b4eba5bc20eab080eca0b8ec98a4eca78020ebaabbed95a8''"

definition sm_ko_required_information_collected_without_error :: string where
  "sm_ko_required_information_collected_without_error =
     hex_text ''ed9584ec889820eca095ebb3b4eba5bc20ec98a4eba59820ec9786ec9db420ec8898eca791''"

definition sm_ko_collection_error :: string where
  "sm_ko_collection_error =
     hex_text ''ec8898eca79120ec98a4eba598''"

definition sm_ko_default_shares :: string where
  "sm_ko_default_shares =
     hex_text ''eab8b0ebb3b820eab3b5ec9ca020''"

definition sm_ko_then_unrestricted_everyone :: string where
  "sm_ko_then_unrestricted_everyone =
     hex_text ''eab09c2c2045766572796f6e6520ebacb4eca09ced959c20''"

definition sm_ko_of :: string where
  "sm_ko_of =
     hex_text ''eab09c2c20''"

definition sm_ko_least_privilege_violations :: string where
  "sm_ko_least_privilege_violations =
     hex_text ''ecb59cec868c20eab68ced959c20ec9c84ebb09820''"

definition sm_ko_then_authentication_missing :: string where
  "sm_ko_then_authentication_missing =
     hex_text ''eab09c2c20ec9db8eca69d20eb8884eb9dbd20''"

definition sm_ko_units :: string where
  "sm_ko_units =
     hex_text ''eab09c''"

definition sm_ko_register_approved_shares_and_permissions :: string where
  "sm_ko_register_approved_shares_and_permissions =
     hex_text ''ec8ab9ec9db8eb909c20ec9785ebacb420eab3b5ec9ca0ec998020eab68ced959c20eab8b0eca48020eb93b1eba19d''"

definition sm_ko_no_organization_standard :: string where
  "sm_ko_no_organization_standard =
     hex_text ''eca1b0eca78120eab8b0eca48020ec9786ec9d8c''"

definition sm_ko_no_default_shares_least_privilege_and_authentication :: string where
  "sm_ko_no_default_shares_least_privilege_and_authentication =
     hex_text ''ebb688ed9584ec9a94ed959c20eab8b0ebb3b820eab3b5ec9ca020ec9786ec9d8c2c20ec8ab9ec9db8eb909c20eab3b5ec9ca0eba78c20ecb59cec868c20eab68ced959cc2b7ec9db8eca69d20eca081ec9aa9''"

definition sm_ko_organization_share_standards :: string where
  "sm_ko_organization_share_standards =
     hex_text ''eca1b0eca78120eab3b5ec9ca020eab8b0eca48020''"

definition sm_ko_designated_unnecessary :: string where
  "sm_ko_designated_unnecessary =
     hex_text ''ebb688ed9584ec9a9420eca780eca09520''"

definition sm_ko_of_these_running :: string where
  "sm_ko_of_these_running =
     hex_text ''eab09c20eca49120ec8ba4ed968920''"

definition sm_ko_then_automatic_start :: string where
  "sm_ko_then_automatic_start =
     hex_text ''eab09c2c20ec9e90eb8f9920ec8b9cec9e9120''"

definition sm_ko_register_the_unnecessary_services :: string where
  "sm_ko_register_the_unnecessary_services =
     hex_text ''eca1b0eca781ec9790ec849c20ebb688ed9584ec9a9420ec849cebb984ec8aa420ebaaa9eba19d20eb93b1eba19d''"

definition sm_ko_organization_list :: string where
  "sm_ko_organization_list =
     hex_text ''eca1b0eca78120ebaaa9eba19d20''"

definition sm_ko_of_them_all_checked :: string where
  "sm_ko_of_them_all_checked =
     hex_text ''eab09ceba5bc20ebaaa8eb919020ed9995ec9db8''"

definition sm_ko_comparison_with_the_standard_incomplete :: string where
  "sm_ko_comparison_with_the_standard_incomplete =
     hex_text ''eab8b0eca48020eb8c80eca1b020ebb688ec9984eca084''"

definition sm_ko_stop_designated_services_and_their_automatic_start :: string where
  "sm_ko_stop_designated_services_and_their_automatic_start =
     hex_text ''eca1b0eca781ec9db420ebb688ed9584ec9a94ed9598eb8ba4eab3a020eca780eca095ed959c20ec849cebb984ec8aa4eb8a9420eca491eca780ed9598eab3a020ec9e90eb8f9920ec8b9cec9e9120ed95b4eca09c''"

definition sm_ko_organization_service_standards :: string where
  "sm_ko_organization_service_standards =
     hex_text ''eca1b0eca78120ec849cebb984ec8aa420eab8b0eca48020''"

definition sm_ko_deny_list :: string where
  "sm_ko_deny_list =
     hex_text ''eab888eca78020ebaaa9eba19d20''"

definition sm_ko_compared_installed :: string where
  "sm_ko_compared_installed =
     hex_text ''eab09c20eb8c80eca1b02c20ec84a4ecb99820''"

definition sm_ko_then_running :: string where
  "sm_ko_then_running =
     hex_text ''eab09c2c20ec8ba4ed968920''"

definition sm_ko_identification_uncertain :: string where
  "sm_ko_identification_uncertain =
     hex_text ''ec8b9debb38420ebb688ed9995ec8ba420''"

definition sm_ko_register_allowed_and_denied_messengers :: string where
  "sm_ko_register_allowed_and_denied_messengers =
     hex_text ''eca1b0eca781ec9790ec849c20ed9788ec9aa9c2b7eab888eca78020eba994ec8ba0eca08020eab8b0eca48020eb93b1eba19d''"

definition sm_ko_identify_the_product_then_compare :: string where
  "sm_ko_identify_the_product_then_compare =
     hex_text ''eca09ced9288ec9d8420ed9995ec8ba4ed9598eab28c20ec8b9debb384ed959c20eb92a420eab888eca78020ebaaa9eba19deab3bc20eb8c80eca1b0''"

definition sm_ko_product_identification_to_be_confirmed :: string where
  "sm_ko_product_identification_to_be_confirmed =
     hex_text ''eca09ced928820ec8b9debb38420ed9995ec9db820ed9584ec9a94''"

definition sm_ko_denied_messengers_neither_installed_nor_running :: string where
  "sm_ko_denied_messengers_neither_installed_nor_running =
     hex_text ''eca1b0eca781ec9db420eab888eca780ed959c20eba994ec8ba0eca080eab08020ec84a4ecb998c2b7ec8ba4ed9689eb9098eca78020ec958aec9d8c''"

definition sm_ko_organization_messenger_standards :: string where
  "sm_ko_organization_messenger_standards =
     hex_text ''eca1b0eca78120eba994ec8ba0eca08020eab8b0eca48020''"

definition sm_ko_bootable_os :: string where
  "sm_ko_bootable_os =
     hex_text ''ebb680ed8c8520eab080eb8aa5ed959c204f5320''"

definition sm_ko_then_excluded_recovery :: string where
  "sm_ko_then_excluded_recovery =
     hex_text ''eab09c2028eca09cec99b83a20ebb3b5eab5ac20''"

definition sm_ko_then_diagnostic :: string where
  "sm_ko_then_diagnostic =
     hex_text ''2c20eca784eb8ba820''"

definition sm_ko_virtualization :: string where
  "sm_ko_virtualization =
     hex_text ''eab080ec8381ed999420''"

definition sm_ko_one_os_that_really_boots :: string where
  "sm_ko_one_os_that_really_boots =
     hex_text ''ec8ba4eca09c20ebb680ed8c8520eab080eb8aa5ed959c204f532031eab09c''"

definition sm_ko_boot_configuration :: string where
  "sm_ko_boot_configuration =
     hex_text ''ebb680ed8c8520eab5acec84b1''"

definition sm_ko_one_bootable_os_without_recovery_diagnostic_virtualization :: string where
  "sm_ko_one_bootable_os_without_recovery_diagnostic_virtualization =
     hex_text ''ebb3b5eab5acc2b7eca784eb8ba8c2b7eab080ec8381ed999420ed95adebaaa9ec9d8420eca09cec99b8ed959c20ebb680ed8c8520eab080eb8aa5ed959c204f532031eab09c''"

definition sm_ko_use_of_ie_ie_mode_wininet_not_determined :: string where
  "sm_ko_use_of_ie_ie_mode_wininet_not_determined =
     hex_text ''4945c2b7494520ebaaa8eb939cc2b757696e494e657420ec82acec9aa920ec97acebb680eba5bc20ed9995eca095ed9598eca78020ebaabbed95a8''"

definition sm_ko_confirm_the_organization_scope_first :: string where
  "sm_ko_confirm_the_organization_scope_first =
     hex_text ''eca1b0eca78120ec82acec9aa920ebb294ec9c84eba5bc20eba8bceca08020ed9995ec9db8''"

definition sm_ko_applicability_to_be_confirmed :: string where
  "sm_ko_applicability_to_be_confirmed =
     hex_text ''eca081ec9aa9ec84b120ed9995ec9db820ed9584ec9a94''"

definition sm_ko_ie_ie_mode_wininet_not_used_in_the_organization :: string where
  "sm_ko_ie_ie_mode_wininet_not_used_in_the_organization =
     hex_text ''eca1b0eca78120ebb294ec9c84ec9790ec849c204945c2b7494520ebaaa8eb939cc2b757696e494e6574ec9d8420ec82acec9aa9ed9598eca78020ec958aec9d8c''"

definition sm_ko_evaluated_only_where_the_technology_is_used :: string where
  "sm_ko_evaluated_only_where_the_technology_is_used =
     hex_text ''ed95b4eb8bb920eab8b0ec88a0ec9d8420ec82acec9aa9ed95a020eb958ceba78c20ed8f89eab080''"

definition sm_ko_not_applicable :: string where
  "sm_ko_not_applicable =
     hex_text ''eca081ec9aa920eb8c80ec838120ec9584eb8b98''"

definition sm_ko_claim_of_non_use_not_confirmed :: string where
  "sm_ko_claim_of_non_use_not_confirmed =
     hex_text ''ebafb8ec82acec9aa920eca3bcec9ea5ec9d8420ecb6a9ebb684ed9e8820ed9995ec9db8ed9598eca78020ebaabbed95a8''"

definition sm_ko_confirm_the_organization_and_user_scope :: string where
  "sm_ko_confirm_the_organization_and_user_scope =
     hex_text ''eca1b0eca78120ec82acec9aa920ebb294ec9c84ec998020ec82acec9aa9ec9e9020ebb294ec9c8420ed9995ec9db8''"

definition sm_ko_no_user_evaluated :: string where
  "sm_ko_no_user_evaluated =
     hex_text ''ed8f89eab080ed959c20ec82acec9aa9ec9e90eab08020ec9786ec9d8c''"

definition sm_ko_settings_of_all_users_confirmed :: string where
  "sm_ko_settings_of_all_users_confirmed =
     hex_text ''eca081ec9aa920ec82acec9aa9ec9e9020eca084ecb2b4ec9d9820ec84a4eca09520ed9995ec9db8''"

definition sm_ko_user_scope_error :: string where
  "sm_ko_user_scope_error =
     hex_text ''ec82acec9aa9ec9e9020ebb294ec9c8420ec98a4eba598''"

definition sm_ko_current_user_confirmed_but_the_organization_users :: string where
  "sm_ko_current_user_confirmed_but_the_organization_users =
     hex_text ''ed9884ec9eac20ec82acec9aa9ec9e9020ec84a4eca095ec9d8020ed9995ec9db8ed9688ec9cbceb829820eca1b0eca781ec9d9820eca084ecb2b420ec82acec9aa9ec9e9020ebb294ec9c84eba5bc20''"

definition sm_ko_could_not_be_confirmed :: string where
  "sm_ko_could_not_be_confirmed =
     hex_text ''ed9995ec9db8ed9598eca78020ebaabbed95a8''"

definition sm_ko_settings_of_all_users_of_ie_ie_mode_wininet :: string where
  "sm_ko_settings_of_all_users_of_ie_ie_mode_wininet =
     hex_text ''4945c2b7494520ebaaa8eb939cc2b757696e494e6574ec9d8420ec82acec9aa9ed9598eb8a9420eca084ecb2b420ec82acec9aa9ec9e9020ec84a4eca09520ed9995ec9db8''"

definition sm_ko_user_scope_to_be_confirmed :: string where
  "sm_ko_user_scope_to_be_confirmed =
     hex_text ''ec82acec9aa9ec9e9020ebb294ec9c8420ed9995ec9db820ed9584ec9a94''"

definition sm_ko_temporary_internet_files_deleted_on_exit :: string where
  "sm_ko_temporary_internet_files_deleted_on_exit =
     hex_text ''eca285eba38c20ec8b9c20ec9e84ec8b9c20ec9db8ed84b0eb84b720ed8c8cec9dbc20ec82adeca09c20''"

definition sm_ko_used :: string where
  "sm_ko_used =
     hex_text ''ec82acec9aa9''"

definition sm_ko_not_used :: string where
  "sm_ko_not_used =
     hex_text ''ec82acec9aa920ec958820ed95a8''"

definition sm_ko_users_confirmed :: string where
  "sm_ko_users_confirmed =
     hex_text ''ebaa8520ed9995ec9db829''"

definition sm_ko_deletion_on_exit_of_ie_ie_mode_wininet_used :: string where
  "sm_ko_deletion_on_exit_of_ie_ie_mode_wininet_used =
     hex_text ''4945c2b7494520ebaaa8eb939cc2b757696e494e657420eca285eba38c20ec8b9c20ec9e84ec8b9c20ec9db8ed84b0eb84b720ed8c8cec9dbc20ec82adeca09c20ec82acec9aa9''"

definition sm_ko_browser_policy_per_user :: string where
  "sm_ko_browser_policy_per_user =
     hex_text ''ec82acec9aa9ec9e90ebb38420ebb88ceb9dbcec9ab0eca08020eca095ecb185''"

subsection \<open>Errors, decisions and the allowlist\<close>

datatype service_management_error = ServiceManagementRuleError string

record service_management_decision = decision +
  sm_scope_label :: string

definition sm_asset_parameters :: dict where
  "sm_asset_parameters =
    [(''subject_scope'', PStr ''ASSET''),
     (''supported_windows_versions'', str_list [''11'']),
     (''unresolved_scope_status'', PStr ''ERROR'')]"

definition sm_rules :: "(string \<times> scoped_rule_def) list" where
  "sm_rules =
    [(''PC-04'',
      \<lparr>rd_probe_id = ''win.network.smb-shares'',
       rd_applicability = (''pc04.share-applicability'', ''0.1.0''),
       rd_evaluation = (''pc04.share-access'', ''0.1.0''),
       rd_applicability_parameters = sm_asset_parameters,
       rd_evaluation_parameters =
         [(''organization_policy_required'', PBool True),
          (''default_admin_share_count_maximum'', PInt 0),
          (''unrestricted_everyone_share_count_maximum'', PInt 0),
          (''least_privilege_violation_count_maximum'', PInt 0),
          (''authentication_gap_count_maximum'', PInt 0),
          (''auto_share_wks_disabled_required'', PBool True),
          (''missing_organization_policy_status'', PStr ''REVIEW''),
          (''collection_failure_status'', PStr ''ERROR'')],
       rd_subject_scope = ''ASSET''\<rparr>),
     (''PC-05'',
      \<lparr>rd_probe_id = ''win.services.inventory'',
       rd_applicability = (''pc05.service-applicability'', ''0.1.0''),
       rd_evaluation = (''pc05.unnecessary-services'', ''0.1.0''),
       rd_applicability_parameters = sm_asset_parameters,
       rd_evaluation_parameters =
         [(''organization_policy_required'', PBool True),
          (''running_unnecessary_service_count_maximum'', PInt 0),
          (''automatic_unnecessary_service_count_maximum'', PInt 0),
          (''missing_organization_policy_status'', PStr ''REVIEW''),
          (''collection_failure_status'', PStr ''ERROR'')],
       rd_subject_scope = ''ASSET''\<rparr>),
     (''PC-06'',
      \<lparr>rd_probe_id = ''win.software.messengers'',
       rd_applicability = (''pc06.messenger-applicability'', ''0.1.0''),
       rd_evaluation = (''pc06.unapproved-messengers'', ''0.1.0''),
       rd_applicability_parameters = sm_asset_parameters,
       rd_evaluation_parameters =
         [(''organization_policy_required'', PBool True),
          (''installed_denied_product_count_maximum'', PInt 0),
          (''running_denied_product_count_maximum'', PInt 0),
          (''low_confidence_match_status'', PStr ''REVIEW''),
          (''missing_organization_policy_status'', PStr ''REVIEW''),
          (''collection_failure_status'', PStr ''ERROR'')],
       rd_subject_scope = ''ASSET''\<rparr>),
     (''PC-08'',
      \<lparr>rd_probe_id = ''win.boot.entries'',
       rd_applicability = (''pc08.multiboot-applicability'', ''0.1.0''),
       rd_evaluation = (''pc08.bootable-os-count'', ''0.1.0''),
       rd_applicability_parameters =
         [(''subject_scope'', PStr ''ASSET''),
          (''excluded_entry_types'', str_list [''RECOVERY'', ''DIAGNOSTIC'', ''VIRTUALIZATION'']),
          (''wsl_is_multiboot'', PBool False),
          (''hyper_v_guest_is_multiboot'', PBool False)],
       rd_evaluation_parameters =
         [(''maximum_bootable_os_count'', PInt 1),
          (''zero_bootable_os_status'', PStr ''ERROR''),
          (''multiple_bootable_os_status'', PStr ''FAIL''),
          (''collection_failure_status'', PStr ''ERROR'')],
       rd_subject_scope = ''ASSET''\<rparr>),
     (''PC-09'',
      \<lparr>rd_probe_id = ''win.browser.wininet-cache-policy'',
       rd_applicability = (''pc09.wininet-applicability'', ''0.1.0''),
       rd_evaluation = (''pc09.empty-cache-on-exit'', ''0.1.0''),
       rd_applicability_parameters =
         [(''applicable_uses'', str_list [''IE_DESKTOP'', ''IE_MODE'', ''WININET'']),
          (''not_applicable_requires_scope_confirmation'', PBool True),
          (''unknown_applicability_status'', PStr ''REVIEW'')],
       rd_evaluation_parameters =
         [(''required_value'', PBool True),
          (''enabled_status'', PStr ''PASS''),
          (''disabled_status'', PStr ''FAIL''),
          (''not_applicable_status'', PStr ''N/A''),
          (''collection_failure_status'', PStr ''ERROR'')],
       rd_subject_scope = ''POLICY''\<rparr>)]"

subsection \<open>Helpers\<close>

definition sm_reject :: "string \<Rightarrow> (service_management_error, 'a) result" where
  "sm_reject message = raise_error (ServiceManagementRuleError message)"

definition sm_string :: "pyval \<Rightarrow> string \<Rightarrow> (service_management_error, string) result" where
  "sm_string = as_string ServiceManagementRuleError"

definition sm_integer :: "pyval \<Rightarrow> string \<Rightarrow> (service_management_error, int) result" where
  "sm_integer = as_integer ServiceManagementRuleError"

definition sm_boolean :: "pyval \<Rightarrow> string \<Rightarrow> (service_management_error, bool) result" where
  "sm_boolean = as_boolean ServiceManagementRuleError"

definition sm_policy_ids ::
  "policy \<Rightarrow> string \<Rightarrow> (service_management_error, string list option) result" where
  "sm_policy_ids organization_policy field =
     (case organization_policy of
        None \<Rightarrow> Inr None
      | Some p \<Rightarrow>
          bindE (sm_string (py_get p ''standard_id'') ''Organization standard ID is invalid.'') (\<lambda>_.
          bindE (sm_string (py_get p ''version'') ''Organization standard version is invalid.'') (\<lambda>_.
          (case py_get p field of
             PList items \<Rightarrow>
               bindE (mapE (\<lambda>item. sm_string item
                        (''Organization policy field '' @ field @ '' contains an invalid ID.'')) items)
                 (\<lambda>identifiers.
                    if \<not> distinct identifiers
                    then sm_reject (''Organization policy field '' @ field @ '' contains duplicate IDs.'')
                    else Inr (Some identifiers))
           | _ \<Rightarrow> sm_reject (''Organization policy field '' @ field @ '' is invalid.'')))))"

definition sm_decision ::
  "string \<Rightarrow> string \<Rightarrow> string \<Rightarrow> string \<Rightarrow> string \<Rightarrow> string \<Rightarrow> string list \<Rightarrow>
     service_management_decision" where
  "sm_decision control_id status result_code actual expected scope_label error_codes =
     \<lparr>dec_control_id = control_id,
      dec_status = status,
      dec_result_code = result_code,
      dec_actual = actual,
      dec_expected = expected,
      dec_rationale_code = result_code,
      dec_error_codes = error_codes,
      sm_scope_label = scope_label\<rparr>"

definition sm_collection_error :: "string \<Rightarrow> string \<Rightarrow> service_management_decision" where
  "sm_collection_error control_id error_code =
     sm_decision control_id ''ERROR''
       (replace_char (CHR ''-'') [] control_id @ ''_COLLECTION_FAILED'')
       sm_ko_inspection_information_not_obtained
       sm_ko_required_information_collected_without_error
       sm_ko_collection_error [error_code]"

abbreviation sm_count :: "string list \<Rightarrow> string" where
  "sm_count ids \<equiv> int_str (int (length ids))"

subsection \<open>The five rules\<close>

definition sm_evaluate_pc04 ::
  "dict \<Rightarrow> policy \<Rightarrow> (service_management_error, service_management_decision) result" where
  "sm_evaluate_pc04 v policy =
     bindE (sm_integer (py_get v ''default_admin_share_count'') ''Share count is invalid.'')
       (\<lambda>unnecessary.
     bindE (sm_integer (py_get v ''unrestricted_everyone_share_count'')
              ''Everyone share count is invalid.'') (\<lambda>everyone.
     bindE (sm_integer (py_get v ''least_privilege_violation_count'')
              ''Least privilege count is invalid.'') (\<lambda>least_privilege.
     bindE (sm_integer (py_get v ''authentication_gap_count'')
              ''Authentication gap count is invalid.'') (\<lambda>authentication.
     bindE (sm_boolean (py_get v ''auto_share_wks_disabled'') ''AutoShareWks state is invalid.'')
       (\<lambda>auto_share_disabled.
     bindE (sm_policy_ids policy ''approved_share_ids'') (\<lambda>policy_ids.
       let actual = sm_ko_default_shares @ int_str unnecessary @
             sm_ko_then_unrestricted_everyone @ int_str everyone @ sm_ko_of @
             sm_ko_least_privilege_violations @ int_str least_privilege @
             sm_ko_then_authentication_missing @ int_str authentication @ sm_ko_units
       in case policy_ids of
            None \<Rightarrow>
              Inr (sm_decision ''PC-04'' ''REVIEW'' ''ORGANIZATION_SHARE_STANDARD_REQUIRED'' actual
                sm_ko_register_approved_shares_and_permissions
                sm_ko_no_organization_standard [])
          | Some ids \<Rightarrow>
              let compliant = (unnecessary = 0 \<and> everyone = 0 \<and> least_privilege = 0 \<and>
                    authentication = 0 \<and> auto_share_disabled)
              in Inr (sm_decision ''PC-04''
                   (if compliant then ''PASS'' else ''FAIL'')
                   (if compliant then ''SHARES_APPROVED_AND_LEAST_PRIVILEGE''
                    else ''UNNECESSARY_OR_UNRESTRICTED_SHARE_FOUND'')
                   actual
                   sm_ko_no_default_shares_least_privilege_and_authentication
                   (sm_ko_organization_share_standards @ sm_count ids @ sm_ko_units) [])))))))"

definition sm_evaluate_pc05 ::
  "dict \<Rightarrow> policy \<Rightarrow> (service_management_error, service_management_decision) result" where
  "sm_evaluate_pc05 v policy =
     bindE (sm_integer (py_get v ''evaluated_unnecessary_service_count'')
              ''Evaluated service count is invalid.'') (\<lambda>evaluated.
     bindE (sm_integer (py_get v ''running_unnecessary_service_count'')
              ''Running service count is invalid.'') (\<lambda>running.
     bindE (sm_integer (py_get v ''automatic_unnecessary_service_count'')
              ''Automatic service count is invalid.'') (\<lambda>automatic.
     bindE (sm_policy_ids policy ''unnecessary_service_ids'') (\<lambda>policy_ids.
       let actual = sm_ko_designated_unnecessary @ int_str evaluated @
             sm_ko_of_these_running @ int_str running @
             sm_ko_then_automatic_start @ int_str automatic @ sm_ko_units
       in case policy_ids of
            None \<Rightarrow>
              Inr (sm_decision ''PC-05'' ''REVIEW'' ''ORGANIZATION_SERVICE_STANDARD_REQUIRED'' actual
                sm_ko_register_the_unnecessary_services
                sm_ko_no_organization_standard [])
          | Some ids \<Rightarrow>
              if evaluated \<noteq> int (length ids) then
                Inr (sm_decision ''PC-05'' ''ERROR'' ''SERVICE_POLICY_COVERAGE_INCOMPLETE'' actual
                  (sm_ko_organization_list @ sm_count ids @ sm_ko_of_them_all_checked)
                  sm_ko_comparison_with_the_standard_incomplete
                  [''EVIDENCE_INCOMPLETE''])
              else
                let compliant = (running = 0 \<and> automatic = 0)
                in Inr (sm_decision ''PC-05''
                     (if compliant then ''PASS'' else ''FAIL'')
                     (if compliant then ''UNNECESSARY_SERVICES_STOPPED''
                      else ''UNNECESSARY_SERVICE_RUNNING_OR_AUTOMATIC'')
                     actual
                     sm_ko_stop_designated_services_and_their_automatic_start
                     (sm_ko_organization_service_standards @ sm_count ids @ sm_ko_units) [])))))"

definition sm_evaluate_pc06 ::
  "dict \<Rightarrow> policy \<Rightarrow> (service_management_error, service_management_decision) result" where
  "sm_evaluate_pc06 v policy =
     bindE (sm_integer (py_get v ''evaluated_denied_product_count'')
              ''Evaluated product count is invalid.'') (\<lambda>evaluated.
     bindE (sm_integer (py_get v ''installed_denied_product_count'')
              ''Installed product count is invalid.'') (\<lambda>installed.
     bindE (sm_integer (py_get v ''running_denied_product_count'')
              ''Running product count is invalid.'') (\<lambda>running.
     bindE (sm_integer (py_get v ''low_confidence_match_count'')
              ''Low-confidence count is invalid.'') (\<lambda>low_confidence.
     bindE (sm_policy_ids policy ''denied_product_ids'') (\<lambda>policy_ids.
       let actual = sm_ko_deny_list @ int_str evaluated @
             sm_ko_compared_installed @ int_str installed @
             sm_ko_then_running @ int_str running @ sm_ko_of @
             sm_ko_identification_uncertain @ int_str low_confidence @ sm_ko_units
       in case policy_ids of
            None \<Rightarrow>
              Inr (sm_decision ''PC-06'' ''REVIEW'' ''ORGANIZATION_MESSENGER_STANDARD_REQUIRED'' actual
                sm_ko_register_allowed_and_denied_messengers
                sm_ko_no_organization_standard [])
          | Some ids \<Rightarrow>
              if evaluated \<noteq> int (length ids) then
                Inr (sm_decision ''PC-06'' ''ERROR'' ''MESSENGER_POLICY_COVERAGE_INCOMPLETE'' actual
                  (sm_ko_organization_list @ sm_count ids @ sm_ko_of_them_all_checked)
                  sm_ko_comparison_with_the_standard_incomplete
                  [''EVIDENCE_INCOMPLETE''])
              else if low_confidence \<noteq> 0 then
                Inr (sm_decision ''PC-06'' ''REVIEW'' ''MESSENGER_IDENTIFICATION_REVIEW_REQUIRED'' actual
                  sm_ko_identify_the_product_then_compare
                  sm_ko_product_identification_to_be_confirmed [])
              else
                let compliant = (installed = 0 \<and> running = 0)
                in Inr (sm_decision ''PC-06''
                     (if compliant then ''PASS'' else ''FAIL'')
                     (if compliant then ''DENIED_MESSENGERS_NOT_PRESENT''
                      else ''DENIED_MESSENGER_INSTALLED_OR_RUNNING'')
                     actual
                     sm_ko_denied_messengers_neither_installed_nor_running
                     (sm_ko_organization_messenger_standards @ sm_count ids @ sm_ko_units)
                     []))))))"

definition sm_evaluate_pc08 ::
  "dict \<Rightarrow> (service_management_error, service_management_decision) result" where
  "sm_evaluate_pc08 v =
     bindE (sm_integer (py_get v ''bootable_os_count'') ''Bootable OS count is invalid.'') (\<lambda>count.
     bindE (sm_integer (py_get v ''excluded_recovery_entry_count'')
              ''Recovery entry count is invalid.'') (\<lambda>recovery.
     bindE (sm_integer (py_get v ''excluded_diagnostic_entry_count'')
              ''Diagnostic entry count is invalid.'') (\<lambda>diagnostic.
     bindE (sm_integer (py_get v ''excluded_virtualization_entry_count'')
              ''Virtualization count is invalid.'') (\<lambda>virtualization.
       let actual = sm_ko_bootable_os @ int_str count @
             sm_ko_then_excluded_recovery @ int_str recovery @
             sm_ko_then_diagnostic @ int_str diagnostic @ '', '' @
             sm_ko_virtualization @ int_str virtualization @ '')''
       in if count = 0 then
            Inr (sm_decision ''PC-08'' ''ERROR'' ''BOOTABLE_OS_NOT_IDENTIFIED'' actual
              sm_ko_one_os_that_really_boots sm_ko_boot_configuration
              [''EVIDENCE_INCOMPLETE''])
          else
            let compliant = (count = 1)
            in Inr (sm_decision ''PC-08''
                 (if compliant then ''PASS'' else ''FAIL'')
                 (if compliant then ''SINGLE_BOOTABLE_OS'' else ''MULTIPLE_BOOTABLE_OS_FOUND'')
                 actual
                 sm_ko_one_bootable_os_without_recovery_diagnostic_virtualization
                 sm_ko_boot_configuration [])))))"

definition sm_evaluate_pc09 ::
  "dict \<Rightarrow> (service_management_error, service_management_decision) result" where
  "sm_evaluate_pc09 v =
     bindE (sm_string (py_get v ''applicability'') ''Applicability is invalid.'') (\<lambda>applicability.
     if applicability \<notin> {''APPLICABLE'', ''NOT_APPLICABLE'', ''UNKNOWN''}
     then sm_reject ''Applicability is not allowlisted.''
     else
     bindE (sm_boolean (py_get v ''ie_desktop_used'') ''IE desktop use state is invalid.'')
       (\<lambda>ie_desktop.
     bindE (sm_boolean (py_get v ''ie_mode_used'') ''IE mode use state is invalid.'') (\<lambda>ie_mode.
     bindE (sm_boolean (py_get v ''wininet_used'') ''WinINet use state is invalid.'') (\<lambda>wininet.
     bindE (sm_boolean (py_get v ''organization_scope_confirmed'')
              ''Scope confirmation state is invalid.'') (\<lambda>confirmed.
     bindE (sm_integer (py_get v ''evaluated_user_count'') ''Evaluated user count is invalid.'')
       (\<lambda>users.
       if applicability = ''UNKNOWN'' then
         Inr (sm_decision ''PC-09'' ''REVIEW'' ''WININET_APPLICABILITY_REVIEW_REQUIRED''
           sm_ko_use_of_ie_ie_mode_wininet_not_determined
           sm_ko_confirm_the_organization_scope_first
           sm_ko_applicability_to_be_confirmed [])
       else if applicability = ''NOT_APPLICABLE'' then
         if confirmed \<and> \<not> (ie_desktop \<or> ie_mode \<or> wininet) then
           Inr (sm_decision ''PC-09'' ''N/A'' ''WININET_NOT_USED_CONFIRMED''
             sm_ko_ie_ie_mode_wininet_not_used_in_the_organization
             sm_ko_evaluated_only_where_the_technology_is_used
             sm_ko_not_applicable [])
         else
           Inr (sm_decision ''PC-09'' ''REVIEW'' ''WININET_NOT_APPLICABLE_CLAIM_UNCONFIRMED''
             sm_ko_claim_of_non_use_not_confirmed
             sm_ko_confirm_the_organization_and_user_scope
             sm_ko_applicability_to_be_confirmed [])
       else if users = 0 then
         Inr (sm_decision ''PC-09'' ''ERROR'' ''WININET_USER_SCOPE_EMPTY''
           sm_ko_no_user_evaluated
           sm_ko_settings_of_all_users_confirmed
           sm_ko_user_scope_error [''EVIDENCE_INCOMPLETE''])
       else
         bindE (sm_boolean (py_get v ''empty_cache_on_exit'') ''Cache-on-exit state is invalid.'')
           (\<lambda>enabled.
           if \<not> confirmed then
             Inr (sm_decision ''PC-09'' ''REVIEW'' ''WININET_USER_COVERAGE_REVIEW_REQUIRED''
               (sm_ko_current_user_confirmed_but_the_organization_users @
                sm_ko_could_not_be_confirmed)
               sm_ko_settings_of_all_users_of_ie_ie_mode_wininet
               sm_ko_user_scope_to_be_confirmed [])
           else
             Inr (sm_decision ''PC-09''
               (if enabled then ''PASS'' else ''FAIL'')
               (if enabled then ''WININET_CACHE_CLEARED_ON_EXIT''
                else ''WININET_CACHE_NOT_CLEARED_ON_EXIT'')
               (sm_ko_temporary_internet_files_deleted_on_exit @
                (if enabled then sm_ko_used else sm_ko_not_used) @
                '' ('' @ int_str users @ sm_ko_users_confirmed)
               sm_ko_deletion_on_exit_of_ie_ie_mode_wininet_used
               sm_ko_browser_policy_per_user []))))))))"

subsection \<open>The registry\<close>

definition sm_evaluate_value ::
  "string \<Rightarrow> policy \<Rightarrow> dict \<Rightarrow> (service_management_error, service_management_decision) result" where
  "sm_evaluate_value control_id organization_policy v =
     (if control_id = ''PC-04'' then sm_evaluate_pc04 v organization_policy
      else if control_id = ''PC-05'' then sm_evaluate_pc05 v organization_policy
      else if control_id = ''PC-06'' then sm_evaluate_pc06 v organization_policy
      else if control_id = ''PC-08'' then sm_evaluate_pc08 v
      else sm_evaluate_pc09 v)"

definition sm_evaluate ::
  "string \<Rightarrow> pyval \<Rightarrow> pyval \<Rightarrow> dict \<Rightarrow> policy \<Rightarrow>
     (service_management_error, service_management_decision) result" where
  "sm_evaluate control_id applicability_rule evaluation_rule evidence organization_policy =
     bindE (admit_call ServiceManagementRuleError
              ''Control rule is not allowlisted by IMP-022.''
              ''Rule parameters differ from the allowlisted version.''
              ''Rule parameters differ from the allowlisted version.''
              ''Evidence subject scope differs from the rule.'' rd_subject_scope
              sm_rules control_id applicability_rule evaluation_rule evidence) (\<lambda>_.
       collection_gate ServiceManagementRuleError ''Normalized value is missing.'' evidence
         (sm_collection_error control_id) (sm_evaluate_value control_id organization_policy))"

subsection \<open>Coherent decisions\<close>

lemmas sm_helpers [rule_defs] = sm_reject_def sm_string_def sm_integer_def sm_boolean_def

lemma sm_decision_simps [simp]:
  "coherent c (sm_decision c' s r a e l errs) \<longleftrightarrow>
     c' = c \<and> s \<in> {''PASS'', ''FAIL'', ''ERROR'', ''REVIEW'', ''N/A''} \<and> r \<noteq> [] \<and>
     (\<forall>code\<in>set errs. code \<noteq> []) \<and> (errs \<noteq> [] \<longleftrightarrow> s = ''ERROR'')"
  "dec_status (sm_decision c' s r a e l errs) = s"
  "dec_error_codes (sm_decision c' s r a e l errs) = errs"
  by (simp_all add: coherent_def sm_decision_def)

lemma sm_rules_domain:
  "map_of sm_rules c = Some r \<Longrightarrow> c \<in> {''PC-04'', ''PC-05'', ''PC-06'', ''PC-08'', ''PC-09''}"
  by (simp add: sm_rules_def split: if_splits)

lemma sm_pc04_coherent: "returns_only (coherent ''PC-04'') (sm_evaluate_pc04 v p)"
  by (simp add: sm_evaluate_pc04_def Let_def split: option.split)

lemma sm_pc05_coherent: "returns_only (coherent ''PC-05'') (sm_evaluate_pc05 v p)"
  by (simp add: sm_evaluate_pc05_def Let_def split: option.split)

lemma sm_pc06_coherent: "returns_only (coherent ''PC-06'') (sm_evaluate_pc06 v p)"
  by (simp add: sm_evaluate_pc06_def Let_def split: option.split)

lemma sm_pc08_coherent: "returns_only (coherent ''PC-08'') (sm_evaluate_pc08 v)"
  by (simp add: sm_evaluate_pc08_def Let_def)

lemma sm_pc09_coherent: "returns_only (coherent ''PC-09'') (sm_evaluate_pc09 v)"
  by (simp add: sm_evaluate_pc09_def rule_defs)

lemmas sm_coherent =
  sm_pc04_coherent sm_pc05_coherent sm_pc06_coherent sm_pc08_coherent sm_pc09_coherent

lemma sm_value_coherent:
  assumes "map_of sm_rules c = Some r"
  shows "returns_only (coherent c) (sm_evaluate_value c x v)"
  using sm_rules_domain [OF assms] by (auto simp: sm_evaluate_value_def sm_coherent)

interpretation sm: decision_registry sm_evaluate sm_rules
proof (rule gated_registry)
  show "sm_evaluate c ar er ev x =
      bindE (admit_call ServiceManagementRuleError
              ''Control rule is not allowlisted by IMP-022.''
              ''Rule parameters differ from the allowlisted version.''
              ''Rule parameters differ from the allowlisted version.''
              ''Evidence subject scope differs from the rule.'' rd_subject_scope
              sm_rules c ar er ev) (\<lambda>pe.
        collection_gate ServiceManagementRuleError ''Normalized value is missing.'' ev
          (sm_collection_error c) ((\<lambda>c pe ev x. sm_evaluate_value c x) c pe ev x))" for c ar er ev x
    by (simp add: sm_evaluate_def)
qed (simp_all add: sm_collection_error_def sm_value_coherent)

subsection \<open>What the rules decide\<close>

lemma list_all2_PStr:
  "list_all2 (\<lambda>item s. item = PStr s \<and> s \<noteq> []) items ids \<longleftrightarrow> items = map PStr ids \<and> [] \<notin> set ids"
  by (induction ids arbitrary: items) (auto simp: list_all2_Cons2)

definition registered_ids :: "policy \<Rightarrow> string \<Rightarrow> string list \<Rightarrow> bool" where
  "registered_ids pol field ids \<longleftrightarrow>
     (\<exists>p. pol = Some p \<and> py_get p field = str_list ids \<and> distinct ids \<and> [] \<notin> set ids)"

lemma sm_policy_ids_Some:
  "sm_policy_ids pol field = Inr (Some ids) \<Longrightarrow> registered_ids pol field ids"
  by (auto simp: sm_policy_ids_def registered_ids_def rule_defs res_simps list_all2_PStr
      split: option.splits pyval.splits if_splits)

lemma sm_policy_ids_None: "sm_policy_ids pol field = Inr None \<Longrightarrow> pol = None"
  by (auto simp: sm_policy_ids_def rule_defs res_simps split: option.splits pyval.splits if_splits)

lemma registered_ids_unique:
  "registered_ids pol field ids \<Longrightarrow> registered_ids pol field ids' \<longleftrightarrow> ids' = ids"
  by (auto simp: registered_ids_def map_eq_conv inj_map_eq_map inj_def)

definition sm_compliant :: "string \<Rightarrow> dict \<Rightarrow> bool" where
  "sm_compliant c v \<longleftrightarrow>
     (if c = ''PC-04'' then
        py_get v ''default_admin_share_count'' = PInt 0 \<and>
        py_get v ''unrestricted_everyone_share_count'' = PInt 0 \<and>
        py_get v ''least_privilege_violation_count'' = PInt 0 \<and>
        py_get v ''authentication_gap_count'' = PInt 0 \<and>
        py_get v ''auto_share_wks_disabled'' = PBool True
      else if c = ''PC-05'' then
        py_get v ''running_unnecessary_service_count'' = PInt 0 \<and>
        py_get v ''automatic_unnecessary_service_count'' = PInt 0
      else if c = ''PC-06'' then
        py_get v ''installed_denied_product_count'' = PInt 0 \<and>
        py_get v ''running_denied_product_count'' = PInt 0
      else if c = ''PC-08'' then py_get v ''bootable_os_count'' = PInt 1
      else py_get v ''empty_cache_on_exit'' = PBool True)"

definition sm_decidable :: "string \<Rightarrow> dict \<Rightarrow> policy \<Rightarrow> bool" where
  "sm_decidable c v pol \<longleftrightarrow>
     (if c = ''PC-04'' then \<exists>ids. registered_ids pol ''approved_share_ids'' ids
      else if c = ''PC-05'' then
        \<exists>ids. registered_ids pol ''unnecessary_service_ids'' ids \<and>
          py_get v ''evaluated_unnecessary_service_count'' = PInt (int (length ids))
      else if c = ''PC-06'' then
        py_get v ''low_confidence_match_count'' = PInt 0 \<and>
        (\<exists>ids. registered_ids pol ''denied_product_ids'' ids \<and>
          py_get v ''evaluated_denied_product_count'' = PInt (int (length ids)))
      else if c = ''PC-08'' then py_get v ''bootable_os_count'' \<noteq> PInt 0
      else py_get v ''applicability'' = PStr ''APPLICABLE'' \<and>
        py_get v ''evaluated_user_count'' \<noteq> PInt 0 \<and>
        py_get v ''organization_scope_confirmed'' = PBool True)"

lemma sm_pc04_verdict:
  "returns_only (judged_by (sm_decidable ''PC-04'' v pol) (sm_compliant ''PC-04'' v))
     (sm_evaluate_pc04 v pol)"
  by (simp add: judged_by_def sm_evaluate_pc04_def rule_defs res_simps Let_def sm_compliant_def
      sm_decidable_def split: option.split)
    (auto dest: sm_policy_ids_None sm_policy_ids_Some simp: registered_ids_def)

lemma sm_pc05_verdict:
  "returns_only (judged_by (sm_decidable ''PC-05'' v pol) (sm_compliant ''PC-05'' v))
     (sm_evaluate_pc05 v pol)"
  by (simp add: judged_by_def sm_evaluate_pc05_def rule_defs res_simps Let_def sm_compliant_def
      sm_decidable_def split: option.split)
    (auto dest!: sm_policy_ids_None sm_policy_ids_Some simp: registered_ids_unique
      simp: registered_ids_def [of None])

lemma sm_pc06_verdict:
  "returns_only (judged_by (sm_decidable ''PC-06'' v pol) (sm_compliant ''PC-06'' v))
     (sm_evaluate_pc06 v pol)"
  by (simp add: judged_by_def sm_evaluate_pc06_def rule_defs res_simps Let_def sm_compliant_def
      sm_decidable_def split: option.split)
    (auto dest!: sm_policy_ids_None sm_policy_ids_Some simp: registered_ids_unique
      simp: registered_ids_def [of None])

lemma sm_pc08_verdict:
  "returns_only (judged_by (sm_decidable ''PC-08'' v pol) (sm_compliant ''PC-08'' v))
     (sm_evaluate_pc08 v)"
  by (simp add: judged_by_def sm_evaluate_pc08_def rule_defs res_simps Let_def sm_compliant_def
      sm_decidable_def)

lemma sm_pc09_verdict:
  "returns_only (judged_by (sm_decidable ''PC-09'' v pol) (sm_compliant ''PC-09'' v))
     (sm_evaluate_pc09 v)"
  by (simp add: judged_by_def sm_evaluate_pc09_def rule_defs res_simps Let_def sm_compliant_def
      sm_decidable_def)

lemma sm_value_verdict:
  assumes "map_of sm_rules c = Some r"
  shows "returns_only (judged_by (sm_decidable c v pol) (sm_compliant c v))
           (sm_evaluate_value c pol v)"
  using sm_rules_domain [OF assms] sm_pc04_verdict sm_pc05_verdict sm_pc06_verdict
    sm_pc08_verdict sm_pc09_verdict
  by (auto simp: sm_evaluate_value_def)

lemma sm_evaluate_collected:
  assumes "sm_evaluate c ar er ev pol = Inr d"
    and "py_get ev ''collection_status'' = PStr ''COLLECTED''"
  shows "\<exists>v r. py_get ev ''normalized_value'' = PDict v \<and> map_of sm_rules c = Some r \<and>
           sm_evaluate_value c pol v = Inr d"
proof -
  from assms have "\<exists>v. py_get ev ''normalized_value'' = PDict v \<and> sm_evaluate_value c pol v = Inr d"
    by (auto simp: sm_evaluate_def bindE_eq_Inr collection_gate_eq_Inr)
  with sm.allowlist [OF assms(1)] show ?thesis by blast
qed

text \<open>
  C38: The service rules pass and fail exactly on their criteria.  A decision for PC-04, 05, 06, 08
  or 09 is PASS if and only if the evidence was collected, the criterion can be applied (the
  organization list is registered, free of duplicates and fully covered by the collected counts,
  nothing is identified with low confidence, some OS was identified, the browser scope is
  confirmed) and is met; it is FAIL if and only if it can be applied and is not met.
\<close>

theorem service_management_verdict:
  assumes "sm_evaluate c ar er ev pol = Inr d"
  shows "(dec_status d = ''PASS'' \<longleftrightarrow>
            (\<exists>v. py_get ev ''collection_status'' = PStr ''COLLECTED'' \<and>
               py_get ev ''normalized_value'' = PDict v \<and>
               sm_decidable c v pol \<and> sm_compliant c v)) \<and>
         (dec_status d = ''FAIL'' \<longleftrightarrow>
            (\<exists>v. py_get ev ''collection_status'' = PStr ''COLLECTED'' \<and>
               py_get ev ''normalized_value'' = PDict v \<and>
               sm_decidable c v pol \<and> \<not> sm_compliant c v))"
proof (cases "py_get ev ''collection_status'' = PStr ''COLLECTED''")
  case True
  from sm_evaluate_collected [OF assms True] obtain v r where
    v: "py_get ev ''normalized_value'' = PDict v" "sm_evaluate_value c pol v = Inr d" and
    r: "map_of sm_rules c = Some r" by blast
  from returns_onlyD [OF sm_value_verdict [OF r] v(2)] v(1) True show ?thesis
    by (simp add: judged_by_def)
next
  case False
  with sm.uncollected [OF assms] show ?thesis by simp
qed

definition sm_example_policy :: dict where
  "sm_example_policy =
     [(''standard_id'', PStr ''ORG-SVC''), (''version'', PStr ''1''),
      (''unnecessary_service_ids'', str_list [''telnet'', ''ftp''])]"

definition sm_example_value :: dict where
  "sm_example_value =
     [(''evaluated_unnecessary_service_count'', PInt 2),
      (''running_unnecessary_service_count'', PInt 0),
      (''automatic_unnecessary_service_count'', PInt 0)]"

theorem service_management_verdict_witness:
  "status_of (example_call sm_evaluate sm_rules ''PC-05'' ''ASSET'' [] sm_example_value
     (Some sm_example_policy)) = Some ''PASS''"
proof -
  have "is_ok (example_call sm_evaluate sm_rules ''PC-05'' ''ASSET'' [] sm_example_value
     (Some sm_example_policy))"
    by code_simp
  then obtain d where
    d: "example_call sm_evaluate sm_rules ''PC-05'' ''ASSET'' [] sm_example_value
     (Some sm_example_policy) = Inr d"
    by (auto simp: is_ok_iff)
  have "registered_ids (Some sm_example_policy) ''unnecessary_service_ids'' [''telnet'', ''ftp'']"
    by (simp add: registered_ids_def sm_example_policy_def)
  then have "sm_decidable ''PC-05'' sm_example_value (Some sm_example_policy)"
    by (auto simp: sm_decidable_def sm_example_value_def)
  with service_management_verdict [OF d [unfolded example_call_def Let_def]] d show ?thesis
    by (simp add: status_of_def sm_compliant_def sm_example_value_def)
qed

lemma sm_value_na:
  assumes "map_of sm_rules c = Some r"
  shows "returns_only (\<lambda>d. dec_status d = ''N/A'' \<longleftrightarrow> c = ''PC-09'' \<and>
           py_get v ''applicability'' = PStr ''NOT_APPLICABLE'' \<and>
           py_get v ''organization_scope_confirmed'' = PBool True \<and>
           py_get v ''ie_desktop_used'' = PBool False \<and> py_get v ''ie_mode_used'' = PBool False \<and>
           py_get v ''wininet_used'' = PBool False) (sm_evaluate_value c pol v)"
proof -
  have 4: "returns_only (\<lambda>d. dec_status d \<noteq> ''N/A'') (sm_evaluate_pc04 v pol)"
    by (simp add: sm_evaluate_pc04_def Let_def split: option.split)
  have 5: "returns_only (\<lambda>d. dec_status d \<noteq> ''N/A'') (sm_evaluate_pc05 v pol)"
    by (simp add: sm_evaluate_pc05_def Let_def split: option.split)
  have 6: "returns_only (\<lambda>d. dec_status d \<noteq> ''N/A'') (sm_evaluate_pc06 v pol)"
    by (simp add: sm_evaluate_pc06_def Let_def split: option.split)
  have 8: "returns_only (\<lambda>d. dec_status d \<noteq> ''N/A'') (sm_evaluate_pc08 v)"
    by (simp add: sm_evaluate_pc08_def Let_def)
  have 9: "returns_only (\<lambda>d. dec_status d = ''N/A'' \<longleftrightarrow>
      py_get v ''applicability'' = PStr ''NOT_APPLICABLE'' \<and>
      py_get v ''organization_scope_confirmed'' = PBool True \<and>
      py_get v ''ie_desktop_used'' = PBool False \<and> py_get v ''ie_mode_used'' = PBool False \<and>
      py_get v ''wininet_used'' = PBool False) (sm_evaluate_pc09 v)"
    by (simp add: sm_evaluate_pc09_def rule_defs res_simps)
  show ?thesis
    using sm_rules_domain [OF assms] 4 5 6 8 9 by (auto simp: sm_evaluate_value_def)
qed

text \<open>
  NOT APPLICABLE is never taken on trust: a decision has status N/A if and only if it is for
  PC-09, the collected value claims non-applicability, the organization confirmed the scope and
  none of the three technologies is in use.
\<close>

theorem service_management_not_applicable:
  assumes "sm_evaluate c ar er ev pol = Inr d"
  shows "dec_status d = ''N/A'' \<longleftrightarrow>
           (\<exists>v. py_get ev ''collection_status'' = PStr ''COLLECTED'' \<and>
              py_get ev ''normalized_value'' = PDict v \<and> c = ''PC-09'' \<and>
              py_get v ''applicability'' = PStr ''NOT_APPLICABLE'' \<and>
              py_get v ''organization_scope_confirmed'' = PBool True \<and>
              py_get v ''ie_desktop_used'' = PBool False \<and>
              py_get v ''ie_mode_used'' = PBool False \<and> py_get v ''wininet_used'' = PBool False)"
proof (cases "py_get ev ''collection_status'' = PStr ''COLLECTED''")
  case True
  from sm_evaluate_collected [OF assms True] obtain v r where
    v: "py_get ev ''normalized_value'' = PDict v" "sm_evaluate_value c pol v = Inr d" and
    r: "map_of sm_rules c = Some r" by blast
  from returns_onlyD [OF sm_value_na [OF r] v(2)] v(1) True show ?thesis by simp
next
  case False
  with sm.uncollected [OF assms] show ?thesis by simp
qed

definition sm_example_unused :: dict where
  "sm_example_unused =
     [(''applicability'', PStr ''NOT_APPLICABLE''), (''ie_desktop_used'', PBool False),
      (''ie_mode_used'', PBool False), (''wininet_used'', PBool False),
      (''organization_scope_confirmed'', PBool True), (''evaluated_user_count'', PInt 0)]"

end
