(* ===== verification/User_Media_Remote.thy ===== *)
theory User_Media_Remote
  imports Rule_Inputs
begin

section \<open>User, media and remote-assistance rules (\<^verbatim>\<open>rule_engine/user_media_remote.py\<close>)\<close>

text \<open>
  The registry of PC-16 (screen saver), PC-17 (removable media) and PC-18 (remote assistance).
  Each Korean literal is a constant
  named after its English meaning and given by the hexadecimal digits of its UTF-8 encoding.
\<close>

subsection \<open>Texts\<close>

definition umr_ko_inspection_information_not_obtained :: string where
  "umr_ko_inspection_information_not_obtained =
     hex_text ''eca090eab28020eca095ebb3b4eba5bc20eab080eca0b8ec98a4eca78020ebaabbed95a8''"

definition umr_ko_required_policy_values_collected_without_error :: string where
  "umr_ko_required_policy_values_collected_without_error =
     hex_text ''ed9584ec889820eca095ecb185eab092ec9d8420ec98a4eba59820ec9786ec9db420ec8898eca791''"

definition umr_ko_collection_error :: string where
  "umr_ko_collection_error =
     hex_text ''ec8898eca79120ec98a4eba598''"

definition umr_ko_screen_saver_in_use_1_to_600_seconds_password_on_resume :: string where
  "umr_ko_screen_saver_in_use_1_to_600_seconds_password_on_resume =
     hex_text ''ed8f89eab08020ec82acec9aa9ec9e90ebb38420ed9994eba9b4ebb3b4ed98b8eab8b020ec82acec9aa92c20eb8c80eab8b020317e363030ecb4882c20ec9eaceab09c20ec8b9c20ec9594ed98b820ebb3b4ed98b8''"

definition umr_ko_screen_saver_timeout_not_confirmed :: string where
  "umr_ko_screen_saver_timeout_not_confirmed =
     hex_text ''ed9994eba9b4ebb3b4ed98b8eab8b020eb8c80eab8b020ec8b9ceab084ec9d8420ed9995ec9db8ed9598eca78020ebaabbed95a8''"

definition umr_ko_collection_of_the_current_user_settings_incomplete :: string where
  "umr_ko_collection_of_the_current_user_settings_incomplete =
     hex_text ''ed9884ec9eac20ec82acec9aa9ec9e9020ec84a4eca09520ec8898eca79120ebb688ec9984eca084''"

definition umr_ko_used :: string where
  "umr_ko_used =
     hex_text ''ec82acec9aa9''"

definition umr_ko_not_used :: string where
  "umr_ko_not_used =
     hex_text ''ec82acec9aa920ec958820ed95a8''"

definition umr_ko_screen_saver :: string where
  "umr_ko_screen_saver =
     hex_text ''ed9994eba9b4ebb3b4ed98b8eab8b020''"

definition umr_ko_wait :: string where
  "umr_ko_wait =
     hex_text ''eb8c80eab8b020''"

definition umr_ko_seconds_password_protection :: string where
  "umr_ko_seconds_password_protection =
     hex_text ''ecb4882c20ec9594ed98b820ebb3b4ed98b820''"

definition umr_ko_user_under_evaluation :: string where
  "umr_ko_user_under_evaluation =
     hex_text ''ed9884ec9eac20ed8f89eab08020ec82acec9aa9ec9e90''"

definition umr_ko_current_user_compliant_user_scope_to_be_confirmed :: string where
  "umr_ko_current_user_compliant_user_scope_to_be_confirmed =
     hex_text ''ed9884ec9eac20ec82acec9aa9ec9e90eb8a9420ec9691ed98b82c20ec9e90ec82b020ec82acec9aa9ec9e9020ebb294ec9c8420ed9995ec9db820ed9584ec9a94''"

definition umr_ko_then_screen_saver :: string where
  "umr_ko_then_screen_saver =
     hex_text ''2c20ed9994eba9b4ebb3b4ed98b8eab8b020''"

definition umr_ko_selection_confirmed :: string where
  "umr_ko_selection_confirmed =
     hex_text ''ec84a0ed839d20ed9995ec9db8''"

definition umr_ko_no_selection_information_supporting :: string where
  "umr_ko_no_selection_information_supporting =
     hex_text ''ec84a0ed839d20eca095ebb3b420ec9786ec9d8c28ebb3b4eca1b020eca69deca08129''"

definition umr_ko_approved_user_scope :: string where
  "umr_ko_approved_user_scope =
     hex_text ''ec8ab9ec9db8eb909c20ed8f89eab08020ec82acec9aa9ec9e9020ebb294ec9c84''"

definition umr_ko_autorun_blocking :: string where
  "umr_ko_autorun_blocking =
     hex_text ''ec9e90eb8f99ec8ba4ed968920ecb0a8eb8ba820''"

definition umr_ko_scope :: string where
  "umr_ko_scope =
     hex_text ''ebb294ec9c8420''"

definition umr_ko_then_default_behaviour :: string where
  "umr_ko_then_default_behaviour =
     hex_text ''2c20eab8b0ebb3b820eb8f99ec9e9120''"

definition umr_ko_non_volume_devices :: string where
  "umr_ko_non_volume_devices =
     hex_text ''ebb984ebb3bceba5a820ec9ea5ecb99820''"

definition umr_ko_blocked :: string where
  "umr_ko_blocked =
     hex_text ''ecb0a8eb8ba8''"

definition umr_ko_allowed :: string where
  "umr_ko_allowed =
     hex_text ''ed9788ec9aa9''"

definition umr_ko_autorun_blocked_on_all_drives_and_an_approved_procedure :: string where
  "umr_ko_autorun_blocked_on_all_drives_and_an_approved_procedure =
     hex_text ''ebaaa8eb93a020eb939ceb9dbcec9db4ebb88c20ec9e90eb8f99ec8ba4ed968920ecb0a8eb8ba8eab3bc20ec8ab9ec9db8eb909c20ec9db4eb8f99ec8b9d20ebafb8eb9494ec96b420eab480eba6ac20eca088ecb0a8''"

definition umr_ko_effective_windows_autorun_policy :: string where
  "umr_ko_effective_windows_autorun_policy =
     hex_text ''57696e646f777320ec9ca0ed9aa820ec9e90eb8f99ec8ba4ed968920eca095ecb185''"

definition umr_ko_then_internal_procedure :: string where
  "umr_ko_then_internal_procedure =
     hex_text ''2c20eb82b4ebb68020eca088ecb0a820''"

definition umr_ko_settings_compliant_procedure_to_be_confirmed :: string where
  "umr_ko_settings_compliant_procedure_to_be_confirmed =
     hex_text ''eab8b0ec88a020ec84a4eca09520ec9691ed98b82c20eca1b0eca78120eca088ecb0a820ed9995ec9db820ed9584ec9a94''"

definition umr_ko_then_internal_procedure_approved :: string where
  "umr_ko_then_internal_procedure_approved =
     hex_text ''2c20eb82b4ebb68020eca088ecb0a820ec8ab9ec9db8''"

definition umr_ko_windows_policy_and_organization_procedure :: string where
  "umr_ko_windows_policy_and_organization_procedure =
     hex_text ''57696e646f777320eca095ecb185eab3bc20eca1b0eca78120eca088ecb0a8''"

definition umr_ko_solicited_remote_assistance :: string where
  "umr_ko_solicited_remote_assistance =
     hex_text ''ec9a94ecb2aded989520ec9b90eab2a9eca780ec9b9020''"

definition umr_ko_then_offered_remote_assistance :: string where
  "umr_ko_then_offered_remote_assistance =
     hex_text ''2c20eca09ceab3b5ed989520ec9b90eab2a9eca780ec9b9020''"

definition umr_ko_both_kinds_of_remote_assistance_explicitly_disabled :: string where
  "umr_ko_both_kinds_of_remote_assistance_explicitly_disabled =
     hex_text ''ec9a94ecb2aded9895c2b7eca09ceab3b5ed98952057696e646f77732052656d6f746520417373697374616e636520ebaaa8eb919020ebaa85ec8b9ceca08120ec82acec9aa920ec958820ed95a8283029''"

definition umr_ko_remote_assistance_policy :: string where
  "umr_ko_remote_assistance_policy =
     hex_text ''57696e646f77732052656d6f746520417373697374616e636520eca095ecb185''"

definition umr_ko_quick_assist_and_remote_desktop_excluded :: string where
  "umr_ko_quick_assist_and_remote_desktop_excluded =
     hex_text ''517569636b20417373697374c2b7ec9b90eab2a920eb8db0ec8aa4ed81aced86b120eca09cec99b8''"

subsection \<open>Errors, decisions and the allowlist\<close>

datatype user_media_remote_error = UserMediaRemoteRuleError string

record user_media_remote_decision = decision +
  umr_scope_label :: string
  umr_policy_source :: string
  umr_coverage :: string

definition umr_rules :: "(string \<times> scoped_rule_def) list" where
  "umr_rules =
    [(''PC-16'',
      \<lparr>rd_probe_id = ''win.user.screensaver-policy'',
       rd_applicability = (''pc16.user-screensaver-applicability'', ''0.1.0''),
       rd_evaluation = (''pc16.screensaver-lock'', ''0.1.0''),
       rd_applicability_parameters =
         [(''subject_scope'', PStr ''USER''),
          (''current_user_evaluation'', PBool True),
          (''asset_coverage_field'', PStr ''user_coverage_complete''),
          (''incomplete_coverage_status'', PStr ''REVIEW''),
          (''collection_failure_status'', PStr ''ERROR'')],
       rd_evaluation_parameters =
         [(''required_active_value'', PStr ''1''),
          (''minimum_timeout_seconds'', PInt 1),
          (''maximum_timeout_seconds'', PInt 600),
          (''required_secure_value'', PStr ''1''),
          (''screen_saver_executable_decisive'', PBool False),
          (''violation_status'', PStr ''FAIL''),
          (''collection_failure_status'', PStr ''ERROR'')],
       rd_subject_scope = ''USER''\<rparr>),
     (''PC-17'',
      \<lparr>rd_probe_id = ''win.media.autoplay-policy'',
       rd_applicability = (''pc17.removable-media-applicability'', ''0.1.0''),
       rd_evaluation = (''pc17.removable-media-controls'', ''0.1.0''),
       rd_applicability_parameters =
         [(''subject_scope'', PStr ''POLICY''),
          (''supported_policy_sources'',
             str_list [''LOCAL'', ''DOMAIN'', ''MDM'', ''WINDOWS_EFFECTIVE'']),
          (''collection_failure_status'', PStr ''ERROR'')],
       rd_evaluation_parameters =
         [(''organization_policy_required'', PBool True),
          (''turn_off_autoplay_required'', PBool True),
          (''required_autoplay_scope'', PStr ''ALL_DRIVES''),
          (''required_autorun_default_behavior'', PStr ''DO_NOT_EXECUTE''),
          (''disallow_non_volume_autoplay_required'', PBool True),
          (''approved_procedure_status'', PStr ''APPROVED''),
          (''missing_organization_policy_status'', PStr ''REVIEW''),
          (''missing_procedure_attestation_status'', PStr ''REVIEW''),
          (''technical_violation_status'', PStr ''FAIL''),
          (''collection_failure_status'', PStr ''ERROR'')],
       rd_subject_scope = ''POLICY''\<rparr>),
     (''PC-18'',
      \<lparr>rd_probe_id = ''win.remote-assistance.policy'',
       rd_applicability = (''pc18.remote-assistance-applicability'', ''0.1.0''),
       rd_evaluation = (''pc18.remote-assistance-disabled'', ''0.1.0''),
       rd_applicability_parameters =
         [(''subject_scope'', PStr ''POLICY''),
          (''required_policy_values'', str_list [''fAllowToGetHelp'', ''fAllowUnsolicited'']),
          (''collection_failure_status'', PStr ''ERROR'')],
       rd_evaluation_parameters =
         [(''solicited_disabled_values'', str_list [''0'']),
          (''offer_disabled_values'', str_list [''0'']),
          (''not_configured_value'', PStr ''MISSING''),
          (''not_configured_status'', PStr ''REVIEW''),
          (''enabled_status'', PStr ''FAIL''),
          (''quick_assist_in_scope'', PBool False),
          (''remote_desktop_in_scope'', PBool False),
          (''collection_failure_status'', PStr ''ERROR'')],
       rd_subject_scope = ''POLICY''\<rparr>)]"

subsection \<open>Helpers\<close>

definition umr_reject :: "string \<Rightarrow> (user_media_remote_error, 'a) result" where
  "umr_reject message = raise_error (UserMediaRemoteRuleError message)"

definition umr_string :: "pyval \<Rightarrow> string \<Rightarrow> (user_media_remote_error, string) result" where
  "umr_string = as_string UserMediaRemoteRuleError"

definition umr_boolean :: "pyval \<Rightarrow> string \<Rightarrow> (user_media_remote_error, bool) result" where
  "umr_boolean = as_boolean UserMediaRemoteRuleError"

definition umr_decision ::
  "string \<Rightarrow> string \<Rightarrow> string \<Rightarrow> string \<Rightarrow> string \<Rightarrow> string \<Rightarrow> string \<Rightarrow> string \<Rightarrow> string list \<Rightarrow>
     user_media_remote_decision" where
  "umr_decision control_id status result_code actual expected scope_label policy_source coverage
      error_codes =
     \<lparr>dec_control_id = control_id,
      dec_status = status,
      dec_result_code = result_code,
      dec_actual = actual,
      dec_expected = expected,
      dec_rationale_code = result_code,
      dec_error_codes = error_codes,
      umr_scope_label = scope_label,
      umr_policy_source = policy_source,
      umr_coverage = coverage\<rparr>"

definition umr_collection_error :: "string \<Rightarrow> string \<Rightarrow> user_media_remote_decision" where
  "umr_collection_error control_id error_code =
     umr_decision control_id ''ERROR''
       (replace_char (CHR ''-'') [] control_id @ ''_COLLECTION_FAILED'')
       umr_ko_inspection_information_not_obtained
       umr_ko_required_policy_values_collected_without_error
       umr_ko_collection_error ''UNKNOWN'' ''COLLECTION_FAILED'' [error_code]"

subsection \<open>The three rules\<close>

definition umr_evaluate_pc16 ::
  "dict \<Rightarrow> (user_media_remote_error, user_media_remote_decision) result" where
  "umr_evaluate_pc16 v =
     bindE (umr_string (py_get v ''screen_save_active'') ''ScreenSaveActive is invalid.'') (\<lambda>active.
     bindE (umr_string (py_get v ''screen_saver_is_secure'') ''ScreenSaverIsSecure is invalid.'')
       (\<lambda>secure.
     bindE (umr_boolean (py_get v ''screen_saver_executable_present'')
              ''Screen saver executable state is invalid.'') (\<lambda>executable_present.
     bindE (umr_string (py_get v ''effective_policy_source'') ''Policy source is invalid.'') (\<lambda>source.
     bindE (umr_boolean (py_get v ''user_coverage_complete'') ''User coverage is invalid.'')
       (\<lambda>coverage_complete.
       let expected =
             umr_ko_screen_saver_in_use_1_to_600_seconds_password_on_resume;
           incomplete =
             umr_decision ''PC-16'' ''ERROR'' ''SCREEN_SAVER_POLICY_INCOMPLETE''
               umr_ko_screen_saver_timeout_not_confirmed expected
               umr_ko_collection_of_the_current_user_settings_incomplete source
               (if coverage_complete then ''ASSET_USER_COVERAGE_COMPLETE''
                else ''ASSET_USER_COVERAGE_INCOMPLETE'') [''EVIDENCE_INCOMPLETE'']
       in case py_get v ''screen_save_timeout_seconds'' of
            PInt timeout \<Rightarrow>
              if timeout < 0 then Inr incomplete
              else
                let used = (\<lambda>b. if b then umr_ko_used else umr_ko_not_used);
                    actual = umr_ko_screen_saver @ used (active = ''1'') @ '', '' @
                      umr_ko_wait @ int_str timeout @
                      umr_ko_seconds_password_protection @ used (secure = ''1'')
                in if active \<noteq> ''1'' \<or> \<not> (1 \<le> timeout \<and> timeout \<le> 600) \<or> secure \<noteq> ''1'' then
                     Inr (umr_decision ''PC-16'' ''FAIL'' ''SCREEN_SAVER_LOCK_POLICY_VIOLATION''
                       actual expected umr_ko_user_under_evaluation source
                       ''CURRENT_USER_EVALUATED'' [])
                   else if \<not> coverage_complete then
                     Inr (umr_decision ''PC-16'' ''REVIEW'' ''SCREEN_SAVER_USER_COVERAGE_INCOMPLETE''
                       actual expected
                       umr_ko_current_user_compliant_user_scope_to_be_confirmed
                       source ''ASSET_USER_COVERAGE_INCOMPLETE'' [])
                   else
                     Inr (umr_decision ''PC-16'' ''PASS'' ''SCREEN_SAVER_LOCK_POLICY_COMPLIANT''
                       (actual @ umr_ko_then_screen_saver @
                        (if executable_present then umr_ko_selection_confirmed
                         else umr_ko_no_selection_information_supporting))
                       expected umr_ko_approved_user_scope source
                       ''ASSET_USER_COVERAGE_COMPLETE'' [])
          | _ \<Rightarrow> Inr incomplete)))))"

definition umr_procedure_status ::
  "policy \<Rightarrow> (user_media_remote_error, string \<times> string) result" where
  "umr_procedure_status organization_policy =
     (case organization_policy of
        None \<Rightarrow> Inr (''MISSING'', ''NONE'')
      | Some p \<Rightarrow>
          bindE (umr_string (py_get p ''standard_id'') ''Organization standard ID is invalid.'') (\<lambda>_.
          bindE (umr_string (py_get p ''version'') ''Organization standard version is invalid.'') (\<lambda>_.
          bindE (umr_string (py_get p ''procedure_attestation_id'')
                   ''Procedure attestation ID is invalid.'') (\<lambda>attestation_id.
          bindE (umr_string (py_get p ''procedure_status'') ''Procedure status is invalid.'')
            (\<lambda>status.
          bindE (umr_string (py_get p ''media_scope'') ''Procedure media scope is invalid.'')
            (\<lambda>scope.
            if scope \<noteq> ''CD_DVD_USB_AND_REMOVABLE'' then Inr (''SCOPE_INCOMPLETE'', attestation_id)
            else Inr (status, attestation_id)))))))"

definition umr_evaluate_pc17 ::
  "dict \<Rightarrow> policy \<Rightarrow> (user_media_remote_error, user_media_remote_decision) result" where
  "umr_evaluate_pc17 v organization_policy =
     bindE (umr_boolean (py_get v ''turn_off_autoplay_enabled'')
              ''Turn off AutoPlay state is invalid.'') (\<lambda>autoplay_off.
     bindE (umr_string (py_get v ''autoplay_scope'') ''AutoPlay scope is invalid.'') (\<lambda>scope.
     bindE (umr_string (py_get v ''autorun_default_behavior'') ''AutoRun behavior is invalid.'')
       (\<lambda>autorun_behavior.
     bindE (umr_boolean (py_get v ''non_volume_autoplay_disallowed'')
              ''Non-volume AutoPlay state is invalid.'') (\<lambda>non_volume_blocked.
     bindE (umr_string (py_get v ''effective_policy_source'') ''Policy source is invalid.'') (\<lambda>source.
       let actual = umr_ko_autorun_blocking @
             (if autoplay_off then umr_ko_used else umr_ko_not_used) @ '', '' @
             umr_ko_scope @ scope @ umr_ko_then_default_behaviour @ autorun_behavior @ '', '' @
             umr_ko_non_volume_devices @
             (if non_volume_blocked then umr_ko_blocked else umr_ko_allowed);
           expected = umr_ko_autorun_blocked_on_all_drives_and_an_approved_procedure;
           technical_ok = (autoplay_off \<and> scope = ''ALL_DRIVES'' \<and>
             autorun_behavior = ''DO_NOT_EXECUTE'' \<and> non_volume_blocked)
       in if \<not> technical_ok then
            Inr (umr_decision ''PC-17'' ''FAIL'' ''REMOVABLE_MEDIA_AUTORUN_CONTROL_VIOLATION''
              actual expected umr_ko_effective_windows_autorun_policy source
              ''TECHNICAL_CONTROL_INCOMPLETE'' [])
          else
            bindE (umr_procedure_status organization_policy) (\<lambda>pa.
              if fst pa \<noteq> ''APPROVED'' then
                Inr (umr_decision ''PC-17'' ''REVIEW'' ''REMOVABLE_MEDIA_PROCEDURE_ATTESTATION_REQUIRED''
                  (actual @ umr_ko_then_internal_procedure @ fst pa) expected
                  umr_ko_settings_compliant_procedure_to_be_confirmed source
                  (''PROCEDURE_'' @ snd pa) [])
              else
                Inr (umr_decision ''PC-17'' ''PASS'' ''REMOVABLE_MEDIA_CONTROLS_COMPLIANT''
                  (actual @ umr_ko_then_internal_procedure_approved) expected
                  umr_ko_windows_policy_and_organization_procedure source
                  (''PROCEDURE_'' @ snd pa) [])))))))"

definition umr_evaluate_pc18 ::
  "dict \<Rightarrow> (user_media_remote_error, user_media_remote_decision) result" where
  "umr_evaluate_pc18 v =
     bindE (umr_string (py_get v ''f_allow_to_get_help'') ''fAllowToGetHelp value is invalid.'')
       (\<lambda>solicited.
     bindE (umr_string (py_get v ''f_allow_unsolicited'') ''fAllowUnsolicited value is invalid.'')
       (\<lambda>offer.
     bindE (umr_string (py_get v ''effective_policy_source'') ''Policy source is invalid.'') (\<lambda>source.
       let allowed = {''0'', ''1'', ''MISSING''};
           actual = umr_ko_solicited_remote_assistance @ solicited @
             umr_ko_then_offered_remote_assistance @ offer;
           expected = umr_ko_both_kinds_of_remote_assistance_explicitly_disabled;
           policy_label = umr_ko_remote_assistance_policy;
           excluded_label = umr_ko_quick_assist_and_remote_desktop_excluded
       in if solicited \<notin> allowed \<or> offer \<notin> allowed then
            Inr (umr_decision ''PC-18'' ''ERROR'' ''REMOTE_ASSISTANCE_VALUE_UNRECOGNIZED'' actual expected
              policy_label source ''VALUE_UNRECOGNIZED'' [''PARSE_ERROR''])
          else if ''1'' \<in> {solicited, offer} then
            Inr (umr_decision ''PC-18'' ''FAIL'' ''REMOTE_ASSISTANCE_ENABLED'' actual expected
              policy_label source ''SOLICITED_AND_OFFER'' [])
          else if ''MISSING'' \<in> {solicited, offer} then
            Inr (umr_decision ''PC-18'' ''REVIEW'' ''REMOTE_ASSISTANCE_POLICY_NOT_EXPLICIT'' actual expected
              excluded_label source ''POLICY_NOT_CONFIGURED'' [])
          else
            Inr (umr_decision ''PC-18'' ''PASS'' ''REMOTE_ASSISTANCE_EXPLICITLY_DISABLED'' actual expected
              excluded_label source ''SOLICITED_AND_OFFER'' []))))"

subsection \<open>The registry\<close>

definition umr_evaluate_value ::
  "string \<Rightarrow> policy \<Rightarrow> dict \<Rightarrow> (user_media_remote_error, user_media_remote_decision) result" where
  "umr_evaluate_value control_id organization_policy v =
     (if control_id = ''PC-16'' then umr_evaluate_pc16 v
      else if control_id = ''PC-17'' then umr_evaluate_pc17 v organization_policy
      else umr_evaluate_pc18 v)"

definition umr_evaluate ::
  "string \<Rightarrow> pyval \<Rightarrow> pyval \<Rightarrow> dict \<Rightarrow> policy \<Rightarrow>
     (user_media_remote_error, user_media_remote_decision) result" where
  "umr_evaluate control_id applicability_rule evaluation_rule evidence organization_policy =
     bindE (admit_call UserMediaRemoteRuleError
              ''Control rule is not allowlisted by IMP-025.''
              ''Rule parameters differ from the allowlisted version.''
              ''Rule parameters differ from the allowlisted version.''
              ''Evidence subject scope differs from the rule.'' rd_subject_scope
              umr_rules control_id applicability_rule evaluation_rule evidence) (\<lambda>_.
       collection_gate UserMediaRemoteRuleError ''Normalized value is missing.'' evidence
         (umr_collection_error control_id) (umr_evaluate_value control_id organization_policy))"

subsection \<open>Coherent decisions\<close>

lemmas umr_helpers [rule_defs] = umr_reject_def umr_string_def umr_boolean_def

lemma umr_decision_simps [simp]:
  "coherent c (umr_decision c' s r a e l p g errs) \<longleftrightarrow>
     c' = c \<and> s \<in> {''PASS'', ''FAIL'', ''ERROR'', ''REVIEW'', ''N/A''} \<and> r \<noteq> [] \<and>
     (\<forall>code\<in>set errs. code \<noteq> []) \<and> (errs \<noteq> [] \<longleftrightarrow> s = ''ERROR'')"
  "dec_status (umr_decision c' s r a e l p g errs) = s"
  "dec_error_codes (umr_decision c' s r a e l p g errs) = errs"
  by (simp_all add: coherent_def umr_decision_def)

lemma umr_rules_domain: "map_of umr_rules c = Some r \<Longrightarrow> c \<in> {''PC-16'', ''PC-17'', ''PC-18''}"
  by (simp add: umr_rules_def split: if_splits)

lemma umr_pc16_coherent: "returns_only (coherent ''PC-16'') (umr_evaluate_pc16 v)"
  by (simp add: umr_evaluate_pc16_def Let_def split: pyval.split)

lemma umr_pc17_coherent: "returns_only (coherent ''PC-17'') (umr_evaluate_pc17 v p)"
  by (simp add: umr_evaluate_pc17_def Let_def)

lemma umr_pc18_coherent: "returns_only (coherent ''PC-18'') (umr_evaluate_pc18 v)"
  by (simp add: umr_evaluate_pc18_def Let_def)

lemma umr_value_coherent:
  assumes "map_of umr_rules c = Some r"
  shows "returns_only (coherent c) (umr_evaluate_value c x v)"
  using umr_rules_domain [OF assms] umr_pc16_coherent umr_pc17_coherent umr_pc18_coherent
  by (auto simp: umr_evaluate_value_def)

interpretation umr: decision_registry umr_evaluate umr_rules
proof (rule gated_registry)
  show "umr_evaluate c ar er ev x =
      bindE (admit_call UserMediaRemoteRuleError
              ''Control rule is not allowlisted by IMP-025.''
              ''Rule parameters differ from the allowlisted version.''
              ''Rule parameters differ from the allowlisted version.''
              ''Evidence subject scope differs from the rule.'' rd_subject_scope
              umr_rules c ar er ev) (\<lambda>pe.
        collection_gate UserMediaRemoteRuleError ''Normalized value is missing.'' ev
          (umr_collection_error c) ((\<lambda>c pe ev x. umr_evaluate_value c x) c pe ev x))" for c ar er ev x
    by (simp add: umr_evaluate_def)
qed (simp_all add: umr_collection_error_def umr_value_coherent)

subsection \<open>What the rules decide\<close>

text \<open>
  The technical criterion of each control and the confirmation a PASS needs beyond it.
\<close>

definition umr_compliant :: "string \<Rightarrow> dict \<Rightarrow> bool" where
  "umr_compliant c v \<longleftrightarrow>
     (if c = ''PC-16'' then
        py_get v ''screen_save_active'' = PStr ''1'' \<and> py_get v ''screen_saver_is_secure'' = PStr ''1'' \<and>
        (\<exists>t. py_get v ''screen_save_timeout_seconds'' = PInt t \<and> 1 \<le> t \<and> t \<le> 600)
      else if c = ''PC-17'' then
        py_get v ''turn_off_autoplay_enabled'' = PBool True \<and>
        py_get v ''autoplay_scope'' = PStr ''ALL_DRIVES'' \<and>
        py_get v ''autorun_default_behavior'' = PStr ''DO_NOT_EXECUTE'' \<and>
        py_get v ''non_volume_autoplay_disallowed'' = PBool True
      else py_get v ''f_allow_to_get_help'' \<noteq> PStr ''1'' \<and>
        py_get v ''f_allow_unsolicited'' \<noteq> PStr ''1'')"

definition umr_readable :: "string \<Rightarrow> dict \<Rightarrow> bool" where
  "umr_readable c v \<longleftrightarrow>
     (if c = ''PC-16'' then \<exists>t. py_get v ''screen_save_timeout_seconds'' = PInt t \<and> 0 \<le> t
      else if c = ''PC-17'' then True
      else py_get v ''f_allow_to_get_help'' \<in> PStr ` {''0'', ''1'', ''MISSING''} \<and>
        py_get v ''f_allow_unsolicited'' \<in> PStr ` {''0'', ''1'', ''MISSING''})"

definition umr_confirmed :: "string \<Rightarrow> dict \<Rightarrow> policy \<Rightarrow> bool" where
  "umr_confirmed c v pol \<longleftrightarrow>
     (if c = ''PC-16'' then py_get v ''user_coverage_complete'' = PBool True
      else if c = ''PC-17'' then
        \<exists>p. pol = Some p \<and> py_get p ''procedure_status'' = PStr ''APPROVED'' \<and>
          py_get p ''media_scope'' = PStr ''CD_DVD_USB_AND_REMOVABLE''
      else py_get v ''f_allow_to_get_help'' = PStr ''0'' \<and> py_get v ''f_allow_unsolicited'' = PStr ''0'')"

definition umr_verdict :: "bool \<Rightarrow> bool \<Rightarrow> bool \<Rightarrow> string" where
  "umr_verdict readable compliant confirmed =
     (if \<not> readable then ''ERROR'' else if \<not> compliant then ''FAIL''
      else if confirmed then ''PASS'' else ''REVIEW'')"

lemma umr_pc16_verdict:
  "returns_only (\<lambda>d. dec_status d = umr_verdict (umr_readable ''PC-16'' v) (umr_compliant ''PC-16'' v)
       (umr_confirmed ''PC-16'' v pol)) (umr_evaluate_pc16 v)"
  by (cases "py_get v ''screen_save_timeout_seconds''")
    (simp_all add: umr_verdict_def umr_evaluate_pc16_def Let_def umr_readable_def
      umr_compliant_def umr_confirmed_def rule_defs res_simps)

lemma umr_procedure_approved:
  assumes "umr_procedure_status pol = Inr pa"
  shows "fst pa = ''APPROVED'' \<longleftrightarrow> umr_confirmed ''PC-17'' v pol"
  using assms
  by (auto simp: umr_procedure_status_def umr_confirmed_def rule_defs res_simps
      split: option.splits if_splits)

lemma umr_pc17_verdict:
  "returns_only (\<lambda>d. dec_status d = umr_verdict (umr_readable ''PC-17'' v) (umr_compliant ''PC-17'' v)
       (umr_confirmed ''PC-17'' v pol)) (umr_evaluate_pc17 v pol)"
  by (simp add: umr_verdict_def umr_evaluate_pc17_def Let_def umr_readable_def umr_compliant_def
      umr_procedure_approved [where v = v] rule_defs res_simps)

lemma umr_pc18_verdict:
  "returns_only (\<lambda>d. dec_status d = umr_verdict (umr_readable ''PC-18'' v) (umr_compliant ''PC-18'' v)
       (umr_confirmed ''PC-18'' v pol)) (umr_evaluate_pc18 v)"
  by (simp add: umr_verdict_def umr_evaluate_pc18_def Let_def umr_readable_def umr_compliant_def
      umr_confirmed_def rule_defs res_simps) blast?

lemma umr_value_verdict:
  assumes "map_of umr_rules c = Some r"
  shows "returns_only (\<lambda>d. dec_status d = umr_verdict (umr_readable c v) (umr_compliant c v)
           (umr_confirmed c v pol)) (umr_evaluate_value c pol v)"
  using umr_rules_domain [OF assms] umr_pc16_verdict umr_pc17_verdict umr_pc18_verdict
  by (auto simp: umr_evaluate_value_def)

text \<open>
  C40: The status of a PC-16, PC-17 or PC-18 decision is a fixed function of the evidence.
  Uncollected or unreadable evidence is ERROR; a technical violation is FAIL whatever the
  organization says; a compliant setting is PASS only with the confirmation the control asks for
  (complete user coverage, an approved procedure for all removable media, both remote-assistance
  values explicitly 0), and REVIEW without it.
\<close>

theorem user_media_remote_verdict:
  assumes "umr_evaluate c ar er ev pol = Inr d"
  shows "dec_status d =
    (case py_get ev ''normalized_value'' of
       PDict v \<Rightarrow>
         if py_get ev ''collection_status'' = PStr ''COLLECTED''
         then umr_verdict (umr_readable c v) (umr_compliant c v) (umr_confirmed c v pol)
         else ''ERROR''
     | _ \<Rightarrow> ''ERROR'')"
proof (cases "py_get ev ''collection_status'' = PStr ''COLLECTED''")
  case True
  with assms obtain v where v: "py_get ev ''normalized_value'' = PDict v"
      "umr_evaluate_value c pol v = Inr d"
    by (auto simp: umr_evaluate_def bindE_eq_Inr collection_gate_eq_Inr)
  from umr.allowlist [OF assms] obtain r where "map_of umr_rules c = Some r" by blast
  from returns_onlyD [OF umr_value_verdict [OF this] v(2)] v(1) True show ?thesis by simp
next
  case False
  with umr.uncollected [OF assms] show ?thesis by (simp split: pyval.split)
qed

definition umr_example_value :: dict where
  "umr_example_value =
     [(''turn_off_autoplay_enabled'', PBool True), (''autoplay_scope'', PStr ''ALL_DRIVES''),
      (''autorun_default_behavior'', PStr ''DO_NOT_EXECUTE''),
      (''non_volume_autoplay_disallowed'', PBool True), (''effective_policy_source'', PStr ''DOMAIN'')]"

theorem user_media_remote_verdict_witness:
  "status_of (example_call umr_evaluate umr_rules ''PC-17'' ''POLICY'' [] umr_example_value None) =
     Some ''REVIEW''"
proof -
  have "is_ok (example_call umr_evaluate umr_rules ''PC-17'' ''POLICY'' [] umr_example_value None)"
    by code_simp
  then obtain d where
    d: "example_call umr_evaluate umr_rules ''PC-17'' ''POLICY'' [] umr_example_value None = Inr d"
    by (auto simp: is_ok_iff)
  from user_media_remote_verdict [OF d [unfolded example_call_def Let_def]] d show ?thesis
    by (simp add: status_of_def umr_example_value_def umr_verdict_def umr_readable_def
        umr_compliant_def umr_confirmed_def)
qed

end
