(* ===== verification/Canonical_Json.thy ===== *)
theory Canonical_Json
  imports Py_Values
begin

section \<open>Content hashes (\<^verbatim>\<open>common/canonical_json.py\<close>)\<close>

text \<open>
  Content hashes are taken over RFC 8785 bytes.  \<open>dumps\<close> stands for \<open>rfc8785.dumps\<close> (bytes, or the
  text of its \<open>CanonicalizationError\<close>) and \<open>sha256\<close> for \<open>hashlib.sha256(...).hexdigest()\<close>; both are
  arguments, so that every statement holds for whatever bytes and digests they produce.
\<close>

datatype canonicalization_error = SecAICanonicalizationError string

type_synonym json_dumps = "pyval \<Rightarrow> string + string"
type_synonym digest = "string \<Rightarrow> string"

definition canonicalize_json :: "json_dumps \<Rightarrow> pyval \<Rightarrow> (canonicalization_error, string) result" where
  "canonicalize_json dumps v =
     (case dumps v of
        Inl message \<Rightarrow> raise_error (SecAICanonicalizationError message)
      | Inr bytes \<Rightarrow> Inr bytes)"

definition canonical_sha256 ::
  "json_dumps \<Rightarrow> digest \<Rightarrow> pyval \<Rightarrow> (canonicalization_error, string) result" where
  "canonical_sha256 dumps sha256 v = bindE (canonicalize_json dumps v) (\<lambda>bytes. Inr (sha256 bytes))"

definition without_top_level_fields :: "dict \<Rightarrow> string list \<Rightarrow> dict" where
  "without_top_level_fields document excluded_fields =
     filter (\<lambda>kv. fst kv \<notin> set excluded_fields) document"

definition canonical_sha256_without_fields ::
  "json_dumps \<Rightarrow> digest \<Rightarrow> dict \<Rightarrow> string list \<Rightarrow> (canonicalization_error, string) result" where
  "canonical_sha256_without_fields dumps sha256 document excluded_fields =
     canonical_sha256 dumps sha256 (PDict (without_top_level_fields document excluded_fields))"

subsection \<open>Which changes of a document the hash sees\<close>

lemma without_fields_update:
  "k \<in> set ex \<Longrightarrow>
     without_top_level_fields (AList.update k v d) ex = without_top_level_fields d ex"
  by (induction d) (auto simp: without_top_level_fields_def)

text \<open>
  The hash of a document does not see its envelope fields: rewriting an excluded field, present
  or not, leaves the hash as it is.
\<close>

lemma hash_ignores_envelope:
  "k \<in> set ex \<Longrightarrow>
     canonical_sha256_without_fields dumps sha256 (AList.update k v d) ex =
     canonical_sha256_without_fields dumps sha256 d ex"
  by (simp add: canonical_sha256_without_fields_def without_fields_update)

end
