(* ===== verification/Patch_Lifecycle.thy ===== *)
theory Patch_Lifecycle
  imports Rule_Inputs Canonical_Json
begin

section \<open>Patch and lifecycle rules PC-10, PC-11 (\<^verbatim>\<open>rule_engine/patch_lifecycle.py\<close>)\<close>

text \<open>
  Both rules judge collected OS facts against a reference snapshot whose identity and content
  hash are pinned in the rule parameters.  Instants are microseconds, dates are ordinals
  (\<open>Py_Time\<close>).  The scan age is compared exactly; the code compares a float quotient with an
  integer, which agrees for ages below two centuries.  Each Korean literal is a constant
  named after its English meaning and given by the hexadecimal digits of its UTF-8 encoding.
\<close>

subsection \<open>Texts\<close>

definition pl_ko_inspection_information_not_obtained :: string where
  "pl_ko_inspection_information_not_obtained =
     hex_text ''eca090eab28020eca095ebb3b4eba5bc20eab080eca0b8ec98a4eca78020ebaabbed95a8''"

definition pl_ko_required_information_collected_without_error :: string where
  "pl_ko_required_information_collected_without_error =
     hex_text ''ed9584ec889820eca095ebb3b4eba5bc20ec98a4eba59820ec9786ec9db420ec8898eca791''"

definition pl_ko_collection_error :: string where
  "pl_ko_collection_error =
     hex_text ''ec8898eca79120ec98a4eba598''"

definition pl_ko_approved_baseline_and_evidence_of_the_procedure :: string where
  "pl_ko_approved_baseline_and_evidence_of_the_procedure =
     hex_text ''ec8ab9ec9db820ed8ca8ecb99820eab8b0eca480eab3bc20eb82b4ebb68020eab480eba6ac20eca088ecb0a820eca69deca081''"

definition pl_ko_no_organization_procedure :: string where
  "pl_ko_no_organization_procedure =
     hex_text ''eca1b0eca78120eca088ecb0a820ec9786ec9d8c''"

definition pl_ko_the_same_snapshot_approved_by_the_organization :: string where
  "pl_ko_the_same_snapshot_approved_by_the_organization =
     hex_text ''eca1b0eca781ec9db420ec8ab9ec9db8ed959c20eb8f99ec9dbc20ecb0b8eca1b020ec8aa4eb8385ec83b7''"

definition pl_ko_reference_approval_differs :: string where
  "pl_ko_reference_approval_differs =
     hex_text ''ecb0b8eca1b020ec8ab9ec9db820ebb688ec9dbcecb998''"

definition pl_ko_in_the_last :: string where
  "pl_ko_in_the_last =
     hex_text ''ecb59ceab7bc20''"

definition pl_ko_hours_an_update_search :: string where
  "pl_ko_hours_an_update_search =
     hex_text ''ec8b9ceab08420ec9db4eb82b420ec9785eb8db0ec9db4ed8ab820eab280ec8389''"

definition pl_ko_search_result_too_old :: string where
  "pl_ko_search_result_too_old =
     hex_text ''eab280ec838920eab2b0eab3bc20ec98a4eb9e98eb90a8''"

definition pl_ko_then_automatic_updates_and_procedure :: string where
  "pl_ko_then_automatic_updates_and_procedure =
     hex_text ''2c20ec9e90eb8f9920ec9785eb8db0ec9db4ed8ab8ec998020eb82b4ebb68020eab480eba6ac20eca088ecb0a8''"

definition pl_ko_procedure_evidence :: string where
  "pl_ko_procedure_evidence =
     hex_text ''eca088ecb0a820eca69deca08120''"

definition pl_ko_required_updates_missing :: string where
  "pl_ko_required_updates_missing =
     hex_text ''ed9584ec889820ec9785eb8db0ec9db4ed8ab820eb8884eb9dbd20''"

definition pl_ko_units :: string where
  "pl_ko_units =
     hex_text ''eab09c''"

definition pl_ko_approved_patch_baseline_of_this_windows_version :: string where
  "pl_ko_approved_patch_baseline_of_this_windows_version =
     hex_text ''ed95b4eb8bb92057696e646f77732056657273696f6eec9d9820ec8ab9ec9db820ed8ca8ecb99820eab8b0eca480''"

definition pl_ko_reference_to_be_confirmed :: string where
  "pl_ko_reference_to_be_confirmed =
     hex_text ''ecb0b8eca1b020eab8b0eca48020ed9995ec9db820ed9584ec9a94''"

definition pl_ko_windows_update_agent_history_and_build_or_wsus_intune_data :: string where
  "pl_ko_windows_update_agent_history_and_build_or_wsus_intune_data =
     hex_text ''57696e646f777320557064617465204167656e74c2b7ec9db4eba0a5c2b74275696c6420eb9890eb8a9420575355532f496e74756e6520ec9e90eba38c''"

definition pl_ko_collection_method_error :: string where
  "pl_ko_collection_method_error =
     hex_text ''ec8898eca79120ebb0a9ebb29520ec98a4eba598''"

definition pl_ko_minimum_build :: string where
  "pl_ko_minimum_build =
     hex_text ''ecb59cec868c204275696c6420''"

definition pl_ko_or_later :: string where
  "pl_ko_or_later =
     hex_text ''2920ec9db4ec8381''"

definition pl_ko_os_information_inconsistent :: string where
  "pl_ko_os_information_inconsistent =
     hex_text ''4f5320eca095ebb3b420ebb688ec9dbcecb998''"

definition pl_ko_microsoft_patch_baseline :: string where
  "pl_ko_microsoft_patch_baseline =
     hex_text ''4d6963726f736f667420ed8ca8ecb99820eab8b0eca480''"

definition pl_ko_then_automatic_updates_used :: string where
  "pl_ko_then_automatic_updates_used =
     hex_text ''2c20ec9e90eb8f9920ec9785eb8db0ec9db4ed8ab820ec82acec9aa9''"

definition pl_ko_update_policy :: string where
  "pl_ko_update_policy =
     hex_text ''ec9785eb8db0ec9db4ed8ab820eca095ecb185''"

definition pl_ko_patch_completion_confirmed_after_restart :: string where
  "pl_ko_patch_completion_confirmed_after_restart =
     hex_text ''ec9eacebb680ed8c8520ed9b8420ed8ca8ecb99820eca081ec9aa920ec9984eba38c20ed9995ec9db8''"

definition pl_ko_restart_to_be_confirmed :: string where
  "pl_ko_restart_to_be_confirmed =
     hex_text ''ec9eacebb680ed8c8520ed9995ec9db820ed9584ec9a94''"

definition pl_ko_product_scope_error :: string where
  "pl_ko_product_scope_error =
     hex_text ''eca09ced928820ebb294ec9c8420ec98a4eba598''"

definition pl_ko_microsoft_lifecycle_of_this_edition_and_version :: string where
  "pl_ko_microsoft_lifecycle_of_this_edition_and_version =
     hex_text ''45646974696f6eeab3bc2056657273696f6eec9db420ec9dbcecb998ed9598eb8a94204d6963726f736f667420ec8898ebaa85eca3bceab8b020eab8b0eca480''"

definition pl_ko_lifecycle_reference_to_be_confirmed :: string where
  "pl_ko_lifecycle_reference_to_be_confirmed =
     hex_text ''ec8898ebaa85eca3bceab8b020eab8b0eca48020ed9995ec9db820ed9584ec9a94''"

definition pl_ko_microsoft_support_end_date :: string where
  "pl_ko_microsoft_support_end_date =
     hex_text ''4d6963726f736f667420eca780ec9b9020eca285eba38cec9dbc20''"

definition pl_ko_not_after :: string where
  "pl_ko_not_after =
     hex_text ''20ec9db4eb82b4''"

definition pl_ko_microsoft_product_lifecycle :: string where
  "pl_ko_microsoft_product_lifecycle =
     hex_text ''4d6963726f736f667420eca09ced928820ec8898ebaa85eca3bceab8b0''"

definition pl_ko_then_evidence_of_the_procedure :: string where
  "pl_ko_then_evidence_of_the_procedure =
     hex_text ''2c20eb82b4ebb68020eab480eba6ac20eca088ecb0a820eca69deca081''"

definition pl_ko_the_same_lifecycle_snapshot_approved :: string where
  "pl_ko_the_same_lifecycle_snapshot_approved =
     hex_text ''eca1b0eca781ec9db420ec8ab9ec9db8ed959c20eb8f99ec9dbc20ec8898ebaa85eca3bceab8b020ec8aa4eb8385ec83b7''"

definition pl_ko_then_internal_procedure :: string where
  "pl_ko_then_internal_procedure =
     hex_text ''2c20eb82b4ebb68020eab480eba6ac20eca088ecb0a8''"

definition pl_ko_reference_could_not_be_loaded :: string where
  "pl_ko_reference_could_not_be_loaded =
     hex_text ''ecb0b8eca1b020eab8b0eca480ec9d8420ebb688eb9facec98a4eca78020ebaabbed95a8''"

definition pl_ko_valid_microsoft_reference_snapshot :: string where
  "pl_ko_valid_microsoft_reference_snapshot =
     hex_text ''ec9ca0ed9aa8ed959c204d6963726f736f667420ecb0b8eca1b020ec8aa4eb8385ec83b7''"

definition pl_ko_no_reference :: string where
  "pl_ko_no_reference =
     hex_text ''ecb0b8eca1b020eab8b0eca48020ec9786ec9d8c''"

definition pl_ko_collection_time :: string where
  "pl_ko_collection_time =
     hex_text ''ec8898eca79120ec8b9ceab08120''"

definition pl_ko_reference_valid_until :: string where
  "pl_ko_reference_valid_until =
     hex_text ''ecb0b8eca1b020ec9ca0ed9aa8eab8b0ed959c20''"

definition pl_ko_at_the_latest :: string where
  "pl_ko_at_the_latest =
     hex_text ''20ec9db4eb82b4''"

definition pl_ko_reference_must_be_renewed :: string where
  "pl_ko_reference_must_be_renewed =
     hex_text ''ecb0b8eca1b020eab0b1ec8ba020ed9584ec9a94''"

subsection \<open>Errors, decisions and the allowlist\<close>

datatype patch_lifecycle_error =
    PatchLifecycleRuleError string
  | PatchCanonicalization canonicalization_error

record patch_lifecycle_decision = decision +
  pl_scope_label :: string
  pl_reference_snapshot_id :: string
  pl_reference_as_of :: string
  pl_reference_valid_until :: string

definition pl_snapshot_id :: string where
  "pl_snapshot_id = ''microsoft-windows-11-2026-07-23''"

definition pl_snapshot_version :: string where
  "pl_snapshot_version = ''1.0.0''"

definition pl_snapshot_sha256 :: string where
  "pl_snapshot_sha256 = ''9bb9fcc8fb8461e053ba22d33d5fbf15d4a9113651f32a834faaffc199911054''"

definition pl_common_reference_parameters :: dict where
  "pl_common_reference_parameters =
    [(''reference_snapshot_required'', PBool True),
     (''reference_snapshot_id'', PStr pl_snapshot_id),
     (''reference_snapshot_version'', PStr pl_snapshot_version),
     (''reference_snapshot_sha256'', PStr pl_snapshot_sha256),
     (''allowed_snapshot_approval_statuses'', str_list [''DRAFT'']),
     (''missing_reference_status'', PStr ''REVIEW''),
     (''expired_reference_status'', PStr ''REVIEW'')]"

definition pl_accepted_inventory_sources :: "string list" where
  "pl_accepted_inventory_sources =
    [''WINDOWS_UPDATE_AGENT'', ''WINDOWS_UPDATE_HISTORY_AND_BUILD'', ''WSUS_OR_INTUNE_COMPLIANCE'']"

definition pl_applicability_parameters :: dict where
  "pl_applicability_parameters =
    [(''subject_scope'', PStr ''ASSET''),
     (''target_product'', PStr ''WINDOWS_11''),
     (''supported_architectures'', str_list [''x86_64'']),
     (''unknown_product_status'', PStr ''ERROR'')]"

definition pl_rules :: "(string \<times> rule_def) list" where
  "pl_rules =
    [(''PC-10'',
      \<lparr>rd_probe_id = ''win.update.compliance'',
       rd_applicability = (''pc10.patch-applicability'', ''0.1.0''),
       rd_evaluation = (''pc10.patch-baseline'', ''0.1.0''),
       rd_applicability_parameters = pl_applicability_parameters,
       rd_evaluation_parameters =
         pl_common_reference_parameters @
         [(''organization_procedure_required'', PBool True),
          (''missing_procedure_status'', PStr ''REVIEW''),
          (''accepted_inventory_sources'', str_list pl_accepted_inventory_sources),
          (''forbidden_solo_source'', PStr ''GET_HOTFIX''),
          (''automatic_updates_required'', PBool True),
          (''missing_required_update_status'', PStr ''FAIL''),
          (''below_minimum_build_status'', PStr ''FAIL''),
          (''restart_pending_status'', PStr ''REVIEW''),
          (''stale_scan_status'', PStr ''ERROR''),
          (''collection_failure_status'', PStr ''ERROR'')]\<rparr>),
     (''PC-11'',
      \<lparr>rd_probe_id = ''win.os.lifecycle'',
       rd_applicability = (''pc11.lifecycle-applicability'', ''0.1.0''),
       rd_evaluation = (''pc11.support-lifecycle'', ''0.1.0''),
       rd_applicability_parameters = pl_applicability_parameters,
       rd_evaluation_parameters =
         pl_common_reference_parameters @
         [(''organization_procedure_required'', PBool True),
          (''missing_procedure_status'', PStr ''REVIEW''),
          (''support_state_rule'', PStr ''COLLECTED_AT_ON_OR_BEFORE_SUPPORT_END''),
          (''eol_status'', PStr ''FAIL''),
          (''unknown_edition_or_version_status'', PStr ''REVIEW''),
          (''collection_failure_status'', PStr ''ERROR'')]\<rparr>)]"

subsection \<open>Helpers\<close>

definition pl_reject :: "string \<Rightarrow> (patch_lifecycle_error, 'a) result" where
  "pl_reject message = raise_error (PatchLifecycleRuleError message)"

definition pl_mapping :: "pyval \<Rightarrow> string \<Rightarrow> (patch_lifecycle_error, dict) result" where
  "pl_mapping = as_mapping PatchLifecycleRuleError"

definition pl_string :: "pyval \<Rightarrow> string \<Rightarrow> (patch_lifecycle_error, string) result" where
  "pl_string = as_string PatchLifecycleRuleError"

definition pl_integer :: "pyval \<Rightarrow> string \<Rightarrow> (patch_lifecycle_error, int) result" where
  "pl_integer = as_integer PatchLifecycleRuleError"

definition pl_boolean :: "pyval \<Rightarrow> string \<Rightarrow> (patch_lifecycle_error, bool) result" where
  "pl_boolean = as_boolean PatchLifecycleRuleError"

definition pl_timestamp :: "pyval \<Rightarrow> string \<Rightarrow> (patch_lifecycle_error, int) result" where
  "pl_timestamp = as_timestamp PatchLifecycleRuleError"

definition pl_date :: "pyval \<Rightarrow> string \<Rightarrow> (patch_lifecycle_error, int) result" where
  "pl_date = as_date PatchLifecycleRuleError"

text \<open>The dataclass from its fields, and \<open>_decision\<close>, which reads the reference fields.\<close>

definition pl_record ::
  "string \<Rightarrow> string \<Rightarrow> string \<Rightarrow> string \<Rightarrow> string \<Rightarrow> string \<Rightarrow> string list \<Rightarrow>
     string \<times> string \<times> string \<Rightarrow> patch_lifecycle_decision" where
  "pl_record control_id status result_code actual expected scope_label error_codes ref =
     \<lparr>dec_control_id = control_id,
      dec_status = status,
      dec_result_code = result_code,
      dec_actual = actual,
      dec_expected = expected,
      dec_rationale_code = result_code,
      dec_error_codes = error_codes,
      pl_scope_label = scope_label,
      pl_reference_snapshot_id = fst ref,
      pl_reference_as_of = fst (snd ref),
      pl_reference_valid_until = snd (snd ref)\<rparr>"

definition pl_decision ::
  "string \<Rightarrow> string \<Rightarrow> string \<Rightarrow> string \<Rightarrow> string \<Rightarrow> string \<Rightarrow> dict option \<Rightarrow> string list \<Rightarrow>
     (patch_lifecycle_error, patch_lifecycle_decision) result" where
  "pl_decision control_id status result_code actual expected scope_label reference error_codes =
     (let field = (\<lambda>key message. case reference of
            None \<Rightarrow> Inr ''NOT_PROVIDED'' | Some d \<Rightarrow> pl_string (py_get d key) message)
      in bindE (field ''snapshot_id'' ''Snapshot ID is invalid.'') (\<lambda>snapshot_id.
         bindE (field ''as_of'' ''Snapshot date is invalid.'') (\<lambda>as_of.
         bindE (field ''valid_until'' ''Snapshot expiry is invalid.'') (\<lambda>valid_until.
           Inr (pl_record control_id status result_code actual expected scope_label error_codes
                  (snapshot_id, as_of, valid_until))))))"

definition pl_collection_error :: "string \<Rightarrow> string \<Rightarrow> patch_lifecycle_decision" where
  "pl_collection_error control_id error_code =
     pl_record control_id ''ERROR''
       (replace_char (CHR ''-'') [] control_id @ ''_COLLECTION_FAILED'')
       pl_ko_inspection_information_not_obtained
       pl_ko_required_information_collected_without_error
       pl_ko_collection_error [error_code] (''NOT_PROVIDED'', ''NOT_PROVIDED'', ''NOT_PROVIDED'')"

text \<open>
  The pinned reference.  \<open>parameters[...]\<close> are plain lookups; the statuses are a list, since the
  parameters were compared with the allowlisted ones.
\<close>

definition pl_validated_reference ::
  "json_dumps \<Rightarrow> digest \<Rightarrow> dict \<Rightarrow> dict \<Rightarrow> (patch_lifecycle_error, dict) result" where
  "pl_validated_reference dumps sha256 snapshot parameters =
     bindE (py_item parameters ''reference_snapshot_id'') (\<lambda>snapshot_id.
     if \<not> py_eq (py_get snapshot ''snapshot_id'') snapshot_id
     then pl_reject ''Reference snapshot ID differs from the allowlisted rule.''
     else bindE (py_item parameters ''reference_snapshot_version'') (\<lambda>version.
     if \<not> py_eq (py_get snapshot ''version'') version
     then pl_reject ''Reference snapshot version differs from the allowlisted rule.''
     else bindE (py_item parameters ''reference_snapshot_sha256'') (\<lambda>sha.
     if \<not> py_eq (py_get snapshot ''content_sha256'') sha
     then pl_reject ''Reference snapshot hash differs from the allowlisted rule.''
     else bindE (lift_error PatchCanonicalization
            (canonical_sha256_without_fields dumps sha256 snapshot [''content_sha256'', ''approval'']))
          (\<lambda>actual_hash.
     if py_get snapshot ''content_sha256'' \<noteq> PStr actual_hash
     then pl_reject ''Reference snapshot payload integrity failed.''
     else bindE (pl_mapping (py_get snapshot ''approval'') ''Reference approval is invalid.'')
          (\<lambda>approval.
     bindE (py_item parameters ''allowed_snapshot_approval_statuses'') (\<lambda>statuses.
     if \<not> (case statuses of
               PList xs \<Rightarrow> list_ex (py_eq (py_get approval ''status'')) xs | _ \<Rightarrow> False)
     then pl_reject ''Reference snapshot approval status is not allowlisted.''
     else bindE (pl_timestamp (py_get snapshot ''as_of'') ''Reference as-of timestamp is invalid.'')
          (\<lambda>_.
     bindE (pl_timestamp (py_get snapshot ''valid_until'') ''Reference expiry timestamp is invalid.'')
          (\<lambda>_. Inr snapshot))))))))"

definition pl_procedure ::
  "policy \<Rightarrow> (patch_lifecycle_error, (string \<times> string \<times> int) option) result" where
  "pl_procedure policy =
     (case policy of
        None \<Rightarrow> Inr None
      | Some p \<Rightarrow>
          bindE (pl_string (py_get p ''standard_id'') ''Organization standard ID is invalid.'') (\<lambda>_.
          bindE (pl_string (py_get p ''version'') ''Organization standard version is invalid.'') (\<lambda>_.
          bindE (pl_string (py_get p ''procedure_attestation_id'')
                   ''Procedure attestation ID is invalid.'') (\<lambda>attestation_id.
          bindE (pl_string (py_get p ''approved_snapshot_id'') ''Approved snapshot ID is invalid.'')
            (\<lambda>snapshot_id.
          bindE (pl_integer (py_get p ''maximum_scan_age_hours'') ''Maximum scan age is invalid.'')
            (\<lambda>maximum_scan_age_hours.
            if maximum_scan_age_hours < 1 then pl_reject ''Maximum scan age must be positive.''
            else Inr (Some (attestation_id, snapshot_id, maximum_scan_age_hours))))))))"

definition pl_records :: "dict \<Rightarrow> string \<Rightarrow> (patch_lifecycle_error, pyval list) result" where
  "pl_records snapshot field =
     as_sequence PatchLifecycleRuleError (py_get snapshot field)
       (''Reference snapshot field '' @ field @ '' is invalid.'')"

text \<open>The two search loops: the first record that matches, every record up to it being checked.\<close>

fun pl_search ::
  "string \<Rightarrow> (dict \<Rightarrow> bool) \<Rightarrow> pyval list \<Rightarrow> (patch_lifecycle_error, dict option) result" where
  "pl_search message matches [] = Inr None"
| "pl_search message matches (item # items) =
     bindE (pl_mapping item message) (\<lambda>record.
       if matches record then Inr (Some record) else pl_search message matches items)"

definition pl_patch_baseline ::
  "dict \<Rightarrow> string \<Rightarrow> (patch_lifecycle_error, dict option) result" where
  "pl_patch_baseline snapshot display_version =
     bindE (pl_records snapshot ''patch_baselines'')
       (pl_search ''Patch baseline record is invalid.''
          (\<lambda>record. py_get record ''display_version'' = PStr display_version))"

definition pl_lifecycle_record ::
  "dict \<Rightarrow> string \<Rightarrow> string \<Rightarrow> (patch_lifecycle_error, dict option) result" where
  "pl_lifecycle_record snapshot edition_group display_version =
     bindE (pl_records snapshot ''lifecycle_records'')
       (pl_search ''Lifecycle record is invalid.''
          (\<lambda>record. py_get record ''edition_group'' = PStr edition_group \<and>
                    py_get record ''display_version'' = PStr display_version))"

subsection \<open>PC-10\<close>

text \<open>
  The rule in two parts, in the order of the code: the judgement of the OS facts against the
  baseline, and, once these are compliant, the organization's procedure and the age of the scan.
\<close>

definition pl_pc10_procedure ::
  "dict \<Rightarrow> dict \<Rightarrow> dict \<Rightarrow> policy \<Rightarrow> string \<Rightarrow> string \<Rightarrow>
     (patch_lifecycle_error, patch_lifecycle_decision) result" where
  "pl_pc10_procedure v evidence snapshot policy actual expected =
     bindE (pl_procedure policy) (\<lambda>procedure.
     case procedure of
       None \<Rightarrow>
         pl_decision ''PC-10'' ''REVIEW'' ''PATCH_MANAGEMENT_PROCEDURE_REQUIRED'' actual
           pl_ko_approved_baseline_and_evidence_of_the_procedure
           pl_ko_no_organization_procedure (Some snapshot) []
     | Some (attestation_id, approved_snapshot_id, maximum_scan_age_hours) \<Rightarrow>
         bindE (py_item snapshot ''snapshot_id'') (\<lambda>snapshot_id.
         if PStr approved_snapshot_id \<noteq> snapshot_id then
           pl_decision ''PC-10'' ''REVIEW'' ''PATCH_REFERENCE_NOT_APPROVED_BY_ORGANIZATION'' actual
             pl_ko_the_same_snapshot_approved_by_the_organization
             pl_ko_reference_approval_differs (Some snapshot) []
         else
           bindE (pl_timestamp (py_get evidence ''collected_at'') ''Collected timestamp is invalid.'')
             (\<lambda>collected_at.
           bindE (pl_timestamp (py_get v ''last_successful_scan_at'')
                    ''Last successful scan timestamp is invalid.'') (\<lambda>scanned_at.
           if scanned_at > collected_at
           then pl_reject ''Update scan timestamp cannot be later than collection time.''
           else if collected_at - scanned_at > maximum_scan_age_hours * us_per_hour then
             pl_decision ''PC-10'' ''ERROR'' ''UPDATE_SCAN_TOO_OLD'' actual
               (pl_ko_in_the_last @ int_str maximum_scan_age_hours @
                pl_ko_hours_an_update_search)
               pl_ko_search_result_too_old (Some snapshot) [''EVIDENCE_INCOMPLETE'']
           else
             pl_decision ''PC-10'' ''PASS'' ''PATCH_BASELINE_AND_PROCEDURE_COMPLIANT'' actual
               (expected @ pl_ko_then_automatic_updates_and_procedure)
               (pl_ko_procedure_evidence @ attestation_id) (Some snapshot) []))))"

definition pl_evaluate_pc10 ::
  "dict \<Rightarrow> dict \<Rightarrow> dict \<Rightarrow> policy \<Rightarrow>
     (patch_lifecycle_error, patch_lifecycle_decision) result" where
  "pl_evaluate_pc10 v evidence snapshot policy =
     bindE (pl_string (py_get v ''display_version'') ''Display version is invalid.'')
       (\<lambda>display_version.
     bindE (pl_integer (py_get v ''os_build'') ''OS build is invalid.'') (\<lambda>os_build.
     bindE (pl_integer (py_get v ''ubr'') ''OS UBR is invalid.'') (\<lambda>ubr.
     bindE (pl_string (py_get v ''installed_cumulative_kb'') ''Installed cumulative KB is invalid.'')
       (\<lambda>installed_kb.
     bindE (pl_integer (py_get v ''missing_required_update_count'')
              ''Missing update count is invalid.'') (\<lambda>missing.
     bindE (pl_boolean (py_get v ''automatic_updates_enabled'') ''Automatic update state is invalid.'')
       (\<lambda>automatic.
     bindE (pl_string (py_get v ''update_inventory_source'') ''Update inventory source is invalid.'')
       (\<lambda>inventory_source.
     bindE (pl_boolean (py_get v ''restart_pending'') ''Restart pending state is invalid.'')
       (\<lambda>restart_pending.
     bindE (pl_patch_baseline snapshot display_version) (\<lambda>found.
       let actual = ''Windows '' @ display_version @ '' Build '' @ int_str os_build @ ''.'' @ int_str ubr @
             '', '' @ installed_kb @ '', '' @
             pl_ko_required_updates_missing @ int_str missing @ pl_ko_units
       in case found of
            None \<Rightarrow>
              pl_decision ''PC-10'' ''REVIEW'' ''PATCH_BASELINE_NOT_FOUND'' actual
                pl_ko_approved_patch_baseline_of_this_windows_version
                pl_ko_reference_to_be_confirmed (Some snapshot) []
          | Some baseline \<Rightarrow>
              if inventory_source \<notin> set pl_accepted_inventory_sources then
                pl_decision ''PC-10'' ''ERROR'' ''PATCH_INVENTORY_SOURCE_INSUFFICIENT'' actual
                  pl_ko_windows_update_agent_history_and_build_or_wsus_intune_data
                  pl_ko_collection_method_error (Some snapshot) [''EVIDENCE_INCOMPLETE'']
              else
                bindE (pl_integer (py_get baseline ''base_build'') ''Baseline build is invalid.'')
                  (\<lambda>required_build.
                bindE (pl_integer (py_get baseline ''minimum_ubr'') ''Baseline UBR is invalid.'')
                  (\<lambda>required_ubr.
                bindE (pl_string (py_get baseline ''baseline_kb'') ''Baseline KB is invalid.'')
                  (\<lambda>required_kb.
                let expected = pl_ko_minimum_build @ int_str required_build @ ''.'' @
                      int_str required_ubr @ '' ('' @ required_kb @ pl_ko_or_later
                in if os_build \<noteq> required_build then
                     pl_decision ''PC-10'' ''ERROR'' ''PATCH_BUILD_VERSION_INCONSISTENT'' actual expected
                       pl_ko_os_information_inconsistent (Some snapshot)
                       [''EVIDENCE_INCOMPLETE'']
                   else if ubr < required_ubr \<or> missing > 0 then
                     pl_decision ''PC-10'' ''FAIL'' ''REQUIRED_SECURITY_UPDATE_MISSING'' actual expected
                       pl_ko_microsoft_patch_baseline (Some snapshot) []
                   else if \<not> automatic then
                     pl_decision ''PC-10'' ''FAIL'' ''AUTOMATIC_UPDATE_DISABLED'' actual
                       (expected @ pl_ko_then_automatic_updates_used)
                       pl_ko_update_policy (Some snapshot) []
                   else if restart_pending then
                     pl_decision ''PC-10'' ''REVIEW'' ''PATCH_RESTART_PENDING'' actual
                       pl_ko_patch_completion_confirmed_after_restart
                       pl_ko_restart_to_be_confirmed (Some snapshot) []
                   else pl_pc10_procedure v evidence snapshot policy actual expected))))))))))))"

subsection \<open>PC-11\<close>

definition pl_evaluate_pc11 ::
  "dict \<Rightarrow> dict \<Rightarrow> dict \<Rightarrow> policy \<Rightarrow>
     (patch_lifecycle_error, patch_lifecycle_decision) result" where
  "pl_evaluate_pc11 v evidence snapshot policy =
     bindE (pl_string (py_get v ''product_name'') ''Product name is invalid.'') (\<lambda>product_name.
     bindE (pl_string (py_get v ''edition_group'') ''Edition group is invalid.'') (\<lambda>edition_group.
     bindE (pl_string (py_get v ''display_version'') ''Display version is invalid.'')
       (\<lambda>display_version.
     bindE (pl_integer (py_get v ''os_build'') ''OS build is invalid.'') (\<lambda>os_build.
     bindE (pl_integer (py_get v ''ubr'') ''OS UBR is invalid.'') (\<lambda>ubr.
     bindE (pl_string (py_get v ''architecture'') ''Architecture is invalid.'') (\<lambda>architecture.
       let actual = product_name @ '' '' @ display_version @ '' '' @ edition_group @ '', '' @
             ''Build '' @ int_str os_build @ ''.'' @ int_str ubr @ '' ('' @ architecture @ '')''
       in if product_name \<noteq> ''Windows 11'' \<or> architecture \<noteq> ''x86_64'' then
            pl_decision ''PC-11'' ''ERROR'' ''OS_PRODUCT_SCOPE_MISMATCH'' actual ''Windows 11 x86_64''
              pl_ko_product_scope_error (Some snapshot) [''UNSUPPORTED_OS'']
          else
            bindE (pl_lifecycle_record snapshot edition_group display_version) (\<lambda>found.
            case found of
              None \<Rightarrow>
                pl_decision ''PC-11'' ''REVIEW'' ''LIFECYCLE_RECORD_NOT_FOUND'' actual
                  pl_ko_microsoft_lifecycle_of_this_edition_and_version
                  pl_ko_lifecycle_reference_to_be_confirmed (Some snapshot) []
            | Some record \<Rightarrow>
                bindE (pl_date (py_get record ''support_end'') ''Support end date is invalid.'')
                  (\<lambda>support_end.
                bindE (pl_timestamp (py_get evidence ''collected_at'')
                         ''Collected timestamp is invalid.'') (\<lambda>collected_at.
                let expected = pl_ko_microsoft_support_end_date @
                      date_isoformat support_end @ pl_ko_not_after
                in if instant_date collected_at > support_end then
                     pl_decision ''PC-11'' ''FAIL'' ''WINDOWS_VERSION_END_OF_SUPPORT'' actual expected
                       pl_ko_microsoft_product_lifecycle (Some snapshot) []
                   else
                     bindE (pl_procedure policy) (\<lambda>procedure.
                     case procedure of
                       None \<Rightarrow>
                         pl_decision ''PC-11'' ''REVIEW'' ''OS_LIFECYCLE_PROCEDURE_REQUIRED'' actual
                           (expected @ pl_ko_then_evidence_of_the_procedure)
                           pl_ko_no_organization_procedure (Some snapshot) []
                     | Some (attestation_id, approved_snapshot_id, maximum_scan_age_hours) \<Rightarrow>
                         bindE (py_item snapshot ''snapshot_id'') (\<lambda>snapshot_id.
                         if PStr approved_snapshot_id \<noteq> snapshot_id then
                           pl_decision ''PC-11'' ''REVIEW''
                             ''LIFECYCLE_REFERENCE_NOT_APPROVED_BY_ORGANIZATION'' actual
                             pl_ko_the_same_lifecycle_snapshot_approved
                             pl_ko_reference_approval_differs (Some snapshot) []
                         else
                           pl_decision ''PC-11'' ''PASS'' ''WINDOWS_VERSION_SUPPORTED_AND_MANAGED'' actual
                             (expected @ pl_ko_then_internal_procedure)
                             (pl_ko_procedure_evidence @ attestation_id) (Some snapshot) [])))))))))))"

subsection \<open>The registry\<close>

definition pl_evaluate_value ::
  "json_dumps \<Rightarrow> digest \<Rightarrow> string \<Rightarrow> dict \<Rightarrow> dict \<Rightarrow> dict option \<times> policy \<Rightarrow> dict \<Rightarrow>
     (patch_lifecycle_error, patch_lifecycle_decision) result" where
  "pl_evaluate_value dumps sha256 control_id evaluation_parameters evidence x v =
     (case fst x of
        None \<Rightarrow>
          pl_decision control_id ''REVIEW'' ''REFERENCE_SNAPSHOT_REQUIRED''
            pl_ko_reference_could_not_be_loaded
            pl_ko_valid_microsoft_reference_snapshot
            pl_ko_no_reference None []
      | Some reference_snapshot \<Rightarrow>
          bindE (pl_validated_reference dumps sha256 reference_snapshot evaluation_parameters)
            (\<lambda>snapshot.
          bindE (pl_timestamp (py_get evidence ''collected_at'') ''Collected timestamp is invalid.'')
            (\<lambda>collected_at.
          bindE (pl_timestamp (py_get snapshot ''as_of'') ''Reference as-of timestamp is invalid.'')
            (\<lambda>as_of.
          bindE (pl_timestamp (py_get snapshot ''valid_until'')
                   ''Reference expiry timestamp is invalid.'') (\<lambda>valid_until.
            if collected_at < as_of then pl_reject ''Evidence predates the reference snapshot.''
            else if collected_at > valid_until then
              pl_decision control_id ''REVIEW'' ''REFERENCE_SNAPSHOT_EXPIRED''
                (pl_ko_collection_time @ date_isoformat (instant_date collected_at))
                (pl_ko_reference_valid_until @ date_isoformat (instant_date valid_until) @
                 pl_ko_at_the_latest)
                pl_ko_reference_must_be_renewed (Some snapshot) []
            else if control_id = ''PC-10'' then pl_evaluate_pc10 v evidence snapshot (snd x)
            else pl_evaluate_pc11 v evidence snapshot (snd x))))))"

definition pl_evaluate ::
  "json_dumps \<Rightarrow> digest \<Rightarrow> string \<Rightarrow> pyval \<Rightarrow> pyval \<Rightarrow> dict \<Rightarrow> dict option \<times> policy \<Rightarrow>
     (patch_lifecycle_error, patch_lifecycle_decision) result" where
  "pl_evaluate dumps sha256 control_id applicability_rule evaluation_rule evidence x =
     bindE (admit_call PatchLifecycleRuleError
              ''Control rule is not allowlisted by IMP-023.''
              ''Rule parameters differ from the allowlisted version.''
              ''Rule parameters differ from the allowlisted version.''
              ''Patch and lifecycle evidence requires ASSET scope.'' (\<lambda>_. ''ASSET'')
              pl_rules control_id applicability_rule evaluation_rule evidence)
       (\<lambda>evaluation_parameters.
       collection_gate PatchLifecycleRuleError ''Normalized value is missing.'' evidence
         (pl_collection_error control_id)
         (pl_evaluate_value dumps sha256 control_id evaluation_parameters evidence x))"

subsection \<open>Coherent decisions\<close>

lemmas pl_helpers [rule_defs] =
  pl_reject_def pl_mapping_def pl_string_def pl_integer_def pl_boolean_def pl_timestamp_def
  pl_date_def

lemma pl_record_simps [simp]:
  "coherent c (pl_record c' s r a e l errs ref) \<longleftrightarrow>
     c' = c \<and> s \<in> {''PASS'', ''FAIL'', ''ERROR'', ''REVIEW'', ''N/A''} \<and> r \<noteq> [] \<and>
     (\<forall>code\<in>set errs. code \<noteq> []) \<and> (errs \<noteq> [] \<longleftrightarrow> s = ''ERROR'')"
  "dec_status (pl_record c' s r a e l errs ref) = s"
  "dec_error_codes (pl_record c' s r a e l errs ref) = errs"
  by (simp_all add: coherent_def pl_record_def)

lemma pl_decision_returns:
  assumes "\<And>ref. P (pl_record c s r a e l errs ref)"
  shows "returns_only P (pl_decision c s r a e l snap errs)"
  by (simp add: pl_decision_def Let_def assms)

lemma pl_decision_status:
  "pl_decision c s r a e l snap errs = Inr d \<Longrightarrow> dec_status d = s"
  by (auto simp: pl_decision_def Let_def res_simps)

lemma pl_decision_coherent [simp]:
  assumes "c' = c" "s \<in> {''PASS'', ''FAIL'', ''ERROR'', ''REVIEW'', ''N/A''}" "r \<noteq> []"
    "\<forall>code\<in>set errs. code \<noteq> []" "errs \<noteq> [] \<longleftrightarrow> s = ''ERROR''"
  shows "returns_only (coherent c) (pl_decision c' s r a e l snap errs)"
  by (rule pl_decision_returns) (use assms in simp)

lemma pl_rules_domain: "map_of pl_rules c = Some r \<Longrightarrow> c \<in> {''PC-10'', ''PC-11''}"
  by (simp add: pl_rules_def split: if_splits)

lemma pl_pc10_procedure_coherent:
  "returns_only (coherent ''PC-10'') (pl_pc10_procedure v ev snap pol a e)"
  by (simp add: pl_pc10_procedure_def rule_defs split: option.split)

lemma pl_pc10_coherent: "returns_only (coherent ''PC-10'') (pl_evaluate_pc10 v ev snap pol)"
  by (simp add: pl_evaluate_pc10_def Let_def pl_pc10_procedure_coherent split: option.split)

lemma pl_pc11_coherent: "returns_only (coherent ''PC-11'') (pl_evaluate_pc11 v ev snap pol)"
  by (simp add: pl_evaluate_pc11_def Let_def split: option.split)

lemma pl_value_coherent:
  assumes "map_of pl_rules c = Some r"
  shows "returns_only (coherent c) (pl_evaluate_value dumps sha c pe ev x v)"
  using pl_rules_domain [OF assms] pl_pc10_coherent pl_pc11_coherent
  by (auto simp: pl_evaluate_value_def rule_defs split: option.split)

interpretation pl: decision_registry "pl_evaluate dumps sha256" pl_rules for dumps sha256
proof (rule gated_registry)
  show "pl_evaluate dumps sha256 c ar er ev x =
      bindE (admit_call PatchLifecycleRuleError
              ''Control rule is not allowlisted by IMP-023.''
              ''Rule parameters differ from the allowlisted version.''
              ''Rule parameters differ from the allowlisted version.''
              ''Patch and lifecycle evidence requires ASSET scope.'' (\<lambda>_. ''ASSET'')
              pl_rules c ar er ev) (\<lambda>pe.
        collection_gate PatchLifecycleRuleError ''Normalized value is missing.'' ev
          (pl_collection_error c) (pl_evaluate_value dumps sha256 c pe ev x))" for c ar er ev x
    by (simp add: pl_evaluate_def)
qed (simp_all add: pl_collection_error_def pl_value_coherent)

subsection \<open>What the rules decide\<close>

lemma pl_search_Some:
  "pl_search msg P items = Inr (Some r) \<Longrightarrow> PDict r \<in> set items \<and> P r"
  by (induction items) (auto simp: rule_defs res_simps split: if_splits)

text \<open>The snapshot is the pinned one: identity, version, declared and recomputed content hash.\<close>

definition pl_pinned :: "json_dumps \<Rightarrow> digest \<Rightarrow> dict \<Rightarrow> bool" where
  "pl_pinned dumps sha256 snap \<longleftrightarrow>
     py_get snap ''snapshot_id'' = PStr pl_snapshot_id \<and>
     py_get snap ''version'' = PStr pl_snapshot_version \<and>
     py_get snap ''content_sha256'' = PStr pl_snapshot_sha256 \<and>
     canonical_sha256_without_fields dumps sha256 snap [''content_sha256'', ''approval''] =
       Inr pl_snapshot_sha256"

lemma py_item_eq_Inr: "py_item d k = Inr v \<Longrightarrow> v = py_get d k"
  by (auto simp: py_item_def py_get_def split: option.splits)

lemma pl_reference_parameters:
  assumes "map_of pl_rules c = Some r" and "exact_parameters pe (rd_evaluation_parameters r)"
  shows "py_get pe ''reference_snapshot_id'' = PStr pl_snapshot_id"
    and "py_get pe ''reference_snapshot_version'' = PStr pl_snapshot_version"
    and "py_get pe ''reference_snapshot_sha256'' = PStr pl_snapshot_sha256"
  using assms(1)
  by (auto intro!: exact_parameters_get [OF assms(2)]
      simp: pl_rules_def pl_common_reference_parameters_def split: if_splits)

lemma pl_validated_reference_pinned:
  assumes "pl_validated_reference dumps sha256 snap pe = Inr s"
    and "map_of pl_rules c = Some r" and "exact_parameters pe (rd_evaluation_parameters r)"
  shows "s = snap \<and> pl_pinned dumps sha256 snap"
  using assms(1) pl_reference_parameters [OF assms(2,3)]
  by (auto simp: pl_validated_reference_def bindE_eq_Inr rule_defs pl_pinned_def lift_error_eq_Inr
      dest!: py_item_eq_Inr split: if_splits)

definition pl_current :: "dict \<Rightarrow> dict \<Rightarrow> bool" where
  "pl_current ev snap \<longleftrightarrow>
     (\<exists>t a u. instant_of (py_get ev ''collected_at'') = Some t \<and>
        instant_of (py_get snap ''as_of'') = Some a \<and>
        instant_of (py_get snap ''valid_until'') = Some u \<and> a \<le> t \<and> t \<le> u)"

definition pl_approves :: "policy \<Rightarrow> dict \<Rightarrow> bool" where
  "pl_approves pol snap \<longleftrightarrow>
     (\<exists>p s. pol = Some p \<and> py_get p ''approved_snapshot_id'' = PStr s \<and>
        py_get snap ''snapshot_id'' = PStr s)"

lemma pl_procedure_approves:
  assumes "pl_procedure pol = Inr (Some (att, s, age))"
  shows "\<exists>p. pol = Some p \<and> py_get p ''approved_snapshot_id'' = PStr s \<and>
           py_get p ''maximum_scan_age_hours'' = PInt age"
  using assms by (auto simp: pl_procedure_def rule_defs res_simps split: option.splits if_splits)

text \<open>Implications from the status of a decision.\<close>

definition pl_implies :: "bool \<Rightarrow> bool \<Rightarrow> patch_lifecycle_decision \<Rightarrow> bool" where
  "pl_implies p f d \<longleftrightarrow> (dec_status d = ''PASS'' \<longrightarrow> p) \<and> (dec_status d = ''FAIL'' \<longrightarrow> f)"

lemma pl_decision_implies [simp]:
  "(s = ''PASS'' \<longrightarrow> p) \<and> (s = ''FAIL'' \<longrightarrow> f) \<Longrightarrow>
     returns_only (pl_implies p f) (pl_decision c s r a e l snap errs)"
  by (rule pl_decision_returns) (simp add: pl_implies_def)

text \<open>
  What PC-10 asks for: a baseline of the snapshot for the collected Windows version, the same
  build, at least its revision, no missing update, automatic updates on and no pending restart;
  then an organization procedure that approves this snapshot and a scan within its age limit.
\<close>

definition pl_baseline_for :: "dict \<Rightarrow> dict \<Rightarrow> int \<Rightarrow> int \<Rightarrow> bool" where
  "pl_baseline_for v snap build ubr \<longleftrightarrow>
     (\<exists>items base. py_get snap ''patch_baselines'' = PList items \<and> PDict base \<in> set items \<and>
        py_get base ''display_version'' = py_get v ''display_version'' \<and>
        py_get base ''base_build'' = PInt build \<and> py_get base ''minimum_ubr'' = PInt ubr)"

definition pl_patched :: "dict \<Rightarrow> dict \<Rightarrow> bool" where
  "pl_patched v snap \<longleftrightarrow>
     (\<exists>build ubr req. pl_baseline_for v snap build req \<and> py_get v ''os_build'' = PInt build \<and>
        py_get v ''ubr'' = PInt ubr \<and> req \<le> ubr \<and>
        py_get v ''missing_required_update_count'' = PInt 0 \<and>
        py_get v ''automatic_updates_enabled'' = PBool True \<and>
        py_get v ''restart_pending'' = PBool False)"

definition pl_violates :: "dict \<Rightarrow> dict \<Rightarrow> bool" where
  "pl_violates v snap \<longleftrightarrow>
     (\<exists>build ubr req missing. pl_baseline_for v snap build req \<and>
        py_get v ''os_build'' = PInt build \<and> py_get v ''ubr'' = PInt ubr \<and>
        py_get v ''missing_required_update_count'' = PInt missing \<and>
        (ubr < req \<or> 0 < missing \<or> py_get v ''automatic_updates_enabled'' = PBool False))"

definition pl_recent_scan :: "dict \<Rightarrow> dict \<Rightarrow> policy \<Rightarrow> bool" where
  "pl_recent_scan v ev pol \<longleftrightarrow>
     (\<exists>t s p age. instant_of (py_get ev ''collected_at'') = Some t \<and>
        instant_of (py_get v ''last_successful_scan_at'') = Some s \<and> pol = Some p \<and>
        py_get p ''maximum_scan_age_hours'' = PInt age \<and>
        s \<le> t \<and> t - s \<le> age * us_per_hour)"

lemma pl_pc10_procedure_implies:
  "returns_only (pl_implies (pl_approves pol snap \<and> pl_recent_scan v ev pol) False)
     (pl_pc10_procedure v ev snap pol a e)"
proof -
  have ok: "pl_approves pol snap \<and> pl_recent_scan v ev pol"
    if "pl_procedure pol = Inr (Some (att, s, age))" "py_item snap ''snapshot_id'' = Inr (PStr s)"
      "instant_of (py_get ev ''collected_at'') = Some t"
      "instant_of (py_get v ''last_successful_scan_at'') = Some s'" "s' \<le> t"
      "t - s' \<le> age * us_per_hour"
    for att s age t s'
    using that(3-6) pl_procedure_approves [OF that(1)] py_item_eq_Inr [OF that(2)]
    by (auto simp: pl_approves_def pl_recent_scan_def) metis?
  show ?thesis
    by (auto simp: pl_pc10_procedure_def rule_defs as_timestamp_eq_Inr not_less
        split: option.split intro!: pl_decision_implies dest: ok)
qed

lemma pl_patch_baseline_Some:
  "pl_patch_baseline snap dv = Inr (Some base) \<Longrightarrow>
     \<exists>items. py_get snap ''patch_baselines'' = PList items \<and> PDict base \<in> set items \<and>
       py_get base ''display_version'' = PStr dv"
  by (auto simp: pl_patch_baseline_def pl_records_def res_simps dest: pl_search_Some)

lemma pl_pc10_implies:
  "returns_only (pl_implies (pl_patched v snap \<and> pl_approves pol snap \<and> pl_recent_scan v ev pol)
       (pl_violates v snap)) (pl_evaluate_pc10 v ev snap pol)"
proof -
  have base: "pl_baseline_for v snap build ubr"
    if "pl_patch_baseline snap dv = Inr (Some b)" "py_get v ''display_version'' = PStr dv"
      "py_get b ''base_build'' = PInt build" "py_get b ''minimum_ubr'' = PInt ubr" for dv b build ubr
    using pl_patch_baseline_Some [OF that(1)] that(2-4) by (auto simp: pl_baseline_for_def)
  have proc: "returns_only (pl_implies (P \<and> pl_approves pol snap \<and> pl_recent_scan v ev pol) F)
      (pl_pc10_procedure v ev snap pol a e)" if P for P F a e
    using pl_pc10_procedure_implies [of pol snap v ev a e] that
    by (simp add: returns_only_def pl_implies_def)
  show ?thesis
    unfolding pl_evaluate_pc10_def
    by (auto simp: Let_def rule_defs res_simps pl_patched_def pl_violates_def not_less
        split: option.split intro!: proc pl_decision_implies) (blast intro: base)+
qed

text \<open>What PC-11 asks for: a lifecycle record of this edition and version, not past its end.\<close>

definition pl_support_end :: "dict \<Rightarrow> dict \<Rightarrow> int \<Rightarrow> bool" where
  "pl_support_end v snap d \<longleftrightarrow>
     (\<exists>items rec. py_get snap ''lifecycle_records'' = PList items \<and> PDict rec \<in> set items \<and>
        py_get rec ''edition_group'' = py_get v ''edition_group'' \<and>
        py_get rec ''display_version'' = py_get v ''display_version'' \<and>
        date_of (py_get rec ''support_end'') = Some d) \<and>
     py_get v ''product_name'' = PStr ''Windows 11'' \<and> py_get v ''architecture'' = PStr ''x86_64''"

definition pl_supported :: "dict \<Rightarrow> dict \<Rightarrow> dict \<Rightarrow> bool" where
  "pl_supported v ev snap \<longleftrightarrow>
     (\<exists>d t. pl_support_end v snap d \<and> instant_of (py_get ev ''collected_at'') = Some t \<and>
        instant_date t \<le> d)"

definition pl_end_of_support :: "dict \<Rightarrow> dict \<Rightarrow> dict \<Rightarrow> bool" where
  "pl_end_of_support v ev snap \<longleftrightarrow>
     (\<exists>d t. pl_support_end v snap d \<and> instant_of (py_get ev ''collected_at'') = Some t \<and>
        d < instant_date t)"

lemma pl_lifecycle_record_Some:
  "pl_lifecycle_record snap eg dv = Inr (Some rec) \<Longrightarrow>
     \<exists>items. py_get snap ''lifecycle_records'' = PList items \<and> PDict rec \<in> set items \<and>
       py_get rec ''edition_group'' = PStr eg \<and> py_get rec ''display_version'' = PStr dv"
  by (auto simp: pl_lifecycle_record_def pl_records_def res_simps dest: pl_search_Some)

lemma pl_pc11_implies:
  "returns_only (pl_implies (pl_supported v ev snap \<and> pl_approves pol snap)
       (pl_end_of_support v ev snap)) (pl_evaluate_pc11 v ev snap pol)"
proof -
  have rec: "pl_support_end v snap d"
    if "pl_lifecycle_record snap eg dv = Inr (Some r)" "py_get v ''edition_group'' = PStr eg"
      "py_get v ''display_version'' = PStr dv" "date_of (py_get r ''support_end'') = Some d"
      "py_get v ''product_name'' = PStr ''Windows 11''" "py_get v ''architecture'' = PStr ''x86_64''"
    for eg dv r d
    using pl_lifecycle_record_Some [OF that(1)] that(2-6) by (auto simp: pl_support_end_def)
  have app: "pl_approves pol snap"
    if "pl_procedure pol = Inr (Some (att, s, age))" "py_item snap ''snapshot_id'' = Inr (PStr s)"
    for att s age
    using pl_procedure_approves [OF that(1)] py_item_eq_Inr [OF that(2)]
    by (auto simp: pl_approves_def) metis?
  show ?thesis
    unfolding pl_evaluate_pc11_def
    by (auto simp: Let_def rule_defs res_simps pl_supported_def pl_end_of_support_def not_less
        split: option.split intro!: pl_decision_implies) (blast intro: rec app)+
qed

lemma pl_evaluate_conclusive:
  assumes "pl_evaluate dumps sha256 c ar er ev (snap, pol) = Inr d"
    and "dec_status d \<in> {''PASS'', ''FAIL''}"
  shows "\<exists>v s. py_get ev ''collection_status'' = PStr ''COLLECTED'' \<and>
           py_get ev ''normalized_value'' = PDict v \<and> snap = Some s \<and>
           pl_pinned dumps sha256 s \<and> pl_current ev s \<and>
           (if c = ''PC-10'' then pl_evaluate_pc10 v ev s pol else pl_evaluate_pc11 v ev s pol) = Inr d"
proof -
  have col: "py_get ev ''collection_status'' = PStr ''COLLECTED''"
    by (rule ccontr) (use pl.uncollected [OF assms(1)] assms(2) in auto)
  with assms(1) obtain pe v where
    pe: "admit_call PatchLifecycleRuleError
              ''Control rule is not allowlisted by IMP-023.''
              ''Rule parameters differ from the allowlisted version.''
              ''Rule parameters differ from the allowlisted version.''
              ''Patch and lifecycle evidence requires ASSET scope.'' (\<lambda>_. ''ASSET'')
              pl_rules c ar er ev = Inr pe" and
    v: "py_get ev ''normalized_value'' = PDict v"
      "pl_evaluate_value dumps sha256 c pe ev (snap, pol) v = Inr d"
    by (auto simp: pl_evaluate_def bindE_eq_Inr collection_gate_eq_Inr)
  from admit_call_admits [OF pe] obtain r where
    r: "map_of pl_rules c = Some r" "exact_parameters pe (rd_evaluation_parameters r)" by blast
  from v(2) assms(2) obtain s where s: "snap = Some s"
    by (cases snap) (auto simp: pl_evaluate_value_def dest!: pl_decision_status)
  from v(2) assms(2) s obtain s' t a u where
    ref: "pl_validated_reference dumps sha256 s pe = Inr s'" and
    ts: "instant_of (py_get ev ''collected_at'') = Some t"
      "instant_of (py_get s' ''as_of'') = Some a" "instant_of (py_get s' ''valid_until'') = Some u"
      "a \<le> t" "t \<le> u" and
    rule: "(if c = ''PC-10'' then pl_evaluate_pc10 v ev s' pol else pl_evaluate_pc11 v ev s' pol) = Inr d"
    by (auto simp: pl_evaluate_value_def bindE_eq_Inr rule_defs as_timestamp_eq_Inr
        dest!: pl_decision_status split: if_splits)
  from pl_validated_reference_pinned [OF ref r] have "s' = s" "pl_pinned dumps sha256 s" by simp_all
  moreover have "pl_current ev s'"
    using ts by (auto simp: pl_current_def)
  ultimately show ?thesis
    using col v(1) s rule by blast
qed

text \<open>
  C24: PC-10 gives no false answer.  PASS means: collected evidence, the pinned and hash-checked
  snapshot, current at the collection time; the collected build is a baseline build at or above
  its minimum revision with nothing missing, automatic updates on and no restart pending; the
  organization approved this very snapshot and the last scan is within its age limit.  FAIL means
  that the build is below the minimum revision, an update is missing or automatic updates are off,
  against the same pinned and current snapshot.
\<close>

theorem patch_verdict_sound:
  assumes "pl_evaluate dumps sha256 ''PC-10'' ar er ev (snap, pol) = Inr d"
    and "dec_status d \<in> {''PASS'', ''FAIL''}"
  shows "\<exists>v s. py_get ev ''collection_status'' = PStr ''COLLECTED'' \<and>
           py_get ev ''normalized_value'' = PDict v \<and> snap = Some s \<and>
           pl_pinned dumps sha256 s \<and> pl_current ev s \<and>
           (dec_status d = ''PASS'' \<longrightarrow>
              pl_patched v s \<and> pl_approves pol s \<and> pl_recent_scan v ev pol) \<and>
           (dec_status d = ''FAIL'' \<longrightarrow> pl_violates v s)"
proof -
  from pl_evaluate_conclusive [OF assms] obtain v s where
    vs: "py_get ev ''collection_status'' = PStr ''COLLECTED''"
      "py_get ev ''normalized_value'' = PDict v" "snap = Some s" "pl_pinned dumps sha256 s"
      "pl_current ev s" and e: "pl_evaluate_pc10 v ev s pol = Inr d"
    by auto
  from returns_onlyD [OF pl_pc10_implies e] vs show ?thesis
    unfolding pl_implies_def by blast
qed

text \<open>
  PC-11 gives no false answer.  PASS means that, by the pinned and current snapshot, the
  collected Windows 11 edition and version was in support on the collection date and the
  organization approved this snapshot; FAIL means that the collection date is past its support
  end.
\<close>

theorem lifecycle_verdict_sound:
  assumes "pl_evaluate dumps sha256 ''PC-11'' ar er ev (snap, pol) = Inr d"
    and "dec_status d \<in> {''PASS'', ''FAIL''}"
  shows "\<exists>v s. py_get ev ''collection_status'' = PStr ''COLLECTED'' \<and>
           py_get ev ''normalized_value'' = PDict v \<and> snap = Some s \<and>
           pl_pinned dumps sha256 s \<and> pl_current ev s \<and>
           (dec_status d = ''PASS'' \<longrightarrow> pl_supported v ev s \<and> pl_approves pol s) \<and>
           (dec_status d = ''FAIL'' \<longrightarrow> pl_end_of_support v ev s)"
proof -
  from pl_evaluate_conclusive [OF assms] obtain v s where
    vs: "py_get ev ''collection_status'' = PStr ''COLLECTED''"
      "py_get ev ''normalized_value'' = PDict v" "snap = Some s" "pl_pinned dumps sha256 s"
      "pl_current ev s" and e: "pl_evaluate_pc11 v ev s pol = Inr d"
    by auto
  from returns_onlyD [OF pl_pc11_implies e] vs show ?thesis
    unfolding pl_implies_def by blast
qed

subsection \<open>A concrete snapshot\<close>

text \<open>
  The two parameters are instantiated with constant functions: \<open>dumps\<close> renders every value as the
  same bytes and the digest of those bytes is the pinned one.
\<close>

definition pl_example_snapshot :: dict where
  "pl_example_snapshot =
     [(''snapshot_id'', PStr pl_snapshot_id), (''version'', PStr pl_snapshot_version),
      (''content_sha256'', PStr pl_snapshot_sha256),
      (''approval'', PDict [(''status'', PStr ''DRAFT'')]),
      (''as_of'', PStr ''2026-07-23T00:00:00Z''), (''valid_until'', PStr ''2026-08-23T00:00:00Z''),
      (''patch_baselines'', PList [PDict
         [(''display_version'', PStr ''25H2''), (''base_build'', PInt 26200),
          (''minimum_ubr'', PInt 8037), (''baseline_kb'', PStr ''KB5000001'')]]),
      (''lifecycle_records'', PList [PDict
         [(''edition_group'', PStr ''PRO''), (''display_version'', PStr ''25H2''),
          (''support_end'', PStr ''2027-10-12'')]])]"

definition pl_example_policy :: dict where
  "pl_example_policy =
     [(''standard_id'', PStr ''ORG-PATCH''), (''version'', PStr ''1''),
      (''procedure_attestation_id'', PStr ''ATT-1''), (''approved_snapshot_id'', PStr pl_snapshot_id),
      (''maximum_scan_age_hours'', PInt 24)]"

definition pl_example :: "string \<Rightarrow> dict \<Rightarrow> (patch_lifecycle_error, patch_lifecycle_decision) result" where
  "pl_example c v =
     example_call (pl_evaluate (\<lambda>_. Inr ''bytes'') (\<lambda>_. pl_snapshot_sha256)) pl_rules c ''ASSET''
       [(''collected_at'', PStr ''2026-07-25T09:00:00+09:00'')] v
       (Some pl_example_snapshot, Some pl_example_policy)"

definition pl_example_patch_value :: dict where
  "pl_example_patch_value =
     [(''display_version'', PStr ''25H2''), (''os_build'', PInt 26200), (''ubr'', PInt 8040),
      (''installed_cumulative_kb'', PStr ''KB5000002''), (''missing_required_update_count'', PInt 0),
      (''automatic_updates_enabled'', PBool True),
      (''update_inventory_source'', PStr ''WINDOWS_UPDATE_AGENT''),
      (''restart_pending'', PBool False), (''last_successful_scan_at'', PStr ''2026-07-24T12:00:00Z'')]"

theorem patch_verdict_sound_witness:
  "status_of (pl_example ''PC-10'' pl_example_patch_value) = Some ''PASS'' \<and>
   pl_patched pl_example_patch_value pl_example_snapshot"
proof -
  have s: "status_of (pl_example ''PC-10'' pl_example_patch_value) = Some ''PASS''"
    by code_simp
  then obtain d where d: "pl_example ''PC-10'' pl_example_patch_value = Inr d"
      "dec_status d = ''PASS''"
    by (auto simp: status_of_eq_Some)
  from patch_verdict_sound [OF d(1) [unfolded pl_example_def example_call_def Let_def]] d(2) s
  show ?thesis by simp
qed

definition pl_example_os_value :: dict where
  "pl_example_os_value =
     [(''product_name'', PStr ''Windows 11''), (''edition_group'', PStr ''PRO''),
      (''display_version'', PStr ''25H2''), (''os_build'', PInt 26200), (''ubr'', PInt 8040),
      (''architecture'', PStr ''x86_64'')]"

end
