(* ===== verification/Endpoint_Protection.thy ===== *)
theory Endpoint_Protection
  imports Rule_Inputs Canonical_Json
begin

section \<open>Endpoint protection rules PC-12 to PC-15 (\<^verbatim>\<open>rule_engine/endpoint_protection.py\<close>)\<close>

text \<open>
  The registry of the automatic-logon, antivirus-freshness, real-time-protection and firewall
  rules.  PC-13 to PC-15 interpret product facts through an adapter catalog whose identity and
  content hash are pinned in the module.  The signature age is the exact number of whole hours;
  the code takes it from a float quotient, which agrees for ages below two centuries.
  Each Korean literal is a constant
  named after its English meaning and given by the hexadecimal digits of its UTF-8 encoding.
\<close>

subsection \<open>Texts\<close>

definition ep_ko_inspection_information_not_obtained :: string where
  "ep_ko_inspection_information_not_obtained =
     hex_text ''eca090eab28020eca095ebb3b4eba5bc20eab080eca0b8ec98a4eca78020ebaabbed95a8''"

definition ep_ko_required_information_collected_without_error :: string where
  "ep_ko_required_information_collected_without_error =
     hex_text ''ed9584ec889820eca095ebb3b4eba5bc20ec98a4eba59820ec9786ec9db420ec8898eca791''"

definition ep_ko_collection_error :: string where
  "ep_ko_collection_error =
     hex_text ''ec8898eca79120ec98a4eba598''"

definition ep_ko_present :: string where
  "ep_ko_present =
     hex_text ''ec9e88ec9d8c''"

definition ep_ko_absent :: string where
  "ep_ko_absent =
     hex_text ''ec9786ec9d8c''"

definition ep_ko_then_related_configuration :: string where
  "ep_ko_then_related_configuration =
     hex_text ''2c20eab480eba0a820eab5acec84b120''"

definition ep_ko_password_value_existence :: string where
  "ep_ko_password_value_existence =
     hex_text ''ec9594ed98b820eab09220eca1b4ec9eac20ec97acebb68020''"

definition ep_ko_autoadminlogon_missing_or_0 :: string where
  "ep_ko_autoadminlogon_missing_or_0 =
     hex_text ''4175746f41646d696e4c6f676f6e20eab092ec9db420ec9786eab1b0eb82982030''"

definition ep_ko_hklm_winlogon_checked_with_least_exposure :: string where
  "ep_ko_hklm_winlogon_checked_with_least_exposure =
     hex_text ''484b4c4d2057696e6c6f676f6e20ecb59cec868ceb85b8ecb69c20ed9995ec9db8''"

definition ep_ko_automatic_logon_active :: string where
  "ep_ko_automatic_logon_active =
     hex_text ''ec9e90eb8f9920eba19ceab7b8ec9db820ed999cec84b1''"

definition ep_ko_autoadminlogon_0_1_or_missing :: string where
  "ep_ko_autoadminlogon_0_1_or_missing =
     hex_text ''4175746f41646d696e4c6f676f6e20eab0922030c2b73120eb9890eb8a9420eab09220ec9786ec9d8c''"

definition ep_ko_registry_value_not_understood :: string where
  "ep_ko_registry_value_not_understood =
     hex_text ''eba088eca780ec8aa4ed8ab8eba6ac20eab09220ed95b4ec849d20ec8ba4ed8ca8''"

definition ep_ko_then_signature :: string where
  "ep_ko_then_signature =
     hex_text ''2c20ec849cebaa8520''"

definition ep_ko_signature_freshness_limit_of_the_organization :: string where
  "ep_ko_signature_freshness_limit_of_the_organization =
     hex_text ''eab8b0eab480ec9d9820ec849cebaa8520ecb59cec8ba0ec84b120ec8b9ceab08420eab8b0eca480''"

definition ep_ko_no_freshness_limit :: string where
  "ep_ko_no_freshness_limit =
     hex_text ''ecb59cec8ba0ec84b120eab8b0eca48020ec9786ec9d8c''"

definition ep_ko_then_updated :: string where
  "ep_ko_then_updated =
     hex_text ''2c20ec9785eb8db0ec9db4ed8ab820''"

definition ep_ko_hours_ago :: string where
  "ep_ko_hours_ago =
     hex_text ''ec8b9ceab08420eca084''"

definition ep_ko_signature_update_within :: string where
  "ep_ko_signature_update_within =
     hex_text ''ec849cebaa8520ec9785eb8db0ec9db4ed8ab820''"

definition ep_ko_hours_automatic_updates_and_healthy :: string where
  "ep_ko_hours_automatic_updates_and_healthy =
     hex_text ''ec8b9ceab08420ec9db4eb82b42c20ec9e90eb8f9920ec9785eb8db0ec9db4ed8ab8ec998020eca095ec838120ec8381ed839c''"

definition ep_ko_organization_standard :: string where
  "ep_ko_organization_standard =
     hex_text ''eab8b0eab48020eab8b0eca48020''"

definition ep_ko_no_antivirus_found :: string where
  "ep_ko_no_antivirus_found =
     hex_text ''ed9995ec9db8eb909c20ebb0b1ec8ba020ec9786ec9d8c''"

definition ep_ko_active_antivirus_with_current_intelligence_by_an_approved_adapter :: string where
  "ep_ko_active_antivirus_with_current_intelligence_by_an_approved_adapter =
     hex_text ''ec8ab9ec9db82041646170746572eba19c20ed9995ec9db8eb909c20ed999cec84b120ebb0b1ec8ba0eab3bc20ecb59cec8ba020ebb3b4ec958820ec9db8ed8594eba6aceca084ec8aa4''"

definition ep_ko_antivirus_not_installed :: string where
  "ep_ko_antivirus_not_installed =
     hex_text ''ebb0b1ec8ba020ebafb8ec84a4ecb998''"

definition ep_ko_no_approved_adapter_for_the_installed_product :: string where
  "ep_ko_no_approved_adapter_for_the_installed_product =
     hex_text ''ec84a4ecb99820eca09ced9288ec9d9820ec8ab9ec9db82041646170746572eba5bc20ecb0beeca78020ebaabbed95a8''"

definition ep_ko_approved_adapter_and_freshness_limit :: string where
  "ep_ko_approved_adapter_and_freshness_limit =
     hex_text ''ec8ab9ec9db8eb909c20eca09ced92882041646170746572ec998020eab8b0eab48020ecb59cec8ba0ec84b120eab8b0eca480''"

definition ep_ko_product_adapter_to_be_confirmed :: string where
  "ep_ko_product_adapter_to_be_confirmed =
     hex_text ''eca09ced9288204164617074657220ed9995ec9db820ed9584ec9a94''"

definition ep_ko_active_antivirus_not_determined_by_an_approved_adapter :: string where
  "ep_ko_active_antivirus_not_determined_by_an_approved_adapter =
     hex_text ''ec8ab9ec9db82041646170746572ec9790ec849c20ed999cec84b120ebb0b1ec8ba0ec9d8420ed9995eca095ed9598eca78020ebaabbed95a8''"

definition ep_ko_approved_adapter_of_the_protecting_antivirus :: string where
  "ep_ko_approved_adapter_of_the_protecting_antivirus =
     hex_text ''ed9884ec9eac20ebb3b4ed98b8eba5bc20eb8bb4eb8bb9ed9598eb8a9420ebb0b1ec8ba0ec9d9820ec8ab9ec9db82041646170746572''"

definition ep_ko_active_product_to_be_confirmed :: string where
  "ep_ko_active_product_to_be_confirmed =
     hex_text ''ed999cec84b120eca09ced928820ed9995ec9db820ed9584ec9a94''"

definition ep_ko_installed_antivirus_inactive :: string where
  "ep_ko_installed_antivirus_inactive =
     hex_text ''ec84a4ecb998eb909c20ebb0b1ec8ba0ec9db420ebb984ed999cec84b1''"

definition ep_ko_active_antivirus :: string where
  "ep_ko_active_antivirus =
     hex_text ''ed999cec84b120ebb0b1ec8ba0''"

definition ep_ko_antivirus_inactive :: string where
  "ep_ko_antivirus_inactive =
     hex_text ''ebb0b1ec8ba020ebb984ed999cec84b1''"

definition ep_ko_real_time_monitoring_of_the_installed_antivirus_active :: string where
  "ep_ko_real_time_monitoring_of_the_installed_antivirus_active =
     hex_text ''ec84a4ecb99820ebb0b1ec8ba0ec9d9820ec8ba4ec8b9ceab08420eab090ec8b9c20ed999cec84b1''"

definition ep_ko_approved_real_time_monitoring_adapter :: string where
  "ep_ko_approved_real_time_monitoring_adapter =
     hex_text ''ec8ab9ec9db8eb909c20ec8ba4ec8b9ceab08420eab090ec8b9c2041646170746572''"

definition ep_ko_defender_passive_or_active_product_not_determined :: string where
  "ep_ko_defender_passive_or_active_product_not_determined =
     hex_text ''446566656e646572eab08020ec8898eb8f9920ebaaa8eb939cec9db4eab1b0eb829820ed999cec84b120eca09ced9288ec9d8420ed9995eca095ed9598eca78020ebaabbed95a8''"

definition ep_ko_operating_mode_to_be_confirmed :: string where
  "ep_ko_operating_mode_to_be_confirmed =
     hex_text ''eb8f99ec9e9120ebaaa8eb939c20ed9995ec9db820ed9584ec9a94''"

definition ep_ko_then_real_time_monitoring :: string where
  "ep_ko_then_real_time_monitoring =
     hex_text ''2c20ec8ba4ec8b9ceab08420eab090ec8b9c20''"

definition ep_ko_used :: string where
  "ep_ko_used =
     hex_text ''ec82acec9aa9''"

definition ep_ko_not_used :: string where
  "ep_ko_not_used =
     hex_text ''ec82acec9aa920ec958820ed95a8''"

definition ep_ko_service :: string where
  "ep_ko_service =
     hex_text ''ec849cebb984ec8aa420''"

definition ep_ko_running :: string where
  "ep_ko_running =
     hex_text ''ec8ba4ed9689''"

definition ep_ko_stopped :: string where
  "ep_ko_stopped =
     hex_text ''eca491eca780''"

definition ep_ko_real_time_monitoring_and_service_of_the_active_antivirus_used :: string where
  "ep_ko_real_time_monitoring_and_service_of_the_active_antivirus_used =
     hex_text ''ed999cec84b120ebb0b1ec8ba0ec9d9820ec8ba4ec8b9ceab08420eab090ec8b9cec998020ec849cebb984ec8aa420ec82acec9aa9''"

definition ep_ko_real_time_monitoring_inactive :: string where
  "ep_ko_real_time_monitoring_inactive =
     hex_text ''ec8ba4ec8b9ceab08420eab090ec8b9c20ebb984ed999cec84b1''"

definition ep_ko_real_time_monitoring_active :: string where
  "ep_ko_real_time_monitoring_active =
     hex_text ''ec8ba4ec8b9ceab08420eab090ec8b9c20ed999cec84b1''"

definition ep_ko_domain :: string where
  "ep_ko_domain =
     hex_text ''eb8f84eba994ec9db8''"

definition ep_ko_private :: string where
  "ep_ko_private =
     hex_text ''eab09cec9db8''"

definition ep_ko_public :: string where
  "ep_ko_public =
     hex_text ''eab3b5ec9aa9''"

definition ep_ko_windows_firewall_or_an_approved_alternative :: string where
  "ep_ko_windows_firewall_or_an_approved_alternative =
     hex_text ''57696e646f777320ebb0a9ed9994ebb2bd20eb9890eb8a9420ec8ab9ec9db8eb909c20eb8c80ecb2b420ebb0a9ed9994ebb2bd''"

definition ep_ko_no_effective_firewall :: string where
  "ep_ko_no_effective_firewall =
     hex_text ''ec9ca0ed9aa820ebb0a9ed9994ebb2bd20ec9786ec9d8c''"

definition ep_ko_then_third_party_firewall_not_approved :: string where
  "ep_ko_then_third_party_firewall_not_approved =
     hex_text ''2c20ec8ab9ec9db8eb9098eca78020ec958aec9d8020ed8380ec82ac20ebb0a9ed9994ebb2bd''"

definition ep_ko_effective_protection_by_an_approved_third_party_adapter :: string where
  "ep_ko_effective_protection_by_an_approved_third_party_adapter =
     hex_text ''ec8ab9ec9db8eb909c20ed8380ec82ac2041646170746572ec9d9820ec9ca0ed9aa820ebb3b4ed98b8''"

definition ep_ko_third_party_adapter_to_be_confirmed :: string where
  "ep_ko_third_party_adapter_to_be_confirmed =
     hex_text ''ed8380ec82ac20ebb0a9ed9994ebb2bd204164617074657220ed9995ec9db820ed9584ec9a94''"

definition ep_ko_then_adapter_for_synthetic_tests_only :: string where
  "ep_ko_then_adapter_for_synthetic_tests_only =
     hex_text ''2c20ed95a9ec84b1ec8b9ced979820eca084ec9aa92041646170746572eba5bc20ec8ba4eca69deca081ec9cbceba19c20ec82acec9aa9ed95a020ec889820ec9786ec9d8c''"

definition ep_ko_effective_protection_by_an_operational_adapter :: string where
  "ep_ko_effective_protection_by_an_operational_adapter =
     hex_text ''ec9ab4ec988120ec8ab9ec9db8eb909c20ed8380ec82ac2041646170746572ec9d9820ec9ca0ed9aa820ebb3b4ed98b8''"

definition ep_ko_operational_adapter_to_be_confirmed :: string where
  "ep_ko_operational_adapter_to_be_confirmed =
     hex_text ''ec9ab4ec9881204164617074657220ed9995ec9db820ed9584ec9a94''"

definition ep_ko_then_the_synthetic_alternative_firewall_protects :: string where
  "ep_ko_then_the_synthetic_alternative_firewall_protects =
     hex_text ''2c20ed95a9ec84b120eb8c80ecb2b420ebb0a9ed9994ebb2bdec9db420''"

definition ep_ko_protected :: string where
  "ep_ko_protected =
     hex_text ''20ebb3b4ed98b8''"

definition ep_ko_effective_firewall_of_every_applicable_profile_active :: string where
  "ep_ko_effective_firewall_of_every_applicable_profile_active =
     hex_text ''ebaaa8eb93a020eca081ec9aa920ed9484eba19ced9584ec9d9820ec9ca0ed9aa820ebb0a9ed9994ebb2bd20ed999cec84b1''"

definition ep_ko_synthetic_test_of_the_alternative_branch :: string where
  "ep_ko_synthetic_test_of_the_alternative_branch =
     hex_text ''eb8c80ecb2b420ebb0a9ed9994ebb2bd20ebb684eab8b020ed95a9ec84b1ec8b9ced9798''"

definition ep_ko_then_protection_of_the_approved_adapter_insufficient :: string where
  "ep_ko_then_protection_of_the_approved_adapter_insufficient =
     hex_text ''2c20ec8ab9ec9db82041646170746572ec9d9820ebb3b4ed98b820ec8381ed839c20ebb688ecb6a9ebb684''"

definition ep_ko_alternative_inactive_or_coverage_insufficient :: string where
  "ep_ko_alternative_inactive_or_coverage_insufficient =
     hex_text ''eb8c80ecb2b420ebb0a9ed9994ebb2bd20ebb984ed999cec84b120eb9890eb8a9420ebb294ec9c8420ebb680eca1b1''"

definition ep_ko_windows_firewall_adapter_not_understood :: string where
  "ep_ko_windows_firewall_adapter_not_understood =
     hex_text ''57696e646f777320ebb0a9ed9994ebb2bd2041646170746572eba5bc20ed95b4ec849ded95a020ec889820ec9786ec9d8c''"

definition ep_ko_approved_activestore_adapter :: string where
  "ep_ko_approved_activestore_adapter =
     hex_text ''ec8ab9ec9db8eb909c2041637469766553746f72652041646170746572''"

definition ep_ko_adapter_to_be_confirmed :: string where
  "ep_ko_adapter_to_be_confirmed =
     hex_text ''4164617074657220ed9995ec9db820ed9584ec9a94''"

definition ep_ko_policy_store :: string where
  "ep_ko_policy_store =
     hex_text ''eca095ecb18520eca080ec9ea5ec868c20''"

definition ep_ko_effective_policy_of_the_activestore :: string where
  "ep_ko_effective_policy_of_the_activestore =
     hex_text ''41637469766553746f726520ec9ca0ed9aa820eca095ecb185''"

definition ep_ko_effective_policy_collection_error :: string where
  "ep_ko_effective_policy_collection_error =
     hex_text ''ec9ca0ed9aa820eca095ecb18520ec8898eca79120ec98a4eba598''"

definition ep_ko_missing_fields :: string where
  "ep_ko_missing_fields =
     hex_text ''eb8884eb9dbd20ed9584eb939c20''"

definition ep_ko_domain_private_and_public_activestore_profiles :: string where
  "ep_ko_domain_private_and_public_activestore_profiles =
     hex_text ''446f6d61696ec2b750726976617465c2b75075626c69632041637469766553746f726520ed9484eba19ced9584''"

definition ep_ko_profiles_not_collected :: string where
  "ep_ko_profiles_not_collected =
     hex_text ''ed9484eba19ced958420ec8898eca79120eb8884eb9dbd''"

definition ep_ko_applicable_profiles :: string where
  "ep_ko_applicable_profiles =
     hex_text ''eca081ec9aa920ed9484eba19ced958420''"

definition ep_ko_units :: string where
  "ep_ko_units =
     hex_text ''eab09c28''"

definition ep_ko_windows_firewall_inactive :: string where
  "ep_ko_windows_firewall_inactive =
     hex_text ''57696e646f777320ebb0a9ed9994ebb2bd20ebb984ed999cec84b120''"

definition ep_ko_adapter_reference_could_not_be_loaded :: string where
  "ep_ko_adapter_reference_could_not_be_loaded =
     hex_text ''4164617074657220eab8b0eca480ec9d8420ebb688eb9facec98a4eca78020ebaabbed95a8''"

definition ep_ko_valid_product_adapter_catalog :: string where
  "ep_ko_valid_product_adapter_catalog =
     hex_text ''ec9ca0ed9aa8ed959c20eca09ced9288204164617074657220436174616c6f67''"

definition ep_ko_no_adapter_reference :: string where
  "ep_ko_no_adapter_reference =
     hex_text ''4164617074657220eab8b0eca48020ec9786ec9d8c''"

subsection \<open>Errors, decisions and the allowlist\<close>

datatype endpoint_protection_error =
    EndpointProtectionRuleError string
  | EndpointCanonicalization canonicalization_error

record endpoint_protection_decision = decision +
  ep_scope_label :: string
  ep_adapter_id :: string
  ep_adapter_version :: string
  ep_adapter_coverage :: string

definition ep_catalog_id :: string where
  "ep_catalog_id = ''secai-endpoint-protection-adapters-0.1.0''"

definition ep_catalog_version :: string where
  "ep_catalog_version = ''0.1.0''"

definition ep_catalog_sha256 :: string where
  "ep_catalog_sha256 = ''934b1ac7b769321756c1550ef78fdb0dd0df5741e4db663dcf884146187e7758''"

definition ep_catalog_parameters :: dict where
  "ep_catalog_parameters =
    [(''adapter_catalog_required'', PBool True),
     (''adapter_catalog_id'', PStr ep_catalog_id),
     (''adapter_catalog_version'', PStr ep_catalog_version),
     (''adapter_catalog_sha256'', PStr ep_catalog_sha256),
     (''allowed_catalog_approval_statuses'', str_list [''DRAFT'']),
     (''unsupported_adapter_status'', PStr ''REVIEW'')]"

definition ep_antivirus_parameters :: dict where
  "ep_antivirus_parameters =
    [(''subject_scope'', PStr ''ASSET''),
     (''target_product_kind'', PStr ''ANTIVIRUS''),
     (''not_installed_status'', PStr ''FAIL''),
     (''collection_failure_status'', PStr ''ERROR'')]"

definition ep_rules :: "(string \<times> rule_def) list" where
  "ep_rules =
    [(''PC-12'',
      \<lparr>rd_probe_id = ''win.autologon.config'',
       rd_applicability = (''pc12.autologon-applicability'', ''0.1.0''),
       rd_evaluation = (''pc12.autologon-disabled'', ''0.1.0''),
       rd_applicability_parameters =
         [(''subject_scope'', PStr ''ASSET''),
          (''registry_source'', PStr ''HKLM_WINLOGON''),
          (''collection_failure_status'', PStr ''ERROR'')],
       rd_evaluation_parameters =
         [(''enabled_value'', PStr ''1''),
          (''disabled_values'', str_list [''0'', ''MISSING'']),
          (''enabled_status'', PStr ''FAIL''),
          (''disabled_status'', PStr ''PASS''),
          (''unknown_value_status'', PStr ''ERROR''),
          (''password_content_collection_forbidden'', PBool True)]\<rparr>),
     (''PC-13'',
      \<lparr>rd_probe_id = ''win.antivirus.update-status'',
       rd_applicability = (''pc13.antivirus-applicability'', ''0.1.0''),
       rd_evaluation = (''pc13.antivirus-freshness'', ''0.1.0''),
       rd_applicability_parameters = ep_antivirus_parameters,
       rd_evaluation_parameters =
         ep_catalog_parameters @
         [(''organization_freshness_policy_required'', PBool True),
          (''missing_policy_status'', PStr ''REVIEW''),
          (''active_product_required'', PBool True),
          (''automatic_updates_required'', PBool True),
          (''healthy_state'', PStr ''HEALTHY''),
          (''stale_signature_status'', PStr ''FAIL''),
          (''inactive_product_status'', PStr ''FAIL'')]\<rparr>),
     (''PC-14'',
      \<lparr>rd_probe_id = ''win.antivirus.realtime-status'',
       rd_applicability = (''pc14.antivirus-applicability'', ''0.1.0''),
       rd_evaluation = (''pc14.realtime-protection'', ''0.1.0''),
       rd_applicability_parameters = ep_antivirus_parameters,
       rd_evaluation_parameters =
         ep_catalog_parameters @
         [(''active_product_required'', PBool True),
          (''service_enabled_required'', PBool True),
          (''real_time_protection_required'', PBool True),
          (''passive_or_unknown_mode_status'', PStr ''REVIEW''),
          (''disabled_realtime_status'', PStr ''FAIL'')]\<rparr>),
     (''PC-15'',
      \<lparr>rd_probe_id = ''win.firewall.effective-profiles'',
       rd_applicability = (''pc15.firewall-applicability'', ''0.1.0''),
       rd_evaluation = (''pc15.firewall-effective-state'', ''0.1.0''),
       rd_applicability_parameters =
         [(''subject_scope'', PStr ''ASSET''),
          (''required_profile_names'', str_list [''DOMAIN'', ''PRIVATE'', ''PUBLIC'']),
          (''collection_failure_status'', PStr ''ERROR'')],
       rd_evaluation_parameters =
         ep_catalog_parameters @
         [(''required_policy_store'', PStr ''ACTIVE_STORE''),
          (''all_applicable_profiles_enabled'', PBool True),
          (''approved_third_party_equivalent_allowed'', PBool True),
          (''unknown_third_party_status'', PStr ''REVIEW''),
          (''no_effective_firewall_status'', PStr ''FAIL'')]\<rparr>)]"

subsection \<open>Helpers\<close>

definition ep_reject :: "string \<Rightarrow> (endpoint_protection_error, 'a) result" where
  "ep_reject message = raise_error (EndpointProtectionRuleError message)"

definition ep_mapping :: "pyval \<Rightarrow> string \<Rightarrow> (endpoint_protection_error, dict) result" where
  "ep_mapping = as_mapping EndpointProtectionRuleError"

definition ep_sequence :: "pyval \<Rightarrow> string \<Rightarrow> (endpoint_protection_error, pyval list) result" where
  "ep_sequence = as_sequence EndpointProtectionRuleError"

definition ep_string :: "pyval \<Rightarrow> string \<Rightarrow> (endpoint_protection_error, string) result" where
  "ep_string = as_string EndpointProtectionRuleError"

definition ep_integer :: "pyval \<Rightarrow> string \<Rightarrow> (endpoint_protection_error, int) result" where
  "ep_integer = as_integer EndpointProtectionRuleError"

definition ep_boolean :: "pyval \<Rightarrow> string \<Rightarrow> (endpoint_protection_error, bool) result" where
  "ep_boolean = as_boolean EndpointProtectionRuleError"

definition ep_timestamp :: "pyval \<Rightarrow> string \<Rightarrow> (endpoint_protection_error, int) result" where
  "ep_timestamp = as_timestamp EndpointProtectionRuleError"

text \<open>The last triple is adapter ID, version and coverage.\<close>

definition ep_decision ::
  "string \<Rightarrow> string \<Rightarrow> string \<Rightarrow> string \<Rightarrow> string \<Rightarrow> string \<Rightarrow> string \<times> string \<times> string \<Rightarrow>
     string list \<Rightarrow> endpoint_protection_decision" where
  "ep_decision control_id status result_code actual expected scope_label adapter error_codes =
     \<lparr>dec_control_id = control_id,
      dec_status = status,
      dec_result_code = result_code,
      dec_actual = actual,
      dec_expected = expected,
      dec_rationale_code = result_code,
      dec_error_codes = error_codes,
      ep_scope_label = scope_label,
      ep_adapter_id = fst adapter,
      ep_adapter_version = fst (snd adapter),
      ep_adapter_coverage = snd (snd adapter)\<rparr>"

definition ep_collection_error :: "string \<Rightarrow> string \<Rightarrow> endpoint_protection_decision" where
  "ep_collection_error control_id error_code =
     ep_decision control_id ''ERROR''
       (replace_char (CHR ''-'') [] control_id @ ''_COLLECTION_FAILED'')
       ep_ko_inspection_information_not_obtained
       ep_ko_required_information_collected_without_error
       ep_ko_collection_error
       (''NOT_EVALUATED'', ''NOT_EVALUATED'', ''COLLECTION_FAILED'') [error_code]"

definition ep_validated_catalog ::
  "json_dumps \<Rightarrow> digest \<Rightarrow> dict \<Rightarrow> (endpoint_protection_error, dict) result" where
  "ep_validated_catalog dumps sha256 catalog =
     (if py_get catalog ''catalog_id'' \<noteq> PStr ep_catalog_id
      then ep_reject ''Adapter catalog ID differs from the allowlisted rule.''
      else if py_get catalog ''version'' \<noteq> PStr ep_catalog_version
      then ep_reject ''Adapter catalog version differs from the allowlisted rule.''
      else if py_get catalog ''content_sha256'' \<noteq> PStr ep_catalog_sha256
      then ep_reject ''Adapter catalog hash differs from the allowlisted rule.''
      else
        bindE (lift_error EndpointCanonicalization
            (canonical_sha256_without_fields dumps sha256 catalog [''content_sha256'', ''approval'']))
          (\<lambda>actual_hash.
            if actual_hash \<noteq> ep_catalog_sha256
            then ep_reject ''Adapter catalog payload integrity failed.''
            else
              bindE (ep_mapping (py_get catalog ''approval'') ''Adapter catalog approval is invalid.'')
                (\<lambda>approval.
                  if py_get approval ''status'' \<noteq> PStr ''DRAFT'' \<or>
                     py_get approval ''usage'' \<noteq> PStr ''SYNTHETIC_TEST_ONLY''
                  then ep_reject ''Adapter catalog approval status is not allowlisted.''
                  else Inr catalog)))"

fun ep_search_adapter ::
  "string \<Rightarrow> string \<Rightarrow> string \<Rightarrow> pyval list \<Rightarrow> (endpoint_protection_error, dict option) result" where
  "ep_search_adapter adapter_id adapter_version control_id [] = Inr None"
| "ep_search_adapter adapter_id adapter_version control_id (item # items) =
     bindE (ep_mapping item ''Adapter catalog record is invalid.'') (\<lambda>adapter.
     bindE (ep_sequence (py_get adapter ''controls'') ''Adapter Control coverage is invalid.'')
       (\<lambda>controls.
       if py_get adapter ''adapter_id'' = PStr adapter_id \<and>
          py_get adapter ''adapter_version'' = PStr adapter_version \<and>
          PStr control_id \<in> set controls
       then Inr (Some adapter)
       else ep_search_adapter adapter_id adapter_version control_id items))"

definition ep_catalog_adapter ::
  "dict \<Rightarrow> string \<Rightarrow> string \<Rightarrow> string \<Rightarrow> (endpoint_protection_error, dict option) result" where
  "ep_catalog_adapter catalog adapter_id adapter_version control_id =
     bindE (ep_sequence (py_get catalog ''adapters'') ''Adapter catalog records are invalid.'')
       (ep_search_adapter adapter_id adapter_version control_id)"

definition ep_product_adapter ::
  "dict \<Rightarrow> dict \<Rightarrow> string \<Rightarrow> (endpoint_protection_error, dict option) result" where
  "ep_product_adapter product catalog control_id =
     bindE (ep_string (py_get product ''adapter_id'') ''Adapter ID is invalid.'') (\<lambda>adapter_id.
     bindE (ep_string (py_get product ''adapter_version'') ''Adapter version is invalid.'')
       (\<lambda>adapter_version.
       ep_catalog_adapter catalog adapter_id adapter_version control_id))"

subsection \<open>PC-12\<close>

definition ep_forbidden_keys :: "string list" where
  "ep_forbidden_keys =
    [''defaultpassword'', ''default_password'', ''default_password_value'', ''password'',
     ''password_value'', ''lsa_secret'']"

definition ep_evaluate_pc12 ::
  "dict \<Rightarrow> (endpoint_protection_error, endpoint_protection_decision) result" where
  "ep_evaluate_pc12 v =
     (if \<exists>k\<in>set (dict_keys v). casefold k \<in> set ep_forbidden_keys
      then ep_reject ''Automatic logon evidence contains forbidden secret content.''
      else
        bindE (ep_string (py_get v ''auto_admin_logon_value'') ''AutoAdminLogon value is invalid.'')
          (\<lambda>state.
        bindE (ep_boolean (py_get v ''related_autologon_configuration_present'')
                 ''Related autologon configuration state is invalid.'') (\<lambda>present.
        bindE (ep_boolean (py_get v ''default_password_present'')
                 ''Password presence flag is invalid.'') (\<lambda>password_present.
          let there = (\<lambda>b. if b then ep_ko_present else ep_ko_absent);
              actual = ''AutoAdminLogon='' @ state @ ep_ko_then_related_configuration @
                there present @ '', '' @ ep_ko_password_value_existence @
                there password_present;
              adapter = (\<lambda>coverage. (''secai.winlogon-native'', ''0.1.0'', coverage))
          in if state \<in> {''0'', ''MISSING''} then
               Inr (ep_decision ''PC-12'' ''PASS'' ''WINDOWS_AUTOMATIC_LOGON_DISABLED'' actual
                 ep_ko_autoadminlogon_missing_or_0
                 ep_ko_hklm_winlogon_checked_with_least_exposure
                 (adapter ''AUTO_ADMIN_LOGON_STATE_ONLY'') [])
             else if state = ''1'' then
               Inr (ep_decision ''PC-12'' ''FAIL'' ''WINDOWS_AUTOMATIC_LOGON_ENABLED'' actual
                 ep_ko_autoadminlogon_missing_or_0
                 ep_ko_automatic_logon_active
                 (adapter ''AUTO_ADMIN_LOGON_STATE_ONLY'') [])
             else
               Inr (ep_decision ''PC-12'' ''ERROR'' ''AUTO_ADMIN_LOGON_VALUE_UNRECOGNIZED'' actual
                 ep_ko_autoadminlogon_0_1_or_missing
                 ep_ko_registry_value_not_understood
                 (adapter ''VALUE_UNRECOGNIZED'') [''PARSE_ERROR''])))))"

subsection \<open>PC-13\<close>

definition ep_freshness_policy ::
  "policy \<Rightarrow> (endpoint_protection_error, (string \<times> int) option) result" where
  "ep_freshness_policy policy =
     (case policy of
        None \<Rightarrow> Inr None
      | Some p \<Rightarrow>
          bindE (ep_string (py_get p ''standard_id'') ''Freshness standard ID is invalid.'')
            (\<lambda>standard_id.
          bindE (ep_string (py_get p ''version'') ''Freshness standard version is invalid.'') (\<lambda>_.
          if py_get p ''approved_adapter_catalog_id'' \<noteq> PStr ep_catalog_id then Inr None
          else
            bindE (ep_integer (py_get p ''maximum_signature_age_hours'')
                     ''Signature age threshold is invalid.'') (\<lambda>maximum_age.
              if maximum_age < 1 then ep_reject ''Signature age threshold must be positive.''
              else Inr (Some (standard_id, maximum_age))))))"

text \<open>
  The rule in two parts, in the order of the code: product, adapter and activity; then, for an
  active product, the freshness of its signatures.
\<close>

definition ep_pc13_freshness ::
  "dict \<Rightarrow> dict \<Rightarrow> policy \<Rightarrow> (endpoint_protection_error, endpoint_protection_decision) result" where
  "ep_pc13_freshness v evidence policy =
     bindE (ep_freshness_policy policy) (\<lambda>freshness.
     bindE (ep_string (py_get v ''adapter_id'') ''Adapter ID is invalid.'') (\<lambda>adapter_id.
     bindE (ep_string (py_get v ''adapter_version'') ''Adapter version is invalid.'')
       (\<lambda>adapter_version.
     bindE (ep_string (py_get v ''product_name'') ''Product name is invalid.'') (\<lambda>product_name.
     bindE (ep_string (py_get v ''signature_version'') ''Signature version is invalid.'')
       (\<lambda>signature_version.
     case freshness of
       None \<Rightarrow>
         Inr (ep_decision ''PC-13'' ''REVIEW'' ''ANTIVIRUS_FRESHNESS_POLICY_REQUIRED''
           (product_name @ ep_ko_then_signature @ signature_version)
           ep_ko_signature_freshness_limit_of_the_organization
           ep_ko_no_freshness_limit (adapter_id, adapter_version, ''SUPPORTED_NO_POLICY'') [])
     | Some (standard_id, maximum_age) \<Rightarrow>
         bindE (ep_timestamp (py_get evidence ''collected_at'') ''Collected timestamp is invalid.'')
           (\<lambda>collected_at.
         bindE (ep_timestamp (py_get v ''signature_updated_at'')
                  ''Signature update timestamp is invalid.'') (\<lambda>updated_at.
         if updated_at > collected_at
         then ep_reject ''Signature update timestamp cannot be later than collection time.''
         else
           let signature_age = (collected_at - updated_at) div us_per_hour;
               actual = product_name @ ep_ko_then_signature @ signature_version @
                 ep_ko_then_updated @ int_str signature_age @ ep_ko_hours_ago;
               expected = ep_ko_signature_update_within @ int_str maximum_age @
                 ep_ko_hours_automatic_updates_and_healthy;
               label = ep_ko_organization_standard @ standard_id;
               adapter = (adapter_id, adapter_version, ''SUPPORTED'')
           in if signature_age > maximum_age then
                Inr (ep_decision ''PC-13'' ''FAIL'' ''ANTIVIRUS_SIGNATURE_STALE'' actual expected label
                  adapter [])
              else if py_get v ''automatic_updates_enabled'' \<noteq> PBool True then
                Inr (ep_decision ''PC-13'' ''FAIL'' ''ANTIVIRUS_AUTOMATIC_UPDATE_DISABLED'' actual
                  expected label adapter [])
              else if py_get v ''health_state'' \<noteq> PStr ''HEALTHY'' then
                Inr (ep_decision ''PC-13'' ''FAIL'' ''ANTIVIRUS_HEALTH_NOT_OK'' actual expected label
                  adapter [])
              else
                Inr (ep_decision ''PC-13'' ''PASS'' ''ANTIVIRUS_CURRENT_AND_MANAGED'' actual expected
                  label adapter []))))))))"

definition ep_evaluate_pc13 ::
  "dict \<Rightarrow> dict \<Rightarrow> dict \<Rightarrow> policy \<Rightarrow>
     (endpoint_protection_error, endpoint_protection_decision) result" where
  "ep_evaluate_pc13 v evidence catalog policy =
     bindE (ep_boolean (py_get v ''product_present'') ''Product presence is invalid.'') (\<lambda>present.
     if \<not> present then
       Inr (ep_decision ''PC-13'' ''FAIL'' ''ANTIVIRUS_NOT_INSTALLED''
         ep_ko_no_antivirus_found
         ep_ko_active_antivirus_with_current_intelligence_by_an_approved_adapter
         ep_ko_antivirus_not_installed (''NONE'', ''NONE'', ''NO_PRODUCT'') [])
     else
       bindE (ep_product_adapter v catalog ''PC-13'') (\<lambda>adapter.
       if adapter = None then
         Inr (ep_decision ''PC-13'' ''REVIEW'' ''ANTIVIRUS_ADAPTER_NOT_SUPPORTED''
           ep_ko_no_approved_adapter_for_the_installed_product
           ep_ko_approved_adapter_and_freshness_limit
           ep_ko_product_adapter_to_be_confirmed
           (''UNSUPPORTED'', ''UNKNOWN'', ''UNSUPPORTED_PRODUCT'') [])
       else if py_get v ''product_state'' \<noteq> PStr ''ACTIVE'' \<or>
               py_get v ''service_enabled'' \<noteq> PBool True then
         bindE (in_str_set (py_get v ''product_state'') [''PASSIVE'', ''UNKNOWN'']) (\<lambda>unresolved.
         if unresolved then
           Inr (ep_decision ''PC-13'' ''REVIEW'' ''ACTIVE_ANTIVIRUS_ADAPTER_COVERAGE_REQUIRED''
             ep_ko_active_antivirus_not_determined_by_an_approved_adapter
             ep_ko_approved_adapter_of_the_protecting_antivirus
             ep_ko_active_product_to_be_confirmed
             (''PARTIAL'', ''UNKNOWN'', ''ACTIVE_PRODUCT_UNRESOLVED'') [])
         else
           Inr (ep_decision ''PC-13'' ''FAIL'' ''ANTIVIRUS_NOT_ACTIVE''
             ep_ko_installed_antivirus_inactive ep_ko_active_antivirus
             ep_ko_antivirus_inactive (''KNOWN'', ''0.1.0'', ''KNOWN_INACTIVE'') []))
       else ep_pc13_freshness v evidence policy))"

subsection \<open>PC-14\<close>

definition ep_evaluate_pc14 ::
  "dict \<Rightarrow> dict \<Rightarrow> (endpoint_protection_error, endpoint_protection_decision) result" where
  "ep_evaluate_pc14 v catalog =
     bindE (ep_boolean (py_get v ''product_present'') ''Product presence is invalid.'') (\<lambda>present.
     if \<not> present then
       Inr (ep_decision ''PC-14'' ''FAIL'' ''ANTIVIRUS_NOT_INSTALLED''
         ep_ko_no_antivirus_found
         ep_ko_real_time_monitoring_of_the_installed_antivirus_active
         ep_ko_antivirus_not_installed (''NONE'', ''NONE'', ''NO_PRODUCT'') [])
     else
       bindE (ep_product_adapter v catalog ''PC-14'') (\<lambda>adapter.
       if adapter = None then
         Inr (ep_decision ''PC-14'' ''REVIEW'' ''ANTIVIRUS_ADAPTER_NOT_SUPPORTED''
           ep_ko_no_approved_adapter_for_the_installed_product
           ep_ko_approved_real_time_monitoring_adapter
           ep_ko_product_adapter_to_be_confirmed
           (''UNSUPPORTED'', ''UNKNOWN'', ''UNSUPPORTED_PRODUCT'') [])
       else if py_get v ''product_state'' \<noteq> PStr ''ACTIVE'' then
         Inr (ep_decision ''PC-14'' ''REVIEW'' ''ACTIVE_ANTIVIRUS_ADAPTER_COVERAGE_REQUIRED''
           ep_ko_defender_passive_or_active_product_not_determined
           ep_ko_approved_adapter_of_the_protecting_antivirus
           ep_ko_operating_mode_to_be_confirmed
           (''PARTIAL'', ''0.1.0'', ''PASSIVE_OR_UNKNOWN'') [])
       else
         bindE (ep_string (py_get v ''adapter_id'') ''Adapter ID is invalid.'') (\<lambda>adapter_id.
         bindE (ep_string (py_get v ''adapter_version'') ''Adapter version is invalid.'')
           (\<lambda>adapter_version.
         bindE (ep_string (py_get v ''product_name'') ''Product name is invalid.'') (\<lambda>product_name.
         bindE (ep_boolean (py_get v ''real_time_protection_enabled'') ''Real-time state is invalid.'')
           (\<lambda>realtime.
         bindE (ep_boolean (py_get v ''service_enabled'') ''Service state is invalid.'') (\<lambda>service.
           let actual = product_name @ ep_ko_then_real_time_monitoring @
                 (if realtime then ep_ko_used else ep_ko_not_used) @ '', '' @
                 ep_ko_service @ (if service then ep_ko_running else ep_ko_stopped);
               expected = ep_ko_real_time_monitoring_and_service_of_the_active_antivirus_used;
               adapter = (adapter_id, adapter_version, ''SUPPORTED'')
           in if \<not> realtime \<or> \<not> service then
                Inr (ep_decision ''PC-14'' ''FAIL'' ''ANTIVIRUS_REALTIME_PROTECTION_DISABLED'' actual
                  expected ep_ko_real_time_monitoring_inactive adapter [])
              else
                Inr (ep_decision ''PC-14'' ''PASS'' ''ANTIVIRUS_REALTIME_PROTECTION_ENABLED'' actual
                  expected ep_ko_real_time_monitoring_active adapter []))))))))"

subsection \<open>PC-15\<close>

definition ep_required_profile_fields :: "string list" where
  "ep_required_profile_fields =
    [''domain_applicable'', ''domain_enabled'', ''private_applicable'', ''private_enabled'',
     ''public_applicable'', ''public_enabled'', ''third_party_present'']"

definition ep_profile_labels :: "(string \<times> string) list" where
  "ep_profile_labels =
    [(''DOMAIN'', ep_ko_domain), (''PRIVATE'', ep_ko_private), (''PUBLIC'', ep_ko_public)]"

definition ep_profile_label :: "string \<Rightarrow> string" where
  "ep_profile_label name = (case map_of ep_profile_labels name of None \<Rightarrow> [] | Some l \<Rightarrow> l)"

definition ep_profile_states ::
  "dict \<Rightarrow> (endpoint_protection_error, (string \<times> bool \<times> bool) list) result" where
  "ep_profile_states v =
     bindE (ep_boolean (py_get v ''domain_applicable'') ''Domain applicability is invalid.'') (\<lambda>da.
     bindE (ep_boolean (py_get v ''domain_enabled'') ''Domain firewall state is invalid.'') (\<lambda>de.
     bindE (ep_boolean (py_get v ''private_applicable'') ''Private applicability is invalid.'') (\<lambda>ra.
     bindE (ep_boolean (py_get v ''private_enabled'') ''Private firewall state is invalid.'') (\<lambda>re.
     bindE (ep_boolean (py_get v ''public_applicable'') ''Public applicability is invalid.'') (\<lambda>ua.
     bindE (ep_boolean (py_get v ''public_enabled'') ''Public firewall state is invalid.'') (\<lambda>ue.
       Inr [(''DOMAIN'', da, de), (''PRIVATE'', ra, re), (''PUBLIC'', ua, ue)]))))))"

text \<open>
  The branch of a disabled profile: an alternative firewall must be present, known to the catalog,
  usable outside synthetic tests, active, healthy and cover every disabled profile.
\<close>

definition ep_pc15_alternative ::
  "dict \<Rightarrow> dict \<Rightarrow> string \<times> string \<Rightarrow> string list \<Rightarrow> string \<Rightarrow>
     (endpoint_protection_error, endpoint_protection_decision) result" where
  "ep_pc15_alternative v catalog adapter disabled actual =
     bindE (ep_boolean (py_get v ''third_party_present'')
              ''Third-party firewall presence is invalid.'') (\<lambda>third_party_present.
     if \<not> third_party_present then
       Inr (ep_decision ''PC-15'' ''FAIL'' ''NO_EFFECTIVE_FIREWALL_FOR_APPLICABLE_PROFILES'' actual
         ep_ko_windows_firewall_or_an_approved_alternative
         ep_ko_no_effective_firewall (fst adapter, snd adapter, ''WINDOWS_ONLY'') [])
     else
       bindE (ep_string (py_get v ''third_party_adapter_id'') ''Third-party Adapter ID is invalid.'')
         (\<lambda>product_id.
       bindE (ep_string (py_get v ''third_party_adapter_version'')
                ''Third-party Adapter version is invalid.'') (\<lambda>product_version.
       bindE (ep_catalog_adapter catalog product_id product_version ''PC-15'') (\<lambda>found.
       case found of
         None \<Rightarrow>
           Inr (ep_decision ''PC-15'' ''REVIEW'' ''THIRD_PARTY_FIREWALL_ADAPTER_COVERAGE_REQUIRED''
             (actual @ ep_ko_then_third_party_firewall_not_approved)
             ep_ko_effective_protection_by_an_approved_third_party_adapter
             ep_ko_third_party_adapter_to_be_confirmed
             (product_id, product_version, ''THIRD_PARTY_UNRESOLVED'') [])
       | Some product_adapter \<Rightarrow>
           bindE (ep_boolean (py_get product_adapter ''synthetic_test_only'')
                    ''Synthetic Adapter flag is invalid.'') (\<lambda>synthetic_only.
           if synthetic_only \<and> py_get v ''synthetic_test_case'' \<noteq> PBool True then
             Inr (ep_decision ''PC-15'' ''REVIEW'' ''THIRD_PARTY_FIREWALL_ADAPTER_COVERAGE_REQUIRED''
               (actual @ ep_ko_then_adapter_for_synthetic_tests_only)
               ep_ko_effective_protection_by_an_operational_adapter
               ep_ko_operational_adapter_to_be_confirmed
               (product_id, product_version, ''SYNTHETIC_TEST_ONLY'') [])
           else
             bindE (ep_string (py_get v ''third_party_covered_profiles'')
                      ''Covered firewall profiles are invalid.'') (\<lambda>text.
             let covered = filter (\<lambda>name. name \<noteq> []) (map strip (split_char (CHR '','') text))
             in if py_get v ''third_party_product_state'' = PStr ''ACTIVE'' \<and>
                   py_get v ''third_party_service_enabled'' = PBool True \<and>
                   py_get v ''third_party_health_state'' = PStr ''HEALTHY'' \<and>
                   set disabled \<subseteq> set covered then
                  Inr (ep_decision ''PC-15'' ''PASS'' ''APPROVED_ALTERNATIVE_FIREWALL_EFFECTIVE''
                    (actual @ ep_ko_then_the_synthetic_alternative_firewall_protects @
                     join_with '','' (sorted_distinct covered) @ ep_ko_protected)
                    ep_ko_effective_firewall_of_every_applicable_profile_active
                    ep_ko_synthetic_test_of_the_alternative_branch
                    (product_id, product_version, ''SYNTHETIC_TEST_ONLY'') [])
                else
                  Inr (ep_decision ''PC-15'' ''FAIL'' ''ALTERNATIVE_FIREWALL_NOT_EFFECTIVE''
                    (actual @ ep_ko_then_protection_of_the_approved_adapter_insufficient)
                    ep_ko_effective_protection_by_an_approved_third_party_adapter
                    ep_ko_alternative_inactive_or_coverage_insufficient
                    (product_id, product_version, ''KNOWN_INEFFECTIVE'') [])))))))"

definition ep_evaluate_pc15 ::
  "dict \<Rightarrow> dict \<Rightarrow> (endpoint_protection_error, endpoint_protection_decision) result" where
  "ep_evaluate_pc15 v catalog =
     bindE (ep_string (py_get v ''adapter_id'') ''Firewall Adapter ID is invalid.'') (\<lambda>adapter_id.
     bindE (ep_string (py_get v ''adapter_version'') ''Firewall Adapter version is invalid.'')
       (\<lambda>adapter_version.
     bindE (ep_catalog_adapter catalog adapter_id adapter_version ''PC-15'') (\<lambda>adapter.
     if adapter = None then
       Inr (ep_decision ''PC-15'' ''REVIEW'' ''WINDOWS_FIREWALL_ADAPTER_NOT_SUPPORTED''
         ep_ko_windows_firewall_adapter_not_understood
         ep_ko_approved_activestore_adapter
         ep_ko_adapter_to_be_confirmed (adapter_id, adapter_version, ''UNSUPPORTED'') [])
     else if py_get v ''policy_store'' \<noteq> PStr ''ACTIVE_STORE'' then
       Inr (ep_decision ''PC-15'' ''ERROR'' ''FIREWALL_POLICY_STORE_NOT_EFFECTIVE''
         (ep_ko_policy_store @ py_str (py_get v ''policy_store''))
         ep_ko_effective_policy_of_the_activestore
         ep_ko_effective_policy_collection_error
         (adapter_id, adapter_version, ''WRONG_POLICY_STORE'') [''EVIDENCE_INCOMPLETE''])
     else
       let missing_fields = sort (filter (\<lambda>f. f \<notin> set (dict_keys v)) ep_required_profile_fields)
       in if missing_fields \<noteq> [] then
            Inr (ep_decision ''PC-15'' ''ERROR'' ''FIREWALL_PROFILE_COVERAGE_INCOMPLETE''
              (ep_ko_missing_fields @ join_with '','' missing_fields)
              ep_ko_domain_private_and_public_activestore_profiles
              ep_ko_profiles_not_collected
              (adapter_id, adapter_version, ''INCOMPLETE_PROFILES'') [''EVIDENCE_INCOMPLETE''])
          else
            bindE (ep_profile_states v) (\<lambda>profile_states.
            let applicable = map fst (filter (\<lambda>p. fst (snd p)) profile_states);
                disabled = filter (\<lambda>name. \<not> (case map_of profile_states name of
                    None \<Rightarrow> False | Some s \<Rightarrow> snd s)) applicable;
                names = (\<lambda>ns. join_with '', '' (map ep_profile_label ns));
                actual = ep_ko_applicable_profiles @ int_str (int (length applicable)) @
                  ep_ko_units @ names applicable @ ''), '' @
                  ep_ko_windows_firewall_inactive @
                  (if disabled \<noteq> []
                   then int_str (int (length disabled)) @ ep_ko_units @ names disabled @ '')''
                   else ep_ko_absent)
            in if applicable = []
               then ep_reject ''At least one firewall profile must be applicable.''
               else if disabled = [] then
                 Inr (ep_decision ''PC-15'' ''PASS'' ''WINDOWS_FIREWALL_ALL_APPLICABLE_PROFILES_ENABLED''
                   actual
                   ep_ko_effective_firewall_of_every_applicable_profile_active
                   ''Windows ActiveStore'' (adapter_id, adapter_version, ''DOMAIN_PRIVATE_PUBLIC'') [])
               else ep_pc15_alternative v catalog (adapter_id, adapter_version) disabled actual))))"

subsection \<open>The registry\<close>

definition ep_evaluate_value ::
  "json_dumps \<Rightarrow> digest \<Rightarrow> string \<Rightarrow> dict \<Rightarrow> dict option \<times> policy \<Rightarrow> dict \<Rightarrow>
     (endpoint_protection_error, endpoint_protection_decision) result" where
  "ep_evaluate_value dumps sha256 control_id evidence x v =
     (if control_id = ''PC-12'' then ep_evaluate_pc12 v
      else case fst x of
        None \<Rightarrow>
          Inr (ep_decision control_id ''REVIEW'' ''ADAPTER_CATALOG_REQUIRED''
            ep_ko_adapter_reference_could_not_be_loaded
            ep_ko_valid_product_adapter_catalog
            ep_ko_no_adapter_reference
            (''NOT_PROVIDED'', ''NOT_PROVIDED'', ''MISSING_CATALOG'') [])
      | Some adapter_catalog \<Rightarrow>
          bindE (ep_validated_catalog dumps sha256 adapter_catalog) (\<lambda>catalog.
            if control_id = ''PC-13'' then ep_evaluate_pc13 v evidence catalog (snd x)
            else if control_id = ''PC-14'' then ep_evaluate_pc14 v catalog
            else ep_evaluate_pc15 v catalog))"

definition ep_evaluate ::
  "json_dumps \<Rightarrow> digest \<Rightarrow> string \<Rightarrow> pyval \<Rightarrow> pyval \<Rightarrow> dict \<Rightarrow> dict option \<times> policy \<Rightarrow>
     (endpoint_protection_error, endpoint_protection_decision) result" where
  "ep_evaluate dumps sha256 control_id applicability_rule evaluation_rule evidence x =
     bindE (admit_call EndpointProtectionRuleError
              ''Control rule is not allowlisted by IMP-024.''
              ''Rule parameters differ from the allowlisted version.''
              ''Rule parameters differ from the allowlisted version.''
              ''IMP-024 evidence requires ASSET scope.'' (\<lambda>_. ''ASSET'')
              ep_rules control_id applicability_rule evaluation_rule evidence) (\<lambda>_.
       collection_gate EndpointProtectionRuleError ''Normalized value is missing.'' evidence
         (ep_collection_error control_id)
         (ep_evaluate_value dumps sha256 control_id evidence x))"

subsection \<open>Coherent decisions\<close>

lemmas ep_helpers [rule_defs] =
  ep_reject_def ep_mapping_def ep_sequence_def ep_string_def ep_integer_def ep_boolean_def
  ep_timestamp_def

lemma ep_decision_simps [simp]:
  "coherent c (ep_decision c' s r a e l ad errs) \<longleftrightarrow>
     c' = c \<and> s \<in> {''PASS'', ''FAIL'', ''ERROR'', ''REVIEW'', ''N/A''} \<and> r \<noteq> [] \<and>
     (\<forall>code\<in>set errs. code \<noteq> []) \<and> (errs \<noteq> [] \<longleftrightarrow> s = ''ERROR'')"
  "dec_status (ep_decision c' s r a e l ad errs) = s"
  "dec_error_codes (ep_decision c' s r a e l ad errs) = errs"
  by (simp_all add: coherent_def ep_decision_def)

lemma ep_rules_domain:
  "map_of ep_rules c = Some r \<Longrightarrow> c \<in> {''PC-12'', ''PC-13'', ''PC-14'', ''PC-15''}"
  by (simp add: ep_rules_def split: if_splits)

lemma ep_pc12_coherent: "returns_only (coherent ''PC-12'') (ep_evaluate_pc12 v)"
  by (simp add: ep_evaluate_pc12_def rule_defs Let_def)

lemma ep_pc13_freshness_coherent:
  "returns_only (coherent ''PC-13'') (ep_pc13_freshness v ev pol)"
  by (simp add: ep_pc13_freshness_def rule_defs Let_def split: option.split)

lemma ep_pc13_coherent: "returns_only (coherent ''PC-13'') (ep_evaluate_pc13 v ev cat pol)"
  by (simp add: ep_evaluate_pc13_def ep_pc13_freshness_coherent)

lemma ep_pc14_coherent: "returns_only (coherent ''PC-14'') (ep_evaluate_pc14 v cat)"
  by (simp add: ep_evaluate_pc14_def Let_def)

lemma ep_pc15_alternative_coherent:
  "returns_only (coherent ''PC-15'') (ep_pc15_alternative v cat ad dis a)"
  by (simp add: ep_pc15_alternative_def Let_def split: option.split)

lemma ep_pc15_coherent: "returns_only (coherent ''PC-15'') (ep_evaluate_pc15 v cat)"
  by (simp add: ep_evaluate_pc15_def ep_pc15_alternative_coherent rule_defs Let_def)

lemma ep_value_coherent:
  assumes "map_of ep_rules c = Some r"
  shows "returns_only (coherent c) (ep_evaluate_value dumps sha c ev x v)"
  using ep_rules_domain [OF assms] ep_pc12_coherent ep_pc13_coherent ep_pc14_coherent
    ep_pc15_coherent
  by (auto simp: ep_evaluate_value_def split: option.split)

interpretation ep: decision_registry "ep_evaluate dumps sha256" ep_rules for dumps sha256
proof (rule gated_registry)
  show "ep_evaluate dumps sha256 c ar er ev x =
      bindE (admit_call EndpointProtectionRuleError
              ''Control rule is not allowlisted by IMP-024.''
              ''Rule parameters differ from the allowlisted version.''
              ''Rule parameters differ from the allowlisted version.''
              ''IMP-024 evidence requires ASSET scope.'' (\<lambda>_. ''ASSET'')
              ep_rules c ar er ev) (\<lambda>pe.
        collection_gate EndpointProtectionRuleError ''Normalized value is missing.'' ev
          (ep_collection_error c) ((\<lambda>c pe. ep_evaluate_value dumps sha256 c) c pe ev x))"
    for c ar er ev x
    by (simp add: ep_evaluate_def)
qed (simp_all add: ep_collection_error_def ep_value_coherent)

subsection \<open>What a PASS rests on\<close>

definition ep_pinned :: "json_dumps \<Rightarrow> digest \<Rightarrow> dict \<Rightarrow> bool" where
  "ep_pinned dumps sha256 cat \<longleftrightarrow>
     py_get cat ''catalog_id'' = PStr ep_catalog_id \<and>
     py_get cat ''version'' = PStr ep_catalog_version \<and>
     canonical_sha256_without_fields dumps sha256 cat [''content_sha256'', ''approval''] =
       Inr ep_catalog_sha256"

definition ep_known_adapter :: "dict \<Rightarrow> pyval \<Rightarrow> pyval \<Rightarrow> string \<Rightarrow> bool" where
  "ep_known_adapter cat i ver c \<longleftrightarrow>
     (\<exists>items adapter controls. py_get cat ''adapters'' = PList items \<and> PDict adapter \<in> set items \<and>
        py_get adapter ''adapter_id'' = i \<and> py_get adapter ''adapter_version'' = ver \<and>
        py_get adapter ''controls'' = PList controls \<and> PStr c \<in> set controls)"

lemma ep_validated_catalog_pinned:
  "ep_validated_catalog dumps sha256 cat = Inr cat' \<Longrightarrow> cat' = cat \<and> ep_pinned dumps sha256 cat"
  by (auto simp: ep_validated_catalog_def ep_pinned_def rule_defs res_simps split: if_splits)

lemma ep_search_adapter_Some:
  "ep_search_adapter i ver c items = Inr (Some adapter) \<Longrightarrow>
     PDict adapter \<in> set items \<and> py_get adapter ''adapter_id'' = PStr i \<and>
     py_get adapter ''adapter_version'' = PStr ver \<and>
     (\<exists>controls. py_get adapter ''controls'' = PList controls \<and> PStr c \<in> set controls)"
  by (induction items) (auto simp: rule_defs res_simps split: if_splits)

lemma ep_catalog_adapter_Some:
  "ep_catalog_adapter cat i ver c = Inr (Some adapter) \<Longrightarrow>
     ep_known_adapter cat (PStr i) (PStr ver) c"
  by (auto simp: ep_catalog_adapter_def ep_known_adapter_def rule_defs res_simps
      dest!: ep_search_adapter_Some)

lemma ep_product_adapter_Some:
  "ep_product_adapter v cat c = Inr (Some adapter) \<Longrightarrow>
     ep_known_adapter cat (py_get v ''adapter_id'') (py_get v ''adapter_version'') c"
  by (auto simp: ep_product_adapter_def rule_defs res_simps dest!: ep_catalog_adapter_Some)

text \<open>PC-13: an active, managed product whose signatures are within the approved age.\<close>

definition ep_fresh :: "dict \<Rightarrow> dict \<Rightarrow> policy \<Rightarrow> bool" where
  "ep_fresh v ev pol \<longleftrightarrow>
     (\<exists>p limit t u. pol = Some p \<and> py_get p ''approved_adapter_catalog_id'' = PStr ep_catalog_id \<and>
        py_get p ''maximum_signature_age_hours'' = PInt limit \<and>
        instant_of (py_get ev ''collected_at'') = Some t \<and>
        instant_of (py_get v ''signature_updated_at'') = Some u \<and>
        u \<le> t \<and> (t - u) div us_per_hour \<le> limit) \<and>
     py_get v ''automatic_updates_enabled'' = PBool True \<and>
     py_get v ''health_state'' = PStr ''HEALTHY''"

definition ep_active :: "dict \<Rightarrow> dict \<Rightarrow> string \<Rightarrow> bool" where
  "ep_active v cat c \<longleftrightarrow>
     py_get v ''product_present'' = PBool True \<and>
     ep_known_adapter cat (py_get v ''adapter_id'') (py_get v ''adapter_version'') c \<and>
     py_get v ''product_state'' = PStr ''ACTIVE'' \<and> py_get v ''service_enabled'' = PBool True"

text \<open>
  PC-15: a profile is protected when its Windows firewall is on, or when an active, healthy
  alternative known to the catalog covers it.
\<close>

definition ep_profiles :: "(string \<times> string) list" where
  "ep_profiles = [(''DOMAIN'', ''domain''), (''PRIVATE'', ''private''), (''PUBLIC'', ''public'')]"

definition ep_alternative_covers :: "dict \<Rightarrow> dict \<Rightarrow> string \<Rightarrow> bool" where
  "ep_alternative_covers v cat name \<longleftrightarrow>
     py_get v ''third_party_present'' = PBool True \<and>
     ep_known_adapter cat (py_get v ''third_party_adapter_id'')
       (py_get v ''third_party_adapter_version'') ''PC-15'' \<and>
     py_get v ''third_party_product_state'' = PStr ''ACTIVE'' \<and>
     py_get v ''third_party_service_enabled'' = PBool True \<and>
     py_get v ''third_party_health_state'' = PStr ''HEALTHY'' \<and>
     (\<exists>text. py_get v ''third_party_covered_profiles'' = PStr text \<and>
        name \<in> strip ` set (split_char (CHR '','') text))"

definition ep_firewalled :: "dict \<Rightarrow> dict \<Rightarrow> bool" where
  "ep_firewalled v cat \<longleftrightarrow>
     ep_known_adapter cat (py_get v ''adapter_id'') (py_get v ''adapter_version'') ''PC-15'' \<and>
     py_get v ''policy_store'' = PStr ''ACTIVE_STORE'' \<and>
     (\<exists>(name, prefix)\<in>set ep_profiles. py_get v (prefix @ ''_applicable'') = PBool True) \<and>
     (\<forall>(name, prefix)\<in>set ep_profiles.
        py_get v (prefix @ ''_applicable'') = PBool True \<longrightarrow>
        py_get v (prefix @ ''_enabled'') = PBool True \<or> ep_alternative_covers v cat name)"

definition ep_protected :: "string \<Rightarrow> dict \<Rightarrow> dict \<Rightarrow> dict \<Rightarrow> policy \<Rightarrow> bool" where
  "ep_protected c v ev cat pol \<longleftrightarrow>
     (if c = ''PC-13'' then ep_active v cat c \<and> ep_fresh v ev pol
      else if c = ''PC-14'' then
        ep_active v cat c \<and> py_get v ''real_time_protection_enabled'' = PBool True
      else ep_firewalled v cat)"

abbreviation ep_pass_implies ::
  "bool \<Rightarrow> (endpoint_protection_error, endpoint_protection_decision) result \<Rightarrow> bool" where
  "ep_pass_implies Q \<equiv> returns_only (\<lambda>d. dec_status d = ''PASS'' \<longrightarrow> Q)"

lemma ep_freshness_policy_Some:
  "ep_freshness_policy pol = Inr (Some (i, limit)) \<Longrightarrow>
     \<exists>p. pol = Some p \<and> py_get p ''approved_adapter_catalog_id'' = PStr ep_catalog_id \<and>
       py_get p ''maximum_signature_age_hours'' = PInt limit"
  by (auto simp: ep_freshness_policy_def rule_defs res_simps split: option.splits if_splits)

lemma ep_pc13_freshness_pass: "ep_pass_implies (ep_fresh v ev pol) (ep_pc13_freshness v ev pol)"
  by (auto simp: ep_pc13_freshness_def rule_defs as_timestamp_eq_Inr ep_fresh_def Let_def not_less
      split: option.split dest: ep_freshness_policy_Some)

lemma ep_pc13_pass:
  "ep_pass_implies (ep_protected ''PC-13'' v ev cat pol) (ep_evaluate_pc13 v ev cat pol)"
  using ep_pc13_freshness_pass [of v ev pol]
  by (auto simp: ep_evaluate_pc13_def rule_defs as_boolean_eq_Inr ep_protected_def ep_active_def
      returns_only_def [of _ "ep_pc13_freshness v ev pol"] dest: ep_product_adapter_Some)

lemma ep_pc14_pass:
  "ep_pass_implies (ep_protected ''PC-14'' v ev cat pol) (ep_evaluate_pc14 v cat)"
  by (auto simp: ep_evaluate_pc14_def rule_defs as_boolean_eq_Inr ep_protected_def ep_active_def
      Let_def dest: ep_product_adapter_Some)

lemma ep_pc15_alternative_pass:
  "ep_pass_implies (\<forall>name\<in>set disabled. ep_alternative_covers v cat name)
     (ep_pc15_alternative v cat ad disabled a)"
  by (auto simp: ep_pc15_alternative_def rule_defs res_simps Let_def ep_alternative_covers_def
      split: option.split dest: ep_catalog_adapter_Some)

definition ep_applicable :: "dict \<Rightarrow> string list" where
  "ep_applicable v =
     map fst (filter (\<lambda>(name, prefix). py_get v (prefix @ ''_applicable'') = PBool True) ep_profiles)"

definition ep_disabled :: "dict \<Rightarrow> string list" where
  "ep_disabled v =
     map fst (filter (\<lambda>(name, prefix). py_get v (prefix @ ''_applicable'') = PBool True \<and>
        py_get v (prefix @ ''_enabled'') \<noteq> PBool True) ep_profiles)"

lemma ep_boolean_Inr: "ep_boolean x m = Inr b \<longleftrightarrow> x = PBool b"
  by (cases x) (auto simp: rule_defs res_simps)

lemma ep_profile_states_Inr:
  assumes "ep_profile_states v = Inr ps"
  obtains da de ra re ua ue where
    "py_get v ''domain_applicable'' = PBool da" "py_get v ''domain_enabled'' = PBool de"
    "py_get v ''private_applicable'' = PBool ra" "py_get v ''private_enabled'' = PBool re"
    "py_get v ''public_applicable'' = PBool ua" "py_get v ''public_enabled'' = PBool ue"
    "ps = [(''DOMAIN'', da, de), (''PRIVATE'', ra, re), (''PUBLIC'', ua, ue)]"
  using assms unfolding ep_profile_states_def bindE_eq_Inr
  by (elim exE conjE) (simp add: ep_boolean_Inr)

lemma ep_profile_lists:
  assumes "ep_profile_states v = Inr ps"
  shows "map fst (filter (\<lambda>p. fst (snd p)) ps) = ep_applicable v"
    and "filter (\<lambda>name. \<not> (case map_of ps name of None \<Rightarrow> False | Some s \<Rightarrow> snd s)) (ep_applicable v) =
           ep_disabled v"
    and "filter (\<lambda>p. fst (snd p)) ps = [] \<longleftrightarrow> ep_applicable v = []"
proof -
  note states = ep_profile_states_Inr [OF assms]
  show app: "map fst (filter (\<lambda>p. fst (snd p)) ps) = ep_applicable v"
    by (rule states) (simp add: ep_applicable_def ep_profiles_def)
  show "filter (\<lambda>name. \<not> (case map_of ps name of None \<Rightarrow> False | Some s \<Rightarrow> snd s)) (ep_applicable v) =
      ep_disabled v"
    by (rule states) (simp add: ep_applicable_def ep_disabled_def ep_profiles_def)
  show "filter (\<lambda>p. fst (snd p)) ps = [] \<longleftrightarrow> ep_applicable v = []"
    by (simp flip: app)
qed

lemma ep_firewalledI:
  assumes "ep_catalog_adapter cat i ver ''PC-15'' = Inr (Some ad)"
    and "py_get v ''adapter_id'' = PStr i" "py_get v ''adapter_version'' = PStr ver"
    and "py_get v ''policy_store'' = PStr ''ACTIVE_STORE''"
    and "ep_applicable v \<noteq> []" and "\<forall>name\<in>set (ep_disabled v). ep_alternative_covers v cat name"
  shows "ep_firewalled v cat"
  using assms(4-6) ep_catalog_adapter_Some [OF assms(1)]
  by (auto simp: ep_firewalled_def assms(2,3) ep_profiles_def ep_applicable_def ep_disabled_def
      split: if_splits)

lemma ep_pc15_pass:
  "ep_pass_implies (ep_protected ''PC-15'' v ev cat pol) (ep_evaluate_pc15 v cat)"
proof -
  have alt: "ep_pass_implies (ep_firewalled v cat) (ep_pc15_alternative v cat a (ep_disabled v) t)"
    if "ep_catalog_adapter cat i ver ''PC-15'' = Inr (Some ad)" "py_get v ''adapter_id'' = PStr i"
      "py_get v ''adapter_version'' = PStr ver" "py_get v ''policy_store'' = PStr ''ACTIVE_STORE''"
      "ep_applicable v \<noteq> []" for i ver ad a t
    using ep_pc15_alternative_pass [of "ep_disabled v" v cat a t] ep_firewalledI [OF that]
    by (simp add: returns_only_def)
  have fire: "ep_firewalled v cat"
    if "ep_catalog_adapter cat i ver ''PC-15'' = Inr (Some ad)" "py_get v ''adapter_id'' = PStr i"
      "py_get v ''adapter_version'' = PStr ver" "py_get v ''policy_store'' = PStr ''ACTIVE_STORE''"
      "ep_applicable v \<noteq> []" "ep_disabled v = []" for i ver ad
    using ep_firewalledI [OF that(1-5)] that(6) by simp
  show ?thesis
    by (auto simp: ep_evaluate_pc15_def rule_defs as_string_eq_Inr ep_protected_def Let_def
        ep_profile_lists intro: alt fire)
qed

lemma ep_evaluate_collected:
  assumes "ep_evaluate dumps sha256 c ar er ev x = Inr d" and "dec_status d \<noteq> ''ERROR''"
  shows "\<exists>v r. py_get ev ''collection_status'' = PStr ''COLLECTED'' \<and>
           py_get ev ''normalized_value'' = PDict v \<and> map_of ep_rules c = Some r \<and>
           ep_evaluate_value dumps sha256 c ev x v = Inr d"
proof -
  have col: "py_get ev ''collection_status'' = PStr ''COLLECTED''"
    by (rule ccontr) (use ep.uncollected [OF assms(1)] assms(2) in auto)
  then have "\<exists>v. py_get ev ''normalized_value'' = PDict v \<and>
      ep_evaluate_value dumps sha256 c ev x v = Inr d"
    using assms(1) by (auto simp: ep_evaluate_def bindE_eq_Inr collection_gate_eq_Inr)
  with col ep.allowlist [OF assms(1)] show ?thesis by blast
qed


text \<open>
  PC-12 follows the AutoAdminLogon value alone and refuses secrets.  A decision is PASS
  exactly for the collected values 0 and MISSING, FAIL exactly for 1, and no decision is made when
  a key of the collected value is, up to case, one of the six names of password content.
\<close>

theorem autologon_verdict:
  assumes "ep_evaluate dumps sha256 ''PC-12'' ar er ev x = Inr d"
  shows "(dec_status d = ''PASS'' \<longleftrightarrow>
            (\<exists>v s. py_get ev ''collection_status'' = PStr ''COLLECTED'' \<and>
               py_get ev ''normalized_value'' = PDict v \<and>
               py_get v ''auto_admin_logon_value'' = PStr s \<and> s \<in> {''0'', ''MISSING''})) \<and>
         (dec_status d = ''FAIL'' \<longleftrightarrow>
            (\<exists>v. py_get ev ''collection_status'' = PStr ''COLLECTED'' \<and>
               py_get ev ''normalized_value'' = PDict v \<and>
               py_get v ''auto_admin_logon_value'' = PStr ''1'')) \<and>
         (\<forall>v k. py_get ev ''collection_status'' = PStr ''COLLECTED'' \<and>
            py_get ev ''normalized_value'' = PDict v \<and> k \<in> set (dict_keys v) \<longrightarrow>
            casefold k \<notin> set ep_forbidden_keys)"
proof (cases "py_get ev ''collection_status'' = PStr ''COLLECTED''")
  case True
  with assms obtain v where v: "py_get ev ''normalized_value'' = PDict v"
      "ep_evaluate_pc12 v = Inr d"
    by (auto simp: ep_evaluate_def ep_evaluate_value_def bindE_eq_Inr collection_gate_eq_Inr)
  have "returns_only (\<lambda>d.
      (dec_status d = ''PASS'' \<longleftrightarrow>
         (\<exists>s. py_get v ''auto_admin_logon_value'' = PStr s \<and> s \<in> {''0'', ''MISSING''})) \<and>
      (dec_status d = ''FAIL'' \<longleftrightarrow> py_get v ''auto_admin_logon_value'' = PStr ''1'') \<and>
      (\<forall>k\<in>set (dict_keys v). casefold k \<notin> set ep_forbidden_keys)) (ep_evaluate_pc12 v)"
    by (simp add: ep_evaluate_pc12_def rule_defs res_simps Let_def)
  from returns_onlyD [OF this v(2)] v(1) True show ?thesis by simp
next
  case False
  with ep.uncollected [OF assms] show ?thesis by simp
qed

subsection \<open>Concrete calls\<close>

definition ep_example_catalog :: dict where
  "ep_example_catalog =
     [(''catalog_id'', PStr ep_catalog_id), (''version'', PStr ep_catalog_version),
      (''content_sha256'', PStr ep_catalog_sha256),
      (''approval'', PDict [(''status'', PStr ''DRAFT''), (''usage'', PStr ''SYNTHETIC_TEST_ONLY'')]),
      (''adapters'', PList [PDict
         [(''adapter_id'', PStr ''secai.defender''), (''adapter_version'', PStr ''0.1.0''),
          (''controls'', str_list [''PC-13'', ''PC-14'', ''PC-15'']),
          (''synthetic_test_only'', PBool False)]])]"

definition ep_example ::
  "string \<Rightarrow> dict \<Rightarrow> policy \<Rightarrow> (endpoint_protection_error, endpoint_protection_decision) result" where
  "ep_example c v pol =
     example_call (ep_evaluate (\<lambda>_. Inr ''bytes'') (\<lambda>_. ep_catalog_sha256)) ep_rules c ''ASSET''
       [(''collected_at'', PStr ''2026-07-25T09:00:00+09:00'')] v (Some ep_example_catalog, pol)"

definition ep_example_firewall :: dict where
  "ep_example_firewall =
     [(''adapter_id'', PStr ''secai.defender''), (''adapter_version'', PStr ''0.1.0''),
      (''policy_store'', PStr ''ACTIVE_STORE''),
      (''domain_applicable'', PBool False), (''domain_enabled'', PBool False),
      (''private_applicable'', PBool True), (''private_enabled'', PBool True),
      (''public_applicable'', PBool True), (''public_enabled'', PBool False),
      (''third_party_present'', PBool True), (''third_party_adapter_id'', PStr ''secai.defender''),
      (''third_party_adapter_version'', PStr ''0.1.0''),
      (''third_party_product_state'', PStr ''ACTIVE''),
      (''third_party_service_enabled'', PBool True),
      (''third_party_health_state'', PStr ''HEALTHY''),
      (''third_party_covered_profiles'', PStr ''PRIVATE, PUBLIC'')]"


definition ep_example_logon :: dict where
  "ep_example_logon =
     [(''auto_admin_logon_value'', PStr ''1''),
      (''related_autologon_configuration_present'', PBool True),
      (''default_password_present'', PBool True)]"

definition ep_example_antivirus :: dict where
  "ep_example_antivirus =
     [(''product_present'', PBool True), (''adapter_id'', PStr ''secai.defender''),
      (''adapter_version'', PStr ''0.1.0''), (''product_state'', PStr ''ACTIVE''),
      (''service_enabled'', PBool True), (''product_name'', PStr ''Defender''),
      (''signature_version'', PStr ''1.1''), (''automatic_updates_enabled'', PBool True),
      (''health_state'', PStr ''HEALTHY''), (''signature_updated_at'', PStr ''2026-07-23T23:00:01Z'')]"

definition ep_example_freshness :: dict where
  "ep_example_freshness =
     [(''standard_id'', PStr ''ORG-AV''), (''version'', PStr ''1''),
      (''approved_adapter_catalog_id'', PStr ep_catalog_id), (''maximum_signature_age_hours'', PInt 24)]"

text \<open>
  The signature limit is looser by almost an hour than its text: with a limit of 24 hours
  the expected text reads "within 24 hours", but the age is cut to whole hours before it is
  compared, so that signatures 24 hours, 59 minutes and 59 seconds old are a PASS.
\<close>

theorem signature_limit_rounds_down:
  "status_of (ep_example ''PC-13'' ep_example_antivirus (Some ep_example_freshness)) = Some ''PASS''"
  by code_simp

end
