(* ===== verification/Tables.thy ===== *)
theory Tables
  imports Sec_Prelude
begin

section \<open>Database tables\<close>

text \<open>
  A table is a list of rows.  A lookup by key is \<open>find\<close>, an \<open>UPDATE ... WHERE\<close> is \<open>update_rows\<close>, and
  \<open>table_evolves\<close> says that rows are only appended and changed within a relation between a row and
  its later version.
\<close>

definition update_rows :: "('r \<Rightarrow> bool) \<Rightarrow> ('r \<Rightarrow> 'r) \<Rightarrow> 'r list \<Rightarrow> 'r list" where
  "update_rows c f rows = map (\<lambda>r. if c r then f r else r) rows"

lemma find_update_rows:
  assumes "\<And>r. k (f r) = k r"
  shows "find (\<lambda>r. k r = x) (update_rows c f rows) =
         map_option (\<lambda>r. if c r then f r else r) (find (\<lambda>r. k r = x) rows)"
  by (induction rows) (auto simp: update_rows_def assms)

lemma set_update_rows: "set (update_rows c f rows) = (\<lambda>r. if c r then f r else r) ` set rows"
  by (simp add: update_rows_def)

lemma find_key_SomeD: "find (\<lambda>r. k r = x) rows = Some r \<Longrightarrow> r \<in> set rows \<and> k r = x"
  by (auto simp: find_Some_iff)

lemma find_key_append:
  "find P (xs @ ys) = (case find P xs of None \<Rightarrow> find P ys | Some x \<Rightarrow> Some x)"
  by (induction xs) auto

lemma find_key_None: "find (\<lambda>r. k r = x) rows = None \<longleftrightarrow> x \<notin> k ` set rows"
  by (auto simp: find_None_iff)

subsection \<open>Tables that only grow\<close>

definition table_evolves :: "('r \<Rightarrow> 'r \<Rightarrow> bool) \<Rightarrow> 'r list \<Rightarrow> 'r list \<Rightarrow> bool" where
  "table_evolves F rows rows' \<longleftrightarrow> (\<exists>old new. rows' = old @ new \<and> list_all2 F rows old)"

lemma table_evolves_update:
  assumes "\<And>r. r \<in> set rows \<Longrightarrow> c r \<Longrightarrow> F r (f r)" "\<And>r. F r r"
  shows "table_evolves F rows (update_rows c f rows)"
  unfolding table_evolves_def update_rows_def
  using assms by (intro exI [of _ "map (\<lambda>r. if c r then f r else r) rows"] exI [of _ "[]"])
    (auto simp: list_all2_map2 list_all2_same)

lemma table_evolves_refl: "(\<And>r. F r r) \<Longrightarrow> table_evolves F rows rows"
  unfolding table_evolves_def by (intro exI [of _ rows] exI [of _ "[]"]) (simp add: list_all2_same)

lemma table_evolves_append: "(\<And>r. F r r) \<Longrightarrow> table_evolves F rows (rows @ new)"
  unfolding table_evolves_def by (intro exI [of _ rows] exI [of _ new]) (simp add: list_all2_same)

lemma table_evolves_trans:
  assumes "\<And>r s t. F r s \<Longrightarrow> F s t \<Longrightarrow> F r t" "table_evolves F xs ys" "table_evolves F ys zs"
  shows "table_evolves F xs zs"
proof -
  obtain ys1 ys2 zs1 zs2 where y: "ys = ys1 @ ys2" "list_all2 F xs ys1"
    and z: "zs = zs1 @ zs2" "list_all2 F (ys1 @ ys2) zs1"
    using assms(2,3) by (auto simp: table_evolves_def)
  obtain u v where uv: "zs1 = u @ v" "list_all2 F ys1 u"
    using z(2) by (auto simp: list_all2_append1)
  with y(2) have "list_all2 F xs u"
    using list_all2_trans [of F F F xs ys1 u] assms(1) by blast
  with uv z(1) show ?thesis by (auto simp: table_evolves_def)
qed

lemma table_evolves_find:
  assumes "\<And>r s. F r s \<Longrightarrow> k s = k r" "table_evolves F rows rows'" "find (\<lambda>r. k r = x) rows = Some r"
  shows "\<exists>s. find (\<lambda>r. k r = x) rows' = Some s \<and> F r s"
proof -
  obtain old new where o: "rows' = old @ new" "list_all2 F rows old"
    using assms(2) by (auto simp: table_evolves_def)
  from o(2) assms(3) have "\<exists>s. find (\<lambda>r. k r = x) old = Some s \<and> F r s"
    by (induction rule: list_all2_induct) (auto dest: assms(1) split: if_splits)
  then show ?thesis by (auto simp: o(1) find_key_append)
qed

end
