(* ===== verification/Auth_Repository.thy ===== *)
theory Auth_Repository
  imports Py_Values Tables
begin

section \<open>Accounts and browser sessions (\<^verbatim>\<open>security/auth/contracts.py\<close>, \<^verbatim>\<open>repository.py\<close>)\<close>

text \<open>
  The contracts of authentication and the repository behind it.  The database is a record of
  tables, each a list of rows; the statements of \<open>SqlAuthenticationRepository\<close> and
  \<open>SqlAccountManagementRepository\<close> are functions on it, every one a transaction of its own, as in
  the code.  Instants are microseconds, UUIDs and digests are strings.  The constraints of the
  tables that the code relies on are kept: the primary keys of accounts and sessions, the unique
  user name, and the closed sets of statuses, phases and roles as datatypes.
\<close>

subsection \<open>Contracts\<close>

datatype human_role = USER | SECURITY_OFFICER | APPROVER | ADMIN

datatype session_phase = PRE_AUTH | MFA_PENDING | AUTHENTICATED

datatype account_status = PENDING_APPROVAL | ACTIVE | TEMP_LOCKED | DISABLED | REJECTED

type_synonym uuid = string
type_synonym instant = int

record principal =
  pr_user_id :: uuid
  pr_username :: string
  pr_display_name :: string
  pr_organization_id :: uuid
  pr_roles :: "human_role set"
  pr_asset_ids :: "uuid set"
  pr_auth_methods :: "string set"
  pr_session_created_at :: instant
  pr_reauthenticated_at :: instant

definition privileged_roles :: "human_role set" where
  "privileged_roles = {SECURITY_OFFICER, APPROVER, ADMIN}"

definition privileged :: "principal \<Rightarrow> bool" where
  "privileged p \<longleftrightarrow> pr_roles p \<inter> privileged_roles \<noteq> {}"

record session_context =
  sc_token :: string
  sc_csrf_token :: string
  sc_phase :: session_phase
  sc_expires_at :: instant
  sc_principal :: "principal option"

datatype authentication_code =
    REQUIRED | INVALID_CREDENTIALS | MFA_REQUIRED | INVALID_MFA | SESSION_EXPIRED
  | SESSION_REVOKED | CSRF_REJECTED | PROFILE_BLOCKED

text \<open>
  What an operation can raise: the two exception classes of the package, a violated table
  constraint, and the encoding error of a code outside ASCII.
\<close>

datatype auth_failure =
    AuthenticationError authentication_code string
  | AccountManagementError string
  | IntegrityError
  | UnicodeEncodeError

subsection \<open>Tables\<close>

record account =
  acc_id :: uuid
  acc_organization_id :: uuid
  acc_username_canonical :: string
  acc_display_name :: string
  acc_status :: account_status
  acc_password_hash :: string
  acc_credential_version :: int
  acc_role_assignment_version :: int
  acc_password_changed_at :: instant
  acc_failed_attempts :: int
  acc_locked_until :: "instant option"
  acc_mfa_code_hash :: "string option"
  acc_mfa_issued_at :: "instant option"
  acc_mfa_expires_at :: "instant option"
  acc_created_at :: instant
  acc_updated_at :: instant

record stored_session =
  ss_session_id_hash :: string
  ss_user_id :: "uuid option"
  ss_active_organization_id :: "uuid option"
  ss_phase :: session_phase
  ss_credential_version :: int
  ss_role_assignment_version :: int
  ss_auth_methods :: string
  ss_csrf_token_hash :: string
  ss_mfa_attempts :: int
  ss_authenticated_at :: "instant option"
  ss_reauthenticated_at :: "instant option"
  ss_created_at :: instant
  ss_last_seen_at :: instant
  ss_expires_at :: instant
  ss_idle_expires_at :: instant
  ss_revoked_at :: "instant option"
  ss_revoke_reason :: "string option"

record role_assignment =
  ra_user_id :: uuid
  ra_organization_id :: uuid
  ra_role_name :: human_role
  ra_granted_at :: instant
  ra_revoked_at :: "instant option"

record asset_assignment =
  aa_user_id :: uuid
  aa_organization_id :: uuid
  aa_asset_id :: uuid
  aa_revoked_at :: "instant option"

record audit_event =
  ae_event_type :: string
  ae_outcome :: string
  ae_reason_code :: string
  ae_session_reference :: "string option"
  ae_user_id :: "uuid option"
  ae_organization_id :: "uuid option"

record organization =
  org_id :: uuid
  org_created_at :: instant

record auth_db =
  db_organizations :: "organization list"
  db_accounts :: "account list"
  db_sessions :: "stored_session list"
  db_roles :: "role_assignment list"
  db_assets :: "asset_assignment list"
  db_audit :: "audit_event list"

type_synonym 'a auth_op = "(auth_db, auth_failure, 'a) op"

subsection \<open>Queries\<close>

definition account_by_username :: "string \<Rightarrow> auth_db \<Rightarrow> account option" where
  "account_by_username username db =
     find (\<lambda>a. acc_username_canonical a = username) (db_accounts db)"

definition account_by_id :: "uuid \<Rightarrow> auth_db \<Rightarrow> account option" where
  "account_by_id user_id db = find (\<lambda>a. acc_id a = user_id) (db_accounts db)"

definition roles :: "uuid \<Rightarrow> uuid \<Rightarrow> auth_db \<Rightarrow> human_role set" where
  "roles user_id organization_id db =
     set (map ra_role_name (filter (\<lambda>r. ra_user_id r = user_id \<and>
       ra_organization_id r = organization_id \<and> ra_revoked_at r = None) (db_roles db)))"

definition asset_ids :: "uuid \<Rightarrow> uuid \<Rightarrow> auth_db \<Rightarrow> uuid set" where
  "asset_ids user_id organization_id db =
     set (map aa_asset_id (filter (\<lambda>a. aa_user_id a = user_id \<and>
       aa_organization_id a = organization_id \<and> aa_revoked_at a = None) (db_assets db)))"

definition session :: "string \<Rightarrow> auth_db \<Rightarrow> stored_session option" where
  "session session_id_hash db = find (\<lambda>s. ss_session_id_hash s = session_id_hash) (db_sessions db)"

subsection \<open>Updates\<close>

definition create_session :: "stored_session \<Rightarrow> unit auth_op" where
  "create_session s db =
     (if session (ss_session_id_hash s) db \<noteq> None then (db, Inl IntegrityError)
      else (db\<lparr>db_sessions := db_sessions db @ [s]\<rparr>, Inr ()))"

definition revoke_session :: "string \<Rightarrow> instant \<Rightarrow> string \<Rightarrow> auth_db \<Rightarrow> auth_db" where
  "revoke_session session_id_hash now reason db =
     db\<lparr>db_sessions := update_rows
        (\<lambda>s. ss_session_id_hash s = session_id_hash \<and> ss_revoked_at s = None)
        (\<lambda>s. s\<lparr>ss_revoked_at := Some now, ss_revoke_reason := Some reason\<rparr>) (db_sessions db)\<rparr>"

definition revoke_user_sessions ::
  "uuid \<Rightarrow> instant \<Rightarrow> string \<Rightarrow> string option \<Rightarrow> auth_db \<Rightarrow> auth_db" where
  "revoke_user_sessions user_id now reason except_hash db =
     db\<lparr>db_sessions := update_rows
        (\<lambda>s. ss_user_id s = Some user_id \<and> ss_revoked_at s = None \<and>
             (case except_hash of None \<Rightarrow> True | Some h \<Rightarrow> ss_session_id_hash s \<noteq> h))
        (\<lambda>s. s\<lparr>ss_revoked_at := Some now, ss_revoke_reason := Some reason\<rparr>) (db_sessions db)\<rparr>"

definition touch_session :: "string \<Rightarrow> instant \<Rightarrow> instant \<Rightarrow> auth_db \<Rightarrow> auth_db" where
  "touch_session session_id_hash now idle_expires_at db =
     db\<lparr>db_sessions := update_rows
        (\<lambda>s. ss_session_id_hash s = session_id_hash \<and> ss_revoked_at s = None)
        (\<lambda>s. s\<lparr>ss_last_seen_at := now, ss_idle_expires_at := idle_expires_at\<rparr>) (db_sessions db)\<rparr>"

definition increment_mfa_failure :: "string \<Rightarrow> auth_db \<Rightarrow> auth_db" where
  "increment_mfa_failure session_id_hash db =
     db\<lparr>db_sessions := update_rows (\<lambda>s. ss_session_id_hash s = session_id_hash)
        (\<lambda>s. s\<lparr>ss_mfa_attempts := ss_mfa_attempts s + 1\<rparr>) (db_sessions db)\<rparr>"

definition register_login_failure ::
  "account \<Rightarrow> instant \<Rightarrow> instant option \<Rightarrow> auth_db \<Rightarrow> auth_db" where
  "register_login_failure account now lock_until db =
     db\<lparr>db_accounts := update_rows (\<lambda>a. acc_id a = acc_id account)
        (\<lambda>a. let a = a\<lparr>acc_failed_attempts := acc_failed_attempts account + 1, acc_updated_at := now\<rparr>
             in case lock_until of
                  None \<Rightarrow> a
                | Some t \<Rightarrow> a\<lparr>acc_status := TEMP_LOCKED, acc_locked_until := Some t\<rparr>)
        (db_accounts db)\<rparr>"

definition reset_login_failures :: "uuid \<Rightarrow> instant \<Rightarrow> auth_db \<Rightarrow> auth_db" where
  "reset_login_failures user_id now db =
     db\<lparr>db_accounts := update_rows (\<lambda>a. acc_id a = user_id)
        (\<lambda>a. a\<lparr>acc_failed_attempts := 0, acc_status := ACTIVE, acc_locked_until := None,
               acc_updated_at := now\<rparr>) (db_accounts db)\<rparr>"

definition audit ::
  "string \<Rightarrow> string \<Rightarrow> string \<Rightarrow> string option \<Rightarrow> uuid option \<Rightarrow> uuid option \<Rightarrow>
     auth_db \<Rightarrow> auth_db" where
  "audit event_type outcome reason_code session_reference user_id organization_id db =
     db\<lparr>db_audit := db_audit db @
        [\<lparr>ae_event_type = event_type, ae_outcome = outcome, ae_reason_code = reason_code,
          ae_session_reference = session_reference, ae_user_id = user_id,
          ae_organization_id = organization_id\<rparr>]\<rparr>"

subsection \<open>Laws of the tables\<close>

lemma session_revoke [simp]:
  "session h (revoke_session h' now reason db) =
     map_option (\<lambda>s. if h = h' \<and> ss_revoked_at s = None
                     then s\<lparr>ss_revoked_at := Some now, ss_revoke_reason := Some reason\<rparr> else s)
       (session h db)"
  unfolding session_def revoke_session_def
  by (simp add: find_update_rows)
    (auto simp: option.map_comp intro!: option.map_cong dest: find_key_SomeD)

lemma accounts_of_session_updates [simp]:
  "db_accounts (revoke_session h now reason db) = db_accounts db"
  "db_accounts (revoke_user_sessions u now reason e db) = db_accounts db"
  "db_accounts (touch_session h now t db) = db_accounts db"
  "db_accounts (increment_mfa_failure h db) = db_accounts db"
  "db_accounts (audit a b c d u' v db) = db_accounts db"
  "db_accounts (fst (create_session s db)) = db_accounts db"
  by (simp_all add: revoke_session_def revoke_user_sessions_def touch_session_def
      increment_mfa_failure_def audit_def create_session_def)

lemma sessions_of_account_updates [simp]:
  "db_sessions (register_login_failure a now t db) = db_sessions db"
  "db_sessions (reset_login_failures u now db) = db_sessions db"
  "db_sessions (audit a' b c d u' v db) = db_sessions db"
  by (simp_all add: register_login_failure_def reset_login_failures_def audit_def)

lemma roles_of_updates [simp]:
  "db_roles (revoke_session h now reason db) = db_roles db"
  "db_roles (revoke_user_sessions u now reason e db) = db_roles db"
  "db_roles (touch_session h now t db) = db_roles db"
  "db_roles (increment_mfa_failure h db) = db_roles db"
  "db_roles (audit a b c d u' v db) = db_roles db"
  "db_roles (fst (create_session s db)) = db_roles db"
  "db_roles (register_login_failure acc now lu db) = db_roles db"
  "db_roles (reset_login_failures u now db) = db_roles db"
  by (simp_all add: revoke_session_def revoke_user_sessions_def touch_session_def
      increment_mfa_failure_def audit_def create_session_def register_login_failure_def
      reset_login_failures_def)

end
