(* ===== verification/Password_Policy.thy ===== *)
theory Password_Policy
  imports Py_Values
begin

section \<open>Passwords (\<^verbatim>\<open>security/auth/passwords.py\<close>)\<close>

text \<open>
  The password policy and the Argon2 service.  A text is its UTF-8 encoding, so that Python's
  \<open>len\<close> counts the characters \<open>utf8_chars\<close> splits it into.  The Unicode database (normalisation,
  case folding, general category, alphabetic characters) and the \<^verbatim>\<open>argon2\<close> package are parameters:
  \<open>ph_verify\<close> gives \<open>None\<close> where the package raises.
\<close>

record unicode_data =
  uc_nfc :: "string \<Rightarrow> string"
  uc_casefold :: "string \<Rightarrow> string"
  uc_category_c :: "string \<Rightarrow> bool"
  uc_is_alpha :: "string \<Rightarrow> bool"

record password_hasher =
  ph_hash :: "string \<Rightarrow> string \<Rightarrow> string"
  ph_verify :: "string \<Rightarrow> string \<Rightarrow> bool option"

subsection \<open>Texts\<close>

definition pw_ko_at_least_nine_characters :: string where
  "pw_ko_at_least_nine_characters =
     hex_text ''ebb984ebb080ebb288ed98b8eb8a942039ec9e9020ec9db4ec8381ec9db4ec96b4ec95bc20ed95a9eb8b88eb8ba42e''"

definition pw_ko_longer_than_allowed :: string where
  "pw_ko_longer_than_allowed =
     hex_text ''ebb984ebb080ebb288ed98b8eab08020ed9788ec9aa920eab8b8ec9db4eba5bc20ecb488eab3bced9688ec8ab5eb8b88eb8ba42e''"

definition pw_ko_no_control_characters :: string where
  "pw_ko_no_control_characters =
     hex_text ''eca09cec96b420ebacb8ec9e90eb8a9420ec82acec9aa9ed95a020ec889820ec9786ec8ab5eb8b88eb8ba42e''"

definition pw_ko_one_letter_at_least :: string where
  "pw_ko_one_letter_at_least =
     hex_text ''ebacb8ec9e90eba5bc20ed959c20eab09c20ec9db4ec838120ed8faced95a8ed95b4ec95bc20ed95a9eb8b88eb8ba42e''"

definition pw_ko_one_digit_at_least :: string where
  "pw_ko_one_digit_at_least =
     hex_text ''ec88abec9e90eba5bc20ed959c20eab09c20ec9db4ec838120ed8faced95a8ed95b4ec95bc20ed95a9eb8b88eb8ba42e''"

definition pw_ko_one_special_character_at_least :: string where
  "pw_ko_one_special_character_at_least =
     hex_text ''ed8ab9ec8898ebacb8ec9e90eba5bc20ed959c20eab09c20ec9db4ec838120ed8faced95a8ed95b4ec95bc20ed95a9eb8b88eb8ba42e''"

definition pw_ko_easily_guessed :: string where
  "pw_ko_easily_guessed =
     hex_text ''ec89bdeab28c20ecb694ecb8a1ed95a020ec889820ec9e88eb8a9420ebb984ebb080ebb288ed98b8eb8a9420ec82acec9aa9ed95a020ec889820ec9786ec8ab5eb8b88eb8ba42e''"

subsection \<open>Characters\<close>

definition py_contains :: "string \<Rightarrow> string \<Rightarrow> bool" where
  "py_contains s t \<longleftrightarrow> t = [] \<or> list_ex (\<lambda>i. take (length t) (drop i s) = t) [0..<length s]"

definition string_digits :: string where
  "string_digits = ''0123456789''"

definition punctuation :: "nat \<Rightarrow> bool" where
  "punctuation n \<longleftrightarrow> 33 \<le> n \<and> n \<le> 47 \<or> 58 \<le> n \<and> n \<le> 64 \<or> 91 \<le> n \<and> n \<le> 96 \<or> 123 \<le> n \<and> n \<le> 126"

definition blocked_passwords :: "string list" where
  "blocked_passwords = [''password'', ''password1!'', ''qwerty123!'', ''secai123!'', ''admin123!'']"

subsection \<open>The policy\<close>

definition normalize_password :: "unicode_data \<Rightarrow> string \<Rightarrow> string" where
  "normalize_password u password = uc_nfc u password"

definition validate_password_policy :: "unicode_data \<Rightarrow> string \<Rightarrow> string \<Rightarrow> string list" where
  "validate_password_policy u password username =
     (let normalized = normalize_password u password;
          characters = utf8_chars normalized;
          folded = uc_casefold u normalized
      in (if py_len normalized < 9 then [pw_ko_at_least_nine_characters] else [])
       @ (if py_len normalized > 128 \<or> length normalized > 512
          then [pw_ko_longer_than_allowed] else [])
       @ (if list_ex (uc_category_c u) characters then [pw_ko_no_control_characters] else [])
       @ (if \<not> list_ex (uc_is_alpha u) characters
          then [pw_ko_one_letter_at_least] else [])
       @ (if \<not> list_ex (\<lambda>c. c \<in> set string_digits) normalized
          then [pw_ko_one_digit_at_least] else [])
       @ (if \<not> list_ex (\<lambda>c. punctuation (of_char c)) normalized
          then [pw_ko_one_special_character_at_least] else [])
       @ (if folded \<in> set blocked_passwords \<or> py_contains folded (uc_casefold u username)
          then [pw_ko_easily_guessed] else []))"

text \<open>\<open>PasswordPolicyResult.accepted\<close>: no reason was collected.\<close>

definition accepted :: "string list \<Rightarrow> bool" where
  "accepted reasons \<longleftrightarrow> reasons = []"

subsection \<open>Hashing\<close>

definition hash_password :: "unicode_data \<Rightarrow> password_hasher \<Rightarrow> string \<Rightarrow> string \<Rightarrow> string" where
  "hash_password u ph salt password = ph_hash ph salt (normalize_password u password)"

definition verify_password :: "unicode_data \<Rightarrow> password_hasher \<Rightarrow> string \<Rightarrow> string \<Rightarrow> bool" where
  "verify_password u ph encoded_hash password =
     (case ph_verify ph encoded_hash (normalize_password u password) of None \<Rightarrow> False | Some b \<Rightarrow> b)"

subsection \<open>Facts\<close>

lemma concat_utf8_chars [simp]: "concat (utf8_chars s) = s"
  by (induction s rule: utf8_chars.induct) auto

lemma py_contains_iff: "py_contains s t \<longleftrightarrow> (\<exists>p q. s = p @ t @ q)"
proof (cases "t = []")
  case True
  then show ?thesis by (auto simp: py_contains_def)
next
  case False
  show ?thesis
  proof
    assume "py_contains s t"
    with False obtain i where "take (length t) (drop i s) = t"
      by (auto simp: py_contains_def list_ex_iff)
    then have "s = take i s @ t @ drop (length t) (drop i s)"
      by (metis append_take_drop_id)
    then show "\<exists>p q. s = p @ t @ q" by blast
  next
    assume "\<exists>p q. s = p @ t @ q"
    then obtain p q where "s = p @ t @ q" by blast
    with False show "py_contains s t"
      by (auto simp: py_contains_def list_ex_iff intro!: bexI [of _ "length p"])
  qed
qed

text \<open>
  The policy accepts a password exactly when its normal form has 9 to 128 characters in at most
  512 bytes, no control character, a letter, a digit and a punctuation character, and when its
  folded form is not on the block list and does not contain the folded user name.
\<close>

theorem password_policy_accepts:
  "accepted (validate_password_policy u password username) \<longleftrightarrow>
     (let p = normalize_password u password; f = uc_casefold u p
      in 9 \<le> py_len p \<and> py_len p \<le> 128 \<and> length p \<le> 512 \<and>
         (\<nexists>c. c \<in> set (utf8_chars p) \<and> uc_category_c u c) \<and>
         (\<exists>c. c \<in> set (utf8_chars p) \<and> uc_is_alpha u c) \<and>
         (\<exists>c. c \<in> set p \<and> c \<in> set ''0123456789'') \<and>
         (\<exists>c. c \<in> set p \<and> punctuation (of_char c)) \<and>
         f \<notin> set blocked_passwords \<and> (\<nexists>a b. f = a @ uc_casefold u username @ b))"
  unfolding accepted_def validate_password_policy_def Let_def py_contains_iff list_ex_iff
    string_digits_def
  by (simp only: append_is_Nil_conv if_split_eq1 not_less list.distinct Bex_def
      simp_thms de_Morgan_disj) (simp only: conj_assoc)

end
