(* ===== verification/Auth_Service.thy ===== *)
theory Auth_Service
  imports Auth_Repository Password_Policy
begin

section \<open>Login and sessions (\<^verbatim>\<open>security/auth/service.py\<close>)\<close>

text \<open>
  The operations of \<open>LocalAuthenticationService\<close>.  Cryptography and Unicode normalisation enter
  through the record \<open>auth_env\<close>, one function per primitive the class calls with its key bound; the
  fresh token of \<open>secrets.token_urlsafe\<close> and the current instant are arguments.  Each Korean literal
  is a constant named after its English meaning and given by the hexadecimal digits of its UTF-8
  encoding.
\<close>

subsection \<open>Texts\<close>

definition au_ko_the_login_data_is_wrong_or_login_is_not_possible_now :: string where
  "au_ko_the_login_data_is_wrong_or_login_is_not_possible_now =
     hex_text ''eba19ceab7b8ec9db820eca095ebb3b4eab08020ec98acebb094eba5b4eca78020ec958aeab1b0eb829820ed9884ec9eac20eba19ceab7b8ec9db8ed95a020ec889820ec9786ec8ab5eb8b88eb8ba42e''"

definition au_ko_login_is_required :: string where
  "au_ko_login_is_required =
     hex_text ''eba19ceab7b8ec9db8ec9db420ed9584ec9a94ed95a9eb8b88eb8ba42e''"

definition au_ko_start_the_login_again :: string where
  "au_ko_start_the_login_again =
     hex_text ''eba19ceab7b8ec9db8ec9d8420eb8ba4ec8b9c20ec8b9cec9e91ed95b420eca3bcec84b8ec9a942e''"

definition au_ko_this_login_has_ended :: string where
  "au_ko_this_login_has_ended =
     hex_text ''eca285eba38ceb909c20eba19ceab7b8ec9db8ec9e85eb8b88eb8ba42e20eb8ba4ec8b9c20eba19ceab7b8ec9db8ed95b420eca3bcec84b8ec9a942e''"

definition au_ko_the_login_has_timed_out :: string where
  "au_ko_the_login_has_timed_out =
     hex_text ''eba19ceab7b8ec9db820ec8b9ceab084ec9db420eba78ceba38ceb9098ec9788ec8ab5eb8b88eb8ba42e20eb8ba4ec8b9c20eba19ceab7b8ec9db8ed95b420eca3bcec84b8ec9a942e''"

definition au_ko_the_security_value_of_the_request_is_wrong :: string where
  "au_ko_the_security_value_of_the_request_is_wrong =
     hex_text ''ec9a94ecb2adec9d9820ebb3b4ec958820ed9995ec9db8eab092ec9db420ec98acebb094eba5b4eca78020ec958aec8ab5eb8b88eb8ba42e20ed9994eba9b4ec9d8420ec8388eba19c20ec97b4ec96b420eca3bcec84b8ec9a942e''"

definition au_ko_the_password_has_expired :: string where
  "au_ko_the_password_has_expired =
     hex_text ''ebb984ebb080ebb288ed98b820ec82acec9aa9eab8b0eab084ec9db420eca780eb82acec8ab5eb8b88eb8ba42e20ec8ab9ec9db8eb909c20eab384eca09520ebb3b5eab5ac20eca088ecb0a8eba19c20ebb380eab2bded95b420eca3bcec84b8ec9a942e''"

definition au_ko_start_the_second_factor_again :: string where
  "au_ko_start_the_second_factor_again =
     hex_text ''eb919020ebb288eca7b820ec9db8eca69dec9d8420eb8ba4ec8b9c20ec8b9cec9e91ed95b420eca3bcec84b8ec9a942e''"

definition au_ko_the_code_is_wrong_or_cannot_be_used :: string where
  "au_ko_the_code_is_wrong_or_cannot_be_used =
     hex_text ''ec9db8eca69decbd94eb939ceab08020ec98acebb094eba5b4eca78020ec958aeab1b0eb829820ec82acec9aa9ed95a020ec889820ec9786ec8ab5eb8b88eb8ba42e''"

definition au_ko_account_or_permissions_changed :: string where
  "au_ko_account_or_permissions_changed =
     hex_text ''eab384eca09520eb9890eb8a9420eab68ced959cec9db420ebb380eab2bdeb9098ec96b420eb8ba4ec8b9c20eba19ceab7b8ec9db8ed95b4ec95bc20ed95a9eb8b88eb8ba42e''"

definition au_ko_no_usable_role :: string where
  "au_ko_no_usable_role =
     hex_text ''ec82acec9aa920eab080eb8aa5ed959c20ec97aded95a0ec9db420ec9786ec96b420eba19ceab7b8ec9db8ec9db420eca285eba38ceb9098ec9788ec8ab5eb8b88eb8ba42e''"

subsection \<open>Environment and settings\<close>

text \<open>
  \<open>env_key\<close>: the signing key.  \<open>env_session_hash\<close>, \<open>env_csrf_token\<close>: the keyed digests of
  \<open>_session_hash\<close> and \<open>_csrf_token\<close>; \<open>env_csrf_hash\<close>: the SHA-256 digest of \<open>_csrf_hash\<close>;
  \<open>env_mfa_hmac\<close>: the keyed digest of the payload in \<open>mfa_code_digest\<close>.  \<open>env_unicode\<close> and
  \<open>env_hasher\<close> are the parameters of the password policy and of the password service.
\<close>

record auth_env =
  env_key :: string
  env_session_hash :: "string \<Rightarrow> string \<Rightarrow> string"
  env_csrf_token :: "string \<Rightarrow> string \<Rightarrow> string"
  env_csrf_hash :: "string \<Rightarrow> string"
  env_mfa_hmac :: "string \<Rightarrow> string \<Rightarrow> string"
  env_unicode :: unicode_data
  env_hasher :: password_hasher

definition session_hash :: "auth_env \<Rightarrow> string \<Rightarrow> string" where
  "session_hash env token = env_session_hash env (env_key env) token"

definition csrf_token :: "auth_env \<Rightarrow> string \<Rightarrow> string" where
  "csrf_token env token = env_csrf_token env (env_key env) token"

definition canonical_username :: "auth_env \<Rightarrow> string \<Rightarrow> string" where
  "canonical_username env username =
     uc_casefold (env_unicode env) (strip (uc_nfc (env_unicode env) username))"

definition password_matches :: "auth_env \<Rightarrow> string \<Rightarrow> string \<Rightarrow> bool" where
  "password_matches env encoded_hash password =
     verify_password (env_unicode env) (env_hasher env) encoded_hash password"

record auth_settings =
  set_profile :: string
  set_canonical_origin :: string
  set_idle_timeout_minutes :: int
  set_privileged_idle_timeout_minutes :: int
  set_absolute_timeout_hours :: int
  set_pre_auth_timeout_minutes :: int

definition minutes :: "int \<Rightarrow> instant" where
  "minutes n = n * 60 * 1000000"

definition hours :: "int \<Rightarrow> instant" where
  "hours n = n * 3600 * 1000000"

definition days :: "int \<Rightarrow> instant" where
  "days n = n * 86400 * 1000000"

definition fail :: "authentication_code \<Rightarrow> string \<Rightarrow> 'a auth_op" where
  "fail code message = op_raise (AuthenticationError code message)"

definition generic_login_message :: string where
  "generic_login_message =
     au_ko_the_login_data_is_wrong_or_login_is_not_possible_now"

definition reference :: "string \<Rightarrow> string" where
  "reference digest = take 12 digest"

text \<open>\<open>mfa_code_digest\<close> encodes the code as ASCII first.\<close>

definition mfa_code_digest :: "auth_env \<Rightarrow> string \<Rightarrow> uuid \<Rightarrow> string \<Rightarrow> string auth_op" where
  "mfa_code_digest env key user_id code =
     (if list_all (\<lambda>c. of_char c < (128 :: nat)) code 
      then op_return (env_mfa_hmac env key (''secai-mfa:'' @ user_id @ '':'' @ code))
      else op_raise UnicodeEncodeError)"

subsection \<open>Sessions\<close>

definition new_session ::
  "auth_env \<Rightarrow> auth_settings \<Rightarrow> string \<Rightarrow> instant \<Rightarrow> session_phase \<Rightarrow> account option \<Rightarrow> string \<Rightarrow>
     bool \<Rightarrow> stored_session" where
  "new_session env st token now phase user auth_methods is_privileged =
     (let expires_at = (if phase = AUTHENTICATED then now + hours (set_absolute_timeout_hours st)
                        else now + minutes (set_pre_auth_timeout_minutes st));
          idle_minutes = (if phase = AUTHENTICATED
                          then (if is_privileged then set_privileged_idle_timeout_minutes st
                                else set_idle_timeout_minutes st)
                          else set_pre_auth_timeout_minutes st);
          stamp = (if phase = AUTHENTICATED then Some now else None)
      in \<lparr>ss_session_id_hash = session_hash env token,
          ss_user_id = map_option acc_id user,
          ss_active_organization_id = map_option acc_organization_id user,
          ss_phase = phase,
          ss_credential_version = (case user of None \<Rightarrow> 0 | Some u \<Rightarrow> acc_credential_version u),
          ss_role_assignment_version =
            (case user of None \<Rightarrow> 0 | Some u \<Rightarrow> acc_role_assignment_version u),
          ss_auth_methods = auth_methods,
          ss_csrf_token_hash = env_csrf_hash env (csrf_token env token),
          ss_mfa_attempts = 0,
          ss_authenticated_at = stamp,
          ss_reauthenticated_at = stamp,
          ss_created_at = now,
          ss_last_seen_at = now,
          ss_expires_at = expires_at,
          ss_idle_expires_at = now + minutes idle_minutes,
          ss_revoked_at = None,
          ss_revoke_reason = None\<rparr>)"

definition create_session_context ::
  "auth_env \<Rightarrow> auth_settings \<Rightarrow> string \<Rightarrow> instant \<Rightarrow> session_phase \<Rightarrow> account option \<Rightarrow> string \<Rightarrow>
     bool \<Rightarrow> session_context auth_op" where
  "create_session_context env st token now phase user auth_methods is_privileged =
     (let s = new_session env st token now phase user auth_methods is_privileged
      in op_bind (create_session s) (\<lambda>_.
           op_return \<lparr>sc_token = token, sc_csrf_token = csrf_token env token, sc_phase = phase,
             sc_expires_at = ss_expires_at s, sc_principal = None\<rparr>))"

definition new_pre_auth ::
  "auth_env \<Rightarrow> auth_settings \<Rightarrow> string \<Rightarrow> instant \<Rightarrow> session_context auth_op" where
  "new_pre_auth env st fresh now = create_session_context env st fresh now PRE_AUTH None [] False"

definition load_session ::
  "auth_env \<Rightarrow> string option \<Rightarrow> session_phase \<Rightarrow> instant \<Rightarrow> (string \<times> stored_session) auth_op" where
  "load_session env token expected_phase now =
     (case token of
        None \<Rightarrow> fail REQUIRED au_ko_login_is_required
      | Some t \<Rightarrow>
          if t = [] then fail REQUIRED au_ko_login_is_required
          else
            op_bind (op_read (session (session_hash env t))) (\<lambda>found.
              case found of
                None \<Rightarrow> fail REQUIRED au_ko_start_the_login_again
              | Some stored \<Rightarrow>
                  if ss_phase stored \<noteq> expected_phase
                  then fail REQUIRED au_ko_start_the_login_again
                  else if ss_revoked_at stored \<noteq> None
                  then fail SESSION_REVOKED au_ko_this_login_has_ended
                  else if now \<ge> ss_expires_at stored \<or> now \<ge> ss_idle_expires_at stored
                  then op_bind (op_write (revoke_session (session_hash env t) now ''TIMEOUT''))
                         (\<lambda>_. fail SESSION_EXPIRED
                            au_ko_the_login_has_timed_out)
                  else op_return (session_hash env t, stored)))"

definition token_text :: "string option \<Rightarrow> string" where
  "token_text token = (case token of None \<Rightarrow> [] | Some t \<Rightarrow> t)"

definition pending_context ::
  "auth_env \<Rightarrow> string option \<Rightarrow> instant \<Rightarrow> session_context auth_op" where
  "pending_context env token now =
     op_bind (load_session env token MFA_PENDING now) (\<lambda>hs.
       op_return \<lparr>sc_token = token_text token, sc_csrf_token = csrf_token env (token_text token),
         sc_phase = MFA_PENDING, sc_expires_at = ss_expires_at (snd hs), sc_principal = None\<rparr>)"

definition reject_csrf :: "'a auth_op" where
  "reject_csrf = fail CSRF_REJECTED
     au_ko_the_security_value_of_the_request_is_wrong"

definition canonical_source :: "auth_settings \<Rightarrow> string option \<Rightarrow> string option \<Rightarrow> bool" where
  "canonical_source st origin referer =
     (let trusted = (case origin of None \<Rightarrow> referer | Some s \<Rightarrow> Some s);
          base = set_canonical_origin st @ ''/''
      in case trusted of
           None \<Rightarrow> False
         | Some s \<Rightarrow> s = set_canonical_origin st \<or> take (length base) s = base)"

definition verify_csrf ::
  "auth_env \<Rightarrow> auth_settings \<Rightarrow> string option \<Rightarrow> string option \<Rightarrow> string option \<Rightarrow> string option \<Rightarrow>
     string option \<Rightarrow> session_phase \<Rightarrow> instant \<Rightarrow> unit auth_op" where
  "verify_csrf env st session_token supplied_token origin referer fetch_site expected_phase now =
     op_bind (load_session env session_token expected_phase now) (\<lambda>hs.
       if fetch_site = Some ''cross-site'' then reject_csrf
       else if \<not> canonical_source st origin referer \<and>
               \<not> (set_profile st = ''DEV-LOCAL'' \<and> fetch_site = Some ''same-origin'')
       then reject_csrf
       else case supplied_token of
              None \<Rightarrow> reject_csrf
            | Some supplied \<Rightarrow>
                if ss_csrf_token_hash (snd hs) \<noteq> env_csrf_hash env supplied then reject_csrf
                else op_return ())"

subsection \<open>Password step\<close>

definition login_deny ::
  "string \<Rightarrow> string \<Rightarrow> account option \<Rightarrow> string \<Rightarrow> session_context auth_op" where
  "login_deny reason old_hash user message =
     op_bind (op_write (audit ''LOGIN_PASSWORD'' ''DENY'' reason (Some (reference old_hash))
               (map_option acc_id user) (map_option acc_organization_id user))) (\<lambda>_.
       fail INVALID_CREDENTIALS message)"

definition password_login ::
  "auth_env \<Rightarrow> auth_settings \<Rightarrow> string option \<Rightarrow> string \<Rightarrow> string \<Rightarrow> string \<Rightarrow> instant \<Rightarrow>
     session_context auth_op" where
  "password_login env st pre_auth_token username password fresh now =
     op_bind (load_session env pre_auth_token PRE_AUTH now) (\<lambda>(old_hash, _).
     op_bind (op_read (account_by_username (canonical_username env username))) (\<lambda>found.
     case found of
       None \<Rightarrow> login_deny ''UNKNOWN_SUBJECT'' old_hash None generic_login_message
     | Some account \<Rightarrow>
         let locked = (acc_status account = TEMP_LOCKED \<and>
               (case acc_locked_until account of None \<Rightarrow> False | Some t \<Rightarrow> now < t))
         in if acc_status account \<in> {PENDING_APPROVAL, DISABLED, REJECTED} \<or> locked then
              login_deny ''ACCOUNT_UNAVAILABLE'' old_hash (Some account) generic_login_message
            else if \<not> password_matches env (acc_password_hash account) password then
              (let lock_until = (if acc_failed_attempts account + 1 \<ge> 10 then Some (now + minutes 15)
                                 else None)
               in op_bind (op_write (register_login_failure account now lock_until)) (\<lambda>_.
                    login_deny ''BAD_PASSWORD'' old_hash (Some account) generic_login_message))
            else if now \<ge> acc_password_changed_at account + days 30 then
              login_deny ''PASSWORD_EXPIRED'' old_hash (Some account)
                au_ko_the_password_has_expired
            else
              op_bind (op_write (revoke_session old_hash now ''PASSWORD_VERIFIED'')) (\<lambda>_.
              op_bind (create_session_context env st fresh now MFA_PENDING (Some account)
                         ''password'' False) (\<lambda>pending.
              op_bind (op_write (audit ''LOGIN_PASSWORD'' ''ALLOW'' ''MFA_REQUIRED''
                         (Some (reference (session_hash env (sc_token pending))))
                         (Some (acc_id account)) (Some (acc_organization_id account)))) (\<lambda>_.
                op_return pending)))))"

subsection \<open>Second factor\<close>

definition valid_factor :: "account \<Rightarrow> string \<Rightarrow> instant \<Rightarrow> bool" where
  "valid_factor account supplied_hash now \<longleftrightarrow>
     acc_status account = ACTIVE \<and>
     (case acc_mfa_code_hash account of
        None \<Rightarrow> False
      | Some h \<Rightarrow>
          (case acc_mfa_expires_at account of
             None \<Rightarrow> False
           | Some t \<Rightarrow> now < t \<and> supplied_hash = h))"

definition complete_dev_mfa ::
  "auth_env \<Rightarrow> auth_settings \<Rightarrow> string option \<Rightarrow> string \<Rightarrow> string \<Rightarrow> instant \<Rightarrow>
     session_context auth_op" where
  "complete_dev_mfa env st pending_token supplied_code fresh now =
     op_bind (load_session env pending_token MFA_PENDING now) (\<lambda>(old_hash, stored).
     case ss_user_id stored of
       None \<Rightarrow> fail INVALID_MFA au_ko_start_the_second_factor_again
     | Some user_id \<Rightarrow>
         op_bind (op_read (account_by_id user_id)) (\<lambda>found.
         case found of
           None \<Rightarrow> fail INVALID_MFA au_ko_start_the_second_factor_again
         | Some account \<Rightarrow>
             op_bind (mfa_code_digest env (env_key env) (acc_id account) supplied_code) (\<lambda>supplied_hash.
             if ss_mfa_attempts stored \<ge> 5 \<or> \<not> valid_factor account supplied_hash now then
               op_bind (op_write (increment_mfa_failure old_hash)) (\<lambda>_.
               op_bind (if ss_mfa_attempts stored + 1 \<ge> 5
                        then op_write (revoke_session old_hash now ''MFA_LIMIT'')
                        else op_return ()) (\<lambda>_.
               op_bind (op_write (audit ''LOGIN_MFA'' ''DENY'' ''FACTOR_FAILED'' (Some (reference old_hash))
                          (Some (acc_id account)) (Some (acc_organization_id account)))) (\<lambda>_.
                 fail INVALID_MFA
                   au_ko_the_code_is_wrong_or_cannot_be_used)))
             else
               op_bind (op_read (roles (acc_id account) (acc_organization_id account))) (\<lambda>rs.
               if rs = {} then
                 op_bind (op_write (revoke_session old_hash now ''NO_ACTIVE_ROLE'')) (\<lambda>_.
                   fail INVALID_CREDENTIALS generic_login_message)
               else
                 op_bind (op_write (revoke_session old_hash now ''MFA_VERIFIED'')) (\<lambda>_.
                 op_bind (create_session_context env st fresh now AUTHENTICATED (Some account)
                            ''password,dev-test-mfa'' (rs \<inter> privileged_roles \<noteq> {}))
                   (\<lambda>authenticated.
                 op_bind (op_write (reset_login_failures (acc_id account) now)) (\<lambda>_.
                 op_bind (op_write (audit ''LOGIN_MFA'' ''ALLOW'' ''AUTHENTICATED''
                            (Some (reference (session_hash env (sc_token authenticated))))
                            (Some (acc_id account)) (Some (acc_organization_id account)))) (\<lambda>_.
                   op_return authenticated))))))))"

subsection \<open>Authenticated requests\<close>

definition identity_current :: "account option \<Rightarrow> uuid \<Rightarrow> stored_session \<Rightarrow> bool" where
  "identity_current found organization_id stored =
     (case found of
        None \<Rightarrow> False
      | Some account \<Rightarrow>
          acc_status account = ACTIVE \<and>
          acc_credential_version account = ss_credential_version stored \<and>
          acc_role_assignment_version account = ss_role_assignment_version stored \<and>
          acc_organization_id account = organization_id)"

definition the_principal ::
  "account \<Rightarrow> stored_session \<Rightarrow> human_role set \<Rightarrow> uuid set \<Rightarrow> principal" where
  "the_principal account stored rs assets =
     (let authenticated_at = (case ss_authenticated_at stored of
            None \<Rightarrow> ss_created_at stored | Some t \<Rightarrow> t);
          reauthenticated_at = (case ss_reauthenticated_at stored of
            None \<Rightarrow> authenticated_at | Some t \<Rightarrow> t)
      in \<lparr>pr_user_id = acc_id account,
          pr_username = acc_username_canonical account,
          pr_display_name = acc_display_name account,
          pr_organization_id = acc_organization_id account,
          pr_roles = rs,
          pr_asset_ids = assets,
          pr_auth_methods =
            set (filter (\<lambda>x. x \<noteq> []) (split_char (CHR '','') (ss_auth_methods stored))),
          pr_session_created_at = ss_created_at stored,
          pr_reauthenticated_at = reauthenticated_at\<rparr>)"

definition authenticate ::
  "auth_env \<Rightarrow> auth_settings \<Rightarrow> string option \<Rightarrow> bool \<Rightarrow> instant \<Rightarrow> session_context auth_op" where
  "authenticate env st token meaningful_activity now =
     op_bind (load_session env token AUTHENTICATED now) (\<lambda>(hash, stored).
     case (ss_user_id stored, ss_active_organization_id stored) of
       (Some user_id, Some organization_id) \<Rightarrow>
         op_bind (op_read (account_by_id user_id)) (\<lambda>found.
         if \<not> identity_current found organization_id stored then
           op_bind (op_write (revoke_session hash now ''IDENTITY_CHANGED'')) (\<lambda>_.
             fail SESSION_REVOKED
               au_ko_account_or_permissions_changed)
         else
           (let account = the found
            in op_bind (op_read (roles (acc_id account) (acc_organization_id account))) (\<lambda>rs.
               if rs = {} then
                 op_bind (op_write (revoke_session hash now ''NO_ACTIVE_ROLE'')) (\<lambda>_.
                   fail SESSION_REVOKED
                     au_ko_no_usable_role)
               else
                 op_bind (op_read (asset_ids (acc_id account) (acc_organization_id account)))
                   (\<lambda>assets.
                 let p = the_principal account stored rs assets;
                     idle_minutes = (if privileged p then set_privileged_idle_timeout_minutes st
                                     else set_idle_timeout_minutes st)
                 in op_bind (if meaningful_activity
                             then op_write (touch_session hash now
                                    (min (ss_expires_at stored) (now + minutes idle_minutes)))
                             else op_return ()) (\<lambda>_.
                      op_return \<lparr>sc_token = token_text token,
                        sc_csrf_token = csrf_token env (token_text token),
                        sc_phase = AUTHENTICATED, sc_expires_at = ss_expires_at stored,
                        sc_principal = Some p\<rparr>)))))
     | _ \<Rightarrow> fail REQUIRED au_ko_login_is_required)"

definition revoke_current :: "auth_env \<Rightarrow> string \<Rightarrow> string \<Rightarrow> instant \<Rightarrow> unit auth_op" where
  "revoke_current env token reason now =
     (let hash = session_hash env token
      in op_bind (op_read (session hash)) (\<lambda>stored.
         op_bind (op_write (revoke_session hash now reason)) (\<lambda>_.
           op_write (audit ''SESSION_REVOKE'' ''ALLOW'' reason (Some (reference hash))
             (case stored of None \<Rightarrow> None | Some s \<Rightarrow> ss_user_id s)
             (case stored of None \<Rightarrow> None | Some s \<Rightarrow> ss_active_organization_id s)))))"

definition revoke_all :: "auth_env \<Rightarrow> string option \<Rightarrow> instant \<Rightarrow> unit auth_op" where
  "revoke_all env token now =
     op_bind (load_session env token AUTHENTICATED now) (\<lambda>(hash, stored).
     case ss_user_id stored of
       None \<Rightarrow> fail REQUIRED au_ko_login_is_required
     | Some user_id \<Rightarrow>
         op_bind (op_write (revoke_user_sessions user_id now ''LOGOUT_ALL'' None)) (\<lambda>_.
           op_write (audit ''SESSION_REVOKE_ALL'' ''ALLOW'' ''LOGOUT_ALL''
             (Some (reference hash)) (Some user_id) (ss_active_organization_id stored))))"

definition audit_authorization ::
  "auth_env \<Rightarrow> string option \<Rightarrow> principal \<Rightarrow> string \<Rightarrow> bool \<Rightarrow> string \<Rightarrow> unit auth_op" where
  "audit_authorization env token p permission allowed reason_code =
     op_write (audit (''AUTHORIZATION_'' @ permission) (if allowed then ''ALLOW'' else ''DENY'')
       reason_code
       (case token of
          None \<Rightarrow> None
        | Some t \<Rightarrow> if t = [] then None else Some (reference (session_hash env t)))
       (Some (pr_user_id p)) (Some (pr_organization_id p)))"

end
