(* ===== verification/Account_Management.thy ===== *)
theory Account_Management
  imports Auth_Service
begin

section \<open>Accounts (\<^verbatim>\<open>security/auth/account_management.py\<close>)\<close>

text \<open>
  Registration, approval and account settings: the statements of \<open>SqlAccountManagementRepository\<close>
  on the tables of \<open>Auth_Repository\<close> and the operations of \<open>AccountManagementService\<close>.  The UUID
  of a new row, the salt of a password hash, the number drawn for a code and the current instant
  are arguments.  Rows that tie in an \<open>ORDER BY\<close> are taken in the order of the table.
\<close>

subsection \<open>Texts\<close>

definition am_ko_user_name_of_3_to_64_characters :: string where
  "am_ko_user_name_of_3_to_64_characters =
     hex_text ''ec82acec9aa9ec9e9020ec9db4eba684ec9d8020ec9881ebacb820ec868cebacb8ec9e9020eb9890eb8a9420ec88abec9e90eba19c20ec8b9cec9e91ed9598eb8a9420337e3634ec9e90eba19c20ec9e85eba0a5ed95b420eca3bcec84b8ec9a942e''"

definition am_ko_display_name_of_1_to_128_characters :: string where
  "am_ko_display_name_of_1_to_128_characters =
     hex_text ''ed919cec8b9c20ec9db4eba684ec9d8020317e313238ec9e90eba19c20ec9e85eba0a5ed95b420eca3bcec84b8ec9a942e''"

definition am_ko_no_control_characters_in_the_display_name :: string where
  "am_ko_no_control_characters_in_the_display_name =
     hex_text ''ed919cec8b9c20ec9db4eba684ec979020eca09cec96b420ebacb8ec9e90eba5bc20ec82acec9aa9ed95a020ec889820ec9786ec8ab5eb8b88eb8ba42e''"

definition am_ko_administrator_required :: string where
  "am_ko_administrator_required =
     hex_text ''eab480eba6acec9e9020eab68ced959cec9db420ed9584ec9a94ed95a9eb8b88eb8ba42e''"

definition am_ko_the_confirmation_differs :: string where
  "am_ko_the_confirmation_differs =
     hex_text ''ec838820ebb984ebb080ebb288ed98b820ed9995ec9db8ec9db420ec9dbcecb998ed9598eca78020ec958aec8ab5eb8b88eb8ba42e''"

definition am_ko_no_organization_is_ready :: string where
  "am_ko_no_organization_is_ready =
     hex_text ''eab080ec9e8520ec9a94ecb2adec9d8420ebb09bec9d8420eca1b0eca781ec9db420eca480ebb984eb9098eca78020ec958aec9598ec8ab5eb8b88eb8ba42e''"

definition am_ko_unsupported_action :: string where
  "am_ko_unsupported_action =
     hex_text ''eca780ec9b90ed9598eca78020ec958aeb8a9420eab384eca09520eab480eba6ac20ec9e91ec9785ec9e85eb8b88eb8ba42e''"

definition am_ko_own_account_cannot_be_stopped :: string where
  "am_ko_own_account_cannot_be_stopped =
     hex_text ''ed9884ec9eac20eba19ceab7b8ec9db8ed959c20ebb3b8ec9db820eab384eca095ec9d8020eca491eca780ed95a020ec889820ec9786ec8ab5eb8b88eb8ba42e''"

definition am_ko_status_changed_already_or_no_account :: string where
  "am_ko_status_changed_already_or_no_account =
     hex_text ''eab384eca09520ec8381ed839ceab08020ec9db4ebafb820ebb380eab2bdeb9098ec9788eab1b0eb829820eab384eca095ec9d8420ecb0beec9d8420ec889820ec9786ec8ab5eb8b88eb8ba42e''"

definition am_ko_the_account_cannot_be_changed :: string where
  "am_ko_the_account_cannot_be_changed =
     hex_text ''eab384eca09520eca095ebb3b4eba5bc20ebb380eab2bded95a020ec889820ec9786ec8ab5eb8b88eb8ba42e''"

definition am_ko_the_current_password_is_wrong :: string where
  "am_ko_the_current_password_is_wrong =
     hex_text ''ed9884ec9eac20ebb984ebb080ebb288ed98b8eab08020ec98acebb094eba5b4eca78020ec958aec8ab5eb8b88eb8ba42e''"

definition am_ko_choose_a_different_password :: string where
  "am_ko_choose_a_different_password =
     hex_text ''ed9884ec9eac20ebb984ebb080ebb288ed98b8ec998020eb8ba4eba5b820ec838820ebb984ebb080ebb288ed98b8eba5bc20ec9e85eba0a5ed95b420eca3bcec84b8ec9a942e''"

definition am_ko_the_password_cannot_be_changed :: string where
  "am_ko_the_password_cannot_be_changed =
     hex_text ''ebb984ebb080ebb288ed98b8eba5bc20ebb380eab2bded95a020ec889820ec9786ec8ab5eb8b88eb8ba42e''"

definition am_ko_code_issue_is_not_configured :: string where
  "am_ko_code_issue_is_not_configured =
     hex_text ''ec9db8eca69d20ecbd94eb939c20ebb09ceab88920ec84a4eca095ec9db420eca480ebb984eb9098eca78020ec958aec9598ec8ab5eb8b88eb8ba42e''"

definition am_ko_codes_only_for_active_accounts :: string where
  "am_ko_codes_only_for_active_accounts =
     hex_text ''ec82acec9aa920eca491ec9db820eab384eca095ec9790eba78c20ec9db8eca69d20ecbd94eb939ceba5bc20ebb09ceab889ed95a020ec889820ec9e88ec8ab5eb8b88eb8ba42e''"

subsection \<open>Data\<close>

record managed_account =
  ma_id :: uuid
  ma_organization_id :: uuid
  ma_username :: string
  ma_display_name :: string
  ma_status :: account_status
  ma_password_hash :: string
  ma_credential_version :: int
  ma_created_at :: instant
  ma_updated_at :: instant
  ma_mfa_code_hash :: "string option"
  ma_mfa_issued_at :: "instant option"
  ma_mfa_expires_at :: "instant option"

record issued_mfa_code =
  ic_code :: string
  ic_expires_at :: instant

definition mfa_valid_days :: int where
  "mfa_valid_days = 30"

definition status_actions :: "(string \<times> account_status set \<times> account_status \<times> bool) list" where
  "status_actions =
     [(''approve'', {PENDING_APPROVAL}, ACTIVE, True),
      (''reject'', {PENDING_APPROVAL}, REJECTED, False),
      (''disable'', {ACTIVE}, DISABLED, False),
      (''activate'', {DISABLED}, ACTIVE, True)]"

definition status_text :: "account_status \<Rightarrow> string" where
  "status_text status =
     (case status of
        PENDING_APPROVAL \<Rightarrow> ''PENDING_APPROVAL''
      | ACTIVE \<Rightarrow> ''ACTIVE''
      | TEMP_LOCKED \<Rightarrow> ''TEMP_LOCKED''
      | DISABLED \<Rightarrow> ''DISABLED''
      | REJECTED \<Rightarrow> ''REJECTED'')"

definition to_managed_account :: "account \<Rightarrow> managed_account" where
  "to_managed_account a =
     \<lparr>ma_id = acc_id a, ma_organization_id = acc_organization_id a,
      ma_username = acc_username_canonical a, ma_display_name = acc_display_name a,
      ma_status = acc_status a, ma_password_hash = acc_password_hash a,
      ma_credential_version = acc_credential_version a, ma_created_at = acc_created_at a,
      ma_updated_at = acc_updated_at a, ma_mfa_code_hash = acc_mfa_code_hash a,
      ma_mfa_issued_at = acc_mfa_issued_at a, ma_mfa_expires_at = acc_mfa_expires_at a\<rparr>"

subsection \<open>Repository\<close>

definition registration_organization_id :: "auth_db \<Rightarrow> uuid option" where
  "registration_organization_id db =
     (let joined = [(a, r). a \<leftarrow> db_accounts db, r \<leftarrow> db_roles db,
            ra_user_id r = acc_id a \<and> ra_organization_id r = acc_organization_id a \<and>
            ra_role_name r = ADMIN \<and> ra_revoked_at r = None \<and>
            acc_status a \<in> {ACTIVE, TEMP_LOCKED}];
          ordered = sort_key (\<lambda>(a, r). ra_granted_at r) (sort_key (\<lambda>(a, r). acc_created_at a) joined)
      in case ordered of
           (a, _) # _ \<Rightarrow> Some (acc_organization_id a)
         | [] \<Rightarrow>
             (case sort_key org_created_at (db_organizations db) of
                [] \<Rightarrow> None
              | org # _ \<Rightarrow> Some (org_id org)))"

definition pending_account ::
  "uuid \<Rightarrow> uuid \<Rightarrow> string \<Rightarrow> string \<Rightarrow> string \<Rightarrow> instant \<Rightarrow> account" where
  "pending_account new_id organization_id username display_name password_hash now =
     \<lparr>acc_id = new_id, acc_organization_id = organization_id, acc_username_canonical = username,
      acc_display_name = display_name, acc_status = PENDING_APPROVAL,
      acc_password_hash = password_hash, acc_credential_version = 1,
      acc_role_assignment_version = 1, acc_password_changed_at = now, acc_failed_attempts = 0,
      acc_locked_until = None, acc_mfa_code_hash = None, acc_mfa_issued_at = None,
      acc_mfa_expires_at = None, acc_created_at = now, acc_updated_at = now\<rparr>"

text \<open>
  The constraints whose violation the \<open>IntegrityError\<close> branch answers: primary key, unique user
  name, existing organization.
\<close>

definition create_pending_account ::
  "uuid \<Rightarrow> uuid \<Rightarrow> string \<Rightarrow> string \<Rightarrow> string \<Rightarrow> instant \<Rightarrow> managed_account option auth_op" where
  "create_pending_account new_id organization_id username display_name password_hash now db =
     (let record = pending_account new_id organization_id username display_name password_hash now
      in if account_by_id new_id db \<noteq> None \<or> account_by_username username db \<noteq> None \<or>
            organization_id \<notin> set (map org_id (db_organizations db))
         then (db, Inr None)
         else (db\<lparr>db_accounts := db_accounts db @ [record]\<rparr>, Inr (Some (to_managed_account record))))"

definition status_order :: "account_status \<Rightarrow> nat" where
  "status_order status =
     (if status = PENDING_APPROVAL then 0 else if status = ACTIVE then 1
      else if status = DISABLED then 2 else 3)"

definition repository_list_accounts :: "uuid \<Rightarrow> int \<Rightarrow> auth_db \<Rightarrow> managed_account list" where
  "repository_list_accounts organization_id limit db =
     (let safe_limit = max 1 (min limit 100);
          rows = filter (\<lambda>a. acc_organization_id a = organization_id) (db_accounts db)
      in map to_managed_account (take (nat safe_limit)
           (sort_key (\<lambda>a. status_order (acc_status a)) (sort_key (\<lambda>a. - acc_created_at a) rows))))"

definition scoped_account :: "uuid \<Rightarrow> uuid \<Rightarrow> auth_db \<Rightarrow> account option" where
  "scoped_account user_id organization_id db =
     find (\<lambda>a. acc_id a = user_id \<and> acc_organization_id a = organization_id) (db_accounts db)"

definition put_account :: "uuid \<Rightarrow> account \<Rightarrow> auth_db \<Rightarrow> auth_db" where
  "put_account user_id record db =
     db\<lparr>db_accounts := update_rows (\<lambda>a. acc_id a = user_id) (\<lambda>_. record) (db_accounts db)\<rparr>"

definition is_user_assignment :: "uuid \<Rightarrow> uuid \<Rightarrow> role_assignment \<Rightarrow> bool" where
  "is_user_assignment user_id organization_id r \<longleftrightarrow>
     ra_user_id r = user_id \<and> ra_organization_id r = organization_id \<and> ra_role_name r = USER"

definition grant_role ::
  "uuid \<Rightarrow> uuid \<Rightarrow> instant \<Rightarrow> role_assignment list \<Rightarrow> role_assignment list \<times> bool" where
  "grant_role user_id organization_id now rows =
     (case find (is_user_assignment user_id organization_id) rows of
        None \<Rightarrow>
          (rows @ [\<lparr>ra_user_id = user_id, ra_organization_id = organization_id, ra_role_name = USER,
                    ra_granted_at = now, ra_revoked_at = None\<rparr>], True)
      | Some assignment \<Rightarrow>
          if ra_revoked_at assignment \<noteq> None
          then (update_rows (is_user_assignment user_id organization_id)
                  (\<lambda>r. r\<lparr>ra_revoked_at := None, ra_granted_at := now\<rparr>) rows, True)
          else (rows, False))"

definition transition_account ::
  "uuid \<Rightarrow> uuid \<Rightarrow> account_status set \<Rightarrow> account_status \<Rightarrow> instant \<Rightarrow> bool \<Rightarrow>
     managed_account option auth_op" where
  "transition_account user_id organization_id from_statuses to_status now grant_user_role db =
     (case scoped_account user_id organization_id db of
        None \<Rightarrow> (db, Inr None)
      | Some record \<Rightarrow>
          if acc_status record \<notin> from_statuses then (db, Inr None)
          else
            (let record = record\<lparr>acc_status := to_status, acc_failed_attempts := 0,
                   acc_locked_until := None, acc_updated_at := now\<rparr>;
                 (rows, granted) = (if grant_user_role
                   then grant_role user_id organization_id now (db_roles db)
                   else (db_roles db, False));
                 record = (if granted
                   then record\<lparr>acc_role_assignment_version := acc_role_assignment_version record + 1\<rparr>
                   else record)
             in ((put_account user_id record db)\<lparr>db_roles := rows\<rparr>,
                 Inr (Some (to_managed_account record)))))"

definition repository_update_display_name ::
  "uuid \<Rightarrow> uuid \<Rightarrow> string \<Rightarrow> instant \<Rightarrow> managed_account option auth_op" where
  "repository_update_display_name user_id organization_id display_name now db =
     (case scoped_account user_id organization_id db of
        None \<Rightarrow> (db, Inr None)
      | Some record \<Rightarrow>
          (let record = record\<lparr>acc_display_name := display_name, acc_updated_at := now\<rparr>
           in (put_account user_id record db, Inr (Some (to_managed_account record)))))"

definition active_account :: "uuid \<Rightarrow> uuid \<Rightarrow> auth_db \<Rightarrow> account option" where
  "active_account user_id organization_id db =
     find (\<lambda>a. acc_id a = user_id \<and> acc_organization_id a = organization_id \<and> acc_status a = ACTIVE)
       (db_accounts db)"

definition repository_change_password :: "uuid \<Rightarrow> uuid \<Rightarrow> string \<Rightarrow> instant \<Rightarrow> bool auth_op" where
  "repository_change_password user_id organization_id password_hash now db =
     (case active_account user_id organization_id db of
        None \<Rightarrow> (db, Inr False)
      | Some record \<Rightarrow>
          (put_account user_id
             (record\<lparr>acc_password_hash := password_hash,
                     acc_credential_version := acc_credential_version record + 1,
                     acc_password_changed_at := now, acc_failed_attempts := 0,
                     acc_locked_until := None, acc_updated_at := now\<rparr>) db, Inr True))"

definition update_mfa_code ::
  "uuid \<Rightarrow> uuid \<Rightarrow> string \<Rightarrow> instant \<Rightarrow> instant \<Rightarrow> bool auth_op" where
  "update_mfa_code user_id organization_id code_hash issued_at expires_at db =
     (case active_account user_id organization_id db of
        None \<Rightarrow> (db, Inr False)
      | Some record \<Rightarrow>
          (put_account user_id
             (record\<lparr>acc_mfa_code_hash := Some code_hash, acc_mfa_issued_at := Some issued_at,
                     acc_mfa_expires_at := Some expires_at,
                     acc_credential_version := acc_credential_version record + 1,
                     acc_updated_at := issued_at\<rparr>) db, Inr True))"

definition account_audit ::
  "string \<Rightarrow> string \<Rightarrow> string \<Rightarrow> uuid option \<Rightarrow> uuid option \<Rightarrow> unit auth_op" where
  "account_audit event_type outcome reason_code user_id organization_id =
     op_write (audit event_type outcome reason_code None user_id organization_id)"

subsection \<open>Service\<close>

definition refuse :: "string \<Rightarrow> 'a auth_op" where
  "refuse message = op_raise (AccountManagementError message)"

definition username_head :: "char \<Rightarrow> bool" where
  "username_head c \<longleftrightarrow> (let n = of_char c :: nat in 97 \<le> n \<and> n \<le> 122 \<or> 48 \<le> n \<and> n \<le> 57)"

definition username_pattern :: "string \<Rightarrow> bool" where
  "username_pattern s =
     (case s of
        [] \<Rightarrow> False
      | c # rest \<Rightarrow> username_head c \<and> 2 \<le> length rest \<and> length rest \<le> 63 \<and>
          list_all (\<lambda>x. username_head x \<or> x \<in> set ''._-'') rest)"

definition registration_username :: "auth_env \<Rightarrow> string \<Rightarrow> string auth_op" where
  "registration_username env value =
     (let username = canonical_username env value
      in if \<not> username_pattern username \<or> py_contains username ''..''
         then refuse am_ko_user_name_of_3_to_64_characters
         else op_return username)"

definition safe_display_name :: "auth_env \<Rightarrow> string \<Rightarrow> string auth_op" where
  "safe_display_name env value =
     (let display_name = strip (uc_nfc (env_unicode env) value)
      in if display_name = [] \<or> py_len display_name > 128
         then refuse am_ko_display_name_of_1_to_128_characters
         else if list_ex (uc_category_c (env_unicode env)) (utf8_chars display_name)
         then refuse am_ko_no_control_characters_in_the_display_name
         else op_return display_name)"

definition require_admin :: "principal \<Rightarrow> unit auth_op" where
  "require_admin p =
     (if ADMIN \<notin> pr_roles p then refuse am_ko_administrator_required
      else op_return ())"

definition request_registration ::
  "auth_env \<Rightarrow> string \<Rightarrow> string \<Rightarrow> string \<Rightarrow> string \<Rightarrow> uuid \<Rightarrow> string \<Rightarrow> instant \<Rightarrow> bool auth_op" where
  "request_registration env username display_name password password_confirmation new_id salt now =
     op_bind (registration_username env username) (\<lambda>canonical.
     op_bind (safe_display_name env display_name) (\<lambda>display.
     if password \<noteq> password_confirmation
     then refuse am_ko_the_confirmation_differs
     else
       (let reasons = validate_password_policy (env_unicode env) password canonical
        in if \<not> accepted reasons then refuse (join_with '' '' reasons)
           else op_bind (op_read registration_organization_id) (\<lambda>found.
             case found of
               None \<Rightarrow> refuse am_ko_no_organization_is_ready
             | Some organization_id \<Rightarrow>
                 op_bind (create_pending_account new_id organization_id canonical display
                            (hash_password (env_unicode env) (env_hasher env) salt password) now)
                   (\<lambda>account.
                 op_bind (account_audit ''ACCOUNT_REGISTRATION_REQUEST''
                            (if account \<noteq> None then ''ALLOW'' else ''DENY'')
                            (if account \<noteq> None then ''PENDING_APPROVAL'' else ''DUPLICATE_REQUEST'')
                            (map_option ma_id account) (Some organization_id)) (\<lambda>_.
                   op_return (account \<noteq> None)))))))"

definition list_accounts :: "principal \<Rightarrow> managed_account list auth_op" where
  "list_accounts p =
     op_bind (require_admin p) (\<lambda>_. op_read (repository_list_accounts (pr_organization_id p) 100))"

definition change_status ::
  "principal \<Rightarrow> uuid \<Rightarrow> string \<Rightarrow> instant \<Rightarrow> managed_account auth_op" where
  "change_status p user_id action now =
     op_bind (require_admin p) (\<lambda>_.
     case map_of status_actions action of
       None \<Rightarrow> refuse am_ko_unsupported_action
     | Some (from_statuses, to_status, grant_user_role) \<Rightarrow>
         if user_id = pr_user_id p \<and> action \<in> {''reject'', ''disable''}
         then refuse am_ko_own_account_cannot_be_stopped
         else
           op_bind (transition_account user_id (pr_organization_id p) from_statuses to_status now
                      grant_user_role) (\<lambda>found.
           case found of
             None \<Rightarrow> refuse am_ko_status_changed_already_or_no_account
           | Some account \<Rightarrow>
               op_bind (if action \<in> {''reject'', ''disable''}
                        then op_write (revoke_user_sessions user_id now
                               (''ACCOUNT_'' @ status_text to_status) None)
                        else op_return ()) (\<lambda>_.
               op_bind (account_audit ''ACCOUNT_STATUS_CHANGE'' ''ALLOW''
                          (''ACCOUNT_'' @ status_text to_status)
                          (Some (pr_user_id p)) (Some (pr_organization_id p))) (\<lambda>_.
                 op_return account))))"

definition update_display_name ::
  "auth_env \<Rightarrow> principal \<Rightarrow> string \<Rightarrow> instant \<Rightarrow> managed_account auth_op" where
  "update_display_name env p display_name now =
     op_bind (safe_display_name env display_name) (\<lambda>display.
     op_bind (repository_update_display_name (pr_user_id p) (pr_organization_id p) display now)
       (\<lambda>found.
     case found of
       None \<Rightarrow> refuse am_ko_the_account_cannot_be_changed
     | Some account \<Rightarrow>
         op_bind (account_audit ''ACCOUNT_PROFILE_CHANGE'' ''ALLOW'' ''DISPLAY_NAME_CHANGED''
                    (Some (pr_user_id p)) (Some (pr_organization_id p))) (\<lambda>_.
           op_return account)))"

definition change_password ::
  "auth_env \<Rightarrow> principal \<Rightarrow> string \<Rightarrow> string \<Rightarrow> string \<Rightarrow> string \<Rightarrow> instant \<Rightarrow> unit auth_op" where
  "change_password env p current_password new_password password_confirmation salt now =
     op_bind (op_read (account_by_id (pr_user_id p))) (\<lambda>found.
     case found of
       None \<Rightarrow> refuse am_ko_the_account_cannot_be_changed
     | Some account \<Rightarrow>
         if acc_status account \<noteq> ACTIVE
         then refuse am_ko_the_account_cannot_be_changed
         else if \<not> password_matches env (acc_password_hash account) current_password then
           op_bind (account_audit ''ACCOUNT_PASSWORD_CHANGE'' ''DENY'' ''CURRENT_PASSWORD_MISMATCH''
                      (Some (pr_user_id p)) (Some (pr_organization_id p))) (\<lambda>_.
             refuse am_ko_the_current_password_is_wrong)
         else if new_password \<noteq> password_confirmation
         then refuse am_ko_the_confirmation_differs
         else if password_matches env (acc_password_hash account) new_password
         then refuse am_ko_choose_a_different_password
         else
           (let reasons = validate_password_policy (env_unicode env) new_password (pr_username p)
            in if \<not> accepted reasons then refuse (join_with '' '' reasons)
               else op_bind (repository_change_password (pr_user_id p) (pr_organization_id p)
                      (hash_password (env_unicode env) (env_hasher env) salt new_password) now)
                    (\<lambda>changed.
                 if \<not> changed then refuse am_ko_the_password_cannot_be_changed
                 else
                   op_bind (op_write (revoke_user_sessions (pr_user_id p) now ''PASSWORD_CHANGED''
                              None)) (\<lambda>_.
                     account_audit ''ACCOUNT_PASSWORD_CHANGE'' ''ALLOW'' ''PASSWORD_CHANGED''
                       (Some (pr_user_id p)) (Some (pr_organization_id p))))))"

definition six_digits :: "int \<Rightarrow> string" where
  "six_digits n = (let d = int_str n in replicate (6 - length d) (CHR ''0'') @ d)"

definition renew_mfa_code ::
  "auth_env \<Rightarrow> string option \<Rightarrow> principal \<Rightarrow> uuid \<Rightarrow> int \<Rightarrow> instant \<Rightarrow> issued_mfa_code auth_op" where
  "renew_mfa_code env mfa_signing_key p user_id drawn now =
     op_bind (require_admin p) (\<lambda>_.
     case mfa_signing_key of
       None \<Rightarrow> refuse am_ko_code_issue_is_not_configured
     | Some key \<Rightarrow>
         if length key < 32
         then refuse am_ko_code_issue_is_not_configured
         else
           (let expires_at = now + days mfa_valid_days; code = six_digits drawn
            in op_bind (mfa_code_digest env key user_id code) (\<lambda>code_hash.
               op_bind (update_mfa_code user_id (pr_organization_id p) code_hash now expires_at)
                 (\<lambda>changed.
               if \<not> changed
               then refuse am_ko_codes_only_for_active_accounts
               else
                 op_bind (op_write (revoke_user_sessions user_id now ''MFA_CODE_REISSUED'' None)) (\<lambda>_.
                 op_bind (account_audit ''ACCOUNT_MFA_CODE_REISSUE'' ''ALLOW'' ''MFA_CODE_REISSUED''
                            (Some (pr_user_id p)) (Some (pr_organization_id p))) (\<lambda>_.
                   op_return \<lparr>ic_code = code, ic_expires_at = expires_at\<rparr>))))))"

end
