(* ===== verification/Auth_Steps.thy ===== *)
theory Auth_Steps
  imports Account_Management
begin

section \<open>Runs of the authentication subsystem (\<^verbatim>\<open>security/auth\<close>)\<close>

text \<open>
  The operations of both services as requests and the databases a sequence of requests can reach.
  Every operation runs to its end before the next begins; the instants, fresh tokens and principals
  of the requests are arbitrary.  The locale \<open>auth_discipline\<close> is the contract between the tables
  and the services: a relation that each table update respects, in the situations in which the
  services use it, is respected by every request and by every run.
\<close>

datatype auth_request =
    New_pre_auth string instant
  | Pending_context "string option" instant
  | Verify_csrf "string option" "string option" "string option" "string option" "string option"
      session_phase instant
  | Password_login "string option" string string string instant
  | Complete_dev_mfa "string option" string string instant
  | Authenticate "string option" bool instant
  | Revoke_current string string instant
  | Revoke_all "string option" instant
  | Audit_authorization "string option" principal string bool string
  | Request_registration string string string string uuid string instant
  | List_accounts principal
  | Change_status principal uuid string instant
  | Update_display_name principal string instant
  | Change_password principal string string string string instant
  | Renew_mfa_code principal uuid int instant

fun perform ::
  "auth_env \<Rightarrow> auth_settings \<Rightarrow> string option \<Rightarrow> auth_request \<Rightarrow> auth_db \<Rightarrow> auth_db" where
  "perform env st key (New_pre_auth fresh now) db = fst (new_pre_auth env st fresh now db)"
| "perform env st key (Pending_context token now) db = fst (pending_context env token now db)"
| "perform env st key (Verify_csrf token supplied origin referer site phase now) db =
     fst (verify_csrf env st token supplied origin referer site phase now db)"
| "perform env st key (Password_login token username password fresh now) db =
     fst (password_login env st token username password fresh now db)"
| "perform env st key (Complete_dev_mfa token code fresh now) db =
     fst (complete_dev_mfa env st token code fresh now db)"
| "perform env st key (Authenticate token active now) db = fst (authenticate env st token active now db)"
| "perform env st key (Revoke_current token reason now) db = fst (revoke_current env token reason now db)"
| "perform env st key (Revoke_all token now) db = fst (revoke_all env token now db)"
| "perform env st key (Audit_authorization token p permission allowed reason) db =
     fst (audit_authorization env token p permission allowed reason db)"
| "perform env st key (Request_registration username display password confirmation new_id salt now) db =
     fst (request_registration env username display password confirmation new_id salt now db)"
| "perform env st key (List_accounts p) db = fst (list_accounts p db)"
| "perform env st key (Change_status p user_id action now) db = fst (change_status p user_id action now db)"
| "perform env st key (Update_display_name p display now) db =
     fst (update_display_name env p display now db)"
| "perform env st key (Change_password p current new confirmation salt now) db =
     fst (change_password env p current new confirmation salt now db)"
| "perform env st key (Renew_mfa_code p user_id drawn now) db =
     fst (renew_mfa_code env key p user_id drawn now db)"

inductive reaches ::
  "auth_env \<Rightarrow> auth_settings \<Rightarrow> string option \<Rightarrow> auth_db \<Rightarrow> auth_db \<Rightarrow> bool"
  for env st key db where
  start: "reaches env st key db db"
| request: "reaches env st key db db' \<Longrightarrow> reaches env st key db (perform env st key r db')"

subsection \<open>Outcomes of the shared steps\<close>

lemma failure_simps [simp]:
  "fst (fail c msg db) = db" "fst (refuse msg db) = db" "fst (reject_csrf db) = db"
  "snd (fail c msg db) = Inl (AuthenticationError c msg)"
  "snd (refuse msg db) = Inl (AccountManagementError msg)"
  by (simp_all add: fail_def refuse_def reject_csrf_def)

lemma load_session_Inr:
  "snd (load_session env token phase now db) = Inr (h, s) \<longleftrightarrow>
     (\<exists>t. token = Some t \<and> t \<noteq> [] \<and> h = session_hash env t \<and> session h db = Some s \<and>
          ss_phase s = phase \<and> ss_revoked_at s = None \<and> now < ss_expires_at s \<and>
          now < ss_idle_expires_at s)"
  by (auto simp: load_session_def op_bind_snd split: option.splits)

lemma load_session_fst:
  "snd (load_session env token phase now db) = Inr x \<Longrightarrow> fst (load_session env token phase now db) = db"
  by (auto simp: load_session_def op_bind_fst op_bind_snd split: option.splits if_splits)

lemma load_session_db:
  "fst (load_session env token phase now db) = db \<or>
   fst (load_session env token phase now db) =
     revoke_session (session_hash env (token_text token)) now ''TIMEOUT'' db"
  by (auto simp: load_session_def token_text_def op_bind_fst split: option.splits)

lemma login_deny_db: "\<exists>e out s u v. fst (login_deny reason h user msg db) = audit e out reason s u v db"
  unfolding login_deny_def by (simp add: op_bind_fst) blast

definition mfa_failure :: "string \<Rightarrow> stored_session \<Rightarrow> instant \<Rightarrow> auth_db \<Rightarrow> auth_db" where
  "mfa_failure h s now db =
     (if ss_mfa_attempts s + 1 \<ge> 5 then revoke_session h now ''MFA_LIMIT'' (increment_mfa_failure h db)
      else increment_mfa_failure h db)"

subsection \<open>Relations that every request respects\<close>

locale auth_discipline =
  fixes R :: "auth_db \<Rightarrow> auth_db \<Rightarrow> bool"
    and env :: auth_env
    and st :: auth_settings
  assumes keeps_refl: "R db db"
    and keeps_trans: "R db db1 \<Longrightarrow> R db1 db2 \<Longrightarrow> R db db2"
    and keeps_revoke: "R db (revoke_session h now reason db)"
    and keeps_revoke_user: "R db (revoke_user_sessions user_id now reason None db)"
    and keeps_touch:
      "session h db = Some s \<Longrightarrow> R db (touch_session h now (min (ss_expires_at s) limit) db)"
    and keeps_mfa_failure: "session h db = Some s \<Longrightarrow> R db (mfa_failure h s now db)"
    and keeps_login_failure:
      "account_by_username name db = Some a \<Longrightarrow> acc_status a \<in> {ACTIVE, TEMP_LOCKED} \<Longrightarrow>
       R db (register_login_failure a now lock_until db)"
    and keeps_reset:
      "account_by_id user_id db = Some a \<Longrightarrow> acc_status a = ACTIVE \<Longrightarrow>
       R db (reset_login_failures user_id now db)"
    and keeps_audit: "R db (audit event outcome reason ref by_user by_org db)"
    and keeps_pre_auth:
      "R db (fst (create_session (new_session env st token now PRE_AUTH None [] False) db))"
    and keeps_pending:
      "account_by_username name db = Some a \<Longrightarrow> acc_status a \<in> {ACTIVE, TEMP_LOCKED} \<Longrightarrow>
       R db (fst (create_session (new_session env st token now MFA_PENDING (Some a) ''password'' False) db))"
    and keeps_authenticated:
      "account_by_id user_id db = Some a \<Longrightarrow> acc_status a = ACTIVE \<Longrightarrow>
       roles (acc_id a) (acc_organization_id a) db \<noteq> {} \<Longrightarrow>
       R db (fst (create_session (new_session env st token now AUTHENTICATED (Some a)
               ''password,dev-test-mfa'' pv) db))"
    and keeps_new_account: "R db (fst (create_pending_account i org name display hash now db))"
    and keeps_transition:
      "(src, to, g) \<in> snd ` set status_actions \<Longrightarrow>
       R db (fst (transition_account user_id org src to now g db))"
    and keeps_display: "R db (fst (repository_update_display_name user_id org name now db))"
    and keeps_password: "R db (fst (repository_change_password user_id org hash now db))"
    and keeps_mfa_code: "R db (fst (update_mfa_code user_id org hash issued expires db))"
begin

lemma keeps_bind:
  assumes "R db (fst (m db))"
    and "\<And>x. snd (m db) = Inr x \<Longrightarrow> R (fst (m db)) (fst (f x (fst (m db))))"
  shows "R db (fst (op_bind m f db))"
  using assms keeps_trans by (fastforce simp: op_bind_fst split: sum.splits)

lemmas keeps_basic = keeps_refl keeps_revoke keeps_revoke_user keeps_audit keeps_new_account
  keeps_display keeps_password keeps_mfa_code keeps_pre_auth

lemma keeps_load: "R db (fst (load_session env token phase now db))"
  using load_session_db [of env token phase now db] keeps_refl keeps_revoke by metis

lemma keeps_loaded:
  assumes "\<And>h s. snd (load_session env token phase now db) = Inr (h, s) \<Longrightarrow> R db (fst (f (h, s) db))"
  shows "R db (fst (op_bind (load_session env token phase now) f db))"
proof (rule keeps_bind [OF keeps_load])
  fix x assume x: "snd (load_session env token phase now db) = Inr x"
  then show "R (fst (load_session env token phase now db))
               (fst (f x (fst (load_session env token phase now db))))"
    using assms load_session_fst [OF x] by (cases x) auto
qed

lemma keeps_deny: "R db (fst (login_deny reason h user msg db))"
  using login_deny_db [of reason h user msg db] keeps_audit by metis

lemma keeps_create:
  assumes "R db (fst (create_session (new_session env st token now phase user methods pv) db))"
  shows "R db (fst (create_session_context env st token now phase user methods pv db))"
  using assms by (simp add: create_session_context_def op_bind_fst Let_def split: sum.splits)

lemma keeps_after:
  assumes "R db db1"
  shows "R db (audit event outcome reason ref user org db1)"
    "R db (revoke_session h now reason db1)"
    "R db (revoke_user_sessions user_id now reason None db1)"
  using assms keeps_trans keeps_audit keeps_revoke keeps_revoke_user by metis+

lemma keeps_new_pre_auth: "R db (fst (new_pre_auth env st fresh now db))"
  unfolding new_pre_auth_def by (intro keeps_create keeps_pre_auth)

lemma keeps_pending_context: "R db (fst (pending_context env token now db))"
  unfolding pending_context_def by (rule keeps_loaded) (simp add: keeps_refl)

lemma keeps_verify_csrf: "R db (fst (verify_csrf env st token supplied origin referer site phase now db))"
  unfolding verify_csrf_def
  by (rule keeps_loaded) (simp add: keeps_refl split: option.splits)

lemma keeps_revoke_current: "R db (fst (revoke_current env token reason now db))"
  unfolding revoke_current_def Let_def
  by (simp add: op_bind_fst keeps_after keeps_refl)

lemma keeps_revoke_all: "R db (fst (revoke_all env token now db))"
  unfolding revoke_all_def
  by (rule keeps_loaded)
    (simp add: keeps_refl op_bind_fst keeps_after split: option.splits)

lemma keeps_login_refused:
  assumes "account_by_username n db = Some a" "acc_status a \<in> {ACTIVE, TEMP_LOCKED}"
  shows "R db (fst (login_deny reason h user msg (register_login_failure a now lu db)))"
  using assms by (intro keeps_trans [OF keeps_login_failure keeps_deny])

lemma keeps_login_accepted:
  assumes "account_by_username n db = Some a" "acc_status a \<in> {ACTIVE, TEMP_LOCKED}"
  shows "R db (fst (create_session_context env st fresh now MFA_PENDING (Some a) ''password'' False
                 (revoke_session h now reason db)))"
  using assms by (intro keeps_trans [OF keeps_revoke keeps_create] keeps_pending)
    (auto simp: account_by_username_def)

lemma open_status: "x \<in> {ACTIVE, TEMP_LOCKED} \<longleftrightarrow> x \<notin> {PENDING_APPROVAL, DISABLED, REJECTED}"
  by (cases x) auto

lemma keeps_password_login: "R db (fst (password_login env st token name password fresh now db))"
  unfolding password_login_def
proof (rule keeps_loaded, cases "account_by_username (canonical_username env name) db", goal_cases)
  case (1 h s)
  then show ?case by (simp add: keeps_deny)
next
  case (2 h s a)
  then show ?case
    using keeps_login_refused [of _ db a] keeps_login_accepted [of _ db a] open_status [of "acc_status a"]
    by (auto simp: op_bind_fst Let_def keeps_deny keeps_after split: sum.splits)
qed

lemma keeps_authenticate: "R db (fst (authenticate env st token active now db))"
  unfolding authenticate_def
  apply (rule keeps_loaded)
  apply (auto simp: op_bind_fst Let_def keeps_refl keeps_revoke keeps_touch load_session_Inr split: option.splits prod.splits)
  done

lemma keeps_mfa_refused:
  assumes "session h db = Some s"
  shows "4 \<le> ss_mfa_attempts s \<Longrightarrow> R db (audit ev out reason ref by_user by_org
      (revoke_session h now ''MFA_LIMIT'' (increment_mfa_failure h db)))"
    "\<not> 4 \<le> ss_mfa_attempts s \<Longrightarrow> R db (audit ev out reason ref by_user by_org
      (increment_mfa_failure h db))"
  using keeps_after(1) [OF keeps_mfa_failure [OF assms, of now]] by (simp_all add: mfa_failure_def)

lemma valid_factor_active: "valid_factor a supplied now \<Longrightarrow> acc_status a = ACTIVE"
  by (simp add: valid_factor_def)

lemma keeps_mfa_accepted:
  assumes "account_by_id u db = Some a" "acc_status a = ACTIVE"
    "roles (acc_id a) (acc_organization_id a) db \<noteq> {}"
  shows "R db (fst (op_bind (op_write (revoke_session h now ''MFA_VERIFIED'')) (\<lambda>_.
      op_bind (create_session_context env st fresh now AUTHENTICATED (Some a) ''password,dev-test-mfa''
        pv) (\<lambda>ctx.
      op_bind (op_write (reset_login_failures (acc_id a) now)) (\<lambda>_.
      op_bind (op_write (audit ev out reason (ref ctx) by_user by_org)) (\<lambda>_. op_return ctx)))) db))"
proof -
  have id: "acc_id a = u" using assms(1) by (auto simp: account_by_id_def dest: find_key_SomeD)
  define db1 where "db1 = revoke_session h now ''MFA_VERIFIED'' db"
  define db2 where "db2 = fst (create_session_context env st fresh now AUTHENTICATED (Some a)
    ''password,dev-test-mfa'' pv db1)"
  have 1: "R db db1" by (simp add: db1_def keeps_revoke)
  have "account_by_id u db1 = Some a" "roles (acc_id a) (acc_organization_id a) db1 \<noteq> {}"
    using assms by (simp_all add: db1_def account_by_id_def roles_def)
  then have 2: "R db1 db2" unfolding db2_def
    using assms(2) by (intro keeps_create keeps_authenticated)
  have "account_by_id u db2 = Some a"
    using assms(1) by (simp add: db2_def db1_def account_by_id_def create_session_context_def Let_def
        op_bind_fst split: sum.splits)
  then have 3: "R db2 (reset_login_failures (acc_id a) now db2)"
    using assms(2) id keeps_reset by blast
  show ?thesis
    using keeps_trans [OF 1 2] keeps_after(1) [OF keeps_trans [OF keeps_trans [OF 1 2] 3]]
    by (simp add: op_bind_fst db1_def db2_def split: sum.splits)
qed

lemma keeps_complete_dev_mfa: "R db (fst (complete_dev_mfa env st token code fresh now db))"
  unfolding complete_dev_mfa_def
proof (rule keeps_loaded, goal_cases)
  case (1 h s)
  then have s: "session h db = Some s" by (auto simp: load_session_Inr)
  note refused = keeps_mfa_refused [OF s]
  note accepted = keeps_mfa_accepted [simplified op_bind_simps]
  show ?case
    by (auto simp: mfa_code_digest_def keeps_refl keeps_revoke refused
        split: option.splits dest: valid_factor_active intro: accepted)
qed

lemma keeps_audit_authorization: "R db (fst (audit_authorization env token p perm allowed reason db))"
  by (simp add: audit_authorization_def keeps_audit)

lemma text_checks_db [simp]:
  "fst (registration_username env v db) = db" "fst (safe_display_name env v db) = db"
  "fst (require_admin p db) = db" "fst (mfa_code_digest env k u c db) = db"
  by (simp_all add: registration_username_def safe_display_name_def require_admin_def
      mfa_code_digest_def Let_def)

lemma keeps_request_registration:
  "R db (fst (request_registration env name display password conf new_id salt now db))"
  by (auto simp: request_registration_def op_bind_fst Let_def account_audit_def keeps_refl
      keeps_after keeps_new_account split: sum.splits option.splits)

lemma keeps_list_accounts: "R db (fst (list_accounts p db))"
  by (auto simp: list_accounts_def op_bind_fst keeps_refl split: sum.splits)

lemma keeps_change_status: "R db (fst (change_status p user_id action now db))"
proof -
  have "R db (fst (transition_account user_id org src to now g db))"
    if "map_of status_actions action = Some (src, to, g)" for org src to g
    using map_of_SomeD [OF that] by (intro keeps_transition) force
  then show ?thesis
    by (auto simp: change_status_def op_bind_fst account_audit_def keeps_refl keeps_after
        split: sum.splits option.splits)
qed

lemma keeps_update_display_name: "R db (fst (update_display_name env p display now db))"
  by (auto simp: update_display_name_def op_bind_fst account_audit_def keeps_refl keeps_after
      keeps_display split: sum.splits option.splits)

lemma keeps_change_password: "R db (fst (change_password env p old new conf salt now db))"
  by (auto simp: change_password_def op_bind_fst account_audit_def Let_def keeps_refl keeps_after
      keeps_password split: sum.splits option.splits)

lemma keeps_renew_mfa_code: "R db (fst (renew_mfa_code env key p user_id drawn now db))"
  by (auto simp: renew_mfa_code_def op_bind_fst account_audit_def Let_def keeps_refl keeps_after
      keeps_mfa_code split: sum.splits option.splits)

lemma keeps_perform: "R db (perform env st key r db)"
  by (cases r) (simp_all add: keeps_new_pre_auth keeps_pending_context keeps_verify_csrf
      keeps_password_login keeps_complete_dev_mfa keeps_authenticate keeps_revoke_current
      keeps_revoke_all keeps_audit_authorization keeps_request_registration keeps_list_accounts
      keeps_change_status keeps_update_display_name keeps_change_password keeps_renew_mfa_code)

lemma keeps_reaches: "reaches env st key db db' \<Longrightarrow> R db db'"
  by (induction rule: reaches.induct) (auto intro: keeps_refl keeps_trans keeps_perform)

end

end
