(* ===== verification/Auth_Evolution.thy ===== *)
theory Auth_Evolution
  imports Auth_Steps
begin

section \<open>How the authentication tables evolve\<close>

text \<open>
  Three interpretations of \<open>auth_discipline\<close>: session rows are only ever added, closed and counted
  up; account rows keep their identity, their versions only grow and two statuses are final; and
  the session table stays well formed.
\<close>

subsection \<open>Sessions\<close>

definition session_core :: "stored_session \<Rightarrow> stored_session" where
  "session_core s = s\<lparr>ss_mfa_attempts := 0, ss_last_seen_at := 0, ss_idle_expires_at := 0,
     ss_revoked_at := None, ss_revoke_reason := None\<rparr>"

definition session_later :: "stored_session \<Rightarrow> stored_session \<Rightarrow> bool" where
  "session_later s s' \<longleftrightarrow>
     session_core s' = session_core s \<and> ss_mfa_attempts s \<le> ss_mfa_attempts s' \<and>
     (ss_revoked_at s \<noteq> None \<longrightarrow>
        ss_revoked_at s' = ss_revoked_at s \<and> ss_revoke_reason s' = ss_revoke_reason s)"

definition session_evolves :: "auth_db \<Rightarrow> auth_db \<Rightarrow> bool" where
  "session_evolves db db' \<longleftrightarrow> table_evolves session_later (db_sessions db) (db_sessions db')"

lemma session_core_eqD:
  assumes "session_core s' = session_core s"
  shows "ss_session_id_hash s' = ss_session_id_hash s" "ss_user_id s' = ss_user_id s"
    "ss_phase s' = ss_phase s" "ss_expires_at s' = ss_expires_at s"
    "ss_credential_version s' = ss_credential_version s"
    "ss_role_assignment_version s' = ss_role_assignment_version s"
    "ss_active_organization_id s' = ss_active_organization_id s"
  using assms by (cases s; cases s'; simp add: session_core_def)+

lemma session_later_refl: "session_later s s"
  by (simp add: session_later_def)

lemma session_later_trans: "session_later r s \<Longrightarrow> session_later s t \<Longrightarrow> session_later r t"
  by (auto simp: session_later_def)

lemma session_evolves_revoke: "session_evolves db (revoke_session h now reason db)"
  by (auto simp: session_evolves_def revoke_session_def session_later_def session_core_def
      intro!: table_evolves_update)

lemma session_evolves_increment: "session_evolves db (increment_mfa_failure h db)"
  by (auto simp: session_evolves_def increment_mfa_failure_def session_later_def session_core_def
      intro!: table_evolves_update)

lemma session_evolves_revoke_user: "session_evolves db (revoke_user_sessions u now reason e db)"
  by (auto simp: session_evolves_def revoke_user_sessions_def session_later_def session_core_def
      intro!: table_evolves_update)

lemma session_evolves_touch: "session_evolves db (touch_session h now t db)"
  by (auto simp: session_evolves_def touch_session_def session_later_def session_core_def
      intro!: table_evolves_update)

lemma session_evolves_create: "session_evolves db (fst (create_session s db))"
  by (simp add: session_evolves_def create_session_def table_evolves_append table_evolves_refl
      session_later_refl)

lemma session_evolves_trans: "session_evolves db db1 \<Longrightarrow> session_evolves db1 db2 \<Longrightarrow> session_evolves db db2"
  unfolding session_evolves_def using table_evolves_trans [of session_later] session_later_trans by blast

lemma session_evolves_same: "db_sessions db' = db_sessions db \<Longrightarrow> session_evolves db db'"
  by (simp add: session_evolves_def table_evolves_refl session_later_refl)

interpretation sess: auth_discipline session_evolves env st for env st
proof (unfold_locales, goal_cases)
  case (2 db db1 db2)
  then show ?case by (rule session_evolves_trans)
next
  case (6 h db s now)
  show ?case
    unfolding mfa_failure_def
    using session_evolves_trans [OF session_evolves_increment session_evolves_revoke]
    by (simp add: session_evolves_increment)
qed (auto simp: session_evolves_revoke session_evolves_revoke_user session_evolves_touch
    session_evolves_create session_evolves_same create_pending_account_def
    transition_account_def repository_update_display_name_def repository_change_password_def
    update_mfa_code_def put_account_def Let_def split: option.splits prod.splits)


lemma session_lookup_evolves:
  assumes "session_evolves db db'" "session h db = Some s"
  shows "\<exists>s'. session h db' = Some s' \<and> session_later s s'"
  using table_evolves_find [of session_later ss_session_id_hash] assms session_core_eqD(1)
  unfolding session_evolves_def session_def session_later_def by blast

subsection \<open>Accounts\<close>

definition account_later :: "account \<Rightarrow> account \<Rightarrow> bool" where
  "account_later a a' \<longleftrightarrow>
     acc_id a' = acc_id a \<and> acc_organization_id a' = acc_organization_id a \<and>
     acc_username_canonical a' = acc_username_canonical a \<and> acc_created_at a' = acc_created_at a \<and>
     acc_credential_version a \<le> acc_credential_version a' \<and>
     acc_role_assignment_version a \<le> acc_role_assignment_version a' \<and>
     (acc_password_hash a' \<noteq> acc_password_hash a \<or> acc_mfa_code_hash a' \<noteq> acc_mfa_code_hash a \<longrightarrow>
        acc_credential_version a < acc_credential_version a') \<and>
     (acc_status a \<in> {TEMP_LOCKED, REJECTED} \<longrightarrow> acc_status a' = acc_status a)"

definition accounts_ok :: "auth_db \<Rightarrow> bool" where
  "accounts_ok db \<longleftrightarrow> distinct (map acc_id (db_accounts db)) \<and>
     distinct (map acc_username_canonical (db_accounts db))"

definition account_evolves :: "auth_db \<Rightarrow> auth_db \<Rightarrow> bool" where
  "account_evolves db db' \<longleftrightarrow>
     (accounts_ok db \<longrightarrow>
        accounts_ok db' \<and> table_evolves account_later (db_accounts db) (db_accounts db'))"

lemma account_later_refl: "account_later a a"
  by (simp add: account_later_def)

lemma account_later_trans: "account_later a b \<Longrightarrow> account_later b c \<Longrightarrow> account_later a c"
  by (auto simp: account_later_def)

lemma account_evolves_same: "db_accounts db' = db_accounts db \<Longrightarrow> account_evolves db db'"
  by (simp add: account_evolves_def accounts_ok_def table_evolves_refl account_later_refl)

lemma account_evolves_update:
  assumes "\<And>r. accounts_ok db \<Longrightarrow> r \<in> set (db_accounts db) \<Longrightarrow> c r \<Longrightarrow> account_later r (f r)"
    "db_accounts db' = update_rows c f (db_accounts db)"
  shows "account_evolves db db'"
proof -
  have "map k (update_rows c f (db_accounts db)) = map k (db_accounts db)"
    if "accounts_ok db" "\<And>r s. account_later r s \<Longrightarrow> k s = k r" for k :: "account \<Rightarrow> string"
    using assms(1) that by (auto simp: update_rows_def)
  note this [of acc_id] this [of acc_username_canonical]
  then show ?thesis
    using assms by (auto simp: account_evolves_def accounts_ok_def account_later_def
        account_later_refl intro!: table_evolves_update)
qed

lemma accounts_ok_unique:
  "accounts_ok db \<Longrightarrow> a \<in> set (db_accounts db) \<Longrightarrow> b \<in> set (db_accounts db) \<Longrightarrow> acc_id a = acc_id b \<Longrightarrow> a = b"
  by (auto simp: accounts_ok_def distinct_map inj_on_def)

lemma account_evolves_put:
  assumes "find (\<lambda>a. acc_id a = u \<and> P a) (db_accounts db) = Some a" "account_later a b"
  shows "account_evolves db (put_account u b db)"
    "account_evolves db ((put_account u b db)\<lparr>db_roles := rows\<rparr>)"
proof -
  have a: "a \<in> set (db_accounts db)" "acc_id a = u"
    using assms(1) by (auto simp: find_Some_iff)
  have "account_later r b" if "accounts_ok db" "r \<in> set (db_accounts db)" "acc_id r = u" for r
    using accounts_ok_unique [OF that(1,2) a(1)] that(3) a(2) assms(2) by simp
  then show "account_evolves db (put_account u b db)"
    "account_evolves db ((put_account u b db)\<lparr>db_roles := rows\<rparr>)"
    by (auto simp: put_account_def intro: account_evolves_update [of db "\<lambda>a. acc_id a = u" "\<lambda>_. b"])
qed

lemma account_by_id_SomeD: "account_by_id u db = Some a \<Longrightarrow> a \<in> set (db_accounts db) \<and> acc_id a = u"
  unfolding account_by_id_def by (rule find_key_SomeD)

lemma account_by_username_SomeD:
  "account_by_username n db = Some a \<Longrightarrow> a \<in> set (db_accounts db) \<and> acc_username_canonical a = n"
  unfolding account_by_username_def by (rule find_key_SomeD)

lemma account_evolves_login_failure:
  assumes "account_by_username n db = Some a" "acc_status a \<in> {ACTIVE, TEMP_LOCKED}"
  shows "account_evolves db (register_login_failure a now lu db)"
proof (rule account_evolves_update)
  fix r assume "accounts_ok db" "r \<in> set (db_accounts db)" "acc_id r = acc_id a"
  then have "r = a" using accounts_ok_unique account_by_username_SomeD [OF assms(1)] by blast
  then show "account_later r (let r = r\<lparr>acc_failed_attempts := acc_failed_attempts a + 1, acc_updated_at := now\<rparr>
     in case lu of None \<Rightarrow> r | Some t \<Rightarrow> r\<lparr>acc_status := TEMP_LOCKED, acc_locked_until := Some t\<rparr>)"
    using assms(2) by (cases lu) (auto simp: account_later_def)
qed (simp add: register_login_failure_def)

lemma account_evolves_reset:
  assumes "account_by_id u db = Some a" "acc_status a = ACTIVE"
  shows "account_evolves db (reset_login_failures u now db)"
proof (rule account_evolves_update)
  fix r assume "accounts_ok db" "r \<in> set (db_accounts db)" "acc_id r = u"
  then have "r = a" using accounts_ok_unique account_by_id_SomeD [OF assms(1)] by blast
  then show "account_later r (r\<lparr>acc_failed_attempts := 0, acc_status := ACTIVE, acc_locked_until := None,
      acc_updated_at := now\<rparr>)"
    using assms(2) by (simp add: account_later_def)
qed (simp add: reset_login_failures_def)

lemma account_evolves_transition:
  assumes "(src, to, g) \<in> snd ` set status_actions"
  shows "account_evolves db (fst (transition_account u org src to now g db))"
proof -
  have "TEMP_LOCKED \<notin> src \<and> REJECTED \<notin> src"
    using assms by (auto simp: status_actions_def)
  then show ?thesis
    by (auto simp: transition_account_def scoped_account_def Let_def account_later_def
        account_evolves_same intro!: account_evolves_put split: option.splits prod.splits)
qed

interpretation acct: auth_discipline account_evolves env st for env st
proof (unfold_locales, goal_cases)
  case (2 db db1 db2)
  then show ?case unfolding account_evolves_def
    using table_evolves_trans [of account_later] account_later_trans by blast
next
  case (13 db i org name display hash now)
  show ?case
    by (auto simp: create_pending_account_def pending_account_def account_evolves_def accounts_ok_def
        Let_def table_evolves_refl table_evolves_append account_later_refl account_by_id_def
        account_by_username_def find_key_None)
next
  case (14 src to g db user_id org now)
  then show ?case by (rule account_evolves_transition)
next
  case (15 db user_id org name now)
  show ?case
    by (auto simp: repository_update_display_name_def scoped_account_def Let_def
        account_later_def account_evolves_same intro!: account_evolves_put split: option.splits)
next
  case (16 db user_id org hash now)
  show ?case
    by (auto simp: repository_change_password_def active_account_def
        account_later_def account_evolves_same intro!: account_evolves_put split: option.splits)
next
  case (17 db user_id org hash issued expires)
  show ?case
    by (auto simp: update_mfa_code_def active_account_def
        account_later_def account_evolves_same intro!: account_evolves_put split: option.splits)
qed (auto simp: mfa_failure_def intro: account_evolves_same account_evolves_login_failure
    account_evolves_reset)

lemma account_lookup_evolves:
  assumes "account_evolves db db'" "accounts_ok db" "account_by_id u db = Some a"
  shows "\<exists>a'. account_by_id u db' = Some a' \<and> account_later a a'"
  using table_evolves_find [of account_later acc_id "db_accounts db"] assms
  unfolding account_evolves_def account_by_id_def account_later_def by blast

subsection \<open>Well-formed sessions\<close>

definition idle_within :: "auth_settings \<Rightarrow> bool" where
  "idle_within st \<longleftrightarrow>
     minutes (set_idle_timeout_minutes st) \<le> hours (set_absolute_timeout_hours st) \<and>
     minutes (set_privileged_idle_timeout_minutes st) \<le> hours (set_absolute_timeout_hours st)"

definition session_shape :: "auth_settings \<Rightarrow> stored_session \<Rightarrow> bool" where
  "session_shape st s \<longleftrightarrow>
     (case ss_phase s of
        PRE_AUTH \<Rightarrow> ss_user_id s = None \<and> ss_auth_methods s = []
      | MFA_PENDING \<Rightarrow> ss_user_id s \<noteq> None \<and> ss_auth_methods s = ''password''
      | AUTHENTICATED \<Rightarrow> ss_user_id s \<noteq> None \<and> ss_auth_methods s = ''password,dev-test-mfa'' \<and>
          ss_authenticated_at s = Some (ss_created_at s)) \<and>
     (ss_active_organization_id s = None \<longleftrightarrow> ss_user_id s = None) \<and>
     ss_expires_at s = ss_created_at s +
       (if ss_phase s = AUTHENTICATED then hours (set_absolute_timeout_hours st)
        else minutes (set_pre_auth_timeout_minutes st))"

definition session_ok :: "auth_settings \<Rightarrow> stored_session \<Rightarrow> bool" where
  "session_ok st s \<longleftrightarrow>
     session_shape st s \<and>
     0 \<le> ss_mfa_attempts s \<and> (ss_revoked_at s = None \<longrightarrow> ss_mfa_attempts s < 5) \<and>
     (idle_within st \<longrightarrow> ss_idle_expires_at s \<le> ss_expires_at s)"

definition sessions_ok :: "auth_settings \<Rightarrow> auth_db \<Rightarrow> bool" where
  "sessions_ok st db \<longleftrightarrow> distinct (map ss_session_id_hash (db_sessions db)) \<and>
     (\<forall>s\<in>set (db_sessions db). session_ok st s)"

lemma session_shape_updates [simp]:
  "session_shape st (s\<lparr>ss_mfa_attempts := n\<rparr>) = session_shape st s"
  "session_shape st (s\<lparr>ss_last_seen_at := t, ss_idle_expires_at := t'\<rparr>) = session_shape st s"
  "session_shape st (s\<lparr>ss_revoked_at := r, ss_revoke_reason := e\<rparr>) = session_shape st s"
  by (simp_all add: session_shape_def cong: session_phase.case_cong)


lemma session_ok_new:
  "session_ok st (new_session env st t now PRE_AUTH None [] False)"
  "session_ok st (new_session env st t now MFA_PENDING (Some a) ''password'' False)"
  "session_ok st (new_session env st t now AUTHENTICATED (Some a) ''password,dev-test-mfa'' pv)"
  by (auto simp: session_ok_def session_shape_def new_session_def Let_def idle_within_def)

lemma session_SomeD: "session h db = Some s \<Longrightarrow> s \<in> set (db_sessions db) \<and> ss_session_id_hash s = h"
  unfolding session_def by (rule find_key_SomeD)

lemma sessions_ok_unique:
  "sessions_ok st db \<Longrightarrow> session h db = Some s \<Longrightarrow> r \<in> set (db_sessions db) \<Longrightarrow>
   ss_session_id_hash r = h \<Longrightarrow> r = s"
  by (auto simp: sessions_ok_def distinct_map inj_on_def dest!: session_SomeD)

lemma sessions_ok_update:
  assumes "sessions_ok st db" "db_sessions db' = update_rows c f (db_sessions db)"
    "\<And>r. r \<in> set (db_sessions db) \<Longrightarrow> c r \<Longrightarrow>
       session_ok st (f r) \<and> ss_session_id_hash (f r) = ss_session_id_hash r"
  shows "sessions_ok st db'"
proof -
  have "map ss_session_id_hash (db_sessions db') = map ss_session_id_hash (db_sessions db)"
    using assms(3) by (auto simp: assms(2) update_rows_def)
  then show ?thesis
    using assms by (auto simp: sessions_ok_def set_update_rows)
qed

lemma sessions_ok_create:
  assumes "session_ok st s" "sessions_ok st db"
  shows "sessions_ok st (fst (create_session s db))"
  using assms by (auto simp: sessions_ok_def create_session_def session_def find_key_None)

lemma sessions_ok_revoke_rows:
  assumes "sessions_ok st db" "db_sessions db' = update_rows c
      (\<lambda>s. s\<lparr>ss_revoked_at := Some now, ss_revoke_reason := Some reason\<rparr>) (db_sessions db)"
  shows "sessions_ok st db'"
proof (rule sessions_ok_update [OF assms])
  fix r assume "r \<in> set (db_sessions db)"
  with assms(1) have "session_ok st r" by (simp add: sessions_ok_def)
  then show "session_ok st (r\<lparr>ss_revoked_at := Some now, ss_revoke_reason := Some reason\<rparr>) \<and>
      ss_session_id_hash (r\<lparr>ss_revoked_at := Some now, ss_revoke_reason := Some reason\<rparr>) =
      ss_session_id_hash r"
    by (simp add: session_ok_def)
qed

lemma sessions_ok_revoke:
  "sessions_ok st db \<Longrightarrow> sessions_ok st (revoke_session h now reason db)"
  "sessions_ok st db \<Longrightarrow> sessions_ok st (revoke_user_sessions u now reason e db)"
  by (rule sessions_ok_revoke_rows, assumption, simp add: revoke_session_def revoke_user_sessions_def)+

lemma sessions_ok_mfa_failure:
  assumes "sessions_ok st db" "session h db = Some s"
  shows "sessions_ok st (mfa_failure h s now db)"
proof -
  define g where "g r = (let r = r\<lparr>ss_mfa_attempts := ss_mfa_attempts r + 1\<rparr>
    in if ss_mfa_attempts s + 1 \<ge> 5 \<and> ss_revoked_at r = None
       then r\<lparr>ss_revoked_at := Some now, ss_revoke_reason := Some ''MFA_LIMIT''\<rparr> else r)"
    for r :: stored_session
  have "db_sessions (mfa_failure h s now db) =
      update_rows (\<lambda>r. ss_session_id_hash r = h) g (db_sessions db)"
    by (auto simp: mfa_failure_def increment_mfa_failure_def revoke_session_def update_rows_def g_def Let_def)
  then show ?thesis
  proof (rule sessions_ok_update [OF assms(1)])
    fix r assume r: "r \<in> set (db_sessions db)" "ss_session_id_hash r = h"
    then have "r = s" using sessions_ok_unique assms by blast
    moreover have "session_ok st s" using assms session_SomeD by (auto simp: sessions_ok_def)
    ultimately show "session_ok st (g r) \<and> ss_session_id_hash (g r) = ss_session_id_hash r"
      by (auto simp: session_ok_def g_def Let_def)
  qed
qed

lemma sessions_ok_touch:
  assumes "sessions_ok st db" "session h db = Some s"
  shows "sessions_ok st (touch_session h now (min (ss_expires_at s) limit) db)"
proof (rule sessions_ok_update [OF assms(1)])
  fix r assume r: "r \<in> set (db_sessions db)" "ss_session_id_hash r = h \<and> ss_revoked_at r = None"
  then have "r = s" using sessions_ok_unique assms by blast
  moreover have "session_ok st s" using assms session_SomeD by (auto simp: sessions_ok_def)
  ultimately show "session_ok st (r\<lparr>ss_last_seen_at := now, ss_idle_expires_at := min (ss_expires_at s) limit\<rparr>) \<and>
      ss_session_id_hash (r\<lparr>ss_last_seen_at := now, ss_idle_expires_at := min (ss_expires_at s) limit\<rparr>) =
      ss_session_id_hash r"
    by (auto simp: session_ok_def)
qed (simp add: touch_session_def)

lemma account_operations_sessions [simp]:
  "db_sessions (fst (create_pending_account i org name display hash now db)) = db_sessions db"
  "db_sessions (fst (transition_account u org src to now g db)) = db_sessions db"
  "db_sessions (fst (repository_update_display_name u org display now db)) = db_sessions db"
  "db_sessions (fst (repository_change_password u org hash now db)) = db_sessions db"
  "db_sessions (fst (update_mfa_code u org hash issued expires db)) = db_sessions db"
  by (auto simp: create_pending_account_def transition_account_def repository_update_display_name_def
      repository_change_password_def update_mfa_code_def put_account_def Let_def
      split: option.splits prod.splits)

lemma sessions_ok_others [simp]:
  "sessions_ok st (audit ev out reason ref by_user by_org db) = sessions_ok st db"
  "sessions_ok st (register_login_failure a now lock_until db) = sessions_ok st db"
  "sessions_ok st (reset_login_failures u now db) = sessions_ok st db"
  "sessions_ok st (fst (create_pending_account i org name display hash now db)) = sessions_ok st db"
  "sessions_ok st (fst (transition_account u org src to now g db)) = sessions_ok st db"
  "sessions_ok st (fst (repository_update_display_name u org display now db)) = sessions_ok st db"
  "sessions_ok st (fst (repository_change_password u org hash now db)) = sessions_ok st db"
  "sessions_ok st (fst (update_mfa_code u org hash issued expires db)) = sessions_ok st db"
  by (simp_all add: sessions_ok_def)

interpretation swf: auth_discipline "\<lambda>db db'. sessions_ok st db \<longrightarrow> sessions_ok st db'" env st for env st
  by unfold_locales (simp_all add: sessions_ok_revoke sessions_ok_mfa_failure sessions_ok_touch
      sessions_ok_create session_ok_new)

end
