(* ===== verification/Auth_Properties.thy ===== *)
theory Auth_Properties
  imports Auth_Evolution
begin

section \<open>Properties of authentication\<close>

text \<open>
  What the two services guarantee in every database their requests can reach.  The proofs rest on
  the three interpretations of \<open>auth_discipline\<close>.
\<close>

subsection \<open>An example installation\<close>

text \<open>
  A database with one administrator, one user and one open login of each, and an environment whose
  digests are readable: the witnesses below apply the properties to it.
\<close>

definition ex_env :: auth_env where
  "ex_env = \<lparr>env_key = ''k'', env_session_hash = (\<lambda>k t. k @ t), env_csrf_token = (\<lambda>k t. t @ k),
     env_csrf_hash = id, env_mfa_hmac = (\<lambda>k m. k @ m),
     env_unicode = \<lparr>uc_nfc = id, uc_casefold = id, uc_category_c = (\<lambda>_. False), uc_is_alpha = (\<lambda>_. True)\<rparr>,
     env_hasher = \<lparr>ph_hash = (\<lambda>salt p. salt @ p), ph_verify = (\<lambda>h p. Some (h = p))\<rparr>\<rparr>"

definition ex_settings :: auth_settings where
  "ex_settings = \<lparr>set_profile = ''DEV-LOCAL'', set_canonical_origin = ''http://localhost:18480'',
     set_idle_timeout_minutes = 30, set_privileged_idle_timeout_minutes = 15,
     set_absolute_timeout_hours = 8, set_pre_auth_timeout_minutes = 5\<rparr>"

definition ex_account :: "uuid \<Rightarrow> account_status \<Rightarrow> int \<Rightarrow> account" where
  "ex_account i status failures =
     \<lparr>acc_id = i, acc_organization_id = ''org'', acc_username_canonical = ''name-'' @ i,
      acc_display_name = i, acc_status = status, acc_password_hash = ''pw-'' @ i,
      acc_credential_version = 1, acc_role_assignment_version = 1, acc_password_changed_at = 0,
      acc_failed_attempts = failures, acc_locked_until = None,
      acc_mfa_code_hash = Some (''ksecai-mfa:'' @ i @ '':123456''), acc_mfa_issued_at = Some 0,
      acc_mfa_expires_at = Some (days 30), acc_created_at = 0, acc_updated_at = 0\<rparr>"

definition ex_role :: "uuid \<Rightarrow> human_role \<Rightarrow> role_assignment" where
  "ex_role i r = \<lparr>ra_user_id = i, ra_organization_id = ''org'', ra_role_name = r, ra_granted_at = 0,
     ra_revoked_at = None\<rparr>"

definition ex_session :: "string \<Rightarrow> uuid \<Rightarrow> stored_session" where
  "ex_session t i = new_session ex_env ex_settings t 0 AUTHENTICATED (Some (ex_account i ACTIVE 0))
     ''password,dev-test-mfa'' False"

definition ex_db :: auth_db where
  "ex_db = \<lparr>db_organizations = [\<lparr>org_id = ''org'', org_created_at = 0\<rparr>],
     db_accounts = [ex_account ''a'' ACTIVE 0, ex_account ''u'' ACTIVE 9, ex_account ''l'' TEMP_LOCKED 10,
       (ex_account ''x'' ACTIVE 0)\<lparr>acc_organization_id := ''other''\<rparr>],
     db_sessions = [ex_session ''ta'' ''a'', ex_session ''tu'' ''u'',
       new_session ex_env ex_settings ''t0'' 0 PRE_AUTH None [] False],
     db_roles = [ex_role ''a'' ADMIN, ex_role ''u'' USER], db_assets = [], db_audit = []\<rparr>"

definition ex_admin :: principal where
  "ex_admin = \<lparr>pr_user_id = ''a'', pr_username = ''name-a'', pr_display_name = ''a'',
     pr_organization_id = ''org'', pr_roles = {ADMIN}, pr_asset_ids = {},
     pr_auth_methods = {''password'', ''dev-test-mfa''}, pr_session_created_at = 0,
     pr_reauthenticated_at = 0\<rparr>"

definition ex_user :: principal where
  "ex_user = the_principal (ex_account ''u'' ACTIVE 9) (ex_session ''tu'' ''u'') {USER} {}"

definition ex_context :: session_context where
  "ex_context = \<lparr>sc_token = ''tu'', sc_csrf_token = ''tuk'', sc_phase = AUTHENTICATED,
     sc_expires_at = hours 8, sc_principal = Some ex_user\<rparr>"

definition ex_revoked :: auth_db where
  "ex_revoked = perform ex_env ex_settings None (Revoke_current ''tu'' ''LOGOUT'' 1) ex_db"

lemma ex_db_ok: "accounts_ok ex_db \<and> sessions_ok ex_settings ex_db"
  by code_simp


lemma ex_authenticated: "snd (authenticate ex_env ex_settings (Some ''tu'') True 2 ex_db) = Inr ex_context"
  "sc_principal ex_context = Some ex_user" "pr_user_id ex_user = ''u''"
  by code_simp+

lemma reaches_one: "reaches env st key db (perform env st key r db)"
  by (rule reaches.request [OF reaches.start])

subsection \<open>A revoked session\<close>

definition token_refused :: "auth_env \<Rightarrow> auth_settings \<Rightarrow> string \<Rightarrow> auth_db \<Rightarrow> bool" where
  "token_refused env st t db \<longleftrightarrow>
     (\<forall>active now. \<exists>e. snd (authenticate env st (Some t) active now db) = Inl e) \<and>
     (\<forall>code fresh now. \<exists>e. snd (complete_dev_mfa env st (Some t) code fresh now db) = Inl e) \<and>
     (\<forall>name password fresh now. \<exists>e. snd (password_login env st (Some t) name password fresh now db) = Inl e)"

lemma load_refused:
  assumes "session (session_hash env t) db = Some s" "ss_revoked_at s \<noteq> None"
  shows "\<exists>e. snd (load_session env (Some t) phase now db) = Inl e"
  using assms by (auto simp: load_session_def)

lemma bind_refused: "\<exists>e. snd (m db) = Inl e \<Longrightarrow> \<exists>e. snd (op_bind m f db) = Inl e"
  by (auto simp: op_bind_snd)

lemma revoked_refused:
  assumes "session (session_hash env t) db = Some s" "ss_revoked_at s \<noteq> None"
  shows "token_refused env st t db"
  unfolding token_refused_def authenticate_def complete_dev_mfa_def password_login_def
  by (intro conjI allI bind_refused load_refused [OF assms])

lemma revoked_later:
  assumes "session h db = Some s" "ss_revoked_at s \<noteq> None" "reaches env st key db db'"
  shows "\<exists>s'. session h db' = Some s' \<and> ss_revoked_at s' \<noteq> None"
  using session_lookup_evolves [OF sess.keeps_reaches [OF assms(3)] assms(1)] assms(2)
  by (auto simp: session_later_def)

lemma revoked_refused_later:
  assumes "session (session_hash env t) db = Some s" "ss_revoked_at s \<noteq> None"
    "reaches env st key db db'"
  shows "token_refused env st t db'"
  using revoked_later [OF assms] revoked_refused by blast

lemma session_revoke_user:
  assumes "session h db = Some s" "ss_user_id s = Some u"
  shows "\<exists>s'. session h (revoke_user_sessions u now reason None db) = Some s' \<and> ss_revoked_at s' \<noteq> None"
  using assms by (simp add: session_def revoke_user_sessions_def find_update_rows)

lemma session_others [simp]:
  "session h (audit ev out reason ref by_user by_org db) = session h db"
  "session h (fst (transition_account u org src to now g db)) = session h db"
  "session h (fst (repository_change_password u org hash now db)) = session h db"
  "session h (fst (update_mfa_code u org hash issued expires db)) = session h db"
  by (simp_all add: session_def)

lemma change_status_revokes:
  assumes "snd (change_status p u action now db) = Inr x" "action \<in> {''reject'', ''disable''}"
    "session h db = Some s" "ss_user_id s = Some u"
  shows "\<exists>s'. session h (fst (change_status p u action now db)) = Some s' \<and> ss_revoked_at s' \<noteq> None"
  using assms session_revoke_user [of h _ s u]
  by (auto simp: change_status_def op_bind_snd op_bind_fst account_audit_def
      split: sum.splits option.splits if_splits)

lemma change_password_revokes:
  assumes "snd (change_password env p old new conf salt now db) = Inr x"
    "session h db = Some s" "ss_user_id s = Some (pr_user_id p)"
  shows "\<exists>s'. session h (fst (change_password env p old new conf salt now db)) = Some s' \<and>
           ss_revoked_at s' \<noteq> None"
  using assms session_revoke_user [of h _ s "pr_user_id p"]
  by (auto simp: change_password_def op_bind_snd op_bind_fst account_audit_def Let_def
      split: sum.splits option.splits if_splits)

lemma renew_mfa_code_revokes:
  assumes "snd (renew_mfa_code env key p u drawn now db) = Inr x"
    "session h db = Some s" "ss_user_id s = Some u"
  shows "\<exists>s'. session h (fst (renew_mfa_code env key p u drawn now db)) = Some s' \<and>
           ss_revoked_at s' \<noteq> None"
  using assms session_revoke_user [of h _ s u]
  by (auto simp: renew_mfa_code_def op_bind_snd op_bind_fst account_audit_def Let_def
      split: sum.splits option.splits if_splits)

lemma revoke_all_revokes:
  assumes "snd (revoke_all env (Some t) now db) = Inr x" "session (session_hash env t) db = Some c"
    "session h db = Some s" "ss_user_id s = ss_user_id c"
  shows "\<exists>s'. session h (fst (revoke_all env (Some t) now db)) = Some s' \<and> ss_revoked_at s' \<noteq> None"
proof -
  obtain k r where l: "snd (load_session env (Some t) AUTHENTICATED now db) = Inr (k, r)"
    using assms(1) by (cases "snd (load_session env (Some t) AUTHENTICATED now db)")
      (auto simp: revoke_all_def op_bind_snd)
  then have "r = c" using assms(2) by (auto simp: load_session_Inr)
  with l assms show ?thesis
    using session_revoke_user [of h db s] load_session_fst [OF l]
    by (cases "ss_user_id c") (auto simp: revoke_all_def op_bind_snd op_bind_fst)
qed


subsection \<open>The properties\<close>

text \<open>
  C3: A session that is revoked once never works again: whatever requests follow, its token is
  refused by \<open>authenticate\<close>, by the second factor and by the password step, at every instant.
\<close>

theorem revoked_token_stays_refused:
  assumes "session (session_hash env t) db = Some s" "ss_revoked_at s \<noteq> None"
    and "reaches env st key db db'"
  shows "(\<exists>e. snd (authenticate env st (Some t) active now db') = Inl e) \<and>
         (\<exists>e. snd (complete_dev_mfa env st (Some t) code fresh now db') = Inl e) \<and>
         (\<exists>e. snd (password_login env st (Some t) name password fresh now db') = Inl e)"
  using revoked_refused_later [OF assms] unfolding token_refused_def by blast

theorem revoked_token_stays_refused_witness:
  "(\<exists>e. snd (authenticate ex_env ex_settings (Some ''tu'') True 3
      (perform ex_env ex_settings None (Authenticate (Some ''tu'') True 2) ex_revoked)) = Inl e)"
proof -
  have "session (session_hash ex_env ''tu'') ex_revoked =
      Some ((ex_session ''tu'' ''u'')\<lparr>ss_revoked_at := Some 1, ss_revoke_reason := Some ''LOGOUT''\<rparr>)"
    by code_simp
  then show ?thesis
    by (rule revoked_token_stays_refused [OF _ _ reaches_one, THEN conjunct1]) simp
qed

text \<open>
  C4: Stopping an account, changing its password, reissuing its code and logging out everywhere end
  every login of that user for good: once one of them has returned, no token of a session the user
  had is accepted in any later database.
\<close>

theorem account_stop_ends_sessions:
  assumes "session (session_hash env t) db = Some s" "ss_user_id s = Some u"
    and "(\<exists>p action now x. snd (change_status p u action now db) = Inr x \<and> action \<in> {''reject'', ''disable''} \<and>
            db1 = fst (change_status p u action now db)) \<or>
         (\<exists>p old new conf salt now. snd (change_password env p old new conf salt now db) = Inr () \<and>
            pr_user_id p = u \<and> db1 = fst (change_password env p old new conf salt now db)) \<or>
         (\<exists>p drawn now x. snd (renew_mfa_code env key p u drawn now db) = Inr x \<and>
            db1 = fst (renew_mfa_code env key p u drawn now db)) \<or>
         (\<exists>t' c now. snd (revoke_all env (Some t') now db) = Inr () \<and>
            session (session_hash env t') db = Some c \<and> ss_user_id c = Some u \<and>
            db1 = fst (revoke_all env (Some t') now db))"
    and "reaches env st key db1 db2"
  shows "(\<exists>e. snd (authenticate env st (Some t) active now db2) = Inl e) \<and>
         (\<exists>e. snd (complete_dev_mfa env st (Some t) code fresh now db2) = Inl e)"
proof -
  have "\<exists>s'. session (session_hash env t) db1 = Some s' \<and> ss_revoked_at s' \<noteq> None"
    using assms(3) change_status_revokes [OF _ _ assms(1,2)] change_password_revokes [OF _ assms(1)]
      renew_mfa_code_revokes [OF _ assms(1,2)] revoke_all_revokes [OF _ _ assms(1)] assms(2)
    by (elim disjE exE conjE) simp_all
  then show ?thesis
    using revoked_refused_later [OF _ _ assms(4)] unfolding token_refused_def by blast
qed

theorem account_stop_ends_sessions_witness:
  "(\<exists>e. snd (authenticate ex_env ex_settings (Some ''tu'') True 3
      (fst (change_status ex_admin ''u'' ''disable'' 1 ex_db))) = Inl e)"
proof -
  have s: "session (session_hash ex_env ''tu'') ex_db = Some (ex_session ''tu'' ''u'')"
    "ss_user_id (ex_session ''tu'' ''u'') = Some ''u''" by code_simp+
  have "is_ok (snd (change_status ex_admin ''u'' ''disable'' 1 ex_db))" by code_simp
  then have "\<exists>x. snd (change_status ex_admin ''u'' ''disable'' 1 ex_db) = Inr x"
    by (simp add: is_ok_iff)
  then have "\<exists>p action now x. snd (change_status p ''u'' action now ex_db) = Inr x \<and>
      action \<in> {''reject'', ''disable''} \<and>
      fst (change_status ex_admin ''u'' ''disable'' 1 ex_db) = fst (change_status p ''u'' action now ex_db)"
    by blast
  from account_stop_ends_sessions [OF s disjI1 [OF this] reaches.start] show ?thesis by simp
qed

lemma authenticate_Inr:
  "snd (authenticate env st token active now db) = Inr ctx \<longleftrightarrow>
     (\<exists>t s u a. token = Some t \<and> t \<noteq> [] \<and> session (session_hash env t) db = Some s \<and>
        ss_phase s = AUTHENTICATED \<and> ss_revoked_at s = None \<and>
        now < ss_expires_at s \<and> now < ss_idle_expires_at s \<and>
        ss_user_id s = Some u \<and> account_by_id u db = Some a \<and> acc_status a = ACTIVE \<and>
        acc_credential_version a = ss_credential_version s \<and>
        acc_role_assignment_version a = ss_role_assignment_version s \<and>
        ss_active_organization_id s = Some (acc_organization_id a) \<and>
        roles (acc_id a) (acc_organization_id a) db \<noteq> {} \<and>
        ctx = \<lparr>sc_token = t, sc_csrf_token = csrf_token env t, sc_phase = AUTHENTICATED,
          sc_expires_at = ss_expires_at s,
          sc_principal = Some (the_principal a s (roles (acc_id a) (acc_organization_id a) db)
            (asset_ids (acc_id a) (acc_organization_id a) db))\<rparr>)" (is "?L \<longleftrightarrow> ?R")
proof
  assume ?L
  then obtain h s where l: "snd (load_session env token AUTHENTICATED now db) = Inr (h, s)"
    by (cases "snd (load_session env token AUTHENTICATED now db)") (auto simp: authenticate_def op_bind_snd)
  with \<open>?L\<close> load_session_fst [OF l] show ?R
    by (auto simp: authenticate_def op_bind_snd [of "load_session _ _ _ _"] load_session_Inr
        identity_current_def token_text_def Let_def op_bind_snd split: option.splits if_splits)
next
  assume ?R
  then show ?L
    by (elim exE conjE) (simp add: authenticate_def load_session_def op_bind_snd op_bind_fst
        identity_current_def token_text_def Let_def)
qed

lemma authenticate_uses:
  assumes "snd (authenticate env st (Some t) active now db) = Inr ctx"
  obtains s u a where "session (session_hash env t) db = Some s" "ss_user_id s = Some u"
    "account_by_id u db = Some a" "acc_status a = ACTIVE"
    "acc_credential_version a = ss_credential_version s" "ss_phase s = AUTHENTICATED"
    "ss_revoked_at s = None" "now < ss_expires_at s" "now < ss_idle_expires_at s"
    "sc_principal ctx = Some (the_principal a s (roles (acc_id a) (acc_organization_id a) db)
            (asset_ids (acc_id a) (acc_organization_id a) db))"
  using assms unfolding authenticate_Inr by (elim exE conjE) (rule that, simp_all)

text \<open>
  \<open>authenticate\<close> accepts a token exactly when its session is authenticated, not revoked and
  neither absolutely nor idly expired, belongs to an active account of the session's organization
  with the credential and role versions of the login, and that account holds a role; the context
  it returns carries the roles and assets of this moment.
\<close>

theorem authenticate_accepts:
  "snd (authenticate env st token active now db) = Inr ctx \<longleftrightarrow>
     (\<exists>t s u a. token = Some t \<and> t \<noteq> [] \<and> session (session_hash env t) db = Some s \<and>
        ss_phase s = AUTHENTICATED \<and> ss_revoked_at s = None \<and>
        now < ss_expires_at s \<and> now < ss_idle_expires_at s \<and>
        ss_user_id s = Some u \<and> account_by_id u db = Some a \<and> acc_status a = ACTIVE \<and>
        acc_credential_version a = ss_credential_version s \<and>
        acc_role_assignment_version a = ss_role_assignment_version s \<and>
        ss_active_organization_id s = Some (acc_organization_id a) \<and>
        roles (acc_id a) (acc_organization_id a) db \<noteq> {} \<and>
        ctx = \<lparr>sc_token = t, sc_csrf_token = csrf_token env t, sc_phase = AUTHENTICATED,
          sc_expires_at = ss_expires_at s,
          sc_principal = Some (the_principal a s (roles (acc_id a) (acc_organization_id a) db)
            (asset_ids (acc_id a) (acc_organization_id a) db))\<rparr>)"
  by (rule authenticate_Inr)

text \<open>
  A login ends with the credentials it was made with: when a token authenticates now and the
  account later has another password hash or another code, or is no longer active, the token is
  refused then.
\<close>

theorem credential_change_ends_login:
  assumes "snd (authenticate env st (Some t) active now db) = Inr ctx" "accounts_ok db"
    and "sc_principal ctx = Some p" "account_by_id (pr_user_id p) db = Some a"
    and "reaches env st key db db'" "account_by_id (pr_user_id p) db' = Some a'"
    and "acc_password_hash a' \<noteq> acc_password_hash a \<or> acc_mfa_code_hash a' \<noteq> acc_mfa_code_hash a \<or>
         acc_status a' \<noteq> ACTIVE"
  shows "\<exists>e. snd (authenticate env st (Some t) active' now' db') = Inl e"
proof (rule ccontr)
  assume "\<not> ?thesis"
  then obtain ctx' where ctx': "snd (authenticate env st (Some t) active' now' db') = Inr ctx'"
    by (metis old.sum.exhaust)
  from assms(1) obtain s u b where s: "session (session_hash env t) db = Some s" "ss_user_id s = Some u"
    "account_by_id u db = Some b" "acc_credential_version b = ss_credential_version s"
    "sc_principal ctx = Some (the_principal b s (roles (acc_id b) (acc_organization_id b) db)
            (asset_ids (acc_id b) (acc_organization_id b) db))"
    by (rule authenticate_uses)
  have u: "pr_user_id p = u" "a = b"
    using s(3,5) assms(3,4) account_by_id_SomeD [OF s(3)] by (auto simp: the_principal_def Let_def)
  from ctx' obtain s' u' b' where s': "session (session_hash env t) db' = Some s'" "ss_user_id s' = Some u'"
    "account_by_id u' db' = Some b'" "acc_status b' = ACTIVE"
    "acc_credential_version b' = ss_credential_version s'"
    by (rule authenticate_uses)
  have "session_later s s'"
    using session_lookup_evolves [OF sess.keeps_reaches [OF assms(5)] s(1)] s'(1) by auto
  then have "u' = u" "ss_credential_version s' = ss_credential_version s"
    using s(2) s'(2) session_core_eqD(2,5) [of s' s] by (auto simp: session_later_def)
  moreover from this have "b' = a'" using s'(3) assms(6) u by simp
  moreover have "account_later a a'"
    using account_lookup_evolves [OF acct.keeps_reaches [OF assms(5)] assms(2,4)] assms(6) by auto
  ultimately show False
    using assms(7) s(4) s'(4,5) u by (auto simp: account_later_def)
qed



lemma split_methods: "set (filter (\<lambda>x. x \<noteq> []) (split_char (CHR '','') ''password,dev-test-mfa'')) =
   {''password'', ''dev-test-mfa''}"
  by code_simp



text \<open>
  \<open>verify_csrf\<close> lets a request pass exactly when its session is open in the expected phase, the
  browser does not call the request cross-site, the source is the canonical origin (or, in the
  development profile, the browser calls it same-origin), and the supplied token has the digest
  stored with the session.
\<close>

theorem verify_csrf_accepts:
  "snd (verify_csrf env st token supplied origin referer site phase now db) = Inr () \<longleftrightarrow>
     (\<exists>t s x. token = Some t \<and> t \<noteq> [] \<and> session (session_hash env t) db = Some s \<and>
        ss_phase s = phase \<and> ss_revoked_at s = None \<and> now < ss_expires_at s \<and>
        now < ss_idle_expires_at s \<and>
        site \<noteq> Some ''cross-site'' \<and>
        (canonical_source st origin referer \<or>
         set_profile st = ''DEV-LOCAL'' \<and> site = Some ''same-origin'') \<and>
        supplied = Some x \<and> env_csrf_hash env x = ss_csrf_token_hash s)" (is "?L \<longleftrightarrow> ?R")
proof
  assume ?L
  then obtain h s where l: "snd (load_session env token phase now db) = Inr (h, s)"
    by (cases "snd (load_session env token phase now db)") (auto simp: verify_csrf_def op_bind_snd)
  have "snd (load_session env token phase now db) = Inr (h, s) \<Longrightarrow> ?L \<Longrightarrow>
     site \<noteq> Some ''cross-site'' \<and> (canonical_source st origin referer \<or>
         set_profile st = ''DEV-LOCAL'' \<and> site = Some ''same-origin'') \<and>
     (\<exists>x. supplied = Some x \<and> env_csrf_hash env x = ss_csrf_token_hash s)"
    by (simp add: verify_csrf_def op_bind_snd reject_csrf_def split: if_splits option.splits)
  then show ?R using \<open>?L\<close> l by (fastforce simp: load_session_Inr)
next
  assume ?R
  then show ?L
    by (elim exE conjE disjE)
      (simp_all add: verify_csrf_def load_session_def op_bind_snd op_bind_fst reject_csrf_def)
qed

subsection \<open>Lockout\<close>

lemma load_session_hashes:
  "map ss_session_id_hash (db_sessions (fst (load_session env token phase now db))) =
   map ss_session_id_hash (db_sessions db)"
  using load_session_db [of env token phase now db]
  by (auto simp: revoke_session_def update_rows_def)

lemma load_session_accounts: "db_accounts (fst (load_session env token phase now db)) = db_accounts db"
  using load_session_db [of env token phase now db] by auto

lemma locked_login_refused:
  assumes "account_by_username (canonical_username env name) db = Some a"
    "acc_status a = TEMP_LOCKED" "acc_locked_until a = Some u" "now < u"
  shows "\<exists>e. snd (password_login env st token name password fresh now db) = Inl e"
    "map ss_session_id_hash (db_sessions (fst (password_login env st token name password fresh now db))) =
     map ss_session_id_hash (db_sessions db)"
proof -
  have "account_by_username (canonical_username env name) (fst (load_session env token PRE_AUTH now db)) = Some a"
    using assms(1) by (simp add: account_by_username_def load_session_accounts)
  then show "\<exists>e. snd (password_login env st token name password fresh now db) = Inl e"
    "map ss_session_id_hash (db_sessions (fst (password_login env st token name password fresh now db))) =
     map ss_session_id_hash (db_sessions db)"
    using assms by (auto simp: password_login_def op_bind_snd op_bind_fst login_deny_def
        load_session_hashes split: sum.splits prod.splits)
qed

text \<open>
  The tenth wrong password in a row locks the account for 15 minutes, and while the lock lasts
  the password step refuses every password and opens no session.
\<close>

theorem tenth_failure_locks:
  assumes "snd (load_session env (Some t) PRE_AUTH now db) = Inr hs"
    and "account_by_username (canonical_username env name) db = Some a" "acc_status a = ACTIVE"
    and "acc_failed_attempts a = 9" "\<not> password_matches env (acc_password_hash a) password"
    and "db1 = fst (password_login env st (Some t) name password fresh now db)"
    and "now' < now + minutes 15"
  shows "\<exists>a'. account_by_username (canonical_username env name) db1 = Some a' \<and>
            acc_status a' = TEMP_LOCKED \<and> acc_locked_until a' = Some (now + minutes 15) \<and>
            (\<exists>e. snd (password_login env st token' name password' fresh' now' db1) = Inl e) \<and>
            map ss_session_id_hash (db_sessions (fst (password_login env st token' name password' fresh' now' db1))) =
            map ss_session_id_hash (db_sessions db1)"
proof -
  obtain h s where hs: "hs = (h, s)" by fastforce
  note l = assms(1) [unfolded hs]
  have "account_by_username (canonical_username env name) (register_login_failure a now (Some u) db) =
      Some (a\<lparr>acc_failed_attempts := 10, acc_updated_at := now, acc_status := TEMP_LOCKED,
        acc_locked_until := Some u\<rparr>)" for u
    using assms(2,4) by (simp add: account_by_username_def register_login_failure_def find_update_rows)
  moreover have "db1 = audit ''LOGIN_PASSWORD'' ''DENY'' ''BAD_PASSWORD'' (Some (reference h))
      (Some (acc_id a)) (Some (acc_organization_id a))
      (register_login_failure a now (Some (now + minutes 15)) db)"
    using assms(2-5) load_session_fst [OF l] l
    by (simp add: assms(6) password_login_def op_bind_fst login_deny_def)
  ultimately have a': "account_by_username (canonical_username env name) db1 =
      Some (a\<lparr>acc_failed_attempts := 10, acc_updated_at := now, acc_status := TEMP_LOCKED,
        acc_locked_until := Some (now + minutes 15)\<rparr>)"
    by (simp add: account_by_username_def)
  then show ?thesis
    using locked_login_refused [OF a'] assms(7) by simp
qed



subsection \<open>A login that succeeds\<close>

lemma session_create:
  "session (ss_session_id_hash s) db = None \<Longrightarrow>
   session h (fst (create_session s db)) = (if h = ss_session_id_hash s then Some s else session h db)"
  "session (ss_session_id_hash s) db = None \<Longrightarrow> snd (create_session s db) = Inr ()"
  by (auto simp: create_session_def session_def find_key_append split: option.splits)

lemma new_session_simps [simp]:
  "ss_session_id_hash (new_session env st t now phase user methods pv) = session_hash env t"
  "ss_phase (new_session env st t now phase user methods pv) = phase"
  "ss_revoked_at (new_session env st t now phase user methods pv) = None"
  "ss_user_id (new_session env st t now phase user methods pv) = map_option acc_id user"
  "ss_mfa_attempts (new_session env st t now phase user methods pv) = 0"
  by (simp_all add: new_session_def Let_def)

lemma context_created:
  assumes "session (session_hash env t) db = None"
  shows "snd (create_session_context env st t now phase user methods pv db) =
      Inr \<lparr>sc_token = t, sc_csrf_token = csrf_token env t, sc_phase = phase,
        sc_expires_at = ss_expires_at (new_session env st t now phase user methods pv), sc_principal = None\<rparr>"
    "fst (create_session_context env st t now phase user methods pv db) =
      fst (create_session (new_session env st t now phase user methods pv) db)"
  using session_create [of "new_session env st t now phase user methods pv" db] assms
  by (simp_all add: create_session_context_def Let_def op_bind_snd op_bind_fst)

lemma unchanged_lookups [simp]:
  "account_by_id u (fst (create_session s db)) = account_by_id u db"
  "account_by_id u (revoke_session h now reason db) = account_by_id u db"
  "account_by_id u (audit ev out reason ref by_user by_org db) = account_by_id u db"
  "account_by_username n (fst (create_session s db)) = account_by_username n db"
  "roles u org (fst (create_session s db)) = roles u org db"
  "roles u org (revoke_session h now reason db) = roles u org db"
  "roles u org (audit ev out reason ref by_user by_org db) = roles u org db"
  "roles u org (reset_login_failures u' now db) = roles u org db"
  by (simp_all add: account_by_id_def account_by_username_def roles_def)

lemma pre_auth_step:
  assumes "session (session_hash env t) db = None" "db1 = fst (new_pre_auth env st t now db)"
  shows "\<exists>s. session (session_hash env t) db1 = Some s \<and> ss_phase s = PRE_AUTH \<and> ss_revoked_at s = None \<and>
     ss_expires_at s = now + minutes (set_pre_auth_timeout_minutes st) \<and>
     ss_idle_expires_at s = now + minutes (set_pre_auth_timeout_minutes st)"
    "h \<noteq> session_hash env t \<Longrightarrow> session h db1 = session h db"
    "account_by_username name db1 = account_by_username name db" "account_by_id u db1 = account_by_id u db"
    "roles u org db1 = roles u org db"
  using assms by (simp_all add: new_pre_auth_def context_created session_create new_session_def Let_def)

lemma password_step:
  assumes "t0 \<noteq> []" "session (session_hash env t0) db = Some s0" "ss_phase s0 = PRE_AUTH" "ss_revoked_at s0 = None"
    "n1 < ss_expires_at s0" "n1 < ss_idle_expires_at s0"
    and "session (session_hash env t1) db = None"
    and "account_by_username (canonical_username env name) db = Some a" "acc_status a = ACTIVE"
    and "password_matches env (acc_password_hash a) password" "n1 < acc_password_changed_at a + days 30"
    and "r = password_login env st (Some t0) name password t1 n1 db"
  shows "\<exists>ctx. snd r = Inr ctx \<and> sc_token ctx = t1 \<and> sc_phase ctx = MFA_PENDING"
    "session (session_hash env t1) (fst r) = Some (new_session env st t1 n1 MFA_PENDING (Some a) ''password'' False)"
    "h \<noteq> session_hash env t0 \<Longrightarrow> h \<noteq> session_hash env t1 \<Longrightarrow> session h (fst r) = session h db"
    "account_by_id u (fst r) = account_by_id u db" "roles u org (fst r) = roles u org db"
proof -
  have l: "snd (load_session env (Some t0) PRE_AUTH n1 db) = Inr (session_hash env t0, s0)"
    using assms(1-6) by (simp add: load_session_Inr)
  have "session (session_hash env t1) (revoke_session (session_hash env t0) n1 ''PASSWORD_VERIFIED'' db) = None"
    using assms(7) by simp
  note c = context_created [OF this] session_create [of "new_session env st t1 n1 MFA_PENDING (Some a) ''password'' False", simplified, OF this]
  have r: "fst r = audit ''LOGIN_PASSWORD'' ''ALLOW'' ''MFA_REQUIRED''
         (Some (reference (session_hash env t1))) (Some (acc_id a)) (Some (acc_organization_id a))
        (fst (create_session (new_session env st t1 n1 MFA_PENDING (Some a) ''password'' False)
           (revoke_session (session_hash env t0) n1 ''PASSWORD_VERIFIED'' db)))"
     "\<exists>ctx. snd r = Inr ctx \<and> sc_token ctx = t1 \<and> sc_phase ctx = MFA_PENDING"
    using assms(8-11) l load_session_fst [OF l] c(1,2)
    by (simp_all add: assms(12) password_login_def op_bind_fst op_bind_snd)
  show "\<exists>ctx. snd r = Inr ctx \<and> sc_token ctx = t1 \<and> sc_phase ctx = MFA_PENDING" by (rule r)
  show "session (session_hash env t1) (fst r) = Some (new_session env st t1 n1 MFA_PENDING (Some a) ''password'' False)"
    "h \<noteq> session_hash env t0 \<Longrightarrow> h \<noteq> session_hash env t1 \<Longrightarrow> session h (fst r) = session h db"
    "account_by_id u (fst r) = account_by_id u db" "roles u org (fst r) = roles u org db"
    using c by (simp_all add: r(1) option.map_ident)
qed


lemma mfa_step:
  assumes "t1 \<noteq> []" "session (session_hash env t1) db = Some (new_session env st t1 n1 MFA_PENDING (Some a) ''password'' False)"
    "n2 < n1 + minutes (set_pre_auth_timeout_minutes st)"
    and "session (session_hash env t2) db = None"
    and "account_by_id (acc_id a) db = Some a" "acc_status a = ACTIVE"
    and "list_all (\<lambda>c. of_char c < (128 :: nat)) code"
    and "acc_mfa_code_hash a = Some (env_mfa_hmac env (env_key env) (''secai-mfa:'' @ acc_id a @ '':'' @ code))"
    and "acc_mfa_expires_at a = Some e" "n2 < e"
    and "roles (acc_id a) (acc_organization_id a) db \<noteq> {}"
    and "r = complete_dev_mfa env st (Some t1) code t2 n2 db"
  shows "\<exists>ctx. snd r = Inr ctx \<and> sc_token ctx = t2 \<and> sc_phase ctx = AUTHENTICATED"
    "session (session_hash env t2) (fst r) = Some (new_session env st t2 n2 AUTHENTICATED (Some a) ''password,dev-test-mfa''
       (roles (acc_id a) (acc_organization_id a) db \<inter> privileged_roles \<noteq> {}))"
    "account_by_id (acc_id a) (fst r) = Some (a\<lparr>acc_failed_attempts := 0, acc_status := ACTIVE,
        acc_locked_until := None, acc_updated_at := n2\<rparr>)"
    "roles u org (fst r) = roles u org db"
proof -
  let ?pv = "roles (acc_id a) (acc_organization_id a) db \<inter> privileged_roles \<noteq> {}"
  let ?s = "new_session env st t2 n2 AUTHENTICATED (Some a) ''password,dev-test-mfa'' ?pv"
  let ?db1 = "revoke_session (session_hash env t1) n2 ''MFA_VERIFIED'' db"
  have l: "snd (load_session env (Some t1) MFA_PENDING n2 db) =
      Inr (session_hash env t1, new_session env st t1 n1 MFA_PENDING (Some a) ''password'' False)"
    using assms(1-3) by (simp add: load_session_Inr) (simp add: new_session_def Let_def)
  have n: "session (session_hash env t2) ?db1 = None"
    using assms(4) by simp
  note c = context_created [OF this] session_create [of ?s, simplified, OF n]
  have v: "valid_factor a (env_mfa_hmac env (env_key env) (''secai-mfa:'' @ acc_id a @ '':'' @ code)) n2"
    using assms(6,8-10) by (simp add: valid_factor_def)
  have r: "fst r = audit ''LOGIN_MFA'' ''ALLOW'' ''AUTHENTICATED''
         (Some (reference (session_hash env t2))) (Some (acc_id a)) (Some (acc_organization_id a))
        (reset_login_failures (acc_id a) n2 (fst (create_session ?s ?db1)))"
     "\<exists>ctx. snd r = Inr ctx \<and> sc_token ctx = t2 \<and> sc_phase ctx = AUTHENTICATED"
    using assms(5,7,11) l load_session_fst [OF l] c(1,2) v
    by (simp_all add: assms(12) complete_dev_mfa_def mfa_code_digest_def op_bind_fst op_bind_snd)
  have s: "session h (reset_login_failures u now d) = session h d" for h u now d
    by (simp add: session_def)
  show "\<exists>ctx. snd r = Inr ctx \<and> sc_token ctx = t2 \<and> sc_phase ctx = AUTHENTICATED" by (rule r(2))
  show "session (session_hash env t2) (fst r) = Some ?s"
    "roles u org (fst r) = roles u org db"
    using c by (simp_all add: r(1) s)
  have "account_by_id (acc_id a) (fst (create_session ?s ?db1)) = Some a"
    using assms(5) by simp
  then show "account_by_id (acc_id a) (fst r) = Some (a\<lparr>acc_failed_attempts := 0, acc_status := ACTIVE,
        acc_locked_until := None, acc_updated_at := n2\<rparr>)"
    by (simp add: r(1) account_by_id_def reset_login_failures_def audit_def find_update_rows
       del: accounts_of_session_updates)
qed


text \<open>
  C6: The login works: with an active account, its password, its valid code and a role, the three
  steps with fresh tokens inside their time limits all return, and the last token authenticates
  the account with its roles until idle or absolute expiry.
\<close>

theorem login_succeeds:
  assumes tokens: "t0 \<noteq> []" "t1 \<noteq> []" "t2 \<noteq> []"
    "distinct [session_hash env t0, session_hash env t1, session_hash env t2]"
    "session (session_hash env t0) db = None" "session (session_hash env t1) db = None"
    "session (session_hash env t2) db = None"
    and account: "account_by_username (canonical_username env name) db = Some a"
    "account_by_id (acc_id a) db = Some a" "acc_status a = ACTIVE"
    "roles (acc_id a) (acc_organization_id a) db \<noteq> {}"
    and password: "password_matches env (acc_password_hash a) password"
    "n1 < acc_password_changed_at a + days 30"
    and factor: "list_all (\<lambda>c. of_char c < (128 :: nat)) code"
    "acc_mfa_code_hash a = Some (env_mfa_hmac env (env_key env) (''secai-mfa:'' @ acc_id a @ '':'' @ code))"
    "acc_mfa_expires_at a = Some e" "n2 < e"
    and times: "n1 < n0 + minutes (set_pre_auth_timeout_minutes st)"
    "n2 < n1 + minutes (set_pre_auth_timeout_minutes st)"
    "n3 < n2 + hours (set_absolute_timeout_hours st)"
    "n3 < n2 + minutes (set_idle_timeout_minutes st)"
    "n3 < n2 + minutes (set_privileged_idle_timeout_minutes st)"
    and runs: "r1 = password_login env st (Some t0) name password t1 n1 (fst (new_pre_auth env st t0 n0 db))"
    "r2 = complete_dev_mfa env st (Some t1) code t2 n2 (fst r1)"
  shows "(\<exists>c1. snd r1 = Inr c1 \<and> sc_token c1 = t1) \<and> (\<exists>c2. snd r2 = Inr c2 \<and> sc_token c2 = t2) \<and>
     (\<exists>ctx p. snd (authenticate env st (Some t2) active n3 (fst r2)) = Inr ctx \<and> sc_principal ctx = Some p \<and>
        pr_user_id p = acc_id a \<and> pr_organization_id p = acc_organization_id a \<and>
        pr_roles p = roles (acc_id a) (acc_organization_id a) db)"
proof -
  let ?db1 = "fst (new_pre_auth env st t0 n0 db)"
  note pre = pre_auth_step [OF tokens(5), of "fst (new_pre_auth env st t0 n0 db)" st n0, OF refl]
  obtain s0 where s0: "session (session_hash env t0) ?db1 = Some s0" "ss_phase s0 = PRE_AUTH" "ss_revoked_at s0 = None"
     "n1 < ss_expires_at s0" "n1 < ss_idle_expires_at s0"
    using pre(1) times(1) by auto
  have "session (session_hash env t1) ?db1 = None" "session (session_hash env t2) ?db1 = None"
    "account_by_username (canonical_username env name) ?db1 = Some a"
    using pre(2,3) tokens account(1) by auto
  note pw = password_step [OF tokens(1) s0 this(1,3) account(3) password runs(1)]
  have "session (session_hash env t2) (fst r1) = None"
    using pw(3) [of "session_hash env t2"] tokens(4) \<open>session (session_hash env t2) ?db1 = None\<close> by auto
  note mfa = mfa_step [OF tokens(2) pw(2) times(2) this _ account(3) factor _ runs(2)]
  have "account_by_id (acc_id a) (fst r1) = Some a" "roles (acc_id a) (acc_organization_id a) (fst r1) \<noteq> {}"
    using pw(4,5) pre(4,5) account(2,4) by simp_all
  note mfa = mfa [OF this]
  have r: "roles (acc_id a) (acc_organization_id a) (fst r2) = roles (acc_id a) (acc_organization_id a) db"
    using mfa(4) pw(5) pre(5) by simp
  have "\<exists>ctx p. snd (authenticate env st (Some t2) active n3 (fst r2)) = Inr ctx \<and> sc_principal ctx = Some p \<and>
        pr_user_id p = acc_id a \<and> pr_organization_id p = acc_organization_id a \<and>
        pr_roles p = roles (acc_id a) (acc_organization_id a) db"
    unfolding authenticate_Inr
    using mfa(2,3) tokens(3) r account(4) times(3-5)
    by (simp add: new_session_def the_principal_def Let_def)
  then show ?thesis using pw(1) mfa(1) by auto
qed

theorem login_succeeds_witness:
  "\<exists>ctx p. snd (authenticate ex_env ex_settings (Some ''f2'') True 4
      (fst (complete_dev_mfa ex_env ex_settings (Some ''f1'') ''123456'' ''f2'' 3
        (fst (password_login ex_env ex_settings (Some ''f0'') ''name-a'' ''pw-a'' ''f1'' 2
          (fst (new_pre_auth ex_env ex_settings ''f0'' 1 ex_db))))))) = Inr ctx \<and>
      sc_principal ctx = Some p \<and> pr_user_id p = ''a''"
proof -
  let ?a = "ex_account ''a'' ACTIVE 0"
  have "distinct [session_hash ex_env ''f0'', session_hash ex_env ''f1'', session_hash ex_env ''f2'']"
    "session (session_hash ex_env ''f0'') ex_db = None" "session (session_hash ex_env ''f1'') ex_db = None"
    "session (session_hash ex_env ''f2'') ex_db = None"
    "account_by_username (canonical_username ex_env ''name-a'') ex_db = Some ?a"
    "account_by_id (acc_id ?a) ex_db = Some ?a" "acc_status ?a = ACTIVE"
    "roles (acc_id ?a) (acc_organization_id ?a) ex_db \<noteq> {}"
    "password_matches ex_env (acc_password_hash ?a) ''pw-a''" "2 < acc_password_changed_at ?a + days 30"
    "list_all (\<lambda>c. of_char c < (128 :: nat)) ''123456''"
    "acc_mfa_code_hash ?a = Some (env_mfa_hmac ex_env (env_key ex_env) (''secai-mfa:'' @ acc_id ?a @ '':'' @ ''123456''))"
    "acc_mfa_expires_at ?a = Some (days 30)" "3 < days 30"
    "2 < 1 + minutes (set_pre_auth_timeout_minutes ex_settings)"
    "3 < 2 + minutes (set_pre_auth_timeout_minutes ex_settings)"
    "4 < 3 + hours (set_absolute_timeout_hours ex_settings)"
    "4 < 3 + minutes (set_idle_timeout_minutes ex_settings)"
    "4 < 3 + minutes (set_privileged_idle_timeout_minutes ex_settings)" "acc_id ?a = ''a''"
    by code_simp+
  from login_succeeds [OF _ _ _ this(1-19) refl refl, of True] this(20) show ?thesis by auto
qed

subsection \<open>Administrators\<close>

lemma put_account_other:
  assumes "accounts_ok db" "find (\<lambda>x. acc_id x = u \<and> acc_organization_id x = org \<and> P x) (db_accounts db) = Some r"
    "a \<in> set (db_accounts db)" "acc_organization_id a \<noteq> org"
  shows "a \<in> set (db_accounts (put_account u b db))"
proof -
  have r: "r \<in> set (db_accounts db)" "acc_id r = u" "acc_organization_id r = org"
    using assms(2) by (auto simp: find_Some_iff)
  then have "acc_id a \<noteq> u" using accounts_ok_unique [OF assms(1,3) r(1)] assms(4) by auto
  then show ?thesis using assms(3) by (force simp: put_account_def set_update_rows)
qed

lemma transition_other:
  assumes "accounts_ok db" "a \<in> set (db_accounts db)" "acc_organization_id a \<noteq> org"
  shows "a \<in> set (db_accounts (fst (transition_account u org src to now g db)))"
  using assms put_account_other [of db u org "\<lambda>_. True"]
  by (auto simp: transition_account_def scoped_account_def Let_def split: option.splits prod.splits)

lemma update_mfa_code_other:
  assumes "accounts_ok db" "a \<in> set (db_accounts db)" "acc_organization_id a \<noteq> org"
  shows "a \<in> set (db_accounts (fst (update_mfa_code u org hash i e db)))"
  using assms put_account_other [of db u org "\<lambda>x. acc_status x = ACTIVE"]
  by (auto simp: update_mfa_code_def active_account_def split: option.splits)

text \<open>
  C9: Account administration is confined to the administrator's organization: without the
  administrator role nothing changes, and otherwise every account of another organization stays
  as it is and the list of accounts shows none of it.
\<close>

theorem administration_confined:
  assumes "accounts_ok db" "a \<in> set (db_accounts db)" "acc_organization_id a \<noteq> pr_organization_id p"
  shows "(ADMIN \<in> pr_roles p \<or> (fst (change_status p u action now db) = db \<and>
            fst (renew_mfa_code env key p u drawn now db) = db \<and>
            (\<exists>e. snd (list_accounts p db) = Inl e))) \<and>
         a \<in> set (db_accounts (fst (change_status p u action now db))) \<and>
         a \<in> set (db_accounts (fst (renew_mfa_code env key p u drawn now db))) \<and>
         (\<nexists>xs x. snd (list_accounts p db) = Inr xs \<and> x \<in> set xs \<and> ma_organization_id x \<noteq> pr_organization_id p)"
proof (intro conjI)
  show "ADMIN \<in> pr_roles p \<or> (fst (change_status p u action now db) = db \<and>
            fst (renew_mfa_code env key p u drawn now db) = db \<and> (\<exists>e. snd (list_accounts p db) = Inl e))"
    by (simp add: change_status_def renew_mfa_code_def list_accounts_def require_admin_def op_bind_fst op_bind_snd)
  show "a \<in> set (db_accounts (fst (change_status p u action now db)))"
    using assms transition_other [OF assms]
    by (auto simp: change_status_def op_bind_fst account_audit_def split: sum.splits option.splits)
  show "a \<in> set (db_accounts (fst (renew_mfa_code env key p u drawn now db)))"
    using assms update_mfa_code_other [OF assms]
    by (auto simp: renew_mfa_code_def op_bind_fst account_audit_def Let_def split: sum.splits option.splits)
  show "\<nexists>xs x. snd (list_accounts p db) = Inr xs \<and> x \<in> set xs \<and> ma_organization_id x \<noteq> pr_organization_id p"
    by (auto simp: list_accounts_def op_bind_snd repository_list_accounts_def to_managed_account_def
        split: sum.splits dest!: in_set_takeD)
qed

theorem administration_confined_witness:
  "(ex_account ''x'' ACTIVE 0)\<lparr>acc_organization_id := ''other''\<rparr> \<in>
     set (db_accounts (fst (change_status ex_admin ''x'' ''disable'' 1 ex_db)))"
proof -
  have "(ex_account ''x'' ACTIVE 0)\<lparr>acc_organization_id := ''other''\<rparr> \<in> set (db_accounts ex_db)"
    by (simp add: ex_db_def)
  from administration_confined [OF ex_db_ok [THEN conjunct1] this, of ex_admin "''x''" "''disable''" 1]
  show ?thesis by (simp add: ex_admin_def)
qed


end
