(* ===== verification/Rbac.thy ===== *)
theory Rbac
  imports Auth_Properties
begin

section \<open>Authorization (\<^verbatim>\<open>security/rbac/policy.py\<close>, \<^verbatim>\<open>apps/api\<close>)\<close>

text \<open>
  The role policy and the request boundary above it: \<open>authorize\<close>, the helpers of
  \<^verbatim>\<open>apps/api/auth_support.py\<close> that turn a request into a principal, and \<open>_authorize\<close> of
  \<^verbatim>\<open>apps/api/security_surface.py\<close>, which audits the decision before it answers.  A request is its
  method, path, cookies and headers; an \<open>HTTPException\<close> is its status.
\<close>

subsection \<open>Policy\<close>

datatype permission =
    PRODUCT_READ | ASSET_READ | SWITCH_AUDIT_EXECUTE | EVIDENCE_DOWNLOAD | SECURITY_EVENT_READ
  | PLATFORM_ADMIN | SESSION_SELF_REVOKE

definition permission_value :: "permission \<Rightarrow> string" where
  "permission_value p =
     (case p of
        PRODUCT_READ \<Rightarrow> ''product.read''
      | ASSET_READ \<Rightarrow> ''asset.read''
      | SWITCH_AUDIT_EXECUTE \<Rightarrow> ''switch.audit.readonly.execute''
      | EVIDENCE_DOWNLOAD \<Rightarrow> ''evidence.original.download''
      | SECURITY_EVENT_READ \<Rightarrow> ''audit_event.security.read''
      | PLATFORM_ADMIN \<Rightarrow> ''system.config.read''
      | SESSION_SELF_REVOKE \<Rightarrow> ''session.self.revoke'')"

datatype authorization_outcome = ALLOW | FORBIDDEN | NOT_FOUND

record authorization_decision =
  ad_outcome :: authorization_outcome
  ad_permission :: permission
  ad_reason_code :: string

definition allowed :: "authorization_decision \<Rightarrow> bool" where
  "allowed d \<longleftrightarrow> ad_outcome d = ALLOW"

definition role_permissions :: "human_role \<Rightarrow> permission set" where
  "role_permissions role =
     (case role of
        USER \<Rightarrow> {PRODUCT_READ, ASSET_READ, SWITCH_AUDIT_EXECUTE, SESSION_SELF_REVOKE}
      | SECURITY_OFFICER \<Rightarrow> {PRODUCT_READ, ASSET_READ, SWITCH_AUDIT_EXECUTE, EVIDENCE_DOWNLOAD,
          SECURITY_EVENT_READ, SESSION_SELF_REVOKE}
      | APPROVER \<Rightarrow> {PRODUCT_READ, SESSION_SELF_REVOKE}
      | ADMIN \<Rightarrow> {PRODUCT_READ, PLATFORM_ADMIN, SWITCH_AUDIT_EXECUTE, SESSION_SELF_REVOKE})"

definition decision :: "authorization_outcome \<Rightarrow> permission \<Rightarrow> string \<Rightarrow> authorization_decision" where
  "decision out permission reason =
     \<lparr>ad_outcome = out, ad_permission = permission, ad_reason_code = reason\<rparr>"

definition authorize ::
  "principal \<Rightarrow> permission \<Rightarrow> uuid option \<Rightarrow> uuid option \<Rightarrow> authorization_decision" where
  "authorize p permission organization_id asset_id =
     (if organization_id \<noteq> None \<and> organization_id \<noteq> Some (pr_organization_id p)
      then decision NOT_FOUND permission ''ORGANIZATION_SCOPE_MISMATCH''
      else if \<not> (\<exists>role\<in>pr_roles p. permission \<in> role_permissions role)
      then decision FORBIDDEN permission ''PERMISSION_NOT_GRANTED''
      else case asset_id of
             Some asset \<Rightarrow>
               if SECURITY_OFFICER \<notin> pr_roles p \<and> asset \<notin> pr_asset_ids p
               then decision NOT_FOUND permission ''ASSET_SCOPE_MISMATCH''
               else decision ALLOW permission ''POLICY_ALLOWED''
           | None \<Rightarrow> decision ALLOW permission ''POLICY_ALLOWED'')"

subsection \<open>Requests\<close>

record http_request =
  rq_method :: string
  rq_path :: string
  rq_session_cookie :: "string option"
  rq_headers :: "(string \<times> string) list"

datatype http_failure = HTTP_401 | HTTP_403 | HTTP_404

definition header :: "http_request \<Rightarrow> string \<Rightarrow> string" where
  "header rq name = (case map_of (rq_headers rq) name of None \<Rightarrow> [] | Some v \<Rightarrow> v)"

definition ends_with :: "string \<Rightarrow> string \<Rightarrow> bool" where
  "ends_with s suffix \<longleftrightarrow> length suffix \<le> length s \<and> drop (length s - length suffix) s = suffix"

definition starts_with :: "string \<Rightarrow> string \<Rightarrow> bool" where
  "starts_with s prefix \<longleftrightarrow> take (length prefix) s = prefix"

definition meaningful_foreground_request :: "http_request \<Rightarrow> bool" where
  "meaningful_foreground_request rq =
     (if casefold (header rq ''x-secai-background'') = ''true'' then False
      else if starts_with (header rq ''accept'') ''text/event-stream'' then False
      else rq_method rq \<in> {''POST'', ''PUT'', ''PATCH'', ''DELETE''} \<or>
           (rq_method rq = ''GET'' \<and> \<not> ends_with (rq_path rq) ''/status'' \<and>
            \<not> py_contains (rq_path rq) ''/events''))"

definition authenticate_request ::
  "auth_env \<Rightarrow> auth_settings \<Rightarrow> http_request \<Rightarrow> instant \<Rightarrow> session_context auth_op" where
  "authenticate_request env st rq now =
     authenticate env st (rq_session_cookie rq) (meaningful_foreground_request rq) now"

definition current_principal :: "session_context option \<Rightarrow> http_failure + principal" where
  "current_principal context =
     (case context of
        None \<Rightarrow> Inl HTTP_401
      | Some c \<Rightarrow> (case sc_principal c of None \<Rightarrow> Inl HTTP_401 | Some p \<Rightarrow> Inr p))"

definition require_administrator ::
  "bool \<Rightarrow> session_context option \<Rightarrow> http_failure + principal option" where
  "require_administrator auth_enabled context =
     (if \<not> auth_enabled then Inr None
      else bindE (current_principal context) (\<lambda>p.
        if ADMIN \<notin> pr_roles p then Inl HTTP_403 else Inr (Some p)))"

definition authentication_error_status :: "authentication_code \<Rightarrow> http_failure" where
  "authentication_error_status code = (if code = CSRF_REJECTED then HTTP_403 else HTTP_401)"

text \<open>\<open>_authorize\<close> of the scope-aware pages.\<close>

definition surface_authorize ::
  "auth_env \<Rightarrow> http_request \<Rightarrow> session_context option \<Rightarrow> permission \<Rightarrow> uuid \<Rightarrow> uuid \<Rightarrow>
     auth_db \<Rightarrow> auth_db \<times> (http_failure + unit)" where
  "surface_authorize env rq context permission organization_id asset_id db =
     (case current_principal context of
        Inl e \<Rightarrow> (db, Inl e)
      | Inr p \<Rightarrow>
          (let d = authorize p permission (Some organization_id) (Some asset_id);
               db' = fst (audit_authorization env (rq_session_cookie rq) p (permission_value permission)
                       (allowed d) (ad_reason_code d) db)
           in (db', if ad_outcome d = NOT_FOUND then Inl HTTP_404
                    else if \<not> allowed d then Inl HTTP_403 else Inr ())))"

subsection \<open>Properties\<close>

lemma authorize_allowed:
  "allowed (authorize p permission organization_id asset_id) \<longleftrightarrow>
     (organization_id = None \<or> organization_id = Some (pr_organization_id p)) \<and>
     (\<exists>role\<in>pr_roles p. permission \<in> role_permissions role) \<and>
     (case asset_id of None \<Rightarrow> True
      | Some asset \<Rightarrow> SECURITY_OFFICER \<in> pr_roles p \<or> asset \<in> pr_asset_ids p)"
  by (auto simp: authorize_def allowed_def decision_def split: option.splits)

text \<open>
  The policy denies by default.  A decision allows exactly when the organization asked for is
  the principal's own (or none), some role of the principal holds the permission, and the asset
  asked for is assigned to the principal unless the principal is a security officer; a request for
  another organization is answered like one for an unknown object, whatever roles are held.
\<close>

theorem authorize_allows_iff:
  "(allowed (authorize p permission organization_id asset_id) \<longleftrightarrow>
     (organization_id = None \<or> organization_id = Some (pr_organization_id p)) \<and>
     (\<exists>role. role \<in> pr_roles p \<and> permission \<in> role_permissions role) \<and>
     (SECURITY_OFFICER \<in> pr_roles p \<or> asset_id = None \<or> (\<exists>x. asset_id = Some x \<and> x \<in> pr_asset_ids p))) \<and>
   (ad_outcome (authorize p permission (Some organization) asset_id) = NOT_FOUND \<or>
     organization = pr_organization_id p)"
  unfolding authorize_allowed by (auto simp: authorize_def decision_def split: option.splits)

text \<open>
  What a page shows of an asset is covered by the database: when a request has been
  authenticated and the page lets it pass, the session is open, the account is active and belongs to
  the organization asked for, one of its unrevoked roles there holds the permission, and the asset is
  assigned to it or the account is a security officer there.  The decision is in the audit table in
  either case.
\<close>

theorem page_access_covered:
  assumes "snd (authenticate_request env st rq now db) = Inr ctx"
    and "db1 = fst (authenticate_request env st rq now db)"
    and "snd (surface_authorize env rq (Some ctx) permission organization_id asset_id db1) = Inr ()"
  shows "\<exists>a s t. rq_session_cookie rq = Some t \<and> session (session_hash env t) db = Some s \<and>
           ss_revoked_at s = None \<and> now < ss_expires_at s \<and>
           account_by_id (acc_id a) db = Some a \<and> acc_status a = ACTIVE \<and>
           acc_organization_id a = organization_id \<and>
           (\<exists>role. role \<in> roles (acc_id a) organization_id db \<and> permission \<in> role_permissions role) \<and>
           (SECURITY_OFFICER \<in> roles (acc_id a) organization_id db \<or>
            asset_id \<in> asset_ids (acc_id a) organization_id db) \<and>
           (\<exists>e. db_audit (fst (surface_authorize env rq (Some ctx) permission organization_id asset_id db1)) =
              db_audit db1 @ [e] \<and> ae_outcome e = ''ALLOW'' \<and> ae_user_id e = Some (acc_id a))"
proof -
  obtain t s u a where auth: "rq_session_cookie rq = Some t" "session (session_hash env t) db = Some s"
    "ss_revoked_at s = None" "now < ss_expires_at s" "account_by_id u db = Some a" "acc_status a = ACTIVE"
    "sc_principal ctx = Some (the_principal a s (roles (acc_id a) (acc_organization_id a) db)
       (asset_ids (acc_id a) (acc_organization_id a) db))"
    using assms(1) unfolding authenticate_request_def authenticate_Inr
    by (elim exE conjE) (rule that, simp_all)
  define p where "p = the_principal a s (roles (acc_id a) (acc_organization_id a) db)
       (asset_ids (acc_id a) (acc_organization_id a) db)"
  have p: "pr_organization_id p = acc_organization_id a" "pr_user_id p = acc_id a"
    "pr_roles p = roles (acc_id a) (acc_organization_id a) db"
    "pr_asset_ids p = asset_ids (acc_id a) (acc_organization_id a) db"
    by (simp_all add: p_def the_principal_def Let_def)
  have ok: "allowed (authorize p permission (Some organization_id) (Some asset_id))"
    using assms(3) auth(7) by (auto simp: surface_authorize_def current_principal_def p_def Let_def
        allowed_def split: if_splits)
  have "acc_id a = u" using account_by_id_SomeD [OF auth(5)] by simp
  moreover have "\<exists>e. db_audit (fst (surface_authorize env rq (Some ctx) permission organization_id asset_id db1)) =
      db_audit db1 @ [e] \<and> ae_outcome e = ''ALLOW'' \<and> ae_user_id e = Some (acc_id a)"
    using ok auth(7) p(2) by (simp add: surface_authorize_def current_principal_def p_def [symmetric] Let_def
        audit_authorization_def audit_def)
  ultimately show ?thesis
    using ok auth p unfolding authorize_allowed by auto
qed

definition ex_request :: http_request where
  "ex_request = \<lparr>rq_method = ''GET'', rq_path = ''/ui/security'', rq_session_cookie = Some ''tu'',
     rq_headers = []\<rparr>"

definition ex_assigned :: auth_db where
  "ex_assigned = ex_db\<lparr>db_assets := [\<lparr>aa_user_id = ''u'', aa_organization_id = ''org'',
     aa_asset_id = ''pc-1'', aa_revoked_at = None\<rparr>]\<rparr>"

end
