(* ===== verification/Py_Uuid.thy ===== *)
theory Py_Uuid
  imports Py_Values
begin

section \<open>UUIDs and Base64\<close>

text \<open>
  \<open>UUID(text)\<close> and \<open>base64.urlsafe_b64decode\<close> of the standard library, as far as the code uses
  them: \<open>uuid_parse\<close> gives the canonical text \<open>str(UUID(text))\<close> or \<open>None\<close> for a \<open>ValueError\<close>, and
  \<open>b64_length\<close> gives the length of the decoded bytes.  The hexadecimal number inside a UUID is read
  as \<open>int(text, 16)\<close> reads it: surrounding blanks, a plus sign, a prefix \<open>0x\<close> and single underscores
  between digits are allowed.  Text outside ASCII is refused.
\<close>

definition ascii_text :: "string \<Rightarrow> bool" where
  "ascii_text s \<longleftrightarrow> list_all (\<lambda>c. of_char c < (128 :: nat)) s"

fun remove_sub :: "string \<Rightarrow> string \<Rightarrow> string" where
  "remove_sub sub [] = []"
| "remove_sub sub (c # s) =
     (if sub \<noteq> [] \<and> take (length sub) (c # s) = sub then remove_sub sub (drop (length sub - 1) s)
      else c # remove_sub sub s)"

definition strip_braces :: "string \<Rightarrow> string" where
  "strip_braces s =
     rev (dropWhile (\<lambda>c. c \<in> set ''{}'') (rev (dropWhile (\<lambda>c. c \<in> set ''{}'') s)))"

definition hex_value :: "char \<Rightarrow> bool" where
  "hex_value c \<longleftrightarrow> (let n = of_char c :: nat
     in 48 \<le> n \<and> n \<le> 57 \<or> 65 \<le> n \<and> n \<le> 70 \<or> 97 \<le> n \<and> n \<le> 102)"

fun hex_run :: "bool \<Rightarrow> string \<Rightarrow> string option" where
  "hex_run underscore [] = (if underscore then None else Some [])"
| "hex_run underscore (c # s) =
     (if c = CHR ''_'' then (if underscore then None else hex_run True s)
      else if hex_value c then map_option (\<lambda>d. fold_char c # d) (hex_run False s)
      else None)"

definition int_blank :: "char \<Rightarrow> bool" where
  "int_blank c \<longleftrightarrow> (let n = of_char c :: nat in 9 \<le> n \<and> n \<le> 13 \<or> n = 32)"

definition hex_prefix :: "string \<Rightarrow> string" where
  "hex_prefix s =
     (case s of
        a # x # r \<Rightarrow>
          if a = CHR ''0'' \<and> (x = CHR ''x'' \<or> x = CHR ''X'')
          then (case r of u # r' \<Rightarrow> if u = CHR ''_'' then r' else r | [] \<Rightarrow> r)
          else s
      | _ \<Rightarrow> s)"

definition int16 :: "string \<Rightarrow> string option" where
  "int16 s =
     (let s = rev (dropWhile int_blank (rev (dropWhile int_blank s)));
          s = (case s of c # r \<Rightarrow> if c = CHR ''+'' then r else s | [] \<Rightarrow> s)
      in hex_run True (hex_prefix s))"

definition uuid_text :: "string \<Rightarrow> string" where
  "uuid_text digits =
     (let d = replicate (32 - length digits) (CHR ''0'') @ digits
      in take 8 d @ ''-'' @ take 4 (drop 8 d) @ ''-'' @ take 4 (drop 12 d) @ ''-'' @
         take 4 (drop 16 d) @ ''-'' @ drop 20 d)"

definition uuid_parse :: "string \<Rightarrow> string option" where
  "uuid_parse s =
     (if \<not> ascii_text s then None
      else
        let h = filter (\<lambda>c. c \<noteq> CHR ''-'') (strip_braces (remove_sub ''uuid:'' (remove_sub ''urn:'' s)))
        in if length h \<noteq> 32 then None else map_option uuid_text (int16 h))"

text \<open>
  The decoder skips characters outside the alphabet, stops at a completed padding and refuses an
  incomplete group.  \<open>b64_run quad pads written\<close>: position in the group, padding characters seen,
  bytes written.
\<close>

definition b64_symbol :: "char \<Rightarrow> bool" where
  "b64_symbol c \<longleftrightarrow> (let n = of_char c :: nat
     in 65 \<le> n \<and> n \<le> 90 \<or> 97 \<le> n \<and> n \<le> 122 \<or> 48 \<le> n \<and> n \<le> 57 \<or>
        c \<in> {CHR ''+'', CHR ''/'', CHR ''-'', CHR ''_''})"

fun b64_run :: "nat \<Rightarrow> nat \<Rightarrow> nat \<Rightarrow> string \<Rightarrow> nat option" where
  "b64_run quad pads written [] = (if quad = 0 then Some written else None)"
| "b64_run quad pads written (c # s) =
     (if c = CHR ''='' then
        (if 2 \<le> quad \<and> 4 \<le> quad + (pads + 1) then Some written
         else b64_run quad (if 2 \<le> quad then pads + 1 else pads) written s)
      else if b64_symbol c then
        (if quad = 0 then b64_run 1 0 written s
         else b64_run ((quad + 1) mod 4) 0 (written + 1) s)
      else b64_run quad pads written s)"

definition b64_length :: "string \<Rightarrow> nat option" where
  "b64_length s =
     (if \<not> ascii_text s then None
      else b64_run 0 0 0 (s @ replicate ((4 - length s mod 4) mod 4) (CHR ''='')))"

lemma uuid_examples:
  "uuid_parse ''12345678-1234-5678-1234-567812345678'' = Some ''12345678-1234-5678-1234-567812345678''"
  "uuid_parse ''{ABCDEF78123456781234567812345678}'' = Some ''abcdef78-1234-5678-1234-567812345678''"
  "uuid_parse ''urn:uuid:12345678-1234-5678-1234-56781234567'' = None"
  "b64_length (replicate 43 (CHR ''A'')) = Some 32"
  "b64_length ''A'' = None"
  by code_simp+

subsection \<open>The canonical text parses to itself\<close>

lemma hex_run_digits:
  "hex_run u s = Some d \<Longrightarrow> list_all hex_value d \<and> map fold_char d = d \<and> length d \<le> length s"
proof (induction u s arbitrary: d rule: hex_run.induct)
  case (2 u c s)
  have fold: "hex_value (fold_char x) \<and> fold_char (fold_char x) = fold_char x" if "hex_value x" for x
    using that by (auto simp: hex_value_def fold_char_def Let_def)
  show ?case
    using 2 fold by (auto split: if_splits)
qed (auto split: if_splits)

lemma hex_run_clean: "list_all hex_value s \<Longrightarrow> map fold_char s = s \<Longrightarrow> s \<noteq> [] \<or> \<not> u \<Longrightarrow> hex_run u s = Some s"
proof (induction s arbitrary: u)
  case (Cons c s)
  have "c \<noteq> CHR ''_''" using Cons.prems(1) by (auto simp: hex_value_def)
  with Cons show ?case by simp
qed simp


lemma remove_sub_absent: "x \<in> set sub \<Longrightarrow> x \<notin> set s \<Longrightarrow> remove_sub sub s = s"
proof (induction sub s rule: remove_sub.induct)
  case (2 sub c s)
  then have "take (length sub) (c # s) \<noteq> sub" by (metis in_set_takeD)
  with 2 show ?case by simp
qed simp

lemma dropWhile_none: "list_all (\<lambda>c. \<not> P c) s \<Longrightarrow> dropWhile P s = s"
  by (cases s) simp_all

lemma hex_value_ascii: "hex_value c \<Longrightarrow> of_char c < (128 :: nat)"
  by (auto simp: hex_value_def Let_def)

lemma hex_value_not: "hex_value c \<Longrightarrow> c \<notin> {CHR ''-'', CHR ''_'', CHR ''+'', CHR ''x'', CHR ''X'', CHR ''{'', CHR ''}'', CHR '':''}"
  by (auto simp: hex_value_def)

lemma hex_value_blank: "hex_value c \<Longrightarrow> \<not> int_blank c"
  by (auto simp: hex_value_def int_blank_def Let_def)

lemma int16_clean:
  assumes "list_all hex_value s" "map fold_char s = s" "s \<noteq> []"
  shows "int16 s = Some s"
proof -
  have "list_all (\<lambda>c. \<not> int_blank c) s" "list_all (\<lambda>c. \<not> int_blank c) (rev s)"
    using assms(1) hex_value_blank by (auto simp: list_all_iff)
  then have "rev (dropWhile int_blank (rev (dropWhile int_blank s))) = s"
    by (simp add: dropWhile_none)
  moreover have "(case s of c # r \<Rightarrow> if c = CHR ''+'' then r else s | [] \<Rightarrow> s) = s"
    using assms(1) by (auto split: list.splits dest: hex_value_not)
  moreover have "hex_prefix s = s"
    using assms(1) by (auto simp: hex_prefix_def split: list.splits dest: hex_value_not)
  ultimately show ?thesis
    using hex_run_clean [OF assms(1,2)] assms(3) by (simp add: int16_def Let_def)
qed

lemma uuid_text_parses:
  assumes "list_all hex_value d" "map fold_char d = d" "length d = 32"
  shows "uuid_parse (uuid_text d) = Some (uuid_text d)"
proof -
  let ?u = "uuid_text d"
  have u: "?u = take 8 d @ ''-'' @ take 4 (drop 8 d) @ ''-'' @ take 4 (drop 12 d) @ ''-'' @
         take 4 (drop 16 d) @ ''-'' @ drop 20 d"
    using assms(3) by (simp add: uuid_text_def)
  have set: "set ?u \<subseteq> insert (CHR ''-'') (set d)"
    unfolding u by (auto dest: in_set_takeD in_set_dropD)
  have hex: "\<And>c. c \<in> set d \<Longrightarrow> hex_value c" using assms(1) by (simp add: list_all_iff)
  have ascii: "ascii_text ?u"
    using set hex hex_value_ascii by (fastforce simp: ascii_text_def list_all_iff)
  have "CHR '':'' \<notin> set ?u" using set hex hex_value_not by fastforce
  then have r: "remove_sub ''uuid:'' (remove_sub ''urn:'' ?u) = ?u"
    using remove_sub_absent [of "CHR '':''"] by simp
  have "list_all (\<lambda>c. \<not> c \<in> set ''{}'') ?u"
    using set hex hex_value_not by (fastforce simp: list_all_iff)
  then have b: "strip_braces ?u = ?u"
    by (simp add: strip_braces_def dropWhile_none list_all_iff del: set_simps)
  have f: "filter (\<lambda>c. c \<noteq> CHR ''-'') xs = xs" if "set xs \<subseteq> set d" for xs
    using that hex hex_value_not by (auto intro!: filter_True)
  have "filter (\<lambda>c. c \<noteq> CHR ''-'') ?u =
      take 8 d @ take 4 (drop 8 d) @ take 4 (drop 12 d) @ take 4 (drop 16 d) @ drop 20 d"
    unfolding u using f [of "take 8 d"] f [of "take 4 (drop 8 d)"] f [of "take 4 (drop 12 d)"]
      f [of "take 4 (drop 16 d)"] f [of "drop 20 d"]
    by (simp add: set_take_subset set_drop_subset subset_trans [OF set_take_subset set_drop_subset])
  also have "\<dots> = d"
  proof -
    have "take 4 (drop 16 d) @ drop 20 d = drop 16 d" "take 4 (drop 12 d) @ drop 16 d = drop 12 d"
      "take 4 (drop 8 d) @ drop 12 d = drop 8 d"
      using append_take_drop_id [of 4 "drop 16 d"] append_take_drop_id [of 4 "drop 12 d"]
        append_take_drop_id [of 4 "drop 8 d"] by simp_all
    then show ?thesis by simp
  qed
  finally have "filter (\<lambda>c. c \<noteq> CHR ''-'') ?u = d" .
  moreover have "int16 d = Some d" using int16_clean [OF assms(1,2)] assms(3) by (cases d) auto
  ultimately show ?thesis
    using ascii r b assms(3) by (simp add: uuid_parse_def Let_def)
qed


lemma uuid_parse_canonical:
  assumes "uuid_parse s = Some u"
  shows "uuid_parse u = Some u"
proof -
  obtain h d where h: "length h = 32" "int16 h = Some d" "u = uuid_text d"
    using assms by (auto simp: uuid_parse_def Let_def split: if_splits)
  let ?s = "rev (dropWhile int_blank (rev (dropWhile int_blank h)))"
  let ?t = "case ?s of c # r \<Rightarrow> if c = CHR ''+'' then r else ?s | [] \<Rightarrow> ?s"
  have "length ?s \<le> 32"
    using h(1) length_dropWhile_le [of int_blank h] length_dropWhile_le [of int_blank "rev (dropWhile int_blank h)"]
    by simp
  then have "length ?t \<le> 32" by (auto split: list.splits)
  moreover have "length (hex_prefix s) \<le> length s" for s
    by (auto simp: hex_prefix_def split: list.splits)
  ultimately have l: "length (hex_prefix ?t) \<le> 32" by (meson order_trans)
  have d: "hex_run True (hex_prefix ?t) = Some d" using h(2) by (simp add: int16_def Let_def)
  have hex: "list_all hex_value d" "map fold_char d = d" "length d \<le> 32"
    using hex_run_digits [OF d] l by auto
  let ?d = "replicate (32 - length d) (CHR ''0'') @ d"
  have "hex_value CHR ''0''" "fold_char CHR ''0'' = CHR ''0''" by code_simp+
  then have "list_all hex_value ?d" "map fold_char ?d = ?d" "length ?d = 32"
    using hex by (auto simp: list_all_iff)
  moreover have "uuid_text ?d = uuid_text d" using hex(3) by (simp add: uuid_text_def)
  ultimately show ?thesis using uuid_text_parses [of ?d] h(3) by simp
qed

end
