(* ===== verification/Collector_Credentials.thy ===== *)
theory Collector_Credentials
  imports Py_Uuid
begin

section \<open>Collector credentials (\<^verbatim>\<open>security/auth/collector_credentials.py\<close>)\<close>

text \<open>
  The short-lived credential of one collector job: the in-memory store and the service above it.
  The store is a dictionary of records and a set of used nonces; every operation holds the store's
  lock to its end.  A \<open>datetime\<close> is aware or naive, instants are microseconds.  The keyed digest of a
  token is a parameter; the credential id, the secret and the receipt id are drawn outside and are
  arguments.
\<close>

subsection \<open>Data\<close>

datatype credential_code =
    MALFORMED | INVALID | EXPIRED | REVOKED | ALREADY_USED | ATTEMPTS_EXCEEDED | SCOPE_MISMATCH
  | NONCE_REPLAYED

datatype credential_failure =
    CollectorCredentialError credential_code string
  | CredentialValueError string

datatype moment = Aware int | Naive int

record credential_scope =
  cs_organization_id :: string
  cs_asset_id :: string
  cs_job_id :: string
  cs_manifest_id :: string
  cs_manifest_sha256 :: string
  cs_nonce :: string
  cs_endpoint_id :: string
  cs_content_type :: string
  cs_schema_version :: string
  cs_max_archive_bytes :: int

record credential_record =
  cr_credential_id :: string
  cr_scope :: credential_scope
  cr_token_hash :: string
  cr_hash_key_version :: string
  cr_issued_at :: int
  cr_expires_at :: int
  cr_failed_attempts :: int
  cr_used_at :: "int option"
  cr_revoked_at :: "int option"
  cr_receipt_id :: "string option"

record issued_credential =
  ic_credential_id :: string
  ic_token :: string
  ic_scope :: credential_scope
  ic_issued :: int
  ic_expires :: int

record authorized_credential =
  ac_credential_id :: string
  ac_scope :: credential_scope
  ac_expires_at :: int

record submission_receipt =
  sr_receipt_id :: string
  sr_credential_id :: string
  sr_organization_id :: string
  sr_asset_id :: string
  sr_job_id :: string
  sr_manifest_id :: string
  sr_package_id :: string
  sr_archive_sha256 :: string
  sr_committed_at :: int

record credential_store =
  st_records :: "string \<rightharpoonup> credential_record"
  st_used_nonces :: "(string \<times> string \<times> string \<times> string) set"

type_synonym 'a credential_op = "(credential_store, credential_failure, 'a) op"

definition empty_store :: credential_store where
  "empty_store = \<lparr>st_records = Map.empty, st_used_nonces = {}\<rparr>"

definition credential_scheme :: string where
  "credential_scheme = ''secai_job_v1''"

definition max_credential_ttl :: int where
  "max_credential_ttl = 2 * 3600 * 1000000"

definition max_failed_attempts :: int where
  "max_failed_attempts = 5"

definition credential_error :: "credential_code \<Rightarrow> string \<Rightarrow> 'a credential_op" where
  "credential_error code message = op_raise (CollectorCredentialError code message)"

definition value_error :: "string \<Rightarrow> 'a credential_op" where
  "value_error message = op_raise (CredentialValueError message)"

subsection \<open>Checks\<close>

text \<open>\<open>CollectorCredentialScope.__post_init__\<close>: whether the scope can be built.\<close>

definition scope_admitted :: "credential_scope \<Rightarrow> bool" where
  "scope_admitted s \<longleftrightarrow>
     list_all (\<lambda>v. uuid_parse v \<noteq> None)
       [cs_organization_id s, cs_asset_id s, cs_job_id s, cs_manifest_id s] \<and>
     length (cs_manifest_sha256 s) = 64 \<and>
     list_all (\<lambda>c. c \<in> set ''0123456789abcdef'') (cs_manifest_sha256 s) \<and>
     cs_nonce s \<noteq> [] \<and> cs_endpoint_id s \<noteq> [] \<and> cs_content_type s = ''application/zip'' \<and>
     cs_schema_version s \<noteq> [] \<and>
     0 < cs_max_archive_bytes s \<and> cs_max_archive_bytes s \<le> 100 * 1024 * 1024"

definition aware :: "moment \<Rightarrow> int credential_op" where
  "aware value =
     (case value of
        Aware t \<Rightarrow> op_return t
      | Naive _ \<Rightarrow> value_error ''datetime must be timezone-aware.'')"

definition malformed :: "'a credential_op" where
  "malformed = credential_error MALFORMED ''Collector credential format is invalid.''"

definition split_token :: "string \<Rightarrow> string credential_op" where
  "split_token token =
     (case split_char (CHR ''.'') token of
        [scheme, credential_id, secret] \<Rightarrow>
          if scheme \<noteq> credential_scheme then malformed
          else if uuid_parse credential_id = None then malformed
          else if b64_length secret \<noteq> Some 32 then malformed
          else op_return credential_id
      | _ \<Rightarrow> malformed)"

definition nonce_key :: "credential_scope \<Rightarrow> string \<times> string \<times> string \<times> string" where
  "nonce_key s = (cs_organization_id s, cs_asset_id s, cs_job_id s, cs_nonce s)"

definition check_record_state :: "credential_record \<Rightarrow> int \<Rightarrow> unit credential_op" where
  "check_record_state record received_at =
     (if cr_revoked_at record \<noteq> None
      then credential_error REVOKED ''Collector credential was revoked.''
      else if cr_used_at record \<noteq> None
      then credential_error ALREADY_USED ''Collector credential was already committed.''
      else if cr_failed_attempts record \<ge> max_failed_attempts
      then credential_error ATTEMPTS_EXCEEDED ''Collector credential attempt limit was reached.''
      else if received_at > cr_expires_at record
      then credential_error EXPIRED ''Collector credential has expired.''
      else op_return ())"

subsection \<open>Store\<close>

definition store_insert :: "credential_record \<Rightarrow> unit credential_op" where
  "store_insert record store =
     (if st_records store (cr_credential_id record) \<noteq> None
      then value_error ''Credential ID already exists.'' store
      else (store\<lparr>st_records := (st_records store)(cr_credential_id record \<mapsto> record)\<rparr>, Inr ()))"

definition store_get :: "string \<Rightarrow> credential_record option credential_op" where
  "store_get credential_id = op_read (\<lambda>store. st_records store credential_id)"

definition store_replace :: "credential_record \<Rightarrow> unit credential_op" where
  "store_replace record store =
     (if st_records store (cr_credential_id record) = None
      then value_error ''Credential does not exist.'' store
      else (store\<lparr>st_records := (st_records store)(cr_credential_id record \<mapsto> record)\<rparr>, Inr ()))"

definition the_receipt ::
  "string \<Rightarrow> credential_record \<Rightarrow> string \<Rightarrow> string \<Rightarrow> int \<Rightarrow> submission_receipt" where
  "the_receipt receipt_id record package_id archive_sha256 received_at =
     \<lparr>sr_receipt_id = receipt_id, sr_credential_id = cr_credential_id record,
      sr_organization_id = cs_organization_id (cr_scope record),
      sr_asset_id = cs_asset_id (cr_scope record), sr_job_id = cs_job_id (cr_scope record),
      sr_manifest_id = cs_manifest_id (cr_scope record), sr_package_id = package_id,
      sr_archive_sha256 = archive_sha256, sr_committed_at = received_at\<rparr>"

definition spend :: "string \<Rightarrow> credential_record \<Rightarrow> string \<Rightarrow> int \<Rightarrow> credential_store \<Rightarrow> credential_store" where
  "spend credential_id record receipt_id received_at store =
     store\<lparr>st_used_nonces := insert (nonce_key (cr_scope record)) (st_used_nonces store),
           st_records := (st_records store)(credential_id \<mapsto>
             record\<lparr>cr_used_at := Some received_at, cr_receipt_id := Some receipt_id\<rparr>)\<rparr>"

definition store_commit ::
  "string \<Rightarrow> string \<Rightarrow> moment \<Rightarrow> string \<Rightarrow> string \<Rightarrow> string \<Rightarrow> submission_receipt credential_op" where
  "store_commit credential_id token_hash received package_id archive_sha256 receipt_id =
     op_bind (aware received) (\<lambda>received_at.
     op_bind (store_get credential_id) (\<lambda>found.
     case found of
       None \<Rightarrow> credential_error INVALID ''Collector credential is invalid.''
     | Some record \<Rightarrow>
         if cr_token_hash record \<noteq> token_hash
         then credential_error INVALID ''Collector credential is invalid.''
         else
           op_bind (check_record_state record received_at) (\<lambda>_.
           op_bind (op_read st_used_nonces) (\<lambda>used.
           if nonce_key (cr_scope record) \<in> used
           then credential_error NONCE_REPLAYED ''Collector submission nonce was already committed.''
           else
             op_bind (op_write (spend credential_id record receipt_id received_at)) (\<lambda>_.
               op_return (the_receipt receipt_id record package_id archive_sha256 received_at))))))"

subsection \<open>Service\<close>

text \<open>\<open>hash\<close> is \<open>_token_hash\<close> with the service's key.\<close>

definition service_admitted :: "string \<Rightarrow> string \<Rightarrow> bool" where
  "service_admitted hash_key hash_key_version \<longleftrightarrow> length hash_key \<ge> 32 \<and> hash_key_version \<noteq> []"

definition token_text_of :: "string \<Rightarrow> string \<Rightarrow> string" where
  "token_text_of credential_id secret = credential_scheme @ ''.'' @ credential_id @ ''.'' @ secret"

definition issue ::
  "(string \<Rightarrow> string) \<Rightarrow> string \<Rightarrow> credential_scope \<Rightarrow> moment \<Rightarrow> int \<Rightarrow> string \<Rightarrow> string \<Rightarrow>
     issued_credential credential_op" where
  "issue hash key_version scope issued ttl credential_id secret =
     op_bind (aware issued) (\<lambda>issued_at.
     if ttl \<le> 0 \<or> ttl > max_credential_ttl
     then value_error ''Collector credential TTL must be positive and at most two hours.''
     else
       (let token = token_text_of credential_id secret; expires_at = issued_at + ttl
        in op_bind (store_insert
             \<lparr>cr_credential_id = credential_id, cr_scope = scope, cr_token_hash = hash token,
              cr_hash_key_version = key_version, cr_issued_at = issued_at,
              cr_expires_at = expires_at, cr_failed_attempts = 0, cr_used_at = None,
              cr_revoked_at = None, cr_receipt_id = None\<rparr>) (\<lambda>_.
           op_return \<lparr>ic_credential_id = credential_id, ic_token = token, ic_scope = scope,
             ic_issued = issued_at, ic_expires = expires_at\<rparr>)))"

definition record_failure :: "credential_record option \<Rightarrow> unit credential_op" where
  "record_failure found =
     (case found of
        None \<Rightarrow> op_return ()
      | Some record \<Rightarrow>
          store_replace (record\<lparr>cr_failed_attempts := cr_failed_attempts record + 1\<rparr>))"

definition reject_credential :: "credential_record option \<Rightarrow> authorized_credential credential_op" where
  "reject_credential found =
     op_bind (record_failure found) (\<lambda>_.
       credential_error INVALID ''Collector credential is invalid.'')"

definition authorize_credential ::
  "(string \<Rightarrow> string) \<Rightarrow> string \<Rightarrow> moment \<Rightarrow> authorized_credential credential_op" where
  "authorize_credential hash token received =
     op_bind (aware received) (\<lambda>received_at.
     op_bind (split_token token) (\<lambda>credential_id.
     op_bind (store_get credential_id) (\<lambda>found.
     case found of
       None \<Rightarrow> reject_credential found
     | Some record \<Rightarrow>
         if cr_token_hash record \<noteq> hash token then reject_credential found
         else
           op_bind (check_record_state record received_at) (\<lambda>_.
             op_return \<lparr>ac_credential_id = cr_credential_id record, ac_scope = cr_scope record,
               ac_expires_at = cr_expires_at record\<rparr>))))"

definition commit_credential ::
  "(string \<Rightarrow> string) \<Rightarrow> string \<Rightarrow> moment \<Rightarrow> string \<Rightarrow> string \<Rightarrow> string \<Rightarrow>
     submission_receipt credential_op" where
  "commit_credential hash token received package_id archive_sha256 receipt_id =
     op_bind (split_token token) (\<lambda>credential_id.
       store_commit credential_id (hash token) received package_id archive_sha256 receipt_id)"

definition revoke_credential :: "string \<Rightarrow> moment \<Rightarrow> unit credential_op" where
  "revoke_credential credential_id revoked =
     op_bind (aware revoked) (\<lambda>revoked_at.
     op_bind (store_get credential_id) (\<lambda>found.
     case found of
       None \<Rightarrow> op_return ()
     | Some record \<Rightarrow> store_replace (record\<lparr>cr_revoked_at := Some revoked_at\<rparr>)))"

end
