(* ===== verification/Credential_Lifecycle.thy ===== *)
theory Credential_Lifecycle
  imports Collector_Credentials
begin

section \<open>The life of a collector credential\<close>

text \<open>
  The operations of the credential service as requests, the stores they can reach, and the abstract
  machine every record follows: a live credential is spent by one commit or dies by revocation or by
  five failures, and neither is undone.
\<close>

datatype credential_request =
    Issue credential_scope moment int string string
  | Authorize string moment
  | Commit string moment string string string
  | Revoke string moment

fun perform_credential ::
  "(string \<Rightarrow> string) \<Rightarrow> string \<Rightarrow> credential_request \<Rightarrow> credential_store \<Rightarrow> credential_store" where
  "perform_credential hash version (Issue scope issued ttl i secret) store =
     fst (issue hash version scope issued ttl i secret store)"
| "perform_credential hash version (Authorize token received) store =
     fst (authorize_credential hash token received store)"
| "perform_credential hash version (Commit token received package sha receipt) store =
     fst (commit_credential hash token received package sha receipt store)"
| "perform_credential hash version (Revoke i revoked) store = fst (revoke_credential i revoked store)"

inductive store_reaches ::
  "(string \<Rightarrow> string) \<Rightarrow> string \<Rightarrow> credential_store \<Rightarrow> credential_store \<Rightarrow> bool"
  for hash version store where
  start: "store_reaches hash version store store"
| request: "store_reaches hash version store store' \<Longrightarrow>
    store_reaches hash version store (perform_credential hash version r store')"

subsection \<open>Abstract machine\<close>

datatype life = Live | Spent | Dead

inductive life_step :: "life \<Rightarrow> life \<Rightarrow> bool" where
  commit: "life_step Live Spent"
| kill: "life_step Live Dead"

inductive_simps life_step_simps [simp]: "life_step Spent l" "life_step Dead l" "life_step l Live"

definition life_of :: "credential_record \<Rightarrow> life" where
  "life_of r =
     (if cr_used_at r \<noteq> None then Spent
      else if cr_revoked_at r \<noteq> None \<or> cr_failed_attempts r \<ge> max_failed_attempts then Dead
      else Live)"

lemma life_step_rtranclp:
  "life_step\<^sup>*\<^sup>* l l' \<longleftrightarrow> l = l' \<or> l = Live"
proof
  assume "life_step\<^sup>*\<^sup>* l l'"
  then show "l = l' \<or> l = Live"
    by (induction rule: converse_rtranclp_induct) (auto elim: life_step.cases)
next
  have "life_step\<^sup>*\<^sup>* Live l'" by (cases l') (auto intro: life_step.intros)
  moreover assume "l = l' \<or> l = Live"
  ultimately show "life_step\<^sup>*\<^sup>* l l'" by auto
qed

subsection \<open>Relations that every request respects\<close>

definition put_record :: "string \<Rightarrow> credential_record \<Rightarrow> credential_store \<Rightarrow> credential_store" where
  "put_record k r store = store\<lparr>st_records := (st_records store)(k \<mapsto> r)\<rparr>"

definition fresh_record :: "credential_record \<Rightarrow> bool" where
  "fresh_record r \<longleftrightarrow> cr_failed_attempts r = 0 \<and> cr_used_at r = None \<and> cr_revoked_at r = None \<and>
     cr_receipt_id r = None \<and> cr_issued_at r < cr_expires_at r \<and>
     cr_expires_at r \<le> cr_issued_at r + max_credential_ttl"

lemma split_token_fst [simp]: "fst (split_token token store) = store"
  by (simp add: split_token_def malformed_def credential_error_def split: list.splits)

lemma check_record_fst [simp]: "fst (check_record_state r t store) = store"
  by (simp add: check_record_state_def credential_error_def)

lemma aware_fst [simp]: "fst (aware m store) = store"
  by (simp add: aware_def value_error_def split: moment.splits)

locale credential_discipline =
  fixes R :: "credential_store \<Rightarrow> credential_store \<Rightarrow> bool"
  assumes keeps_refl: "R store store"
    and keeps_trans: "R store store1 \<Longrightarrow> R store1 store2 \<Longrightarrow> R store store2"
    and keeps_issue: "st_records store (cr_credential_id r) = None \<Longrightarrow> fresh_record r \<Longrightarrow>
      R store (put_record (cr_credential_id r) r store)"
    and keeps_failure: "st_records store k = Some r \<Longrightarrow>
      R store (put_record (cr_credential_id r) (r\<lparr>cr_failed_attempts := cr_failed_attempts r + 1\<rparr>) store)"
    and keeps_revoke: "st_records store k = Some r \<Longrightarrow>
      R store (put_record (cr_credential_id r) (r\<lparr>cr_revoked_at := Some t\<rparr>) store)"
    and keeps_spend: "st_records store k = Some r \<Longrightarrow> life_of r = Live \<Longrightarrow>
      nonce_key (cr_scope r) \<notin> st_used_nonces store \<Longrightarrow> R store (spend k r receipt t store)"
begin

lemma keeps_issue_op: "R store (fst (issue hash version scope issued ttl i secret store))"
proof -
  have "R store (fst (store_insert r store))" if "fresh_record r" for r
    using keeps_issue [OF _ that] keeps_refl
    by (simp add: store_insert_def value_error_def put_record_def)
  then show ?thesis
    using keeps_refl by (auto simp: issue_def aware_def value_error_def op_bind_fst Let_def fresh_record_def
        split: moment.splits sum.splits)
qed

lemma keeps_failure_op: "st_records store k = found \<Longrightarrow> R store (fst (reject_credential found store))"
  using keeps_failure [of store k] keeps_refl
  by (auto simp: reject_credential_def record_failure_def credential_error_def store_replace_def
      value_error_def put_record_def op_bind_fst split: option.splits sum.splits)

lemma keeps_authorize_op: "R store (fst (authorize_credential hash token received store))"
  using keeps_refl
  by (auto simp: authorize_credential_def op_bind_fst store_get_def
      split: sum.splits option.splits intro: keeps_failure_op)

lemma keeps_commit_op: "R store (fst (commit_credential hash token received package sha receipt store))"
proof -
  have "life_of r = Live" if "snd (check_record_state r t store) = Inr ()" for r t
    using that by (auto simp: check_record_state_def credential_error_def life_of_def split: if_splits)
  then show ?thesis
    using keeps_refl
    by (auto simp: commit_credential_def store_commit_def op_bind_fst store_get_def credential_error_def
        split: sum.splits option.splits intro: keeps_spend)
qed

lemma keeps_revoke_op: "R store (fst (revoke_credential i revoked store))"
  using keeps_refl keeps_revoke [of store i]
  by (auto simp: revoke_credential_def op_bind_fst store_get_def store_replace_def value_error_def
      put_record_def split: sum.splits option.splits)

lemma keeps_store_reaches: "store_reaches hash version store store' \<Longrightarrow> R store store'"
proof (induction rule: store_reaches.induct)
  case (request store' r)
  have "R store' (perform_credential hash version r store')"
    by (cases r) (simp_all add: keeps_issue_op keeps_authorize_op keeps_commit_op keeps_revoke_op)
  with request.IH show ?case by (rule keeps_trans)
qed (rule keeps_refl)

end

subsection \<open>Records only move forward\<close>

definition record_later :: "credential_record \<Rightarrow> credential_record \<Rightarrow> bool" where
  "record_later r r' \<longleftrightarrow>
     cr_credential_id r' = cr_credential_id r \<and> cr_scope r' = cr_scope r \<and>
     cr_token_hash r' = cr_token_hash r \<and> cr_expires_at r' = cr_expires_at r \<and>
     cr_failed_attempts r \<le> cr_failed_attempts r' \<and>
     (cr_used_at r \<noteq> None \<longrightarrow> cr_used_at r' = cr_used_at r \<and> cr_receipt_id r' = cr_receipt_id r) \<and>
     (cr_revoked_at r \<noteq> None \<longrightarrow> cr_revoked_at r' \<noteq> None) \<and>
     life_step\<^sup>*\<^sup>* (life_of r) (life_of r')"

definition keys_ok :: "credential_store \<Rightarrow> bool" where
  "keys_ok store \<longleftrightarrow> (\<forall>k r. st_records store k = Some r \<longrightarrow> cr_credential_id r = k)"

definition store_evolves :: "credential_store \<Rightarrow> credential_store \<Rightarrow> bool" where
  "store_evolves store store' \<longleftrightarrow>
     (keys_ok store \<longrightarrow> keys_ok store' \<and> st_used_nonces store \<subseteq> st_used_nonces store' \<and>
        (\<forall>k r. st_records store k = Some r \<longrightarrow> (\<exists>r'. st_records store' k = Some r' \<and> record_later r r')))"

lemma record_later_refl: "record_later r r"
  by (simp add: record_later_def)

lemma record_later_trans: "record_later r s \<Longrightarrow> record_later s u \<Longrightarrow> record_later r u"
  unfolding record_later_def by (auto intro: rtranclp_trans)

lemma store_evolves_put:
  assumes "\<And>r. st_records store k = Some r \<Longrightarrow> record_later r r'" "cr_credential_id r' = k"
    "st_records store' = (st_records store)(k \<mapsto> r')" "st_used_nonces store \<subseteq> st_used_nonces store'"
  shows "store_evolves store store'"
  using assms by (auto simp: store_evolves_def keys_ok_def record_later_refl)

lemma store_evolves_trans:
  assumes "store_evolves a b" "store_evolves b c"
  shows "store_evolves a c"
proof -
  have "\<exists>s. st_records c k = Some s \<and> record_later r s" if k: "keys_ok a" "st_records a k = Some r" for k r
  proof -
    obtain s where s: "st_records b k = Some s" "record_later r s"
      using assms(1) k unfolding store_evolves_def by blast
    moreover have "keys_ok b" using assms(1) k(1) by (simp add: store_evolves_def)
    ultimately obtain u where "st_records c k = Some u" "record_later s u"
      using assms(2) unfolding store_evolves_def by blast
    with s show ?thesis using record_later_trans by blast
  qed
  then show ?thesis using assms by (auto simp: store_evolves_def)
qed

interpretation cred: credential_discipline store_evolves
proof (unfold_locales, goal_cases)
  case (1 store)
  show ?case by (simp add: store_evolves_def record_later_refl)
next
  case (2 store store1 store2)
  then show ?case by (rule store_evolves_trans)
next
  case (3 store r)
  then show ?case by (intro store_evolves_put [of store "cr_credential_id r" r]) (simp_all add: put_record_def)
next
  case (4 store k r)
  show ?case
  proof (cases "keys_ok store")
    case True
    with 4 have "cr_credential_id r = k" by (simp add: keys_ok_def)
    with 4 show ?thesis
      by (intro store_evolves_put [of store k "r\<lparr>cr_failed_attempts := cr_failed_attempts r + 1\<rparr>"])
        (auto simp: put_record_def record_later_def life_step_rtranclp life_of_def)
  qed (simp add: store_evolves_def)
next
  case (5 store k r t)
  show ?case
  proof (cases "keys_ok store")
    case True
    with 5 have "cr_credential_id r = k" by (simp add: keys_ok_def)
    with 5 show ?thesis
      by (intro store_evolves_put [of store k "r\<lparr>cr_revoked_at := Some t\<rparr>"])
        (auto simp: put_record_def record_later_def life_step_rtranclp life_of_def)
  qed (simp add: store_evolves_def)
next
  case (6 store k r receipt t)
  show ?case
  proof (cases "keys_ok store")
    case True
    with 6 have "cr_credential_id r = k" by (simp add: keys_ok_def)
    with 6 show ?thesis
      by (intro store_evolves_put [of store k "r\<lparr>cr_used_at := Some t, cr_receipt_id := Some receipt\<rparr>"])
        (auto simp: spend_def record_later_def life_step_rtranclp life_of_def split: if_splits)
  qed (simp add: store_evolves_def)
qed

subsection \<open>Nonces\<close>

text \<open>Every used nonce belongs to exactly one spent record, and every spent record has its receipt.\<close>

definition spent_with :: "credential_store \<Rightarrow> string \<times> string \<times> string \<times> string \<Rightarrow> string \<Rightarrow> bool" where
  "spent_with store n k \<longleftrightarrow>
     (\<exists>r. st_records store k = Some r \<and> cr_used_at r \<noteq> None \<and> nonce_key (cr_scope r) = n)"

definition record_ok :: "credential_record \<Rightarrow> bool" where
  "record_ok r \<longleftrightarrow> (cr_used_at r = None \<longleftrightarrow> cr_receipt_id r = None) \<and>
     cr_issued_at r < cr_expires_at r \<and> cr_expires_at r \<le> cr_issued_at r + max_credential_ttl"

definition store_ok :: "credential_store \<Rightarrow> bool" where
  "store_ok store \<longleftrightarrow> keys_ok store \<and> (\<forall>k r. st_records store k = Some r \<longrightarrow> record_ok r) \<and>
     (\<forall>n. n \<in> st_used_nonces store \<longleftrightarrow> (\<exists>k. spent_with store n k)) \<and>
     (\<forall>n k k'. spent_with store n k \<longrightarrow> spent_with store n k' \<longrightarrow> k = k')"

lemma store_ok_keys: "store_ok store \<Longrightarrow> keys_ok store"
  by (simp add: store_ok_def)

lemma store_okD: "store_ok store \<Longrightarrow> st_records store k = Some r \<Longrightarrow> cr_credential_id r = k \<and> record_ok r"
  by (simp add: store_ok_def keys_ok_def)

lemma store_ok_put:
  assumes "store_ok store" "cr_credential_id r' = k" "record_ok r'"
    "\<And>n. spent_with (put_record k r' store) n = spent_with store n"
  shows "store_ok (put_record k r' store)"
  using assms by (auto simp: store_ok_def keys_ok_def put_record_def)

lemma spent_with_put:
  assumes "case st_records store k of None \<Rightarrow> cr_used_at r' = None
      | Some r \<Rightarrow> cr_scope r' = cr_scope r \<and> cr_used_at r' = cr_used_at r"
  shows "spent_with (put_record k r' store) n = spent_with store n"
  using assms by (auto simp: spent_with_def put_record_def fun_eq_iff split: option.splits)

lemma store_ok_spend:
  assumes "store_ok store" "st_records store k = Some r" "nonce_key (cr_scope r) \<notin> st_used_nonces store"
    "cr_used_at r = None"
  shows "store_ok (spend k r receipt t store)"
proof -
  have "spent_with (spend k r receipt t store) n k' \<longleftrightarrow>
      spent_with store n k' \<or> (n = nonce_key (cr_scope r) \<and> k' = k)" for n k'
    using assms(2,4) by (auto simp: spent_with_def spend_def)
  moreover have "\<not> spent_with store (nonce_key (cr_scope r)) k'" for k'
    using assms(1,3) unfolding store_ok_def by blast
  moreover have "cr_credential_id r = k" "record_ok r"
    using assms(1,2) by (auto simp: store_ok_def keys_ok_def)
  ultimately show ?thesis
    using assms(1) by (auto simp: store_ok_def keys_ok_def record_ok_def spend_def split: if_splits)
qed

interpretation cwf: credential_discipline "\<lambda>store store'. store_ok store \<longrightarrow> store_ok store'"
proof (unfold_locales, goal_cases)
  case (3 store r)
  then show ?case
    by (auto intro!: store_ok_put simp: spent_with_put fresh_record_def record_ok_def)
next
  case (4 store k r)
  then show ?case
    by (auto intro!: store_ok_put dest: store_okD simp: spent_with_put record_ok_def)
next
  case (5 store k r t)
  then show ?case
    by (auto intro!: store_ok_put dest: store_okD simp: spent_with_put record_ok_def)
next
  case (6 store k r receipt t)
  then show ?case by (auto intro!: store_ok_spend simp: life_of_def split: if_splits)
qed auto


subsection \<open>Outcomes\<close>

lemma aware_Inr [simp]: "snd (aware m store) = Inr t \<longleftrightarrow> m = Aware t"
  by (auto simp: aware_def value_error_def split: moment.splits)

lemma check_record_Inr: "snd (check_record_state r t store) = Inr () \<longleftrightarrow> life_of r = Live \<and> t \<le> cr_expires_at r"
  by (auto simp: check_record_state_def credential_error_def life_of_def)

lemma aware_Aware [simp]: "snd (aware (Aware t) store) = Inr t"
  by simp

lemma check_record_Inl: "snd (check_record_state r t store) = Inl e \<Longrightarrow> \<not> (life_of r = Live \<and> t \<le> cr_expires_at r)"
  using check_record_Inr [of r t store] by auto

lemma life_Live: "life_of r = Live \<longleftrightarrow> cr_revoked_at r = None \<and> cr_used_at r = None \<and> cr_failed_attempts r < 5"
  by (auto simp: life_of_def max_failed_attempts_def)

lemma authorize_Inr:
  "snd (authorize_credential hash token received store) = Inr a \<longleftrightarrow>
     (\<exists>t k r. received = Aware t \<and> snd (split_token token store) = Inr k \<and> st_records store k = Some r \<and>
        cr_token_hash r = hash token \<and> life_of r = Live \<and> t \<le> cr_expires_at r \<and>
        a = \<lparr>ac_credential_id = cr_credential_id r, ac_scope = cr_scope r, ac_expires_at = cr_expires_at r\<rparr>)"
  (is "?L \<longleftrightarrow> ?R")
proof
  have rej: "snd (reject_credential found store) \<noteq> Inr a" for found
    by (auto simp: reject_credential_def credential_error_def op_bind_snd split: sum.splits)
  assume ?L
  then show ?R
    using rej check_record_Inr [of _ _ store]
    by (auto simp: authorize_credential_def op_bind_snd store_get_def split: sum.splits option.splits if_splits)
next
  assume ?R
  then show ?L
    by (auto simp: authorize_credential_def op_bind_snd store_get_def aware_def
        check_record_Inr [THEN iffD2])
qed

lemma commit_Inr:
  assumes "snd (commit_credential hash token received package sha receipt store) = Inr x"
  obtains t k r where "received = Aware t" "snd (split_token token store) = Inr k" "st_records store k = Some r"
    "cr_token_hash r = hash token" "life_of r = Live" "t \<le> cr_expires_at r"
    "nonce_key (cr_scope r) \<notin> st_used_nonces store" "x = the_receipt receipt r package sha t"
    "fst (commit_credential hash token received package sha receipt store) = spend k r receipt t store"
proof -
  have "\<exists>t k r. received = Aware t \<and> snd (split_token token store) = Inr k \<and> st_records store k = Some r \<and>
      cr_token_hash r = hash token \<and> life_of r = Live \<and> t \<le> cr_expires_at r \<and>
      nonce_key (cr_scope r) \<notin> st_used_nonces store \<and> x = the_receipt receipt r package sha t \<and>
      fst (commit_credential hash token received package sha receipt store) = spend k r receipt t store"
    using assms check_record_Inr [of _ _ store]
    by (auto simp: commit_credential_def store_commit_def op_bind_snd op_bind_fst store_get_def
        credential_error_def split: sum.splits option.splits if_splits dest: check_record_Inl)
  then show ?thesis using that by blast
qed


subsection \<open>An example\<close>

definition ex_scope :: credential_scope where
  "ex_scope = \<lparr>cs_organization_id = ''11111111-1111-1111-1111-111111111111'',
     cs_asset_id = ''22222222-2222-2222-2222-222222222222'',
     cs_job_id = ''33333333-3333-3333-3333-333333333333'',
     cs_manifest_id = ''44444444-4444-4444-4444-444444444444'',
     cs_manifest_sha256 = replicate 64 (CHR ''a''), cs_nonce = ''n'', cs_endpoint_id = ''e'',
     cs_content_type = ''application/zip'', cs_schema_version = ''1.0'', cs_max_archive_bytes = 1000\<rparr>"

definition ex_id :: string where
  "ex_id = ''55555555-5555-5555-5555-555555555555''"

definition ex_id' :: string where
  "ex_id' = ''66666666-6666-6666-6666-666666666666''"

definition ex_secret :: string where
  "ex_secret = replicate 43 (CHR ''A'')"

definition ex_store :: credential_store where
  "ex_store = perform_credential id ''v1'' (Issue ex_scope (Aware 0) 60 ex_id' ex_secret)
     (perform_credential id ''v1'' (Issue ex_scope (Aware 0) 60 ex_id ex_secret) empty_store)"

lemma empty_store_ok: "store_ok empty_store"
  by (simp add: store_ok_def keys_ok_def spent_with_def empty_store_def)

lemma ex_reached: "store_reaches id ''v1'' empty_store ex_store"
  unfolding ex_store_def by (intro store_reaches.request store_reaches.start)

lemma ex_store_ok: "store_ok ex_store"
  using cwf.keeps_store_reaches [OF ex_reached] empty_store_ok by blast

subsection \<open>Properties\<close>

text \<open>
  The store stays well formed under every request: a record lies under its own id, lives at most
  two hours, has a receipt exactly when it was used, and every used nonce belongs to exactly one
  used record.
\<close>

theorem credential_store_stays_ok:
  assumes "store_ok store" "store_reaches hash version store store'"
  shows "store_ok store'"
  using cwf.keeps_store_reaches [OF assms(2)] assms(1) by blast



text \<open>
  A submission succeeds once.  After a commit has returned, no commit in any later store returns
  for the same credential or for any other credential with the same organization, asset, job and
  nonce, and the credential is no longer authorized.
\<close>

theorem commit_succeeds_once:
  assumes "store_ok store" "snd (commit_credential hash token received package sha receipt store) = Inr x"
    and "snd (split_token token store) = Inr k" "st_records store k = Some r"
    and "store_reaches hash version (fst (commit_credential hash token received package sha receipt store)) store'"
    and "snd (split_token token' store') = Inr k'" "st_records store' k' = Some r'"
    and "nonce_key (cr_scope r') = nonce_key (cr_scope r)"
  shows "(\<exists>e. snd (commit_credential hash token' received' package' sha' receipt' store') = Inl e) \<and>
         (k' = k \<longrightarrow> (\<exists>e. snd (authorize_credential hash token' received' store') = Inl e))"
proof -
  let ?s1 = "fst (commit_credential hash token received package sha receipt store)"
  obtain t where s1: "?s1 = spend k r receipt t store"
    using assms(2) by (rule commit_Inr) (use assms(3,4) in auto)
  have "keys_ok ?s1"
    using cwf.keeps_commit_op [of store hash token received package sha receipt] assms(1) store_ok_keys
    by blast
  then have ev: "st_used_nonces ?s1 \<subseteq> st_used_nonces store'"
    "\<And>r1. st_records ?s1 k = Some r1 \<Longrightarrow> \<exists>r2. st_records store' k = Some r2 \<and> record_later r1 r2"
    using cred.keeps_store_reaches [OF assms(5)] unfolding store_evolves_def by blast+
  have "nonce_key (cr_scope r') \<in> st_used_nonces store'"
    using ev(1) assms(8) by (auto simp: s1 spend_def)
  then have "snd (commit_credential hash token' received' package' sha' receipt' store') \<noteq> Inr y" for y
    using assms(6,7) by (auto elim!: commit_Inr)
  moreover have "snd (authorize_credential hash token' received' store') \<noteq> Inr y" if "k' = k" for y
  proof -
    have "cr_used_at r' \<noteq> None"
      using ev(2) [unfolded s1 spend_def] assms(7) that by (auto simp: record_later_def)
    then have "life_of r' \<noteq> Live" by (simp add: life_of_def)
    then show ?thesis using assms(6,7) by (auto simp: authorize_Inr)
  qed
  ultimately show ?thesis by (metis old.sum.exhaust)
qed

text \<open>
  A token is authorized exactly when it is well formed, its record exists with the digest of the
  token, is neither revoked nor used, has fewer than five failures, and has not expired; the
  authorization carries the scope of the record.
\<close>

theorem authorize_credential_iff:
  "snd (authorize_credential hash token received store) = Inr a \<longleftrightarrow>
     (\<exists>t k r. received = Aware t \<and> snd (split_token token store) = Inr k \<and> st_records store k = Some r \<and>
        cr_token_hash r = hash token \<and> cr_revoked_at r = None \<and> cr_used_at r = None \<and>
        cr_failed_attempts r < 5 \<and> t \<le> cr_expires_at r \<and>
        a = \<lparr>ac_credential_id = cr_credential_id r, ac_scope = cr_scope r, ac_expires_at = cr_expires_at r\<rparr>)"
  unfolding authorize_Inr life_Live by simp

lemma split_char_single: "c \<notin> set s \<Longrightarrow> split_char c s = [s]"
  by (induction s rule: split_char.induct) auto

lemma split_char_append: "c \<notin> set s \<Longrightarrow> split_char c (s @ c # r) = s # split_char c r"
  by (induction s) auto

lemma split_issued_token:
  assumes "CHR ''.'' \<notin> set i" "CHR ''.'' \<notin> set secret" "uuid_parse i \<noteq> None" "b64_length secret = Some 32"
  shows "snd (split_token (token_text_of i secret) store) = Inr i"
proof -
  have "split_char (CHR ''.'') (token_text_of i secret) = [credential_scheme, i, secret]"
    using split_char_append [of "CHR ''.''" credential_scheme "i @ ''.'' @ secret"]
      split_char_append [of "CHR ''.''" i secret] split_char_single [OF assms(2)] assms(1)
    by (simp add: token_text_of_def credential_scheme_def)
  then show ?thesis using assms(3,4) by (auto simp: split_token_def)
qed

text \<open>
  What is issued is accepted: the token of a credential just issued is authorized at every
  instant up to its expiry, for exactly the scope it was issued for, and can be committed when the
  nonce is unused; the receipt names the scope's organization, asset, job and manifest.
\<close>

theorem issued_token_accepted:
  assumes "CHR ''.'' \<notin> set i" "CHR ''.'' \<notin> set secret" "uuid_parse i \<noteq> None" "b64_length secret = Some 32"
    and "snd (issue hash version scope (Aware t0) ttl i secret store) = Inr c"
    and "store' = fst (issue hash version scope (Aware t0) ttl i secret store)"
    and "t \<le> t0 + ttl" "nonce_key scope \<notin> st_used_nonces store"
  shows "snd (authorize_credential hash (ic_token c) (Aware t) store') =
           Inr \<lparr>ac_credential_id = i, ac_scope = scope, ac_expires_at = t0 + ttl\<rparr> \<and>
         snd (commit_credential hash (ic_token c) (Aware t) package sha receipt store') =
           Inr \<lparr>sr_receipt_id = receipt, sr_credential_id = i, sr_organization_id = cs_organization_id scope,
             sr_asset_id = cs_asset_id scope, sr_job_id = cs_job_id scope,
             sr_manifest_id = cs_manifest_id scope, sr_package_id = package,
             sr_archive_sha256 = sha, sr_committed_at = t\<rparr>"
proof -
  let ?r = "\<lparr>cr_credential_id = i, cr_scope = scope, cr_token_hash = hash (token_text_of i secret),
              cr_hash_key_version = version, cr_issued_at = t0,
              cr_expires_at = t0 + ttl, cr_failed_attempts = 0, cr_used_at = None,
              cr_revoked_at = None, cr_receipt_id = None\<rparr>"
  have s: "st_records store' i = Some ?r" "st_used_nonces store' = st_used_nonces store"
    "ic_token c = token_text_of i secret"
    using assms(5,6) by (auto simp: issue_def op_bind_snd op_bind_fst Let_def store_insert_def value_error_def
        split: if_splits sum.splits)
  have live: "life_of ?r = Live" by (simp add: life_Live)
  have split: "snd (split_token (ic_token c) store') = Inr i"
    using split_issued_token [OF assms(1-4)] s(3) by simp
  have "snd (authorize_credential hash (ic_token c) (Aware t) store') =
      Inr \<lparr>ac_credential_id = i, ac_scope = scope, ac_expires_at = t0 + ttl\<rparr>"
    unfolding authorize_Inr using s split live assms(7) by simp
  moreover have "snd (check_record_state ?r t store') = Inr ()"
    using live assms(7) by (simp add: check_record_Inr)
  ultimately show ?thesis
    using s split assms(8)
    by (simp add: commit_credential_def store_commit_def op_bind_snd store_get_def the_receipt_def)
qed

end
