(* ===== verification/Recovery_Queue.thy ===== *)
theory Recovery_Queue
  imports Tables Py_Uuid Py_Time Canonical_Json
begin

section \<open>Task delivery (\<^verbatim>\<open>persistence/database/queue_repository.py\<close>, \<^verbatim>\<open>apps/worker\<close>)\<close>

text \<open>
  The outbox, the attempts of the workers and the results of the recovery workflow.  Each function
  of the repository runs inside one transaction of its caller; a raise rolls the transaction back.
  New UUIDs, the process id and the current instant are arguments; the text of the creation instant
  is an argument as well.  A UUID in a table is its canonical text.  The broker between publisher
  and worker is not in the model: any transaction may follow any other, so that lost, delayed and
  repeated deliveries and crashed workers are all among the runs.
\<close>

subsection \<open>Tables\<close>

datatype step_status =
    STEP_DISPATCH_PENDING | STEP_QUEUED | STEP_RUNNING | STEP_SUCCEEDED | STEP_FAILED
  | STEP_QUARANTINED

datatype outbox_status = OUTBOX_PENDING | OUTBOX_PUBLISHED | OUTBOX_RETRY_PENDING

datatype execution_status =
    RUNNING | WORKER_LOST | SUCCEEDED | RETURN_EXISTING | EXECUTION_FAILED | EXECUTION_QUARANTINED

record audit_job =
  aj_id :: string
  aj_organization_id :: string
  aj_asset_id :: string
  aj_evaluation_as_of :: int

record workflow_step =
  ws_id :: string
  ws_organization_id :: string
  ws_job_id :: string
  ws_asset_id :: string
  ws_step_name :: string
  ws_status :: step_status
  ws_expected_input_version :: int
  ws_idempotency_key :: string
  ws_attempt_count :: int
  ws_last_error_code :: "string option"
  ws_created_at :: int
  ws_updated_at :: int

record outbox_event =
  oe_id :: string
  oe_organization_id :: string
  oe_job_id :: string
  oe_workflow_step_id :: string
  oe_event_type :: string
  oe_schema_version :: string
  oe_task_name :: string
  oe_queue_name :: string
  oe_payload :: dict
  oe_status :: outbox_status
  oe_publish_attempts :: int
  oe_published_at :: "int option"
  oe_last_error_code :: "string option"
  oe_created_at :: int
  oe_updated_at :: int

record task_execution =
  te_id :: string
  te_organization_id :: string
  te_job_id :: string
  te_workflow_step_id :: string
  te_delivery_id :: string
  te_attempt_no :: int
  te_status :: execution_status
  te_worker_pid :: "int option"
  te_error_code :: "string option"
  te_started_at :: int
  te_completed_at :: "int option"

record workflow_result =
  wr_id :: string
  wr_organization_id :: string
  wr_job_id :: string
  wr_workflow_step_id :: string
  wr_idempotency_key :: string
  wr_result_sha256 :: string
  wr_created_at :: int

record queue_db =
  q_organizations :: "string list"
  q_assets :: "(string \<times> string) list"
  q_jobs :: "audit_job list"
  q_steps :: "workflow_step list"
  q_events :: "outbox_event list"
  q_executions :: "task_execution list"
  q_results :: "workflow_result list"
  q_finding_count :: int

datatype queue_code =
    INVALID_MESSAGE | EVENT_NOT_FOUND | EVENT_STATE_INVALID | STEP_NOT_FOUND | DELIVERY_NOT_FOUND
  | ACTIVE_WORKER_INVALID

datatype queue_failure =
    QueueRecoveryError queue_code string
  | QueueIntegrityError
  | NoResultFound
  | CanonicalizationFailed

type_synonym 'a queue_op = "(queue_db, queue_failure, 'a) op"

definition queue_error :: "queue_code \<Rightarrow> string \<Rightarrow> 'a queue_op" where
  "queue_error code message = op_raise (QueueRecoveryError code message)"

record recovery_probe_reference =
  rp_job_id :: string
  rp_step_id :: string
  rp_outbox_event_id :: string
  rp_baseline_finding_count :: int

record recovery_attempt =
  rt_execution_id :: string
  rt_attempt_no :: int
  rt_should_hold_for_worker_loss :: bool
  rt_result_already_exists :: bool

subsection \<open>Messages\<close>

definition recovery_task_name :: string where
  "recovery_task_name = ''secai.maintenance.verify_delivery''"

definition recovery_step_name :: string where
  "recovery_step_name = ''IMP044_RECOVERY_PROBE''"

definition recovery_queue_name :: string where
  "recovery_queue_name = ''maintenance''"

definition recovery_schema_version :: string where
  "recovery_schema_version = ''1.0''"

definition recovery_input_version :: int where
  "recovery_input_version = 1"

definition message_fields :: "string list" where
  "message_fields = [''schema_version'', ''task_name'', ''job_id'', ''asset_id'', ''workflow_step'',
     ''expected_input_version'', ''idempotency_key'', ''correlation_id'', ''created_at'']"

definition message_uuid :: "pyval \<Rightarrow> string \<Rightarrow> queue_failure + string" where
  "message_uuid value field =
     (case value of
        PStr s \<Rightarrow>
          (case uuid_parse s of
             None \<Rightarrow> Inl (QueueRecoveryError INVALID_MESSAGE (''Queue message UUID is invalid: '' @ field @ ''.''))
           | Some u \<Rightarrow> Inr u)
      | _ \<Rightarrow> Inl (QueueRecoveryError INVALID_MESSAGE (''Queue message field is invalid: '' @ field @ ''.'')))"

definition recovery_key :: "string \<Rightarrow> string" where
  "recovery_key job_id = ''job:'' @ job_id @ '':'' @ recovery_step_name @ '':v1''"

definition created_at_text :: "pyval \<Rightarrow> string option" where
  "created_at_text v =
     (case v of
        PStr s \<Rightarrow> if s \<noteq> [] \<and> last s = CHR ''Z'' then Some s else None
      | _ \<Rightarrow> None)"

definition put_item :: "string \<Rightarrow> pyval \<Rightarrow> dict \<Rightarrow> dict" where
  "put_item k v d = map (\<lambda>(k', v'). if k' = k then (k', v) else (k', v')) d"

definition validate_recovery_message :: "dict \<Rightarrow> queue_failure + dict" where
  "validate_recovery_message value =
     (if set (dict_keys value) \<noteq> set message_fields
      then Inl (QueueRecoveryError INVALID_MESSAGE ''Queue message fields are invalid.'')
      else
        bindE (message_uuid (py_get value ''job_id'') ''job_id'') (\<lambda>job_id.
        bindE (message_uuid (py_get value ''asset_id'') ''asset_id'') (\<lambda>asset_id.
        bindE (message_uuid (py_get value ''correlation_id'') ''correlation_id'') (\<lambda>correlation_id.
        case created_at_text (py_get value ''created_at'') of
          None \<Rightarrow> Inl (QueueRecoveryError INVALID_MESSAGE ''Queue message binding is invalid.'')
        | Some created_at \<Rightarrow>
            if \<not> py_eq (py_get value ''schema_version'') (PStr recovery_schema_version) \<or>
               \<not> py_eq (py_get value ''task_name'') (PStr recovery_task_name) \<or>
               \<not> py_eq (py_get value ''workflow_step'') (PStr recovery_step_name) \<or>
               \<not> py_eq (py_get value ''expected_input_version'') (PInt recovery_input_version) \<or>
               \<not> py_eq (py_get value ''idempotency_key'') (PStr (recovery_key job_id))
            then Inl (QueueRecoveryError INVALID_MESSAGE ''Queue message binding is invalid.'')
            else if datetime_fromisoformat (butlast created_at @ ''+00:00'') = None
            then Inl (QueueRecoveryError INVALID_MESSAGE ''Queue message timestamp is invalid.'')
            else Inr (put_item ''job_id'' (PStr job_id) (put_item ''asset_id'' (PStr asset_id)
                   (put_item ''correlation_id'' (PStr correlation_id) value)))))))"

definition validated :: "dict \<Rightarrow> dict queue_op" where
  "validated value =
     (case validate_recovery_message value of Inl e \<Rightarrow> op_raise e | Inr message \<Rightarrow> op_return message)"

subsection \<open>Publishing\<close>

definition probe_message :: "string \<Rightarrow> string \<Rightarrow> string \<Rightarrow> string \<Rightarrow> dict" where
  "probe_message job_id asset_id correlation_id created_at =
     [(''schema_version'', PStr recovery_schema_version), (''task_name'', PStr recovery_task_name),
      (''job_id'', PStr job_id), (''asset_id'', PStr asset_id),
      (''workflow_step'', PStr recovery_step_name),
      (''expected_input_version'', PInt recovery_input_version),
      (''idempotency_key'', PStr (recovery_key job_id)), (''correlation_id'', PStr correlation_id),
      (''created_at'', PStr created_at)]"

definition probe_step :: "string \<Rightarrow> string \<Rightarrow> string \<Rightarrow> string \<Rightarrow> int \<Rightarrow> workflow_step" where
  "probe_step step_id organization_id job_id asset_id now =
     \<lparr>ws_id = step_id, ws_organization_id = organization_id, ws_job_id = job_id, ws_asset_id = asset_id,
      ws_step_name = recovery_step_name, ws_status = STEP_DISPATCH_PENDING,
      ws_expected_input_version = recovery_input_version, ws_idempotency_key = recovery_key job_id,
      ws_attempt_count = 0, ws_last_error_code = None, ws_created_at = now, ws_updated_at = now\<rparr>"

definition probe_event ::
  "string \<Rightarrow> string \<Rightarrow> string \<Rightarrow> string \<Rightarrow> dict \<Rightarrow> int \<Rightarrow> outbox_event" where
  "probe_event event_id organization_id job_id step_id payload now =
     \<lparr>oe_id = event_id, oe_organization_id = organization_id, oe_job_id = job_id,
      oe_workflow_step_id = step_id, oe_event_type = ''workflow.step.requested'',
      oe_schema_version = recovery_schema_version, oe_task_name = recovery_task_name,
      oe_queue_name = recovery_queue_name, oe_payload = payload, oe_status = OUTBOX_PENDING,
      oe_publish_attempts = 0, oe_published_at = None, oe_last_error_code = None,
      oe_created_at = now, oe_updated_at = now\<rparr>"

text \<open>The keys of the new rows that a table refuses to repeat.\<close>

definition probe_conflict ::
  "string \<Rightarrow> string \<Rightarrow> string \<Rightarrow> string \<Rightarrow> string \<Rightarrow> queue_db \<Rightarrow> bool" where
  "probe_conflict organization_id asset_id job_id step_id event_id db \<longleftrightarrow>
     organization_id \<in> set (q_organizations db) \<or> asset_id \<in> fst ` set (q_assets db) \<or>
     job_id \<in> aj_id ` set (q_jobs db) \<or> step_id \<in> ws_id ` set (q_steps db) \<or>
     recovery_key job_id \<in> ws_idempotency_key ` set (q_steps db) \<or>
     event_id \<in> oe_id ` set (q_events db)"

definition prepare_recovery_probe ::
  "string \<Rightarrow> string \<Rightarrow> string \<Rightarrow> string \<Rightarrow> string \<Rightarrow> string \<Rightarrow> string \<Rightarrow> int \<Rightarrow>
     recovery_probe_reference queue_op" where
  "prepare_recovery_probe organization_id asset_id job_id step_id event_id correlation_id
       created_at now =
     op_bind (validated (probe_message job_id asset_id correlation_id created_at)) (\<lambda>payload db.
       if probe_conflict organization_id asset_id job_id step_id event_id db
       then (db, Inl QueueIntegrityError)
       else
         (db\<lparr>q_organizations := q_organizations db @ [organization_id],
             q_assets := q_assets db @ [(asset_id, organization_id)],
             q_jobs := q_jobs db @ [\<lparr>aj_id = job_id, aj_organization_id = organization_id,
               aj_asset_id = asset_id, aj_evaluation_as_of = now\<rparr>],
             q_steps := q_steps db @ [probe_step step_id organization_id job_id asset_id now],
             q_events := q_events db @
               [probe_event event_id organization_id job_id step_id payload now]\<rparr>,
          Inr \<lparr>rp_job_id = job_id, rp_step_id = step_id, rp_outbox_event_id = event_id,
               rp_baseline_finding_count = q_finding_count db\<rparr>))"

definition event_by_id :: "string \<Rightarrow> queue_db \<Rightarrow> outbox_event option" where
  "event_by_id event_id db = find (\<lambda>e. oe_id e = event_id) (q_events db)"

definition step_by_id :: "string \<Rightarrow> queue_db \<Rightarrow> workflow_step option" where
  "step_by_id step_id db = find (\<lambda>s. ws_id s = step_id) (q_steps db)"

definition execution_by_id :: "string \<Rightarrow> queue_db \<Rightarrow> task_execution option" where
  "execution_by_id execution_id db = find (\<lambda>e. te_id e = execution_id) (q_executions db)"

definition pending_event_payload :: "string \<Rightarrow> (dict \<times> string \<times> string) queue_op" where
  "pending_event_payload event_id =
     op_bind (op_read (event_by_id event_id)) (\<lambda>found.
     case found of
       None \<Rightarrow> queue_error EVENT_NOT_FOUND ''Outbox event is unavailable.''
     | Some event \<Rightarrow>
         if oe_status event \<notin> {OUTBOX_PENDING, OUTBOX_RETRY_PENDING}
         then queue_error EVENT_STATE_INVALID ''Outbox event is not pending.''
         else op_bind (validated (oe_payload event)) (\<lambda>payload.
                op_return (payload, oe_task_name event, oe_queue_name event)))"

text \<open>\<open>UPDATE outbox_events ... WHERE\<close>, with the number of rows it changed.\<close>

definition update_events ::
  "(outbox_event \<Rightarrow> bool) \<Rightarrow> (outbox_event \<Rightarrow> outbox_event) \<Rightarrow> nat queue_op" where
  "update_events c f db =
     (db\<lparr>q_events := update_rows c f (q_events db)\<rparr>, Inr (length (filter c (q_events db))))"

definition publishable :: "string \<Rightarrow> outbox_event \<Rightarrow> bool" where
  "publishable event_id e \<longleftrightarrow> oe_id e = event_id \<and> oe_status e \<in> {OUTBOX_PENDING, OUTBOX_RETRY_PENDING}"

definition record_event_publish_attempt :: "string \<Rightarrow> int \<Rightarrow> unit queue_op" where
  "record_event_publish_attempt event_id now =
     op_bind (update_events (publishable event_id)
       (\<lambda>e. e\<lparr>oe_status := OUTBOX_PENDING, oe_publish_attempts := oe_publish_attempts e + 1,
              oe_last_error_code := None, oe_updated_at := now\<rparr>)) (\<lambda>changed.
     if changed \<noteq> 1
     then queue_error EVENT_STATE_INVALID ''Outbox event cannot start another publish attempt.''
     else op_return ())"

definition set_step_queued :: "string \<Rightarrow> int \<Rightarrow> queue_db \<Rightarrow> queue_db" where
  "set_step_queued step_id now db =
     db\<lparr>q_steps := update_rows (\<lambda>s. ws_id s = step_id)
          (\<lambda>s. s\<lparr>ws_status := STEP_QUEUED, ws_updated_at := now\<rparr>) (q_steps db)\<rparr>"

definition mark_event_published :: "string \<Rightarrow> int \<Rightarrow> unit queue_op" where
  "mark_event_published event_id now =
     op_bind (update_events (publishable event_id)
       (\<lambda>e. e\<lparr>oe_status := OUTBOX_PUBLISHED, oe_published_at := Some now, oe_last_error_code := None,
              oe_updated_at := now\<rparr>)) (\<lambda>changed.
     if changed \<noteq> 1
     then queue_error EVENT_STATE_INVALID ''Outbox publish acknowledgement lost its pending event.''
     else
       op_bind (op_read (event_by_id event_id)) (\<lambda>found.
       case found of
         None \<Rightarrow> queue_error EVENT_NOT_FOUND ''Outbox event disappeared after publication.''
       | Some event \<Rightarrow> op_write (set_step_queued (oe_workflow_step_id event) now)))"

definition mark_event_retry_pending :: "string \<Rightarrow> int \<Rightarrow> unit queue_op" where
  "mark_event_retry_pending event_id now =
     op_bind (update_events (\<lambda>e. oe_id e = event_id \<and> oe_status e = OUTBOX_PENDING)
       (\<lambda>e. e\<lparr>oe_status := OUTBOX_RETRY_PENDING,
              oe_last_error_code := Some ''BROKER_PUBLISH_FAILED'', oe_updated_at := now\<rparr>)) (\<lambda>changed.
     if changed \<noteq> 1
     then queue_error EVENT_STATE_INVALID ''Outbox event cannot be scheduled for retry.''
     else op_return ())"

subsection \<open>Working\<close>

definition message_matches :: "dict \<Rightarrow> workflow_step \<Rightarrow> bool" where
  "message_matches message step \<longleftrightarrow>
     py_eq (PStr (ws_job_id step)) (py_get message ''job_id'') \<and>
     py_eq (PStr (ws_asset_id step)) (py_get message ''asset_id'') \<and>
     py_eq (PStr (ws_step_name step)) (py_get message ''workflow_step'') \<and>
     py_eq (PInt (ws_expected_input_version step)) (py_get message ''expected_input_version'') \<and>
     py_eq (PStr (ws_idempotency_key step)) (py_get message ''idempotency_key'')"

definition lose_running :: "string \<Rightarrow> int \<Rightarrow> task_execution list \<Rightarrow> task_execution list" where
  "lose_running step_id now =
     update_rows (\<lambda>e. te_workflow_step_id e = step_id \<and> te_status e = RUNNING)
       (\<lambda>e. e\<lparr>te_status := WORKER_LOST, te_error_code := Some ''WORKER_PROCESS_LOST'',
              te_completed_at := Some now\<rparr>)"

definition result_exists :: "workflow_step \<Rightarrow> queue_db \<Rightarrow> bool" where
  "result_exists step db \<longleftrightarrow> ws_idempotency_key step \<in> wr_idempotency_key ` set (q_results db)"

definition start_attempt ::
  "workflow_step \<Rightarrow> string \<Rightarrow> string \<Rightarrow> int \<Rightarrow> int \<Rightarrow> recovery_attempt queue_op" where
  "start_attempt step delivery_id execution_id worker_pid now db =
     (let executions = lose_running (ws_id step) now (q_executions db);
          exists = result_exists step db;
          attempt_no = ws_attempt_count step + 1;
          execution = \<lparr>te_id = execution_id, te_organization_id = ws_organization_id step,
            te_job_id = ws_job_id step, te_workflow_step_id = ws_id step,
            te_delivery_id = delivery_id, te_attempt_no = attempt_no,
            te_status = (if exists then RETURN_EXISTING else RUNNING),
            te_worker_pid = Some worker_pid, te_error_code = None, te_started_at = now,
            te_completed_at = (if exists then Some now else None)\<rparr>
      in if execution_id \<in> te_id ` set executions \<or>
            (ws_id step, attempt_no) \<in> (\<lambda>e. (te_workflow_step_id e, te_attempt_no e)) ` set executions
         then (db, Inl QueueIntegrityError)
         else
           (db\<lparr>q_executions := executions @ [execution],
               q_steps := update_rows (\<lambda>s. ws_id s = ws_id step)
                 (\<lambda>s. s\<lparr>ws_attempt_count := attempt_no,
                        ws_status := (if exists then STEP_SUCCEEDED else STEP_RUNNING),
                        ws_last_error_code := None, ws_updated_at := now\<rparr>) (q_steps db)\<rparr>,
            Inr \<lparr>rt_execution_id = execution_id, rt_attempt_no = attempt_no,
                 rt_should_hold_for_worker_loss = (attempt_no = 1 \<and> \<not> exists),
                 rt_result_already_exists = exists\<rparr>))"

definition begin_recovery_attempt ::
  "string \<Rightarrow> string \<Rightarrow> string \<Rightarrow> int \<Rightarrow> int \<Rightarrow> recovery_attempt queue_op" where
  "begin_recovery_attempt event_id delivery_id execution_id worker_pid now =
     op_bind (op_read (event_by_id event_id)) (\<lambda>found.
     case found of
       None \<Rightarrow> queue_error EVENT_NOT_FOUND ''Outbox event is unavailable.''
     | Some event \<Rightarrow>
         op_bind (validated (oe_payload event)) (\<lambda>message.
         op_bind (op_read (step_by_id (oe_workflow_step_id event))) (\<lambda>found_step.
         case found_step of
           None \<Rightarrow> queue_error STEP_NOT_FOUND ''Workflow step is unavailable.''
         | Some step \<Rightarrow>
             if \<not> message_matches message step
             then queue_error INVALID_MESSAGE ''Queue message differs from PostgreSQL workflow truth.''
             else start_attempt step delivery_id execution_id worker_pid now)))"

definition result_payload :: "workflow_step \<Rightarrow> dict" where
  "result_payload step =
     [(''schema_version'', PStr ''1.0''), (''job_id'', PStr (ws_job_id step)),
      (''workflow_step'', PStr (ws_step_name step)),
      (''expected_input_version'', PInt (ws_expected_input_version step)),
      (''idempotency_key'', PStr (ws_idempotency_key step)),
      (''result'', PStr ''DELIVERY_VERIFIED'')]"

definition finish_attempt ::
  "task_execution \<Rightarrow> workflow_step \<Rightarrow> string \<Rightarrow> string \<Rightarrow> int \<Rightarrow> int \<Rightarrow> bool queue_op" where
  "finish_attempt execution step result_sha256 result_id created_at now db =
     (let inserted = (\<not> result_exists step db);
          results = (if inserted
            then q_results db @ [\<lparr>wr_id = result_id, wr_organization_id = ws_organization_id step,
              wr_job_id = ws_job_id step, wr_workflow_step_id = ws_id step,
              wr_idempotency_key = ws_idempotency_key step, wr_result_sha256 = result_sha256,
              wr_created_at = created_at\<rparr>]
            else q_results db)
      in if inserted \<and> result_id \<in> wr_id ` set (q_results db) then (db, Inl QueueIntegrityError)
         else
           (db\<lparr>q_results := results,
               q_executions := update_rows (\<lambda>e. te_id e = te_id execution)
                 (\<lambda>e. e\<lparr>te_status := (if inserted then SUCCEEDED else RETURN_EXISTING),
                        te_completed_at := Some now, te_worker_pid := None\<rparr>) (q_executions db),
               q_steps := update_rows (\<lambda>s. ws_id s = ws_id step)
                 (\<lambda>s. s\<lparr>ws_status := STEP_SUCCEEDED, ws_last_error_code := None, ws_updated_at := now\<rparr>)
                 (q_steps db)\<rparr>,
            Inr inserted))"

definition complete_recovery_attempt ::
  "json_dumps \<Rightarrow> digest \<Rightarrow> string \<Rightarrow> string \<Rightarrow> int \<Rightarrow> int \<Rightarrow> bool queue_op" where
  "complete_recovery_attempt dumps sha256 execution_id result_id created_at now =
     op_bind (op_read (execution_by_id execution_id)) (\<lambda>found.
     case found of
       None \<Rightarrow> queue_error DELIVERY_NOT_FOUND ''Running task execution is unavailable.''
     | Some execution \<Rightarrow>
         if te_status execution \<noteq> RUNNING
         then queue_error DELIVERY_NOT_FOUND ''Running task execution is unavailable.''
         else
           op_bind (op_read (step_by_id (te_workflow_step_id execution))) (\<lambda>found_step.
           case found_step of
             None \<Rightarrow> op_raise NoResultFound
           | Some step \<Rightarrow>
               (case canonical_sha256 dumps sha256 (PDict (result_payload step)) of
                  Inl _ \<Rightarrow> op_raise CanonicalizationFailed
                | Inr result_sha256 \<Rightarrow>
                    finish_attempt execution step result_sha256 result_id created_at now)))"

subsection \<open>Transactions\<close>

definition transaction :: "'a queue_op \<Rightarrow> 'a queue_op" where
  "transaction m db = (case m db of (db', Inl e) \<Rightarrow> (db, Inl e) | (db', Inr x) \<Rightarrow> (db', Inr x))"

text \<open>
  The task of a worker, \<open>verify_delivery\<close>: two transactions, the second only when no result was
  there.  Between them the worker may be lost; then only the first has happened.
\<close>

definition verify_delivery ::
  "json_dumps \<Rightarrow> digest \<Rightarrow> string \<Rightarrow> string \<Rightarrow> string \<Rightarrow> string \<Rightarrow> int \<Rightarrow> int \<Rightarrow> int \<Rightarrow> int \<Rightarrow>
     unit queue_op" where
  "verify_delivery dumps sha256 event_id delivery_id execution_id result_id worker_pid now created_at
       later =
     op_bind (transaction (begin_recovery_attempt event_id delivery_id execution_id worker_pid now))
       (\<lambda>attempt.
     if rt_result_already_exists attempt then op_return ()
     else
       op_bind (transaction (complete_recovery_attempt dumps sha256 (rt_execution_id attempt) result_id
                  created_at later)) (\<lambda>_. op_return ()))"

subsection \<open>Status\<close>

record probe_status =
  ps_status :: step_status
  ps_job_id :: string
  ps_step_id :: string
  ps_outbox_event_id :: string
  ps_outbox_status :: outbox_status
  ps_publish_attempts :: int
  ps_attempt_count :: int
  ps_worker_lost_count :: nat
  ps_return_existing_count :: nat
  ps_result_count :: nat
  ps_finding_count :: int
  ps_active_worker_pid :: "int option"

definition count_status :: "execution_status \<Rightarrow> task_execution list \<Rightarrow> nat" where
  "count_status status executions = length (filter (\<lambda>e. te_status e = status) executions)"

definition recovery_probe_status :: "string \<Rightarrow> probe_status queue_op" where
  "recovery_probe_status job_id =
     op_bind (op_read (\<lambda>db. find (\<lambda>s. ws_job_id s = job_id \<and> ws_step_name s = recovery_step_name)
                               (q_steps db))) (\<lambda>found.
     case found of
       None \<Rightarrow> queue_error STEP_NOT_FOUND ''Recovery workflow is unavailable.''
     | Some step \<Rightarrow>
         op_bind (op_read (\<lambda>db. find (\<lambda>e. oe_workflow_step_id e = ws_id step) (q_events db))) (\<lambda>found_event.
         case found_event of
           None \<Rightarrow> queue_error EVENT_NOT_FOUND ''Recovery Outbox event is unavailable.''
         | Some event \<Rightarrow>
             op_read (\<lambda>db.
               let executions = sort_key te_attempt_no
                     (filter (\<lambda>e. te_workflow_step_id e = ws_id step) (q_executions db))
               in \<lparr>ps_status = ws_status step, ps_job_id = ws_job_id step, ps_step_id = ws_id step,
                   ps_outbox_event_id = oe_id event, ps_outbox_status = oe_status event,
                   ps_publish_attempts = oe_publish_attempts event,
                   ps_attempt_count = ws_attempt_count step,
                   ps_worker_lost_count = count_status WORKER_LOST executions,
                   ps_return_existing_count = count_status RETURN_EXISTING executions,
                   ps_result_count = length (filter (\<lambda>r. wr_workflow_step_id r = ws_id step) (q_results db)),
                   ps_finding_count = q_finding_count db,
                   ps_active_worker_pid =
                     (case find (\<lambda>e. te_status e = RUNNING) (rev executions) of
                        None \<Rightarrow> None | Some e \<Rightarrow> te_worker_pid e)\<rparr>)))"

end
