(* ===== verification/Queue_Delivery.thy ===== *)
theory Queue_Delivery
  imports Recovery_Queue
begin

section \<open>Delivery of tasks: every run of publishers and workers\<close>

text \<open>
  The transactions of publishers and workers as steps of one relation, in any order.  The invariant
  \<open>queue_ok\<close> ties attempts, results and steps together; from it follow that a result is written
  once and that one undisturbed delivery is enough to have it.
\<close>

inductive queue_step :: "json_dumps \<Rightarrow> digest \<Rightarrow> queue_db \<Rightarrow> queue_db \<Rightarrow> bool"
  for dumps sha256 where
  prepare: "uuid_parse job_id = Some job_id \<Longrightarrow> uuid_parse asset_id = Some asset_id \<Longrightarrow>
    queue_step dumps sha256 db (fst (transaction (prepare_recovery_probe organization_id asset_id job_id
      step_id event_id correlation_id created_at now) db))"
| publish: "queue_step dumps sha256 db (fst (transaction (record_event_publish_attempt event_id now) db))"
| acknowledge: "queue_step dumps sha256 db (fst (transaction (mark_event_published event_id now) db))"
| retry: "queue_step dumps sha256 db (fst (transaction (mark_event_retry_pending event_id now) db))"
| start_work: "queue_step dumps sha256 db (fst (transaction (begin_recovery_attempt event_id delivery_id
    execution_id worker_pid now) db))"
| complete: "queue_step dumps sha256 db (fst (transaction (complete_recovery_attempt dumps sha256
    execution_id result_id created now) db))"

abbreviation queue_reaches :: "json_dumps \<Rightarrow> digest \<Rightarrow> queue_db \<Rightarrow> queue_db \<Rightarrow> bool" where
  "queue_reaches dumps sha256 \<equiv> (queue_step dumps sha256)\<^sup>*\<^sup>*"

definition empty_queue :: queue_db where
  "empty_queue = \<lparr>q_organizations = [], q_assets = [], q_jobs = [], q_steps = [], q_events = [],
     q_executions = [], q_results = [], q_finding_count = 0\<rparr>"

subsection \<open>The invariant\<close>

definition runs :: "string \<Rightarrow> queue_db \<Rightarrow> task_execution list" where
  "runs step_id db = filter (\<lambda>e. te_workflow_step_id e = step_id) (q_executions db)"

definition step_ok :: "queue_db \<Rightarrow> workflow_step \<Rightarrow> bool" where
  "step_ok db s \<longleftrightarrow>
     0 \<le> ws_attempt_count s \<and>
     map te_attempt_no (runs (ws_id s) db) = [1..ws_attempt_count s] \<and>
     count_status RUNNING (runs (ws_id s) db) \<le> (if result_exists s db then 0 else 1) \<and>
     count_status SUCCEEDED (runs (ws_id s) db) = (if result_exists s db then 1 else 0) \<and>
     (ws_status s = STEP_SUCCEEDED \<longrightarrow> result_exists s db)"

definition event_ok :: "queue_db \<Rightarrow> outbox_event \<Rightarrow> bool" where
  "event_ok db ev \<longleftrightarrow>
     (\<exists>s\<in>set (q_steps db). ws_id s = oe_workflow_step_id ev \<and>
        (\<exists>m. validate_recovery_message (oe_payload ev) = Inr m \<and> message_matches m s))"

definition queue_ok :: "queue_db \<Rightarrow> bool" where
  "queue_ok db \<longleftrightarrow>
     distinct (map ws_id (q_steps db)) \<and> distinct (map ws_idempotency_key (q_steps db)) \<and>
     distinct (map te_id (q_executions db)) \<and> distinct (map wr_idempotency_key (q_results db)) \<and>
     te_workflow_step_id ` set (q_executions db) \<subseteq> ws_id ` set (q_steps db) \<and>
     (\<lambda>r. (wr_workflow_step_id r, wr_idempotency_key r)) ` set (q_results db) \<subseteq>
       (\<lambda>s. (ws_id s, ws_idempotency_key s)) ` set (q_steps db) \<and>
     (\<forall>s\<in>set (q_steps db). step_ok db s) \<and> (\<forall>ev\<in>set (q_events db). event_ok db ev) \<and>
     distinct (map oe_id (q_events db))"

lemma queue_okD:
  assumes "queue_ok db"
  shows "distinct (map ws_id (q_steps db))" "distinct (map ws_idempotency_key (q_steps db))"
    "distinct (map te_id (q_executions db))" "distinct (map wr_idempotency_key (q_results db))"
    "te_workflow_step_id ` set (q_executions db) \<subseteq> ws_id ` set (q_steps db)"
    "(\<lambda>r. (wr_workflow_step_id r, wr_idempotency_key r)) ` set (q_results db) \<subseteq>
       (\<lambda>s. (ws_id s, ws_idempotency_key s)) ` set (q_steps db)"
    "s \<in> set (q_steps db) \<Longrightarrow> step_ok db s" "ev \<in> set (q_events db) \<Longrightarrow> event_ok db ev"
    "distinct (map oe_id (q_events db))"
  using assms unfolding queue_ok_def by blast+

lemma empty_queue_ok: "queue_ok empty_queue"
  by (simp add: queue_ok_def empty_queue_def)

text \<open>What identifies a step; no transaction changes it.\<close>

definition step_identity :: "workflow_step \<Rightarrow> string \<times> string \<times> string \<times> string \<times> int \<times> string" where
  "step_identity s = (ws_id s, ws_job_id s, ws_asset_id s, ws_step_name s, ws_expected_input_version s,
     ws_idempotency_key s)"

lemma message_matches_identity: "step_identity s = step_identity s' \<Longrightarrow> message_matches m s = message_matches m s'"
  by (simp add: step_identity_def message_matches_def)

lemma event_ok_steps:
  assumes "event_ok db ev" "step_identity ` set (q_steps db) \<subseteq> step_identity ` set (q_steps db')"
  shows "event_ok db' ev"
proof -
  obtain s m where s: "s \<in> set (q_steps db)" "ws_id s = oe_workflow_step_id ev"
    "validate_recovery_message (oe_payload ev) = Inr m" "message_matches m s"
    using assms(1) by (auto simp: event_ok_def)
  obtain s' where s': "s' \<in> set (q_steps db')" "step_identity s' = step_identity s"
    using assms(2) s(1) by (metis (no_types, lifting) image_iff subsetD)
  then have "ws_id s' = ws_id s" "message_matches m s'"
    using message_matches_identity [OF s'(2)] s(4) by (auto simp: step_identity_def)
  with s s' show ?thesis by (auto simp: event_ok_def)
qed

lemma step_ok_same:
  assumes "q_executions db' = q_executions db" "q_results db' = q_results db"
  shows "step_ok db' s = step_ok db s" "result_exists s db' = result_exists s db"
  using assms by (simp_all add: step_ok_def runs_def result_exists_def)

lemma step_ok_other:
  assumes "runs (ws_id s) db' = runs (ws_id s) db" "result_exists s db' = result_exists s db" "step_ok db s"
  shows "step_ok db' s"
  using assms by (simp add: step_ok_def)

lemma map_update_rows:
  "(\<And>r. k (f r) = k r) \<Longrightarrow> map k (update_rows c f rows) = map k rows"
  by (simp add: update_rows_def)

lemma image_update_rows:
  "(\<And>r. k (f r) = k r) \<Longrightarrow> k ` set (update_rows c f rows) = k ` set rows"
  by (metis map_update_rows list.set_map)

lemma queue_ok_events:
  assumes "queue_ok db" "\<And>e. oe_workflow_step_id (f e) = oe_workflow_step_id e \<and> oe_payload (f e) = oe_payload e \<and> oe_id (f e) = oe_id e"
  shows "queue_ok (db\<lparr>q_events := update_rows c f (q_events db)\<rparr>)"
proof -
  let ?db = "db\<lparr>q_events := update_rows c f (q_events db)\<rparr>"
  have ev: "event_ok ?db e" if "e \<in> set (q_events ?db)" for e
  proof -
    obtain e0 where "e0 \<in> set (q_events db)" "e = (if c e0 then f e0 else e0)"
      using \<open>e \<in> set (q_events ?db)\<close> by (auto simp: set_update_rows)
    with assms show ?thesis by (simp add: queue_ok_def event_ok_def)
  qed
  have st: "step_ok ?db s = step_ok db s" for s by (rule step_ok_same) simp_all
  show ?thesis using assms ev unfolding queue_ok_def st by (simp add: map_update_rows)
qed

lemma queue_ok_step:
  assumes ok: "queue_ok db" and step: "step \<in> set (q_steps db)"
    and steps: "q_steps db' = update_rows (\<lambda>s. ws_id s = ws_id step) f (q_steps db)"
    and f: "\<And>s. step_identity (f s) = step_identity s" and events: "q_events db' = q_events db"
    and keys: "distinct (map te_id (q_executions db'))" "distinct (map wr_idempotency_key (q_results db'))"
      "te_workflow_step_id ` set (q_executions db') \<subseteq> ws_id ` set (q_steps db)"
      "(\<lambda>r. (wr_workflow_step_id r, wr_idempotency_key r)) ` set (q_results db') \<subseteq>
         (\<lambda>s. (ws_id s, ws_idempotency_key s)) ` set (q_steps db)"
    and other: "\<And>i. i \<noteq> ws_id step \<Longrightarrow> runs i db' = runs i db"
      "\<And>s. ws_idempotency_key s \<noteq> ws_idempotency_key step \<Longrightarrow> result_exists s db' = result_exists s db"
    and worked: "step_ok db' (f step)"
  shows "queue_ok db'"
proof -
  have proj: "ws_id (f s) = ws_id s" "ws_idempotency_key (f s) = ws_idempotency_key s" for s
    using f [of s] by (simp_all add: step_identity_def)
  have ids: "map ws_id (q_steps db') = map ws_id (q_steps db)"
    "map ws_idempotency_key (q_steps db') = map ws_idempotency_key (q_steps db)"
    by (simp_all add: steps map_update_rows proj)
  have pairs: "(\<lambda>s. (ws_id s, ws_idempotency_key s)) ` set (q_steps db') =
      (\<lambda>s. (ws_id s, ws_idempotency_key s)) ` set (q_steps db)"
    unfolding steps by (rule image_update_rows) (simp add: proj)
  have "step_ok db' s" if s: "s \<in> set (q_steps db')" for s
  proof -
    obtain s0 where s0: "s0 \<in> set (q_steps db)" "s = (if ws_id s0 = ws_id step then f s0 else s0)"
      using s by (auto simp: steps set_update_rows)
    show ?thesis
    proof (cases "ws_id s0 = ws_id step")
      case True
      then have "s0 = step"
        using queue_okD(1) [OF ok] s0(1) step by (simp add: distinct_map inj_on_def)
      then show ?thesis using s0(2) worked True by simp
    next
      case False
      then have "ws_idempotency_key s0 \<noteq> ws_idempotency_key step"
        using queue_okD(2) [OF ok] s0(1) step by (auto simp: distinct_map inj_on_def)
      then show ?thesis
        using False s0 other queue_okD(7) [OF ok s0(1)] by (simp add: step_ok_other)
    qed
  qed
  moreover have "event_ok db' ev" if "ev \<in> set (q_events db')" for ev
  proof (rule event_ok_steps)
    show "event_ok db ev" using queue_okD(8) [OF ok] that by (simp add: events)
    show "step_identity ` set (q_steps db) \<subseteq> step_identity ` set (q_steps db')"
      unfolding steps by (simp add: image_update_rows f)
  qed
  ultimately show ?thesis
    using queue_okD(1,2,9) [OF ok] keys pairs ids events unfolding queue_ok_def
    by (metis list.set_map)
qed

lemma queue_ok_queued:
  assumes "queue_ok db"
  shows "queue_ok (set_step_queued i now db)"
proof (cases "i \<in> ws_id ` set (q_steps db)")
  case True
  then obtain step where step: "step \<in> set (q_steps db)" "i = ws_id step" by auto
  then show ?thesis
    using queue_okD [OF assms]
    by (intro queue_ok_step [OF assms step(1), where f = "\<lambda>s. s\<lparr>ws_status := STEP_QUEUED, ws_updated_at := now\<rparr>"])
      (auto simp: set_step_queued_def step_identity_def runs_def result_exists_def step_ok_def)
next
  case False
  then have "set_step_queued i now db = db"
    by (auto simp: set_step_queued_def update_rows_def intro!: queue_db.equality map_idI)
  with assms show ?thesis by simp
qed

lemma transaction_fst:
  "fst (transaction m db) = (case snd (m db) of Inl _ \<Rightarrow> db | Inr _ \<Rightarrow> fst (m db))"
  by (simp add: transaction_def split: prod.splits sum.splits)

subsection \<open>Preparing a step\<close>

lemma put_item_Cons: "put_item k v (kv # d) = (if fst kv = k then (fst kv, v) else kv) # put_item k v d"
  by (cases kv) (simp add: put_item_def)

lemma put_item_Nil: "put_item k v [] = []"
  by (simp add: put_item_def)

lemma put_item_get: "py_get (put_item k v d) j = (if j = k \<and> k \<in> set (dict_keys d) then v else py_get d j)"
proof (induction d)
  case (Cons kv d)
  then show ?case by (cases kv; cases "j = k") (simp_all add: put_item_Cons dict_keys_def)
qed (simp add: put_item_Nil)

lemma put_item_keys [simp]: "dict_keys (put_item k v d) = dict_keys d"
  by (induction d) (simp_all add: put_item_Cons put_item_Nil dict_keys_def)

lemma put_item_twice [simp]: "put_item k v (put_item k v d) = put_item k v d"
  by (induction d) (simp_all add: put_item_Cons put_item_Nil)

lemma put_item_commute: "k \<noteq> j \<Longrightarrow> put_item k v (put_item j w d) = put_item j w (put_item k v d)"
  by (induction d) (simp_all add: put_item_Cons put_item_Nil)

lemma message_uuid_Inr: "message_uuid v f = Inr u \<longleftrightarrow> (\<exists>s. v = PStr s \<and> uuid_parse s = Some u)"
  by (auto simp: message_uuid_def split: pyval.splits option.splits)

lemma validate_recovery_message_Inr:
  "validate_recovery_message value = Inr m \<longleftrightarrow>
     set (dict_keys value) = set message_fields \<and>
     (\<exists>job_id asset_id correlation_id created_at.
        message_uuid (py_get value ''job_id'') ''job_id'' = Inr job_id \<and>
        message_uuid (py_get value ''asset_id'') ''asset_id'' = Inr asset_id \<and>
        message_uuid (py_get value ''correlation_id'') ''correlation_id'' = Inr correlation_id \<and>
        created_at_text (py_get value ''created_at'') = Some created_at \<and>
        py_eq (py_get value ''schema_version'') (PStr recovery_schema_version) \<and>
        py_eq (py_get value ''task_name'') (PStr recovery_task_name) \<and>
        py_eq (py_get value ''workflow_step'') (PStr recovery_step_name) \<and>
        py_eq (py_get value ''expected_input_version'') (PInt recovery_input_version) \<and>
        py_eq (py_get value ''idempotency_key'') (PStr (recovery_key job_id)) \<and>
        datetime_fromisoformat (butlast created_at @ ''+00:00'') \<noteq> None \<and>
        m = put_item ''job_id'' (PStr job_id) (put_item ''asset_id'' (PStr asset_id)
              (put_item ''correlation_id'' (PStr correlation_id) value)))"
  unfolding validate_recovery_message_def bindE_def
  by (auto split: if_splits sum.splits option.splits)

lemma validate_idempotent:
  assumes "validate_recovery_message value = Inr m"
  shows "validate_recovery_message m = Inr m"
proof -
  obtain job_id asset_id correlation_id created_at where
    keys: "set (dict_keys value) = set message_fields" and
    ids: "message_uuid (py_get value ''job_id'') ''job_id'' = Inr job_id"
      "message_uuid (py_get value ''asset_id'') ''asset_id'' = Inr asset_id"
      "message_uuid (py_get value ''correlation_id'') ''correlation_id'' = Inr correlation_id" and
    rest: "created_at_text (py_get value ''created_at'') = Some created_at"
      "py_eq (py_get value ''schema_version'') (PStr recovery_schema_version)"
      "py_eq (py_get value ''task_name'') (PStr recovery_task_name)"
      "py_eq (py_get value ''workflow_step'') (PStr recovery_step_name)"
      "py_eq (py_get value ''expected_input_version'') (PInt recovery_input_version)"
      "py_eq (py_get value ''idempotency_key'') (PStr (recovery_key job_id))"
      "datetime_fromisoformat (butlast created_at @ ''+00:00'') \<noteq> None" and
    m: "m = put_item ''job_id'' (PStr job_id) (put_item ''asset_id'' (PStr asset_id)
          (put_item ''correlation_id'' (PStr correlation_id) value))"
    using assms unfolding validate_recovery_message_Inr by (elim exE conjE) (rule that, simp_all)
  have mem: "''job_id'' \<in> set (dict_keys value)" "''asset_id'' \<in> set (dict_keys value)"
    "''correlation_id'' \<in> set (dict_keys value)"
    unfolding keys by (simp_all add: message_fields_def)
  have canonical: "uuid_parse job_id = Some job_id" "uuid_parse asset_id = Some asset_id"
    "uuid_parse correlation_id = Some correlation_id"
    using ids by (auto simp: message_uuid_Inr intro: uuid_parse_canonical)
  have "set (dict_keys m) = set message_fields" by (simp add: m keys)
  moreover have "m = put_item ''job_id'' (PStr job_id) (put_item ''asset_id'' (PStr asset_id)
      (put_item ''correlation_id'' (PStr correlation_id) m))"
    by (simp add: m put_item_commute [of "''correlation_id''" "''job_id''"]
        put_item_commute [of "''correlation_id''" "''asset_id''"] put_item_commute [of "''asset_id''" "''job_id''"])
  moreover have "message_uuid (py_get m ''job_id'') ''job_id'' = Inr job_id"
    "message_uuid (py_get m ''asset_id'') ''asset_id'' = Inr asset_id"
    "message_uuid (py_get m ''correlation_id'') ''correlation_id'' = Inr correlation_id"
    by (simp_all add: m put_item_get mem canonical message_uuid_def)
  moreover have "created_at_text (py_get m ''created_at'') = Some created_at"
    "py_eq (py_get m ''schema_version'') (PStr recovery_schema_version)"
    "py_eq (py_get m ''task_name'') (PStr recovery_task_name)"
    "py_eq (py_get m ''workflow_step'') (PStr recovery_step_name)"
    "py_eq (py_get m ''expected_input_version'') (PInt recovery_input_version)"
    "py_eq (py_get m ''idempotency_key'') (PStr (recovery_key job_id))"
    using rest by (simp_all add: m put_item_get)
  ultimately show ?thesis
    unfolding validate_recovery_message_Inr using rest(7) by blast
qed

lemma probe_message_valid:
  assumes "uuid_parse job_id = Some job_id" "uuid_parse asset_id = Some asset_id"
    "validate_recovery_message (probe_message job_id asset_id correlation_id created_at) = Inr m"
  shows "validate_recovery_message m = Inr m"
    "message_matches m (probe_step step_id organization_id job_id asset_id now)"
proof -
  show "validate_recovery_message m = Inr m"
    using assms(3) by (rule validate_idempotent)
  have "message_uuid (py_get (probe_message job_id asset_id correlation_id created_at) ''job_id'') ''job_id'' = Inr job_id"
    "message_uuid (py_get (probe_message job_id asset_id correlation_id created_at) ''asset_id'') ''asset_id'' = Inr asset_id"
    using assms(1,2) by (simp_all add: probe_message_def message_uuid_def)
  with assms(3) obtain c where
    "m = put_item ''job_id'' (PStr job_id) (put_item ''asset_id'' (PStr asset_id)
       (put_item ''correlation_id'' (PStr c) (probe_message job_id asset_id correlation_id created_at)))"
    unfolding validate_recovery_message_Inr by auto
  then show "message_matches m (probe_step step_id organization_id job_id asset_id now)"
    by (simp add: message_matches_def put_item_get probe_message_def probe_step_def dict_keys_def)
qed

definition prepared :: "string list \<Rightarrow> (string \<times> string) list \<Rightarrow> audit_job list \<Rightarrow> workflow_step \<Rightarrow>
    outbox_event \<Rightarrow> queue_db \<Rightarrow> queue_db" where
  "prepared organizations assets jobs s e db =
     db\<lparr>q_organizations := organizations, q_assets := assets, q_jobs := jobs, q_steps := q_steps db @ [s], q_events := q_events db @ [e]\<rparr>"

lemma queue_ok_prepared:
  assumes ok: "queue_ok db" and new: "ws_id s \<notin> ws_id ` set (q_steps db)"
    "ws_idempotency_key s \<notin> ws_idempotency_key ` set (q_steps db)" "ws_attempt_count s = 0"
    "ws_status s = STEP_DISPATCH_PENDING" and ev: "oe_workflow_step_id e = ws_id s" "oe_id e \<notin> oe_id ` set (q_events db)"
    "validate_recovery_message (oe_payload e) = Inr m" "message_matches m s"
  shows "queue_ok (prepared organizations assets jobs s e db)"
proof -
  let ?db = "prepared organizations assets jobs s e db"
  have same: "q_executions ?db = q_executions db" "q_results ?db = q_results db"
    by (simp_all add: prepared_def)
  have "runs (ws_id s) db = []"
    unfolding runs_def filter_empty_conv using queue_okD(5) [OF ok] new(1)
    by (metis (mono_tags, lifting) imageI subsetD)
  moreover have "\<not> result_exists s db"
  proof
    assume "result_exists s db"
    then obtain r where "r \<in> set (q_results db)" "wr_idempotency_key r = ws_idempotency_key s"
      by (auto simp: result_exists_def)
    moreover have "(wr_workflow_step_id r, wr_idempotency_key r) \<in>
        (\<lambda>s. (ws_id s, ws_idempotency_key s)) ` set (q_steps db)"
      using ok \<open>r \<in> set (q_results db)\<close> unfolding queue_ok_def by blast
    ultimately show False using new(2) by auto
  qed
  ultimately have s: "step_ok ?db s"
    using new(3,4) step_ok_same [OF same] by (simp add: step_ok_def runs_def result_exists_def same count_status_def)
  have old: "event_ok ?db v" if "v \<in> set (q_events db)" for v
  proof (rule event_ok_steps)
    show "event_ok db v" using ok that by (simp add: queue_ok_def)
    show "step_identity ` set (q_steps db) \<subseteq> step_identity ` set (q_steps ?db)"
      by (auto simp: prepared_def)
  qed
  have e: "event_ok ?db e"
    using ev by (auto simp: event_ok_def prepared_def)
  have steps: "\<forall>x\<in>set (q_steps ?db). step_ok ?db x"
    using ok s unfolding queue_ok_def by (auto simp: prepared_def step_ok_same [OF same, unfolded prepared_def])
  have events: "\<forall>v\<in>set (q_events ?db). event_ok ?db v"
    using old e by (simp add: prepared_def)
  show ?thesis
    using ok steps events new(1,2) ev(2) unfolding queue_ok_def same by (auto simp: prepared_def)
qed

lemma queue_ok_prepare:
  assumes "queue_ok db" "uuid_parse job_id = Some job_id" "uuid_parse asset_id = Some asset_id"
  shows "queue_ok (fst (transaction (prepare_recovery_probe organization_id asset_id job_id
      step_id event_id correlation_id created_at now) db))"
proof (cases "validate_recovery_message (probe_message job_id asset_id correlation_id created_at)")
  case Inl
  then show ?thesis
    using assms(1) by (simp add: transaction_fst prepare_recovery_probe_def validated_def op_raise_def)
next
  case (Inr m)
  let ?s = "probe_step step_id organization_id job_id asset_id now"
  let ?e = "probe_event event_id organization_id job_id step_id m now"
  have "queue_ok (prepared organizations assets jobs ?s ?e db)"
    if "\<not> probe_conflict organization_id asset_id job_id step_id event_id db"
    for organizations assets jobs
    using assms(1) probe_message_valid [OF assms(2,3) Inr] that
    by (intro queue_ok_prepared [where m = m]) (simp_all add: probe_conflict_def probe_step_def probe_event_def)
  then show ?thesis
    using assms(1) Inr
    by (simp add: transaction_fst prepare_recovery_probe_def validated_def prepared_def)
qed


subsection \<open>Working on a step\<close>

lemma count_status_simps [simp]:
  "count_status x [] = 0"
  "count_status x (e # es) = (if te_status e = x then 1 else 0) + count_status x es"
  "count_status x (es @ fs) = count_status x es + count_status x fs"
  by (simp_all add: count_status_def)

lemma runs_lose_running:
  "filter (\<lambda>e. te_workflow_step_id e = i) (lose_running j now es) =
   (if i = j then lose_running j now (filter (\<lambda>e. te_workflow_step_id e = i) es)
    else filter (\<lambda>e. te_workflow_step_id e = i) es)"
  by (induction es) (auto simp: lose_running_def update_rows_def)

lemma count_lose_running:
  assumes "\<forall>e\<in>set es. te_workflow_step_id e = j"
  shows "count_status RUNNING (lose_running j now es) = 0"
    "count_status SUCCEEDED (lose_running j now es) = count_status SUCCEEDED es"
  using assms by (induction es) (auto simp: lose_running_def update_rows_def)

lemma map_lose_running:
  "map te_id (lose_running j now es) = map te_id es"
  "map te_attempt_no (lose_running j now es) = map te_attempt_no es"
  "map te_workflow_step_id (lose_running j now es) = map te_workflow_step_id es"
  by (simp_all add: lose_running_def map_update_rows)

lemma runs_step_id: "e \<in> set (runs i db) \<Longrightarrow> te_workflow_step_id e = i"
  by (simp add: runs_def)

lemma attempt_fresh:
  assumes "queue_ok db" "step \<in> set (q_steps db)"
  shows "(ws_id step, ws_attempt_count step + 1) \<notin>
    (\<lambda>e. (te_workflow_step_id e, te_attempt_no e)) ` set (lose_running (ws_id step) now (q_executions db))"
proof -
  have "ws_attempt_count step + 1 \<notin> set (map te_attempt_no (runs (ws_id step) db))"
    using queue_okD(7) [OF assms] by (simp add: step_ok_def)
  then have "(ws_id step, ws_attempt_count step + 1) \<notin>
    (\<lambda>e. (te_workflow_step_id e, te_attempt_no e)) ` set (q_executions db)"
    unfolding runs_def by force
  then show ?thesis
    unfolding lose_running_def by (simp add: image_update_rows)
qed

definition started :: "workflow_step \<Rightarrow> task_execution \<Rightarrow> bool \<Rightarrow> int \<Rightarrow> queue_db \<Rightarrow> queue_db" where
  "started step execution exists now db =
     db\<lparr>q_executions := lose_running (ws_id step) now (q_executions db) @ [execution],
        q_steps := update_rows (\<lambda>s. ws_id s = ws_id step)
          (\<lambda>s. s\<lparr>ws_attempt_count := ws_attempt_count step + 1,
                 ws_status := (if exists then STEP_SUCCEEDED else STEP_RUNNING),
                 ws_last_error_code := None, ws_updated_at := now\<rparr>) (q_steps db)\<rparr>"

lemma queue_ok_started:
  assumes ok: "queue_ok db" and step: "step \<in> set (q_steps db)"
    and e: "te_id e \<notin> te_id ` set (q_executions db)" "te_workflow_step_id e = ws_id step"
      "te_attempt_no e = ws_attempt_count step + 1"
      "te_status e = (if exists then RETURN_EXISTING else RUNNING)"
    and exists: "exists = result_exists step db"
  shows "queue_ok (started step e exists now db)"
proof (rule queue_ok_step [OF ok step])
  let ?db = "started step e exists now db"
  let ?f = "\<lambda>s. s\<lparr>ws_attempt_count := ws_attempt_count step + 1,
    ws_status := (if exists then STEP_SUCCEEDED else STEP_RUNNING),
    ws_last_error_code := None, ws_updated_at := now\<rparr>"
  show "q_steps ?db = update_rows (\<lambda>s. ws_id s = ws_id step) ?f (q_steps db)" "q_events ?db = q_events db"
    by (simp_all add: started_def)
  have runs: "runs i ?db = (if i = ws_id step then lose_running i now (runs i db) @ [e] else runs i db)" for i
    by (simp add: runs_def started_def runs_lose_running e(2))
  show "runs i ?db = runs i db" if "i \<noteq> ws_id step" for i
    using that by (simp add: runs)
  have res: "result_exists s ?db = result_exists s db" for s
    by (simp add: result_exists_def started_def)
  then show "result_exists s ?db = result_exists s db" for s .
  have "set (map te_id (lose_running (ws_id step) now (q_executions db))) = te_id ` set (q_executions db)"
    by (simp only: map_lose_running list.set_map)
  then show "distinct (map te_id (q_executions ?db))"
    using queue_okD(3) [OF ok] e(1) by (simp add: started_def map_lose_running)
  show "distinct (map wr_idempotency_key (q_results ?db))"
    using queue_okD(4) [OF ok] by (simp add: started_def)
  have "te_workflow_step_id ` set (lose_running (ws_id step) now (q_executions db)) = te_workflow_step_id ` set (q_executions db)"
    by (metis map_lose_running(3) list.set_map)
  then show "te_workflow_step_id ` set (q_executions ?db) \<subseteq> ws_id ` set (q_steps db)"
    using queue_okD(5) [OF ok] e(2) step by (simp add: started_def)
  show "(\<lambda>r. (wr_workflow_step_id r, wr_idempotency_key r)) ` set (q_results ?db) \<subseteq>
       (\<lambda>s. (ws_id s, ws_idempotency_key s)) ` set (q_steps db)"
    using queue_okD(6) [OF ok] by (simp add: started_def)
  have eq: "result_exists (?f step) ?db = exists"
    unfolding res by (simp add: exists result_exists_def)
  have "step_ok db step" by (rule queue_okD(7) [OF ok step])
  moreover have "[1..ws_attempt_count step + 1] = [1..ws_attempt_count step] @ [ws_attempt_count step + 1]"
    if "0 \<le> ws_attempt_count step"
    using that by (simp add: upto_rec2)
  ultimately show "step_ok ?db (?f step)"
    using count_lose_running [of "runs (ws_id step) db" "ws_id step" now] e(3,4)
    unfolding step_ok_def runs eq exists [symmetric]
    by (cases exists) (simp_all add: map_lose_running runs_step_id)
qed (simp add: step_identity_def)


lemma start_attempt_cases:
  assumes ok: "queue_ok db" and step: "step \<in> set (q_steps db)"
  shows "(execution_id \<in> te_id ` set (q_executions db) \<and>
      start_attempt step delivery_id execution_id worker_pid now db = (db, Inl QueueIntegrityError)) \<or>
    (execution_id \<notin> te_id ` set (q_executions db) \<and>
      (\<exists>e. te_id e = execution_id \<and> te_workflow_step_id e = ws_id step \<and>
         te_status e = (if result_exists step db then RETURN_EXISTING else RUNNING) \<and>
         queue_ok (started step e (result_exists step db) now db) \<and>
       start_attempt step delivery_id execution_id worker_pid now db =
         (started step e (result_exists step db) now db,
          Inr \<lparr>rt_execution_id = execution_id, rt_attempt_no = ws_attempt_count step + 1,
            rt_should_hold_for_worker_loss = (ws_attempt_count step + 1 = 1 \<and> \<not> result_exists step db),
            rt_result_already_exists = result_exists step db\<rparr>)))"
proof -
  let ?exists = "result_exists step db"
  let ?e = "\<lparr>te_id = execution_id, te_organization_id = ws_organization_id step,
            te_job_id = ws_job_id step, te_workflow_step_id = ws_id step,
            te_delivery_id = delivery_id, te_attempt_no = ws_attempt_count step + 1,
            te_status = (if ?exists then RETURN_EXISTING else RUNNING),
            te_worker_pid = Some worker_pid, te_error_code = None, te_started_at = now,
            te_completed_at = (if ?exists then Some now else None)\<rparr>"
  have ids: "te_id ` set (lose_running (ws_id step) now (q_executions db)) = te_id ` set (q_executions db)"
    by (simp add: lose_running_def image_update_rows)
  show ?thesis
  proof (cases "execution_id \<in> te_id ` set (q_executions db)")
    case True
    then show ?thesis by (simp only: start_attempt_def Let_def ids) simp
  next
    case False
    have "queue_ok (started step ?e ?exists now db)"
      by (rule queue_ok_started [OF ok step]) (simp_all add: False)
    moreover have "start_attempt step delivery_id execution_id worker_pid now db =
         (started step ?e ?exists now db,
          Inr \<lparr>rt_execution_id = execution_id, rt_attempt_no = ws_attempt_count step + 1,
            rt_should_hold_for_worker_loss = (ws_attempt_count step + 1 = 1 \<and> \<not> ?exists),
            rt_result_already_exists = ?exists\<rparr>)"
      using attempt_fresh [OF ok step, of now] False
      by (simp only: start_attempt_def Let_def ids started_def) simp
    ultimately show ?thesis
      using False by (intro disjI2 conjI exI [of _ ?e]) simp_all
  qed
qed


subsection \<open>Finishing a step\<close>

lemma count_update_one:
  assumes "distinct (map te_id es)" "x \<in> set es"
  shows "count_status st (update_rows (\<lambda>e. te_id e = te_id x) f es) + (if te_status x = st then 1 else 0) =
    count_status st es + (if te_status (f x) = st then 1 else 0)"
  using assms
proof (induction es)
  case (Cons e es)
  show ?case
  proof (cases "e = x")
    case True
    then have "update_rows (\<lambda>e. te_id e = te_id x) f es = es"
      using Cons.prems(1) unfolding update_rows_def by (intro map_idI) (auto simp: image_iff)
    then have "update_rows (\<lambda>e. te_id e = te_id x) f (e # es) = f x # es"
      using True by (simp add: update_rows_def)
    then show ?thesis using True by simp
  next
    case False
    with Cons.prems have "x \<in> set es" "te_id e \<noteq> te_id x" by force+
    moreover from this(2) have "update_rows (\<lambda>e. te_id e = te_id x) f (e # es) =
        e # update_rows (\<lambda>e. te_id e = te_id x) f es"
      by (simp add: update_rows_def)
    ultimately show ?thesis using Cons by simp
  qed
qed simp

lemma runs_update:
  assumes "\<And>e. te_workflow_step_id (f e) = te_workflow_step_id e"
  shows "filter (\<lambda>e. te_workflow_step_id e = i) (update_rows c f es) =
    update_rows c f (filter (\<lambda>e. te_workflow_step_id e = i) es)"
  by (induction es) (simp_all add: update_rows_def assms)

lemma running_no_result:
  assumes "queue_ok db" "e \<in> set (q_executions db)" "te_status e = RUNNING" "step \<in> set (q_steps db)"
    "ws_id step = te_workflow_step_id e"
  shows "\<not> result_exists step db"
proof
  assume "result_exists step db"
  then have "count_status RUNNING (runs (ws_id step) db) = 0"
    using queue_okD(7) [OF assms(1,4)] by (simp add: step_ok_def)
  then show False
    using assms(2,3,5) by (simp add: count_status_def runs_def filter_empty_conv)
qed

definition finished :: "task_execution \<Rightarrow> workflow_step \<Rightarrow> workflow_result \<Rightarrow> int \<Rightarrow> queue_db \<Rightarrow> queue_db" where
  "finished execution step r now db =
     db\<lparr>q_results := q_results db @ [r],
        q_executions := update_rows (\<lambda>e. te_id e = te_id execution)
          (\<lambda>e. e\<lparr>te_status := SUCCEEDED, te_completed_at := Some now, te_worker_pid := None\<rparr>) (q_executions db),
        q_steps := update_rows (\<lambda>s. ws_id s = ws_id step)
          (\<lambda>s. s\<lparr>ws_status := STEP_SUCCEEDED, ws_last_error_code := None, ws_updated_at := now\<rparr>)
          (q_steps db)\<rparr>"

lemma queue_ok_finished:
  assumes ok: "queue_ok db" and e: "e \<in> set (q_executions db)" "te_status e = RUNNING"
    and step: "step \<in> set (q_steps db)" "ws_id step = te_workflow_step_id e"
    and r: "wr_workflow_step_id r = ws_id step" "wr_idempotency_key r = ws_idempotency_key step"
  shows "queue_ok (finished e step r now db)"
proof (rule queue_ok_step [OF ok step(1)])
  let ?db = "finished e step r now db"
  let ?f = "\<lambda>s. s\<lparr>ws_status := STEP_SUCCEEDED, ws_last_error_code := None, ws_updated_at := now\<rparr>"
  let ?g = "\<lambda>e. e\<lparr>te_status := SUCCEEDED, te_completed_at := Some now, te_worker_pid := None\<rparr>"
  let ?c = "\<lambda>x. te_id x = te_id e"
  show "q_steps ?db = update_rows (\<lambda>s. ws_id s = ws_id step) ?f (q_steps db)" "q_events ?db = q_events db"
    by (simp_all add: finished_def)
  have no: "\<not> result_exists step db" by (rule running_no_result [OF ok e step])
  have runs: "runs i ?db = update_rows ?c ?g (runs i db)" for i
    by (simp add: runs_def finished_def runs_update)
  show "runs i ?db = runs i db" if "i \<noteq> ws_id step" for i
  proof -
    have "x = e" if "x \<in> set (q_executions db)" "?c x" for x
      using queue_okD(3) [OF ok] e(1) that by (simp add: distinct_map inj_on_def)
    then have "\<not> ?c x" if "x \<in> set (runs i db)" for x
      using that \<open>i \<noteq> ws_id step\<close> step(2) by (auto simp: runs_def)
    then show ?thesis unfolding runs by (simp add: update_rows_def map_idI)
  qed
  show "result_exists s ?db = result_exists s db" if "ws_idempotency_key s \<noteq> ws_idempotency_key step" for s
    using that r(2) by (auto simp: result_exists_def finished_def)
  show "distinct (map te_id (q_executions ?db))"
    using queue_okD(3) [OF ok] by (simp add: finished_def map_update_rows)
  show "distinct (map wr_idempotency_key (q_results ?db))"
    using queue_okD(4) [OF ok] no r(2) by (simp add: finished_def result_exists_def)
  show "te_workflow_step_id ` set (q_executions ?db) \<subseteq> ws_id ` set (q_steps db)"
    using queue_okD(5) [OF ok] by (simp add: finished_def image_update_rows)
  show "(\<lambda>r. (wr_workflow_step_id r, wr_idempotency_key r)) ` set (q_results ?db) \<subseteq>
       (\<lambda>s. (ws_id s, ws_idempotency_key s)) ` set (q_steps db)"
    using queue_okD(6) [OF ok] r step(1) by (simp add: finished_def)
  have "distinct (map te_id (runs (ws_id step) db))"
    unfolding runs_def by (rule distinct_map_filter) (rule queue_okD(3) [OF ok])
  moreover have "e \<in> set (runs (ws_id step) db)" using e(1) step(2) by (simp add: runs_def)
  ultimately have count: "count_status st (update_rows ?c ?g (runs (ws_id step) db)) + (if te_status e = st then 1 else 0) =
      count_status st (runs (ws_id step) db) + (if te_status (?g e) = st then 1 else 0)" for st
    by (rule count_update_one)
  have "result_exists (?f step) ?db"
    using r(2) by (simp add: result_exists_def finished_def)
  moreover have "step_ok db step" by (rule queue_okD(7) [OF ok step(1)])
  ultimately show "step_ok ?db (?f step)"
    using count [of RUNNING] count [of SUCCEEDED] e(2) no
    by (simp add: step_ok_def runs map_update_rows)
qed (simp add: step_identity_def)


lemma finish_attempt_cases:
  assumes ok: "queue_ok db" and e: "e \<in> set (q_executions db)" "te_status e = RUNNING"
    and step: "step \<in> set (q_steps db)" "ws_id step = te_workflow_step_id e"
  shows "if result_id \<in> wr_id ` set (q_results db)
    then finish_attempt e step h result_id created now db = (db, Inl QueueIntegrityError)
    else \<exists>r. wr_idempotency_key r = ws_idempotency_key step \<and>
           queue_ok (finished e step r now db) \<and>
           finish_attempt e step h result_id created now db = (finished e step r now db, Inr True)"
proof -
  let ?r = "\<lparr>wr_id = result_id, wr_organization_id = ws_organization_id step, wr_job_id = ws_job_id step,
    wr_workflow_step_id = ws_id step, wr_idempotency_key = ws_idempotency_key step,
    wr_result_sha256 = h, wr_created_at = created\<rparr>"
  have no: "\<not> result_exists step db" by (rule running_no_result [OF ok e step])
  then have "finish_attempt e step h result_id created now db =
      (if result_id \<in> wr_id ` set (q_results db) then (db, Inl QueueIntegrityError)
       else (finished e step ?r now db, Inr True))"
    by (simp add: finish_attempt_def finished_def)
  moreover have "queue_ok (finished e step ?r now db)"
    by (rule queue_ok_finished [OF ok e step]) simp_all
  moreover have "wr_idempotency_key ?r = ws_idempotency_key step" by simp
  ultimately show ?thesis by (metis (full_types))
qed

lemma queue_ok_begin:
  assumes ok: "queue_ok db"
  shows "queue_ok (fst (transaction (begin_recovery_attempt event_id delivery_id execution_id worker_pid now) db))"
proof -
  have "queue_ok (fst (start_attempt step delivery_id execution_id worker_pid now db))"
    if "step_by_id i db = Some step" for i step
  proof -
    have "step \<in> set (q_steps db)" using that unfolding step_by_id_def by (auto dest: find_key_SomeD)
    from start_attempt_cases [OF ok this, of execution_id delivery_id worker_pid now] show ?thesis
      using ok by (elim disjE conjE exE) simp_all
  qed
  then show ?thesis
    using ok unfolding transaction_fst begin_recovery_attempt_def
    by (auto simp: validated_def queue_error_def op_raise_def split: option.splits sum.splits)
qed

lemma queue_ok_complete:
  assumes ok: "queue_ok db"
  shows "queue_ok (fst (transaction (complete_recovery_attempt dumps sha256 execution_id result_id created now) db))"
proof -
  have "queue_ok (fst (finish_attempt e step h result_id created now db))"
    if "execution_by_id execution_id db = Some e" "te_status e = RUNNING"
      "step_by_id (te_workflow_step_id e) db = Some step" for e step h
  proof -
    have "e \<in> set (q_executions db)" "step \<in> set (q_steps db)" "ws_id step = te_workflow_step_id e"
      using that unfolding step_by_id_def execution_by_id_def by (auto dest: find_key_SomeD)
    from finish_attempt_cases [OF ok this(1) that(2) this(2,3), of result_id h created now] show ?thesis
      using ok by (auto split: if_splits)
  qed
  then show ?thesis
    using ok unfolding transaction_fst complete_recovery_attempt_def
    by (auto simp: queue_error_def op_raise_def split: option.splits sum.splits)
qed

lemma queue_ok_publish:
  assumes "queue_ok db"
  shows "queue_ok (fst (transaction (record_event_publish_attempt event_id now) db))"
    "queue_ok (fst (transaction (mark_event_retry_pending event_id now) db))"
    "queue_ok (fst (transaction (mark_event_published event_id now) db))"
proof -
  show "queue_ok (fst (transaction (record_event_publish_attempt event_id now) db))"
    using assms unfolding transaction_fst record_event_publish_attempt_def op_bind_def update_events_def
    by (simp add: queue_error_def op_raise_def op_return_def queue_ok_events split: sum.split)
  show "queue_ok (fst (transaction (mark_event_retry_pending event_id now) db))"
    using assms unfolding transaction_fst mark_event_retry_pending_def op_bind_def update_events_def
    by (simp add: queue_error_def op_raise_def op_return_def queue_ok_events split: sum.split)
  show "queue_ok (fst (transaction (mark_event_published event_id now) db))"
    using assms unfolding transaction_fst mark_event_published_def op_bind_def update_events_def
    by (simp add: queue_error_def op_raise_def op_read_def op_write_def queue_ok_events queue_ok_queued
        split: sum.split option.split)
qed

lemma queue_ok_step_relation: "queue_step dumps sha256 db db' \<Longrightarrow> queue_ok db \<Longrightarrow> queue_ok db'"
  by (induction rule: queue_step.induct)
    (simp_all only: queue_ok_prepare queue_ok_publish queue_ok_begin queue_ok_complete)


lemma queue_reaches_ok: "queue_reaches dumps sha256 empty_queue db \<Longrightarrow> queue_ok db"
  by (induction rule: rtranclp_induct) (simp_all add: empty_queue_ok queue_ok_step_relation)

lemma start_attempt_results [simp]:
  "q_results (fst (start_attempt step delivery_id execution_id worker_pid now db)) = q_results db"
  by (simp add: start_attempt_def Let_def)

lemma finish_attempt_results:
  "set (q_results db) \<subseteq> set (q_results (fst (finish_attempt e step h result_id created now db)))"
  by (auto simp: finish_attempt_def Let_def)

lemma results_kept: "queue_step dumps sha256 db db' \<Longrightarrow> set (q_results db) \<subseteq> set (q_results db')"
proof (induction rule: queue_step.induct)
  case (prepare job_id asset_id db organization_id step_id event_id correlation_id created_at now)
  show ?case
    unfolding transaction_fst prepare_recovery_probe_def validated_def
    by (auto simp: op_raise_def split: sum.splits if_splits)
next
  case (publish db event_id now)
  show ?case
    unfolding transaction_fst record_event_publish_attempt_def op_bind_def update_events_def
    by (simp add: queue_error_def op_raise_def op_return_def split: sum.split)
next
  case (acknowledge db event_id now)
  show ?case
    unfolding transaction_fst mark_event_published_def op_bind_def update_events_def
    by (simp add: queue_error_def op_raise_def op_read_def op_write_def set_step_queued_def
        split: sum.split option.split)
next
  case (retry db event_id now)
  show ?case
    unfolding transaction_fst mark_event_retry_pending_def op_bind_def update_events_def
    by (simp add: queue_error_def op_raise_def op_return_def split: sum.split)
next
  case (start_work db event_id delivery_id execution_id worker_pid now)
  show ?case
    unfolding transaction_fst begin_recovery_attempt_def
    by (auto simp: validated_def queue_error_def op_raise_def split: option.splits sum.splits)
next
  case (complete db execution_id result_id created now)
  show ?case
    using finish_attempt_results unfolding transaction_fst complete_recovery_attempt_def
    by (simp add: queue_error_def op_raise_def split: option.splits sum.splits)
qed

lemma results_reached: "queue_reaches dumps sha256 db db' \<Longrightarrow> set (q_results db) \<subseteq> set (q_results db')"
  by (induction rule: rtranclp_induct) (auto dest: results_kept)

lemma distinct_filter_key:
  "distinct (map k xs) \<Longrightarrow> x \<in> set xs \<Longrightarrow> filter (\<lambda>y. k y = k x) xs = [x]"
proof (induction xs)
  case (Cons y ys)
  then have "filter (\<lambda>z. k z = k x) ys = []" if "y = x"
    using that by (auto simp: filter_empty_conv image_iff)
  with Cons show ?case by (cases "y = x") (auto simp: image_iff)
qed simp

lemma queue_event:
  assumes ok: "queue_ok db" and ev: "event_by_id event_id db = Some ev"
  obtains step m where "step_by_id (oe_workflow_step_id ev) db = Some step" "step \<in> set (q_steps db)"
    "validate_recovery_message (oe_payload ev) = Inr m" "message_matches m step"
proof -
  have "event_ok db ev"
    using queue_okD(8) [OF ok] ev unfolding event_by_id_def by (auto dest: find_key_SomeD)
  then obtain step m where s: "step \<in> set (q_steps db)" "ws_id step = oe_workflow_step_id ev"
    "validate_recovery_message (oe_payload ev) = Inr m" "message_matches m step"
    unfolding event_ok_def by blast
  obtain x where x: "step_by_id (oe_workflow_step_id ev) db = Some x"
    using s(1,2) unfolding step_by_id_def by (cases "find (\<lambda>s. ws_id s = oe_workflow_step_id ev) (q_steps db)")
      (auto simp: find_None_iff)
  have "x = step"
    using x s(1,2) queue_okD(1) [OF ok] unfolding step_by_id_def
    by (auto dest!: find_key_SomeD simp: distinct_map inj_on_def)
  with x s show ?thesis using that by blast
qed

lemma execution_by_id_unique:
  "queue_ok db \<Longrightarrow> e \<in> set (q_executions db) \<Longrightarrow> execution_by_id (te_id e) db = Some e"
  unfolding execution_by_id_def
  by (cases "find (\<lambda>x. te_id x = te_id e) (q_executions db)")
    (auto simp: find_None_iff distinct_map inj_on_def dest!: find_key_SomeD dest: queue_okD(3))

lemma step_by_id_unique:
  "queue_ok db \<Longrightarrow> s \<in> set (q_steps db) \<Longrightarrow> step_by_id (ws_id s) db = Some s"
  unfolding step_by_id_def
  by (cases "find (\<lambda>x. ws_id x = ws_id s) (q_steps db)")
    (auto simp: find_None_iff distinct_map inj_on_def dest!: find_key_SomeD dest: queue_okD(1))


subsection \<open>One delivery\<close>

lemma begin_attempt:
  assumes ok: "queue_ok db" and ev: "event_by_id event_id db = Some ev"
    and fresh: "execution_id \<notin> te_id ` set (q_executions db)"
  obtains step e where "step \<in> set (q_steps db)" "ws_id step = oe_workflow_step_id ev"
    "te_id e = execution_id" "te_workflow_step_id e = ws_id step"
    "te_status e = (if result_exists step db then RETURN_EXISTING else RUNNING)"
    "queue_ok (started step e (result_exists step db) now db)"
    "transaction (begin_recovery_attempt event_id delivery_id execution_id worker_pid now) db =
       (started step e (result_exists step db) now db,
        Inr \<lparr>rt_execution_id = execution_id, rt_attempt_no = ws_attempt_count step + 1,
          rt_should_hold_for_worker_loss = (ws_attempt_count step + 1 = 1 \<and> \<not> result_exists step db),
          rt_result_already_exists = result_exists step db\<rparr>)"
proof -
  obtain step m where s: "step_by_id (oe_workflow_step_id ev) db = Some step" "step \<in> set (q_steps db)"
    "validate_recovery_message (oe_payload ev) = Inr m" "message_matches m step"
    by (rule queue_event [OF ok ev])
  then have id: "ws_id step = oe_workflow_step_id ev"
    unfolding step_by_id_def by (auto dest: find_key_SomeD)
  have "begin_recovery_attempt event_id delivery_id execution_id worker_pid now db =
      start_attempt step delivery_id execution_id worker_pid now db"
    using ev s by (simp add: begin_recovery_attempt_def validated_def)
  with start_attempt_cases [OF ok s(2), of execution_id delivery_id worker_pid now] fresh that s(2) id
  show ?thesis by (auto simp: transaction_def)
qed

lemma complete_attempt:
  assumes ok: "queue_ok db" and e: "e \<in> set (q_executions db)" "te_status e = RUNNING"
    and step: "step \<in> set (q_steps db)" "ws_id step = te_workflow_step_id e"
    and dumps: "dumps (PDict (result_payload step)) = Inr bytes"
    and fresh: "result_id \<notin> wr_id ` set (q_results db)"
  obtains r where "wr_idempotency_key r = ws_idempotency_key step" "queue_ok (finished e step r now db)"
    "transaction (complete_recovery_attempt dumps sha256 (te_id e) result_id created now) db =
       (finished e step r now db, Inr True)"
proof -
  have "complete_recovery_attempt dumps sha256 (te_id e) result_id created now db =
      finish_attempt e step (sha256 bytes) result_id created now db"
    using e(2) dumps step_by_id_unique [OF ok step(1)]
    by (simp add: complete_recovery_attempt_def execution_by_id_unique [OF ok e(1)] step(2)
        canonical_sha256_def canonicalize_json_def)
  with finish_attempt_cases [OF ok e step, of result_id "sha256 bytes" created now] fresh that
  show ?thesis by (auto simp: transaction_def)
qed

definition delivered :: "string \<Rightarrow> queue_db \<Rightarrow> bool" where
  "delivered step_id db \<longleftrightarrow>
     (case step_by_id step_id db of
        None \<Rightarrow> False
      | Some s \<Rightarrow> ws_status s = STEP_SUCCEEDED \<and>
          length (filter (\<lambda>r. wr_idempotency_key r = ws_idempotency_key s) (q_results db)) = 1)"

lemma result_once:
  assumes "queue_ok db" "result_exists s db"
  shows "length (filter (\<lambda>r. wr_idempotency_key r = ws_idempotency_key s) (q_results db)) = 1"
proof -
  obtain r where "r \<in> set (q_results db)" "wr_idempotency_key r = ws_idempotency_key s"
    using assms(2) by (auto simp: result_exists_def)
  then show ?thesis
    using distinct_filter_key [OF queue_okD(4) [OF assms(1)], of r] by simp
qed

lemma deliveredI:
  assumes "queue_ok db" "s \<in> set (q_steps db)" "ws_status s = STEP_SUCCEEDED" "result_exists s db"
  shows "delivered (ws_id s) db"
  using step_by_id_unique [OF assms(1,2)] result_once [OF assms(1,4)] assms(3) by (simp add: delivered_def)

lemma started_step:
  assumes "step \<in> set (q_steps db)"
  shows "step\<lparr>ws_attempt_count := ws_attempt_count step + 1,
      ws_status := (if exists then STEP_SUCCEEDED else STEP_RUNNING),
      ws_last_error_code := None, ws_updated_at := now\<rparr> \<in> set (q_steps (started step e exists now db))"
  using assms by (force simp: started_def set_update_rows)

lemma finished_step:
  assumes "step \<in> set (q_steps db)"
  shows "step\<lparr>ws_status := STEP_SUCCEEDED, ws_last_error_code := None, ws_updated_at := now\<rparr>
    \<in> set (q_steps (finished e step r now db))"
  using assms by (force simp: finished_def set_update_rows)

lemma verify_delivery_delivers:
  assumes ok: "queue_ok db" and ev: "event_by_id event_id db = Some ev"
    and fresh: "execution_id \<notin> te_id ` set (q_executions db)" "result_id \<notin> wr_id ` set (q_results db)"
    and dumps: "\<And>s. s \<in> set (q_steps db) \<Longrightarrow> \<exists>bytes. dumps (PDict (result_payload s)) = Inr bytes"
  shows "\<exists>db'. verify_delivery dumps sha256 event_id delivery_id execution_id result_id worker_pid now
      created later db = (db', Inr ()) \<and> delivered (oe_workflow_step_id ev) db'"
proof -
  obtain step e where s: "step \<in> set (q_steps db)" "ws_id step = oe_workflow_step_id ev"
    and e: "te_id e = execution_id" "te_workflow_step_id e = ws_id step"
      "te_status e = (if result_exists step db then RETURN_EXISTING else RUNNING)"
    and ok1: "queue_ok (started step e (result_exists step db) now db)"
    and begun: "transaction (begin_recovery_attempt event_id delivery_id execution_id worker_pid now) db =
       (started step e (result_exists step db) now db,
        Inr \<lparr>rt_execution_id = execution_id, rt_attempt_no = ws_attempt_count step + 1,
          rt_should_hold_for_worker_loss = (ws_attempt_count step + 1 = 1 \<and> \<not> result_exists step db),
          rt_result_already_exists = result_exists step db\<rparr>)"
    by (rule begin_attempt [OF ok ev fresh(1)])
  let ?db1 = "started step e (result_exists step db) now db"
  let ?s1 = "step\<lparr>ws_attempt_count := ws_attempt_count step + 1,
      ws_status := (if result_exists step db then STEP_SUCCEEDED else STEP_RUNNING),
      ws_last_error_code := None, ws_updated_at := now\<rparr>"
  have s1: "?s1 \<in> set (q_steps ?db1)" by (rule started_step [OF s(1)])
  show ?thesis
  proof (cases "result_exists step db")
    case True
    then have "delivered (ws_id ?s1) ?db1"
      by (intro deliveredI [OF ok1 s1]) (simp_all add: result_exists_def started_def)
    moreover have "verify_delivery dumps sha256 event_id delivery_id execution_id result_id worker_pid now
      created later db = (?db1, Inr ())"
      unfolding verify_delivery_def op_bind_def begun using True by (simp add: op_return_def)
    ultimately show ?thesis using s(2) by simp
  next
    case False
    obtain bytes where "dumps (PDict (result_payload step)) = Inr bytes" using dumps [OF s(1)] by blast
    then have b: "dumps (PDict (result_payload ?s1)) = Inr bytes" by (simp add: result_payload_def)
    have e1: "e \<in> set (q_executions ?db1)" by (simp add: started_def)
    obtain r where r: "wr_idempotency_key r = ws_idempotency_key ?s1" "queue_ok (finished e ?s1 r later ?db1)"
      "transaction (complete_recovery_attempt dumps sha256 (te_id e) result_id created later) ?db1 =
         (finished e ?s1 r later ?db1, Inr True)"
      by (rule complete_attempt [where dumps = dumps, OF ok1 e1 _ s1 _ b])
        (use False e fresh(2) in \<open>simp_all add: started_def\<close>)
    let ?db2 = "finished e ?s1 r later ?db1"
    have "delivered (ws_id (?s1\<lparr>ws_status := STEP_SUCCEEDED, ws_last_error_code := None, ws_updated_at := later\<rparr>)) ?db2"
      by (rule deliveredI [OF r(2) finished_step [OF s1]]) (use r(1) in \<open>simp_all add: result_exists_def finished_def\<close>)
    moreover have "verify_delivery dumps sha256 event_id delivery_id execution_id result_id worker_pid now
      created later db = (?db2, Inr ())"
      unfolding verify_delivery_def op_bind_def begun using False r(3) e(1) by (simp add: op_return_def)
    ultimately show ?thesis using s(2) by simp
  qed
qed


lemma publishable_once:
  assumes "queue_ok db" "event_by_id event_id db = Some ev" "publishable event_id ev"
  shows "filter (publishable event_id) (q_events db) = [ev]"
proof -
  have ev: "ev \<in> set (q_events db)" "oe_id ev = event_id"
    using assms(2) unfolding event_by_id_def by (auto dest: find_key_SomeD)
  then have "x = ev" if "x \<in> set (q_events db)" "oe_id x = event_id" for x
    using queue_okD(9) [OF assms(1)] that by (simp add: distinct_map inj_on_def)
  then have "filter (publishable event_id) (q_events db) = filter (\<lambda>x. oe_id x = oe_id ev) (q_events db)"
    using assms(3) ev(2) by (intro filter_cong) (auto simp: publishable_def)
  also have "\<dots> = [ev]" using queue_okD(9) [OF assms(1)] ev(1) by (rule distinct_filter_key)
  finally show ?thesis .
qed

subsection \<open>Properties\<close>

definition ex_dumps :: json_dumps where
  "ex_dumps _ = Inr ''{}''"

definition ex_uuid :: string where
  "ex_uuid = ''11111111-2222-4333-8444-555555555555''"

definition ex_prepared :: queue_db where
  "ex_prepared = fst (transaction (prepare_recovery_probe ''org'' ex_uuid ex_uuid ''step'' ''event'' ex_uuid
     ''2026-07-01T00:00:00Z'' 10) empty_queue)"

definition ex_verified :: queue_db where
  "ex_verified = fst (transaction (complete_recovery_attempt ex_dumps id ''run'' ''result'' 30 31)
     (fst (transaction (begin_recovery_attempt ''event'' ''delivery'' ''run'' 7 20) ex_prepared)))"

lemma ex_prepared_reached: "queue_reaches ex_dumps id empty_queue ex_prepared"
  unfolding ex_prepared_def by (intro r_into_rtranclp queue_step.prepare) code_simp+

lemma ex_verified_step: "queue_reaches ex_dumps id ex_prepared ex_verified"
  unfolding ex_verified_def
  by (rule rtranclp.rtrancl_into_rtrancl [OF r_into_rtranclp]) (rule queue_step.start_work queue_step.complete)+

lemma ex_verified_reached: "queue_reaches ex_dumps id empty_queue ex_verified"
  using ex_prepared_reached ex_verified_step by (rule rtranclp_trans)

text \<open>
  C11: In every state that publishers and workers can reach, in whatever order their transactions
  run and however often a delivery is lost or repeated, the queue is consistent: the attempts of a
  step are numbered 1, 2, ... without a gap up to its attempt counter, at most one of them is
  running and none once a result exists, exactly one succeeded when a result exists and none
  otherwise, a step is only SUCCEEDED when its result is there, results and attempts belong to
  existing steps, and the stored message of every event is valid and names its own step.
\<close>

theorem queue_stays_ok:
  assumes "queue_reaches dumps sha256 empty_queue db"
  shows "queue_ok db"
  using assms by (rule queue_reaches_ok)

theorem queue_stays_ok_witness: "queue_ok ex_verified \<and> length (q_results ex_verified) = 1"
proof
  show "queue_ok ex_verified" using ex_verified_reached by (rule queue_stays_ok)
  show "length (q_results ex_verified) = 1" by code_simp
qed

text \<open>
  C12: A result is written once and stays: from any reachable state, whatever transactions follow,
  a result that is in the table is still there unchanged and is the only one for its idempotency
  key.
\<close>

theorem result_is_final:
  assumes "queue_reaches dumps sha256 empty_queue db" "r \<in> set (q_results db)"
    "queue_reaches dumps sha256 db db'"
  shows "filter (\<lambda>x. wr_idempotency_key x = wr_idempotency_key r) (q_results db') = [r]"
proof -
  have "queue_ok db'" using assms(1,3) by (intro queue_reaches_ok) (rule rtranclp_trans)
  moreover have "r \<in> set (q_results db')" using results_reached [OF assms(3)] assms(2) by blast
  ultimately show ?thesis by (intro distinct_filter_key queue_okD(4))
qed

theorem result_is_final_witness:
  "\<exists>r. q_results ex_verified = [r] \<and>
     filter (\<lambda>x. wr_idempotency_key x = wr_idempotency_key r)
       (q_results (fst (transaction (begin_recovery_attempt ''event'' ''again'' ''run2'' 8 40) ex_verified))) = [r]"
proof -
  have "length (q_results ex_verified) = 1" by code_simp
  then obtain r where r: "q_results ex_verified = [r]" by (auto simp: length_Suc_conv)
  then have "filter (\<lambda>x. wr_idempotency_key x = wr_idempotency_key r)
       (q_results (fst (transaction (begin_recovery_attempt ''event'' ''again'' ''run2'' 8 40) ex_verified))) = [r]"
    by (intro result_is_final [OF ex_verified_reached]) (auto intro: queue_step.start_work)
  with r show ?thesis by blast
qed

text \<open>
  C10: One undisturbed run of the worker task is enough.  From any reachable state - also after lost
  workers, repeated deliveries or a finished step - running \<open>verify_delivery\<close> for an event in the
  outbox with fresh identifiers returns normally and leaves its step SUCCEEDED with exactly one
  result, provided the result document can be serialised.
\<close>

theorem delivery_completes:
  assumes "queue_reaches dumps sha256 empty_queue db" "event_by_id event_id db = Some ev"
    "execution_id \<notin> te_id ` set (q_executions db)" "result_id \<notin> wr_id ` set (q_results db)"
    "\<And>s. s \<in> set (q_steps db) \<Longrightarrow> \<exists>bytes. dumps (PDict (result_payload s)) = Inr bytes"
  shows "\<exists>db'. verify_delivery dumps sha256 event_id delivery_id execution_id result_id worker_pid now
      created later db = (db', Inr ()) \<and> delivered (oe_workflow_step_id ev) db'"
  using assms(5) by (intro verify_delivery_delivers [OF queue_reaches_ok [OF assms(1)] assms(2-4)])

theorem delivery_completes_witness:
  "\<exists>ev db'. event_by_id ''event'' ex_prepared = Some ev \<and>
     verify_delivery ex_dumps id ''event'' ''delivery'' ''run'' ''result'' 7 20 30 31 ex_prepared = (db', Inr ()) \<and>
     delivered (oe_workflow_step_id ev) db'"
proof -
  have "event_by_id ''event'' ex_prepared \<noteq> None" by code_simp
  then obtain ev where ev: "event_by_id ''event'' ex_prepared = Some ev" by auto
  have "q_executions ex_prepared = [] \<and> q_results ex_prepared = []" by code_simp
  then have "\<exists>db'. verify_delivery ex_dumps id ''event'' ''delivery'' ''run'' ''result'' 7 20 30 31 ex_prepared =
      (db', Inr ()) \<and> delivered (oe_workflow_step_id ev) db'"
    by (intro delivery_completes [OF ex_prepared_reached ev]) (simp_all add: ex_dumps_def)
  with ev show ?thesis by blast
qed

text \<open>
  A publisher's late acknowledgement undoes a success.  The publisher sends the task before it
  marks the event as published; when the worker is done by then, \<open>mark_event_published\<close> succeeds and
  puts the finished step back to QUEUED although its result exists.
\<close>

theorem late_acknowledgement_reopens_step:
  assumes "queue_reaches dumps sha256 empty_queue db" "event_by_id event_id db = Some ev"
    "publishable event_id ev"
    "step_by_id (oe_workflow_step_id ev) db = Some s" "ws_status s = STEP_SUCCEEDED"
  shows "\<exists>db' s'. transaction (mark_event_published event_id now) db = (db', Inr ()) \<and>
    step_by_id (ws_id s) db' = Some s' \<and> ws_status s' = STEP_QUEUED \<and> result_exists s' db'"
proof -
  have ok: "queue_ok db" using assms(1) by (rule queue_reaches_ok)
  have s: "s \<in> set (q_steps db)" "ws_id s = oe_workflow_step_id ev"
    using assms(4) unfolding step_by_id_def by (auto dest: find_key_SomeD)
  have res: "result_exists s db" using queue_okD(7) [OF ok s(1)] assms(5) by (simp add: step_ok_def)
  let ?f = "\<lambda>e. e\<lparr>oe_status := OUTBOX_PUBLISHED, oe_published_at := Some now, oe_last_error_code := None, oe_updated_at := now\<rparr>"
  let ?db1 = "db\<lparr>q_events := update_rows (publishable event_id) ?f (q_events db)\<rparr>"
  have "length (filter (publishable event_id) (q_events db)) = 1"
    using publishable_once [OF ok assms(2,3)] by simp
  moreover have "event_by_id event_id ?db1 = Some (?f ev)"
    using assms(2,3) unfolding event_by_id_def by (simp add: find_update_rows)
  ultimately have "mark_event_published event_id now db = (set_step_queued (ws_id s) now ?db1, Inr ())"
    by (simp add: mark_event_published_def op_bind_def update_events_def op_read_def op_write_def s(2))
  moreover have "step_by_id (ws_id s) (set_step_queued (ws_id s) now ?db1) = Some (s\<lparr>ws_status := STEP_QUEUED, ws_updated_at := now\<rparr>)"
    using assms(4) s(2) unfolding step_by_id_def set_step_queued_def by (simp add: find_update_rows)
  moreover have "result_exists (s\<lparr>ws_status := STEP_QUEUED, ws_updated_at := now\<rparr>) (set_step_queued (ws_id s) now ?db1)"
    using res by (simp add: result_exists_def set_step_queued_def)
  ultimately show ?thesis by (simp add: transaction_def)
qed

theorem late_acknowledgement_reopens_step_witness:
  "\<exists>s db' s'. step_by_id ''step'' ex_verified = Some s \<and> ws_status s = STEP_SUCCEEDED \<and>
     transaction (mark_event_published ''event'' 50) ex_verified = (db', Inr ()) \<and>
     step_by_id ''step'' db' = Some s' \<and> ws_status s' = STEP_QUEUED \<and> result_exists s' db'"
proof -
  have "(case event_by_id ''event'' ex_verified of None \<Rightarrow> False
      | Some ev \<Rightarrow> publishable ''event'' ev \<and> oe_workflow_step_id ev = ''step'')" by code_simp
  then obtain ev where ev: "event_by_id ''event'' ex_verified = Some ev" "publishable ''event'' ev"
    "oe_workflow_step_id ev = ''step''" by (auto split: option.splits)
  have "(case step_by_id ''step'' ex_verified of None \<Rightarrow> False
      | Some s \<Rightarrow> ws_status s = STEP_SUCCEEDED \<and> ws_id s = ''step'')" by code_simp
  then obtain s where s: "step_by_id ''step'' ex_verified = Some s" "ws_status s = STEP_SUCCEEDED" "ws_id s = ''step''"
    by (auto split: option.splits)
  from late_acknowledgement_reopens_step [OF ex_verified_reached ev(1,2), of s 50] ev(3) s
  show ?thesis by auto
qed

text \<open>
  Validating a queue message is idempotent: what \<open>validate_recovery_message\<close> returns is a valid
  message and validates to itself, so the payload a publisher stores is what a worker reads back.
\<close>

theorem validate_recovery_message_idempotent:
  assumes "validate_recovery_message value = Inr m"
  shows "validate_recovery_message m = Inr m"
  using assms by (rule validate_idempotent)

end
