(* ===== verification/Package_Contracts.thy ===== *)
theory Package_Contracts
  imports Py_Values
begin

section \<open>Package contracts (\<^verbatim>\<open>analysis/package_validation/contracts.py\<close>)\<close>

text \<open>
  The rejection codes, the limits and the facts that package validation measures and compares.  A
  code is a \<open>StrEnum\<close> member, which is the string of its name.  A rejection carries its message and,
  where the code sets one, the path of the archive member.
\<close>

type_synonym package_code = string

definition package_codes :: "package_code list" where
  "package_codes =
    [''ARCHIVE_NOT_FILE'', ''ARCHIVE_EMPTY'', ''ARCHIVE_TOO_LARGE'', ''ARCHIVE_INVALID'',
     ''ARCHIVE_HASH_MISMATCH'', ''ARCHIVE_SIZE_MISMATCH'', ''FILE_COUNT_OUT_OF_RANGE'',
     ''FILE_COUNT_MISMATCH'', ''DIRECTORY_ENTRY'', ''SYMLINK_ENTRY'', ''REPARSE_POINT'',
     ''SPECIAL_FILE_ENTRY'', ''OVERLAPPING_ENTRY'', ''ENCRYPTED_ENTRY'',
     ''UNSUPPORTED_COMPRESSION'', ''NESTED_ARCHIVE'', ''PATH_TRAVERSAL'', ''PATH_INVALID'',
     ''DUPLICATE_PATH'', ''CASE_COLLISION'', ''REQUIRED_MANIFEST_MISSING'', ''FILE_TOO_SMALL'',
     ''FILE_TOO_LARGE'', ''TOTAL_SIZE_EXCEEDED'', ''UNCOMPRESSED_SIZE_MISMATCH'',
     ''COMPRESSION_RATIO_EXCEEDED'', ''MEMBER_SIZE_MISMATCH'', ''MEMBER_READ_ERROR'',
     ''JSON_BOM_NOT_ALLOWED'', ''JSON_ENCODING_INVALID'', ''DUPLICATE_JSON_KEY'',
     ''JSON_NUMBER_INVALID'', ''INVALID_JSON'', ''JSON_TOP_LEVEL_INVALID'', ''INVENTORY_INVALID'',
     ''FILE_MISSING'', ''UNDECLARED_FILE'', ''SIZE_MISMATCH'', ''HASH_MISMATCH'',
     ''CONTENT_SET_HASH_MISMATCH'', ''DESCRIPTOR_SCHEMA_INVALID'', ''MANIFEST_SCHEMA_INVALID'',
     ''SCHEMA_CATALOG_INVALID'', ''MANIFEST_HASH_MISMATCH'', ''MANIFEST_SIGNATURE_INVALID'',
     ''MANIFEST_SIGNATURE_UNAVAILABLE'', ''MANIFEST_NOT_YET_VALID'', ''MANIFEST_EXPIRED'',
     ''MANIFEST_SCOPE_MISMATCH'', ''NONCE_REPLAYED'', ''NONCE_CHECK_UNAVAILABLE'',
     ''SUBMISSION_PROFILE_NOT_ALLOWED'', ''PACKAGE_AUTHENTICATION_INVALID'',
     ''PACKAGE_AUTHENTICATION_UNAVAILABLE'', ''COLLECTOR_CONSTRAINT_MISMATCH'',
     ''EVIDENCE_SCOPE_MISMATCH'', ''STAGING_VERIFICATION_FAILED'', ''STAGING_UNAVAILABLE'',
     ''MALWARE_DETECTED'', ''MALWARE_SCAN_UNAVAILABLE'', ''CONTENT_POLICY_FAILED'',
     ''CONTENT_POLICY_UNAVAILABLE'', ''ATTESTATION_BINDING_MISMATCH'',
     ''MANIFEST_SEMANTIC_INVALID'', ''DESCRIPTOR_SEMANTIC_INVALID'']"

datatype package_failure = PackageValidationError package_code string "string option"

type_synonym 'a package_result = "(package_failure, 'a) result"

definition reject :: "package_code \<Rightarrow> string \<Rightarrow> 'a package_result" where
  "reject code message = raise_error (PackageValidationError code message None)"

definition reject_member :: "package_code \<Rightarrow> string \<Rightarrow> string \<Rightarrow> 'a package_result" where
  "reject_member code message path = raise_error (PackageValidationError code message (Some path))"

lemma reject_simps [simp]:
  "reject code message \<noteq> Inr x" "bindE (reject code message) f = reject code message"
  "reject_member code message path \<noteq> Inr x"
  "bindE (reject_member code message path) f = reject_member code message path"
  by (simp_all add: reject_def reject_member_def)

text \<open>\<open>if c: _reject(...)\<close>, with the rest of the function under it.\<close>

lemma if_reject_Inr [res_simps]:
  "(if c then reject code message else m) = Inr x \<longleftrightarrow> \<not> c \<and> m = Inr x"
  "(if c then reject_member code message path else m) = Inr x \<longleftrightarrow> \<not> c \<and> m = Inr x"
  by simp_all

subsection \<open>Limits\<close>

definition max_archive_bytes_cap :: int where
  "max_archive_bytes_cap = 100 * 1024 * 1024"

definition max_uncompressed_bytes_cap :: int where
  "max_uncompressed_bytes_cap = 500 * 1024 * 1024"

definition max_files_cap :: int where
  "max_files_cap = 1024"

definition max_member_bytes_cap :: int where
  "max_member_bytes_cap = 1024 * 1024"

definition max_path_length_cap :: int where
  "max_path_length_cap = 240"

definition max_compression_ratio_cap :: int where
  "max_compression_ratio_cap = 100"

definition min_files_fixed :: int where
  "min_files_fixed = 2"

record package_limits =
  pl_max_archive_bytes :: int
  pl_max_uncompressed_bytes :: int
  pl_max_files :: int
  pl_max_member_bytes :: int
  pl_max_path_length :: int
  pl_max_compression_ratio :: int
  pl_min_files :: int

text \<open>
  \<open>__post_init__\<close>.  The ratio limit is 100.0 wherever the code builds limits, so that an integer
  holds it.
\<close>

definition limits_admitted :: "package_limits \<Rightarrow> bool" where
  "limits_admitted l \<longleftrightarrow>
     0 < pl_max_archive_bytes l \<and> 0 < pl_max_uncompressed_bytes l \<and> 0 < pl_max_files l \<and>
     0 < pl_max_member_bytes l \<and> 0 < pl_max_path_length l \<and> 0 < pl_min_files l \<and>
     pl_min_files l \<le> pl_max_files l \<and> 1 \<le> pl_max_compression_ratio l \<and>
     pl_max_archive_bytes l \<le> max_archive_bytes_cap \<and>
     pl_max_uncompressed_bytes l \<le> max_uncompressed_bytes_cap \<and>
     pl_max_files l \<le> max_files_cap \<and> pl_max_member_bytes l \<le> max_member_bytes_cap \<and>
     pl_max_path_length l \<le> max_path_length_cap \<and>
     pl_max_compression_ratio l \<le> max_compression_ratio_cap \<and>
     pl_min_files l = min_files_fixed"

text \<open>\<open>PackageLimits(max_archive_bytes=..., max_uncompressed_bytes=..., max_files=...)\<close>.\<close>

definition make_limits :: "int \<Rightarrow> int \<Rightarrow> int \<Rightarrow> package_limits package_result" where
  "make_limits archive uncompressed files =
     (let l = \<lparr>pl_max_archive_bytes = archive, pl_max_uncompressed_bytes = uncompressed,
               pl_max_files = files, pl_max_member_bytes = max_member_bytes_cap,
               pl_max_path_length = max_path_length_cap,
               pl_max_compression_ratio = max_compression_ratio_cap,
               pl_min_files = min_files_fixed\<rparr>
      in if limits_admitted l then Inr l else Inl (PyError ValueError))"

definition default_limits :: package_limits where
  "default_limits = \<lparr>pl_max_archive_bytes = max_archive_bytes_cap,
     pl_max_uncompressed_bytes = max_uncompressed_bytes_cap, pl_max_files = max_files_cap,
     pl_max_member_bytes = max_member_bytes_cap, pl_max_path_length = max_path_length_cap,
     pl_max_compression_ratio = max_compression_ratio_cap, pl_min_files = min_files_fixed\<rparr>"

lemma make_limits_Inr: "make_limits a u f = Inr l \<Longrightarrow> limits_admitted l"
  by (simp add: make_limits_def Let_def split: if_splits)

subsection \<open>Measured facts\<close>

record package_file =
  pf_path :: string
  pf_size_bytes :: int
  pf_sha256 :: string

record package_inspection =
  pi_archive_sha256 :: string
  pi_content_set_sha256 :: string
  pi_compressed_bytes :: int
  pi_uncompressed_bytes :: int
  pi_file_count :: int
  pi_files :: "package_file list"

subsection \<open>Outcomes of external checks\<close>

datatype external_status = VERIFIED | FAILED | UNAVAILABLE

datatype nonce_status = FRESH_RESERVED | REPLAYED | NONCE_UNAVAILABLE

datatype malware_status = CLEAN | DETECTED | SCAN_UNAVAILABLE

datatype authentication_kind = ONLINE_TRANSPORT | OFFLINE_SIGNATURE | OFFLINE_SUBMITTER

record digest_verification =
  dv_status :: external_status
  dv_sha256 :: string

record nonce_verification =
  nv_status :: nonce_status
  nv_nonce :: string

record malware_verification =
  mv_status :: malware_status
  mv_archive_sha256 :: string

record authentication_verification =
  av_status :: external_status
  av_kind :: authentication_kind

record staged_verification =
  sv_status :: external_status
  sv_organization_id :: string
  sv_asset_id :: string
  sv_job_id :: string
  sv_archive_sha256 :: string
  sv_size_bytes :: int

record gate_verifications =
  gv_manifest_signature :: digest_verification
  gv_nonce :: nonce_verification
  gv_package_authentication :: authentication_verification
  gv_malware_scan :: malware_verification
  gv_content_policy :: digest_verification
  gv_staged_object :: staged_verification

text \<open>
  The context of a submission.  Its instant is an aware \<open>datetime\<close>, which \<open>__post_init__\<close> insists on.
\<close>

record validation_context =
  vc_organization_id :: string
  vc_asset_id :: string
  vc_job_id :: string
  vc_endpoint_id :: string
  vc_received_at :: int

record validated_package =
  vp_package_id :: string
  vp_manifest_id :: string
  vp_job_id :: string
  vp_asset_id :: string
  vp_descriptor_sha256 :: string
  vp_manifest_content_sha256 :: string
  vp_authentication_profile :: string
  vp_inspection :: package_inspection
  vp_eligible_for_original_promotion :: bool

end
