(* ===== verification/Strict_Json.thy ===== *)
theory Strict_Json
  imports Package_Contracts Py_Time
begin

section \<open>Strict JSON (\<^verbatim>\<open>analysis/package_validation/strict_json.py\<close>)\<close>

text \<open>
  \<open>json.loads\<close> with the four hooks of \<open>load_strict_json\<close>, over the bytes of a document.  Text is its
  UTF-8 bytes; a lone surrogate that an escape produces is kept as its three bytes.  Nesting deeper
  than the interpreter's stack raises a \<open>RecursionError\<close>; the depth that is available is an
  argument.
\<close>

subsection \<open>UTF-8\<close>

definition byte_in :: "nat \<Rightarrow> nat \<Rightarrow> char \<Rightarrow> bool" where
  "byte_in low high c \<longleftrightarrow> (let n = of_char c :: nat in low \<le> n \<and> n \<le> high)"

text \<open>The bytes after one well-formed character.\<close>

definition utf8_step :: "string \<Rightarrow> string option" where
  "utf8_step s =
     (case s of
        [] \<Rightarrow> None
      | a # s \<Rightarrow>
          if byte_in 0 127 a then Some s
          else (case s of
            [] \<Rightarrow> None
          | b # s \<Rightarrow>
              if byte_in 194 223 a then if byte_in 128 191 b then Some s else None
              else (case s of
                [] \<Rightarrow> None
              | c # s \<Rightarrow>
                  if byte_in 224 239 a then
                    if byte_in (if byte_in 224 224 a then 160 else 128) (if byte_in 237 237 a then 159 else 191) b \<and>
                       byte_in 128 191 c
                    then Some s else None
                  else (case s of
                    [] \<Rightarrow> None
                  | d # s \<Rightarrow>
                      if byte_in 240 244 a \<and>
                         byte_in (if byte_in 240 240 a then 144 else 128) (if byte_in 244 244 a then 143 else 191) b \<and>
                         byte_in 128 191 c \<and> byte_in 128 191 d
                      then Some s else None))))"

lemma utf8_step_length: "utf8_step s = Some r \<Longrightarrow> length r < length s"
  by (auto simp: utf8_step_def split: list.splits if_splits)

function utf8_valid :: "string \<Rightarrow> bool" where
  "utf8_valid s =
     (if s = [] then True else case utf8_step s of None \<Rightarrow> False | Some r \<Rightarrow> utf8_valid r)"
  by pat_completeness auto
termination
  by (relation "measure length") (auto dest: utf8_step_length)

declare utf8_valid.simps [simp del]

definition utf8_encode :: "nat \<Rightarrow> string" where
  "utf8_encode n =
     (if n < 128 then [char_of n]
      else if n < 2048 then [char_of (192 + n div 64), char_of (128 + n mod 64)]
      else if n < 65536
      then [char_of (224 + n div 4096), char_of (128 + n div 64 mod 64), char_of (128 + n mod 64)]
      else [char_of (240 + n div 262144), char_of (128 + n div 4096 mod 64),
            char_of (128 + n div 64 mod 64), char_of (128 + n mod 64)])"

subsection \<open>Scanning\<close>

abbreviation invalid_json :: "'a package_result" where
  "invalid_json \<equiv> reject ''INVALID_JSON'' ''Package member is not one complete JSON document.''"

definition json_space :: "char \<Rightarrow> bool" where
  "json_space c \<longleftrightarrow> (let n = of_char c :: nat in n = 32 \<or> n = 9 \<or> n = 10 \<or> n = 13)"

definition skip_space :: "string \<Rightarrow> string" where
  "skip_space = dropWhile json_space"

definition hex_digit_value :: "char \<Rightarrow> nat option" where
  "hex_digit_value c =
     (let n = of_char c :: nat
      in if 48 \<le> n \<and> n \<le> 57 then Some (n - 48)
         else if 97 \<le> n \<and> n \<le> 102 then Some (n - 87)
         else if 65 \<le> n \<and> n \<le> 70 then Some (n - 55)
         else None)"

definition hex4 :: "char \<Rightarrow> char \<Rightarrow> char \<Rightarrow> char \<Rightarrow> nat option" where
  "hex4 a b c d =
     (case (hex_digit_value a, hex_digit_value b, hex_digit_value c, hex_digit_value d) of
        (Some w, Some x, Some y, Some z) \<Rightarrow> Some (((w * 16 + x) * 16 + y) * 16 + z)
      | _ \<Rightarrow> None)"

text \<open>
  The code point of an escape \<open>\u\<close> whose four digits have been read, with the low half that may
  follow a high surrogate, and the number of characters this consumes.
\<close>

definition join_surrogates :: "nat \<Rightarrow> string \<Rightarrow> nat \<times> string" where
  "join_surrogates n s =
     (case s of
        q # u # a # b # c # d # r \<Rightarrow>
          (case hex4 a b c d of
             Some m \<Rightarrow>
               if 55296 \<le> n \<and> n \<le> 56319 \<and> of_char q = (92 :: nat) \<and> u = CHR ''u'' \<and>
                  56320 \<le> m \<and> m \<le> 57343
               then (65536 + (n - 55296) * 1024 + (m - 56320), r)
               else (n, s)
           | None \<Rightarrow> (n, s))
      | _ \<Rightarrow> (n, s))"

definition simple_escape :: "char \<Rightarrow> char option" where
  "simple_escape c =
     (let n = of_char c :: nat
      in if n = 34 \<or> n = 92 \<or> n = 47 then Some c
         else if c = CHR ''b'' then Some (char_of (8 :: nat))
         else if c = CHR ''f'' then Some (char_of (12 :: nat))
         else if c = CHR ''n'' then Some (char_of (10 :: nat))
         else if c = CHR ''r'' then Some (char_of (13 :: nat))
         else if c = CHR ''t'' then Some (char_of (9 :: nat))
         else None)"

lemma join_surrogates_length: "length (snd (join_surrogates n s)) \<le> length s"
  by (auto simp: join_surrogates_def split: list.splits option.splits)

text \<open>The characters of a string up to its closing quote, and what follows the quote.\<close>

function scan_string :: "string \<Rightarrow> (string \<times> string) package_result" where
  "scan_string [] = invalid_json"
| "scan_string (c # s) =
     (let n = of_char c :: nat
      in if n = 34 then Inr ([], s)
         else if n < 32 then invalid_json
         else if n = 92 then
           (case s of
              [] \<Rightarrow> invalid_json
            | e # r \<Rightarrow>
                if e = CHR ''u'' then
                  (case r of
                     a # b # c # d # r' \<Rightarrow>
                       (case hex4 a b c d of
                          None \<Rightarrow> invalid_json
                        | Some m \<Rightarrow>
                            (let j = join_surrogates m r'
                             in bindE (scan_string (snd j)) (\<lambda>(t, rest). Inr (utf8_encode (fst j) @ t, rest))))
                   | _ \<Rightarrow> invalid_json)
                else
                  (case simple_escape e of
                     None \<Rightarrow> invalid_json
                   | Some x \<Rightarrow> bindE (scan_string r) (\<lambda>(t, rest). Inr (x # t, rest))))
         else bindE (scan_string s) (\<lambda>(t, rest). Inr (c # t, rest)))"
  by pat_completeness auto
termination
  by (relation "measure length") (auto intro: le_less_trans [OF join_surrogates_length])

declare scan_string.simps [simp del]

text \<open>
  Numbers.  The token is a sign, the integer part, and the fraction and the exponent where they
  are complete; the rest of the text follows it.
\<close>

definition is_digit :: "char \<Rightarrow> bool" where
  "is_digit c \<longleftrightarrow> (let n = of_char c :: nat in 48 \<le> n \<and> n \<le> 57)"

definition int_part :: "string \<Rightarrow> (string \<times> string) option" where
  "int_part s =
     (case s of
        [] \<Rightarrow> None
      | c # r \<Rightarrow>
          if c = CHR ''0'' then Some ([c], r)
          else if is_digit c then Some (takeWhile is_digit s, dropWhile is_digit s)
          else None)"

definition fraction_part :: "string \<Rightarrow> string \<times> string" where
  "fraction_part s =
     (case s of
        c # d # r \<Rightarrow> if c = CHR ''.'' \<and> is_digit d then (takeWhile is_digit (d # r), dropWhile is_digit (d # r))
                     else ([], s)
      | _ \<Rightarrow> ([], s))"

definition exponent_part :: "string \<Rightarrow> (bool \<times> string) option \<times> string" where
  "exponent_part s =
     (case s of
        [] \<Rightarrow> (None, s)
      | c # r \<Rightarrow>
          if c = CHR ''e'' \<or> c = CHR ''E'' then
            (let negative = (r \<noteq> [] \<and> hd r = CHR ''-'');
                 r' = (if r \<noteq> [] \<and> (hd r = CHR ''-'' \<or> hd r = CHR ''+'') then tl r else r)
             in if r' \<noteq> [] \<and> is_digit (hd r')
                then (Some (negative, takeWhile is_digit r'), dropWhile is_digit r')
                else (None, s))
          else (None, s))"

definition max_safe_integer :: int where
  "max_safe_integer = 2 ^ 53 - 1"

definition max_str_digits :: nat where
  "max_str_digits = 4300"

definition safe_integer :: "bool \<Rightarrow> string \<Rightarrow> pyval package_result" where
  "safe_integer negative digits =
     (if max_str_digits < length digits then Inl (PyError ValueError)
      else
        let value = (if negative then - digits_value digits else digits_value digits)
        in if \<not> (- max_safe_integer \<le> value \<and> value \<le> max_safe_integer)
           then reject ''JSON_NUMBER_INVALID'' ''JSON integer is outside the RFC 8785 safe range.''
           else Inr (PInt value))"

definition finite_float :: "bool \<Rightarrow> string \<Rightarrow> string \<Rightarrow> (bool \<times> string) option \<Rightarrow> pyval package_result" where
  "finite_float negative digits fraction exponent =
     (let coefficient = digits_value (digits @ fraction);
          shift = (case exponent of None \<Rightarrow> 0
                   | Some (below, e) \<Rightarrow> if below then - digits_value e else digits_value e) -
                  int (length fraction);
          n = (if 0 \<le> shift then coefficient * 10 ^ nat shift else coefficient);
          d = (if 0 \<le> shift then 1 else 10 ^ nat (- shift))
      in case (if n = 0 then Some (0, 0) else float_of_ratio n d) of
           None \<Rightarrow> reject ''JSON_NUMBER_INVALID'' ''JSON number is not finite.''
         | Some (m, e) \<Rightarrow> Inr (PFloat (if negative then - m else m) e))"

definition reject_constant :: "string \<Rightarrow> 'a package_result" where
  "reject_constant token = reject ''JSON_NUMBER_INVALID'' ''Non-standard JSON numeric constants are forbidden.''"

definition scan_number :: "string \<Rightarrow> (pyval \<times> string) package_result" where
  "scan_number s =
     (let negative = (s \<noteq> [] \<and> hd s = CHR ''-''); s = (if negative then tl s else s)
      in case int_part s of
           None \<Rightarrow> if negative \<and> take 8 s = ''Infinity'' then reject_constant ''-Infinity'' else invalid_json
         | Some (digits, r) \<Rightarrow>
             let (fraction, r') = fraction_part r; (exponent, r'') = exponent_part r'
             in bindE (if fraction = [] \<and> exponent = None then safe_integer negative digits
                       else finite_float negative digits fraction exponent)
                  (\<lambda>v. Inr (v, r'')))"

definition scan_word :: "string \<Rightarrow> pyval \<Rightarrow> string \<Rightarrow> (pyval \<times> string) package_result" where
  "scan_word word v s = (if take (length word) s = word then Inr (v, drop (length word) s) else invalid_json)"

text \<open>\<open>_object_without_duplicates\<close>, which runs when an object is complete.\<close>

definition object_without_duplicates :: "dict \<Rightarrow> pyval package_result" where
  "object_without_duplicates pairs =
     (if \<not> distinct (dict_keys pairs)
      then reject ''DUPLICATE_JSON_KEY'' ''JSON object contains a duplicate property.''
      else Inr (PDict pairs))"

text \<open>
  The scanner.  The first argument is fuel, the second the depth of nesting that is left.
  \<open>scan_members\<close> starts at the quote of a key, \<open>scan_elements\<close> at a value.
\<close>

definition expect :: "char \<Rightarrow> string \<Rightarrow> string package_result" where
  "expect x s = (case s of c # r \<Rightarrow> if c = x then Inr r else invalid_json | [] \<Rightarrow> invalid_json)"

text \<open>After a member or an element: whether the closing bracket follows, else a comma.\<close>

definition separator :: "char \<Rightarrow> string \<Rightarrow> (bool \<times> string) package_result" where
  "separator closing s =
     (case skip_space s of
        [] \<Rightarrow> invalid_json
      | x # y \<Rightarrow>
          if x = closing then Inr (True, y)
          else if x = CHR '','' then Inr (False, skip_space y)
          else invalid_json)"

definition begins :: "char \<Rightarrow> string \<Rightarrow> bool" where
  "begins x s \<longleftrightarrow> s \<noteq> [] \<and> hd s = x"

definition quote :: char where
  "quote = CHR 0x22"

fun scan_once :: "nat \<Rightarrow> nat \<Rightarrow> string \<Rightarrow> (pyval \<times> string) package_result"
and scan_members :: "nat \<Rightarrow> nat \<Rightarrow> string \<Rightarrow> (dict \<times> string) package_result"
and scan_elements :: "nat \<Rightarrow> nat \<Rightarrow> string \<Rightarrow> (pyval list \<times> string) package_result" where
  "scan_once 0 depth s = invalid_json"
| "scan_once (Suc fuel) depth s =
     (if s = [] then invalid_json
      else if hd s = quote then bindE (scan_string (tl s)) (\<lambda>(t, rest). Inr (PStr t, rest))
      else if hd s = CHR ''{'' then
        (if depth = 0 then invalid_json
         else if begins (CHR ''}'') (skip_space (tl s))
         then bindE (object_without_duplicates []) (\<lambda>v. Inr (v, tl (skip_space (tl s))))
         else bindE (scan_members fuel (depth - 1) (skip_space (tl s))) (\<lambda>(pairs, rest).
              bindE (object_without_duplicates pairs) (\<lambda>v. Inr (v, rest))))
      else if hd s = CHR ''['' then
        (if depth = 0 then invalid_json
         else if begins (CHR '']'') (skip_space (tl s)) then Inr (PList [], tl (skip_space (tl s)))
         else bindE (scan_elements fuel (depth - 1) (skip_space (tl s))) (\<lambda>(xs, rest).
              Inr (PList xs, rest)))
      else if hd s = CHR ''n'' then scan_word ''null'' PNone s
      else if hd s = CHR ''t'' then scan_word ''true'' (PBool True) s
      else if hd s = CHR ''f'' then scan_word ''false'' (PBool False) s
      else if hd s = CHR ''N'' then if take 3 s = ''NaN'' then reject_constant ''NaN'' else invalid_json
      else if hd s = CHR ''I''
      then if take 8 s = ''Infinity'' then reject_constant ''Infinity'' else invalid_json
      else scan_number s)"
| "scan_members 0 depth s = invalid_json"
| "scan_members (Suc fuel) depth s =
     bindE (expect quote s) (\<lambda>r.
     bindE (scan_string r) (\<lambda>(k, rest).
     bindE (expect (CHR '':'') (skip_space rest)) (\<lambda>y.
     bindE (scan_once fuel depth (skip_space y)) (\<lambda>(v, rest).
     bindE (separator (CHR ''}'') rest) (\<lambda>(closed, y).
     if closed then Inr ([(k, v)], y)
     else bindE (scan_members fuel depth y) (\<lambda>(pairs, rest). Inr ((k, v) # pairs, rest)))))))"
| "scan_elements 0 depth s = invalid_json"
| "scan_elements (Suc fuel) depth s =
     bindE (scan_once fuel depth s) (\<lambda>(v, rest).
     bindE (separator (CHR '']'') rest) (\<lambda>(closed, y).
     if closed then Inr ([v], y)
     else bindE (scan_elements fuel depth y) (\<lambda>(vs, rest). Inr (v # vs, rest))))"

declare scan_once.simps [simp del] scan_members.simps [simp del] scan_elements.simps [simp del]

definition json_loads :: "nat \<Rightarrow> string \<Rightarrow> pyval package_result" where
  "json_loads depth text =
     bindE (scan_once (Suc (2 * length text)) depth (skip_space text)) (\<lambda>(v, rest).
     if skip_space rest \<noteq> [] then invalid_json else Inr v)"

subsection \<open>The loader\<close>

definition utf8_bom :: string where
  "utf8_bom = [CHR 0xEF, CHR 0xBB, CHR 0xBF]"

definition load_strict_json :: "nat \<Rightarrow> string \<Rightarrow> bool \<Rightarrow> pyval package_result" where
  "load_strict_json depth data require_object =
     (if take 3 data = utf8_bom
      then reject ''JSON_BOM_NOT_ALLOWED'' ''UTF-8 BOM is forbidden in package JSON.''
      else if \<not> utf8_valid data
      then reject ''JSON_ENCODING_INVALID'' ''Package JSON must be strict UTF-8.''
      else
        bindE (json_loads depth data) (\<lambda>value.
        if require_object \<and> (case value of PDict _ \<Rightarrow> False | _ \<Rightarrow> True)
        then reject ''JSON_TOP_LEVEL_INVALID'' ''Package JSON must contain an object at the top level.''
        else Inr value))"

end
