(* ===== verification/Json_Documents.thy ===== *)
theory Json_Documents
  imports Strict_Json
begin

section \<open>What strict JSON accepts\<close>

text \<open>
  The scanner of \<open>Strict_Json\<close> ends on its own: the fuel it is given is never used up.  What it
  accepts has no ambiguous keys and no integer outside the exact range of a double, and every
  such value without floats is accepted back from its compact text.
\<close>

subsection \<open>The scanner consumes its input\<close>

lemma skip_space_length: "length (skip_space s) \<le> length s"
  by (simp add: skip_space_def length_dropWhile_le)

lemma scan_string_length: "scan_string s = Inr (t, rest) \<Longrightarrow> length rest < length s"
proof (induction s arbitrary: t rest rule: length_induct)
  case (1 s)
  have IH: "length rest' < length y" if "length y < length s" "scan_string y = Inr (t', rest')" for y t' rest'
    using "1.IH" that by blast
  have join: "length rest' < Suc (Suc (Suc (Suc (Suc (Suc (length r))))))"
    if "scan_string (snd (join_surrogates m r)) = Inr (t', rest')" "Suc (Suc (Suc (Suc (Suc (length r))))) < length s"
    for m r t' rest'
    using IH [OF _ that(1)] join_surrogates_length [of m r] that(2) by linarith
  show ?case
  proof (cases s)
    case Nil
    with "1.prems" show ?thesis by (simp add: scan_string.simps)
  next
    case (Cons c s')
    have "length rest' < length s" if "scan_string s' = Inr (t', rest')" for t' rest'
      using IH [OF _ that] Cons by simp
    moreover have "length rest' < Suc (Suc (length r))" if "s' = x # r" "scan_string r = Inr (t', rest')" for x r t' rest'
      using IH [OF _ that(2)] that(1) Cons by simp
    ultimately show ?thesis
      using "1.prems" join unfolding Cons scan_string.simps(2) [of c s']
      by (auto simp: Let_def bindE_eq_Inr split: if_splits list.splits option.splits)
  qed
qed

lemma int_part_length: "int_part s = Some (d, r) \<Longrightarrow> length r < length s"
  by (auto simp: int_part_def less_Suc_eq_le length_dropWhile_le split: list.splits if_splits)

lemma fraction_part_length: "fraction_part s = (d, r) \<Longrightarrow> length r \<le> length s"
  by (auto simp: fraction_part_def split: list.splits if_splits
      intro: le_trans [OF length_dropWhile_le])

lemma exponent_part_length: "exponent_part s = (d, r) \<Longrightarrow> length r \<le> length s"
  by (auto simp: exponent_part_def Let_def split: list.splits if_splits
      intro: le_trans [OF length_dropWhile_le])

lemma scan_number_length: "scan_number s = Inr (v, rest) \<Longrightarrow> length rest < length s"
  by (auto simp: scan_number_def Let_def bindE_eq_Inr reject_constant_def split: if_splits option.splits prod.splits
      dest!: int_part_length fraction_part_length exponent_part_length)


lemma skip_space_Cons: "skip_space s = x # y \<Longrightarrow> length y < length s"
  using skip_space_length [of s] by simp

lemma scan_word_length: "word \<noteq> [] \<Longrightarrow> scan_word word v s = Inr (w, rest) \<Longrightarrow> length rest < length s"
  by (cases word; cases s) (auto simp: scan_word_def split: if_splits)

lemma expect_length: "expect x s = Inr r \<Longrightarrow> length r < length s"
  by (auto simp: expect_def split: list.splits if_splits)

lemma separator_length: "separator x s = Inr (b, r) \<Longrightarrow> length r < length s"
  by (auto simp: separator_def split: list.splits if_splits dest: skip_space_Cons
      intro: le_less_trans [OF skip_space_length])

lemma tl_skip_length: "s \<noteq> [] \<Longrightarrow> length (skip_space (tl s)) < length s"
  by (cases s) (auto simp: less_Suc_eq_le skip_space_length)

lemma scan_lengths:
  "(\<forall>d s v rest. scan_once n d s = Inr (v, rest) \<longrightarrow> length rest < length s) \<and>
   (\<forall>d s p rest. scan_members n d s = Inr (p, rest) \<longrightarrow> length rest < length s) \<and>
   (\<forall>d s vs rest. scan_elements n d s = Inr (vs, rest) \<longrightarrow> length rest < length s)"
proof (induction n)
  case 0
  then show ?case by (simp add: scan_once.simps scan_members.simps scan_elements.simps)
next
  case (Suc n)
  then have IH: "\<And>d s v rest. scan_once n d s = Inr (v, rest) \<Longrightarrow> length rest < length s"
    "\<And>d s p rest. scan_members n d s = Inr (p, rest) \<Longrightarrow> length rest < length s"
    "\<And>d s vs rest. scan_elements n d s = Inr (vs, rest) \<Longrightarrow> length rest < length s" by blast+
  have "length rest < length s" if once: "scan_once (Suc n) d s = Inr (v, rest)" for d s v rest
  proof -
    have "s \<noteq> []" using once by (auto simp: scan_once.simps)
    then have "length r < length s" if "length r < length (skip_space (tl s))" for r :: string
      using that tl_skip_length [of s] by simp
    moreover have "length (tl (skip_space (tl s))) < length s"
      using tl_skip_length [OF \<open>s \<noteq> []\<close>] by simp
    moreover have "length r < length s" if "length r < length (tl s)" for r :: string
      using that by simp
    ultimately show ?thesis
      using once unfolding scan_once.simps
      by (auto simp: bindE_eq_Inr object_without_duplicates_def reject_constant_def split: if_splits
          dest: scan_string_length IH(2,3) scan_number_length scan_word_length [rotated])
  qed
  moreover have "length rest < length s" if members: "scan_members (Suc n) d s = Inr (p, rest)" for d s p rest
  proof -
    obtain r k r1 y v r2 b y2 where *: "expect quote s = Inr r" "scan_string r = Inr (k, r1)"
      "expect (CHR '':'') (skip_space r1) = Inr y" "scan_once n d (skip_space y) = Inr (v, r2)"
      "separator (CHR ''}'') r2 = Inr (b, y2)"
      "if b then rest = y2 else \<exists>q. scan_members n d y2 = Inr (q, rest)"
      using members unfolding scan_members.simps by (auto simp: bindE_eq_Inr split: if_splits)
    have "length y2 < length s"
      using expect_length [OF *(1)] scan_string_length [OF *(2)] expect_length [OF *(3)] IH(1) [OF *(4)]
        separator_length [OF *(5)] skip_space_length [of r1] skip_space_length [of y] by linarith
    then show ?thesis using *(6) by (cases b) (auto dest!: IH(2))
  qed
  moreover have "length rest < length s" if elements: "scan_elements (Suc n) d s = Inr (vs, rest)" for d s vs rest
  proof -
    obtain v r b y where *: "scan_once n d s = Inr (v, r)" "separator (CHR '']'') r = Inr (b, y)"
      "if b then rest = y else \<exists>q. scan_elements n d y = Inr (q, rest)"
      using elements unfolding scan_elements.simps by (auto simp: bindE_eq_Inr split: if_splits)
    then have "length y < length s"
      using IH(1) [OF *(1)] separator_length [OF *(2)] by linarith
    then show ?thesis using *(3) by (cases b) (auto dest!: IH(3))
  qed
  ultimately show ?case by blast
qed

lemmas scan_once_length = scan_lengths [THEN conjunct1, rule_format]
lemmas scan_members_length = scan_lengths [THEN conjunct2, THEN conjunct1, rule_format]
lemmas scan_elements_length = scan_lengths [THEN conjunct2, THEN conjunct2, rule_format]

lemma scan_fuel:
  "(\<forall>d s n'. 2 * length s < n \<and> 2 * length s < n' \<longrightarrow> scan_once n d s = scan_once n' d s) \<and>
   (\<forall>d s n'. 2 * length s < n \<and> 2 * length s < n' \<longrightarrow> scan_members n d s = scan_members n' d s) \<and>
   (\<forall>d s n'. Suc (2 * length s) < n \<and> Suc (2 * length s) < n' \<longrightarrow> scan_elements n d s = scan_elements n' d s)"
proof (induction n)
  case (Suc n)
  then have IH: "\<And>d s n'. 2 * length s < n \<Longrightarrow> 2 * length s < n' \<Longrightarrow> scan_once n d s = scan_once n' d s"
    "\<And>d s n'. 2 * length s < n \<Longrightarrow> 2 * length s < n' \<Longrightarrow> scan_members n d s = scan_members n' d s"
    "\<And>d s n'. Suc (2 * length s) < n \<Longrightarrow> Suc (2 * length s) < n' \<Longrightarrow> scan_elements n d s = scan_elements n' d s"
    by blast+
  have A: "scan_once (Suc n) d s = scan_once (Suc m) d s" if "2 * length s < Suc n" "2 * length s < Suc m" for d s m
  proof (cases "s = []")
    case False
    then have "scan_members n e (skip_space (tl s)) = scan_members m e (skip_space (tl s))"
      "scan_elements n e (skip_space (tl s)) = scan_elements m e (skip_space (tl s))" for e
      using tl_skip_length [of s] that by (auto intro!: IH)
    then show ?thesis unfolding scan_once.simps by simp
  qed (simp add: scan_once.simps)
  have B: "scan_members (Suc n) d s = scan_members (Suc m) d s"
    if "2 * length s < Suc n" "2 * length s < Suc m" for d s m
    unfolding scan_members.simps
  proof (intro bindE_cong refl, clarify, intro bindE_cong refl)
    fix r k r1 y assume *: "expect quote s = Inr r" "scan_string r = Inr (k, r1)"
      "expect (CHR '':'') (skip_space r1) = Inr y"
    then have short: "length (skip_space y) < length s"
      using expect_length [OF *(1)] scan_string_length [OF *(2)] expect_length [OF *(3)]
        skip_space_length [of r1] skip_space_length [of y] by linarith
    then show "scan_once n d (skip_space y) = scan_once m d (skip_space y)"
      using that by (intro IH) linarith+
    fix v assume v: "scan_once m d (skip_space y) = Inr v"
    show "(case v of (v, rest) \<Rightarrow> bindE (separator (CHR ''}'') rest) (\<lambda>(closed, y).
        if closed then Inr ([(k, v)], y)
        else bindE (scan_members n d y) (\<lambda>(pairs, rest). Inr ((k, v) # pairs, rest)))) =
      (case v of (v, rest) \<Rightarrow> bindE (separator (CHR ''}'') rest) (\<lambda>(closed, y).
        if closed then Inr ([(k, v)], y)
        else bindE (scan_members m d y) (\<lambda>(pairs, rest). Inr ((k, v) # pairs, rest))))"
    proof (cases v)
      case (Pair w rest)
      have "scan_members n d y2 = scan_members m d y2" if "separator (CHR ''}'') rest = Inr (b, y2)" for b y2
        using separator_length [OF that] scan_once_length [of m d "skip_space y" w rest] v Pair short
          \<open>2 * length s < Suc n\<close> \<open>2 * length s < Suc m\<close> by (intro IH) auto
      then show ?thesis unfolding Pair prod.case by (intro bindE_cong refl) (auto split: prod.split)
    qed
  qed
  have C: "scan_elements (Suc n) d s = scan_elements (Suc m) d s"
    if "Suc (2 * length s) < Suc n" "Suc (2 * length s) < Suc m" for d s m
    unfolding scan_elements.simps
  proof (rule bindE_cong)
    show "scan_once n d s = scan_once m d s" using that by (intro IH) simp_all
    fix v assume v: "scan_once m d s = Inr v"
    obtain w rest where Pair: "v = (w, rest)" by (cases v)
    have "scan_elements n d y = scan_elements m d y" if "separator (CHR '']'') rest = Inr (b, y)" for b y
      using separator_length [OF that] scan_once_length [of m d s w rest] v Pair
        \<open>Suc (2 * length s) < Suc n\<close> \<open>Suc (2 * length s) < Suc m\<close> by (intro IH) auto
    then show "(case v of (v, rest) \<Rightarrow> bindE (separator (CHR '']'') rest) (\<lambda>(closed, y).
        if closed then Inr ([v], y) else bindE (scan_elements n d y) (\<lambda>(vs, rest). Inr (v # vs, rest)))) =
      (case v of (v, rest) \<Rightarrow> bindE (separator (CHR '']'') rest) (\<lambda>(closed, y).
        if closed then Inr ([v], y) else bindE (scan_elements m d y) (\<lambda>(vs, rest). Inr (v # vs, rest))))"
      unfolding Pair prod.case by (intro bindE_cong refl) (auto split: prod.split)
  qed
  show ?case
  proof (intro conjI allI impI; elim conjE)
    fix d s n'
    show "2 * length s < Suc n \<Longrightarrow> 2 * length s < n' \<Longrightarrow> scan_once (Suc n) d s = scan_once n' d s"
      using A [where m = "n' - 1" and s = s and d = d] by simp
    show "2 * length s < Suc n \<Longrightarrow> 2 * length s < n' \<Longrightarrow> scan_members (Suc n) d s = scan_members n' d s"
      using B [where m = "n' - 1" and s = s and d = d] by simp
    show "Suc (2 * length s) < Suc n \<Longrightarrow> Suc (2 * length s) < n' \<Longrightarrow> scan_elements (Suc n) d s = scan_elements n' d s"
      using C [where m = "n' - 1" and s = s and d = d] by simp
  qed
qed simp

subsection \<open>Printing\<close>

definition backslash :: char where
  "backslash = CHR 0x5C"

definition escape_char :: "char \<Rightarrow> string" where
  "escape_char c =
     (let n = of_char c :: nat
      in if n = 34 \<or> n = 92 then [backslash, c]
         else if n < 32
         then [backslash, CHR ''u'', CHR ''0'', CHR ''0'', hex_digit (n div 16), hex_digit (n mod 16)]
         else [c])"

definition json_string :: "string \<Rightarrow> string" where
  "json_string s = quote # concat (map escape_char s) @ [quote]"

fun json_text :: "pyval \<Rightarrow> string" where
  "json_text PNone = ''null''"
| "json_text (PBool b) = (if b then ''true'' else ''false'')"
| "json_text (PInt i) = int_str i"
| "json_text (PFloat m e) = repr_float m e"
| "json_text (PStr s) = json_string s"
| "json_text (PList xs) = ''['' @ join_with '','' (map json_text xs) @ '']''"
| "json_text (PDict d) =
     ''{'' @ join_with '','' (map (\<lambda>kv. json_string (fst kv) @ '':'' @ json_text (snd kv)) d) @ ''}''"

text \<open>Values without floats whose strings are UTF-8 text, and how deep they nest.\<close>

fun plain_value :: "pyval \<Rightarrow> bool" where
  "plain_value (PFloat m e) = False"
| "plain_value (PStr s) = utf8_valid s"
| "plain_value (PList xs) = list_all plain_value xs"
| "plain_value (PDict d) = list_all (\<lambda>kv. utf8_valid (fst kv) \<and> plain_value (snd kv)) d"
| "plain_value _ = True"

fun nesting :: "pyval \<Rightarrow> nat" where
  "nesting (PList xs) = Suc (foldr max (map nesting xs) 0)"
| "nesting (PDict d) = Suc (foldr max (map (\<lambda>kv. nesting (snd kv)) d) 0)"
| "nesting _ = 0"

fun strict_value :: "pyval \<Rightarrow> bool" where
  "strict_value (PInt i) \<longleftrightarrow> - max_safe_integer \<le> i \<and> i \<le> max_safe_integer"
| "strict_value (PList xs) \<longleftrightarrow> list_all strict_value xs"
| "strict_value (PDict d) \<longleftrightarrow> distinct (dict_keys d) \<and> list_all (\<lambda>kv. strict_value (snd kv)) d"
| "strict_value _ \<longleftrightarrow> True"

subsection \<open>Strings\<close>

lemma hex_digit_value_hex_digit: "k < 16 \<Longrightarrow> hex_digit_value (hex_digit k) = Some k"
  by (simp add: hex_digit_value_def hex_digit_def)

lemma escape_scans:
  "scan_string (escape_char c @ s) = bindE (scan_string s) (\<lambda>(t, rest). Inr (c # t, rest))"
proof -
  let ?n = "of_char c :: nat"
  consider "?n = 34 \<or> ?n = 92" | "?n < 32" | "?n \<noteq> 34" "?n \<noteq> 92" "\<not> ?n < 32" by blast
  then show ?thesis
  proof cases
    case 1
    then have "escape_char c = [backslash, c]" "c \<noteq> CHR ''u''" "simple_escape c = Some c"
      by (auto simp: escape_char_def simple_escape_def)
    then show ?thesis by (simp add: scan_string.simps backslash_def)
  next
    case 2
    have hex: "hex4 (CHR ''0'') (CHR ''0'') (hex_digit (?n div 16)) (hex_digit (?n mod 16)) = Some ?n"
      using 2 by (simp add: hex4_def hex_digit_value_hex_digit) (simp add: hex_digit_value_def)
    have join: "join_surrogates ?n s = (?n, s)"
      using 2 by (auto simp: join_surrogates_def split: list.splits option.splits)
    have "utf8_encode ?n = [c]" using 2 by (simp add: utf8_encode_def)
    with 2 hex join show ?thesis
      by (simp add: escape_char_def scan_string.simps backslash_def Let_def)
  next
    case 3
    then show ?thesis by (simp add: escape_char_def scan_string.simps)
  qed
qed

lemma string_scans: "scan_string (concat (map escape_char s) @ quote # rest) = Inr (s, rest)"
  by (induction s) (simp_all add: escape_scans, simp add: scan_string.simps quote_def)

subsection \<open>Integers\<close>

lemma digit_char_digit:
  assumes "0 \<le> d" "d < 10"
  shows "is_digit (digit_char d)" "map_of digit_values (digit_char d) = Some d"
    "digit_char d = CHR ''0'' \<longleftrightarrow> d = 0"
proof -
  have "d = 0 \<or> d = 1 \<or> d = 2 \<or> d = 3 \<or> d = 4 \<or> d = 5 \<or> d = 6 \<or> d = 7 \<or> d = 8 \<or> d = 9"
    using assms by arith
  then show "is_digit (digit_char d)" "map_of digit_values (digit_char d) = Some d"
    "digit_char d = CHR ''0'' \<longleftrightarrow> d = 0"
    by (auto simp: digit_char_def is_digit_def digit_values_def)
qed

lemma digits_value_snoc: "digits_value (s @ [c]) = 10 * digits_value s + the (map_of digit_values c)"
  by (simp add: digits_value_def)

lemma int_digits_facts:
  assumes "0 \<le> n"
  shows "list_all is_digit (int_digits n)" "digits_value (int_digits n) = n" "int_digits n \<noteq> []"
    "hd (int_digits n) = CHR ''0'' \<longleftrightarrow> n = 0"
    "n < 10 ^ Suc k \<Longrightarrow> length (int_digits n) \<le> Suc k"
proof -
  have "list_all is_digit (int_digits n) \<and> digits_value (int_digits n) = n \<and> int_digits n \<noteq> [] \<and>
      (hd (int_digits n) = CHR ''0'' \<longleftrightarrow> n = 0) \<and> (\<forall>k. n < 10 ^ Suc k \<longrightarrow> length (int_digits n) \<le> Suc k)"
    using assms
  proof (induction n rule: int_digits.induct)
    case (1 n)
    show ?case
    proof (cases "n < 10")
      case True
      then have "int_digits n = [digit_char n]" by (simp add: int_digits.simps)
      then show ?thesis using True \<open>0 \<le> n\<close> by (simp add: digit_char_digit digits_value_def)
    next
      case False
      have eq: "int_digits n = int_digits (n div 10) @ [digit_char (n mod 10)]"
        using False by (subst int_digits.simps) simp
      have IH: "list_all is_digit (int_digits (n div 10))" "digits_value (int_digits (n div 10)) = n div 10"
        "int_digits (n div 10) \<noteq> []" "hd (int_digits (n div 10)) = CHR ''0'' \<longleftrightarrow> n div 10 = 0"
        "\<And>k. n div 10 < 10 ^ Suc k \<Longrightarrow> length (int_digits (n div 10)) \<le> Suc k"
        using "1.IH" [OF False] False by auto
      have len: "length (int_digits n) \<le> Suc k" if "n < 10 ^ Suc k" for k
      proof (cases k)
        case 0
        then show ?thesis using that False by simp
      next
        case (Suc j)
        then have "n div 10 < 10 ^ Suc j" using that by simp
        then show ?thesis using IH(5) [of j] eq Suc by simp
      qed
      have "0 \<le> n mod 10" "n mod 10 < 10" by simp_all
      with IH len show ?thesis
        using False unfolding eq
        by (simp add: digits_value_snoc digit_char_digit)
    qed
  qed
  then show "list_all is_digit (int_digits n)" "digits_value (int_digits n) = n" "int_digits n \<noteq> []"
    "hd (int_digits n) = CHR ''0'' \<longleftrightarrow> n = 0"
    "n < 10 ^ Suc k \<Longrightarrow> length (int_digits n) \<le> Suc k" by blast+
qed

definition delimited :: "string \<Rightarrow> bool" where
  "delimited rest \<longleftrightarrow> rest = [] \<or> hd rest \<in> {CHR '','', CHR '']'', CHR ''}''}"

lemma delimited_digit:
  assumes "delimited rest"
  shows "rest = [] \<or> \<not> is_digit (hd rest)" "fraction_part rest = ([], rest)" "exponent_part rest = (None, rest)"
  using assms by (cases rest; auto simp: delimited_def is_digit_def fraction_part_def exponent_part_def
      split: list.splits)+

lemma takeWhile_digits:
  "list_all is_digit ds \<Longrightarrow> rest = [] \<or> \<not> is_digit (hd rest) \<Longrightarrow>
     takeWhile is_digit (ds @ rest) = ds \<and> dropWhile is_digit (ds @ rest) = rest"
  by (induction ds) (cases rest; auto)+

lemma int_part_digits:
  assumes "0 \<le> n" "delimited rest"
  shows "int_part (int_digits n @ rest) = Some (int_digits n, rest)"
proof (cases "n = 0")
  case True
  then show ?thesis by (simp add: int_digits.simps digit_char_def int_part_def)
next
  case False
  obtain c cs where c: "int_digits n = c # cs"
    using int_digits_facts(3) [OF assms(1)] by (cases "int_digits n") auto
  have "c \<noteq> CHR ''0''" "is_digit c"
    using int_digits_facts(1,4) [OF assms(1)] False by (simp_all add: c)
  then show ?thesis
    using takeWhile_digits [OF int_digits_facts(1) [OF assms(1)] delimited_digit(1) [OF assms(2)]]
    by (simp add: int_part_def c)
qed

lemma int_scans:
  assumes "- max_safe_integer \<le> i" "i \<le> max_safe_integer" "delimited rest"
  shows "scan_number (int_str i @ rest) = Inr (PInt i, rest)"
proof -
  let ?n = "abs i"
  have n: "0 \<le> ?n" by simp
  have "?n < 10 ^ Suc 15" using assms(1,2) by (auto simp: max_safe_integer_def)
  then have "length (int_digits ?n) \<le> Suc 15" by (rule int_digits_facts(5) [OF n])
  then have safe: "safe_integer (i < 0) (int_digits ?n) = Inr (PInt i)"
    using assms(1,2) by (simp add: safe_integer_def max_str_digits_def int_digits_facts(2) Let_def)
  have first: "int_digits ?n \<noteq> []" "hd (int_digits ?n) \<noteq> CHR ''-''"
    using int_digits_facts(1,3) [OF n] by (cases "int_digits ?n"; auto simp: is_digit_def)+
  have str: "int_str i = (if i < 0 then CHR ''-'' # int_digits ?n else int_digits ?n)"
    by (simp add: int_str_def)
  have parts: "int_part (int_digits ?n @ rest) = Some (int_digits ?n, rest)"
    by (rule int_part_digits [OF n assms(3)])
  show ?thesis
  proof (cases "i < 0")
    case True
    then show ?thesis
      using safe parts delimited_digit(2,3) [OF assms(3)] unfolding str by (simp add: scan_number_def Let_def)
  next
    case False
    have "scan_number (int_digits ?n @ rest) = Inr (PInt i, rest)"
      using safe parts False first delimited_digit(2,3) [OF assms(3)]
      by (simp add: scan_number_def Let_def del: abs_of_nonneg)
    with False show ?thesis unfolding str by simp
  qed
qed


subsection \<open>Values\<close>

lemma json_text_first:
  assumes "plain_value v"
  shows "json_text v \<noteq> []" "\<not> json_space (hd (json_text v))"
    "hd (json_text v) \<noteq> CHR '']''" "hd (json_text v) \<noteq> CHR ''}''"
proof -
  have digits: "int_digits n \<noteq> [] \<and> is_digit (hd (int_digits n))" if "0 \<le> n" for n
    using int_digits_facts(1,3) [OF that] by (cases "int_digits n") auto
  have "json_text v \<noteq> [] \<and> \<not> json_space (hd (json_text v)) \<and>
    hd (json_text v) \<noteq> CHR '']'' \<and> hd (json_text v) \<noteq> CHR ''}''"
  proof (cases v)
    case (PInt i)
    show ?thesis
    proof (cases "i < 0")
      case False
      then have "is_digit (hd (int_digits i))" "int_digits i \<noteq> []" using digits [of i] by auto
      then show ?thesis using PInt False by (auto simp: int_str_def json_space_def is_digit_def Let_def)
    qed (simp add: PInt int_str_def json_space_def)
  qed (use assms in \<open>auto simp: json_space_def json_string_def quote_def\<close>)
  then show "json_text v \<noteq> []" "\<not> json_space (hd (json_text v))"
    "hd (json_text v) \<noteq> CHR '']''" "hd (json_text v) \<noteq> CHR ''}''" by blast+
qed

lemma skip_space_id: "s \<noteq> [] \<Longrightarrow> \<not> json_space (hd s) \<Longrightarrow> skip_space (s @ r) = s @ r"
  by (cases s) (simp_all add: skip_space_def)

lemma skip_space_text: "plain_value v \<Longrightarrow> skip_space (json_text v @ r) = json_text v @ r"
  using json_text_first by (intro skip_space_id)

lemma skip_space_char: "\<not> json_space c \<Longrightarrow> skip_space (c # r) = c # r"
  by (simp add: skip_space_def)

lemma skip_space_simps [simp]:
  "skip_space (CHR '','' # r) = CHR '','' # r" "skip_space (CHR '']'' # r) = CHR '']'' # r"
  "skip_space (CHR ''}'' # r) = CHR ''}'' # r" "skip_space (CHR '':'' # r) = CHR '':'' # r"
  "skip_space (quote # r) = quote # r"
  by (simp_all add: skip_space_char json_space_def quote_def)

lemma quote_neq [simp]: "quote \<noteq> CHR '']''" "quote \<noteq> CHR ''}''"
  by (simp_all add: quote_def)

lemma separator_simps [simp]:
  "separator (CHR '']'') (CHR '']'' # r) = Inr (True, r)" "separator (CHR ''}'') (CHR ''}'' # r) = Inr (True, r)"
  "separator (CHR '']'') (CHR '','' # r) = Inr (False, skip_space r)"
  "separator (CHR ''}'') (CHR '','' # r) = Inr (False, skip_space r)"
  by (simp_all add: separator_def)

lemma delimited_simps [simp]:
  "delimited []" "delimited (CHR '','' # r)" "delimited (CHR '']'' # r)" "delimited (CHR ''}'' # r)"
  by (simp_all add: delimited_def)

definition value_scans :: "pyval \<Rightarrow> bool" where
  "value_scans v \<longleftrightarrow>
     (\<forall>d n rest. nesting v \<le> d \<longrightarrow> 2 * length (json_text v @ rest) < n \<longrightarrow> delimited rest \<longrightarrow>
        scan_once n d (json_text v @ rest) = Inr (v, rest))"

lemma foldr_max_le: "foldr max xs 0 \<le> (d :: nat) \<longleftrightarrow> (\<forall>x\<in>set xs. x \<le> d)"
  by (induction xs) auto

lemma elements_scan:
  assumes "xs \<noteq> []" "\<forall>v\<in>set xs. value_scans v \<and> plain_value v \<and> nesting v \<le> d"
    "2 * length (join_with '','' (map json_text xs) @ CHR '']'' # rest) + 1 < n"
  shows "scan_elements n d (join_with '','' (map json_text xs) @ CHR '']'' # rest) = Inr (xs, rest)"
  using assms
proof (induction xs arbitrary: n)
  case (Cons v xs)
  obtain m where m: "n = Suc m" using Cons.prems(3) by (cases n) auto
  show ?case
  proof (cases xs)
    case Nil
    then have "scan_once m d (json_text v @ CHR '']'' # rest) = Inr (v, CHR '']'' # rest)"
      using Cons.prems m by (simp add: value_scans_def)
    then show ?thesis by (simp add: Nil m scan_elements.simps)
  next
    case (Cons w ws)
    let ?tail = "join_with '','' (map json_text xs) @ CHR '']'' # rest"
    have str: "join_with '','' (map json_text (v # xs)) @ CHR '']'' # rest = json_text v @ CHR '','' # ?tail"
      by (simp add: Cons)
    have "scan_once m d (json_text v @ CHR '','' # ?tail) = Inr (v, CHR '','' # ?tail)"
      using Cons.prems m str by (simp add: value_scans_def)
    moreover have "skip_space ?tail = ?tail"
      using Cons.prems(2) Cons skip_space_text [of w] by (cases ws) simp_all
    moreover have "scan_elements m d ?tail = Inr (xs, rest)"
      using Cons.prems m str Cons by (intro Cons.IH) simp_all
    ultimately show ?thesis unfolding str by (simp add: m scan_elements.simps)
  qed
qed simp


definition member_text :: "string \<times> pyval \<Rightarrow> string" where
  "member_text kv = json_string (fst kv) @ '':'' @ json_text (snd kv)"

lemma json_text_PDict: "json_text (PDict d) = ''{'' @ join_with '','' (map member_text d) @ ''}''"
  by (simp add: member_text_def [abs_def])

lemma member_scans:
  assumes "value_scans v" "plain_value v" "nesting v \<le> d" "delimited tail" "tail \<noteq> []"
    "2 * length (member_text (k, v) @ tail) < n"
  shows "scan_members n d (member_text (k, v) @ tail) =
    bindE (separator (CHR ''}'') tail) (\<lambda>(closed, y).
      if closed then Inr ([(k, v)], y)
      else bindE (scan_members (n - 1) d y) (\<lambda>(pairs, rest). Inr ((k, v) # pairs, rest)))"
proof -
  obtain m where m: "n = Suc m" using assms(6) by (cases n) auto
  then have n: "n - 1 = m" by simp
  have "scan_once m d (json_text v @ tail) = Inr (v, tail)"
    using assms m by (simp add: value_scans_def member_text_def json_string_def)
  then show ?thesis
    using skip_space_text [OF assms(2)]
    unfolding n by (simp add: m scan_members.simps member_text_def json_string_def expect_def string_scans)
qed

lemma members_scan:
  assumes "d \<noteq> []" "\<forall>kv\<in>set d. value_scans (snd kv) \<and> plain_value (snd kv) \<and> nesting (snd kv) \<le> k"
    "2 * length (join_with '','' (map member_text d) @ CHR ''}'' # rest) < n"
  shows "scan_members n k (join_with '','' (map member_text d) @ CHR ''}'' # rest) = Inr (d, rest)"
  using assms
proof (induction d arbitrary: n)
  case (Cons kv d)
  have ok: "value_scans (snd kv)" "plain_value (snd kv)" "nesting (snd kv) \<le> k"
    using Cons.prems(2) by auto
  show ?case
  proof (cases d)
    case Nil
    then show ?thesis
      using member_scans [OF ok, of "CHR ''}'' # rest" "fst kv" n] Cons.prems(3) by simp
  next
    case (Cons kv' d')
    let ?tail = "join_with '','' (map member_text d) @ CHR ''}'' # rest"
    have str: "join_with '','' (map member_text (kv # d)) @ CHR ''}'' # rest = member_text kv @ CHR '','' # ?tail"
      by (simp add: Cons)
    have "skip_space ?tail = ?tail"
      using Cons by (cases d') (simp_all add: member_text_def json_string_def)
    moreover have "scan_members (n - 1) k ?tail = Inr (d, rest)"
      using Cons.prems str Cons by (intro Cons.IH) simp_all
    ultimately show ?thesis
      using member_scans [OF ok, of "CHR '','' # ?tail" "fst kv" n] Cons.prems(3) unfolding str by simp
  qed
qed simp

lemma first_not:
  "s \<noteq> [] \<Longrightarrow> hd s \<noteq> c \<Longrightarrow> \<not> begins c (s @ r)"
  by (simp add: begins_def)

lemma value_scansI:
  assumes "\<And>m d rest. nesting v \<le> d \<Longrightarrow> delimited rest \<Longrightarrow> scan_once (Suc m) d (json_text v @ rest) = Inr (v, rest)"
  shows "value_scans v"
  unfolding value_scans_def
proof (intro allI impI)
  fix d n rest assume h: "nesting v \<le> d" "2 * length (json_text v @ rest) < n" "delimited rest"
  then obtain m where "n = Suc m" by (cases n) auto
  with assms h show "scan_once n d (json_text v @ rest) = Inr (v, rest)" by blast
qed

lemma number_first:
  "c = CHR ''-'' \<or> is_digit c \<Longrightarrow>
     c \<notin> {quote, CHR ''{'', CHR ''['', CHR ''n'', CHR ''t'', CHR ''f'', CHR ''N'', CHR ''I''}"
  by (auto simp: is_digit_def quote_def)

lemma values_scan:
  "plain_value v \<Longrightarrow> strict_value v \<Longrightarrow> value_scans v"
proof (induction v)
  case (PInt i)
  have first: "hd (int_str i) = CHR ''-'' \<or> is_digit (hd (int_str i))" "int_str i \<noteq> []"
  proof -
    have "list_all is_digit (int_digits (abs i))" "int_digits (abs i) \<noteq> []"
      by (rule int_digits_facts(1,3), simp)+
    then show "hd (int_str i) = CHR ''-'' \<or> is_digit (hd (int_str i))" "int_str i \<noteq> []"
      by (cases "int_digits (abs i)"; auto simp: int_str_def)+
  qed
  have "scan_once (Suc m) d (int_str i @ rest) = scan_number (int_str i @ rest)" for m d rest
    using number_first [OF first(1)] first(2) by (simp add: scan_once.simps)
  then show ?case
    using PInt int_scans by (intro value_scansI) simp
next
  case (PStr s)
  show ?case
    by (rule value_scansI) (simp add: scan_once.simps json_string_def string_scans)
next
  case (PList xs)
  show ?case
    unfolding value_scans_def
  proof (intro allI impI)
    fix d n rest assume h: "nesting (PList xs) \<le> d" "2 * length (json_text (PList xs) @ rest) < n" "delimited rest"
    obtain m e where m: "n = Suc m" "d = Suc e" using h(1,2) by (cases n; cases d) auto
    show "scan_once n d (json_text (PList xs) @ rest) = Inr (PList xs, rest)"
    proof (cases xs)
      case Nil
      then show ?thesis by (simp add: m scan_once.simps begins_def quote_def)
    next
      case (Cons x ys)
      let ?s = "join_with '','' (map json_text xs) @ CHR '']'' # rest"
      have all: "\<forall>v\<in>set xs. value_scans v \<and> plain_value v \<and> nesting v \<le> e"
        using PList h(1) m by (simp add: list_all_iff foldr_max_le)
      have "scan_elements m e ?s = Inr (xs, rest)"
        using h(2) m Cons by (intro elements_scan [OF _ all]) simp_all
      moreover have "skip_space ?s = ?s \<and> \<not> begins (CHR '']'') ?s"
        using all Cons skip_space_text [of x] json_text_first [of x]
        by (cases ys) (simp_all add: first_not begins_def)
      ultimately show ?thesis by (simp add: m scan_once.simps quote_def)
    qed
  qed
next
  case (PDict d)
  show ?case
    unfolding value_scans_def
  proof (intro allI impI)
    fix k n rest assume h: "nesting (PDict d) \<le> k" "2 * length (json_text (PDict d) @ rest) < n" "delimited rest"
    obtain m e where m: "n = Suc m" "k = Suc e" using h(1,2) by (cases n; cases k) auto
    show "scan_once n k (json_text (PDict d) @ rest) = Inr (PDict d, rest)"
    proof (cases d)
      case Nil
      then show ?thesis
        by (simp add: m scan_once.simps begins_def quote_def object_without_duplicates_def)
    next
      case (Cons kv d')
      let ?s = "join_with '','' (map member_text d) @ CHR ''}'' # rest"
      have all: "\<forall>kv\<in>set d. value_scans (snd kv) \<and> plain_value (snd kv) \<and> nesting (snd kv) \<le> e"
        using PDict h(1) m by (fastforce simp: list_all_iff foldr_max_le)
      have "scan_members m e ?s = Inr (d, rest)"
        using h(2) [unfolded json_text_PDict] m Cons by (intro members_scan [OF _ all]) simp_all
      moreover have "skip_space ?s = ?s \<and> \<not> begins (CHR ''}'') ?s"
        using Cons by (cases d') (simp_all add: member_text_def json_string_def begins_def)
      ultimately show ?thesis
        using PDict.prems(2) unfolding json_text_PDict
        by (simp add: m scan_once.simps quote_def object_without_duplicates_def)
    qed
  qed
qed (simp_all add: value_scansI scan_once.simps scan_word_def json_string_def string_scans quote_def)

subsection \<open>Bytes\<close>

lemma utf8_step_append: "utf8_step s = Some r \<Longrightarrow> utf8_step (s @ t) = Some (r @ t)"
  by (cases s; cases "tl s"; cases "tl (tl s)"; cases "tl (tl (tl s))")
    (auto simp: utf8_step_def split: if_splits)

lemma utf8_valid_append: "utf8_valid s \<Longrightarrow> utf8_valid t \<Longrightarrow> utf8_valid (s @ t)"
proof (induction s rule: utf8_valid.induct)
  case (1 s)
  show ?case
  proof (cases "s = []")
    case False
    then obtain r where r: "utf8_step s = Some r" "utf8_valid r"
      using "1.prems"(1) by (auto simp: utf8_valid.simps [of s] split: option.splits)
    then have "utf8_valid (r @ t)" using "1.IH" [OF False r(1)] "1.prems"(2) by blast
    then show ?thesis
      using False r(1) utf8_step_append [OF r(1), of t] by (subst utf8_valid.simps) simp
  qed (use 1 in simp)
qed

lemma utf8_valid_ascii: "byte_in 0 127 c \<Longrightarrow> utf8_valid s \<Longrightarrow> utf8_valid (c # s)"
  by (subst utf8_valid.simps) (simp add: utf8_step_def)

lemma utf8_valid_Nil: "utf8_valid []"
  by (subst utf8_valid.simps) simp

lemma utf8_ascii_text: "list_all (byte_in 0 127) s \<Longrightarrow> utf8_valid s"
  by (induction s) (simp_all add: utf8_valid_Nil utf8_valid_ascii)

lemma utf8_escape:
  assumes "utf8_step s = Some r"
  shows "\<exists>w. concat (map escape_char s) = w @ concat (map escape_char r) \<and> utf8_valid w"
proof -
  obtain u where u: "s = u @ r" "utf8_step u = Some []"
    using assms by (auto simp: utf8_step_def split: list.splits if_splits)
  have "utf8_valid (concat (map escape_char u))"
  proof (cases "\<exists>c. u = [c]")
    case True
    then obtain c where c: "u = [c]" by blast
    then have "byte_in 0 127 c" using u(2) by (simp add: utf8_step_def split: if_splits)
    moreover have "byte_in 0 127 (hex_digit k)" if "k < 16" for k
      using that by (simp add: hex_digit_def byte_in_def)
    moreover have "of_char c mod 16 < (16 :: nat)" by simp
    ultimately have "list_all (byte_in 0 127) (escape_char c)"
      by (simp add: escape_char_def Let_def backslash_def) (auto simp: byte_in_def)
    then show ?thesis using c by (simp add: utf8_ascii_text)
  next
    case False
    then have "list_all (\<lambda>c. \<not> byte_in 0 127 c) u"
      using u(2) by (auto simp: utf8_step_def byte_in_def Let_def split: list.splits if_splits)
    then have "concat (map escape_char u) = u"
      by (induction u) (auto simp: escape_char_def Let_def byte_in_def)
    moreover have "utf8_valid u" using u(2) by (subst utf8_valid.simps) (simp add: utf8_valid_Nil)
    ultimately show ?thesis by simp
  qed
  with u(1) show ?thesis by auto
qed

lemma json_string_valid: "utf8_valid s \<Longrightarrow> utf8_valid (json_string s)"
proof -
  have "utf8_valid (concat (map escape_char s))" if "utf8_valid s" using that
  proof (induction s rule: utf8_valid.induct)
    case (1 s)
    show ?case
    proof (cases "s = []")
      case False
      then obtain r where r: "utf8_step s = Some r" "utf8_valid r"
        using "1.prems" by (auto simp: utf8_valid.simps [of s] split: option.splits)
      then show ?thesis
        using "1.IH" [OF False r(1,2)] utf8_escape [OF r(1)] by (auto intro: utf8_valid_append)
    qed (simp add: utf8_valid_Nil)
  qed
  moreover have "byte_in 0 127 quote" by (simp add: byte_in_def quote_def)
  ultimately show "utf8_valid s \<Longrightarrow> utf8_valid (json_string s)"
    unfolding json_string_def by (simp add: utf8_valid_ascii utf8_valid_append utf8_valid_Nil)
qed

lemma utf8_valid_join:
  "\<forall>x\<in>set xs. utf8_valid x \<Longrightarrow> utf8_valid (join_with '','' xs)"
proof (induction xs)
  case (Cons x xs)
  then show ?case
    by (cases xs) (auto simp: byte_in_def intro!: utf8_valid_append utf8_valid_ascii)
qed (simp add: utf8_valid_Nil)

lemma json_text_valid: "plain_value v \<Longrightarrow> utf8_valid (json_text v)"
proof (induction v)
  case (PInt i)
  have "list_all (byte_in 0 127) (int_digits n)" if "0 \<le> n" for n
    using int_digits_facts(1) [OF that] by (auto simp: list_all_iff is_digit_def byte_in_def Let_def)
  from this [of "abs i"] show ?case
    by (auto simp: int_str_def byte_in_def intro!: utf8_ascii_text)
next
  case (PList xs)
  then have "utf8_valid (join_with '','' (map json_text xs))"
    by (intro utf8_valid_join) (auto simp: list_all_iff)
  then show ?case
    by (auto simp: byte_in_def utf8_valid_Nil intro!: utf8_valid_ascii utf8_valid_append)
next
  case (PDict d)
  have "utf8_valid (member_text kv)" if "kv \<in> set d" for kv
  proof -
    have "utf8_valid (json_text (snd kv))" "utf8_valid (json_string (fst kv))"
      using PDict that by (cases kv; fastforce simp: list_all_iff intro: json_string_valid)+
    then show ?thesis
      unfolding member_text_def by (auto simp: byte_in_def intro!: utf8_valid_ascii utf8_valid_append)
  qed
  then have "utf8_valid (join_with '','' (map member_text d))"
    by (intro utf8_valid_join) auto
  then show ?case
    unfolding json_text_PDict
    by (auto simp: byte_in_def utf8_valid_Nil intro!: utf8_valid_ascii utf8_valid_append)
qed (auto simp: byte_in_def json_string_valid intro!: utf8_ascii_text)


subsection \<open>Accepted values are strict\<close>

lemma safe_integer_strict: "safe_integer negative digits = Inr v \<Longrightarrow> strict_value v"
  by (auto simp: safe_integer_def Let_def split: if_splits)

lemma finite_float_strict: "finite_float negative digits fraction exponent = Inr v \<Longrightarrow> strict_value v"
  by (auto simp: finite_float_def Let_def split: option.splits prod.splits)

lemma scan_number_strict: "scan_number s = Inr (v, rest) \<Longrightarrow> strict_value v"
  by (auto simp: scan_number_def Let_def bindE_eq_Inr reject_constant_def
      split: if_splits option.splits prod.splits dest: safe_integer_strict finite_float_strict)

lemma scan_strict:
  "(\<forall>d s v rest. scan_once n d s = Inr (v, rest) \<longrightarrow> strict_value v) \<and>
   (\<forall>d s p rest. scan_members n d s = Inr (p, rest) \<longrightarrow> list_all (\<lambda>kv. strict_value (snd kv)) p) \<and>
   (\<forall>d s vs rest. scan_elements n d s = Inr (vs, rest) \<longrightarrow> list_all strict_value vs)"
proof (induction n)
  case (Suc n)
  then have IH: "\<And>d s v rest. scan_once n d s = Inr (v, rest) \<Longrightarrow> strict_value v"
    "\<And>d s p rest. scan_members n d s = Inr (p, rest) \<Longrightarrow> list_all (\<lambda>kv. strict_value (snd kv)) p"
    "\<And>d s vs rest. scan_elements n d s = Inr (vs, rest) \<Longrightarrow> list_all strict_value vs" by blast+
  have "strict_value v" if "scan_once (Suc n) d s = Inr (v, rest)" for d s v rest
    using that unfolding scan_once.simps
    by (auto simp: bindE_eq_Inr object_without_duplicates_def reject_constant_def scan_word_def split: if_splits
        dest: IH(2,3) scan_number_strict)
  moreover have "list_all (\<lambda>kv. strict_value (snd kv)) p" if "scan_members (Suc n) d s = Inr (p, rest)" for d s p rest
    using that unfolding scan_members.simps
    by (auto simp: bindE_eq_Inr split: if_splits dest: IH(1,2))
  moreover have "list_all strict_value vs" if "scan_elements (Suc n) d s = Inr (vs, rest)" for d s vs rest
    using that unfolding scan_elements.simps
    by (auto simp: bindE_eq_Inr split: if_splits dest: IH(1,3))
  ultimately show ?case by blast
qed (simp add: scan_once.simps scan_members.simps scan_elements.simps)

lemma json_loads_strict: "json_loads depth text = Inr v \<Longrightarrow> strict_value v"
  using scan_strict [THEN conjunct1, rule_format]
  by (auto simp: json_loads_def bindE_eq_Inr split: if_splits)

subsection \<open>Properties\<close>

text \<open>
  C15: A document that \<open>load_strict_json\<close> accepts is valid UTF-8 without a byte order mark, is an
  object, and at no depth repeats a key or holds an integer outside the range that a double
  represents exactly.
\<close>

theorem loaded_document_strict:
  assumes "load_strict_json depth data True = Inr v"
  shows "utf8_valid data \<and> take 3 data \<noteq> utf8_bom \<and> (\<exists>d. v = PDict d) \<and> strict_value v"
  using assms json_loads_strict
  by (auto simp: load_strict_json_def bindE_eq_Inr split: if_splits pyval.splits)

theorem loaded_document_strict_witness:
  "\<exists>v. load_strict_json 2 ('' {'' @ json_string ''a'' @ '' : [1, 2.5]} '') True = Inr v \<and> strict_value v"
proof -
  have "is_ok (load_strict_json 2 ('' {'' @ json_string ''a'' @ '' : [1, 2.5]} '') True)" by code_simp
  then obtain v where v: "load_strict_json 2 ('' {'' @ json_string ''a'' @ '' : [1, 2.5]} '') True = Inr v"
    by (auto simp: is_ok_iff)
  from v loaded_document_strict [OF v] show ?thesis by blast
qed

lemma object_text_reads:
  assumes "plain_value (PDict d)" "strict_value (PDict d)" "nesting (PDict d) \<le> depth"
  shows "load_strict_json depth (json_text (PDict d)) True = Inr (PDict d)"
proof -
  let ?s = "json_text (PDict d)"
  have "utf8_valid ?s" using assms(1) by (rule json_text_valid)
  moreover have "take 3 ?s \<noteq> utf8_bom" by (simp add: utf8_bom_def)
  moreover have "scan_once (Suc (2 * length ?s)) depth (?s @ []) = Inr (PDict d, [])"
    using values_scan [OF assms(1,2)] assms(3) unfolding value_scans_def by (metis append_Nil2 delimited_simps(1) lessI)
  moreover have "skip_space ?s = ?s" using skip_space_text [OF assms(1), of "[]"] by simp
  ultimately show ?thesis
    by (simp add: load_strict_json_def json_loads_def skip_space_def del: json_text.simps)
qed

text \<open>
  C14: Every object without floats, with UTF-8 strings, distinct keys and exact integers is read back
  unchanged from its compact text, whatever it holds, as long as it does not nest deeper than the
  interpreter allows.
\<close>

theorem json_round_trip:
  assumes "plain_value (PDict d)" "strict_value (PDict d)" "nesting (PDict d) \<le> depth"
  shows "load_strict_json depth (json_text (PDict d)) True = Inr (PDict d)"
  using assms by (rule object_text_reads)

theorem json_round_trip_witness:
  "load_strict_json 2 (json_text (PDict [(''k'', PList [PInt (- 3), PStr [CHR 0x0A, CHR 0x22]])])) True =
     Inr (PDict [(''k'', PList [PInt (- 3), PStr [CHR 0x0A, CHR 0x22]])])"
  by (rule json_round_trip) code_simp+



text \<open>
  An integer of more than 4300 digits makes \<open>load_strict_json\<close> raise a plain \<open>ValueError\<close> from
  \<open>int()\<close> instead of a rejection with a code.
\<close>

theorem long_integer_escapes:
  assumes "list_all is_digit digits" "hd digits \<noteq> CHR ''0''" "max_str_digits < length digits"
  shows "load_strict_json (Suc depth) (''['' @ digits @ '']'') require_object = Inl (PyError ValueError)"
proof -
  let ?s = "digits @ '']''"
  obtain c cs where c: "digits = c # cs" using assms(3) by (cases digits) auto
  have "list_all (byte_in 0 127) (''['' @ ?s)"
    using assms(1) by (auto simp: list_all_iff is_digit_def byte_in_def Let_def)
  then have utf8: "utf8_valid (''['' @ ?s)" by (rule utf8_ascii_text)
  have digit: "is_digit c" "c \<noteq> CHR ''0''" "c \<noteq> CHR ''-''" using assms(1,2) by (auto simp: c is_digit_def)
  have "int_part ?s = Some (digits, '']'')"
    using takeWhile_digits [OF assms(1), of "'']''"] digit by (simp add: int_part_def c is_digit_def)
  then have number: "scan_number ?s = Inl (PyError ValueError)"
    using digit assms(3) delimited_digit(2,3) [of "'']''"]
    by (simp add: scan_number_def Let_def safe_integer_def c)
  have once: "scan_once (Suc m) depth ?s = Inl (PyError ValueError)" for m
    using number_first [of c] digit(1) number by (simp add: scan_once.simps c)
  have "\<not> json_space c" "\<not> begins (CHR '']'') ?s"
    using digit by (auto simp: is_digit_def json_space_def begins_def c Let_def)
  then have skip: "skip_space ?s = ?s" by (simp add: c skip_space_def)
  have "scan_once (Suc (Suc (Suc m))) (Suc depth) (''['' @ ?s) = Inl (PyError ValueError)" for m
    using once [of m] skip \<open>\<not> begins (CHR '']'') ?s\<close> by (simp add: scan_once.simps(2) scan_elements.simps quote_def)
  from this [of "2 * length (''['' @ ?s) - 2"]
  have "scan_once (Suc (2 * length (''['' @ ?s))) (Suc depth) (''['' @ ?s) = Inl (PyError ValueError)"
    by (simp add: c)
  then show ?thesis
    using utf8 by (simp add: load_strict_json_def json_loads_def utf8_bom_def skip_space_char json_space_def)
qed

theorem long_integer_escapes_witness:
  "load_strict_json 1 (''['' @ replicate 4301 (CHR ''1'') @ '']'') True = Inl (PyError ValueError)"
  using long_integer_escapes [of "replicate 4301 (CHR ''1'')" 0 True]
  by (simp add: list_all_iff is_digit_def max_str_digits_def)

end
