(* ===== verification/Archive_Contract.thy ===== *)
theory Archive_Contract
  imports Strict_Json Canonical_Json "HOL-Library.Word"
begin

section \<open>Package archives (\<^verbatim>\<open>analysis/package_validation/archive_contract.py\<close>)\<close>

text \<open>
  The preflight of a ZIP archive and its comparison with the descriptor.  The archive is its bytes.
  \<open>zipfile\<close> is an argument of the definitions: \<open>zip_open\<close> gives the central directory or the class
  of the exception, \<open>zip_read\<close> the chunks that reading a member delivers and the exception, if any,
  that ends the reading.  \<open>sha256\<close> and the RFC 8785 encoder are arguments as in
  \<^verbatim>\<open>Canonical_Json\<close>.  Sizes, attributes and flags of a member are the fields of its directory
  entry.
\<close>

unbundle bit_operations_syntax

subsection \<open>The ZIP library\<close>

datatype zip_exception =
    BadZipFile | LargeZipFile | OSErrorRaised | EOFErrorRaised | RuntimeErrorRaised | ValueErrorRaised
  | ZlibErrorRaised

record zip_info =
  zi_filename :: string
  zi_external_attr :: "32 word"
  zi_header_offset :: int
  zi_flag_bits :: "16 word"
  zi_compress_type :: int
  zi_file_size :: int
  zi_compress_size :: int

record zip_library =
  zip_open :: "string \<Rightarrow> zip_exception + zip_info list"
  zip_read :: "string \<Rightarrow> zip_info \<Rightarrow> string list \<times> zip_exception option"

text \<open>\<open>None\<close> is a path that is no regular file.\<close>

type_synonym archive_file = "string option"

subsection \<open>Members\<close>

definition hash_pattern :: "string \<Rightarrow> bool" where
  "hash_pattern s \<longleftrightarrow> length s = 64 \<and> list_all (\<lambda>c. c \<in> set ''0123456789abcdef'') s"

definition manifest_path :: string where
  "manifest_path = ''collector_manifest.json''"

definition member_id_char :: "char \<Rightarrow> bool" where
  "member_id_char c \<longleftrightarrow> c \<in> set ''0123456789abcdefABCDEF-''"

definition member_in :: "string \<Rightarrow> string \<Rightarrow> bool" where
  "member_in directory path \<longleftrightarrow>
     take (length directory) path = directory \<and>
     (let rest = drop (length directory) path
      in length rest = 41 \<and> list_all member_id_char (take 36 rest) \<and> drop 36 rest = ''.json'')"

definition safe_member_pattern :: "string \<Rightarrow> bool" where
  "safe_member_pattern path \<longleftrightarrow>
     path = manifest_path \<or> member_in ''evidence/'' path \<or> member_in ''errors/'' path"

definition drive_pattern :: "string \<Rightarrow> bool" where
  "drive_pattern path =
     (case path of
        c # d # _ \<Rightarrow> (let n = of_char c :: nat in 65 \<le> n \<and> n \<le> 90 \<or> 97 \<le> n \<and> n \<le> 122) \<and> d = CHR '':''
      | _ \<Rightarrow> False)"

definition nested_archive_suffixes :: "string list" where
  "nested_archive_suffixes =
    [''.zip'', ''.7z'', ''.rar'', ''.tar'', ''.tgz'', ''.gz'', ''.bz2'', ''.xz'']"

definition has_suffix :: "string \<Rightarrow> string \<Rightarrow> bool" where
  "has_suffix suffix s \<longleftrightarrow> length suffix \<le> length s \<and> drop (length s - length suffix) s = suffix"

definition validate_member_path :: "string \<Rightarrow> package_limits \<Rightarrow> unit package_result" where
  "validate_member_path path limits =
     (if pl_max_path_length limits < int (py_len path) \<or> CHR 0x00 \<in> set path
      then reject ''PATH_INVALID'' ''Archive member path is invalid.''
      else if path \<noteq> [] \<and> (hd path = CHR ''/'' \<or> hd path = CHR 0x5C) \<or> drive_pattern path
      then reject ''PATH_TRAVERSAL'' ''Absolute archive paths are forbidden.''
      else if CHR 0x5C \<in> set path
      then reject ''PATH_INVALID'' ''Backslashes are forbidden in archive paths.''
      else if list_ex (\<lambda>segment. segment \<in> {[], ''.'', ''..''}) (split_char (CHR ''/'') path)
      then reject ''PATH_TRAVERSAL'' ''Archive path traversal is forbidden.''
      else if list_ex (\<lambda>suffix. has_suffix suffix (casefold path)) nested_archive_suffixes
      then reject_member ''NESTED_ARCHIVE'' ''Nested archives are forbidden.'' path
      else if \<not> safe_member_pattern path
      then reject_member ''PATH_INVALID'' ''Archive member is outside the approved package layout.'' path
      else Inr ())"

definition is_dir :: "zip_info \<Rightarrow> bool" where
  "is_dir info \<longleftrightarrow> zi_filename info \<noteq> [] \<and> last (zi_filename info) = CHR ''/''"

definition file_type :: "zip_info \<Rightarrow> 32 word" where
  "file_type info = drop_bit 16 (zi_external_attr info) AND 0xF000"

definition validate_member_type :: "zip_info \<Rightarrow> unit package_result" where
  "validate_member_type info =
     (if is_dir info
      then reject_member ''DIRECTORY_ENTRY'' ''Explicit directory entries are forbidden.'' (zi_filename info)
      else if file_type info = 0xA000
      then reject_member ''SYMLINK_ENTRY'' ''Symbolic links are forbidden.'' (zi_filename info)
      else if zi_external_attr info AND 0xFFFF AND 0x400 \<noteq> 0
      then reject_member ''REPARSE_POINT'' ''Windows reparse-point entries are forbidden.'' (zi_filename info)
      else if file_type info \<noteq> 0 \<and> file_type info \<noteq> 0x8000
      then reject_member ''SPECIAL_FILE_ENTRY'' ''Special files are forbidden.'' (zi_filename info)
      else Inr ())"

subsection \<open>Reading a member\<close>

definition read_failure :: "zip_info \<Rightarrow> zip_exception \<Rightarrow> 'a package_result" where
  "read_failure info exception =
     (if exception \<in> {BadZipFile, EOFErrorRaised, OSErrorRaised, RuntimeErrorRaised}
      then reject_member ''MEMBER_READ_ERROR'' ''Archive member could not be read safely.'' (zi_filename info)
      else if exception \<in> {LargeZipFile, ValueErrorRaised} then Inl (PyError ValueError)
      else Inl (PyError LibraryError))"

fun read_chunks ::
  "zip_info \<Rightarrow> package_limits \<Rightarrow> int \<Rightarrow> string \<Rightarrow> string list \<Rightarrow> string package_result" where
  "read_chunks info limits total_before content [] = Inr content"
| "read_chunks info limits total_before content (chunk # chunks) =
     (let measured = int (length content) + int (length chunk)
      in if pl_max_member_bytes limits < measured
         then reject_member ''FILE_TOO_LARGE'' ''Archive member exceeded its extraction limit.'' (zi_filename info)
         else if pl_max_uncompressed_bytes limits < total_before + measured
         then reject_member ''TOTAL_SIZE_EXCEEDED'' ''Archive exceeded its total extraction limit.'' (zi_filename info)
         else read_chunks info limits total_before (content @ chunk) chunks)"

definition read_member ::
  "zip_library \<Rightarrow> string \<Rightarrow> zip_info \<Rightarrow> package_limits \<Rightarrow> int \<Rightarrow> string package_result" where
  "read_member lib archive info limits total_before =
     (let (chunks, failure) = zip_read lib archive info
      in bindE (read_chunks info limits total_before [] chunks) (\<lambda>content.
         case failure of
           Some exception \<Rightarrow> read_failure info exception
         | None \<Rightarrow>
             if int (length content) \<noteq> zi_file_size info
             then reject_member ''MEMBER_SIZE_MISMATCH''
                    ''Archive member size metadata does not match extracted bytes.'' (zi_filename info)
             else Inr content))"

subsection \<open>The directory\<close>

record directory_scan =
  ds_seen :: "string list"
  ds_seen_folded :: "string list"
  ds_seen_offsets :: "int list"
  ds_metadata_total :: int
  ds_compressed_total :: int

definition empty_scan :: directory_scan where
  "empty_scan = \<lparr>ds_seen = [], ds_seen_folded = [], ds_seen_offsets = [], ds_metadata_total = 0,
     ds_compressed_total = 0\<rparr>"

definition allowed_compression :: "int list" where
  "allowed_compression = [0, 8]"

text \<open>
  \<open>size / max(compressed, 1) > limit\<close>.  The quotient of integers is rounded, but with sizes up to
  500 MiB a quotient above 100 differs from it by more than the rounding, so that the comparison is
  the exact one.
\<close>

definition ratio_exceeds :: "int \<Rightarrow> int \<Rightarrow> int \<Rightarrow> bool" where
  "ratio_exceeds unpacked packed limit \<longleftrightarrow> limit * max packed 1 < unpacked"

definition scan_entry ::
  "package_limits \<Rightarrow> zip_info \<Rightarrow> directory_scan \<Rightarrow> directory_scan package_result" where
  "scan_entry limits info scan =
     bindE (validate_member_type info) (\<lambda>_.
     bindE (validate_member_path (zi_filename info) limits) (\<lambda>_.
     let path = zi_filename info; folded = casefold path;
         metadata_total = ds_metadata_total scan + zi_file_size info
     in if zi_header_offset info \<in> set (ds_seen_offsets scan)
        then reject_member ''OVERLAPPING_ENTRY'' ''Multiple members may not reference the same local ZIP header.'' path
        else if path \<in> set (ds_seen scan)
        then reject_member ''DUPLICATE_PATH'' ''Duplicate archive member path is forbidden.'' path
        else if folded \<in> set (ds_seen_folded scan)
        then reject_member ''CASE_COLLISION'' ''Case-colliding archive member paths are forbidden.'' path
        else if zi_flag_bits info AND 1 \<noteq> 0
        then reject_member ''ENCRYPTED_ENTRY'' ''Encrypted ZIP members are forbidden.'' path
        else if zi_compress_type info \<notin> set allowed_compression
        then reject_member ''UNSUPPORTED_COMPRESSION'' ''Only ZIP stored and deflate methods are allowed.'' path
        else if zi_file_size info < 2
        then reject_member ''FILE_TOO_SMALL'' ''Package JSON member is too small.'' path
        else if pl_max_member_bytes limits < zi_file_size info
        then reject_member ''FILE_TOO_LARGE'' ''Package member is too large.'' path
        else if pl_max_uncompressed_bytes limits < metadata_total
        then reject ''TOTAL_SIZE_EXCEEDED'' ''Package metadata exceeds the total extraction limit.''
        else if ratio_exceeds (zi_file_size info) (zi_compress_size info) (pl_max_compression_ratio limits)
        then reject_member ''COMPRESSION_RATIO_EXCEEDED''
               ''Archive member compression ratio exceeds the approved limit.'' path
        else Inr \<lparr>ds_seen = path # ds_seen scan, ds_seen_folded = folded # ds_seen_folded scan,
                  ds_seen_offsets = zi_header_offset info # ds_seen_offsets scan,
                  ds_metadata_total = metadata_total,
                  ds_compressed_total = ds_compressed_total scan + zi_compress_size info\<rparr>))"

fun scan_directory ::
  "package_limits \<Rightarrow> zip_info list \<Rightarrow> directory_scan \<Rightarrow> directory_scan package_result" where
  "scan_directory limits [] scan = Inr scan"
| "scan_directory limits (info # infos) scan =
     bindE (scan_entry limits info scan) (scan_directory limits infos)"

subsection \<open>Inspection\<close>

definition with_member :: "string \<Rightarrow> 'a package_result \<Rightarrow> 'a package_result" where
  "with_member path m =
     (case m of
        Inl (Raised (PackageValidationError code message None)) \<Rightarrow> reject_member code message path
      | _ \<Rightarrow> m)"

fun read_records ::
  "nat \<Rightarrow> zip_library \<Rightarrow> digest \<Rightarrow> string \<Rightarrow> package_limits \<Rightarrow> int \<Rightarrow> zip_info list \<Rightarrow>
     package_file list package_result" where
  "read_records depth lib sha256 archive limits measured_total [] = Inr []"
| "read_records depth lib sha256 archive limits measured_total (info # infos) =
     bindE (read_member lib archive info limits measured_total) (\<lambda>content.
     bindE (with_member (zi_filename info) (load_strict_json depth content True)) (\<lambda>_.
     bindE (read_records depth lib sha256 archive limits (measured_total + int (length content)) infos) (\<lambda>records.
     Inr (\<lparr>pf_path = zi_filename info, pf_size_bytes = int (length content), pf_sha256 = sha256 content\<rparr> #
          records))))"

text \<open>
  The handler around the \<open>with ZipFile(...)\<close> block: \<open>BadZipFile\<close>, \<open>LargeZipFile\<close>, \<open>OSError\<close> and
  \<open>ValueError\<close> are an invalid archive, a rejection passes, and any other exception escapes.
\<close>

definition archive_invalid :: "'a package_result \<Rightarrow> 'a package_result" where
  "archive_invalid m =
     (case m of
        Inl (PyError ValueError) \<Rightarrow> reject ''ARCHIVE_INVALID'' ''Input is not an approved ZIP archive.''
      | _ \<Rightarrow> m)"

definition open_archive :: "zip_library \<Rightarrow> string \<Rightarrow> zip_info list package_result" where
  "open_archive lib archive =
     (case zip_open lib archive of
        Inr infos \<Rightarrow> Inr infos
      | Inl exception \<Rightarrow>
          if exception \<in> {BadZipFile, LargeZipFile, OSErrorRaised, ValueErrorRaised}
          then Inl (PyError ValueError) else Inl (PyError LibraryError))"

definition archive_records ::
  "nat \<Rightarrow> zip_library \<Rightarrow> digest \<Rightarrow> string \<Rightarrow> package_limits \<Rightarrow> package_file list package_result" where
  "archive_records depth lib sha256 archive limits =
     bindE (open_archive lib archive) (\<lambda>infos.
     if \<not> (pl_min_files limits \<le> int (length infos) \<and> int (length infos) \<le> pl_max_files limits)
     then reject ''FILE_COUNT_OUT_OF_RANGE'' ''Package file count is outside the approved range.''
     else
       bindE (scan_directory limits infos empty_scan) (\<lambda>scan.
       if manifest_path \<notin> set (ds_seen scan)
       then reject ''REQUIRED_MANIFEST_MISSING'' ''collector_manifest.json is required.''
       else if ratio_exceeds (ds_metadata_total scan) (ds_compressed_total scan) (pl_max_compression_ratio limits)
       then reject ''COMPRESSION_RATIO_EXCEEDED'' ''Aggregate compression ratio exceeds the approved limit.''
       else read_records depth lib sha256 archive limits 0 infos))"

text \<open>\<open>path.rsplit("/", 1)[-1]\<close> and \<open>removesuffix(".json")\<close>.\<close>

definition base_name :: "string \<Rightarrow> string" where
  "base_name path = last (split_char (CHR ''/'') path)"

definition remove_suffix :: "string \<Rightarrow> string \<Rightarrow> string" where
  "remove_suffix suffix s = (if has_suffix suffix s then take (length s - length suffix) s else s)"

definition content_vector :: "package_file list \<Rightarrow> pyval" where
  "content_vector records =
     PList (map (\<lambda>r. PDict [(''evidence_id'', PStr (remove_suffix ''.json'' (base_name (pf_path r)))),
                            (''evidence_sha256'', PStr (pf_sha256 r))])
       (sort_key (\<lambda>r. base_name (pf_path r)) (filter (\<lambda>r. pf_path r \<noteq> manifest_path) records)))"

definition canonical_hash :: "json_dumps \<Rightarrow> digest \<Rightarrow> pyval \<Rightarrow> string package_result" where
  "canonical_hash dumps sha256 v =
     (case canonical_sha256 dumps sha256 v of Inl _ \<Rightarrow> Inl (PyError ValueError) | Inr h \<Rightarrow> Inr h)"

definition inspect_package_archive ::
  "nat \<Rightarrow> zip_library \<Rightarrow> json_dumps \<Rightarrow> digest \<Rightarrow> archive_file \<Rightarrow> package_limits \<Rightarrow>
     package_inspection package_result" where
  "inspect_package_archive depth lib dumps sha256 archive_path limits =
     (case archive_path of
        None \<Rightarrow> reject ''ARCHIVE_NOT_FILE'' ''Package archive is not a regular file.''
      | Some archive \<Rightarrow>
          if archive = [] then reject ''ARCHIVE_EMPTY'' ''Package archive is empty.''
          else if pl_max_archive_bytes limits < int (length archive)
          then reject ''ARCHIVE_TOO_LARGE'' ''Package archive is too large.''
          else
            bindE (archive_invalid (archive_records depth lib sha256 archive limits)) (\<lambda>records.
            let sorted_records = sort_key pf_path records
            in bindE (canonical_hash dumps sha256 (content_vector sorted_records)) (\<lambda>content_set.
               Inr \<lparr>pi_archive_sha256 = sha256 archive, pi_content_set_sha256 = content_set,
                    pi_compressed_bytes = int (length archive),
                    pi_uncompressed_bytes = sum_list (map pf_size_bytes sorted_records),
                    pi_file_count = int (length sorted_records), pi_files = sorted_records\<rparr>)))"

subsection \<open>The descriptor\<close>

definition required_mapping :: "pyval \<Rightarrow> dict package_result" where
  "required_mapping value =
     (case value of
        PDict d \<Rightarrow> Inr d
      | _ \<Rightarrow> reject ''INVENTORY_INVALID'' ''Descriptor object is missing or invalid.'')"

definition required_sequence :: "pyval \<Rightarrow> pyval list package_result" where
  "required_sequence value =
     (case value of
        PList xs \<Rightarrow> Inr xs
      | _ \<Rightarrow> reject ''INVENTORY_INVALID'' ''Descriptor inventory is invalid.'')"

definition required_string :: "dict \<Rightarrow> string \<Rightarrow> string package_result" where
  "required_string mapping key =
     (case py_get mapping key of
        PStr s \<Rightarrow> Inr s
      | _ \<Rightarrow> reject ''INVENTORY_INVALID'' (''Descriptor field '' @ key @ '' is invalid.''))"

definition required_hash :: "dict \<Rightarrow> string \<Rightarrow> string package_result" where
  "required_hash mapping key =
     bindE (required_string mapping key) (\<lambda>value.
     if \<not> hash_pattern value then reject ''INVENTORY_INVALID'' (''Descriptor hash '' @ key @ '' is invalid.'')
     else Inr value)"

definition required_integer :: "dict \<Rightarrow> string \<Rightarrow> int package_result" where
  "required_integer mapping key =
     (case py_get mapping key of
        PInt i \<Rightarrow>
          if i < 0 then reject ''INVENTORY_INVALID'' (''Descriptor field '' @ key @ '' is invalid.'') else Inr i
      | _ \<Rightarrow> reject ''INVENTORY_INVALID'' (''Descriptor field '' @ key @ '' is invalid.''))"

fun expected_records ::
  "package_limits \<Rightarrow> pyval list \<Rightarrow> (string \<times> int \<times> string) list \<Rightarrow>
     (string \<times> int \<times> string) list package_result" where
  "expected_records limits [] expected = Inr expected"
| "expected_records limits (raw_entry # inventory) expected =
     bindE (required_mapping raw_entry) (\<lambda>entry.
     bindE (required_string entry ''path'') (\<lambda>path.
     bindE (validate_member_path path limits) (\<lambda>_.
     if path \<in> fst ` set expected
     then reject ''DUPLICATE_PATH'' ''Inventory path is duplicated.''
     else if casefold path \<in> casefold ` fst ` set expected
     then reject ''CASE_COLLISION'' ''Inventory paths collide by case.''
     else
       bindE (required_integer entry ''size_bytes'') (\<lambda>bytes.
       bindE (required_hash entry ''sha256'') (\<lambda>hash.
       expected_records limits inventory (expected @ [(path, bytes, hash)]))))))"

text \<open>The comparison of the files, in the order of the descriptor.\<close>

fun compare_records ::
  "package_file list \<Rightarrow> (string \<times> int \<times> string) list \<Rightarrow> unit package_result" where
  "compare_records files [] = Inr ()"
| "compare_records files ((path, bytes, hash) # expected) =
     (case find (\<lambda>f. pf_path f = path) (rev files) of
        None \<Rightarrow> Inl (PyError KeyError)
      | Some actual \<Rightarrow>
          if pf_size_bytes actual \<noteq> bytes
          then reject_member ''SIZE_MISMATCH'' ''Archive member size differs from the descriptor.'' path
          else if pf_sha256 actual \<noteq> hash
          then reject_member ''HASH_MISMATCH'' ''Archive member hash differs from the descriptor.'' path
          else compare_records files expected)"

definition mismatch :: "package_code \<Rightarrow> 'a package_result" where
  "mismatch code = reject code ''Measured archive metadata differs from the descriptor.''"

definition compare_metadata :: "package_inspection \<Rightarrow> dict \<Rightarrow> unit package_result" where
  "compare_metadata inspection archive =
     bindE (required_hash archive ''archive_sha256'') (\<lambda>archive_sha256.
     bindE (required_hash archive ''content_set_sha256'') (\<lambda>content_set.
     bindE (required_integer archive ''compressed_bytes'') (\<lambda>compressed.
     bindE (required_integer archive ''uncompressed_bytes'') (\<lambda>uncompressed.
     bindE (required_integer archive ''file_count'') (\<lambda>file_count.
     if pi_archive_sha256 inspection \<noteq> archive_sha256 then mismatch ''ARCHIVE_HASH_MISMATCH''
     else if pi_content_set_sha256 inspection \<noteq> content_set then mismatch ''CONTENT_SET_HASH_MISMATCH''
     else if pi_compressed_bytes inspection \<noteq> compressed then mismatch ''ARCHIVE_SIZE_MISMATCH''
     else if pi_uncompressed_bytes inspection \<noteq> uncompressed then mismatch ''UNCOMPRESSED_SIZE_MISMATCH''
     else if pi_file_count inspection \<noteq> file_count then mismatch ''FILE_COUNT_MISMATCH''
     else Inr ())))))"

definition validate_package_contract ::
  "nat \<Rightarrow> zip_library \<Rightarrow> json_dumps \<Rightarrow> digest \<Rightarrow> archive_file \<Rightarrow> dict \<Rightarrow> package_limits \<Rightarrow>
     package_inspection package_result" where
  "validate_package_contract depth lib dumps sha256 archive_path descriptor limits =
     bindE (inspect_package_archive depth lib dumps sha256 archive_path limits) (\<lambda>inspection.
     bindE (required_mapping (py_get descriptor ''archive'')) (\<lambda>archive.
     bindE (required_sequence (py_get descriptor ''file_inventory'')) (\<lambda>inventory.
     bindE (expected_records limits inventory []) (\<lambda>expected.
     let actual = map pf_path (pi_files inspection);
         missing = sorted_distinct (filter (\<lambda>p. p \<notin> set actual) (map fst expected));
         undeclared = sorted_distinct (filter (\<lambda>p. p \<notin> fst ` set expected) actual)
     in if missing \<noteq> []
        then reject_member ''FILE_MISSING''
               ''A descriptor-declared file is missing from the archive.'' (hd missing)
        else if undeclared \<noteq> []
        then reject_member ''UNDECLARED_FILE''
               ''The archive contains a file not declared by the descriptor.'' (hd undeclared)
        else
          bindE (compare_records (pi_files inspection) expected) (\<lambda>_.
          bindE (compare_metadata inspection archive) (\<lambda>_.
          Inr inspection))))))"

end
