(* ===== verification/Package_Validator.thy ===== *)
theory Package_Validator
  imports Archive_Contract
begin

section \<open>Package gates (\<^verbatim>\<open>full_validator.py\<close>, \<^verbatim>\<open>schema_contract.py\<close>)\<close>

text \<open>
  Every gate a package passes before anything is derived from it, in the order of the code.
  \<open>jsonschema\<close> is an argument: \<open>schema_check\<close> says for a schema file whether a document conforms,
  violates it, or reaches an unresolvable reference.  The outcomes of signature checks, nonce
  reservation, malware scan and storage are values that the caller passes in.
\<close>

subsection \<open>Schemas\<close>

datatype schema_outcome = Conforms | Violates | Unresolvable

record schema_catalog =
  sc_registered :: "string list"
  sc_check :: "string \<Rightarrow> pyval \<Rightarrow> schema_outcome"

definition schema_validate ::
  "schema_catalog \<Rightarrow> pyval \<Rightarrow> string \<Rightarrow> package_code \<Rightarrow> unit package_result" where
  "schema_validate schemas document schema_filename error_code =
     (if schema_filename \<notin> set (sc_registered schemas)
      then reject ''SCHEMA_CATALOG_INVALID'' ''The required local Schema is not registered.''
      else
        case sc_check schemas schema_filename document of
          Unresolvable \<Rightarrow> reject ''SCHEMA_CATALOG_INVALID'' ''A Schema reference is not present in the local catalog.''
        | Violates \<Rightarrow> reject error_code ''Package document failed its JSON Schema.''
        | Conforms \<Rightarrow> Inr ())"

subsection \<open>Typed access\<close>

definition package_mapping :: "pyval \<Rightarrow> package_code \<Rightarrow> dict package_result" where
  "package_mapping value code =
     (case value of PDict d \<Rightarrow> Inr d | _ \<Rightarrow> reject code ''A required package object is invalid.'')"

definition package_sequence :: "pyval \<Rightarrow> package_code \<Rightarrow> pyval list package_result" where
  "package_sequence value code =
     (case value of PList xs \<Rightarrow> Inr xs | _ \<Rightarrow> reject code ''A required package array is invalid.'')"

definition package_string :: "dict \<Rightarrow> string \<Rightarrow> package_code \<Rightarrow> string package_result" where
  "package_string mapping key code =
     (case py_get mapping key of
        PStr s \<Rightarrow> Inr s
      | _ \<Rightarrow> reject code ''A required package string is invalid.'')"

definition package_integer :: "dict \<Rightarrow> string \<Rightarrow> package_code \<Rightarrow> int package_result" where
  "package_integer mapping key code =
     (case py_get mapping key of
        PInt i \<Rightarrow> Inr i
      | _ \<Rightarrow> reject code ''A required package integer is invalid.'')"

definition package_timestamp :: "dict \<Rightarrow> string \<Rightarrow> package_code \<Rightarrow> int package_result" where
  "package_timestamp mapping key code =
     bindE (package_string mapping key code) (\<lambda>value.
     case datetime_fromisoformat (remove_suffix ''Z'' value @ ''+00:00'') of
       None \<Rightarrow> reject code ''A package timestamp is invalid.''
     | Some (local, None) \<Rightarrow> reject code ''A package timestamp must include a timezone.''
     | Some (local, Some offset) \<Rightarrow> Inr (local - offset))"

abbreviation manifest_semantic :: package_code where
  "manifest_semantic \<equiv> ''MANIFEST_SEMANTIC_INVALID''"

abbreviation descriptor_semantic :: package_code where
  "descriptor_semantic \<equiv> ''DESCRIPTOR_SEMANTIC_INVALID''"

definition manifest_content_hash :: "json_dumps \<Rightarrow> digest \<Rightarrow> dict \<Rightarrow> string package_result" where
  "manifest_content_hash dumps sha256 manifest =
     (case canonical_sha256_without_fields dumps sha256 manifest
             [''manifest_content_sha256'', ''authorization''] of
        Inl _ \<Rightarrow> Inl (PyError ValueError)
      | Inr h \<Rightarrow> Inr h)"

text \<open>\<open>_measure_file\<close>, which reads the file in chunks of 64 KiB.\<close>

definition measure_file :: "digest \<Rightarrow> archive_file \<Rightarrow> int \<Rightarrow> (int \<times> string) package_result" where
  "measure_file sha256 archive_path maximum_bytes =
     (case archive_path of
        None \<Rightarrow> reject ''ARCHIVE_NOT_FILE'' ''Package archive is not a file.''
      | Some archive \<Rightarrow>
          if archive \<noteq> [] \<and> maximum_bytes < int (length archive)
          then reject ''ARCHIVE_TOO_LARGE'' ''Package archive is too large.''
          else if archive = [] then reject ''ARCHIVE_EMPTY'' ''Package archive is empty.''
          else Inr (int (length archive), sha256 archive))"

definition verified_digest ::
  "digest_verification \<Rightarrow> string \<Rightarrow> package_code \<Rightarrow> package_code \<Rightarrow> unit package_result" where
  "verified_digest verification expected_sha256 failed_code unavailable_code =
     (if dv_status verification = UNAVAILABLE
      then reject unavailable_code ''A required external verification is unavailable.''
      else if dv_status verification = FAILED
      then reject failed_code ''A required external verification failed.''
      else if dv_sha256 verification \<noteq> expected_sha256
      then reject ''ATTESTATION_BINDING_MISMATCH'' ''An external verification is bound to a different digest.''
      else Inr ())"

subsection \<open>Versions\<close>

text \<open>
  \<open>_SEMVER_PATTERN\<close>: three numbers without leading zeros, an optional prerelease and optional build
  metadata.  The character classes of the last two do not hold the sign that ends them, so the
  match is the greedy one.
\<close>

definition version_char :: "char \<Rightarrow> bool" where
  "version_char c \<longleftrightarrow>
     (let n = of_char c :: nat
      in 48 \<le> n \<and> n \<le> 57 \<or> 65 \<le> n \<and> n \<le> 90 \<or> 97 \<le> n \<and> n \<le> 122 \<or> n = 46 \<or> n = 45)"

definition version_number :: "string \<Rightarrow> (string \<times> string) option" where
  "version_number s = int_part s"

definition after_dot :: "string \<Rightarrow> string option" where
  "after_dot s = (case s of c # r \<Rightarrow> if c = CHR ''.'' then Some r else None | [] \<Rightarrow> None)"

definition version_tail :: "string \<Rightarrow> string option option" where
  "version_tail s =
     (let (prerelease, r) =
            (case s of
               c # r \<Rightarrow> if c = CHR ''-'' then (Some (takeWhile version_char r), dropWhile version_char r)
                        else (None, s)
             | [] \<Rightarrow> (None, s));
          build_ok = (case r of
               [] \<Rightarrow> True
             | c # b \<Rightarrow> c = CHR ''+'' \<and> b \<noteq> [] \<and> list_all version_char b)
      in if prerelease = Some [] \<or> \<not> build_ok then None else Some prerelease)"

definition semver_match :: "string \<Rightarrow> (string \<times> string \<times> string \<times> string option) option" where
  "semver_match s =
     Option.bind (version_number s) (\<lambda>(major, r).
     Option.bind (after_dot r) (\<lambda>r.
     Option.bind (version_number r) (\<lambda>(minor, r).
     Option.bind (after_dot r) (\<lambda>r.
     Option.bind (version_number r) (\<lambda>(patch, r).
     Option.bind (version_tail r) (\<lambda>prerelease.
     Some (major, minor, patch, prerelease)))))))"

text \<open>\<open>int\<close> of a digit string, which refuses more than 4300 digits.\<close>

definition to_int :: "string \<Rightarrow> int package_result" where
  "to_int digits = (if max_str_digits < length digits then Inl (PyError ValueError) else Inr (digits_value digits))"

definition semver_parts :: "string \<Rightarrow> ((int \<times> int \<times> int) \<times> string list option) package_result" where
  "semver_parts version =
     (case semver_match version of
        None \<Rightarrow> reject ''COLLECTOR_CONSTRAINT_MISMATCH'' ''Collector version is invalid.''
      | Some (major, minor, patch, prerelease) \<Rightarrow>
          bindE (to_int major) (\<lambda>major.
          bindE (to_int minor) (\<lambda>minor.
          bindE (to_int patch) (\<lambda>patch.
          Inr ((major, minor, patch), map_option (split_char (CHR ''.'')) prerelease)))))"

definition numeric_part :: "string \<Rightarrow> bool" where
  "numeric_part s \<longleftrightarrow> s \<noteq> [] \<and> list_all is_digit s"

fun compare_parts :: "string list \<Rightarrow> string list \<Rightarrow> int package_result" where
  "compare_parts [] [] = Inr 0"
| "compare_parts [] (_ # _) = Inr (- 1)"
| "compare_parts (_ # _) [] = Inr 1"
| "compare_parts (l # ls) (r # rs) =
     (if l = r then compare_parts ls rs
      else if numeric_part l \<and> numeric_part r
      then bindE (to_int l) (\<lambda>i. bindE (to_int r) (\<lambda>j. Inr (if i < j then - 1 else 1)))
      else if numeric_part l \<noteq> numeric_part r
      then Inr (if numeric_part l then - 1 else 1)
      else Inr (if l < r then - 1 else 1))"

definition compare_prerelease :: "string list option \<Rightarrow> string list option \<Rightarrow> int package_result" where
  "compare_prerelease left right =
     (case (left, right) of
        (None, None) \<Rightarrow> Inr 0
      | (None, Some _) \<Rightarrow> Inr 1
      | (Some _, None) \<Rightarrow> Inr (- 1)
      | (Some l, Some r) \<Rightarrow> compare_parts l r)"

definition compare_semver :: "string \<Rightarrow> string \<Rightarrow> int package_result" where
  "compare_semver left right =
     bindE (semver_parts left) (\<lambda>(left_core, left_pre).
     bindE (semver_parts right) (\<lambda>(right_core, right_pre).
     if left_core \<noteq> right_core then Inr (if left_core < right_core then - 1 else 1)
     else compare_prerelease left_pre right_pre))"

subsection \<open>The manifest and the external gates\<close>

definition validate_manifest_context ::
  "dict \<Rightarrow> validation_context \<Rightarrow> gate_verifications \<Rightarrow> unit package_result" where
  "validate_manifest_context manifest context verifications =
     bindE (package_timestamp manifest ''issued_at'' manifest_semantic) (\<lambda>issued_at.
     bindE (package_timestamp manifest ''expires_at'' manifest_semantic) (\<lambda>expires_at.
     if expires_at \<le> issued_at then reject manifest_semantic ''Manifest time range is invalid.''
     else if vc_received_at context < issued_at then reject ''MANIFEST_NOT_YET_VALID'' ''Manifest is not yet valid.''
     else if expires_at < vc_received_at context then reject ''MANIFEST_EXPIRED'' ''Manifest has expired.''
     else
       bindE (package_mapping (py_get manifest ''submission'') manifest_semantic) (\<lambda>submission.
       bindE (package_string manifest ''job_id'' manifest_semantic) (\<lambda>job_id.
       bindE (package_string manifest ''asset_id'' manifest_semantic) (\<lambda>asset_id.
       bindE (package_string submission ''endpoint_id'' manifest_semantic) (\<lambda>endpoint_id.
       if job_id \<noteq> vc_job_id context \<or> asset_id \<noteq> vc_asset_id context \<or> endpoint_id \<noteq> vc_endpoint_id context
       then reject ''MANIFEST_SCOPE_MISMATCH'' ''Manifest scope is invalid.''
       else
         bindE (package_string manifest ''nonce'' manifest_semantic) (\<lambda>nonce.
         if nv_nonce (gv_nonce verifications) \<noteq> nonce
         then reject ''ATTESTATION_BINDING_MISMATCH'' ''Nonce proof is mismatched.''
         else if nv_status (gv_nonce verifications) = NONCE_UNAVAILABLE
         then reject ''NONCE_CHECK_UNAVAILABLE'' ''Nonce check is unavailable.''
         else if nv_status (gv_nonce verifications) = REPLAYED
         then reject ''NONCE_REPLAYED'' ''Manifest nonce has already been used.''
         else Inr ())))))))"

definition manifest_limits :: "dict \<Rightarrow> package_limits package_result" where
  "manifest_limits manifest =
     bindE (package_mapping (py_get manifest ''submission'') manifest_semantic) (\<lambda>submission.
     bindE (package_integer submission ''max_archive_bytes'' manifest_semantic) (\<lambda>archive.
     bindE (package_integer submission ''max_uncompressed_bytes'' manifest_semantic) (\<lambda>uncompressed.
     bindE (package_integer submission ''max_files'' manifest_semantic) (\<lambda>files.
     case make_limits archive uncompressed files of
       Inr limits \<Rightarrow> Inr limits
     | Inl _ \<Rightarrow> reject manifest_semantic ''Manifest package limits are incompatible with the package layout.''))))"

definition validate_external_archive_gates ::
  "string \<Rightarrow> int \<Rightarrow> validation_context \<Rightarrow> gate_verifications \<Rightarrow> unit package_result" where
  "validate_external_archive_gates archive_hash archive_size context verifications =
     (let staged = gv_staged_object verifications; malware = gv_malware_scan verifications
      in if sv_status staged = UNAVAILABLE
         then reject ''STAGING_UNAVAILABLE'' ''Staging verification is unavailable.''
         else if sv_status staged = FAILED
         then reject ''STAGING_VERIFICATION_FAILED'' ''Staging verification failed.''
         else if sv_organization_id staged \<noteq> vc_organization_id context \<or>
                 sv_asset_id staged \<noteq> vc_asset_id context \<or> sv_job_id staged \<noteq> vc_job_id context \<or>
                 sv_archive_sha256 staged \<noteq> archive_hash \<or> sv_size_bytes staged \<noteq> archive_size
         then reject ''ATTESTATION_BINDING_MISMATCH'' ''Staging proof is bound to a different object or scope.''
         else if mv_archive_sha256 malware \<noteq> archive_hash
         then reject ''ATTESTATION_BINDING_MISMATCH'' ''Scan digest is mismatched.''
         else if mv_status malware = SCAN_UNAVAILABLE
         then reject ''MALWARE_SCAN_UNAVAILABLE'' ''Malware scan is unavailable.''
         else if mv_status malware = DETECTED
         then reject ''MALWARE_DETECTED'' ''Malware scan rejected the package.''
         else verified_digest (gv_content_policy verifications) archive_hash
                ''CONTENT_POLICY_FAILED'' ''CONTENT_POLICY_UNAVAILABLE'')"

text \<open>The manifest inside the archive; reading it whole delivers all chunks at once.\<close>

definition manifest_info :: "zip_library \<Rightarrow> string \<Rightarrow> zip_info package_result" where
  "manifest_info lib archive =
     (case zip_open lib archive of
        Inl exception \<Rightarrow>
          if exception \<in> {BadZipFile, OSErrorRaised, RuntimeErrorRaised}
          then reject ''MEMBER_READ_ERROR'' ''Manifest could not be read safely.''
          else if exception \<in> {LargeZipFile, ValueErrorRaised}
          then Inl (PyError ValueError) else Inl (PyError LibraryError)
      | Inr infos \<Rightarrow>
          (case find (\<lambda>i. zi_filename i = manifest_path) (rev infos) of
             None \<Rightarrow> reject ''MEMBER_READ_ERROR'' ''Manifest could not be read safely.''
           | Some info \<Rightarrow> Inr info))"

definition manifest_bytes :: "zip_library \<Rightarrow> string \<Rightarrow> zip_info \<Rightarrow> string package_result" where
  "manifest_bytes lib archive info =
     (case zip_read lib archive info of
        (chunks, None) \<Rightarrow> Inr (concat chunks)
      | (chunks, Some exception) \<Rightarrow>
          if exception \<in> {BadZipFile, OSErrorRaised, RuntimeErrorRaised}
          then reject ''MEMBER_READ_ERROR'' ''Manifest could not be read safely.''
          else if exception \<in> {LargeZipFile, ValueErrorRaised}
          then Inl (PyError ValueError) else Inl (PyError LibraryError))"

definition load_embedded_manifest ::
  "nat \<Rightarrow> zip_library \<Rightarrow> digest \<Rightarrow> string \<Rightarrow> package_inspection \<Rightarrow> package_limits \<Rightarrow>
     pyval package_result" where
  "load_embedded_manifest depth lib sha256 archive inspection limits =
     (case find (\<lambda>f. pf_path f = manifest_path) (pi_files inspection) of
        None \<Rightarrow> reject ''REQUIRED_MANIFEST_MISSING'' ''Manifest is missing.''
      | Some record \<Rightarrow>
          bindE (manifest_info lib archive) (\<lambda>info.
          if pl_max_member_bytes limits < zi_file_size info
          then reject ''FILE_TOO_LARGE'' ''Manifest is too large.''
          else
            bindE (manifest_bytes lib archive info) (\<lambda>data.
            if int (length data) \<noteq> pf_size_bytes record \<or> sha256 data \<noteq> pf_sha256 record
            then reject ''HASH_MISMATCH'' ''Manifest changed during validation.''
            else load_strict_json depth data True)))"

end
