(* ===== verification/Package_Gates.thy ===== *)
theory Package_Gates
  imports Package_Validator
begin

section \<open>Descriptor, evidence and the whole validator (\<^verbatim>\<open>full_validator.py\<close>)\<close>

text \<open>
  The second half of the validator: the descriptor against the manifest and the context, the
  evidence records against the probes of the manifest, and \<open>validate\<close>, which runs all gates.
\<close>

record full_validator =
  fv_schemas :: schema_catalog
  fv_descriptor_schema :: string
  fv_manifest_schema :: string
  fv_evidence_control_field :: string
  fv_evidence_member_path_field :: "string option"

subsection \<open>Evidence\<close>

text \<open>\<open>frozenset\<close> of JSON values: a list or a mapping is not hashable.\<close>

definition frozen_values :: "pyval list \<Rightarrow> pyval list package_result" where
  "frozen_values xs =
     (if list_ex (\<lambda>x. case x of PList _ \<Rightarrow> True | PDict _ \<Rightarrow> True | _ \<Rightarrow> False) xs
      then Inl (PyError TypeError) else Inr xs)"

text \<open>Whether a set of strings equals a \<open>frozenset\<close> of values.\<close>

definition same_controls :: "string list \<Rightarrow> pyval list \<Rightarrow> bool" where
  "same_controls controls values \<longleftrightarrow> set (map PStr controls) = set values"

type_synonym probe_table = "(string \<times> string \<times> pyval list) list"

fun authorized_probes :: "pyval list \<Rightarrow> probe_table \<Rightarrow> probe_table package_result" where
  "authorized_probes [] authorized = Inr authorized"
| "authorized_probes (entry # probes) authorized =
     bindE (package_mapping entry manifest_semantic) (\<lambda>probe.
     bindE (package_string probe ''probe_id'' manifest_semantic) (\<lambda>probe_id.
     if probe_id \<in> fst ` set authorized then reject manifest_semantic ''Probe is duplicated.''
     else
       bindE (package_string probe ''probe_version'' manifest_semantic) (\<lambda>version.
       bindE (package_sequence (py_get probe ''control_ids'') manifest_semantic) (\<lambda>controls.
       bindE (frozen_values controls) (\<lambda>controls.
       authorized_probes probes (authorized @ [(probe_id, version, controls)]))))))"

fun inventory_hashes :: "pyval list \<Rightarrow> (string \<times> string) list package_result" where
  "inventory_hashes [] = Inr []"
| "inventory_hashes (entry # inventory) =
     bindE (package_mapping entry descriptor_semantic) (\<lambda>e.
     bindE (package_string e ''path'' descriptor_semantic) (\<lambda>path.
     bindE (package_string e ''sha256'' descriptor_semantic) (\<lambda>hash.
     bindE (inventory_hashes inventory) (\<lambda>rest.
     Inr (if path \<in> fst ` set rest then rest else (path, hash) # rest)))))"

definition string_controls :: "pyval list \<Rightarrow> string list package_result" where
  "string_controls xs =
     (if list_ex (\<lambda>x. case x of PStr _ \<Rightarrow> False | _ \<Rightarrow> True) xs
      then reject descriptor_semantic ''Evidence control identifiers must be strings.''
      else Inr (map (\<lambda>x. case x of PStr s \<Rightarrow> s | _ \<Rightarrow> []) xs))"

definition evidence_controls :: "full_validator \<Rightarrow> dict \<Rightarrow> string list package_result" where
  "evidence_controls v evidence =
     (if fv_evidence_control_field v = ''control_id''
      then bindE (package_string evidence ''control_id'' descriptor_semantic) (\<lambda>c. Inr [c])
      else bindE (package_sequence (py_get evidence (fv_evidence_control_field v)) descriptor_semantic)
             string_controls)"

definition evidence_path :: "full_validator \<Rightarrow> dict \<Rightarrow> string \<Rightarrow> string package_result" where
  "evidence_path v evidence expected_path =
     (case fv_evidence_member_path_field v of
        None \<Rightarrow> Inr expected_path
      | Some field \<Rightarrow> package_string evidence field descriptor_semantic)"

definition check_evidence ::
  "full_validator \<Rightarrow> probe_table \<Rightarrow> (string \<times> string) list \<Rightarrow> string \<Rightarrow> dict \<Rightarrow> unit package_result" where
  "check_evidence v authorized hashes evidence_id evidence =
     bindE (package_string evidence ''probe_id'' descriptor_semantic) (\<lambda>probe_id.
     bindE (evidence_controls v evidence) (\<lambda>controls.
     case map_of authorized probe_id of
       None \<Rightarrow> reject ''EVIDENCE_SCOPE_MISMATCH'' ''Evidence was not authorized by the signed Manifest.''
     | Some (probe_version, probe_controls) \<Rightarrow>
         bindE (package_string evidence ''probe_version'' descriptor_semantic) (\<lambda>version.
         if version \<noteq> probe_version \<or> \<not> same_controls controls probe_controls
         then reject ''EVIDENCE_SCOPE_MISMATCH'' ''Evidence was not authorized by the signed Manifest.''
         else
           bindE (package_string evidence ''collection_status'' descriptor_semantic) (\<lambda>status.
           let expected_path = (if status = ''COLLECTED'' then ''evidence'' else ''errors'') @ ''/'' @
                 evidence_id @ ''.json''
           in bindE (evidence_path v evidence expected_path) (\<lambda>path.
              if path \<noteq> expected_path
              then reject ''EVIDENCE_SCOPE_MISMATCH'' ''Evidence member path does not match its collection status.''
              else
                bindE (package_string evidence ''evidence_sha256'' descriptor_semantic) (\<lambda>hash.
                if map_of hashes path \<noteq> Some hash
                then reject ''EVIDENCE_SCOPE_MISMATCH'' ''Evidence record does not match the archive inventory.''
                else Inr ()))))))"

fun check_evidence_records ::
  "full_validator \<Rightarrow> probe_table \<Rightarrow> (string \<times> string) list \<Rightarrow> string list \<Rightarrow> pyval list \<Rightarrow>
     unit package_result" where
  "check_evidence_records v authorized hashes ids [] = Inr ()"
| "check_evidence_records v authorized hashes ids (entry # records) =
     bindE (package_mapping entry descriptor_semantic) (\<lambda>evidence.
     bindE (package_string evidence ''evidence_id'' descriptor_semantic) (\<lambda>evidence_id.
     if evidence_id \<in> set ids then reject descriptor_semantic ''Evidence is duplicated.''
     else
       bindE (check_evidence v authorized hashes evidence_id evidence) (\<lambda>_.
       check_evidence_records v authorized hashes (evidence_id # ids) records)))"

text \<open>The build of the collector against the constraint; the tests stop at the first that fails.\<close>

definition collector_constraint_ok :: "dict \<Rightarrow> dict \<Rightarrow> bool package_result" where
  "collector_constraint_ok collector constraint =
     bindE (package_string collector ''version'' descriptor_semantic) (\<lambda>version.
     bindE (package_string collector ''name'' descriptor_semantic) (\<lambda>name.
     bindE (package_string constraint ''name'' manifest_semantic) (\<lambda>required_name.
     if name \<noteq> required_name then Inr False
     else
       bindE (package_string collector ''release_channel'' descriptor_semantic) (\<lambda>channel.
       bindE (package_string constraint ''release_channel'' manifest_semantic) (\<lambda>required_channel.
       if channel \<noteq> required_channel then Inr False
       else
         bindE (package_string constraint ''min_version'' manifest_semantic) (\<lambda>least.
         bindE (compare_semver version least) (\<lambda>c.
         if c < 0 then Inr False
         else
           bindE (package_string constraint ''max_version_exclusive'' manifest_semantic) (\<lambda>above.
           bindE (compare_semver version above) (\<lambda>c. Inr (c < 0))))))))))"

definition validate_collector_and_evidence :: "full_validator \<Rightarrow> dict \<Rightarrow> dict \<Rightarrow> unit package_result" where
  "validate_collector_and_evidence v descriptor manifest =
     bindE (package_mapping (py_get descriptor ''collector'') descriptor_semantic) (\<lambda>collector.
     bindE (package_mapping (py_get manifest ''collector_constraint'') manifest_semantic) (\<lambda>constraint.
     bindE (collector_constraint_ok collector constraint) (\<lambda>ok.
     if \<not> ok
     then reject ''COLLECTOR_CONSTRAINT_MISMATCH'' ''Collector build is outside the signed Manifest constraint.''
     else
       bindE (package_sequence (py_get manifest ''probes'') manifest_semantic) (\<lambda>probes.
       bindE (authorized_probes probes []) (\<lambda>authorized.
       bindE (package_sequence (py_get descriptor ''file_inventory'') descriptor_semantic) (\<lambda>inventory.
       bindE (inventory_hashes inventory) (\<lambda>hashes.
       bindE (package_sequence (py_get descriptor ''evidence_records'') descriptor_semantic) (\<lambda>records.
       bindE (check_evidence_records v authorized hashes [] records) (\<lambda>_.
       bindE (package_mapping (py_get descriptor ''archive'') descriptor_semantic) (\<lambda>archive.
       bindE (package_integer archive ''file_count'' descriptor_semantic) (\<lambda>count.
       if count \<noteq> int (length inventory) then reject descriptor_semantic ''Inventory count is invalid.''
       else Inr ())))))))))))"

subsection \<open>The descriptor\<close>

fun check_scope :: "dict \<Rightarrow> (string \<times> string) list \<Rightarrow> unit package_result" where
  "check_scope descriptor [] = Inr ()"
| "check_scope descriptor ((key, expected) # pairs) =
     bindE (package_string descriptor key descriptor_semantic) (\<lambda>value.
     if value \<noteq> expected then reject ''MANIFEST_SCOPE_MISMATCH'' ''Package scope is invalid.''
     else check_scope descriptor pairs)"

definition expected_kind :: "string \<Rightarrow> authentication_kind package_result" where
  "expected_kind profile =
     (if profile = ''ONLINE-AUTHENTICATED'' then Inr ONLINE_TRANSPORT
      else if profile = ''OFFLINE-SIGNED'' then Inr OFFLINE_SIGNATURE
      else if profile = ''OFFLINE-USER-SUBMITTED'' then Inr OFFLINE_SUBMITTER
      else Inl (PyError KeyError))"

definition check_authentication ::
  "dict \<Rightarrow> dict \<Rightarrow> authentication_verification \<Rightarrow> unit package_result" where
  "check_authentication descriptor manifest package_auth =
     bindE (package_mapping (py_get descriptor ''authentication'') descriptor_semantic) (\<lambda>authentication.
     bindE (package_string authentication ''profile'' descriptor_semantic) (\<lambda>profile.
     bindE (package_mapping (py_get manifest ''submission'') manifest_semantic) (\<lambda>submission.
     bindE (package_sequence (py_get submission ''allowed_profiles'') manifest_semantic) (\<lambda>allowed.
     if PStr profile \<notin> set allowed
     then reject ''SUBMISSION_PROFILE_NOT_ALLOWED'' ''Package authentication profile is not authorized.''
     else
       bindE (expected_kind profile) (\<lambda>kind.
       if av_kind package_auth \<noteq> kind
       then reject ''PACKAGE_AUTHENTICATION_INVALID'' ''Package authentication proof has the wrong type.''
       else if av_status package_auth = UNAVAILABLE
       then reject ''PACKAGE_AUTHENTICATION_UNAVAILABLE'' ''Package authentication is unavailable.''
       else if av_status package_auth = FAILED
       then reject ''PACKAGE_AUTHENTICATION_INVALID'' ''Package authentication failed.''
       else Inr ())))))"

definition validate_descriptor_semantics ::
  "full_validator \<Rightarrow> dict \<Rightarrow> dict \<Rightarrow> validation_context \<Rightarrow> gate_verifications \<Rightarrow> unit package_result" where
  "validate_descriptor_semantics v descriptor manifest context verifications =
     bindE (package_timestamp descriptor ''issued_at'' descriptor_semantic) (\<lambda>issued_at.
     bindE (package_timestamp descriptor ''expires_at'' descriptor_semantic) (\<lambda>expires_at.
     bindE (package_timestamp manifest ''issued_at'' manifest_semantic) (\<lambda>manifest_issued.
     bindE (package_timestamp manifest ''expires_at'' manifest_semantic) (\<lambda>manifest_expires.
     if expires_at \<le> issued_at \<or> issued_at < manifest_issued \<or> manifest_expires < expires_at \<or>
        vc_received_at context < issued_at \<or> expires_at < vc_received_at context
     then reject descriptor_semantic ''Package time range is invalid.''
     else
       bindE (package_string manifest ''id'' manifest_semantic) (\<lambda>manifest_id.
       bindE (package_string manifest ''nonce'' manifest_semantic) (\<lambda>nonce.
       bindE (package_string manifest ''manifest_content_sha256'' manifest_semantic) (\<lambda>manifest_hash.
       bindE (check_scope descriptor [(''job_id'', vc_job_id context), (''asset_id'', vc_asset_id context),
                (''manifest_id'', manifest_id), (''nonce'', nonce), (''manifest_hash'', manifest_hash)]) (\<lambda>_.
       bindE (check_authentication descriptor manifest (gv_package_authentication verifications)) (\<lambda>_.
       validate_collector_and_evidence v descriptor manifest)))))))))"

subsection \<open>The validator\<close>

definition check_trusted_manifest ::
  "json_dumps \<Rightarrow> digest \<Rightarrow> dict \<Rightarrow> gate_verifications \<Rightarrow> string package_result" where
  "check_trusted_manifest dumps sha256 manifest verifications =
     bindE (manifest_content_hash dumps sha256 manifest) (\<lambda>manifest_hash.
     bindE (package_string manifest ''manifest_content_sha256'' manifest_semantic) (\<lambda>claimed.
     if claimed \<noteq> manifest_hash then reject ''MANIFEST_HASH_MISMATCH'' ''Manifest hash is invalid.''
     else
       bindE (package_mapping (py_get manifest ''authorization'') manifest_semantic) (\<lambda>authorization.
       bindE (package_mapping (py_get authorization ''signature'') manifest_semantic) (\<lambda>signature.
       bindE (package_string signature ''signed_sha256'' manifest_semantic) (\<lambda>signed.
       if signed \<noteq> manifest_hash
       then reject ''MANIFEST_HASH_MISMATCH'' ''Manifest signature hash is invalid.''
       else
         bindE (verified_digest (gv_manifest_signature verifications) manifest_hash
                  ''MANIFEST_SIGNATURE_INVALID'' ''MANIFEST_SIGNATURE_UNAVAILABLE'') (\<lambda>_.
         Inr manifest_hash))))))"

definition check_measured_archive ::
  "digest \<Rightarrow> archive_file \<Rightarrow> dict \<Rightarrow> package_limits \<Rightarrow> validation_context \<Rightarrow> gate_verifications \<Rightarrow>
     unit package_result" where
  "check_measured_archive sha256 archive_path descriptor limits context verifications =
     bindE (package_mapping (py_get descriptor ''archive'') descriptor_semantic) (\<lambda>archive.
     bindE (package_string archive ''archive_sha256'' descriptor_semantic) (\<lambda>declared_hash.
     bindE (package_integer archive ''compressed_bytes'' descriptor_semantic) (\<lambda>declared_size.
     bindE (measure_file sha256 archive_path (pl_max_archive_bytes limits)) (\<lambda>(measured_size, measured_hash).
     if measured_hash \<noteq> declared_hash then reject ''ARCHIVE_HASH_MISMATCH'' ''Archive digest is invalid.''
     else if measured_size \<noteq> declared_size then reject ''ARCHIVE_SIZE_MISMATCH'' ''Archive size is invalid.''
     else validate_external_archive_gates measured_hash measured_size context verifications))))"

definition check_embedded_manifest ::
  "full_validator \<Rightarrow> json_dumps \<Rightarrow> digest \<Rightarrow> pyval \<Rightarrow> dict \<Rightarrow> string \<Rightarrow> unit package_result" where
  "check_embedded_manifest v dumps sha256 embedded manifest manifest_hash =
     bindE (schema_validate (fv_schemas v) embedded (fv_manifest_schema v) ''MANIFEST_SCHEMA_INVALID'') (\<lambda>_.
     bindE (package_mapping embedded manifest_semantic) (\<lambda>embedded_dict.
     bindE (manifest_content_hash dumps sha256 embedded_dict) (\<lambda>embedded_hash.
     if embedded_hash \<noteq> manifest_hash then reject ''MANIFEST_HASH_MISMATCH'' ''Embedded Manifest differs.''
     else
       bindE (canonical_hash dumps sha256 embedded) (\<lambda>a.
       bindE (canonical_hash dumps sha256 (PDict manifest)) (\<lambda>b.
       if a \<noteq> b then reject ''MANIFEST_HASH_MISMATCH'' ''Embedded Manifest differs.'' else Inr ())))))"

definition the_validated_package ::
  "json_dumps \<Rightarrow> digest \<Rightarrow> dict \<Rightarrow> validation_context \<Rightarrow> string \<Rightarrow> package_inspection \<Rightarrow>
     validated_package package_result" where
  "the_validated_package dumps sha256 descriptor context manifest_hash inspection =
     bindE (package_string descriptor ''id'' descriptor_semantic) (\<lambda>package_id.
     bindE (package_string descriptor ''manifest_id'' descriptor_semantic) (\<lambda>manifest_id.
     bindE (canonical_hash dumps sha256 (PDict descriptor)) (\<lambda>descriptor_hash.
     bindE (package_mapping (py_get descriptor ''authentication'') descriptor_semantic) (\<lambda>authentication.
     bindE (package_string authentication ''profile'' descriptor_semantic) (\<lambda>profile.
     Inr \<lparr>vp_package_id = package_id, vp_manifest_id = manifest_id, vp_job_id = vc_job_id context,
          vp_asset_id = vc_asset_id context, vp_descriptor_sha256 = descriptor_hash,
          vp_manifest_content_sha256 = manifest_hash, vp_authentication_profile = profile,
          vp_inspection = inspection, vp_eligible_for_original_promotion = True\<rparr>)))))"

definition full_validate ::
  "nat \<Rightarrow> zip_library \<Rightarrow> json_dumps \<Rightarrow> digest \<Rightarrow> full_validator \<Rightarrow> archive_file \<Rightarrow> string \<Rightarrow> dict \<Rightarrow>
     validation_context \<Rightarrow> gate_verifications \<Rightarrow> validated_package package_result" where
  "full_validate depth lib dumps sha256 v archive_path descriptor_bytes manifest context verifications =
     bindE (load_strict_json depth descriptor_bytes True) (\<lambda>descriptor_value.
     bindE (schema_validate (fv_schemas v) descriptor_value (fv_descriptor_schema v)
              ''DESCRIPTOR_SCHEMA_INVALID'') (\<lambda>_.
     bindE (package_mapping descriptor_value descriptor_semantic) (\<lambda>descriptor.
     bindE (schema_validate (fv_schemas v) (PDict manifest) (fv_manifest_schema v)
              ''MANIFEST_SCHEMA_INVALID'') (\<lambda>_.
     bindE (check_trusted_manifest dumps sha256 manifest verifications) (\<lambda>manifest_hash.
     bindE (validate_manifest_context manifest context verifications) (\<lambda>_.
     bindE (manifest_limits manifest) (\<lambda>limits.
     bindE (check_measured_archive sha256 archive_path descriptor limits context verifications) (\<lambda>_.
     bindE (validate_package_contract depth lib dumps sha256 archive_path descriptor limits) (\<lambda>inspection.
     bindE (load_embedded_manifest depth lib sha256 (the archive_path) inspection limits) (\<lambda>embedded.
     bindE (check_embedded_manifest v dumps sha256 embedded manifest manifest_hash) (\<lambda>_.
     bindE (validate_descriptor_semantics v descriptor manifest context verifications) (\<lambda>_.
     the_validated_package dumps sha256 descriptor context manifest_hash inspection))))))))))))"

end
