(* ===== verification/Package_Safety.thy ===== *)
theory Package_Safety
  imports Package_Gates
begin

section \<open>What an accepted archive and an accepted package guarantee\<close>

text \<open>
  The consequences of acceptance: the layout and the sizes of the archive, its agreement with the
  descriptor, and the bindings between package, manifest, scope, proofs and evidence.
\<close>

subsection \<open>The directory scan\<close>

definition safe_path :: "string \<Rightarrow> bool" where
  "safe_path path \<longleftrightarrow>
     safe_member_pattern path \<and> (path = [] \<or> hd path \<noteq> CHR ''/'') \<and> CHR 0x5C \<notin> set path \<and>
     CHR 0x00 \<notin> set path \<and> \<not> drive_pattern path \<and>
     (\<forall>segment\<in>set (split_char (CHR ''/'') path). segment \<notin> {[], ''.'', ''..''})"

lemma validate_member_path_Inr:
  "validate_member_path path limits = Inr u \<Longrightarrow> safe_path path \<and> int (py_len path) \<le> pl_max_path_length limits"
  unfolding validate_member_path_def safe_path_def list_ex_iff
  by (simp only: if_reject_Inr not_less de_Morgan_disj de_Morgan_conj not_not) blast

definition entry_ok :: "package_limits \<Rightarrow> zip_info \<Rightarrow> bool" where
  "entry_ok limits info \<longleftrightarrow>
     safe_path (zi_filename info) \<and> 2 \<le> zi_file_size info \<and> zi_file_size info \<le> pl_max_member_bytes limits \<and>
     zi_file_size info \<le> pl_max_compression_ratio limits * max (zi_compress_size info) 1 \<and>
     zi_flag_bits info AND 1 = 0 \<and> \<not> is_dir info \<and> file_type info \<in> {0, 0x8000}"

lemma validate_member_type_Inr:
  "validate_member_type info = Inr u \<Longrightarrow> \<not> is_dir info \<and> file_type info \<in> {0, 0x8000}"
  unfolding validate_member_type_def
  by (simp only: if_reject_Inr insert_iff de_Morgan_conj not_not) blast

lemma scan_entry_Inr:
  assumes "scan_entry limits info scan = Inr scan'"
  shows "entry_ok limits info \<and> zi_filename info \<notin> set (ds_seen scan) \<and>
    casefold (zi_filename info) \<notin> set (ds_seen_folded scan) \<and>
    zi_header_offset info \<notin> set (ds_seen_offsets scan) \<and>
    scan' = \<lparr>ds_seen = zi_filename info # ds_seen scan,
      ds_seen_folded = casefold (zi_filename info) # ds_seen_folded scan,
      ds_seen_offsets = zi_header_offset info # ds_seen_offsets scan,
      ds_metadata_total = ds_metadata_total scan + zi_file_size info,
      ds_compressed_total = ds_compressed_total scan + zi_compress_size info\<rparr> \<and>
    ds_metadata_total scan' \<le> pl_max_uncompressed_bytes limits"
proof -
  obtain u w where t: "validate_member_type info = Inr u" "validate_member_path (zi_filename info) limits = Inr w"
    using assms unfolding scan_entry_def by (auto simp: bindE_eq_Inr)
  have "\<not> is_dir info \<and> file_type info \<in> {0, 0x8000}" using t(1) by (rule validate_member_type_Inr)
  moreover have "safe_path (zi_filename info)" using validate_member_path_Inr [OF t(2)] by simp
  moreover note assms [unfolded scan_entry_def t Let_def bindE_simps if_reject_Inr]
  ultimately show ?thesis by (auto simp: entry_ok_def ratio_exceeds_def)
qed

lemma scan_directory_Inr:
  assumes "scan_directory limits infos scan = Inr scan'"
  shows "(\<forall>info\<in>set infos. entry_ok limits info) \<and>
    set (ds_seen scan') = set (ds_seen scan) \<union> zi_filename ` set infos \<and>
    distinct (map (casefold \<circ> zi_filename) infos) \<and> distinct (map zi_header_offset infos) \<and>
    set (ds_seen_folded scan) \<inter> (casefold \<circ> zi_filename) ` set infos = {} \<and>
    set (ds_seen_offsets scan) \<inter> zi_header_offset ` set infos = {} \<and>
    ds_metadata_total scan' = ds_metadata_total scan + sum_list (map zi_file_size infos) \<and>
    ds_compressed_total scan' = ds_compressed_total scan + sum_list (map zi_compress_size infos) \<and>
    (infos \<noteq> [] \<longrightarrow> ds_metadata_total scan' \<le> pl_max_uncompressed_bytes limits)"
  using assms
proof (induction infos arbitrary: scan)
  case (Cons info infos)
  obtain mid where mid: "scan_entry limits info scan = Inr mid" "scan_directory limits infos mid = Inr scan'"
    using Cons.prems by (auto simp: bindE_eq_Inr)
  show ?case
    using Cons.IH [OF mid(2)] scan_entry_Inr [OF mid(1)]
    by (cases "infos = []") (auto simp: image_iff)
qed simp

lemma read_member_Inr:
  "read_member lib archive info limits before = Inr content \<Longrightarrow> int (length content) = zi_file_size info"
  by (auto simp: read_member_def read_failure_def Let_def bindE_eq_Inr split: prod.splits option.splits if_splits)

lemma with_member_Inr [simp]: "with_member path m = Inr x \<longleftrightarrow> m = Inr x"
  by (auto simp: with_member_def split: sum.splits raised.splits package_failure.splits option.splits)

lemma read_records_Inr:
  assumes "read_records depth lib sha256 archive limits before infos = Inr records"
  shows "map pf_path records = map zi_filename infos \<and> map pf_size_bytes records = map zi_file_size infos"
  using assms by (induction infos arbitrary: before records) (auto simp: bindE_eq_Inr dest: read_member_Inr)

text \<open>A record describes a member whose content is a strict JSON object.\<close>

definition measured :: "nat \<Rightarrow> digest \<Rightarrow> package_file \<Rightarrow> bool" where
  "measured depth sha256 f \<longleftrightarrow>
     (\<exists>content v. pf_size_bytes f = int (length content) \<and> pf_sha256 f = sha256 content \<and>
        load_strict_json depth content True = Inr v)"

lemma read_records_measured:
  assumes "read_records depth lib sha256 archive limits before infos = Inr records"
  shows "\<forall>f\<in>set records. measured depth sha256 f"
  using assms
  by (induction infos arbitrary: before records) (auto simp: bindE_eq_Inr measured_def, blast)

lemma archive_records_Inr:
  assumes "archive_records depth lib sha256 archive limits = Inr records"
  obtains infos where "zip_open lib archive = Inr infos" "\<forall>info\<in>set infos. entry_ok limits info"
    "manifest_path \<in> zi_filename ` set infos" "distinct (map (casefold \<circ> zi_filename) infos)"
    "distinct (map zi_header_offset infos)"
    "sum_list (map zi_file_size infos) \<le> pl_max_uncompressed_bytes limits"
    "sum_list (map zi_file_size infos) \<le> pl_max_compression_ratio limits * max (sum_list (map zi_compress_size infos)) 1"
    "pl_min_files limits \<le> int (length infos)" "int (length infos) \<le> pl_max_files limits"
    "map pf_path records = map zi_filename infos" "map pf_size_bytes records = map zi_file_size infos"
    "\<forall>f\<in>set records. measured depth sha256 f"
proof -
  obtain infos scan where i: "zip_open lib archive = Inr infos" "pl_min_files limits \<le> int (length infos)"
      "int (length infos) \<le> pl_max_files limits" "scan_directory limits infos empty_scan = Inr scan"
      "manifest_path \<in> set (ds_seen scan)"
      "\<not> ratio_exceeds (ds_metadata_total scan) (ds_compressed_total scan) (pl_max_compression_ratio limits)"
      "read_records depth lib sha256 archive limits 0 infos = Inr records"
    using assms unfolding archive_records_def open_archive_def
    by (auto simp: bindE_eq_Inr split: sum.splits if_splits)
  have s: "\<forall>info\<in>set infos. entry_ok limits info" "set (ds_seen scan) = zi_filename ` set infos"
    "distinct (map (casefold \<circ> zi_filename) infos)" "distinct (map zi_header_offset infos)"
    "ds_metadata_total scan = sum_list (map zi_file_size infos)"
    "ds_compressed_total scan = sum_list (map zi_compress_size infos)"
    "infos \<noteq> [] \<longrightarrow> ds_metadata_total scan \<le> pl_max_uncompressed_bytes limits"
    using scan_directory_Inr [OF i(4)] by (simp_all only: empty_scan_def directory_scan.simps) auto
  have "infos \<noteq> []" using i(5) s(2) by auto
  then show ?thesis
    using that [OF i(1) s(1)] i s read_records_Inr [OF i(7)] read_records_measured [OF i(7)] by (simp add: ratio_exceeds_def not_less)
qed

subsection \<open>Inspection\<close>

lemma archive_invalid_Inr [simp]: "archive_invalid m = Inr x \<longleftrightarrow> m = Inr x"
  by (auto simp: archive_invalid_def split: sum.splits raised.splits py_error.splits)

definition archive_ok :: "nat \<Rightarrow> digest \<Rightarrow> package_limits \<Rightarrow> package_inspection \<Rightarrow> bool" where
  "archive_ok depth sha256 limits inspection \<longleftrightarrow>
     (\<forall>f\<in>set (pi_files inspection). measured depth sha256 f \<and> safe_path (pf_path f) \<and> 2 \<le> pf_size_bytes f \<and>
        pf_size_bytes f \<le> pl_max_member_bytes limits) \<and>
     distinct (map (casefold \<circ> pf_path) (pi_files inspection)) \<and>
     manifest_path \<in> pf_path ` set (pi_files inspection) \<and>
     sorted (map pf_path (pi_files inspection)) \<and>
     pi_file_count inspection = int (length (pi_files inspection)) \<and>
     pl_min_files limits \<le> pi_file_count inspection \<and> pi_file_count inspection \<le> pl_max_files limits \<and>
     pi_uncompressed_bytes inspection = sum_list (map pf_size_bytes (pi_files inspection)) \<and>
     pi_uncompressed_bytes inspection \<le> pl_max_uncompressed_bytes limits \<and>
     0 < pi_compressed_bytes inspection \<and> pi_compressed_bytes inspection \<le> pl_max_archive_bytes limits"

lemma inspect_Inr:
  assumes "inspect_package_archive depth lib dumps sha256 archive_path limits = Inr inspection"
  obtains archive records where "archive_path = Some archive" "archive \<noteq> []"
    "int (length archive) \<le> pl_max_archive_bytes limits"
    "archive_records depth lib sha256 archive limits = Inr records"
    "pi_files inspection = sort_key pf_path records" "pi_archive_sha256 inspection = sha256 archive"
    "pi_compressed_bytes inspection = int (length archive)"
    "pi_uncompressed_bytes inspection = sum_list (map pf_size_bytes (pi_files inspection))"
    "pi_file_count inspection = int (length (pi_files inspection))"
  using assms unfolding inspect_package_archive_def
  by (auto simp: bindE_eq_Inr Let_def not_less split: option.splits if_splits)

lemma inspect_ok:
  assumes "inspect_package_archive depth lib dumps sha256 archive_path limits = Inr inspection"
  shows "archive_ok depth sha256 limits inspection"
proof -
  obtain archive records where a: "archive \<noteq> []" "int (length archive) \<le> pl_max_archive_bytes limits"
    "archive_records depth lib sha256 archive limits = Inr records"
    "pi_files inspection = sort_key pf_path records" "pi_compressed_bytes inspection = int (length archive)"
    "pi_uncompressed_bytes inspection = sum_list (map pf_size_bytes (pi_files inspection))"
    "pi_file_count inspection = int (length (pi_files inspection))"
    using assms by (rule inspect_Inr)
  obtain infos where i: "\<forall>info\<in>set infos. entry_ok limits info" "manifest_path \<in> zi_filename ` set infos"
    "distinct (map (casefold \<circ> zi_filename) infos)" "sum_list (map zi_file_size infos) \<le> pl_max_uncompressed_bytes limits"
    "pl_min_files limits \<le> int (length infos)" "int (length infos) \<le> pl_max_files limits"
    "map pf_path records = map zi_filename infos" "map pf_size_bytes records = map zi_file_size infos"
    "\<forall>f\<in>set records. measured depth sha256 f"
    using a(3) by (rule archive_records_Inr)
  have len: "length records = length infos" using i(7) by (metis length_map)
  have "safe_path (pf_path f) \<and> 2 \<le> pf_size_bytes f \<and> pf_size_bytes f \<le> pl_max_member_bytes limits"
    if member: "f \<in> set records" for f
  proof -
    obtain k where k: "k < length records" "f = records ! k"
      using member by (auto simp: in_set_conv_nth)
    have "map pf_path records ! k = map zi_filename infos ! k"
      "map pf_size_bytes records ! k = map zi_file_size infos ! k"
      by (simp_all only: i(7,8))
    then have "pf_path f = zi_filename (infos ! k)" "pf_size_bytes f = zi_file_size (infos ! k)"
      using k len by simp_all
    moreover have "infos ! k \<in> set infos" using k(1) len by simp
    ultimately show ?thesis using i(1) by (auto simp: entry_ok_def)
  qed
  moreover have "mset (map (casefold \<circ> pf_path) (sort_key pf_path records)) = mset (map (casefold \<circ> zi_filename) infos)"
    using i(7) by (metis map_map mset_map mset_sort)
  then have "distinct (map (casefold \<circ> pf_path) (sort_key pf_path records))"
    using i(3) by (metis mset_eq_imp_distinct_iff)
  moreover have "sum_list (map pf_size_bytes (sort_key pf_path records)) = sum_list (map zi_file_size infos)"
    using i(8) by (metis mset_map mset_sort sum_mset_sum_list)
  moreover have "manifest_path \<in> pf_path ` set records"
    using i(2,7) by (metis list.set_map)
  ultimately show ?thesis
    using a i(4-6,9) len unfolding archive_ok_def by simp
qed

subsection \<open>The contract with the descriptor\<close>

text \<open>An entry of the inventory as the triple of its path, size and hash, and a measured file as one.\<close>

definition entry_triple :: "pyval \<Rightarrow> pyval \<times> pyval \<times> pyval" where
  "entry_triple entry =
     (case entry of
        PDict e \<Rightarrow> (py_get e ''path'', py_get e ''size_bytes'', py_get e ''sha256'')
      | _ \<Rightarrow> (PNone, PNone, PNone))"

definition file_triple :: "package_file \<Rightarrow> pyval \<times> pyval \<times> pyval" where
  "file_triple f = (PStr (pf_path f), PInt (pf_size_bytes f), PStr (pf_sha256 f))"

lemma required_Inr:
  "required_mapping value = Inr d \<longleftrightarrow> value = PDict d"
  "required_sequence value = Inr xs \<longleftrightarrow> value = PList xs"
  "required_string m key = Inr s \<longleftrightarrow> py_get m key = PStr s"
  "required_integer m key = Inr i \<longleftrightarrow> py_get m key = PInt i \<and> 0 \<le> i"
  "required_hash m key = Inr s \<longleftrightarrow> py_get m key = PStr s \<and> hash_pattern s"
  by (auto simp: required_mapping_def required_sequence_def required_string_def required_integer_def
      required_hash_def bindE_eq_Inr split: pyval.splits)

lemma expected_records_Inr:
  assumes "expected_records limits inventory expected = Inr result" "distinct (map fst expected)"
  obtains new where "result = expected @ new" "distinct (map fst result)"
    "map entry_triple inventory = map (\<lambda>(p, b, h). (PStr p, PInt b, PStr h)) new"
  using assms
proof (induction inventory arbitrary: expected thesis)
  case (Cons raw inventory)
  obtain e p b h where e: "raw = PDict e" "py_get e ''path'' = PStr p" "py_get e ''size_bytes'' = PInt b"
    "py_get e ''sha256'' = PStr h" "p \<notin> fst ` set expected"
    "expected_records limits inventory (expected @ [(p, b, h)]) = Inr result"
    using Cons.prems(2) by (auto simp: bindE_eq_Inr required_Inr if_reject_Inr)
  have distinct: "distinct (map fst (expected @ [(p, b, h)]))" using Cons.prems(3) e(5) by auto
  show ?case
    by (rule Cons.IH [OF _ e(6) distinct]) (rule Cons.prems(1) [of "(p, b, h) # _"]; simp add: entry_triple_def e)
qed simp

lemma find_SomeD: "find P xs = Some x \<Longrightarrow> P x \<and> x \<in> set xs"
  by (induction xs) (auto split: if_splits)

lemma compare_records_Inr:
  assumes "compare_records files expected = Inr u" "(p, b, h) \<in> set expected"
  shows "\<exists>f\<in>set files. pf_path f = p \<and> pf_size_bytes f = b \<and> pf_sha256 f = h"
  using assms
proof (induction expected)
  case (Cons r0 expected)
  obtain p' b' h' where r: "r0 = (p', b', h')" by (cases r0)
  obtain f where f: "find (\<lambda>f. pf_path f = p') (rev files) = Some f" "pf_size_bytes f = b'" "pf_sha256 f = h'"
    "compare_records files expected = Inr u"
    using Cons.prems(1) by (auto simp: r if_reject_Inr split: option.splits)
  show ?case
    using find_SomeD [OF f(1)] f Cons.IH [OF f(4)] Cons.prems(2) by (auto simp: r)
qed simp

lemma compare_metadata_Inr:
  "compare_metadata inspection archive = Inr u \<Longrightarrow>
     py_get archive ''archive_sha256'' = PStr (pi_archive_sha256 inspection) \<and>
     py_get archive ''content_set_sha256'' = PStr (pi_content_set_sha256 inspection) \<and>
     py_get archive ''compressed_bytes'' = PInt (pi_compressed_bytes inspection) \<and>
     py_get archive ''uncompressed_bytes'' = PInt (pi_uncompressed_bytes inspection) \<and>
     py_get archive ''file_count'' = PInt (pi_file_count inspection)"
  unfolding compare_metadata_def mismatch_def bindE_eq_Inr required_Inr if_reject_Inr by auto

definition inventory_agrees :: "package_inspection \<Rightarrow> dict \<Rightarrow> bool" where
  "inventory_agrees inspection descriptor \<longleftrightarrow>
     (\<exists>archive inventory.
        py_get descriptor ''archive'' = PDict archive \<and>
        py_get descriptor ''file_inventory'' = PList inventory \<and>
        mset (map entry_triple inventory) = mset (map file_triple (pi_files inspection)) \<and>
        py_get archive ''archive_sha256'' = PStr (pi_archive_sha256 inspection) \<and>
        py_get archive ''content_set_sha256'' = PStr (pi_content_set_sha256 inspection) \<and>
        py_get archive ''compressed_bytes'' = PInt (pi_compressed_bytes inspection) \<and>
        py_get archive ''uncompressed_bytes'' = PInt (pi_uncompressed_bytes inspection) \<and>
        py_get archive ''file_count'' = PInt (pi_file_count inspection))"

lemma sorted_distinct_Nil: "sorted_distinct (filter P xs) = [] \<longleftrightarrow> (\<forall>x\<in>set xs. \<not> P x)"
proof -
  have "set (sorted_distinct (filter P xs)) = {} \<longleftrightarrow> (\<forall>x\<in>set xs. \<not> P x)" by auto
  then show ?thesis by (simp only: set_empty)
qed

lemma contract_Inr:
  assumes "validate_package_contract depth lib dumps sha256 archive_path descriptor limits = Inr inspection"
  shows "inspect_package_archive depth lib dumps sha256 archive_path limits = Inr inspection \<and>
    inventory_agrees inspection descriptor"
proof -
  obtain archive inventory expected where e:
    "inspect_package_archive depth lib dumps sha256 archive_path limits = Inr inspection"
    "py_get descriptor ''archive'' = PDict archive" "py_get descriptor ''file_inventory'' = PList inventory"
    "expected_records limits inventory [] = Inr expected"
    "\<forall>p\<in>set (map fst expected). p \<in> set (map pf_path (pi_files inspection))"
    "\<forall>p\<in>set (map pf_path (pi_files inspection)). p \<in> fst ` set expected"
    "compare_records (pi_files inspection) expected = Inr ()" "compare_metadata inspection archive = Inr ()"
    using assms unfolding validate_package_contract_def Let_def bindE_eq_Inr required_Inr if_reject_Inr
      sorted_distinct_Nil not_not
    by (elim exE conjE) (simp add: bindE_eq_Inr)
  obtain new where n: "expected = [] @ new" "distinct (map fst expected)"
    "map entry_triple inventory = map (\<lambda>(p, b, h). (PStr p, PInt b, PStr h)) new"
    by (rule expected_records_Inr [OF e(4)]) simp
  let ?files = "pi_files inspection" and ?triple = "\<lambda>f. (pf_path f, pf_size_bytes f, pf_sha256 f)"
  have paths: "distinct (map pf_path ?files)"
    using inspect_ok [OF e(1)] by (auto simp: archive_ok_def distinct_map inj_on_def)
  have "mset expected = mset (map ?triple ?files)"
  proof (subst set_eq_iff_mset_eq_distinct [symmetric])
    show "distinct expected" using n(2) by (simp add: distinct_map)
    show "distinct (map ?triple ?files)" using paths by (auto simp: distinct_map inj_on_def)
    show "set expected = set (map ?triple ?files)"
    proof (intro subset_antisym subsetI)
      fix r assume "r \<in> set expected"
      moreover obtain p b h where r: "r = (p, b, h)" by (cases r)
      ultimately obtain f where "f \<in> set ?files" "pf_path f = p" "pf_size_bytes f = b" "pf_sha256 f = h"
        using compare_records_Inr [OF e(7)] by blast
      then show "r \<in> set (map ?triple ?files)" by (auto simp: r)
    next
      fix r assume "r \<in> set (map ?triple ?files)"
      then obtain f where f: "f \<in> set ?files" "r = ?triple f" by auto
      then obtain b h where "(pf_path f, b, h) \<in> set expected" using e(6) by force
      moreover from compare_records_Inr [OF e(7) this] obtain g where
        "g \<in> set ?files" "pf_path g = pf_path f" "pf_size_bytes g = b" "pf_sha256 g = h" by blast
      ultimately show "r \<in> set expected"
        using f paths by (metis distinct_map inj_onD)
    qed
  qed
  then have "mset (map entry_triple inventory) = mset (map file_triple ?files)"
    unfolding n(3) using n(1) by (simp add: file_triple_def [abs_def] comp_def multiset.map_comp)
  then show ?thesis
    using e(1-3) compare_metadata_Inr [OF e(8)] unfolding inventory_agrees_def by blast
qed

end
