(* ===== verification/Package_Acceptance.thy ===== *)
theory Package_Acceptance
  imports Package_Safety
begin

section \<open>What a validated package guarantees\<close>

text \<open>
  The gates of \<^verbatim>\<open>FullPackageValidator.validate\<close> taken together: a package that passes is bound to
  its manifest, to the scope of the submission, to every external proof and, record by record, to the
  probes that the manifest authorises.
\<close>

subsection \<open>The gates one by one\<close>

lemma package_Inr:
  "package_mapping value code = Inr d \<longleftrightarrow> value = PDict d"
  "package_sequence value code = Inr xs \<longleftrightarrow> value = PList xs"
  "package_string m key code = Inr s \<longleftrightarrow> py_get m key = PStr s"
  "package_integer m key code = Inr i \<longleftrightarrow> py_get m key = PInt i"
  by (auto simp: package_mapping_def package_sequence_def package_string_def package_integer_def
      split: pyval.splits)

lemma verified_digest_Inr:
  "verified_digest proof_of hash failed unavailable = Inr u \<longleftrightarrow>
     dv_status proof_of = VERIFIED \<and> dv_sha256 proof_of = hash"
  by (cases "dv_status proof_of") (simp_all add: verified_digest_def)

definition trusted_manifest_hash :: "json_dumps \<Rightarrow> digest \<Rightarrow> dict \<Rightarrow> string \<Rightarrow> bool" where
  "trusted_manifest_hash dumps sha256 manifest hash \<longleftrightarrow>
     manifest_content_hash dumps sha256 manifest = Inr hash \<and>
     py_get manifest ''manifest_content_sha256'' = PStr hash \<and>
     (\<exists>authorization signature.
        py_get manifest ''authorization'' = PDict authorization \<and>
        py_get authorization ''signature'' = PDict signature \<and>
        py_get signature ''signed_sha256'' = PStr hash)"

lemma check_trusted_manifest_Inr:
  assumes "check_trusted_manifest dumps sha256 manifest verifications = Inr hash"
  shows "trusted_manifest_hash dumps sha256 manifest hash \<and>
    dv_status (gv_manifest_signature verifications) = VERIFIED \<and>
    dv_sha256 (gv_manifest_signature verifications) = hash"
  using assms
  unfolding check_trusted_manifest_def bindE_eq_Inr package_Inr if_reject_Inr verified_digest_Inr
    trusted_manifest_hash_def by auto

text \<open>The manifest names the scope of the submission and the nonce that was reserved for it.\<close>

definition manifest_scope :: "dict \<Rightarrow> validation_context \<Rightarrow> gate_verifications \<Rightarrow> bool" where
  "manifest_scope manifest context verifications \<longleftrightarrow>
     py_get manifest ''job_id'' = PStr (vc_job_id context) \<and>
     py_get manifest ''asset_id'' = PStr (vc_asset_id context) \<and>
     (\<exists>submission. py_get manifest ''submission'' = PDict submission \<and>
        py_get submission ''endpoint_id'' = PStr (vc_endpoint_id context)) \<and>
     py_get manifest ''nonce'' = PStr (nv_nonce (gv_nonce verifications)) \<and>
     nv_status (gv_nonce verifications) = FRESH_RESERVED"

lemma validate_manifest_context_Inr:
  assumes "validate_manifest_context manifest context verifications = Inr u"
  shows "manifest_scope manifest context verifications"
proof -
  have "nv_status (gv_nonce verifications) = FRESH_RESERVED"
    if "nv_status (gv_nonce verifications) \<noteq> NONCE_UNAVAILABLE" "nv_status (gv_nonce verifications) \<noteq> REPLAYED"
    using that by (cases "nv_status (gv_nonce verifications)") simp_all
  then show ?thesis
    using assms unfolding validate_manifest_context_def bindE_eq_Inr package_Inr if_reject_Inr
      manifest_scope_def by auto
qed

text \<open>The outcomes of the external checks, all positive and all about this archive and this scope.\<close>

definition archive_proofs :: "validation_context \<Rightarrow> gate_verifications \<Rightarrow> string \<Rightarrow> int \<Rightarrow> bool" where
  "archive_proofs context verifications hash bytes \<longleftrightarrow>
     (let staged = gv_staged_object verifications
      in sv_status staged = VERIFIED \<and> sv_organization_id staged = vc_organization_id context \<and>
         sv_asset_id staged = vc_asset_id context \<and> sv_job_id staged = vc_job_id context \<and>
         sv_archive_sha256 staged = hash \<and> sv_size_bytes staged = bytes) \<and>
     mv_status (gv_malware_scan verifications) = CLEAN \<and>
     mv_archive_sha256 (gv_malware_scan verifications) = hash \<and>
     dv_status (gv_content_policy verifications) = VERIFIED \<and>
     dv_sha256 (gv_content_policy verifications) = hash"

lemma external_gates_Inr:
  assumes "validate_external_archive_gates hash bytes context verifications = Inr u"
  shows "archive_proofs context verifications hash bytes"
proof -
  have "mv_status (gv_malware_scan verifications) = CLEAN"
    if "mv_status (gv_malware_scan verifications) \<noteq> SCAN_UNAVAILABLE"
      "mv_status (gv_malware_scan verifications) \<noteq> DETECTED"
    using that by (cases "mv_status (gv_malware_scan verifications)") simp_all
  moreover have "sv_status (gv_staged_object verifications) = VERIFIED"
    if "sv_status (gv_staged_object verifications) \<noteq> UNAVAILABLE"
      "sv_status (gv_staged_object verifications) \<noteq> FAILED"
    using that by (cases "sv_status (gv_staged_object verifications)") simp_all
  ultimately show ?thesis
    using assms
    unfolding validate_external_archive_gates_def Let_def if_reject_Inr verified_digest_Inr archive_proofs_def
    by auto
qed

lemma measured_archive_Inr:
  assumes "check_measured_archive sha256 archive_path descriptor limits context verifications = Inr u"
  obtains archive where "archive_path = Some archive" "archive \<noteq> []"
    "archive_proofs context verifications (sha256 archive) (int (length archive))"
  using assms unfolding check_measured_archive_def measure_file_def bindE_eq_Inr package_Inr
  by (auto simp: if_reject_Inr split: option.splits if_splits dest!: external_gates_Inr)

subsection \<open>The descriptor\<close>

lemma check_scope_Inr:
  "check_scope descriptor pairs = Inr u \<longleftrightarrow> (\<forall>(key, expected)\<in>set pairs. py_get descriptor key = PStr expected)"
  by (induction pairs) (auto simp: bindE_eq_Inr package_Inr if_reject_Inr)

definition authenticated_profile :: "dict \<Rightarrow> dict \<Rightarrow> gate_verifications \<Rightarrow> bool" where
  "authenticated_profile descriptor manifest verifications \<longleftrightarrow>
     (\<exists>authentication profile submission allowed.
        py_get descriptor ''authentication'' = PDict authentication \<and>
        py_get authentication ''profile'' = PStr profile \<and>
        py_get manifest ''submission'' = PDict submission \<and>
        py_get submission ''allowed_profiles'' = PList allowed \<and> PStr profile \<in> set allowed \<and>
        expected_kind profile = Inr (av_kind (gv_package_authentication verifications))) \<and>
     av_status (gv_package_authentication verifications) = VERIFIED"

lemma check_authentication_Inr:
  assumes "check_authentication descriptor manifest (gv_package_authentication verifications) = Inr u"
  shows "authenticated_profile descriptor manifest verifications"
proof -
  have "av_status (gv_package_authentication verifications) = VERIFIED"
    if "av_status (gv_package_authentication verifications) \<noteq> UNAVAILABLE"
      "av_status (gv_package_authentication verifications) \<noteq> FAILED"
    using that by (cases "av_status (gv_package_authentication verifications)") simp_all
  then show ?thesis
    using assms unfolding check_authentication_def bindE_eq_Inr package_Inr if_reject_Inr authenticated_profile_def
    by auto
qed

definition descriptor_scope :: "dict \<Rightarrow> dict \<Rightarrow> validation_context \<Rightarrow> bool" where
  "descriptor_scope descriptor manifest context \<longleftrightarrow>
     py_get descriptor ''job_id'' = PStr (vc_job_id context) \<and>
     py_get descriptor ''asset_id'' = PStr (vc_asset_id context) \<and>
     py_get descriptor ''manifest_id'' = py_get manifest ''id'' \<and>
     py_get descriptor ''nonce'' = py_get manifest ''nonce'' \<and>
     py_get descriptor ''manifest_hash'' = py_get manifest ''manifest_content_sha256''"

definition times_nested :: "dict \<Rightarrow> dict \<Rightarrow> int \<Rightarrow> bool" where
  "times_nested descriptor manifest received_at \<longleftrightarrow>
     (\<exists>issued expires manifest_issued manifest_expires.
        package_timestamp descriptor ''issued_at'' descriptor_semantic = Inr issued \<and>
        package_timestamp descriptor ''expires_at'' descriptor_semantic = Inr expires \<and>
        package_timestamp manifest ''issued_at'' manifest_semantic = Inr manifest_issued \<and>
        package_timestamp manifest ''expires_at'' manifest_semantic = Inr manifest_expires \<and>
        manifest_issued \<le> issued \<and> issued \<le> received_at \<and> received_at \<le> expires \<and>
        issued < expires \<and> expires \<le> manifest_expires)"

lemma descriptor_semantics_Inr:
  assumes "validate_descriptor_semantics v descriptor manifest context verifications = Inr u"
  shows "descriptor_scope descriptor manifest context \<and> times_nested descriptor manifest (vc_received_at context) \<and>
    authenticated_profile descriptor manifest verifications \<and>
    validate_collector_and_evidence v descriptor manifest = Inr ()"
  using assms
  unfolding validate_descriptor_semantics_def bindE_eq_Inr package_Inr if_reject_Inr check_scope_Inr
    descriptor_scope_def times_nested_def
  by (elim exE conjE) (auto dest: check_authentication_Inr simp: not_less not_le)

subsection \<open>The evidence records\<close>

definition names_probe :: "dict \<Rightarrow> string \<Rightarrow> string \<Rightarrow> pyval list \<Rightarrow> bool" where
  "names_probe manifest probe_id version controls \<longleftrightarrow>
     (\<exists>probes probe.
        py_get manifest ''probes'' = PList probes \<and> PDict probe \<in> set probes \<and>
        py_get probe ''probe_id'' = PStr probe_id \<and> py_get probe ''probe_version'' = PStr version \<and>
        py_get probe ''control_ids'' = PList controls)"

lemma authorized_probes_Inr:
  assumes "authorized_probes probes authorized = Inr result" "(probe_id, version, controls) \<in> set result"
  shows "(probe_id, version, controls) \<in> set authorized \<or>
    (\<exists>probe. PDict probe \<in> set probes \<and> py_get probe ''probe_id'' = PStr probe_id \<and>
       py_get probe ''probe_version'' = PStr version \<and> py_get probe ''control_ids'' = PList controls)"
  using assms
proof (induction probes arbitrary: authorized)
  case (Cons entry probes)
  obtain probe pid ver cs where p: "entry = PDict probe" "py_get probe ''probe_id'' = PStr pid"
    "py_get probe ''probe_version'' = PStr ver" "py_get probe ''control_ids'' = PList cs"
    "authorized_probes probes (authorized @ [(pid, ver, cs)]) = Inr result"
    using Cons.prems(1)
    by (auto simp: bindE_eq_Inr package_Inr if_reject_Inr frozen_values_def split: if_splits)
  show ?case using Cons.IH [OF p(5) Cons.prems(2)] p(1-4) by auto
qed simp

lemma inventory_hashes_Inr:
  assumes "inventory_hashes inventory = Inr hashes" "map_of hashes path = Some hash"
  shows "\<exists>e. PDict e \<in> set inventory \<and> py_get e ''path'' = PStr path \<and> py_get e ''sha256'' = PStr hash"
  using assms
proof (induction inventory arbitrary: hashes)
  case (Cons entry inventory)
  obtain e p h rest where e: "entry = PDict e" "py_get e ''path'' = PStr p" "py_get e ''sha256'' = PStr h"
    "inventory_hashes inventory = Inr rest" "hashes = (if p \<in> fst ` set rest then rest else (p, h) # rest)"
    using Cons.prems(1) by (auto simp: bindE_eq_Inr package_Inr)
  show ?case
  proof (cases "map_of rest path = Some hash")
    case True
    then show ?thesis using Cons.IH [OF e(4)] by auto
  next
    case False
    then have "p = path \<and> h = hash" using Cons.prems(2) e(5) by (auto split: if_splits)
    then show ?thesis using e(1-3) by auto
  qed
qed simp

definition member_path_of :: "dict \<Rightarrow> string \<Rightarrow> string" where
  "member_path_of evidence evidence_id =
     (if py_get evidence ''collection_status'' = PStr ''COLLECTED'' then ''evidence'' else ''errors'') @
       ''/'' @ evidence_id @ ''.json''"

definition evidence_authorised ::
  "full_validator \<Rightarrow> dict \<Rightarrow> (string \<Rightarrow> string \<Rightarrow> bool) \<Rightarrow> pyval \<Rightarrow> bool" where
  "evidence_authorised v manifest holds entry \<longleftrightarrow>
     (\<exists>evidence evidence_id probe_id version controls probe_controls hash.
        entry = PDict evidence \<and> py_get evidence ''evidence_id'' = PStr evidence_id \<and>
        py_get evidence ''probe_id'' = PStr probe_id \<and> py_get evidence ''probe_version'' = PStr version \<and>
        evidence_controls v evidence = Inr controls \<and>
        names_probe manifest probe_id version probe_controls \<and>
        set (map PStr controls) = set probe_controls \<and>
        py_get evidence ''evidence_sha256'' = PStr hash \<and>
        holds (member_path_of evidence evidence_id) hash)"

lemma check_evidence_Inr:
  assumes "check_evidence v authorized hashes evidence_id evidence = Inr u"
    and names: "\<And>pid version controls.
      (pid, version, controls) \<in> set authorized \<Longrightarrow> names_probe manifest pid version controls"
    and "py_get evidence ''evidence_id'' = PStr evidence_id"
  shows "evidence_authorised v manifest (\<lambda>path hash. map_of hashes path = Some hash) (PDict evidence)"
proof -
  obtain pid version controls probe_controls status path hash where e:
    "py_get evidence ''probe_id'' = PStr pid" "evidence_controls v evidence = Inr controls"
    "map_of authorized pid = Some (version, probe_controls)" "py_get evidence ''probe_version'' = PStr version"
    "same_controls controls probe_controls" "py_get evidence ''collection_status'' = PStr status"
    "(if status = ''COLLECTED'' then ''evidence'' else ''errors'') @ ''/'' @ evidence_id @ ''.json'' = path"
    "py_get evidence ''evidence_sha256'' = PStr hash" "map_of hashes path = Some hash"
    using assms(1) unfolding check_evidence_def Let_def bindE_eq_Inr package_Inr
    by (auto simp: bindE_eq_Inr package_Inr if_reject_Inr split: option.splits)
  have "names_probe manifest pid version probe_controls" using names [OF map_of_SomeD [OF e(3)]] .
  moreover have "path = member_path_of evidence evidence_id" using e(6,7) by (simp add: member_path_of_def)
  ultimately show ?thesis
    using e assms(3) unfolding evidence_authorised_def same_controls_def by blast
qed

lemma check_evidence_records_Inr:
  assumes "check_evidence_records v authorized hashes ids records = Inr u" "entry \<in> set records"
    and names: "\<And>pid version controls.
      (pid, version, controls) \<in> set authorized \<Longrightarrow> names_probe manifest pid version controls"
  shows "evidence_authorised v manifest (\<lambda>path hash. map_of hashes path = Some hash) entry"
  using assms(1,2)
proof (induction records arbitrary: ids)
  case (Cons first records)
  obtain evidence evidence_id where e: "first = PDict evidence" "py_get evidence ''evidence_id'' = PStr evidence_id"
    "check_evidence v authorized hashes evidence_id evidence = Inr ()"
    "check_evidence_records v authorized hashes (evidence_id # ids) records = Inr u"
    using Cons.prems(1) by (auto simp: bindE_eq_Inr package_Inr if_reject_Inr)
  show ?case
    using Cons.IH [OF e(4)] Cons.prems(2) check_evidence_Inr [OF e(3) names e(2)] e(1) by auto
qed simp

lemma evidence_authorised_mono:
  "evidence_authorised v manifest holds entry \<Longrightarrow> (\<And>path hash. holds path hash \<Longrightarrow> holds' path hash) \<Longrightarrow>
     evidence_authorised v manifest holds' entry"
  unfolding evidence_authorised_def by blast

definition in_inventory :: "pyval list \<Rightarrow> string \<Rightarrow> string \<Rightarrow> bool" where
  "in_inventory inventory path hash \<longleftrightarrow>
     (\<exists>e. PDict e \<in> set inventory \<and> py_get e ''path'' = PStr path \<and> py_get e ''sha256'' = PStr hash)"

lemma collector_and_evidence_Inr:
  assumes "validate_collector_and_evidence v descriptor manifest = Inr u"
  obtains inventory records where
    "py_get descriptor ''file_inventory'' = PList inventory"
    "py_get descriptor ''evidence_records'' = PList records"
    "\<forall>entry\<in>set records. evidence_authorised v manifest (in_inventory inventory) entry"
proof -
  from assms [unfolded validate_collector_and_evidence_def bindE_eq_Inr package_Inr if_reject_Inr]
  obtain probes authorized inventory hashes records w where c: "py_get manifest ''probes'' = PList probes"
    "authorized_probes probes [] = Inr authorized" "py_get descriptor ''file_inventory'' = PList inventory"
    "inventory_hashes inventory = Inr hashes" "py_get descriptor ''evidence_records'' = PList records"
    "check_evidence_records v authorized hashes [] records = Inr w"
    by (elim exE conjE) rule
  have names: "names_probe manifest pid version controls" if "(pid, version, controls) \<in> set authorized" for pid version controls
    using authorized_probes_Inr [OF c(2) that] c(1) unfolding names_probe_def by auto
  have "evidence_authorised v manifest (in_inventory inventory) entry" if "entry \<in> set records" for entry
  proof (rule evidence_authorised_mono)
    show "evidence_authorised v manifest (\<lambda>path hash. map_of hashes path = Some hash) entry"
      using c(6) that names by (rule check_evidence_records_Inr)
  qed (simp add: in_inventory_def inventory_hashes_Inr [OF c(4)])
  then show ?thesis using c(3,5) that by blast
qed

subsection \<open>The whole validator\<close>

text \<open>
  A member of the inventory is a measured file, so that the evidence of an accepted descriptor is in
  the archive.
\<close>

definition in_archive :: "package_inspection \<Rightarrow> string \<Rightarrow> string \<Rightarrow> bool" where
  "in_archive inspection path hash \<longleftrightarrow>
     (\<exists>f\<in>set (pi_files inspection). pf_path f = path \<and> pf_sha256 f = hash)"

lemma inventory_in_archive:
  assumes "mset (map entry_triple inventory) = mset (map file_triple (pi_files inspection))"
    "in_inventory inventory path hash"
  shows "in_archive inspection path hash"
proof -
  obtain e where e: "PDict e \<in> set inventory" "py_get e ''path'' = PStr path" "py_get e ''sha256'' = PStr hash"
    using assms(2) unfolding in_inventory_def by blast
  have "entry_triple (PDict e) \<in> file_triple ` set (pi_files inspection)"
    using e(1) mset_eq_setD [OF assms(1)] by (metis imageI list.set_map)
  then show ?thesis using e(2,3) by (auto simp: entry_triple_def file_triple_def in_archive_def)
qed

lemma full_validate_Inr:
  assumes "full_validate depth lib dumps sha256 v archive_path descriptor_bytes manifest context verifications = Inr vp"
  obtains descriptor manifest_hash limits inspection where
    "load_strict_json depth descriptor_bytes True = Inr (PDict descriptor)"
    "check_trusted_manifest dumps sha256 manifest verifications = Inr manifest_hash"
    "validate_manifest_context manifest context verifications = Inr ()"
    "manifest_limits manifest = Inr limits"
    "check_measured_archive sha256 archive_path descriptor limits context verifications = Inr ()"
    "validate_package_contract depth lib dumps sha256 archive_path descriptor limits = Inr inspection"
    "validate_descriptor_semantics v descriptor manifest context verifications = Inr ()"
    "the_validated_package dumps sha256 descriptor context manifest_hash inspection = Inr vp"
  using assms unfolding full_validate_def bindE_eq_Inr package_Inr by (elim exE conjE) simp

lemma the_validated_package_Inr:
  assumes "the_validated_package dumps sha256 descriptor context manifest_hash inspection = Inr vp"
  shows "vp_job_id vp = vc_job_id context \<and> vp_asset_id vp = vc_asset_id context \<and>
    vp_manifest_content_sha256 vp = manifest_hash \<and> vp_inspection vp = inspection \<and>
    py_get descriptor ''id'' = PStr (vp_package_id vp) \<and>
    py_get descriptor ''manifest_id'' = PStr (vp_manifest_id vp) \<and>
    (\<exists>authentication. py_get descriptor ''authentication'' = PDict authentication \<and>
       py_get authentication ''profile'' = PStr (vp_authentication_profile vp)) \<and>
    canonical_hash dumps sha256 (PDict descriptor) = Inr (vp_descriptor_sha256 vp)"
  using assms unfolding the_validated_package_def bindE_eq_Inr package_Inr by auto

lemma full_validate_bound:
  assumes "full_validate depth lib dumps sha256 v archive_path descriptor_bytes manifest context verifications = Inr vp"
  shows "\<exists>archive descriptor.
    archive_path = Some archive \<and> load_strict_json depth descriptor_bytes True = Inr (PDict descriptor) \<and>
    trusted_manifest_hash dumps sha256 manifest (vp_manifest_content_sha256 vp) \<and>
    dv_status (gv_manifest_signature verifications) = VERIFIED \<and>
    dv_sha256 (gv_manifest_signature verifications) = vp_manifest_content_sha256 vp \<and>
    manifest_scope manifest context verifications \<and> descriptor_scope descriptor manifest context \<and>
    times_nested descriptor manifest (vc_received_at context) \<and>
    authenticated_profile descriptor manifest verifications \<and>
    archive_proofs context verifications (sha256 archive) (int (length archive)) \<and>
    inventory_agrees (vp_inspection vp) descriptor \<and>
    pi_archive_sha256 (vp_inspection vp) = sha256 archive \<and>
    vp_job_id vp = vc_job_id context \<and> vp_asset_id vp = vc_asset_id context \<and>
    py_get descriptor ''id'' = PStr (vp_package_id vp) \<and>
    py_get descriptor ''manifest_id'' = PStr (vp_manifest_id vp)"
proof -
  obtain descriptor hash limits inspection where f:
    "load_strict_json depth descriptor_bytes True = Inr (PDict descriptor)"
    "check_trusted_manifest dumps sha256 manifest verifications = Inr hash"
    "validate_manifest_context manifest context verifications = Inr ()"
    "check_measured_archive sha256 archive_path descriptor limits context verifications = Inr ()"
    "validate_package_contract depth lib dumps sha256 archive_path descriptor limits = Inr inspection"
    "validate_descriptor_semantics v descriptor manifest context verifications = Inr ()"
    "the_validated_package dumps sha256 descriptor context hash inspection = Inr vp"
    using assms by (rule full_validate_Inr)
  obtain archive where a: "archive_path = Some archive"
    "archive_proofs context verifications (sha256 archive) (int (length archive))"
    using f(4) by (rule measured_archive_Inr)
  obtain archive' where "archive_path = Some archive'" "pi_archive_sha256 inspection = sha256 archive'"
    using contract_Inr [OF f(5), THEN conjunct1] by (rule inspect_Inr)
  then have "pi_archive_sha256 inspection = sha256 archive" using a(1) by simp
  then show ?thesis
    using f(1) a check_trusted_manifest_Inr [OF f(2)] validate_manifest_context_Inr [OF f(3)]
      contract_Inr [OF f(5)] descriptor_semantics_Inr [OF f(6)] the_validated_package_Inr [OF f(7)]
    by (intro exI [of _ archive] exI [of _ descriptor]) simp
qed

end
