(* ===== verification/Package_Errors.thy ===== *)
theory Package_Errors
  imports Package_Acceptance Json_Documents
begin

section \<open>How package inspection fails\<close>

text \<open>
  A rejected archive is a \<open>PackageValidationError\<close> with a code.  Every branch of the preflight is
  followed for the other exceptions it can let through: none but those of the ZIP library itself.
\<close>

subsection \<open>The exceptions that pass\<close>

definition escapes_only :: "py_error set \<Rightarrow> 'a package_result \<Rightarrow> bool" where
  "escapes_only E m \<longleftrightarrow> (\<forall>p. m = Inl (PyError p) \<longrightarrow> p \<in> E)"

lemma escapes_only_simps [simp]:
  "escapes_only E (Inr x)"
  "escapes_only E (Inl (Raised r))"
  "escapes_only E (Inl (PyError p)) \<longleftrightarrow> p \<in> E"
  "escapes_only E (reject code message)"
  "escapes_only E (reject_member code message path)"
  by (simp_all add: escapes_only_def reject_def reject_member_def raise_error_def)

lemma escapes_only_bindE [simp]:
  "escapes_only E (bindE m f) \<longleftrightarrow> escapes_only E m \<and> (\<forall>x. m = Inr x \<longrightarrow> escapes_only E (f x))"
  by (cases m) (auto simp: escapes_only_def)

lemma escapes_only_if [simp]:
  "escapes_only E (if b then m else n) \<longleftrightarrow> (b \<longrightarrow> escapes_only E m) \<and> (\<not> b \<longrightarrow> escapes_only E n)"
  by simp

subsection \<open>Documents\<close>

lemma scan_string_escapes [simp]: "escapes_only E (scan_string s)"
  by (induction s rule: scan_string.induct)
    (auto simp: scan_string.simps Let_def split: option.splits prod.splits list.splits if_splits)

lemma safe_integer_escapes [simp]: "escapes_only {ValueError} (safe_integer negative digits)"
  by (simp add: safe_integer_def Let_def)

lemma finite_float_escapes [simp]: "escapes_only E (finite_float negative digits fraction exponent)"
  unfolding finite_float_def Let_def by (simp only: split: option.split prod.split) simp

lemma scan_number_escapes [simp]: "escapes_only {ValueError} (scan_number s)"
  by (simp add: scan_number_def Let_def reject_constant_def split: option.split prod.split)

lemma scan_parts_escape [simp]:
  "escapes_only E (expect x s)" "escapes_only E (separator x s)" "escapes_only E (scan_word w v s)"
  "escapes_only E (object_without_duplicates d)" "escapes_only E (reject_constant t)"
  by (auto simp: expect_def separator_def scan_word_def object_without_duplicates_def reject_constant_def
      split: list.splits)

lemma scan_escapes:
  "(\<forall>d s. escapes_only {ValueError} (scan_once n d s)) \<and>
   (\<forall>d s. escapes_only {ValueError} (scan_members n d s)) \<and>
   (\<forall>d s. escapes_only {ValueError} (scan_elements n d s))"
  by (induction n) (simp_all add: scan_once.simps scan_members.simps scan_elements.simps split_def)

lemma load_strict_json_escapes: "escapes_only {ValueError} (load_strict_json depth data require_object)"
  by (simp add: load_strict_json_def json_loads_def scan_escapes split_def)

subsection \<open>Archives\<close>

definition well_behaved :: "zip_library \<Rightarrow> bool" where
  "well_behaved lib \<longleftrightarrow>
     (\<forall>archive e. zip_open lib archive = Inl e \<longrightarrow> e \<in> {BadZipFile, LargeZipFile, OSErrorRaised, ValueErrorRaised}) \<and>
     (\<forall>archive info chunks. zip_read lib archive info \<noteq> (chunks, Some ZlibErrorRaised))"

lemma read_chunks_escapes [simp]: "escapes_only E (read_chunks info limits before content chunks)"
  by (induction chunks arbitrary: content) (simp_all add: Let_def)

lemma read_failure_escapes: "e \<noteq> ZlibErrorRaised \<Longrightarrow> escapes_only {ValueError} (read_failure info e)"
  by (cases e) (simp_all add: read_failure_def)

lemma read_member_escapes:
  "well_behaved lib \<Longrightarrow> escapes_only {ValueError} (read_member lib archive info limits before)"
  by (auto simp: read_member_def well_behaved_def split: prod.splits option.splits intro!: read_failure_escapes)

lemma with_member_escapes [simp]: "escapes_only E (with_member path m) \<longleftrightarrow> escapes_only E m"
  by (auto simp: with_member_def escapes_only_def reject_member_def raise_error_def
      split: sum.splits raised.splits package_failure.splits option.splits)

lemma read_records_escapes:
  "well_behaved lib \<Longrightarrow> escapes_only {ValueError} (read_records depth lib sha256 archive limits before infos)"
  by (induction infos arbitrary: before) (simp_all add: read_member_escapes load_strict_json_escapes)

lemma scan_directory_escapes [simp]: "escapes_only E (scan_directory limits infos scan)"
  by (induction infos arbitrary: scan)
    (simp_all add: scan_entry_def validate_member_type_def validate_member_path_def Let_def)

lemma archive_records_escapes:
  assumes "well_behaved lib"
  shows "escapes_only {ValueError} (archive_records depth lib sha256 archive limits)"
proof -
  have "escapes_only {ValueError} (open_archive lib archive)"
    using assms by (auto simp: open_archive_def well_behaved_def split: sum.splits)
  then show ?thesis by (simp add: archive_records_def read_records_escapes [OF assms])
qed

lemma archive_invalid_escapes: "escapes_only {ValueError} m \<Longrightarrow> escapes_only {} (archive_invalid m)"
  by (auto simp: archive_invalid_def escapes_only_def reject_def raise_error_def
      split: sum.splits raised.splits py_error.splits)

end
