(* ===== verification/Py_Crypto.thy ===== *)
theory Py_Crypto
  imports Py_Uuid
begin

section \<open>Comparing digests and decoding Base64\<close>

text \<open>
  \<open>hmac.compare_digest\<close> of two strings and \<open>base64.b64decode\<close> with \<open>validate=True\<close> and the URL-safe
  alphabet of the standard library.
\<close>

text \<open>Strings must be ASCII; otherwise the comparison is a \<open>TypeError\<close>.\<close>

definition compare_digest :: "string \<Rightarrow> string \<Rightarrow> py_error + bool" where
  "compare_digest a b = (if ascii_text a \<and> ascii_text b then Inr (a = b) else Inl TypeError)"

lemma compare_digest_True [simp]: "compare_digest a b = Inr True \<longleftrightarrow> a = b \<and> ascii_text a"
  by (auto simp: compare_digest_def)

text \<open>
  The strict decoder on a text whose length is a multiple of four: groups of four symbols, of which
  only the last may end in one or two padding signs.  The signs \<open>-\<close> and \<open>_\<close> stand for \<open>+\<close> and
  \<open>/\<close>, which remain allowed.
\<close>

definition b64_value :: "char \<Rightarrow> nat option" where
  "b64_value c =
     (let n = of_char c :: nat
      in if 65 \<le> n \<and> n \<le> 90 then Some (n - 65)
         else if 97 \<le> n \<and> n \<le> 122 then Some (n - 71)
         else if 48 \<le> n \<and> n \<le> 57 then Some (n + 4)
         else if c = CHR ''+'' \<or> c = CHR ''-'' then Some 62
         else if c = CHR ''/'' \<or> c = CHR ''_'' then Some 63
         else None)"

definition b64_group :: "nat \<Rightarrow> nat \<Rightarrow> nat \<Rightarrow> nat \<Rightarrow> string" where
  "b64_group a b c d =
     [char_of (4 * a + b div 16), char_of (16 * (b mod 16) + c div 4), char_of (64 * (c mod 4) + d)]"

fun b64_groups :: "string \<Rightarrow> string option" where
  "b64_groups [] = Some []"
| "b64_groups (w # x # y # z # rest) =
     (case (b64_value w, b64_value x) of
        (Some a, Some b) \<Rightarrow>
          if rest = [] \<and> y = CHR ''='' \<and> z = CHR ''='' then Some (take 1 (b64_group a b 0 0))
          else
            (case b64_value y of
               None \<Rightarrow> None
             | Some c \<Rightarrow>
                 if rest = [] \<and> z = CHR ''='' then Some (take 2 (b64_group a b c 0))
                 else
                   (case b64_value z of
                      None \<Rightarrow> None
                    | Some d \<Rightarrow> map_option (\<lambda>bytes. b64_group a b c d @ bytes) (b64_groups rest)))
      | _ \<Rightarrow> None)"
| "b64_groups _ = None"

definition b64_decode :: "string \<Rightarrow> string option" where
  "b64_decode s =
     (if \<not> ascii_text s then None
      else b64_groups (s @ replicate ((4 - length s mod 4) mod 4) (CHR ''='')))"

lemma b64_examples:
  "b64_decode ''SGk_-w'' = Some [CHR ''H'', CHR ''i'', CHR 0x3F, CHR 0xFB]"
  "b64_decode ''QQ'' = Some ''A''" "b64_decode ''Q'' = None" "b64_decode ''QQ=A'' = None"
  "b64_decode ''QQ==QQ=='' = None" "b64_decode ''Q Q'' = None"
  by code_simp+

end
