(* ===== verification/Online_Submission.thy ===== *)
theory Online_Submission
  imports Package_Acceptance Credential_Lifecycle Py_Crypto
begin

section \<open>Online submission (\<^verbatim>\<open>security/auth/online_submission.py\<close>)\<close>

text \<open>
  One request of a collector: its credential is authorised, the package validated in the scope of the
  credential, and the credential spent.  The state is the credential store; authorisation and commit
  each hold its lock, and the commit checks the record again, so that what runs between them does not
  matter.  \<open>stat\<close> is what \<open>archive_path.stat().st_size\<close> gives, \<open>None\<close> when it raises.
\<close>

subsection \<open>Errors\<close>

datatype submission_failure =
    CredentialRejected credential_failure
  | PackageRejected package_failure
  | InterpreterError py_error

type_synonym 'a online_op = "(credential_store, submission_failure, 'a) op"

definition credential_call :: "'a credential_op \<Rightarrow> 'a online_op" where
  "credential_call m store =
     (case m store of
        (store', Inl e) \<Rightarrow> (store', Inl (CredentialRejected e))
      | (store', Inr x) \<Rightarrow> (store', Inr x))"

definition package_call :: "'a package_result \<Rightarrow> 'a online_op" where
  "package_call m =
     (case m of
        Inl (Raised e) \<Rightarrow> op_raise (PackageRejected e)
      | Inl (PyError p) \<Rightarrow> op_raise (InterpreterError p)
      | Inr x \<Rightarrow> op_return x)"

definition scope_mismatch :: "string \<Rightarrow> 'a online_op" where
  "scope_mismatch message = op_raise (CredentialRejected (CollectorCredentialError SCOPE_MISMATCH message))"

subsection \<open>Checks\<close>

record external_verifications =
  ev_manifest_signature :: digest_verification
  ev_malware_scan :: malware_verification
  ev_content_policy :: digest_verification
  ev_staged_object :: staged_verification

record accepted_submission =
  as_validated_package :: validated_package
  as_receipt :: submission_receipt
  as_official_finding_created :: bool

definition check_schema_version :: "pyval \<Rightarrow> credential_scope \<Rightarrow> unit package_result" where
  "check_schema_version descriptor scope =
     (case descriptor of
        PDict d \<Rightarrow>
          if py_get d ''schema_version'' \<noteq> PStr (cs_schema_version scope)
          then reject descriptor_semantic ''Package schema version differs from the credential scope.''
          else Inr ()
      | _ \<Rightarrow> reject descriptor_semantic ''Package schema version differs from the credential scope.'')"

definition check_manifest_scope :: "dict \<Rightarrow> credential_scope \<Rightarrow> unit online_op" where
  "check_manifest_scope manifest scope =
     (let mismatch = scope_mismatch ''Collector credential is not scoped to this Manifest.''
      in case (py_get manifest ''id'', py_get manifest ''manifest_content_sha256'', py_get manifest ''nonce'') of
           (PStr manifest_id, PStr manifest_sha256, PStr manifest_nonce) \<Rightarrow>
             if manifest_id \<noteq> cs_manifest_id scope then mismatch
             else
               (case compare_digest manifest_sha256 (cs_manifest_sha256 scope) of
                  Inl p \<Rightarrow> op_raise (InterpreterError p)
                | Inr same \<Rightarrow>
                    if \<not> same \<or> manifest_nonce \<noteq> cs_nonce scope then mismatch else op_return ())
         | _ \<Rightarrow> mismatch)"

definition check_size :: "int option \<Rightarrow> credential_scope \<Rightarrow> unit online_op" where
  "check_size stat scope =
     (case stat of
        None \<Rightarrow> op_raise (InterpreterError LibraryError)
      | Some bytes \<Rightarrow>
          if cs_max_archive_bytes scope < bytes
          then package_call (reject ''ARCHIVE_TOO_LARGE'' ''Package archive exceeds the credential scope.'')
          else op_return ())"

definition scope_context :: "credential_scope \<Rightarrow> int \<Rightarrow> validation_context" where
  "scope_context scope received_at =
     \<lparr>vc_organization_id = cs_organization_id scope, vc_asset_id = cs_asset_id scope,
      vc_job_id = cs_job_id scope, vc_endpoint_id = cs_endpoint_id scope, vc_received_at = received_at\<rparr>"

definition gates_for ::
  "external_verifications \<Rightarrow> string \<Rightarrow> authentication_kind \<Rightarrow> gate_verifications" where
  "gates_for external nonce kind =
     \<lparr>gv_manifest_signature = ev_manifest_signature external,
      gv_nonce = \<lparr>nv_status = FRESH_RESERVED, nv_nonce = nonce\<rparr>,
      gv_package_authentication = \<lparr>av_status = VERIFIED, av_kind = kind\<rparr>,
      gv_malware_scan = ev_malware_scan external, gv_content_policy = ev_content_policy external,
      gv_staged_object = ev_staged_object external\<rparr>"

subsection \<open>The request\<close>

text \<open>The validator as the service holds it: the package gates with their parameters.\<close>

type_synonym package_gate =
  "archive_file \<Rightarrow> string \<Rightarrow> dict \<Rightarrow> validation_context \<Rightarrow> gate_verifications \<Rightarrow> validated_package package_result"

record submission_request =
  rq_archive_path :: archive_file
  rq_stat :: "int option"
  rq_descriptor_bytes :: string
  rq_trusted_manifest :: dict
  rq_content_type :: string
  rq_received :: moment
  rq_verifications :: external_verifications

definition check_request ::
  "nat \<Rightarrow> package_gate \<Rightarrow> submission_request \<Rightarrow> credential_scope \<Rightarrow> validated_package online_op" where
  "check_request depth validate request scope =
     (if rq_content_type request \<noteq> cs_content_type scope
      then scope_mismatch ''Collector credential is not scoped to this content type.''
      else
        op_bind (package_call (load_strict_json depth (rq_descriptor_bytes request) True)) (\<lambda>descriptor.
        op_bind (package_call (check_schema_version descriptor scope)) (\<lambda>_.
        op_bind (check_manifest_scope (rq_trusted_manifest request) scope) (\<lambda>_.
        op_bind (check_size (rq_stat request) scope) (\<lambda>_.
        case rq_received request of
          Naive _ \<Rightarrow> op_raise (InterpreterError ValueError)
        | Aware received_at \<Rightarrow>
            op_bind (package_call (validate (rq_archive_path request) (rq_descriptor_bytes request)
                (rq_trusted_manifest request) (scope_context scope received_at)
                (gates_for (rq_verifications request) (cs_nonce scope) ONLINE_TRANSPORT))) (\<lambda>validated.
            if vp_authentication_profile validated \<noteq> ''ONLINE-AUTHENTICATED''
            then package_call (reject ''PACKAGE_AUTHENTICATION_INVALID''
                   ''Online endpoint accepts only ONLINE-AUTHENTICATED packages.'')
            else op_return validated))))))"

definition submit_online ::
  "nat \<Rightarrow> package_gate \<Rightarrow> (string \<Rightarrow> string) \<Rightarrow> string \<Rightarrow> submission_request \<Rightarrow> string \<Rightarrow>
     accepted_submission online_op" where
  "submit_online depth validate hash token request receipt_id =
     op_bind (credential_call (authorize_credential hash token (rq_received request))) (\<lambda>authorization.
     op_bind (check_request depth validate request (ac_scope authorization)) (\<lambda>validated.
     op_bind (credential_call (commit_credential hash token (rq_received request) (vp_package_id validated)
         (pi_archive_sha256 (vp_inspection validated)) receipt_id)) (\<lambda>receipt.
     op_return \<lparr>as_validated_package = validated, as_receipt = receipt, as_official_finding_created = False\<rparr>)))"

subsection \<open>Outcomes\<close>

lemma credential_call_simps [simp]:
  "fst (credential_call m store) = fst (m store)"
  "snd (credential_call m store) = Inr x \<longleftrightarrow> snd (m store) = Inr x"
  by (auto simp: credential_call_def split: prod.splits sum.splits)

lemma package_call_simps [simp]:
  "fst (package_call m store) = store"
  "snd (package_call m store) = Inr x \<longleftrightarrow> m = Inr x"
  by (auto simp: package_call_def op_defs split: sum.splits raised.splits)

lemma scope_mismatch_simps [simp]:
  "fst (scope_mismatch message store) = store" "snd (scope_mismatch message store) \<noteq> Inr x"
  by (simp_all add: scope_mismatch_def op_defs)

lemma check_manifest_scope_fst [simp]: "fst (check_manifest_scope manifest scope store) = store"
  by (simp add: check_manifest_scope_def Let_def op_defs split: pyval.split sum.split)

lemma check_size_fst [simp]: "fst (check_size stat scope store) = store"
  by (simp add: check_size_def op_defs split: option.split)

lemma check_request_fst [simp]: "fst (check_request depth validate request scope store) = store"
  by (simp add: check_request_def op_bind_fst op_raise_def op_return_def split: sum.split moment.split)

lemma check_manifest_scope_Inr:
  assumes "snd (check_manifest_scope manifest scope store) = Inr u"
  shows "py_get manifest ''id'' = PStr (cs_manifest_id scope) \<and>
    py_get manifest ''manifest_content_sha256'' = PStr (cs_manifest_sha256 scope) \<and>
    py_get manifest ''nonce'' = PStr (cs_nonce scope)"
  using assms
  by (auto simp: check_manifest_scope_def Let_def compare_digest_def op_defs split: pyval.splits sum.splits if_splits)

lemma check_request_Inr:
  assumes "snd (check_request depth validate request scope store) = Inr vp"
  obtains d t bytes where "rq_content_type request = cs_content_type scope"
    "load_strict_json depth (rq_descriptor_bytes request) True = Inr (PDict d)"
    "py_get d ''schema_version'' = PStr (cs_schema_version scope)"
    "py_get (rq_trusted_manifest request) ''id'' = PStr (cs_manifest_id scope)"
    "py_get (rq_trusted_manifest request) ''manifest_content_sha256'' = PStr (cs_manifest_sha256 scope)"
    "py_get (rq_trusted_manifest request) ''nonce'' = PStr (cs_nonce scope)"
    "rq_stat request = Some bytes" "bytes \<le> cs_max_archive_bytes scope" "rq_received request = Aware t"
    "validate (rq_archive_path request) (rq_descriptor_bytes request) (rq_trusted_manifest request)
       (scope_context scope t) (gates_for (rq_verifications request) (cs_nonce scope) ONLINE_TRANSPORT) = Inr vp"
    "vp_authentication_profile vp = ''ONLINE-AUTHENTICATED''"
  using assms
  by (auto simp: check_request_def op_bind_snd check_schema_version_def check_size_def op_raise_def op_return_def
      split: if_splits sum.splits pyval.splits option.splits moment.splits dest!: check_manifest_scope_Inr)

lemma authorize_keeps:
  assumes "snd (authorize_credential hash token received store) = Inr a"
  shows "fst (authorize_credential hash token received store) = store"
proof -
  obtain t k r where "received = Aware t" "snd (split_token token store) = Inr k" "st_records store k = Some r"
    "cr_token_hash r = hash token"
    using assms unfolding authorize_Inr by blast
  then show ?thesis
    by (simp add: authorize_credential_def op_bind_fst store_get_def op_return_def split: sum.split)
qed

lemma submit_online_Inr:
  assumes "snd (submit_online depth validate hash token request receipt_id store) = Inr accepted"
  obtains k r t where "snd (split_token token store) = Inr k" "st_records store k = Some r"
    "cr_token_hash r = hash token" "life_of r = Live" "t \<le> cr_expires_at r" "rq_received request = Aware t"
    "nonce_key (cr_scope r) \<notin> st_used_nonces store"
    "snd (check_request depth validate request (cr_scope r) store) = Inr (as_validated_package accepted)"
    "as_receipt accepted = the_receipt receipt_id r (vp_package_id (as_validated_package accepted))
       (pi_archive_sha256 (vp_inspection (as_validated_package accepted))) t"
    "fst (submit_online depth validate hash token request receipt_id store) = spend k r receipt_id t store"
proof -
  obtain a vp receipt where s:
    "snd (authorize_credential hash token (rq_received request) store) = Inr a"
    "snd (check_request depth validate request (ac_scope a)
       (fst (authorize_credential hash token (rq_received request) store))) = Inr vp"
    "snd (commit_credential hash token (rq_received request) (vp_package_id vp)
       (pi_archive_sha256 (vp_inspection vp)) receipt_id
       (fst (authorize_credential hash token (rq_received request) store))) = Inr receipt"
    "accepted = \<lparr>as_validated_package = vp, as_receipt = receipt, as_official_finding_created = False\<rparr>"
    "fst (submit_online depth validate hash token request receipt_id store) =
       fst (commit_credential hash token (rq_received request) (vp_package_id vp)
         (pi_archive_sha256 (vp_inspection vp)) receipt_id
         (fst (authorize_credential hash token (rq_received request) store)))"
    using assms unfolding submit_online_def op_bind_snd op_bind_fst
    by (auto simp: op_return_def split: sum.splits)
  have same: "fst (authorize_credential hash token (rq_received request) store) = store"
    using s(1) by (rule authorize_keeps)
  obtain t k r where c: "rq_received request = Aware t" "snd (split_token token store) = Inr k"
    "st_records store k = Some r" "cr_token_hash r = hash token" "life_of r = Live" "t \<le> cr_expires_at r"
    "nonce_key (cr_scope r) \<notin> st_used_nonces store"
    "receipt = the_receipt receipt_id r (vp_package_id vp) (pi_archive_sha256 (vp_inspection vp)) t"
    "fst (commit_credential hash token (rq_received request) (vp_package_id vp)
       (pi_archive_sha256 (vp_inspection vp)) receipt_id store) = spend k r receipt_id t store"
    using s(3) [unfolded same] by (rule commit_Inr)
  have "ac_scope a = cr_scope r" using s(1) c(2,3) by (auto simp: authorize_Inr)
  then show ?thesis using s(2,4,5) c that unfolding same by simp
qed

lemma commit_Inl_keeps:
  assumes "snd (commit_credential hash token received package sha receipt store) = Inl e"
  shows "fst (commit_credential hash token received package sha receipt store) = store"
  using assms
  by (auto simp: commit_credential_def store_commit_def op_bind_snd op_bind_fst store_get_def credential_error_def
      split: sum.splits option.splits if_splits)

lemma submit_online_Inl:
  assumes "snd (authorize_credential hash token (rq_received request) store) = Inr a"
    "snd (submit_online depth validate hash token request receipt_id store) = Inl e"
  shows "fst (submit_online depth validate hash token request receipt_id store) = store"
proof -
  have call: "snd (credential_call m s) = Inl e \<Longrightarrow> \<exists>e'. snd (m s) = Inl e'" for m :: "'b credential_op" and s e
    by (auto simp: credential_call_def split: prod.splits sum.splits)
  show ?thesis
    using assms commit_Inl_keeps authorize_keeps [OF assms(1)]
    unfolding submit_online_def op_bind_snd op_bind_fst
    by (auto simp: op_return_def split: sum.splits dest!: call)
qed

end
