(* ===== verification/Package_Sample.thy ===== *)
theory Package_Sample
  imports Package_Errors Online_Submission
begin

section \<open>A sample package\<close>

text \<open>
  A package with a manifest and one evidence record, in two variants, signed offline and submitted
  online, with the ZIP library, the digest and the validator it goes through.  The lemmas evaluate
  every stage of the validator on it.
\<close>

definition sample_hash :: "string \<Rightarrow> string" where
  "sample_hash s = replicate 62 (CHR ''0'') @ s"

definition sample_digest :: digest where
  "sample_digest s = sample_hash [hex_digit (length s div 16 mod 16), hex_digit (length s mod 16)]"

definition sample_dumps :: json_dumps where
  "sample_dumps v = Inr (json_text v)"

definition sample_member :: string where
  "sample_member = ''evidence/0123456789abcdef0123456789abcdef0123.json''"

definition sample_manifest_body :: dict where
  "sample_manifest_body =
     [(''id'', PStr ''m''), (''issued_at'', PStr ''2026-01-01T00:00:00Z''),
      (''expires_at'', PStr ''2026-01-02T00:00:00Z''), (''job_id'', PStr ''j''), (''asset_id'', PStr ''a''),
      (''nonce'', PStr ''n''),
      (''submission'', PDict [(''endpoint_id'', PStr ''e''),
         (''allowed_profiles'', PList [PStr ''OFFLINE-SIGNED'', PStr ''ONLINE-AUTHENTICATED'']),
         (''max_archive_bytes'', PInt 1000), (''max_uncompressed_bytes'', PInt 9000), (''max_files'', PInt 9)]),
      (''collector_constraint'', PDict [(''name'', PStr ''c''), (''release_channel'', PStr ''r''),
         (''min_version'', PStr ''1.0.0-rc.1''), (''max_version_exclusive'', PStr ''2.0.0'')]),
      (''probes'', PList [PDict [(''probe_id'', PStr ''p''), (''probe_version'', PStr ''1''),
         (''control_ids'', PList [PStr ''PC-07''])]])]"

definition sample_manifest :: dict where
  "sample_manifest =
     (let hash = sample_hash ''d9''
      in sample_manifest_body @
           [(''manifest_content_sha256'', PStr hash),
            (''authorization'', PDict [(''signature'', PDict [(''signed_sha256'', PStr hash)])])])"

definition sample_text :: string where
  "sample_text = json_text (PDict sample_manifest)"

definition sample_manifest_info :: zip_info where
  "sample_manifest_info =
     \<lparr>zi_filename = manifest_path, zi_external_attr = 0x81800000, zi_header_offset = 0, zi_flag_bits = 0,
      zi_compress_type = 8, zi_file_size = 681, zi_compress_size = 400\<rparr>"

definition sample_member_info :: zip_info where
  "sample_member_info =
     \<lparr>zi_filename = sample_member, zi_external_attr = 0, zi_header_offset = 500, zi_flag_bits = 0,
      zi_compress_type = 0, zi_file_size = 2, zi_compress_size = 2\<rparr>"

definition sample_library :: zip_library where
  "sample_library =
     \<lparr>zip_open = (\<lambda>archive. if archive = ''PK'' then Inr [sample_manifest_info, sample_member_info] else Inl BadZipFile),
      zip_read = (\<lambda>archive info.
        if zi_filename info = manifest_path then ([sample_text], None)
        else ([''{}''], None))\<rparr>"

definition sample_files :: "package_file list" where
  "sample_files =
     [\<lparr>pf_path = manifest_path, pf_size_bytes = 681, pf_sha256 = sample_hash ''a9''\<rparr>,
      \<lparr>pf_path = sample_member, pf_size_bytes = 2, pf_sha256 = sample_hash ''02''\<rparr>]"

definition sample_signature :: dict where
  "sample_signature =
     [(''certificate_sha256'', PStr (sample_hash ''aa'')), (''signed_sha256'', PStr (sample_hash ''c5'')),
      (''value'', PStr ''bGt7''), (''key_id'', PStr ''k'')]"

definition sample_payload :: dict where
  "sample_payload =
     [(''organization_id'', PStr ''o''), (''asset_id'', PStr ''a''), (''job_id'', PStr ''j''), (''manifest_id'', PStr ''m''),
      (''manifest_sha256'', PStr (sample_hash ''d9'')), (''nonce'', PStr ''n''), (''execution_attempt_id'', PStr ''x''),
      (''package_id'', PStr ''k''), (''archive_sha256'', PStr (sample_hash ''02'')),
      (''content_set_sha256'', PStr (sample_hash ''8d'')), (''issued_at'', PStr ''2026-01-01T01:00:00Z''),
      (''expires_at'', PStr ''2026-01-01T03:00:00Z'')]"

definition sample_descriptor_for :: "dict \<Rightarrow> dict" where
  "sample_descriptor_for authentication =
     [(''schema_version'', PStr ''1''), (''execution_attempt_id'', PStr ''x''),
      (''id'', PStr ''k''), (''manifest_id'', PStr ''m''), (''job_id'', PStr ''j''), (''asset_id'', PStr ''a''),
      (''nonce'', PStr ''n''), (''manifest_hash'', py_get sample_manifest ''manifest_content_sha256''),
      (''issued_at'', PStr ''2026-01-01T01:00:00Z''), (''expires_at'', PStr ''2026-01-01T03:00:00Z''),
      (''authentication'', PDict authentication),
      (''collector'', PDict [(''name'', PStr ''c''), (''release_channel'', PStr ''r''), (''version'', PStr ''1.4.0'')]),
      (''archive'', PDict [(''archive_sha256'', PStr (sample_hash ''02'')),
         (''content_set_sha256'', PStr (sample_hash ''8d'')), (''compressed_bytes'', PInt 2),
         (''uncompressed_bytes'', PInt 683), (''file_count'', PInt 2)]),
      (''file_inventory'', PList (map (\<lambda>f. PDict [(''path'', PStr (pf_path f)),
         (''size_bytes'', PInt (pf_size_bytes f)), (''sha256'', PStr (pf_sha256 f))]) sample_files)),
      (''evidence_records'', PList [PDict [(''evidence_id'', PStr ''0123456789abcdef0123456789abcdef0123''),
         (''probe_id'', PStr ''p''), (''probe_version'', PStr ''1''), (''control_id'', PStr ''PC-07''),
         (''collection_status'', PStr ''COLLECTED''), (''evidence_sha256'', PStr (sample_hash ''02''))]])]"

definition sample_descriptor :: dict where
  "sample_descriptor = sample_descriptor_for
     [(''profile'', PStr ''OFFLINE-SIGNED''), (''assurance_level'', PStr ''MEDIUM''),
      (''signature'', PDict sample_signature)]"

definition online_descriptor :: dict where
  "online_descriptor = sample_descriptor_for [(''profile'', PStr ''ONLINE-AUTHENTICATED'')]"

definition sample_validator :: full_validator where
  "sample_validator =
     \<lparr>fv_schemas = \<lparr>sc_registered = [''d'', ''m''], sc_check = (\<lambda>_ _. Conforms)\<rparr>,
      fv_descriptor_schema = ''d'', fv_manifest_schema = ''m'', fv_evidence_control_field = ''control_id'',
      fv_evidence_member_path_field = None\<rparr>"

definition sample_context :: validation_context where
  "sample_context =
     \<lparr>vc_organization_id = ''o'', vc_asset_id = ''a'', vc_job_id = ''j'', vc_endpoint_id = ''e'',
      vc_received_at = the (map_option fst (datetime_fromisoformat ''2026-01-01T02:00:00+00:00''))\<rparr>"

definition sample_external :: external_verifications where
  "sample_external =
     (let archive = sample_hash ''02''
      in \<lparr>ev_manifest_signature = \<lparr>dv_status = VERIFIED, dv_sha256 = sample_hash ''d9''\<rparr>,
          ev_malware_scan = \<lparr>mv_status = CLEAN, mv_archive_sha256 = archive\<rparr>,
          ev_content_policy = \<lparr>dv_status = VERIFIED, dv_sha256 = archive\<rparr>,
          ev_staged_object = \<lparr>sv_status = VERIFIED, sv_organization_id = ''o'', sv_asset_id = ''a'',
            sv_job_id = ''j'', sv_archive_sha256 = archive, sv_size_bytes = 2\<rparr>\<rparr>)"

abbreviation sample_verifications :: gate_verifications where
  "sample_verifications \<equiv> gates_for sample_external ''n'' OFFLINE_SIGNATURE"

abbreviation online_verifications :: gate_verifications where
  "online_verifications \<equiv> gates_for sample_external ''n'' ONLINE_TRANSPORT"

definition sample_gate :: package_gate where
  "sample_gate = full_validate 4 sample_library sample_dumps sample_digest sample_validator"

abbreviation sample_result :: "validated_package package_result" where
  "sample_result \<equiv>
     full_validate 4 sample_library sample_dumps sample_digest sample_validator (Some ''PK'')
       (json_text (PDict sample_descriptor)) sample_manifest sample_context sample_verifications"

lemma sample_manifest_reads:
  "load_strict_json 4 sample_text True = Inr (PDict sample_manifest)"
  unfolding sample_text_def by (rule object_text_reads) code_simp+

lemma sample_descriptor_reads:
  "load_strict_json 4 (json_text (PDict sample_descriptor)) True = Inr (PDict sample_descriptor)"
  by (rule object_text_reads) code_simp+

lemma online_descriptor_reads:
  "load_strict_json 4 (json_text (PDict online_descriptor)) True = Inr (PDict online_descriptor)"
  by (rule object_text_reads) code_simp+

lemma sample_member_reads: "load_strict_json 4 ''{}'' True = Inr (PDict [])"
  by code_simp

definition sample_limits :: package_limits where
  "sample_limits = default_limits \<lparr>pl_max_archive_bytes := 1000, pl_max_uncompressed_bytes := 9000,
     pl_max_files := 9\<rparr>"

lemma sample_reads:
  "read_member sample_library ''PK'' sample_manifest_info sample_limits 0 = Inr sample_text"
  "read_member sample_library ''PK'' sample_member_info sample_limits 681 = Inr ''{}''"
  "length sample_text = 681"
  "sample_digest sample_text = sample_hash ''a9''" "sample_digest ''{}'' = sample_hash ''02''"
  "sample_digest ''PK'' = sample_hash ''02''"
  by code_simp+

lemma sample_records:
  "read_records 4 sample_library sample_digest ''PK'' sample_limits 0 [sample_manifest_info, sample_member_info] =
     Inr sample_files"
  using sample_reads sample_manifest_reads sample_member_reads
  by (simp add: with_member_def sample_files_def) (simp add: sample_manifest_info_def sample_member_info_def)

lemma sample_directory:
  "is_ok (bindE (scan_directory sample_limits [sample_manifest_info, sample_member_info] empty_scan) (\<lambda>scan.
     if manifest_path \<notin> set (ds_seen scan) \<or>
        ratio_exceeds (ds_metadata_total scan) (ds_compressed_total scan) (pl_max_compression_ratio sample_limits)
     then Inl (PyError ValueError) else Inr ()))"
  by code_simp

lemma sample_archive_records:
  "archive_records 4 sample_library sample_digest ''PK'' sample_limits = Inr sample_files"
proof -
  obtain scan where "scan_directory sample_limits [sample_manifest_info, sample_member_info] empty_scan = Inr scan"
    "manifest_path \<in> set (ds_seen scan)"
    "\<not> ratio_exceeds (ds_metadata_total scan) (ds_compressed_total scan) (pl_max_compression_ratio sample_limits)"
    using sample_directory by (auto simp: is_ok_iff bindE_eq_Inr split: if_splits)
  moreover have "open_archive sample_library ''PK'' = Inr [sample_manifest_info, sample_member_info]"
    by (simp add: open_archive_def sample_library_def)
  ultimately show ?thesis
    using sample_records by (simp add: archive_records_def sample_limits_def default_limits_def min_files_fixed_def)
qed

definition sample_inspection :: package_inspection where
  "sample_inspection =
     \<lparr>pi_archive_sha256 = sample_hash ''02'', pi_content_set_sha256 = sample_hash ''8d'', pi_compressed_bytes = 2,
      pi_uncompressed_bytes = 683, pi_file_count = 2, pi_files = sample_files\<rparr>"

lemma sample_sorted: "sort_key pf_path sample_files = sample_files"
  by code_simp

lemma sample_content: "canonical_hash sample_dumps sample_digest (content_vector sample_files) = Inr (sample_hash ''8d'')"
  by code_simp

lemma sample_inspected:
  "inspect_package_archive 4 sample_library sample_dumps sample_digest (Some ''PK'') sample_limits =
     Inr sample_inspection"
  by (simp add: inspect_package_archive_def sample_archive_records sample_sorted sample_content Let_def
      archive_invalid_def sample_reads sample_inspection_def)
    (simp add: sample_limits_def sample_files_def)

lemma sample_compared:
  "is_ok (bindE (required_mapping (py_get (sample_descriptor_for []) ''archive'')) (\<lambda>archive.
     bindE (required_sequence (py_get (sample_descriptor_for []) ''file_inventory'')) (\<lambda>inventory.
     bindE (expected_records sample_limits inventory []) (\<lambda>expected.
     if sorted_distinct (filter (\<lambda>p. p \<notin> set (map pf_path sample_files)) (map fst expected)) \<noteq> [] \<or>
        sorted_distinct (filter (\<lambda>p. p \<notin> fst ` set expected) (map pf_path sample_files)) \<noteq> []
     then Inl (PyError ValueError)
     else bindE (compare_records sample_files expected) (\<lambda>_. compare_metadata sample_inspection archive)))))"
  by code_simp

lemma sample_descriptor_get:
  "k \<noteq> ''authentication'' \<Longrightarrow> py_get (sample_descriptor_for auth) k = py_get (sample_descriptor_for []) k"
  by (simp add: sample_descriptor_for_def)

lemma sample_contract_for:
  "validate_package_contract 4 sample_library sample_dumps sample_digest (Some ''PK'') (sample_descriptor_for auth)
     sample_limits = Inr sample_inspection"
  using sample_compared
  by (auto simp: validate_package_contract_def sample_inspected sample_inspection_def is_ok_iff bindE_eq_Inr Let_def
      sample_descriptor_get [of _ auth] split: if_splits)

lemma sample_contract:
  "validate_package_contract 4 sample_library sample_dumps sample_digest (Some ''PK'') sample_descriptor
     sample_limits = Inr sample_inspection"
  "validate_package_contract 4 sample_library sample_dumps sample_digest (Some ''PK'') online_descriptor
     sample_limits = Inr sample_inspection"
  by (simp_all only: sample_descriptor_def online_descriptor_def sample_contract_for)

lemma sample_manifest_hash: "manifest_content_hash sample_dumps sample_digest sample_manifest = Inr (sample_hash ''d9'')"
  by code_simp

lemma sample_trusted:
  "check_trusted_manifest sample_dumps sample_digest sample_manifest (gates_for sample_external ''n'' kind) =
     Inr (sample_hash ''d9'')"
  unfolding check_trusted_manifest_def sample_manifest_hash by code_simp

lemma sample_in_scope:
  "validate_manifest_context sample_manifest sample_context sample_verifications = Inr ()"
  "validate_manifest_context sample_manifest sample_context online_verifications = Inr ()"
  by code_simp+

lemma sample_limited: "manifest_limits sample_manifest = Inr sample_limits"
  by code_simp

lemma sample_measured:
  "check_measured_archive sample_digest (Some ''PK'') sample_descriptor sample_limits sample_context
     sample_verifications = Inr ()"
  "check_measured_archive sample_digest (Some ''PK'') online_descriptor sample_limits sample_context
     online_verifications = Inr ()"
  by code_simp+

lemma sample_semantics:
  "validate_descriptor_semantics sample_validator sample_descriptor sample_manifest sample_context
     sample_verifications = Inr ()"
  "validate_descriptor_semantics sample_validator online_descriptor sample_manifest sample_context
     online_verifications = Inr ()"
  by code_simp+

lemma sample_schemas:
  "schema_validate (fv_schemas sample_validator) document (fv_descriptor_schema sample_validator) code = Inr ()"
  "schema_validate (fv_schemas sample_validator) document (fv_manifest_schema sample_validator) code = Inr ()"
  by (simp_all add: schema_validate_def sample_validator_def)

lemma sample_same_manifest:
  "check_embedded_manifest sample_validator sample_dumps sample_digest (PDict sample_manifest) sample_manifest
     (sample_hash ''d9'') = Inr ()"
  by (simp add: check_embedded_manifest_def sample_schemas package_mapping_def sample_manifest_hash
      canonical_hash_def canonical_sha256_def canonicalize_json_def sample_dumps_def del: json_text.simps)

lemmas sample_gates = sample_trusted sample_in_scope sample_limited sample_measured sample_semantics
  sample_same_manifest

lemma sample_embedded:
  "load_embedded_manifest 4 sample_library sample_digest ''PK'' sample_inspection sample_limits =
     Inr (PDict sample_manifest)"
  using sample_manifest_reads sample_reads(3,4)
  by (simp add: load_embedded_manifest_def sample_inspection_def sample_files_def manifest_info_def manifest_bytes_def
      sample_library_def)
    (simp add: sample_manifest_info_def sample_member_info_def sample_limits_def default_limits_def
      sample_member_def manifest_path_def max_member_bytes_cap_def)

lemma sample_validated:
  "is_ok (the_validated_package sample_dumps sample_digest sample_descriptor sample_context (sample_hash ''d9'')
     sample_inspection)"
  "is_ok (the_validated_package sample_dumps sample_digest online_descriptor sample_context (sample_hash ''d9'')
     sample_inspection)"
  by code_simp+

lemma sample_accepted: "is_ok sample_result"
  using sample_validated
  by (simp add: full_validate_def sample_descriptor_reads sample_gates sample_contract sample_embedded
      sample_schemas package_mapping_def del: json_text.simps)

lemma online_accepted:
  "is_ok (sample_gate (Some ''PK'') (json_text (PDict online_descriptor)) sample_manifest sample_context
     online_verifications)"
  using sample_validated
  by (simp add: sample_gate_def full_validate_def online_descriptor_reads sample_gates sample_contract
      sample_embedded sample_schemas package_mapping_def del: json_text.simps)

end
