(* ===== verification/Package_Properties.thy ===== *)
theory Package_Properties
  imports Package_Sample
begin

section \<open>Properties of package validation\<close>

text \<open>
  The properties of the archive preflight, of the contract with the descriptor and of the whole
  validator.
\<close>

subsection \<open>Archives\<close>



text \<open>
  A package that meets its contract agrees with the descriptor completely: the inventory lists
  exactly the measured files, each once, with their sizes and hashes, and the hash of the archive, the
  content-set hash, both sizes and the count in the descriptor are the measured ones.
\<close>

theorem contract_agrees:
  assumes "validate_package_contract depth lib dumps sha256 archive_path descriptor limits = Inr inspection"
  shows "inventory_agrees inspection descriptor \<and>
    inspect_package_archive depth lib dumps sha256 archive_path limits = Inr inspection"
  using contract_Inr [OF assms] by blast


lemma sample_well_behaved: "well_behaved sample_library"
  by (simp add: well_behaved_def sample_library_def)


lemma read_chunks_all:
  assumes "int (length content) + int (length (concat chunks)) \<le> pl_max_member_bytes limits"
    "before + int (length content) + int (length (concat chunks)) \<le> pl_max_uncompressed_bytes limits"
  shows "read_chunks info limits before content chunks = Inr (content @ concat chunks)"
  using assms by (induction chunks arbitrary: content) (simp_all add: Let_def)

text \<open>
  A member whose compressed data is corrupt lets an exception escape: \<open>zlib.error\<close>, which the
  decompressor raises and no handler of the preflight names, ends the inspection of an archive whose
  directory is in order, instead of a rejection with a code.
\<close>

theorem zlib_error_escapes:
  assumes "archive \<noteq> []" "int (length archive) \<le> pl_max_archive_bytes limits"
    "zip_open lib archive = Inr (info # infos)"
    "pl_min_files limits \<le> int (length (info # infos))" "int (length (info # infos)) \<le> pl_max_files limits"
    "scan_directory limits (info # infos) empty_scan = Inr scan" "manifest_path \<in> set (ds_seen scan)"
    "\<not> ratio_exceeds (ds_metadata_total scan) (ds_compressed_total scan) (pl_max_compression_ratio limits)"
    "zip_read lib archive info = (chunks, Some ZlibErrorRaised)"
    "int (length (concat chunks)) \<le> pl_max_member_bytes limits"
    "int (length (concat chunks)) \<le> pl_max_uncompressed_bytes limits"
  shows "inspect_package_archive depth lib dumps sha256 (Some archive) limits = Inl (PyError LibraryError)"
proof -
  have "read_member lib archive info limits 0 = Inl (PyError LibraryError)"
    using read_chunks_all [of "[]" chunks limits 0 info] assms(10,11)
    by (simp add: read_member_def assms(9) read_failure_def)
  then have "archive_records depth lib sha256 archive limits = Inl (PyError LibraryError)"
    using assms(3-8) by (simp add: archive_records_def open_archive_def)
  then show ?thesis
    using assms(1,2) by (simp add: inspect_package_archive_def archive_invalid_def)
qed

definition corrupt_library :: zip_library where
  "corrupt_library = sample_library \<lparr>zip_read := (\<lambda>_ _. ([''{''], Some ZlibErrorRaised))\<rparr>"

theorem zlib_error_escapes_witness:
  "inspect_package_archive 4 corrupt_library sample_dumps sample_digest (Some ''PK'') sample_limits =
     Inl (PyError LibraryError)"
proof -
  obtain scan where scan: "scan_directory sample_limits [sample_manifest_info, sample_member_info] empty_scan = Inr scan"
    "manifest_path \<in> set (ds_seen scan)"
    "\<not> ratio_exceeds (ds_metadata_total scan) (ds_compressed_total scan) (pl_max_compression_ratio sample_limits)"
    using sample_directory by (auto simp: is_ok_iff bindE_eq_Inr split: if_splits)
  show ?thesis
    by (rule zlib_error_escapes [where info = sample_manifest_info and infos = "[sample_member_info]"
          and chunks = "[''{'']", OF _ _ _ _ _ scan])
      (simp_all add: corrupt_library_def sample_library_def sample_limits_def default_limits_def
        min_files_fixed_def max_member_bytes_cap_def)
qed

subsection \<open>Validated packages\<close>

text \<open>
  C17: A package that passes the validator is bound to everything it was submitted with: the manifest
  hashes to the value that it claims, that its signature signs and that the verified signature proof
  names; the nonce is the reserved, fresh one; manifest and descriptor name the job and the asset of
  the context and the manifest its endpoint; staging, malware scan and content policy are positive and
  about the bytes of this very archive; the profile is one the manifest allows and its proof of
  authentication is positive and of the kind of the profile; the validity periods are nested around
  the instant of receipt; and the result carries the measured archive, which agrees with the
  descriptor, and the scope of the context.
\<close>

theorem validated_package_bound:
  assumes "full_validate depth lib dumps sha256 v archive_path descriptor_bytes manifest context verifications = Inr vp"
  shows "\<exists>archive descriptor.
    archive_path = Some archive \<and> load_strict_json depth descriptor_bytes True = Inr (PDict descriptor) \<and>
    trusted_manifest_hash dumps sha256 manifest (vp_manifest_content_sha256 vp) \<and>
    dv_status (gv_manifest_signature verifications) = VERIFIED \<and>
    dv_sha256 (gv_manifest_signature verifications) = vp_manifest_content_sha256 vp \<and>
    manifest_scope manifest context verifications \<and> descriptor_scope descriptor manifest context \<and>
    times_nested descriptor manifest (vc_received_at context) \<and>
    authenticated_profile descriptor manifest verifications \<and>
    archive_proofs context verifications (sha256 archive) (int (length archive)) \<and>
    inventory_agrees (vp_inspection vp) descriptor \<and>
    pi_archive_sha256 (vp_inspection vp) = sha256 archive \<and>
    vp_job_id vp = vc_job_id context \<and> vp_asset_id vp = vc_asset_id context \<and>
    py_get descriptor ''id'' = PStr (vp_package_id vp) \<and>
    py_get descriptor ''manifest_id'' = PStr (vp_manifest_id vp)"
  using assms by (rule full_validate_bound)

theorem validated_package_bound_witness:
  "\<exists>vp. sample_result = Inr vp \<and> vp_job_id vp = ''j'' \<and>
     times_nested sample_descriptor sample_manifest (vc_received_at sample_context)"
proof -
  obtain vp where vp: "sample_result = Inr vp" using sample_accepted by (auto simp: is_ok_iff)
  have "vp_job_id vp = vc_job_id sample_context"
    "times_nested sample_descriptor sample_manifest (vc_received_at sample_context)"
    using validated_package_bound [OF vp] sample_descriptor_reads by (auto simp del: json_text.simps)
  with vp show ?thesis by (auto simp: sample_context_def simp del: json_text.simps)
qed

text \<open>
  C18: Every evidence record of a validated package was authorised and delivered: a probe of the signed
  manifest carries its probe id, its version and exactly its controls, and the archive holds a measured
  file at the path of the record, under \<open>evidence\<close> or \<open>errors\<close> as its status says, whose hash is the
  one the record names.
\<close>

theorem evidence_was_authorised:
  assumes "full_validate depth lib dumps sha256 v archive_path descriptor_bytes manifest context verifications = Inr vp"
    "load_strict_json depth descriptor_bytes True = Inr (PDict descriptor)"
  shows "\<exists>records. py_get descriptor ''evidence_records'' = PList records \<and>
    (\<forall>entry\<in>set records. evidence_authorised v manifest (in_archive (vp_inspection vp)) entry)"
proof -
  obtain descriptor' hash limits inspection where f:
    "validate_package_contract depth lib dumps sha256 archive_path descriptor' limits = Inr inspection"
    "validate_descriptor_semantics v descriptor' manifest context verifications = Inr ()"
    "the_validated_package dumps sha256 descriptor' context hash inspection = Inr vp"
    "load_strict_json depth descriptor_bytes True = Inr (PDict descriptor')"
    using assms(1) by (rule full_validate_Inr)
  have same: "descriptor' = descriptor" using f(4) assms(2) by simp
  note f = f [unfolded same]
  obtain inventory records where e: "py_get descriptor ''file_inventory'' = PList inventory"
    "py_get descriptor ''evidence_records'' = PList records"
    "\<forall>entry\<in>set records. evidence_authorised v manifest (in_inventory inventory) entry"
    using descriptor_semantics_Inr [OF f(2), THEN conjunct2, THEN conjunct2, THEN conjunct2]
    by (rule collector_and_evidence_Inr)
  have files: "mset (map entry_triple inventory) = mset (map file_triple (pi_files inspection))"
    using contract_Inr [OF f(1)] e(1) unfolding inventory_agrees_def by auto
  have "evidence_authorised v manifest (in_archive inspection) entry" if member: "entry \<in> set records" for entry
  proof (rule evidence_authorised_mono)
    show "evidence_authorised v manifest (in_inventory inventory) entry" using member e(3) by blast
  qed (rule inventory_in_archive [OF files])
  then show ?thesis using e(2) the_validated_package_Inr [OF f(3)] by auto
qed

theorem evidence_was_authorised_witness:
  "\<exists>vp records. sample_result = Inr vp \<and> py_get sample_descriptor ''evidence_records'' = PList records \<and>
     records \<noteq> [] \<and>
     (\<forall>entry\<in>set records. evidence_authorised sample_validator sample_manifest (in_archive (vp_inspection vp)) entry)"
proof -
  obtain vp where vp: "sample_result = Inr vp" using sample_accepted by (auto simp: is_ok_iff)
  obtain records where "py_get sample_descriptor ''evidence_records'' = PList records"
    "\<forall>entry\<in>set records. evidence_authorised sample_validator sample_manifest (in_archive (vp_inspection vp)) entry"
    using evidence_was_authorised [OF vp sample_descriptor_reads] by blast
  moreover from this(1) have "records \<noteq> []" by (auto simp: sample_descriptor_def sample_descriptor_for_def)
  ultimately show ?thesis using vp by blast
qed

end
