(* ===== verification/Offline_Signature.thy ===== *)
theory Offline_Signature
  imports Package_Acceptance Collector_Credentials Py_Crypto
begin

section \<open>Offline signatures (\<^verbatim>\<open>security/signatures/offline.py\<close>)\<close>

text \<open>
  The verifier of detached signature envelopes.  Certificates and keys are those of \<open>cryptography\<close>: a
  certificate is a record of what the code reads from it, \<open>xl_load\<close> parses DER (\<open>None\<close> is its
  \<open>ValueError\<close>) and \<open>xl_verify\<close> is Ed25519 verification.  An \<open>OfflineSignatureError\<close> is itself a
  \<open>ValueError\<close>, so that a handler for \<open>ValueError\<close> replaces its code and message by its own.
\<close>

subsection \<open>Data\<close>

datatype signature_code =
    ENVELOPE_TOO_LARGE | ENVELOPE_INVALID | TIME_INVALID | CERTIFICATE_INVALID | CERTIFICATE_UNTRUSTED
  | CERTIFICATE_WRONG_EKU | CERTIFICATE_SUBJECT_MISMATCH | CERTIFICATE_REVOKED | REVOCATION_UNAVAILABLE
  | SIGNATURE_INVALID | PAYLOAD_SCOPE_MISMATCH

datatype signature_failure = OfflineSignatureError signature_code string

type_synonym 'a signature_result = "(signature_failure, 'a) result"

datatype revocation_status = GOOD | IS_REVOKED | REVOCATION_UNKNOWN

record revocation_verification =
  rv_status :: revocation_status
  rv_certificate_sha256 :: string
  rv_checked_at :: int
  rv_source_version :: string

definition revocation_admitted :: "revocation_verification \<Rightarrow> bool" where
  "revocation_admitted r \<longleftrightarrow> rv_source_version r \<noteq> []"

record verified_signer =
  vs_organization_id :: string
  vs_asset_id :: string
  vs_certificate_sha256 :: string
  vs_trust_anchor_sha256 :: string
  vs_key_id :: string
  vs_payload_sha256 :: string
  vs_assurance_level :: string

text \<open>
  The public key may be of another kind, or of one the library does not support.  The extensions of a
  certificate are parsed when they are first read, and that may fail.
\<close>

datatype public_key = Ed25519Key string | OtherKey | KeyUnreadable py_error

datatype 'a extension = Extension 'a | ExtensionNotFound | ExtensionsUnreadable py_error

record certificate =
  ct_der :: string
  ct_fingerprint :: string
  ct_subject :: string
  ct_issuer :: string
  ct_organizations :: "string list"
  ct_public_key :: public_key
  ct_signature :: string
  ct_tbs_bytes :: string
  ct_not_before :: int
  ct_not_after :: int
  ct_basic_constraints_ca :: "bool extension"
  ct_digital_signature :: "bool extension"
  ct_key_cert_sign :: "bool extension"
  ct_extended_key_usage :: "string list extension"
  ct_alternative_uris :: "string list extension"

record x509_library =
  xl_load :: "string \<Rightarrow> certificate option"
  xl_verify :: "string \<Rightarrow> string \<Rightarrow> string \<Rightarrow> bool"

definition offline_package_eku_oid :: string where
  "offline_package_eku_oid = ''1.3.6.1.4.1.55555.1.1''"

definition max_offline_envelope_bytes :: int where
  "max_offline_envelope_bytes = 64 * 1024"

definition max_revocation_age :: int where
  "max_revocation_age = 24 * 3600 * 1000000"

subsection \<open>Trust store\<close>

type_synonym trust_store = "certificate list"

definition trust_store_admitted :: "trust_store \<Rightarrow> bool" where
  "trust_store_admitted roots \<longleftrightarrow> roots \<noteq> []"

definition trusted_root :: "trust_store \<Rightarrow> string \<Rightarrow> certificate option" where
  "trusted_root roots fingerprint = find (\<lambda>c. ct_fingerprint c = fingerprint) (rev roots)"

subsection \<open>Access\<close>

definition refuse_signature :: "signature_code \<Rightarrow> string \<Rightarrow> 'a signature_result" where
  "refuse_signature code message = raise_error (OfflineSignatureError code message)"

text \<open>\<open>except ValueError\<close>, which also catches the errors of this module.\<close>

definition on_value_error :: "signature_code \<Rightarrow> string \<Rightarrow> 'a signature_result \<Rightarrow> 'a signature_result" where
  "on_value_error code message m =
     (case m of
        Inl (Raised e) \<Rightarrow> refuse_signature code message
      | Inl (PyError p) \<Rightarrow> if p = ValueError then refuse_signature code message else Inl (PyError p)
      | Inr x \<Rightarrow> Inr x)"

definition envelope_mapping :: "pyval \<Rightarrow> dict signature_result" where
  "envelope_mapping value =
     (case value of
        PDict d \<Rightarrow> Inr d
      | _ \<Rightarrow> refuse_signature ENVELOPE_INVALID ''Offline envelope object is invalid.'')"

definition envelope_string :: "dict \<Rightarrow> string \<Rightarrow> string signature_result" where
  "envelope_string value key =
     (case py_get value key of
        PStr s \<Rightarrow> Inr s
      | _ \<Rightarrow> refuse_signature ENVELOPE_INVALID ''Offline envelope field is invalid.'')"

definition envelope_timestamp :: "dict \<Rightarrow> string \<Rightarrow> int signature_result" where
  "envelope_timestamp value key =
     bindE (on_value_error ENVELOPE_INVALID ''Offline envelope timestamp is invalid.''
        (bindE (envelope_string value key) (\<lambda>s.
           case datetime_fromisoformat (remove_suffix ''Z'' s @ ''+00:00'') of
             None \<Rightarrow> Inl (PyError ValueError)
           | Some parsed \<Rightarrow> Inr parsed))) (\<lambda>(local, offset).
     case offset of
       None \<Rightarrow> refuse_signature ENVELOPE_INVALID ''Timezone is required.''
     | Some offset \<Rightarrow> Inr (local - offset))"

definition decode_base64url :: "string \<Rightarrow> string signature_result" where
  "decode_base64url value =
     (case b64_decode value of
        None \<Rightarrow> refuse_signature ENVELOPE_INVALID ''Offline envelope base64url field is invalid.''
      | Some bytes \<Rightarrow> Inr bytes)"

definition load_certificate :: "x509_library \<Rightarrow> string \<Rightarrow> certificate signature_result" where
  "load_certificate lib value =
     on_value_error CERTIFICATE_INVALID ''Offline certificate cannot be parsed.''
       (bindE (decode_base64url value) (\<lambda>der.
        case xl_load lib der of None \<Rightarrow> Inl (PyError ValueError) | Some c \<Rightarrow> Inr c))"

definition ed25519_key :: "certificate \<Rightarrow> string signature_result" where
  "ed25519_key c =
     (case ct_public_key c of
        Ed25519Key key \<Rightarrow> Inr key
      | OtherKey \<Rightarrow> refuse_signature CERTIFICATE_INVALID ''Offline certificate public key is not Ed25519.''
      | KeyUnreadable p \<Rightarrow> Inl (PyError p))"

definition read_extension :: "'a extension \<Rightarrow> 'a signature_result" where
  "read_extension e =
     (case e of
        Extension x \<Rightarrow> Inr x
      | ExtensionNotFound \<Rightarrow>
          refuse_signature CERTIFICATE_INVALID ''A required offline certificate extension is missing.''
      | ExtensionsUnreadable p \<Rightarrow> Inl (PyError p))"

definition digests_equal :: "string \<Rightarrow> string \<Rightarrow> bool signature_result" where
  "digests_equal a b = (case compare_digest a b of Inl p \<Rightarrow> Inl (PyError p) | Inr same \<Rightarrow> Inr same)"

text \<open>\<open>key.verify(signature, data)\<close>; \<open>InvalidSignature\<close> is handled with \<open>ValueError\<close>.\<close>

definition verify_with :: "x509_library \<Rightarrow> certificate \<Rightarrow> string \<Rightarrow> string \<Rightarrow> unit signature_result" where
  "verify_with lib c signature data =
     bindE (ed25519_key c) (\<lambda>key. if xl_verify lib key signature data then Inr () else Inl (PyError ValueError))"

subsection \<open>Checks\<close>

definition verify_chain :: "x509_library \<Rightarrow> certificate \<Rightarrow> certificate \<Rightarrow> int \<Rightarrow> unit signature_result" where
  "verify_chain lib leaf root received_at =
     (if ct_issuer leaf \<noteq> ct_subject root \<or> ct_issuer root \<noteq> ct_subject root
      then refuse_signature CERTIFICATE_INVALID ''Offline certificate issuer chain is invalid.''
      else
        bindE (on_value_error CERTIFICATE_INVALID ''Offline certificate chain signature is invalid.''
           (bindE (verify_with lib root (ct_signature root) (ct_tbs_bytes root)) (\<lambda>_.
            verify_with lib root (ct_signature leaf) (ct_tbs_bytes leaf)))) (\<lambda>_.
        if \<not> (ct_not_before root \<le> received_at \<and> received_at \<le> ct_not_after root \<and>
              ct_not_before leaf \<le> received_at \<and> received_at \<le> ct_not_after leaf)
        then refuse_signature CERTIFICATE_INVALID ''Offline certificate is outside its validity period.''
        else
          bindE (read_extension (ct_basic_constraints_ca root)) (\<lambda>root_ca.
          bindE (read_extension (ct_basic_constraints_ca leaf)) (\<lambda>leaf_ca.
          bindE (read_extension (ct_digital_signature leaf)) (\<lambda>digital_signature.
          bindE (read_extension (ct_key_cert_sign root)) (\<lambda>key_cert_sign.
          if \<not> root_ca \<or> \<not> key_cert_sign \<or> leaf_ca \<or> \<not> digital_signature
          then refuse_signature CERTIFICATE_INVALID ''Offline certificate constraints are invalid.''
          else
            bindE (read_extension (ct_extended_key_usage leaf)) (\<lambda>eku.
            if offline_package_eku_oid \<notin> set eku
            then refuse_signature CERTIFICATE_WRONG_EKU
                   ''Offline certificate is not authorized for package signing.''
            else Inr ())))))))"

definition verify_subject :: "certificate \<Rightarrow> string \<Rightarrow> string \<Rightarrow> unit signature_result" where
  "verify_subject leaf organization_id asset_id =
     bindE (read_extension (ct_alternative_uris leaf)) (\<lambda>uris.
     if ct_organizations leaf \<noteq> [organization_id] \<or> uris \<noteq> [''urn:secai:asset:'' @ asset_id]
     then refuse_signature CERTIFICATE_SUBJECT_MISMATCH
            ''Offline certificate is not bound to this organization and Asset.''
     else Inr ())"

definition verify_revocation ::
  "string \<Rightarrow> int \<Rightarrow> revocation_verification \<Rightarrow> unit signature_result" where
  "verify_revocation certificate_sha256 received_at revocation =
     bindE (digests_equal (rv_certificate_sha256 revocation) certificate_sha256) (\<lambda>same.
     if \<not> same \<or> received_at < rv_checked_at revocation \<or>
        max_revocation_age < received_at - rv_checked_at revocation
     then refuse_signature REVOCATION_UNAVAILABLE
            ''Offline revocation proof is not bound to this certificate and time.''
     else if rv_status revocation = REVOCATION_UNKNOWN
     then refuse_signature REVOCATION_UNAVAILABLE ''Offline revocation status is unavailable.''
     else if rv_status revocation = IS_REVOKED
     then refuse_signature CERTIFICATE_REVOKED ''Offline certificate was revoked.''
     else Inr ())"

subsection \<open>Verification\<close>

definition load_envelope :: "nat \<Rightarrow> schema_catalog \<Rightarrow> string \<Rightarrow> dict signature_result" where
  "load_envelope depth schemas envelope_bytes =
     (case bindE (load_strict_json depth envelope_bytes True) (\<lambda>raw.
            case raw of
              PDict d \<Rightarrow>
                bindE (schema_validate schemas raw ''offline_signature_envelope.schema.json''
                  ''DESCRIPTOR_SCHEMA_INVALID'') (\<lambda>_. Inr (Some d))
            | _ \<Rightarrow> Inr None) of
        Inr (Some d) \<Rightarrow> Inr d
      | Inr None \<Rightarrow> refuse_signature ENVELOPE_INVALID ''Offline envelope must be an object.''
      | Inl (Raised _) \<Rightarrow>
          refuse_signature ENVELOPE_INVALID ''Offline envelope failed strict JSON or Schema validation.''
      | Inl (PyError p) \<Rightarrow> Inl (PyError p))"

definition payload_of :: "dict \<Rightarrow> pyval signature_result" where
  "payload_of envelope =
     (case map_of envelope ''payload'' of None \<Rightarrow> Inl (PyError KeyError) | Some v \<Rightarrow> Inr v)"

definition payload_dict :: "pyval \<Rightarrow> dict signature_result" where
  "payload_dict payload = (case payload of PDict d \<Rightarrow> Inr d | _ \<Rightarrow> Inl (PyError AttributeError))"

text \<open>The pinned chain: leaf and root with the fingerprints that the rest refers to.\<close>

definition single_root :: "pyval \<Rightarrow> string signature_result" where
  "single_root chain =
     (case chain of
        PList [root_value] \<Rightarrow>
          (case root_value of
             PStr root_text \<Rightarrow> Inr root_text
           | _ \<Rightarrow> refuse_signature CERTIFICATE_INVALID ''Root certificate is invalid.'')
      | _ \<Rightarrow> refuse_signature CERTIFICATE_INVALID
               ''Offline certificate chain must contain one organization root.'')"

definition pinned_chain ::
  "x509_library \<Rightarrow> trust_store \<Rightarrow> dict \<Rightarrow> int \<Rightarrow> (certificate \<times> certificate) signature_result" where
  "pinned_chain lib roots signer received_at =
     bindE (envelope_string signer ''leaf_certificate_der_base64url'') (\<lambda>leaf_text.
     bindE (load_certificate lib leaf_text) (\<lambda>leaf.
     bindE (single_root (py_get signer ''chain_der_base64url'')) (\<lambda>root_text.
     bindE (load_certificate lib root_text) (\<lambda>root.
     if map_option ct_der (trusted_root roots (ct_fingerprint root)) \<noteq> Some (ct_der root)
     then refuse_signature CERTIFICATE_UNTRUSTED ''Offline certificate root is not pinned.''
     else bindE (verify_chain lib leaf root received_at) (\<lambda>_. Inr (leaf, root))))))"

fun check_claims :: "string \<Rightarrow> string list \<Rightarrow> unit signature_result" where
  "check_claims leaf_sha256 [] = Inr ()"
| "check_claims leaf_sha256 (claim # claims) =
     bindE (digests_equal claim leaf_sha256) (\<lambda>same.
     if \<not> same then refuse_signature CERTIFICATE_INVALID ''Offline certificate digest is mismatched.''
     else check_claims leaf_sha256 claims)"

definition canonical_bytes :: "json_dumps \<Rightarrow> pyval \<Rightarrow> string signature_result" where
  "canonical_bytes dumps v =
     (case canonicalize_json dumps v of Inl _ \<Rightarrow> Inl (PyError ValueError) | Inr bytes \<Rightarrow> Inr bytes)"

definition check_signature ::
  "x509_library \<Rightarrow> json_dumps \<Rightarrow> digest \<Rightarrow> certificate \<Rightarrow> dict \<Rightarrow> dict \<Rightarrow> string signature_result" where
  "check_signature lib dumps sha256 leaf signature payload =
     bindE (canonical_bytes dumps (PDict payload)) (\<lambda>bytes.
     bindE (envelope_string signature ''signed_sha256'') (\<lambda>signed.
     bindE (digests_equal signed (sha256 bytes)) (\<lambda>same.
     if \<not> same then refuse_signature SIGNATURE_INVALID ''Offline signature digest is mismatched.''
     else
       bindE (envelope_string signature ''value'') (\<lambda>value.
       bindE (decode_base64url value) (\<lambda>signature_bytes.
       bindE (on_value_error SIGNATURE_INVALID ''Offline package signature verification failed.''
          (verify_with lib leaf signature_bytes bytes)) (\<lambda>_.
       Inr (sha256 bytes)))))))"

definition verify_offline ::
  "nat \<Rightarrow> schema_catalog \<Rightarrow> x509_library \<Rightarrow> json_dumps \<Rightarrow> digest \<Rightarrow> trust_store \<Rightarrow> string \<Rightarrow> moment \<Rightarrow>
     revocation_verification \<Rightarrow> (dict \<times> verified_signer) signature_result" where
  "verify_offline depth schemas lib dumps sha256 roots envelope_bytes received revocation =
     (case received of
        Naive _ \<Rightarrow> Inl (PyError ValueError)
      | Aware received_at \<Rightarrow>
          if max_offline_envelope_bytes < int (length envelope_bytes)
          then refuse_signature ENVELOPE_TOO_LARGE ''Offline envelope is too large.''
          else
            bindE (load_envelope depth schemas envelope_bytes) (\<lambda>envelope.
            bindE (payload_of envelope) (\<lambda>raw_payload.
            bindE (envelope_mapping (py_get envelope ''signer'')) (\<lambda>signer.
            bindE (envelope_mapping (py_get envelope ''signature'')) (\<lambda>signature.
            bindE (payload_dict raw_payload) (\<lambda>payload.
            bindE (envelope_timestamp payload ''issued_at'') (\<lambda>issued_at.
            bindE (envelope_timestamp payload ''expires_at'') (\<lambda>expires_at.
            if expires_at \<le> issued_at \<or> received_at < issued_at \<or> expires_at < received_at
            then refuse_signature TIME_INVALID ''Offline signature envelope is not currently valid.''
            else
              bindE (pinned_chain lib roots signer received_at) (\<lambda>(leaf, root).
              bindE (envelope_string signer ''certificate_sha256'') (\<lambda>signer_claim.
              bindE (envelope_string signature ''certificate_sha256'') (\<lambda>signature_claim.
              bindE (check_claims (ct_fingerprint leaf) [signer_claim, signature_claim]) (\<lambda>_.
              bindE (verify_revocation (ct_fingerprint leaf) received_at revocation) (\<lambda>_.
              bindE (envelope_string payload ''organization_id'') (\<lambda>organization_id.
              bindE (envelope_string payload ''asset_id'') (\<lambda>asset_id.
              bindE (verify_subject leaf organization_id asset_id) (\<lambda>_.
              bindE (check_signature lib dumps sha256 leaf signature payload) (\<lambda>payload_sha256.
              bindE (envelope_string signature ''key_id'') (\<lambda>key_id.
              Inr (payload, \<lparr>vs_organization_id = organization_id, vs_asset_id = asset_id,
                     vs_certificate_sha256 = ct_fingerprint leaf,
                     vs_trust_anchor_sha256 = ct_fingerprint root, vs_key_id = key_id,
                     vs_payload_sha256 = payload_sha256, vs_assurance_level = ''MEDIUM''\<rparr>)))))))))))))))))))"

end
