(* ===== verification/Offline_Submission.thy ===== *)
theory Offline_Submission
  imports Offline_Signature Online_Submission
begin

section \<open>Offline submission (\<^verbatim>\<open>application/offline_submission.py\<close>)\<close>

text \<open>
  A package that reaches the server on a medium, signed by the collector or handed in by a user.  The
  state is the set of used nonces; the commit tests and adds under one lock, and validation comes
  before it.  The receipt id is drawn outside.
\<close>

subsection \<open>Data\<close>

datatype offline_code =
    USER_AUTH_REQUIRED | CSRF_REQUIRED | USER_SCOPE_MISMATCH | PROFILE_MISMATCH | SIGNED_SCOPE_MISMATCH
  | NONCE_COMMITTED

datatype offline_failure =
    OfflineSubmissionError offline_code string
  | SignatureRejected signature_failure
  | OfflinePackageRejected package_failure
  | OfflineInterpreterError py_error

record user_context =
  uc_authenticated_subject_id :: string
  uc_organization_id :: string
  uc_asset_id :: string
  uc_job_id :: string
  uc_received_at :: int
  uc_session_active :: bool
  uc_csrf_verified :: bool
  uc_authorized_for_asset :: bool

text \<open>\<open>__post_init__\<close>; the instant is aware, as it insists on.\<close>

definition user_context_admitted :: "user_context \<Rightarrow> bool" where
  "user_context_admitted user \<longleftrightarrow>
     list_all (\<lambda>v. uuid_parse v \<noteq> None)
       [uc_authenticated_subject_id user, uc_organization_id user, uc_asset_id user, uc_job_id user]"

record offline_receipt =
  or_receipt_id :: string
  or_profile :: string
  or_assurance_level :: string
  or_organization_id :: string
  or_asset_id :: string
  or_job_id :: string
  or_package_id :: string
  or_archive_sha256 :: string
  or_committed_at :: int
  or_authenticated_subject_id :: "string option"
  or_certificate_sha256 :: "string option"

record accepted_offline =
  ao_validated_package :: validated_package
  ao_receipt :: offline_receipt
  ao_official_finding_created :: bool

type_synonym replay_store = "(string \<times> string \<times> string \<times> string) set"

type_synonym 'a offline_op = "(replay_store, offline_failure, 'a) op"

definition offline_error :: "offline_code \<Rightarrow> string \<Rightarrow> 'a offline_op" where
  "offline_error code message = op_raise (OfflineSubmissionError code message)"

definition signature_step :: "'a signature_result \<Rightarrow> 'a offline_op" where
  "signature_step m =
     (case m of
        Inl (Raised e) \<Rightarrow> op_raise (SignatureRejected e)
      | Inl (PyError p) \<Rightarrow> op_raise (OfflineInterpreterError p)
      | Inr x \<Rightarrow> op_return x)"

definition package_step :: "'a package_result \<Rightarrow> 'a offline_op" where
  "package_step m =
     (case m of
        Inl (Raised e) \<Rightarrow> op_raise (OfflinePackageRejected e)
      | Inl (PyError p) \<Rightarrow> op_raise (OfflineInterpreterError p)
      | Inr x \<Rightarrow> op_return x)"

subsection \<open>Replay store\<close>

text \<open>What a submission commits: its scope, its path and who vouches for it.\<close>

record submission_terms =
  tm_profile :: string
  tm_assurance_level :: string
  tm_organization_id :: string
  tm_asset_id :: string
  tm_job_id :: string
  tm_endpoint_id :: string
  tm_nonce :: string
  tm_received_at :: int
  tm_authentication_kind :: authentication_kind
  tm_authenticated_subject_id :: "string option"
  tm_certificate_sha256 :: "string option"

definition replay_key :: "submission_terms \<Rightarrow> string \<times> string \<times> string \<times> string" where
  "replay_key terms = (tm_organization_id terms, tm_asset_id terms, tm_job_id terms, tm_nonce terms)"

definition offline_receipt_for ::
  "string \<Rightarrow> submission_terms \<Rightarrow> string \<Rightarrow> string \<Rightarrow> offline_receipt" where
  "offline_receipt_for receipt_id terms package_id archive_sha256 =
     \<lparr>or_receipt_id = receipt_id, or_profile = tm_profile terms, or_assurance_level = tm_assurance_level terms,
      or_organization_id = tm_organization_id terms, or_asset_id = tm_asset_id terms, or_job_id = tm_job_id terms,
      or_package_id = package_id, or_archive_sha256 = archive_sha256, or_committed_at = tm_received_at terms,
      or_authenticated_subject_id = tm_authenticated_subject_id terms,
      or_certificate_sha256 = tm_certificate_sha256 terms\<rparr>"

definition replay_commit ::
  "string \<Rightarrow> submission_terms \<Rightarrow> string \<Rightarrow> string \<Rightarrow> offline_receipt offline_op" where
  "replay_commit receipt_id terms package_id archive_sha256 =
     op_bind (op_read (\<lambda>used. replay_key terms \<in> used)) (\<lambda>replayed.
     if replayed then offline_error NONCE_COMMITTED ''Offline submission nonce was already committed.''
     else
       op_bind (op_write (insert (replay_key terms))) (\<lambda>_.
         op_return (offline_receipt_for receipt_id terms package_id archive_sha256)))"

subsection \<open>Access\<close>

definition offline_mapping :: "pyval \<Rightarrow> dict package_result" where
  "offline_mapping value =
     (case value of PDict d \<Rightarrow> Inr d | _ \<Rightarrow> reject descriptor_semantic ''Offline package object is invalid.'')"

definition offline_string :: "dict \<Rightarrow> string \<Rightarrow> string package_result" where
  "offline_string value key =
     (case py_get value key of
        PStr s \<Rightarrow> Inr s
      | _ \<Rightarrow> reject descriptor_semantic ''Offline package field is invalid.'')"

definition offline_descriptor :: "nat \<Rightarrow> string \<Rightarrow> dict package_result" where
  "offline_descriptor depth descriptor_bytes =
     bindE (load_strict_json depth descriptor_bytes True) offline_mapping"

subsection \<open>Validation and commit\<close>

record package_upload =
  up_archive_path :: archive_file
  up_descriptor_bytes :: string
  up_trusted_manifest :: dict
  up_verifications :: external_verifications

definition terms_context :: "submission_terms \<Rightarrow> validation_context" where
  "terms_context terms =
     \<lparr>vc_organization_id = tm_organization_id terms, vc_asset_id = tm_asset_id terms,
      vc_job_id = tm_job_id terms, vc_endpoint_id = tm_endpoint_id terms, vc_received_at = tm_received_at terms\<rparr>"

definition validate_and_commit ::
  "package_gate \<Rightarrow> package_upload \<Rightarrow> submission_terms \<Rightarrow> string \<Rightarrow> accepted_offline offline_op" where
  "validate_and_commit validate upload terms receipt_id =
     op_bind (package_step (validate (up_archive_path upload) (up_descriptor_bytes upload)
        (up_trusted_manifest upload) (terms_context terms)
        (gates_for (up_verifications upload) (tm_nonce terms) (tm_authentication_kind terms)))) (\<lambda>validated.
     if vp_authentication_profile validated \<noteq> tm_profile terms
     then offline_error PROFILE_MISMATCH ''Validated Package profile differs from the submission path.''
     else
       op_bind (replay_commit receipt_id terms (vp_package_id validated)
          (pi_archive_sha256 (vp_inspection validated))) (\<lambda>receipt.
       op_return \<lparr>ao_validated_package = validated, ao_receipt = receipt, ao_official_finding_created = False\<rparr>))"

subsection \<open>Signed packages\<close>

text \<open>A field of the payload and the field of the descriptor, or of its archive, that it must repeat.\<close>

fun read_pairs :: "(string \<times> dict \<times> string) list \<Rightarrow> (string \<times> string) list package_result" where
  "read_pairs [] = Inr []"
| "read_pairs ((key, source, field) # others) =
     bindE (offline_string source field) (\<lambda>expected.
     bindE (read_pairs others) (\<lambda>pairs. Inr ((key, expected) # pairs)))"

fun pairs_differ :: "dict \<Rightarrow> (string \<times> string) list \<Rightarrow> bool package_result" where
  "pairs_differ payload [] = Inr False"
| "pairs_differ payload ((key, expected) # pairs) =
     bindE (offline_string payload key) (\<lambda>value. if value \<noteq> expected then Inr True else pairs_differ payload pairs)"

definition binding_fields :: "dict \<Rightarrow> dict \<Rightarrow> (string \<times> dict \<times> string) list" where
  "binding_fields descriptor archive =
     [(''asset_id'', descriptor, ''asset_id''), (''job_id'', descriptor, ''job_id''),
      (''manifest_id'', descriptor, ''manifest_id''), (''manifest_sha256'', descriptor, ''manifest_hash''),
      (''nonce'', descriptor, ''nonce''), (''execution_attempt_id'', descriptor, ''execution_attempt_id''),
      (''package_id'', descriptor, ''id''), (''archive_sha256'', archive, ''archive_sha256''),
      (''content_set_sha256'', archive, ''content_set_sha256'')]"

text \<open>The profile of the descriptor and its signature; \<open>dict == dict\<close> is equality of JSON objects.\<close>

definition signed_profile_ok :: "dict \<Rightarrow> dict \<Rightarrow> bool package_result" where
  "signed_profile_ok descriptor_auth envelope_signature =
     bindE (offline_mapping (py_get descriptor_auth ''signature'')) (\<lambda>descriptor_signature.
     bindE (offline_string descriptor_auth ''profile'') (\<lambda>profile.
     if profile \<noteq> ''OFFLINE-SIGNED'' then Inr False
     else
       bindE (offline_string descriptor_auth ''assurance_level'') (\<lambda>level.
       Inr (level \<in> {''HIGH'', ''MEDIUM''} \<and> py_eq (PDict descriptor_signature) (PDict envelope_signature)))))"

text \<open>The payload against the trusted manifest; the tests stop at the first that fails.\<close>

definition manifest_bound :: "dict \<Rightarrow> dict \<Rightarrow> verified_signer \<Rightarrow> bool package_result" where
  "manifest_bound manifest payload signer =
     bindE (offline_string manifest ''id'') (\<lambda>manifest_id.
     bindE (offline_string payload ''manifest_id'') (\<lambda>payload_manifest.
     if manifest_id \<noteq> payload_manifest then Inr False
     else
       bindE (offline_string manifest ''manifest_content_sha256'') (\<lambda>content_sha256.
       bindE (offline_string payload ''manifest_sha256'') (\<lambda>payload_sha256.
       case compare_digest content_sha256 payload_sha256 of
         Inl p \<Rightarrow> Inl (PyError p)
       | Inr same \<Rightarrow>
           if \<not> same then Inr False
           else
             bindE (offline_string manifest ''asset_id'') (\<lambda>asset_id.
             if asset_id \<noteq> vs_asset_id signer then Inr False
             else
               bindE (offline_string manifest ''job_id'') (\<lambda>job_id.
               bindE (offline_string payload ''job_id'') (\<lambda>payload_job. Inr (job_id = payload_job))))))))"

definition verify_signed_binding ::
  "nat \<Rightarrow> dict \<Rightarrow> verified_signer \<Rightarrow> dict \<Rightarrow> dict \<Rightarrow> string \<Rightarrow> unit offline_op" where
  "verify_signed_binding depth payload signer descriptor manifest envelope_bytes =
     op_bind (package_step (bindE (load_strict_json depth envelope_bytes True) offline_mapping)) (\<lambda>envelope.
     op_bind (package_step (offline_mapping (py_get descriptor ''authentication''))) (\<lambda>descriptor_auth.
     op_bind (package_step (offline_mapping (py_get envelope ''signature''))) (\<lambda>envelope_signature.
     op_bind (package_step (signed_profile_ok descriptor_auth envelope_signature)) (\<lambda>consistent.
     if \<not> consistent
     then offline_error PROFILE_MISMATCH ''Signed package authentication envelope is inconsistent.''
     else
       op_bind (package_step (offline_mapping (py_get descriptor ''archive''))) (\<lambda>archive.
       op_bind (package_step (read_pairs (binding_fields descriptor archive))) (\<lambda>expected.
       op_bind (package_step (pairs_differ payload expected)) (\<lambda>differ.
       if differ
       then offline_error SIGNED_SCOPE_MISMATCH ''Offline signature payload is not bound to this Package.''
       else
         op_bind (package_step (manifest_bound manifest payload signer)) (\<lambda>bound.
         if \<not> bound
         then offline_error SIGNED_SCOPE_MISMATCH
                ''Offline signature payload is not bound to the trusted Manifest.''
         else op_return ()))))))))"

type_synonym envelope_verifier =
  "string \<Rightarrow> moment \<Rightarrow> revocation_verification \<Rightarrow> (dict \<times> verified_signer) signature_result"

definition endpoint_of :: "dict \<Rightarrow> string package_result" where
  "endpoint_of manifest =
     bindE (offline_mapping (py_get manifest ''submission'')) (\<lambda>submission. offline_string submission ''endpoint_id'')"

definition submit_signed ::
  "nat \<Rightarrow> package_gate \<Rightarrow> envelope_verifier \<Rightarrow> package_upload \<Rightarrow> string \<Rightarrow> moment \<Rightarrow> revocation_verification \<Rightarrow>
     string \<Rightarrow> accepted_offline offline_op" where
  "submit_signed depth validate verify upload envelope_bytes received revocation receipt_id =
     op_bind (signature_step (verify envelope_bytes received revocation)) (\<lambda>(payload, signer).
     op_bind (package_step (offline_descriptor depth (up_descriptor_bytes upload))) (\<lambda>descriptor.
     op_bind (verify_signed_binding depth payload signer descriptor (up_trusted_manifest upload) envelope_bytes) (\<lambda>_.
     op_bind (package_step (offline_string payload ''job_id'')) (\<lambda>job_id.
     op_bind (package_step (endpoint_of (up_trusted_manifest upload))) (\<lambda>endpoint_id.
     op_bind (package_step (offline_string payload ''nonce'')) (\<lambda>nonce.
     case received of
       Naive _ \<Rightarrow> op_raise (OfflineInterpreterError ValueError)
     | Aware received_at \<Rightarrow>
         validate_and_commit validate upload
           \<lparr>tm_profile = ''OFFLINE-SIGNED'', tm_assurance_level = vs_assurance_level signer,
            tm_organization_id = vs_organization_id signer, tm_asset_id = vs_asset_id signer,
            tm_job_id = job_id, tm_endpoint_id = endpoint_id, tm_nonce = nonce, tm_received_at = received_at,
            tm_authentication_kind = OFFLINE_SIGNATURE, tm_authenticated_subject_id = None,
            tm_certificate_sha256 = Some (vs_certificate_sha256 signer)\<rparr> receipt_id))))))"

subsection \<open>Packages handed in by a user\<close>

fun fields_equal :: "(dict \<times> string \<times> string) list \<Rightarrow> bool package_result" where
  "fields_equal [] = Inr True"
| "fields_equal ((source, key, expected) # others) =
     bindE (offline_string source key) (\<lambda>value. if value \<noteq> expected then Inr False else fields_equal others)"

definition user_profile_ok :: "dict \<Rightarrow> bool package_result" where
  "user_profile_ok descriptor_auth =
     fields_equal [(descriptor_auth, ''profile'', ''OFFLINE-USER-SUBMITTED''),
                   (descriptor_auth, ''assurance_level'', ''LOW'')]"

definition submit_user ::
  "nat \<Rightarrow> package_gate \<Rightarrow> package_upload \<Rightarrow> user_context \<Rightarrow> string \<Rightarrow> accepted_offline offline_op" where
  "submit_user depth validate upload user receipt_id =
     (if \<not> uc_session_active user
      then offline_error USER_AUTH_REQUIRED ''An active authenticated session is required.''
      else if \<not> uc_csrf_verified user then offline_error CSRF_REQUIRED ''CSRF verification is required.''
      else
        op_bind (package_step (offline_descriptor depth (up_descriptor_bytes upload))) (\<lambda>descriptor.
        op_bind (package_step (offline_mapping (py_get descriptor ''authentication''))) (\<lambda>descriptor_auth.
        op_bind (package_step (user_profile_ok descriptor_auth)) (\<lambda>profile_ok.
        if \<not> profile_ok
        then offline_error PROFILE_MISMATCH ''User-submitted package profile is invalid.''
        else
          op_bind (package_step (if \<not> uc_authorized_for_asset user then Inr False
              else fields_equal [(descriptor, ''asset_id'', uc_asset_id user), (descriptor, ''job_id'', uc_job_id user),
                     (up_trusted_manifest upload, ''asset_id'', uc_asset_id user),
                     (up_trusted_manifest upload, ''job_id'', uc_job_id user)])) (\<lambda>in_scope.
          if \<not> in_scope
          then offline_error USER_SCOPE_MISMATCH
                 ''Authenticated user is not authorized for this Asset and Job.''
          else
            op_bind (package_step (endpoint_of (up_trusted_manifest upload))) (\<lambda>endpoint_id.
            op_bind (package_step (offline_string descriptor ''nonce'')) (\<lambda>nonce.
            validate_and_commit validate upload
              \<lparr>tm_profile = ''OFFLINE-USER-SUBMITTED'', tm_assurance_level = ''LOW'',
               tm_organization_id = uc_organization_id user, tm_asset_id = uc_asset_id user,
               tm_job_id = uc_job_id user, tm_endpoint_id = endpoint_id, tm_nonce = nonce,
               tm_received_at = uc_received_at user, tm_authentication_kind = OFFLINE_SUBMITTER,
               tm_authenticated_subject_id = Some (uc_authenticated_subject_id user),
               tm_certificate_sha256 = None\<rparr> receipt_id)))))))"

subsection \<open>Requests\<close>

text \<open>Both entries of the service as one request.\<close>

datatype offline_request =
    SignedUpload package_upload string moment revocation_verification
  | UserUpload package_upload user_context

definition upload_of :: "offline_request \<Rightarrow> package_upload" where
  "upload_of request = (case request of SignedUpload u _ _ _ \<Rightarrow> u | UserUpload u _ \<Rightarrow> u)"

definition submit_offline ::
  "nat \<Rightarrow> package_gate \<Rightarrow> envelope_verifier \<Rightarrow> offline_request \<Rightarrow> string \<Rightarrow> accepted_offline offline_op" where
  "submit_offline depth validate verify request receipt_id =
     (case request of
        SignedUpload upload envelope received revocation \<Rightarrow>
          submit_signed depth validate verify upload envelope received revocation receipt_id
      | UserUpload upload user \<Rightarrow> submit_user depth validate upload user receipt_id)"

end
