(* ===== verification/Submission_Sample.thy ===== *)
theory Submission_Sample
  imports Package_Sample Offline_Submission
begin

section \<open>A sample of each submission\<close>

text \<open>
  The signed variant of the sample package with its certificates and envelope, and the online variant
  with a credential for it.  Signatures of the sample are the key followed by the first byte.
\<close>

subsection \<open>Signed\<close>

definition sample_root :: certificate where
  "sample_root =
     \<lparr>ct_der = ''R'', ct_fingerprint = sample_hash ''bb'', ct_subject = ''CN=root'', ct_issuer = ''CN=root'',
      ct_organizations = [''o''], ct_public_key = Ed25519Key ''rk'', ct_signature = ''rkt'', ct_tbs_bytes = ''tbs'',
      ct_not_before = 0, ct_not_after = 2 ^ 60, ct_basic_constraints_ca = Extension True,
      ct_digital_signature = Extension False, ct_key_cert_sign = Extension True,
      ct_extended_key_usage = ExtensionNotFound, ct_alternative_uris = ExtensionNotFound\<rparr>"

definition sample_leaf :: certificate where
  "sample_leaf =
     \<lparr>ct_der = ''L'', ct_fingerprint = sample_hash ''aa'', ct_subject = ''CN=leaf'', ct_issuer = ''CN=root'',
      ct_organizations = [''o''], ct_public_key = Ed25519Key ''lk'', ct_signature = ''rku'', ct_tbs_bytes = ''ubs'',
      ct_not_before = 0, ct_not_after = 2 ^ 60, ct_basic_constraints_ca = Extension False,
      ct_digital_signature = Extension True, ct_key_cert_sign = Extension False,
      ct_extended_key_usage = Extension [offline_package_eku_oid],
      ct_alternative_uris = Extension [''urn:secai:asset:a'']\<rparr>"

definition sample_x509 :: x509_library where
  "sample_x509 =
     \<lparr>xl_load = (\<lambda>der. if der = ''L'' then Some sample_leaf else if der = ''R'' then Some sample_root else None),
      xl_verify = (\<lambda>key signature data. signature = key @ take 1 data)\<rparr>"

definition sample_envelope :: dict where
  "sample_envelope =
     [(''payload'', PDict sample_payload),
      (''signer'', PDict [(''leaf_certificate_der_base64url'', PStr ''TA''),
         (''chain_der_base64url'', PList [PStr ''Ug'']), (''certificate_sha256'', PStr (sample_hash ''aa''))]),
      (''signature'', PDict sample_signature)]"

definition sample_schemas :: schema_catalog where
  "sample_schemas =
     \<lparr>sc_registered = [''offline_signature_envelope.schema.json''], sc_check = (\<lambda>_ _. Conforms)\<rparr>"

definition sample_received :: int where
  "sample_received = vc_received_at sample_context"

definition sample_revocation :: revocation_verification where
  "sample_revocation =
     \<lparr>rv_status = GOOD, rv_certificate_sha256 = sample_hash ''aa'', rv_checked_at = sample_received - 1,
      rv_source_version = ''crl-1''\<rparr>"

definition sample_signer :: verified_signer where
  "sample_signer =
     \<lparr>vs_organization_id = ''o'', vs_asset_id = ''a'', vs_certificate_sha256 = sample_hash ''aa'',
      vs_trust_anchor_sha256 = sample_hash ''bb'', vs_key_id = ''k'', vs_payload_sha256 = sample_hash ''c5'',
      vs_assurance_level = ''MEDIUM''\<rparr>"

definition sample_verifier :: envelope_verifier where
  "sample_verifier = verify_offline 4 sample_schemas sample_x509 sample_dumps sample_digest [sample_root]"

definition sample_upload :: package_upload where
  "sample_upload =
     \<lparr>up_archive_path = Some ''PK'', up_descriptor_bytes = json_text (PDict sample_descriptor),
      up_trusted_manifest = sample_manifest, up_verifications = sample_external\<rparr>"

definition sample_request :: offline_request where
  "sample_request =
     SignedUpload sample_upload (json_text (PDict sample_envelope)) (Aware sample_received) sample_revocation"

lemma sample_envelope_reads:
  "load_strict_json 4 (json_text (PDict sample_envelope)) True = Inr (PDict sample_envelope)"
  by (rule object_text_reads) code_simp+

lemma sample_envelope_size: "\<not> max_offline_envelope_bytes < int (length (json_text (PDict sample_envelope)))"
  by code_simp

lemma sample_envelope_loads:
  "load_envelope 4 sample_schemas (json_text (PDict sample_envelope)) = Inr sample_envelope"
  by (simp add: load_envelope_def sample_envelope_reads schema_validate_def sample_schemas_def del: json_text.simps)

definition sample_signer_claims :: dict where
  "sample_signer_claims =
     [(''leaf_certificate_der_base64url'', PStr ''TA''), (''chain_der_base64url'', PList [PStr ''Ug'']),
      (''certificate_sha256'', PStr (sample_hash ''aa''))]"

lemma sample_chain:
  "pinned_chain sample_x509 [sample_root] sample_signer_claims sample_received = Inr (sample_leaf, sample_root)"
  by code_simp

lemma sample_claims:
  "check_claims (ct_fingerprint sample_leaf) [sample_hash ''aa'', sample_hash ''aa''] = Inr ()"
  "verify_revocation (ct_fingerprint sample_leaf) sample_received sample_revocation = Inr ()"
  "verify_subject sample_leaf ''o'' ''a'' = Inr ()"
  by code_simp+

lemma sample_payload_digest: "sample_digest (json_text (PDict sample_payload)) = sample_hash ''c5''"
  by code_simp

lemma sample_signature_parts:
  "decode_base64url ''bGt7'' = Inr ''lk{''" "digests_equal (sample_hash ''c5'') (sample_hash ''c5'') = Inr True"
  by code_simp+

lemma sample_signature_checked:
  "check_signature sample_x509 sample_dumps sample_digest sample_leaf sample_signature sample_payload =
     Inr (sample_hash ''c5'')"
proof -
  have "canonical_bytes sample_dumps (PDict sample_payload) = Inr (json_text (PDict sample_payload))"
    by (simp add: canonical_bytes_def canonicalize_json_def sample_dumps_def del: json_text.simps)
  moreover have "verify_with sample_x509 sample_leaf ''lk{'' (json_text (PDict sample_payload)) = Inr ()"
    by (simp add: verify_with_def ed25519_key_def sample_leaf_def sample_x509_def)
  moreover have "envelope_string sample_signature ''signed_sha256'' = Inr (sample_hash ''c5'')"
    "envelope_string sample_signature ''value'' = Inr ''bGt7''"
    by (simp_all add: envelope_string_def sample_signature_def)
  ultimately show ?thesis
    by (simp add: check_signature_def sample_payload_digest sample_signature_parts on_value_error_def
        del: json_text.simps)
qed

lemma sample_times:
  "envelope_timestamp sample_payload ''issued_at'' = Inr (sample_received - 3600 * 1000000)"
  "envelope_timestamp sample_payload ''expires_at'' = Inr (sample_received + 3600 * 1000000)"
  by code_simp+

lemma sample_verified:
  "sample_verifier (json_text (PDict sample_envelope)) (Aware sample_received) sample_revocation =
     Inr (sample_payload, sample_signer)"
proof -
  have "payload_of sample_envelope = Inr (PDict sample_payload)"
    "envelope_mapping (py_get sample_envelope ''signer'') = Inr sample_signer_claims"
    "envelope_mapping (py_get sample_envelope ''signature'') = Inr sample_signature"
    by (simp_all add: payload_of_def envelope_mapping_def sample_envelope_def sample_signer_claims_def)
  moreover have "envelope_string sample_signer_claims ''certificate_sha256'' = Inr (sample_hash ''aa'')"
    "envelope_string sample_signature ''certificate_sha256'' = Inr (sample_hash ''aa'')"
    "envelope_string sample_signature ''key_id'' = Inr ''k''"
    "envelope_string sample_payload ''organization_id'' = Inr ''o''"
    "envelope_string sample_payload ''asset_id'' = Inr ''a''"
    by (simp_all add: envelope_string_def sample_signer_claims_def sample_signature_def sample_payload_def)
  moreover have "payload_dict (PDict sample_payload) = Inr sample_payload" by (simp add: payload_dict_def)
  moreover have "ct_fingerprint sample_leaf = sample_hash ''aa''" "ct_fingerprint sample_root = sample_hash ''bb''"
    by (simp_all add: sample_leaf_def sample_root_def)
  ultimately show ?thesis
    using sample_claims sample_envelope_size
    by (simp add: sample_verifier_def verify_offline_def sample_envelope_loads sample_times sample_chain
        sample_signature_checked sample_signer_def del: json_text.simps check_claims.simps)
qed

lemma sample_bound:
  "verify_signed_binding 4 sample_payload sample_signer sample_descriptor sample_manifest
     (json_text (PDict sample_envelope)) {} = ({}, Inr ())"
  unfolding verify_signed_binding_def sample_envelope_reads bindE_simps
  by code_simp

lemma sample_profile: "sample_result = Inr vp \<Longrightarrow> vp_authentication_profile vp = ''OFFLINE-SIGNED''"
proof -
  assume "sample_result = Inr vp"
  then obtain descriptor hash limits inspection where f:
    "load_strict_json 4 (json_text (PDict sample_descriptor)) True = Inr (PDict descriptor)"
    "the_validated_package sample_dumps sample_digest descriptor sample_context hash inspection = Inr vp"
    by (rule full_validate_Inr)
  then have "descriptor = sample_descriptor" using sample_descriptor_reads by simp
  then show ?thesis
    using the_validated_package_Inr [OF f(2)]
    by (auto simp: sample_descriptor_def sample_descriptor_for_def)
qed

lemma sample_submitted:
  "is_ok (snd (submit_offline 4 sample_gate sample_verifier sample_request ''r'' {}))"
proof -
  obtain vp where vp: "sample_result = Inr vp" using sample_accepted by (auto simp: is_ok_iff)
  have access: "offline_descriptor 4 (json_text (PDict sample_descriptor)) = Inr sample_descriptor"
    "offline_string sample_payload ''job_id'' = Inr ''j''" "offline_string sample_payload ''nonce'' = Inr ''n''"
    "endpoint_of sample_manifest = Inr ''e''"
    by (simp add: offline_descriptor_def sample_descriptor_reads offline_mapping_def del: json_text.simps)
      (code_simp+)
  have signer: "vs_organization_id sample_signer = ''o''" "vs_asset_id sample_signer = ''a''"
    by (simp_all add: sample_signer_def)
  have same: "\<lparr>vc_organization_id = ''o'', vc_asset_id = ''a'', vc_job_id = ''j'', vc_endpoint_id = ''e'',
      vc_received_at = sample_received\<rparr> = sample_context"
    by (simp add: sample_received_def sample_context_def)
  show ?thesis
    using sample_profile [OF vp] vp
    by (simp add: submit_offline_def sample_request_def submit_signed_def signature_step_def package_step_def
        sample_verified sample_bound sample_upload_def access op_bind_def op_return_def validate_and_commit_def
        terms_context_def signer same sample_gate_def replay_commit_def op_read_def op_write_def
        del: json_text.simps)
qed

subsection \<open>Online\<close>

definition sample_scope :: credential_scope where
  "sample_scope =
     \<lparr>cs_organization_id = ''o'', cs_asset_id = ''a'', cs_job_id = ''j'', cs_manifest_id = ''m'',
      cs_manifest_sha256 = sample_hash ''d9'', cs_nonce = ''n'', cs_endpoint_id = ''e'',
      cs_content_type = ''application/zip'', cs_schema_version = ''1'', cs_max_archive_bytes = 1000\<rparr>"

definition sample_store :: credential_store where
  "sample_store =
     perform_credential id ''v1'' (Issue sample_scope (Aware (sample_received - 10)) 60 ex_id ex_secret) empty_store"

definition sample_token :: string where
  "sample_token = token_text_of ex_id ex_secret"

definition online_request :: submission_request where
  "online_request =
     \<lparr>rq_archive_path = Some ''PK'', rq_stat = Some 2, rq_descriptor_bytes = json_text (PDict online_descriptor),
      rq_trusted_manifest = sample_manifest, rq_content_type = ''application/zip'',
      rq_received = Aware sample_received, rq_verifications = sample_external\<rparr>"

definition sample_record :: credential_record where
  "sample_record =
     \<lparr>cr_credential_id = ex_id, cr_scope = sample_scope, cr_token_hash = sample_token, cr_hash_key_version = ''v1'',
      cr_issued_at = sample_received - 10, cr_expires_at = sample_received + 50, cr_failed_attempts = 0,
      cr_used_at = None, cr_revoked_at = None, cr_receipt_id = None\<rparr>"

lemma sample_stored:
  "st_records sample_store ex_id = Some sample_record" "st_used_nonces sample_store = {}"
  "snd (split_token sample_token sample_store) = Inr ex_id"
  by (simp_all add: sample_store_def issue_def aware_def op_bind_def op_return_def
      max_credential_ttl_def store_insert_def empty_store_def sample_record_def sample_token_def Let_def)
    code_simp

lemma sample_authorized:
  "authorize_credential id sample_token (Aware sample_received) sample_store =
     (sample_store, Inr \<lparr>ac_credential_id = ex_id, ac_scope = sample_scope, ac_expires_at = sample_received + 50\<rparr>)"
proof (rule prod_eqI)
  show "snd (authorize_credential id sample_token (Aware sample_received) sample_store) =
      snd (sample_store, Inr \<lparr>ac_credential_id = ex_id, ac_scope = sample_scope, ac_expires_at = sample_received + 50\<rparr>)"
    using sample_stored by (simp add: authorize_Inr sample_record_def life_of_def max_failed_attempts_def)
  then show "fst (authorize_credential id sample_token (Aware sample_received) sample_store) =
      fst (sample_store, Inr \<lparr>ac_credential_id = ex_id, ac_scope = sample_scope, ac_expires_at = sample_received + 50\<rparr>)"
    using authorize_keeps by simp
qed

lemma online_profile:
  assumes "sample_gate (Some ''PK'') (json_text (PDict online_descriptor)) sample_manifest sample_context
     online_verifications = Inr vp"
  shows "vp_authentication_profile vp = ''ONLINE-AUTHENTICATED''"
proof -
  obtain descriptor hash limits inspection where f:
    "load_strict_json 4 (json_text (PDict online_descriptor)) True = Inr (PDict descriptor)"
    "the_validated_package sample_dumps sample_digest descriptor sample_context hash inspection = Inr vp"
    using assms unfolding sample_gate_def by (rule full_validate_Inr)
  then have "descriptor = online_descriptor" using online_descriptor_reads by simp
  then show ?thesis
    using the_validated_package_Inr [OF f(2)]
    by (auto simp: online_descriptor_def sample_descriptor_for_def)
qed

lemma online_checked:
  "is_ok (snd (check_request 4 sample_gate online_request sample_scope sample_store))"
proof -
  obtain vp where vp: "sample_gate (Some ''PK'') (json_text (PDict online_descriptor)) sample_manifest sample_context
      online_verifications = Inr vp"
    using online_accepted by (auto simp: is_ok_iff)
  have parts: "check_schema_version (PDict online_descriptor) sample_scope = Inr ()"
    "check_size (Some 2) sample_scope sample_store = (sample_store, Inr ())"
    "check_manifest_scope sample_manifest sample_scope sample_store = (sample_store, Inr ())"
    "scope_context sample_scope sample_received = sample_context"
    "cs_content_type sample_scope = ''application/zip''" "cs_nonce sample_scope = ''n''"
    by (simp_all add: check_schema_version_def sample_scope_def online_descriptor_def sample_descriptor_for_def
        check_size_def op_return_def scope_context_def sample_context_def sample_received_def)
      (simp add: Let_def check_manifest_scope_def sample_manifest_def sample_manifest_body_def compare_digest_def op_return_def
        sample_hash_def ascii_text_def list_all_iff)
  show ?thesis
    using vp online_profile [OF vp]
    by (simp add: check_request_def online_request_def package_call_def online_descriptor_reads parts op_bind_def
        op_return_def del: json_text.simps)
qed

lemma online_submitted:
  "is_ok (snd (submit_online 4 sample_gate id sample_token online_request ''r'' sample_store))"
proof -
  obtain vp where "snd (check_request 4 sample_gate online_request sample_scope sample_store) = Inr vp"
    using online_checked by (auto simp: is_ok_iff)
  then have vp: "check_request 4 sample_gate online_request sample_scope sample_store = (sample_store, Inr vp)"
    by (simp add: prod_eq_iff)
  have received: "rq_received online_request = Aware sample_received" by (simp add: online_request_def)
  have "is_ok (snd (commit_credential id sample_token (Aware sample_received) package sha ''r'' sample_store))" for package sha
  proof -
    have "split_token sample_token sample_store = (sample_store, Inr ex_id)"
      using sample_stored(3) by (simp add: prod_eq_iff)
    moreover have "check_record_state sample_record sample_received sample_store = (sample_store, Inr ())"
      by (simp add: prod_eq_iff check_record_Inr sample_record_def life_of_def max_failed_attempts_def)
    moreover have "cr_token_hash sample_record = sample_token" by (simp add: sample_record_def)
    ultimately show ?thesis
      using sample_stored(1,2)
      by (simp add: commit_credential_def store_commit_def op_bind_def aware_def op_return_def store_get_def
          op_read_def op_write_def)
  qed
  then show ?thesis
    using sample_authorized vp
    by (simp add: submit_online_def op_bind_def credential_call_def received op_return_def is_ok_iff
        split: prod.split sum.split) (metis snd_conv sum.distinct(1))
qed

end
