(* ===== verification/Submission_Properties.thy ===== *)
theory Submission_Properties
  imports Submission_Sample
begin

section \<open>Properties of online and offline submission\<close>

text \<open>
  What an accepted submission guarantees: which credential or signature vouches for it, in which
  scope, for which bytes; and that a nonce is committed once.
\<close>

subsection \<open>Signatures\<close>

lemma on_value_error_Inr [simp]: "on_value_error code message m = Inr x \<longleftrightarrow> m = Inr x"
  by (auto simp: on_value_error_def refuse_signature_def raise_error_def split: sum.splits raised.splits if_splits)

lemma refuse_signature_simps [simp]:
  "refuse_signature code message \<noteq> Inr x" "bindE (refuse_signature code message) f = refuse_signature code message"
  by (simp_all add: refuse_signature_def)

lemma if_refuse_Inr:
  "(if c then refuse_signature code message else m) = Inr x \<longleftrightarrow> \<not> c \<and> m = Inr x"
  by simp

lemma signature_access_Inr:
  "envelope_mapping value = Inr d \<longleftrightarrow> value = PDict d"
  "envelope_string m key = Inr s \<longleftrightarrow> py_get m key = PStr s"
  "read_extension e = Inr x \<longleftrightarrow> e = Extension x"
  "ed25519_key c = Inr k \<longleftrightarrow> ct_public_key c = Ed25519Key k"
  "digests_equal a b = Inr True \<longleftrightarrow> a = b \<and> ascii_text a"
  "payload_dict p = Inr d \<longleftrightarrow> p = PDict d"
  by (auto simp: envelope_mapping_def envelope_string_def read_extension_def ed25519_key_def digests_equal_def
      compare_digest_def payload_dict_def split: pyval.splits extension.splits public_key.splits)

lemma verify_with_Inr:
  "verify_with lib c signature data = Inr u \<longleftrightarrow>
     (\<exists>key. ct_public_key c = Ed25519Key key \<and> xl_verify lib key signature data)"
  by (auto simp: verify_with_def bindE_eq_Inr signature_access_Inr)

text \<open>A leaf that a pinned root of the organization has signed for package signing, both valid now.\<close>

definition pinned_signer :: "x509_library \<Rightarrow> trust_store \<Rightarrow> int \<Rightarrow> certificate \<Rightarrow> bool" where
  "pinned_signer lib roots received_at leaf \<longleftrightarrow>
     (\<exists>(root :: certificate) pinned key.
        pinned \<in> set roots \<and> ct_fingerprint pinned = ct_fingerprint root \<and> ct_der pinned = ct_der root \<and>
        ct_public_key root = Ed25519Key key \<and> xl_verify lib key (ct_signature leaf) (ct_tbs_bytes leaf) \<and>
        xl_verify lib key (ct_signature root) (ct_tbs_bytes root) \<and>
        ct_issuer leaf = ct_subject root \<and> ct_issuer root = ct_subject root \<and>
        ct_basic_constraints_ca root = Extension True \<and> ct_key_cert_sign root = Extension True \<and>
        ct_not_before root \<le> received_at \<and> received_at \<le> ct_not_after root) \<and>
     ct_not_before leaf \<le> received_at \<and> received_at \<le> ct_not_after leaf \<and>
     ct_basic_constraints_ca leaf = Extension False \<and> ct_digital_signature leaf = Extension True \<and>
     (\<exists>eku. ct_extended_key_usage leaf = Extension eku \<and> offline_package_eku_oid \<in> set eku)"

lemma verify_chain_Inr:
  assumes "verify_chain lib leaf root received_at = Inr u"
    "map_option ct_der (trusted_root roots (ct_fingerprint root)) = Some (ct_der root)"
  shows "pinned_signer lib roots received_at leaf"
proof -
  obtain pinned where p: "pinned \<in> set roots" "ct_fingerprint pinned = ct_fingerprint root" "ct_der pinned = ct_der root"
    using assms(2) find_SomeD by (force simp: trusted_root_def)
  show ?thesis
    using assms(1) p unfolding verify_chain_def bindE_eq_Inr if_refuse_Inr on_value_error_Inr verify_with_Inr
      signature_access_Inr pinned_signer_def
    by (elim exE conjE) (simp, blast)
qed

lemma pinned_chain_Inr:
  assumes "pinned_chain lib roots signer received_at = Inr (leaf, root)"
  shows "pinned_signer lib roots received_at leaf"
proof -
  obtain root where "verify_chain lib leaf root received_at = Inr ()"
    "map_option ct_der (trusted_root roots (ct_fingerprint root)) = Some (ct_der root)"
    using assms unfolding pinned_chain_def bindE_eq_Inr if_refuse_Inr by auto
  then show ?thesis by (rule verify_chain_Inr)
qed

lemma verify_revocation_Inr:
  assumes "verify_revocation certificate received_at revocation = Inr u"
  shows "rv_status revocation = GOOD \<and> rv_certificate_sha256 revocation = certificate \<and>
    rv_checked_at revocation \<le> received_at \<and> received_at - rv_checked_at revocation \<le> max_revocation_age"
proof -
  obtain same where "digests_equal (rv_certificate_sha256 revocation) certificate = Inr same" "same"
    "rv_checked_at revocation \<le> received_at" "received_at - rv_checked_at revocation \<le> max_revocation_age"
    "rv_status revocation \<noteq> REVOCATION_UNKNOWN" "rv_status revocation \<noteq> IS_REVOKED"
    using assms unfolding verify_revocation_def bindE_eq_Inr if_refuse_Inr by auto
  then show ?thesis by (cases "rv_status revocation") (auto simp: signature_access_Inr)
qed

text \<open>What a verified envelope vouches for.\<close>

definition vouched ::
  "x509_library \<Rightarrow> json_dumps \<Rightarrow> trust_store \<Rightarrow> int \<Rightarrow> revocation_verification \<Rightarrow> dict \<Rightarrow> verified_signer \<Rightarrow> bool" where
  "vouched lib dumps roots received_at revocation payload signer \<longleftrightarrow>
     (\<exists>leaf key bytes signature_bytes.
        pinned_signer lib roots received_at leaf \<and> ct_public_key leaf = Ed25519Key key \<and>
        dumps (PDict payload) = Inr bytes \<and> xl_verify lib key signature_bytes bytes \<and>
        ct_organizations leaf = [vs_organization_id signer] \<and>
        ct_alternative_uris leaf = Extension [''urn:secai:asset:'' @ vs_asset_id signer] \<and>
        ct_fingerprint leaf = vs_certificate_sha256 signer) \<and>
     rv_status revocation = GOOD \<and> rv_certificate_sha256 revocation = vs_certificate_sha256 signer \<and>
     rv_checked_at revocation \<le> received_at \<and> received_at - rv_checked_at revocation \<le> max_revocation_age \<and>
     py_get payload ''organization_id'' = PStr (vs_organization_id signer) \<and>
     py_get payload ''asset_id'' = PStr (vs_asset_id signer) \<and>
     (\<exists>issued expires. envelope_timestamp payload ''issued_at'' = Inr issued \<and>
        envelope_timestamp payload ''expires_at'' = Inr expires \<and>
        issued \<le> received_at \<and> received_at \<le> expires)"

lemma verify_offline_Inr:
  assumes "verify_offline depth schemas lib dumps sha256 roots envelope_bytes received revocation = Inr (payload, signer)"
  obtains t where "received = Aware t" "vouched lib dumps roots t revocation payload signer"
proof -
  obtain t where t: "received = Aware t"
    using assms by (cases received) (simp_all add: verify_offline_def)
  note v = assms [unfolded verify_offline_def t moment.case if_refuse_Inr bindE_eq_Inr signature_access_Inr
      split_paired_Ex prod.case]
  obtain envelope signer_dict signature issued expires leaf root where e:
    "envelope_timestamp payload ''issued_at'' = Inr issued" "envelope_timestamp payload ''expires_at'' = Inr expires"
    "\<not> (expires \<le> issued \<or> t < issued \<or> expires < t)"
    "pinned_chain lib roots signer_dict t = Inr (leaf, root)"
    "verify_revocation (ct_fingerprint leaf) t revocation = Inr ()"
    "py_get payload ''organization_id'' = PStr (vs_organization_id signer)"
    "py_get payload ''asset_id'' = PStr (vs_asset_id signer)"
    "verify_subject leaf (vs_organization_id signer) (vs_asset_id signer) = Inr ()"
    "check_signature lib dumps sha256 leaf signature payload = Inr (vs_payload_sha256 signer)"
    "vs_certificate_sha256 signer = ct_fingerprint leaf"
    using v
    by (elim exE conjE) (simp only: sum.inject prod.inject, elim conjE, hypsubst, rule that, (assumption | simp)+)
  obtain key bytes signature_bytes where s: "ct_public_key leaf = Ed25519Key key" "dumps (PDict payload) = Inr bytes"
    "xl_verify lib key signature_bytes bytes"
    using e(9) unfolding check_signature_def bindE_eq_Inr if_refuse_Inr on_value_error_Inr verify_with_Inr
    by (auto simp: canonical_bytes_def canonicalize_json_def raise_error_def split: sum.splits)
  have "ct_organizations leaf = [vs_organization_id signer] \<and>
      ct_alternative_uris leaf = Extension [''urn:secai:asset:'' @ vs_asset_id signer]"
    using e(8) unfolding verify_subject_def bindE_eq_Inr if_refuse_Inr signature_access_Inr by auto
  then have "vouched lib dumps roots t revocation payload signer"
    using s e(1-3,6,7,10) pinned_chain_Inr [OF e(4)] verify_revocation_Inr [OF e(5)]
    unfolding vouched_def by (intro conjI) (blast | simp)+
  then show ?thesis using t that by blast
qed

subsection \<open>Offline submission\<close>

lemma op_bind_Inr:
  "snd (op_bind m f s) = Inr y \<longleftrightarrow> (\<exists>x. snd (m s) = Inr x \<and> snd (f x (fst (m s))) = Inr y)"
  by (auto simp: op_bind_snd split: sum.splits)

lemma offline_steps [simp]:
  "fst (package_step m used) = used" "snd (package_step m used) = Inr x \<longleftrightarrow> m = Inr x"
  "fst (signature_step s used) = used" "snd (signature_step s used) = Inr y \<longleftrightarrow> s = Inr y"
  "fst (offline_error code message used) = used" "snd (offline_error code message used) \<noteq> Inr z"
  by (auto simp: package_step_def signature_step_def offline_error_def op_raise_def op_return_def
      split: sum.splits raised.splits)

lemma offline_ops [simp]:
  "snd (op_raise e used) \<noteq> Inr x" "fst (op_raise e used) = used"
  "snd (op_return y used) = Inr x \<longleftrightarrow> y = x" "fst (op_return y used) = used"
  by (auto simp: op_raise_def op_return_def)

lemma if_offline_error:
  "snd ((if c then offline_error code message else m) used) = Inr x \<longleftrightarrow> \<not> c \<and> snd (m used) = Inr x"
  by simp

lemma offline_access_Inr:
  "offline_mapping value = Inr d \<longleftrightarrow> value = PDict d"
  "offline_string m key = Inr s \<longleftrightarrow> py_get m key = PStr s"
  by (auto simp: offline_mapping_def offline_string_def split: pyval.splits)

lemma validate_and_commit_Inr:
  assumes "snd (validate_and_commit validate upload terms receipt_id used) = Inr accepted"
  shows "validate (up_archive_path upload) (up_descriptor_bytes upload) (up_trusted_manifest upload)
      (terms_context terms) (gates_for (up_verifications upload) (tm_nonce terms) (tm_authentication_kind terms)) =
      Inr (ao_validated_package accepted) \<and>
    vp_authentication_profile (ao_validated_package accepted) = tm_profile terms \<and>
    replay_key terms \<notin> used \<and>
    fst (validate_and_commit validate upload terms receipt_id used) = insert (replay_key terms) used \<and>
    ao_receipt accepted = offline_receipt_for receipt_id terms (vp_package_id (ao_validated_package accepted))
      (pi_archive_sha256 (vp_inspection (ao_validated_package accepted)))"
proof -
  let ?m = "validate (up_archive_path upload) (up_descriptor_bytes upload) (up_trusted_manifest upload)
      (terms_context terms) (gates_for (up_verifications upload) (tm_nonce terms) (tm_authentication_kind terms))"
  obtain vp where vp: "?m = Inr vp" "vp_authentication_profile vp = tm_profile terms"
    using assms unfolding validate_and_commit_def op_bind_Inr if_offline_error by auto
  then have "package_step ?m used = (used, Inr vp)" by (simp add: package_step_def op_return_def)
  then show ?thesis
    using assms vp unfolding validate_and_commit_def replay_commit_def
    by (auto simp: op_bind_def op_read_def op_write_def op_return_def offline_error_def op_raise_def split: if_splits)
qed

lemma validate_and_commit_grows: "used \<subseteq> fst (validate_and_commit validate upload terms receipt_id used)"
  unfolding validate_and_commit_def replay_commit_def
  by (auto simp: op_bind_fst op_read_def op_write_def op_return_def op_raise_def offline_error_def split: sum.split)

lemma read_pairs_Inr:
  "read_pairs table = Inr pairs \<longleftrightarrow>
     list_all2 (\<lambda>(key, source, field) (key', expected). key' = key \<and> py_get source field = PStr expected) table pairs"
  by (induction table arbitrary: pairs rule: read_pairs.induct)
    (auto simp: bindE_eq_Inr offline_access_Inr list_all2_Cons1)

lemma pairs_differ_False:
  "pairs_differ payload pairs = Inr False \<longleftrightarrow> (\<forall>(key, expected)\<in>set pairs. py_get payload key = PStr expected)"
  by (induction pairs rule: pairs_differ.induct) (auto simp: bindE_eq_Inr offline_access_Inr)

lemma fields_equal_True:
  "fields_equal table = Inr True \<longleftrightarrow> (\<forall>(source, key, expected)\<in>set table. py_get source key = PStr expected)"
  by (induction table rule: fields_equal.induct) (auto simp: bindE_eq_Inr offline_access_Inr)

lemma bound_fields:
  assumes "read_pairs table = Inr pairs" "pairs_differ payload pairs = Inr False" "(key, source, field) \<in> set table"
  shows "py_get payload key = py_get source field \<and> (\<exists>s. py_get source field = PStr s)"
proof -
  from assms(1,3) obtain expected where "(key, expected) \<in> set pairs" "py_get source field = PStr expected"
    unfolding read_pairs_Inr list_all2_conv_all_nth in_set_conv_nth by fastforce
  then show ?thesis using assms(2) unfolding pairs_differ_False by auto
qed

text \<open>The payload of the signature repeats what descriptor and manifest say.\<close>

definition payload_bound :: "dict \<Rightarrow> dict \<Rightarrow> dict \<Rightarrow> bool" where
  "payload_bound payload descriptor manifest \<longleftrightarrow>
     (\<forall>(key, field)\<in>{(''asset_id'', ''asset_id''), (''job_id'', ''job_id''), (''manifest_id'', ''manifest_id''),
        (''manifest_sha256'', ''manifest_hash''), (''nonce'', ''nonce''), (''package_id'', ''id''),
        (''execution_attempt_id'', ''execution_attempt_id'')}. py_get payload key = py_get descriptor field) \<and>
     (\<exists>archive. py_get descriptor ''archive'' = PDict archive \<and>
        py_get payload ''archive_sha256'' = py_get archive ''archive_sha256'' \<and>
        py_get payload ''content_set_sha256'' = py_get archive ''content_set_sha256'') \<and>
     py_get payload ''manifest_id'' = py_get manifest ''id'' \<and>
     py_get payload ''manifest_sha256'' = py_get manifest ''manifest_content_sha256''"

lemma verify_signed_binding_Inr:
  assumes "snd (verify_signed_binding depth payload signer descriptor manifest envelope_bytes used) = Inr u"
  shows "payload_bound payload descriptor manifest"
proof -
  obtain archive pairs where b: "py_get descriptor ''archive'' = PDict archive"
    "read_pairs (binding_fields descriptor archive) = Inr pairs" "pairs_differ payload pairs = Inr False"
    "manifest_bound manifest payload signer = Inr True"
    using assms unfolding verify_signed_binding_def op_bind_Inr if_offline_error offline_steps offline_access_Inr
    by (elim exE conjE) simp
  note f = bound_fields [OF b(2,3)]
  have "py_get manifest ''id'' = py_get payload ''manifest_id''"
    "py_get manifest ''manifest_content_sha256'' = py_get payload ''manifest_sha256''"
    using b(4) unfolding manifest_bound_def bindE_eq_Inr offline_access_Inr
    by (auto simp: compare_digest_def bindE_eq_Inr offline_access_Inr split: if_splits)
  then show ?thesis
    using b(1) f unfolding payload_bound_def binding_fields_def by auto
qed

lemma fst_simple [simp]:
  "fst (verify_signed_binding depth payload signer descriptor manifest envelope_bytes used) = used"
  by (simp add: verify_signed_binding_def op_bind_fst split: sum.split)

lemma submit_signed_Inr:
  assumes "snd (submit_signed depth validate verify upload envelope_bytes received revocation receipt_id used) = Inr accepted"
  obtains t payload signer descriptor terms where "received = Aware t"
    "verify envelope_bytes received revocation = Inr (payload, signer)"
    "load_strict_json depth (up_descriptor_bytes upload) True = Inr (PDict descriptor)"
    "payload_bound payload descriptor (up_trusted_manifest upload)"
    "tm_profile terms = ''OFFLINE-SIGNED''" "tm_organization_id terms = vs_organization_id signer"
    "tm_asset_id terms = vs_asset_id signer" "py_get payload ''job_id'' = PStr (tm_job_id terms)"
    "py_get payload ''nonce'' = PStr (tm_nonce terms)" "tm_received_at terms = t"
    "tm_certificate_sha256 terms = Some (vs_certificate_sha256 signer)"
    "snd (validate_and_commit validate upload terms receipt_id used) = Inr accepted"
    "fst (submit_signed depth validate verify upload envelope_bytes received revocation receipt_id used) =
       fst (validate_and_commit validate upload terms receipt_id used)"
proof -
  obtain t where t: "received = Aware t"
    using assms unfolding submit_signed_def op_bind_Inr by (cases received) (auto simp: split_def op_bind_Inr)
  obtain payload signer descriptor job endpoint nonce where s:
    "verify envelope_bytes received revocation = Inr (payload, signer)"
    "offline_descriptor depth (up_descriptor_bytes upload) = Inr descriptor"
    "snd (verify_signed_binding depth payload signer descriptor (up_trusted_manifest upload) envelope_bytes used) = Inr ()"
    "offline_string payload ''job_id'' = Inr job" "endpoint_of (up_trusted_manifest upload) = Inr endpoint"
    "offline_string payload ''nonce'' = Inr nonce"
    using assms unfolding submit_signed_def op_bind_Inr offline_steps split_paired_Ex prod.case fst_simple
    by (elim exE conjE) simp
  let ?terms = "\<lparr>tm_profile = ''OFFLINE-SIGNED'', tm_assurance_level = vs_assurance_level signer,
      tm_organization_id = vs_organization_id signer, tm_asset_id = vs_asset_id signer,
      tm_job_id = job, tm_endpoint_id = endpoint, tm_nonce = nonce, tm_received_at = t,
      tm_authentication_kind = OFFLINE_SIGNATURE, tm_authenticated_subject_id = None,
      tm_certificate_sha256 = Some (vs_certificate_sha256 signer)\<rparr>"
  have bound: "verify_signed_binding depth payload signer descriptor (up_trusted_manifest upload) envelope_bytes used =
      (used, Inr ())"
    by (rule prod_eqI) (simp_all add: s(3))
  have run: "submit_signed depth validate verify upload envelope_bytes received revocation receipt_id used =
      validate_and_commit validate upload ?terms receipt_id used"
    using s(1,2,4-6) t bound
    by (simp add: submit_signed_def op_bind_def package_step_def signature_step_def op_return_def)
  show ?thesis
    by (rule that [where terms = ?terms, OF t s(1) _ verify_signed_binding_Inr [OF s(3)]])
      (use s(2,4,6) run assms in
        \<open>auto simp: offline_access_Inr offline_descriptor_def bindE_eq_Inr\<close>)
qed

lemma submit_user_Inr:
  assumes "snd (submit_user depth validate upload user receipt_id used) = Inr accepted"
  obtains descriptor terms where
    "uc_session_active user" "uc_csrf_verified user" "uc_authorized_for_asset user"
    "load_strict_json depth (up_descriptor_bytes upload) True = Inr (PDict descriptor)"
    "py_get descriptor ''asset_id'' = PStr (uc_asset_id user)" "py_get descriptor ''job_id'' = PStr (uc_job_id user)"
    "tm_profile terms = ''OFFLINE-USER-SUBMITTED''" "tm_organization_id terms = uc_organization_id user"
    "tm_asset_id terms = uc_asset_id user" "tm_job_id terms = uc_job_id user"
    "tm_authenticated_subject_id terms = Some (uc_authenticated_subject_id user)"
    "snd (validate_and_commit validate upload terms receipt_id used) = Inr accepted"
    "fst (submit_user depth validate upload user receipt_id used) =
       fst (validate_and_commit validate upload terms receipt_id used)"
proof -
  obtain descriptor auth endpoint nonce where s: "uc_session_active user" "uc_csrf_verified user"
    "offline_descriptor depth (up_descriptor_bytes upload) = Inr descriptor"
    "offline_mapping (py_get descriptor ''authentication'') = Inr auth" "user_profile_ok auth = Inr True"
    "uc_authorized_for_asset user"
    "fields_equal [(descriptor, ''asset_id'', uc_asset_id user), (descriptor, ''job_id'', uc_job_id user),
       (up_trusted_manifest upload, ''asset_id'', uc_asset_id user),
       (up_trusted_manifest upload, ''job_id'', uc_job_id user)] = Inr True"
    "endpoint_of (up_trusted_manifest upload) = Inr endpoint" "offline_string descriptor ''nonce'' = Inr nonce"
    using assms unfolding submit_user_def op_bind_Inr offline_steps if_offline_error
    by (elim exE conjE) (auto split: if_splits)
  let ?terms = "\<lparr>tm_profile = ''OFFLINE-USER-SUBMITTED'', tm_assurance_level = ''LOW'',
      tm_organization_id = uc_organization_id user, tm_asset_id = uc_asset_id user,
      tm_job_id = uc_job_id user, tm_endpoint_id = endpoint, tm_nonce = nonce,
      tm_received_at = uc_received_at user, tm_authentication_kind = OFFLINE_SUBMITTER,
      tm_authenticated_subject_id = Some (uc_authenticated_subject_id user), tm_certificate_sha256 = None\<rparr>"
  have run: "submit_user depth validate upload user receipt_id used =
      validate_and_commit validate upload ?terms receipt_id used"
    using s by (simp add: submit_user_def op_bind_def package_step_def op_return_def)
  have scope: "py_get descriptor ''asset_id'' = PStr (uc_asset_id user)" "py_get descriptor ''job_id'' = PStr (uc_job_id user)"
    using s(7) unfolding fields_equal_True by auto
  show ?thesis
    by (rule that [where terms = ?terms, OF s(1,2,6) _ scope])
      (use s(3) run assms in \<open>auto simp: offline_access_Inr offline_descriptor_def bindE_eq_Inr\<close>)
qed

subsection \<open>Requests\<close>

inductive offline_reaches ::
  "nat \<Rightarrow> package_gate \<Rightarrow> envelope_verifier \<Rightarrow> replay_store \<Rightarrow> replay_store \<Rightarrow> bool"
  for depth validate verify where
  no_request: "offline_reaches depth validate verify used used"
| one_more:
    "offline_reaches depth validate verify used used' \<Longrightarrow>
     offline_reaches depth validate verify used (fst (submit_offline depth validate verify request receipt_id used'))"

definition grows :: "'a offline_op \<Rightarrow> bool" where
  "grows m \<longleftrightarrow> (\<forall>used. used \<subseteq> fst (m used))"

lemma grows_simps [simp]:
  "grows (package_step p)" "grows (signature_step s)" "grows (offline_error code message)"
  "grows (verify_signed_binding depth payload signer descriptor manifest envelope_bytes)"
  "grows (op_raise e)" "grows (validate_and_commit validate upload terms receipt_id)"
  by (simp_all add: grows_def validate_and_commit_grows)

lemma grows_bind [simp]: "grows m \<Longrightarrow> (\<And>x. grows (f x)) \<Longrightarrow> grows (op_bind m f)"
  unfolding grows_def op_bind_fst by (fastforce split: sum.split)

lemma submit_offline_grows: "grows (submit_offline depth validate verify request receipt_id)"
  by (cases request) (simp_all add: submit_offline_def submit_signed_def submit_user_def split_def split: moment.split)

lemma offline_reaches_grows: "offline_reaches depth validate verify used used' \<Longrightarrow> used \<subseteq> used'"
  by (induction rule: offline_reaches.induct) (use submit_offline_grows [unfolded grows_def] in blast)+

lemma submit_offline_Inr:
  assumes "snd (submit_offline depth validate verify request receipt_id used) = Inr accepted"
  obtains terms where
    "snd (validate_and_commit validate (upload_of request) terms receipt_id used) = Inr accepted"
    "fst (submit_offline depth validate verify request receipt_id used) =
       fst (validate_and_commit validate (upload_of request) terms receipt_id used)"
proof (cases request)
  case (SignedUpload upload envelope received revocation)
  then show ?thesis
    using assms that by (auto simp: submit_offline_def upload_of_def elim!: submit_signed_Inr)
next
  case (UserUpload upload user)
  then show ?thesis
    using assms that by (auto simp: submit_offline_def upload_of_def elim!: submit_user_Inr)
qed

subsection \<open>Properties\<close>

text \<open>
  C23: A nonce is committed once, whichever way its packages come.  After an offline submission was
  accepted, no later one, signed or handed in by a user, after any other submissions, is accepted for
  the same organization, asset and job with a manifest of the same nonce.
\<close>

theorem offline_nonce_commits_once:
  assumes "snd (submit_offline depth (full_validate depth lib dumps sha256 v) verify request receipt_id used) = Inr accepted"
    and "offline_reaches depth (full_validate depth lib dumps sha256 v) verify
      (fst (submit_offline depth (full_validate depth lib dumps sha256 v) verify request receipt_id used)) used'"
    and "py_get (up_trusted_manifest (upload_of request')) ''nonce'' = py_get (up_trusted_manifest (upload_of request)) ''nonce''"
  shows "\<forall>accepted'.
    snd (submit_offline depth (full_validate depth lib dumps sha256 v) verify request' receipt_id' used') = Inr accepted' \<longrightarrow>
    (or_organization_id (ao_receipt accepted'), or_asset_id (ao_receipt accepted'), or_job_id (ao_receipt accepted')) \<noteq>
    (or_organization_id (ao_receipt accepted), or_asset_id (ao_receipt accepted), or_job_id (ao_receipt accepted))"
proof (intro allI impI)
  fix accepted'
  let ?gate = "full_validate depth lib dumps sha256 v"
  assume second: "snd (submit_offline depth ?gate verify request' receipt_id' used') = Inr accepted'"
  obtain terms where one: "snd (validate_and_commit ?gate (upload_of request) terms receipt_id used) = Inr accepted"
    "fst (submit_offline depth ?gate verify request receipt_id used) =
       fst (validate_and_commit ?gate (upload_of request) terms receipt_id used)"
    using assms(1) by (rule submit_offline_Inr)
  obtain terms' where two: "snd (validate_and_commit ?gate (upload_of request') terms' receipt_id' used') = Inr accepted'"
    using second by (rule submit_offline_Inr)
  note facts = validate_and_commit_Inr [OF one(1)] validate_and_commit_Inr [OF two]
  have nonce: "py_get (up_trusted_manifest upload) ''nonce'' = PStr (tm_nonce ts)"
    if "?gate (up_archive_path upload) (up_descriptor_bytes upload) (up_trusted_manifest upload)
      (terms_context ts) (gates_for (up_verifications upload) (tm_nonce ts) kind) = Inr vp" for upload ts kind vp
    using full_validate_bound [OF that] by (auto simp: manifest_scope_def gates_for_def)
  have "replay_key terms \<in> used'"
    using offline_reaches_grows [OF assms(2)] facts(1) one(2) by auto
  then have "replay_key terms' \<noteq> replay_key terms" using facts(2) by auto
  moreover have "tm_nonce terms' = tm_nonce terms"
    using nonce [OF facts(1) [THEN conjunct1]] nonce [OF facts(2) [THEN conjunct1]] assms(3) by simp
  ultimately show "(or_organization_id (ao_receipt accepted'), or_asset_id (ao_receipt accepted'), or_job_id (ao_receipt accepted')) \<noteq>
      (or_organization_id (ao_receipt accepted), or_asset_id (ao_receipt accepted), or_job_id (ao_receipt accepted))"
    using facts by (auto simp: replay_key_def offline_receipt_for_def)
qed

theorem offline_nonce_commits_once_witness:
  "\<exists>accepted. snd (submit_offline 4 sample_gate sample_verifier sample_request ''r'' {}) = Inr accepted \<and>
     (\<forall>accepted'. snd (submit_offline 4 sample_gate sample_verifier sample_request ''s''
         (fst (submit_offline 4 sample_gate sample_verifier sample_request ''r'' {}))) = Inr accepted' \<longrightarrow>
       (or_organization_id (ao_receipt accepted'), or_asset_id (ao_receipt accepted'), or_job_id (ao_receipt accepted')) \<noteq>
       (or_organization_id (ao_receipt accepted), or_asset_id (ao_receipt accepted), or_job_id (ao_receipt accepted)))"
proof -
  obtain accepted where "snd (submit_offline 4 sample_gate sample_verifier sample_request ''r'' {}) = Inr accepted"
    using sample_submitted by (auto simp: is_ok_iff)
  from this offline_nonce_commits_once [OF this [unfolded sample_gate_def] offline_reaches.no_request refl]
  show ?thesis unfolding sample_gate_def by blast
qed

text \<open>
  C22: The signature of an accepted signed package covers the archive that was accepted: a leaf
  certificate under a pinned root, in its validity period, for package signing and not revoked by a
  proof at most a day old, with the organization and the asset of the receipt as its subject, has
  signed a payload that names the SHA-256 of these very bytes and the id of the validated package.
\<close>

theorem signed_submission_covers_archive:
  assumes "snd (submit_offline depth (full_validate depth lib dumps sha256 v)
      (verify_offline depth schemas xlib dumps sha256 roots) (SignedUpload upload envelope received revocation)
      receipt_id used) = Inr accepted"
  shows "\<exists>t payload signer archive.
    received = Aware t \<and> up_archive_path upload = Some archive \<and>
    vouched xlib dumps roots t revocation payload signer \<and>
    py_get payload ''archive_sha256'' = PStr (sha256 archive) \<and>
    py_get payload ''package_id'' = PStr (vp_package_id (ao_validated_package accepted)) \<and>
    or_archive_sha256 (ao_receipt accepted) = sha256 archive \<and>
    or_organization_id (ao_receipt accepted) = vs_organization_id signer \<and>
    or_asset_id (ao_receipt accepted) = vs_asset_id signer \<and>
    or_certificate_sha256 (ao_receipt accepted) = Some (vs_certificate_sha256 signer)"
proof -
  let ?gate = "full_validate depth lib dumps sha256 v"
  obtain t payload signer descriptor terms where s: "received = Aware t"
    "verify_offline depth schemas xlib dumps sha256 roots envelope received revocation = Inr (payload, signer)"
    "load_strict_json depth (up_descriptor_bytes upload) True = Inr (PDict descriptor)"
    "payload_bound payload descriptor (up_trusted_manifest upload)"
    "tm_organization_id terms = vs_organization_id signer" "tm_asset_id terms = vs_asset_id signer"
    "tm_certificate_sha256 terms = Some (vs_certificate_sha256 signer)"
    "snd (validate_and_commit ?gate upload terms receipt_id used) = Inr accepted"
    using assms [unfolded submit_offline_def offline_request.case] by (rule submit_signed_Inr)
  have vouched: "vouched xlib dumps roots t revocation payload signer"
    using s(2) by (rule verify_offline_Inr) (use s(1) in simp)
  note c = validate_and_commit_Inr [OF s(8)]
  obtain archive where a: "up_archive_path upload = Some archive"
    "inventory_agrees (vp_inspection (ao_validated_package accepted)) descriptor"
    "pi_archive_sha256 (vp_inspection (ao_validated_package accepted)) = sha256 archive"
    "py_get descriptor ''id'' = PStr (vp_package_id (ao_validated_package accepted))"
    using full_validate_bound [OF c [THEN conjunct1]] s(3) by auto
  have "py_get payload ''archive_sha256'' = PStr (sha256 archive)"
    "py_get payload ''package_id'' = PStr (vp_package_id (ao_validated_package accepted))"
    using s(4) a unfolding payload_bound_def inventory_agrees_def by auto
  then show ?thesis
    using s(1,5-7) vouched a(1,3) c by (auto simp: offline_receipt_for_def)
qed

theorem signed_submission_covers_archive_witness:
  "\<exists>accepted. snd (submit_offline 4 sample_gate sample_verifier sample_request ''r'' {}) = Inr accepted \<and>
     or_archive_sha256 (ao_receipt accepted) = sample_digest ''PK''"
proof -
  obtain accepted where a: "snd (submit_offline 4 sample_gate sample_verifier sample_request ''r'' {}) = Inr accepted"
    using sample_submitted by (auto simp: is_ok_iff)
  from signed_submission_covers_archive [OF a [unfolded sample_gate_def sample_verifier_def sample_request_def]]
  have "or_archive_sha256 (ao_receipt accepted) = sample_digest ''PK''" by (auto simp: sample_upload_def)
  with a show ?thesis by blast
qed

text \<open>
  C21: An accepted online submission spends exactly its credential for exactly this archive: the token
  belongs to a live, unexpired record whose nonce was not used; the manifest is the one of its scope;
  the package was validated for its organization, asset, job and endpoint, with proofs about these
  very bytes, and is no larger than the scope allows; the receipt names the record, the validated
  package and the SHA-256 of the archive; and the only change of the store is that the record is used
  and its nonce spent.
\<close>

theorem online_submission_bound:
  assumes "snd (submit_online depth (full_validate depth lib dumps sha256 v) hash token request receipt_id store) =
    Inr accepted"
  shows "\<exists>k r t archive bytes.
    snd (split_token token store) = Inr k \<and> st_records store k = Some r \<and> cr_token_hash r = hash token \<and>
    life_of r = Live \<and> t \<le> cr_expires_at r \<and> nonce_key (cr_scope r) \<notin> st_used_nonces store \<and>
    rq_received request = Aware t \<and> rq_archive_path request = Some archive \<and>
    rq_stat request = Some bytes \<and> bytes \<le> cs_max_archive_bytes (cr_scope r) \<and>
    py_get (rq_trusted_manifest request) ''id'' = PStr (cs_manifest_id (cr_scope r)) \<and>
    trusted_manifest_hash dumps sha256 (rq_trusted_manifest request) (cs_manifest_sha256 (cr_scope r)) \<and>
    manifest_scope (rq_trusted_manifest request) (scope_context (cr_scope r) t)
      (gates_for (rq_verifications request) (cs_nonce (cr_scope r)) ONLINE_TRANSPORT) \<and>
    archive_proofs (scope_context (cr_scope r) t)
      (gates_for (rq_verifications request) (cs_nonce (cr_scope r)) ONLINE_TRANSPORT)
      (sha256 archive) (int (length archive)) \<and>
    vp_authentication_profile (as_validated_package accepted) = ''ONLINE-AUTHENTICATED'' \<and>
    as_receipt accepted = the_receipt receipt_id r (vp_package_id (as_validated_package accepted)) (sha256 archive) t \<and>
    fst (submit_online depth (full_validate depth lib dumps sha256 v) hash token request receipt_id store) =
      spend k r receipt_id t store"
proof -
  obtain k r t where s: "snd (split_token token store) = Inr k" "st_records store k = Some r"
    "cr_token_hash r = hash token" "life_of r = Live" "t \<le> cr_expires_at r" "rq_received request = Aware t"
    "nonce_key (cr_scope r) \<notin> st_used_nonces store"
    "snd (check_request depth (full_validate depth lib dumps sha256 v) request (cr_scope r) store) =
       Inr (as_validated_package accepted)"
    "as_receipt accepted = the_receipt receipt_id r (vp_package_id (as_validated_package accepted))
       (pi_archive_sha256 (vp_inspection (as_validated_package accepted))) t"
    "fst (submit_online depth (full_validate depth lib dumps sha256 v) hash token request receipt_id store) =
       spend k r receipt_id t store"
    using assms by (rule submit_online_Inr)
  obtain t' bytes where c:
    "py_get (rq_trusted_manifest request) ''id'' = PStr (cs_manifest_id (cr_scope r))"
    "py_get (rq_trusted_manifest request) ''manifest_content_sha256'' = PStr (cs_manifest_sha256 (cr_scope r))"
    "rq_stat request = Some bytes" "bytes \<le> cs_max_archive_bytes (cr_scope r)" "rq_received request = Aware t'"
    "full_validate depth lib dumps sha256 v (rq_archive_path request) (rq_descriptor_bytes request)
       (rq_trusted_manifest request) (scope_context (cr_scope r) t')
       (gates_for (rq_verifications request) (cs_nonce (cr_scope r)) ONLINE_TRANSPORT) =
       Inr (as_validated_package accepted)"
    "vp_authentication_profile (as_validated_package accepted) = ''ONLINE-AUTHENTICATED''"
    using s(8) by (rule check_request_Inr)
  have "t' = t" using c(5) s(6) by simp
  note c = c [unfolded this]
  obtain archive where a: "rq_archive_path request = Some archive"
    "trusted_manifest_hash dumps sha256 (rq_trusted_manifest request)
       (vp_manifest_content_sha256 (as_validated_package accepted))"
    "manifest_scope (rq_trusted_manifest request) (scope_context (cr_scope r) t)
      (gates_for (rq_verifications request) (cs_nonce (cr_scope r)) ONLINE_TRANSPORT)"
    "archive_proofs (scope_context (cr_scope r) t)
      (gates_for (rq_verifications request) (cs_nonce (cr_scope r)) ONLINE_TRANSPORT)
      (sha256 archive) (int (length archive))"
    "pi_archive_sha256 (vp_inspection (as_validated_package accepted)) = sha256 archive"
    using full_validate_bound [OF c(6)] by blast
  have "vp_manifest_content_sha256 (as_validated_package accepted) = cs_manifest_sha256 (cr_scope r)"
    using a(2) c(2) by (simp add: trusted_manifest_hash_def)
  then show ?thesis
    using s a c by (intro exI [of _ k] exI [of _ r] exI [of _ t] exI [of _ archive] exI [of _ bytes]) simp
qed

theorem online_submission_bound_witness:
  "\<exists>accepted. snd (submit_online 4 sample_gate id sample_token online_request ''r'' sample_store) = Inr accepted \<and>
     sr_archive_sha256 (as_receipt accepted) = sample_digest ''PK''"
proof -
  obtain accepted where a: "snd (submit_online 4 sample_gate id sample_token online_request ''r'' sample_store) = Inr accepted"
    using online_submitted by (auto simp: is_ok_iff)
  from online_submission_bound [OF a [unfolded sample_gate_def]]
  have "sr_archive_sha256 (as_receipt accepted) = sample_digest ''PK''"
    by (auto simp: online_request_def the_receipt_def)
  with a show ?thesis by blast
qed

text \<open>
  A rejected package costs nothing: when the credential is authorised and the submission fails, for
  whatever reason and with whatever validator, the store is unchanged, so that the collector can submit
  again with the same token.
\<close>

theorem rejected_submission_keeps_credential:
  assumes "snd (authorize_credential hash token (rq_received request) store) = Inr a"
    "snd (submit_online depth validate hash token request receipt_id store) = Inl e"
  shows "fst (submit_online depth validate hash token request receipt_id store) = store \<and>
    snd (authorize_credential hash token (rq_received request)
      (fst (submit_online depth validate hash token request receipt_id store))) = Inr a"
  using submit_online_Inl [OF assms] assms(1) by simp

end
