(* ===== verification/Finding_Builder.thy ===== *)
theory Finding_Builder
  imports Rule_PC07 Package_Validator Py_Uuid
begin

section \<open>Official findings (\<^verbatim>\<open>analysis/finding\<close>)\<close>

text \<open>
  The builder turns an approved pack, the evidence of one control and a decision into the finding
  document (\<open>contracts.py\<close>, \<open>builder.py\<close>), and the replay contract decides whether such a document
  is new or the one already stored (\<open>idempotency.py\<close>).  \<open>dumps\<close>, \<open>sha256\<close> and \<open>sha1\<close> stand for
  RFC 8785 and for hexadecimal digests, \<open>schemas\<close> for the catalog of JSON schemas.  Documents are
  values, so the deep copies of the code leave no trace.
\<close>

subsection \<open>Contracts\<close>

datatype finding_build_code =
    PACK_SCHEMA_INVALID
  | PACK_NOT_APPROVED
  | PACK_HASH_MISMATCH
  | EVIDENCE_SCHEMA_INVALID
  | EVALUATION_SCOPE_MISMATCH
  | FINDING_SCHEMA_INVALID

datatype finding_build_failure = FindingBuildError finding_build_code string

type_synonym 'a build_result = "(finding_build_failure, 'a) result"

definition finding_reject :: "finding_build_code \<Rightarrow> string \<Rightarrow> 'a build_result" where
  "finding_reject code message = raise_error (FindingBuildError code message)"

lemma finding_reject_simps [simp]:
  "finding_reject code message \<noteq> Inr x"
  "bindE (finding_reject code message) f = finding_reject code message"
  by (simp_all add: finding_reject_def)

lemma if_finding_reject_Inr [res_simps]:
  "(if c then finding_reject code message else m) = Inr x \<longleftrightarrow> \<not> c \<and> m = Inr x"
  by simp

text \<open>\<open>[a-f0-9]{64}\<close>.\<close>

definition lower_hex_char :: "char \<Rightarrow> bool" where
  "lower_hex_char c \<longleftrightarrow> (let n = of_char c :: nat in 48 \<le> n \<and> n \<le> 57 \<or> 97 \<le> n \<and> n \<le> 102)"

definition sha256_text :: "string \<Rightarrow> bool" where
  "sha256_text s \<longleftrightarrow> length s = 64 \<and> list_all lower_hex_char s"

record finding_context =
  fc_organization_id :: string
  fc_evaluation_as_of :: string
  fc_evaluated_at :: string
  fc_engine_version :: string
  fc_engine_artifact_sha256 :: string

definition utc_timestamp :: "string \<Rightarrow> bool" where
  "utc_timestamp value \<longleftrightarrow>
     value \<noteq> [] \<and> last value = CHR ''Z'' \<and>
     (case datetime_fromisoformat (butlast value @ ''+00:00'') of
        Some (_, Some offset) \<Rightarrow> offset = 0
      | _ \<Rightarrow> False)"

text \<open>The pattern of the engine version: three numbers and one optional suffix after \<open>-\<close> or \<open>+\<close>.\<close>

definition engine_version_ok :: "string \<Rightarrow> bool" where
  "engine_version_ok s \<longleftrightarrow>
     (case Option.bind (version_number s) (\<lambda>(major, r).
           Option.bind (after_dot r) (\<lambda>r.
           Option.bind (version_number r) (\<lambda>(minor, r).
           Option.bind (after_dot r) (\<lambda>r.
           Option.bind (version_number r) (\<lambda>(patch, r). Some r))))) of
        None \<Rightarrow> False
      | Some suffix \<Rightarrow>
          suffix = [] \<or>
          hd suffix \<in> {CHR ''-'', CHR ''+''} \<and> tl suffix \<noteq> [] \<and> list_all version_char (tl suffix))"

text \<open>What \<open>__post_init__\<close> insists on.\<close>

definition context_admitted :: "finding_context \<Rightarrow> bool" where
  "context_admitted c \<longleftrightarrow>
     uuid_parse (fc_organization_id c) \<noteq> None \<and>
     utc_timestamp (fc_evaluation_as_of c) \<and> utc_timestamp (fc_evaluated_at c) \<and>
     engine_version_ok (fc_engine_version c) \<and> sha256_text (fc_engine_artifact_sha256 c)"

subsection \<open>Typed access\<close>

definition finding_object :: "pyval \<Rightarrow> finding_build_code \<Rightarrow> dict build_result" where
  "finding_object value code =
     (case value of PDict d \<Rightarrow> Inr d | _ \<Rightarrow> finding_reject code ''Expected a JSON object.'')"

definition finding_string :: "dict \<Rightarrow> string \<Rightarrow> finding_build_code \<Rightarrow> string build_result" where
  "finding_string mapping key code =
     (case py_get mapping key of
        PStr (c # s) \<Rightarrow> Inr (c # s)
      | _ \<Rightarrow> finding_reject code (''Expected non-empty string field: '' @ key @ ''.''))"

lemma finding_object_Inr [res_simps]: "finding_object v code = Inr d \<longleftrightarrow> v = PDict d"
  by (cases v) (auto simp: finding_object_def)

lemma finding_string_Inr [res_simps]:
  "finding_string d k code = Inr s \<longleftrightarrow> py_get d k = PStr s \<and> s \<noteq> []"
  by (auto simp: finding_string_def split: pyval.splits list.splits)

text \<open>The hash of a document, whose canonicalization error is a \<open>ValueError\<close>.\<close>

definition finding_hash :: "json_dumps \<Rightarrow> digest \<Rightarrow> pyval \<Rightarrow> ('e, string) result" where
  "finding_hash dumps sha256 v =
     (case canonical_sha256 dumps sha256 v of
        Inl _ \<Rightarrow> Inl (PyError ValueError)
      | Inr h \<Rightarrow> Inr h)"

lemma finding_hash_Inr: "finding_hash dumps sha256 v = Inr h \<Longrightarrow> \<exists>bytes. h = sha256 bytes"
  by (auto simp: finding_hash_def canonical_sha256_def res_simps split: sum.splits)

subsection \<open>Identity\<close>

definition output_excluded_fields :: "string list" where
  "output_excluded_fields = [''id'', ''created_at'', ''correlation_id'', ''evaluated_at'']"

definition canonical_finding_output_sha256 ::
  "json_dumps \<Rightarrow> digest \<Rightarrow> dict \<Rightarrow> string build_result" where
  "canonical_finding_output_sha256 dumps sha256 finding =
     (let payload = without_top_level_fields finding output_excluded_fields
      in case py_get payload ''rule_result'' of
           PDict rule_result \<Rightarrow>
             finding_hash dumps sha256
               (PDict (AList.update ''rule_result''
                         (PDict (without_top_level_fields rule_result [''output_sha256''])) payload))
         | _ \<Rightarrow> finding_reject FINDING_SCHEMA_INVALID ''Finding rule_result is invalid.'')"

text \<open>
  \<open>uuid5\<close> over the namespace of findings: the first 16 bytes of a SHA-1 digest, with the version
  and the variant of the UUID written over them.
\<close>

definition finding_namespace :: string where
  "finding_namespace = hex_text ''9df956a5ec7c4b02957033be0f59348b''"

definition variant_digit :: "char \<Rightarrow> char" where
  "variant_digit c =
     (case nibble c of (b0, b1, _, _) \<Rightarrow>
        if b1 then (if b0 then CHR ''b'' else CHR ''a'') else (if b0 then CHR ''9'' else CHR ''8''))"

definition uuid5 :: "digest \<Rightarrow> string \<Rightarrow> string \<Rightarrow> string" where
  "uuid5 sha1 namespace name =
     (let h = take 32 (sha1 (namespace @ name))
      in uuid_text (h[12 := CHR ''5'', 16 := variant_digit (h ! 16)]))"

definition deterministic_finding_id :: "digest \<Rightarrow> string \<Rightarrow> string \<Rightarrow> string" where
  "deterministic_finding_id sha1 input_sha256 output_sha256 =
     uuid5 sha1 finding_namespace (input_sha256 @ '':'' @ output_sha256)"

subsection \<open>Schemas, pack and evidence\<close>

definition validate_schema ::
  "schema_catalog \<Rightarrow> dict \<Rightarrow> string \<Rightarrow> finding_build_code \<Rightarrow> unit build_result" where
  "validate_schema schemas document schema_filename build_code =
     (case schema_validate schemas (PDict document) schema_filename ''DESCRIPTOR_SCHEMA_INVALID'' of
        Inl (Raised _) \<Rightarrow> finding_reject build_code ''Document failed its approved JSON Schema.''
      | Inl (PyError p) \<Rightarrow> Inl (PyError p)
      | Inr u \<Rightarrow> Inr u)"

definition pack_control ::
  "json_dumps \<Rightarrow> digest \<Rightarrow> schema_catalog \<Rightarrow> dict \<Rightarrow> string \<Rightarrow> bool \<Rightarrow> dict build_result" where
  "pack_control dumps sha256 schemas pack control_id allow_draft =
     bindE (validate_schema schemas pack ''audit_pack.schema.json'' PACK_SCHEMA_INVALID) (\<lambda>_.
     bindE (finding_object (py_get pack ''approval'') PACK_SCHEMA_INVALID) (\<lambda>approval.
     bindE (finding_string approval ''status'' PACK_SCHEMA_INVALID) (\<lambda>approval_status.
     if approval_status \<noteq> ''APPROVED'' \<and> \<not> (approval_status = ''DRAFT'' \<and> allow_draft)
     then finding_reject PACK_NOT_APPROVED ''Only an approved Pack may create an official Finding.''
     else
       bindE (finding_string pack ''content_sha256'' PACK_SCHEMA_INVALID) (\<lambda>declared_hash.
       bindE (finding_hash dumps sha256
                (PDict (without_top_level_fields pack [''content_sha256'', ''approval'']))) (\<lambda>actual_hash.
       if declared_hash \<noteq> actual_hash
       then finding_reject PACK_HASH_MISMATCH ''Audit Pack content hash does not match.''
       else
         (case py_get pack ''controls'' of
            PList controls \<Rightarrow>
              (case List.map_filter
                      (\<lambda>item. case item of
                         PDict d \<Rightarrow> if py_get d ''control_id'' = PStr control_id then Some d else None
                       | _ \<Rightarrow> None) controls of
                 [control] \<Rightarrow> Inr control
               | _ \<Rightarrow> finding_reject PACK_SCHEMA_INVALID ''Control is not unique in the Pack.'')
          | _ \<Rightarrow> finding_reject PACK_SCHEMA_INVALID ''Pack controls are invalid.''))))))"

definition evidence_field :: "dict list \<Rightarrow> string \<Rightarrow> string list build_result" where
  "evidence_field documents key =
     mapE (\<lambda>item. finding_string item key EVIDENCE_SCHEMA_INVALID) documents"

definition document_id :: "dict \<Rightarrow> string" where
  "document_id d = (case py_get d ''id'' of PStr s \<Rightarrow> s | _ \<Rightarrow> [])"

definition validated_evidence ::
  "schema_catalog \<Rightarrow> dict list \<Rightarrow> string \<Rightarrow> (dict list \<times> string \<times> string \<times> string) build_result" where
  "validated_evidence schemas evidence control_id =
     bindE (mapE (\<lambda>item. bindE (validate_schema schemas item ''normalized_evidence.schema.json''
                                  EVIDENCE_SCHEMA_INVALID) (\<lambda>_. Inr item)) evidence) (\<lambda>documents.
     if documents = [] then finding_reject EVALUATION_SCOPE_MISMATCH ''Evidence set is empty.''
     else
       bindE (evidence_field documents ''job_id'') (\<lambda>job_ids.
       bindE (evidence_field documents ''asset_id'') (\<lambda>asset_ids.
       bindE (evidence_field documents ''control_id'') (\<lambda>control_ids.
       bindE (evidence_field documents ''correlation_id'') (\<lambda>correlation_ids.
       bindE (evidence_field documents ''id'') (\<lambda>evidence_ids.
       if length (remdups job_ids) \<noteq> 1 \<or> length (remdups asset_ids) \<noteq> 1 \<or>
          set control_ids \<noteq> {control_id} \<or> length (remdups correlation_ids) \<noteq> 1 \<or>
          length evidence_ids \<noteq> length (remdups evidence_ids)
       then finding_reject EVALUATION_SCOPE_MISMATCH
              ''Evidence does not belong to one job, asset, correlation and Control.''
       else Inr (sort_key document_id documents, hd job_ids, hd asset_ids, hd correlation_ids)))))))"

subsection \<open>Assembling the document\<close>

text \<open>The keyword arguments of \<open>_assemble\<close>.\<close>

record finding_parts =
  fp_pack :: dict
  fp_control_id :: string
  fp_control :: dict
  fp_documents :: "dict list"
  fp_job_id :: string
  fp_asset_id :: string
  fp_correlation_id :: string
  fp_context :: finding_context
  fp_subject :: dict
  fp_status :: string
  fp_applicability_status :: string
  fp_applicability_reason_code :: string
  fp_actual :: pyval
  fp_expected :: pyval
  fp_result_code :: string
  fp_rationale_code :: string
  fp_error_codes :: "string list"

definition evidence_references :: "dict list \<Rightarrow> pyval list build_result" where
  "evidence_references documents =
     mapE (\<lambda>item.
       bindE (finding_string item ''id'' EVIDENCE_SCHEMA_INVALID) (\<lambda>i.
       bindE (finding_string item ''evidence_sha256'' EVIDENCE_SCHEMA_INVALID) (\<lambda>h.
       Inr (PDict [(''id'', PStr i), (''sha256'', PStr h)])))) documents"

definition canonical_input ::
  "finding_parts \<Rightarrow> dict \<Rightarrow> dict \<Rightarrow> pyval list \<Rightarrow> string \<Rightarrow> string \<times> string \<times> string \<Rightarrow> dict" where
  "canonical_input p applicability_rule evaluation_rule evidence_refs evidence_set_sha256 audit_pack =
     [(''schema'', PDict [(''id'', PStr ''https://schemas.sec-ai.local/v1/finding.schema.json''),
                          (''version'', PStr ''1.0.0'')]),
      (''organization_id'', PStr (fc_organization_id (fp_context p))),
      (''job_id'', PStr (fp_job_id p)),
      (''asset_id'', PStr (fp_asset_id p)),
      (''control_id'', PStr (fp_control_id p)),
      (''subject'', PDict (fp_subject p)),
      (''audit_pack'', PDict
        [(''id'', PStr (fst audit_pack)),
         (''version'', PStr (fst (snd audit_pack))),
         (''sha256'', PStr (snd (snd audit_pack))),
         (''approval'', py_get (fp_pack p) ''approval'')]),
      (''rules'', PDict
        [(''applicability'', PDict applicability_rule), (''evaluation'', PDict evaluation_rule)]),
      (''engine'', PDict
        [(''name'', PStr ''sec-ai-rule-engine''),
         (''version'', PStr (fc_engine_version (fp_context p))),
         (''artifact_sha256'', PStr (fc_engine_artifact_sha256 (fp_context p)))]),
      (''evidence'', PList (map PDict (fp_documents p))),
      (''evidence_refs'', PList evidence_refs),
      (''evidence_set_sha256'', PStr evidence_set_sha256),
      (''policy_refs'', PList []),
      (''reference_refs'', PList []),
      (''evaluation_as_of'', PStr (fc_evaluation_as_of (fp_context p)))]"

text \<open>The strings that the pack and the control contribute to the finding.\<close>

record finding_strings =
  fs_guide_version :: string
  fs_severity :: string
  fs_applicability_rule_id :: string
  fs_pack_id :: string
  fs_pack_version :: string
  fs_pack_sha256 :: string
  fs_rule_id :: string
  fs_rule_version :: string

definition rule_result_document ::
  "finding_parts \<Rightarrow> finding_strings \<Rightarrow> pyval list \<Rightarrow> string \<Rightarrow> string \<Rightarrow> dict" where
  "rule_result_document p s citations input_sha256 output_sha256 =
     [(''rule_id'', PStr (fs_rule_id s)),
      (''rule_version'', PStr (fs_rule_version s)),
      (''result_code'', PStr (fp_result_code p)),
      (''actual'', fp_actual p),
      (''expected'', fp_expected p),
      (''rationale_code'', PStr (fp_rationale_code p)),
      (''citations'', PList citations),
      (''input_sha256'', PStr input_sha256),
      (''output_sha256'', PStr output_sha256)]"

definition finding_document ::
  "finding_parts \<Rightarrow> finding_strings \<Rightarrow> pyval list \<Rightarrow> string \<Rightarrow> string \<Rightarrow> dict \<Rightarrow> dict" where
  "finding_document p s evidence_refs evidence_set_sha256 finding_id rule_result =
     [(''schema_version'', PStr ''1.0.0''),
      (''id'', PStr finding_id),
      (''created_at'', PStr (fc_evaluated_at (fp_context p))),
      (''source'', PStr ''rule-engine''),
      (''producer_name'', PStr ''sec-ai-rule-engine''),
      (''producer_version'', PStr (fc_engine_version (fp_context p))),
      (''correlation_id'', PStr (fp_correlation_id p)),
      (''job_id'', PStr (fp_job_id p)),
      (''asset_id'', PStr (fp_asset_id p)),
      (''control_id'', PStr (fp_control_id p)),
      (''guide_version'', PStr (fs_guide_version s)),
      (''severity'', PStr (fs_severity s)),
      (''subject'', PDict (fp_subject p)),
      (''status'', PStr (fp_status p)),
      (''applicability'', PDict
        [(''status'', PStr (fp_applicability_status p)),
         (''reason_code'', PStr (fp_applicability_reason_code p)),
         (''rule_id'', PStr (fs_applicability_rule_id s))]),
      (''audit_pack'', PDict
        [(''id'', PStr (fs_pack_id s)),
         (''version'', PStr (fs_pack_version s)),
         (''sha256'', PStr (fs_pack_sha256 s))]),
      (''rule_result'', PDict rule_result),
      (''evidence_refs'', PList evidence_refs),
      (''evidence_set_sha256'', PStr evidence_set_sha256),
      (''policy_refs'', PList []),
      (''error_codes'', PList (map PStr (sort (fp_error_codes p)))),
      (''evaluated_at'', PStr (fc_evaluated_at (fp_context p)))]"

text \<open>
  The hashing end of \<open>_assemble\<close>: the document with a placeholder for its id and its output hash,
  then the hash of it, then both written into it, then the schema.
\<close>

definition seal_finding ::
  "json_dumps \<Rightarrow> digest \<Rightarrow> digest \<Rightarrow> schema_catalog \<Rightarrow> string \<Rightarrow> dict \<Rightarrow> dict build_result" where
  "seal_finding dumps sha256 sha1 schemas input_sha256 finding =
     bindE (canonical_finding_output_sha256 dumps sha256 finding) (\<lambda>output_sha256.
       let finding = AList.update ''id''
             (PStr (deterministic_finding_id sha1 input_sha256 output_sha256)) finding;
           rule_result = (case py_get finding ''rule_result'' of PDict d \<Rightarrow> d | _ \<Rightarrow> []);
           finding = AList.update ''rule_result''
             (PDict (AList.update ''output_sha256'' (PStr output_sha256) rule_result)) finding
       in bindE (validate_schema schemas finding ''finding.schema.json'' FINDING_SCHEMA_INVALID) (\<lambda>_.
          Inr finding))"

definition pack_strings :: "dict \<Rightarrow> (string \<times> string \<times> string) build_result" where
  "pack_strings pack =
     bindE (finding_string pack ''id'' PACK_SCHEMA_INVALID) (\<lambda>i.
     bindE (finding_string pack ''version'' PACK_SCHEMA_INVALID) (\<lambda>v.
     bindE (finding_string pack ''content_sha256'' PACK_SCHEMA_INVALID) (\<lambda>h.
     Inr (i, v, h))))"

definition finding_strings_of ::
  "finding_parts \<Rightarrow> dict \<Rightarrow> dict \<Rightarrow> dict \<Rightarrow> finding_strings build_result" where
  "finding_strings_of p pack_guide applicability_rule evaluation_rule =
     bindE (finding_string pack_guide ''version'' PACK_SCHEMA_INVALID) (\<lambda>guide_version.
     bindE (finding_string (fp_control p) ''severity'' PACK_SCHEMA_INVALID) (\<lambda>severity.
     bindE (finding_string applicability_rule ''rule_id'' PACK_SCHEMA_INVALID) (\<lambda>applicability_rule_id.
     bindE (pack_strings (fp_pack p)) (\<lambda>(pack_id, pack_version, pack_sha256).
     bindE (finding_string evaluation_rule ''rule_id'' PACK_SCHEMA_INVALID) (\<lambda>rule_id.
     bindE (finding_string evaluation_rule ''rule_version'' PACK_SCHEMA_INVALID) (\<lambda>rule_version.
     Inr \<lparr>fs_guide_version = guide_version, fs_severity = severity,
          fs_applicability_rule_id = applicability_rule_id, fs_pack_id = pack_id,
          fs_pack_version = pack_version, fs_pack_sha256 = pack_sha256, fs_rule_id = rule_id,
          fs_rule_version = rule_version\<rparr>))))))"

definition control_citations :: "dict \<Rightarrow> pyval list build_result" where
  "control_citations control =
     (case py_get control ''citations'' of
        PList citations \<Rightarrow> Inr citations
      | _ \<Rightarrow> finding_reject PACK_SCHEMA_INVALID ''Control citations are invalid.'')"

definition assemble ::
  "json_dumps \<Rightarrow> digest \<Rightarrow> digest \<Rightarrow> schema_catalog \<Rightarrow> finding_parts \<Rightarrow> dict build_result" where
  "assemble dumps sha256 sha1 schemas p =
     bindE (finding_object (py_get (fp_control p) ''applicability_rule'') PACK_SCHEMA_INVALID) (\<lambda>applicability_rule.
     bindE (finding_object (py_get (fp_control p) ''evaluation_rule'') PACK_SCHEMA_INVALID) (\<lambda>evaluation_rule.
     bindE (evidence_references (fp_documents p)) (\<lambda>evidence_refs.
     bindE (finding_hash dumps sha256 (PList evidence_refs)) (\<lambda>evidence_set_sha256.
     bindE (pack_strings (fp_pack p)) (\<lambda>audit_pack.
     bindE (finding_hash dumps sha256 (PDict (canonical_input p applicability_rule evaluation_rule
              evidence_refs evidence_set_sha256 audit_pack))) (\<lambda>input_sha256.
     bindE (finding_object (py_get (fp_pack p) ''guide'') PACK_SCHEMA_INVALID) (\<lambda>pack_guide.
     bindE (control_citations (fp_control p)) (\<lambda>citations.
     bindE (finding_strings_of p pack_guide applicability_rule evaluation_rule) (\<lambda>s.
     seal_finding dumps sha256 sha1 schemas input_sha256
       (finding_document p s evidence_refs evidence_set_sha256
          ''00000000-0000-4000-8000-000000000000''
          (rule_result_document p s citations input_sha256 (replicate 64 (CHR ''0'')))))))))))))"

subsection \<open>Building from a decision\<close>

definition applicability_status_text :: "applicability_status \<Rightarrow> string" where
  "applicability_status_text s =
     (case s of
        APPLICABLE \<Rightarrow> ''APPLICABLE''
      | NOT_APPLICABLE \<Rightarrow> ''NOT_APPLICABLE''
      | UNDETERMINED \<Rightarrow> ''UNDETERMINED'')"

text \<open>The loop that collects the filesystem of each volume of the evidence.\<close>

fun volume_filesystems ::
  "dict list \<Rightarrow> (string \<times> string) list \<Rightarrow> (string \<times> string) list build_result" where
  "volume_filesystems [] found = Inr found"
| "volume_filesystems (item # items) found =
     (if py_get item ''probe_id'' \<noteq> PStr ''win.storage.volumes'' then volume_filesystems items found
      else
        bindE (finding_object (py_get item ''subject'') EVIDENCE_SCHEMA_INVALID) (\<lambda>subject.
        bindE (finding_string subject ''subject_key'' EVIDENCE_SCHEMA_INVALID) (\<lambda>subject_key.
        volume_filesystems items
          (case py_get item ''normalized_value'' of
             PDict v \<Rightarrow>
               (case py_get v ''filesystem'' of
                  PStr filesystem \<Rightarrow> AList.update subject_key filesystem found
                | _ \<Rightarrow> found)
           | _ \<Rightarrow> found))))"

fun actual_filesystems ::
  "(string \<times> string) list \<Rightarrow> string list \<Rightarrow> dict \<Rightarrow> dict build_result" where
  "actual_filesystems found [] actual = Inr actual"
| "actual_filesystems found (subject_key # keys) actual =
     (case map_of found subject_key of
        None \<Rightarrow> finding_reject EVALUATION_SCOPE_MISMATCH
                  ''An evaluated volume has no normalized filesystem value.''
      | Some filesystem \<Rightarrow>
          actual_filesystems found keys (AList.update subject_key (PStr filesystem) actual))"

definition build_finding ::
  "json_dumps \<Rightarrow> digest \<Rightarrow> digest \<Rightarrow> schema_catalog \<Rightarrow> dict \<Rightarrow> string \<Rightarrow> dict list \<Rightarrow>
     decision_candidate \<Rightarrow> finding_context \<Rightarrow> bool \<Rightarrow> dict build_result" where
  "build_finding dumps sha256 sha1 schemas pack control_id evidence decision ctxt allow_draft =
     bindE (pack_control dumps sha256 schemas pack control_id allow_draft) (\<lambda>control.
     bindE (validated_evidence schemas evidence control_id) (\<lambda>(documents, job_id, asset_id, correlation_id).
     bindE (finding_object (py_get control ''evaluation_rule'') PACK_SCHEMA_INVALID) (\<lambda>evaluation_rule.
     bindE (finding_object (py_get evaluation_rule ''parameters'') PACK_SCHEMA_INVALID) (\<lambda>parameters.
     bindE (finding_string parameters ''required_filesystem'' PACK_SCHEMA_INVALID) (\<lambda>required_filesystem.
     bindE (volume_filesystems documents []) (\<lambda>found.
     bindE (actual_filesystems found (sort (dc_evaluated_volume_ids decision)) []) (\<lambda>actual.
     assemble dumps sha256 sha1 schemas
       \<lparr>fp_pack = pack, fp_control_id = control_id, fp_control = control,
        fp_documents = documents, fp_job_id = job_id, fp_asset_id = asset_id,
        fp_correlation_id = correlation_id, fp_context = ctxt,
        fp_subject = [(''scope'', PStr (dc_subject_scope decision)),
                      (''subject_key'', PStr (dc_subject_key decision))],
        fp_status = decision_status_text (dc_status decision),
        fp_applicability_status = applicability_status_text (ad_status (dc_applicability decision)),
        fp_applicability_reason_code = ad_reason_code (dc_applicability decision),
        fp_actual = PDict actual, fp_expected = PStr required_filesystem,
        fp_result_code = dc_result_code decision, fp_rationale_code = dc_rationale_code decision,
        fp_error_codes = dc_error_codes decision\<rparr>)))))))"

text \<open>The decision of the other rules is a mapping; \<open>PList\<close> stands for a list or a tuple.\<close>

definition decision_error_codes :: "dict \<Rightarrow> string list build_result" where
  "decision_error_codes decision =
     (case py_get decision ''error_codes'' of
        PList values \<Rightarrow>
          (let codes = List.map_filter (\<lambda>item. case item of PStr (c # s) \<Rightarrow> Some (c # s) | _ \<Rightarrow> None) values
           in if length codes \<noteq> length values
              then finding_reject EVALUATION_SCOPE_MISMATCH ''Decision error codes are invalid.''
              else Inr codes)
      | _ \<Rightarrow> finding_reject EVALUATION_SCOPE_MISMATCH ''Decision error codes are invalid.'')"

definition value_or :: "pyval \<Rightarrow> string \<Rightarrow> pyval" where
  "value_or v fallback = (if v = PNone then PStr fallback else v)"

definition unconfirmed_text :: string where
  "unconfirmed_text = hex_text ''ed9995ec9db8ed9598eca78020ebaabbed95a8''"

definition approved_criteria_text :: string where
  "approved_criteria_text = hex_text ''ec8ab9ec9db8eb909c20eca090eab28020eab8b0eca480''"

definition common_applicability :: "string \<Rightarrow> bool \<Rightarrow> string" where
  "common_applicability status collection_failed =
     (if status = ''N/A'' then ''NOT_APPLICABLE''
      else if status = ''ERROR'' \<and> collection_failed then ''UNDETERMINED'' else ''APPLICABLE'')"

definition build_common ::
  "json_dumps \<Rightarrow> digest \<Rightarrow> digest \<Rightarrow> schema_catalog \<Rightarrow> dict \<Rightarrow> string \<Rightarrow> dict list \<Rightarrow>
     dict \<Rightarrow> finding_context \<Rightarrow> bool \<Rightarrow> dict build_result" where
  "build_common dumps sha256 sha1 schemas pack control_id evidence decision ctxt allow_draft =
     bindE (pack_control dumps sha256 schemas pack control_id allow_draft) (\<lambda>control.
     bindE (validated_evidence schemas evidence control_id) (\<lambda>(documents, job_id, asset_id, correlation_id).
     bindE (mapE (\<lambda>item. finding_object (py_get item ''subject'') EVIDENCE_SCHEMA_INVALID) documents) (\<lambda>subjects.
     if list_ex (\<lambda>subject. \<not> py_eq (PDict subject) (PDict (hd subjects))) (tl subjects)
     then finding_reject EVALUATION_SCOPE_MISMATCH ''Common Finding evidence has more than one subject.''
     else
       bindE (finding_string decision ''status'' EVALUATION_SCOPE_MISMATCH) (\<lambda>status.
       if status \<notin> {''PASS'', ''FAIL'', ''ERROR'', ''REVIEW'', ''N/A''}
       then finding_reject EVALUATION_SCOPE_MISMATCH ''Decision status is not supported.''
       else
         bindE (decision_error_codes decision) (\<lambda>error_codes.
         let collection_failed =
               list_ex (\<lambda>item. py_get item ''collection_status'' \<noteq> PStr ''COLLECTED'') documents;
             applicability_status = common_applicability status collection_failed
         in
         bindE (finding_string decision ''result_code'' EVALUATION_SCOPE_MISMATCH) (\<lambda>result_code.
         bindE (finding_string decision ''rationale_code'' EVALUATION_SCOPE_MISMATCH) (\<lambda>rationale_code.
         assemble dumps sha256 sha1 schemas
           \<lparr>fp_pack = pack, fp_control_id = control_id, fp_control = control,
            fp_documents = documents, fp_job_id = job_id, fp_asset_id = asset_id,
            fp_correlation_id = correlation_id, fp_context = ctxt, fp_subject = hd subjects,
            fp_status = status, fp_applicability_status = applicability_status,
            fp_applicability_reason_code =
              (if applicability_status = ''UNDETERMINED'' then ''COLLECTION_UNDETERMINED''
               else if applicability_status = ''NOT_APPLICABLE'' then ''CONTROL_NOT_APPLICABLE''
               else ''CONTROL_APPLICABLE''),
            fp_actual = value_or (py_get decision ''actual'') unconfirmed_text,
            fp_expected = value_or (py_get decision ''expected'') approved_criteria_text,
            fp_result_code = result_code, fp_rationale_code = rationale_code,
            fp_error_codes = error_codes\<rparr>)))))))"

end
