(* ===== verification/Finding_Repository.thy ===== *)
theory Finding_Repository
  imports Finding_Builder Tables
begin

section \<open>Replay and storage of findings\<close>

text \<open>
  The replay contract (\<^verbatim>\<open>analysis/finding/idempotency.py\<close>) and the append-only table of findings
  with its insert-or-return operation (\<^verbatim>\<open>persistence/database/finding_repository.py\<close>,
  \<^verbatim>\<open>FindingVersionRecord\<close> of \<^verbatim>\<open>persistence/database/models.py\<close>).
\<close>

subsection \<open>The replay contract\<close>

datatype replay_action = CREATE | RETURN_EXISTING

datatype replay_code =
    FINDING_INVALID
  | OUTPUT_HASH_MISMATCH
  | FINDING_ID_MISMATCH
  | IDEMPOTENCY_SCOPE_MISMATCH
  | IDEMPOTENCY_CONFLICT

text \<open>\<open>EscapedBuild\<close> is a \<open>FindingBuildError\<close> of the hash profile that would pass through.\<close>

datatype replay_failure = FindingReplayError replay_code string | EscapedBuild finding_build_failure

type_synonym 'a replay_result = "(replay_failure, 'a) result"

record finding_fingerprint =
  ff_idempotency_key :: string
  ff_finding_id :: string
  ff_output_sha256 :: string

record replay_resolution =
  rr_action :: replay_action
  rr_fingerprint :: finding_fingerprint

definition replay_reject :: "replay_code \<Rightarrow> string \<Rightarrow> 'a replay_result" where
  "replay_reject code message = raise_error (FindingReplayError code message)"

lemma replay_reject_simps [simp]:
  "replay_reject code message \<noteq> Inr x"
  "bindE (replay_reject code message) f = replay_reject code message"
  by (simp_all add: replay_reject_def)

definition replay_string :: "dict \<Rightarrow> string \<Rightarrow> string replay_result" where
  "replay_string mapping key =
     (case py_get mapping key of
        PStr (c # s) \<Rightarrow> Inr (c # s)
      | _ \<Rightarrow> replay_reject FINDING_INVALID (''Finding field is invalid: '' @ key @ ''.''))"

definition replay_sha256 :: "dict \<Rightarrow> string \<Rightarrow> string replay_result" where
  "replay_sha256 mapping key =
     bindE (replay_string mapping key) (\<lambda>value.
       if \<not> sha256_text value
       then replay_reject FINDING_INVALID (''Finding hash is invalid: '' @ key @ ''.'')
       else Inr value)"

definition fingerprint_of ::
  "json_dumps \<Rightarrow> digest \<Rightarrow> digest \<Rightarrow> dict \<Rightarrow> finding_fingerprint replay_result" where
  "fingerprint_of dumps sha256 sha1 finding =
     bindE (replay_string finding ''id'') (\<lambda>finding_id.
     if uuid_parse finding_id = None
     then replay_reject FINDING_INVALID ''Finding ID is not a UUID.''
     else
       (case py_get finding ''rule_result'' of
          PDict rule_result \<Rightarrow>
            bindE (replay_sha256 rule_result ''input_sha256'') (\<lambda>input_sha256.
            bindE (replay_sha256 rule_result ''output_sha256'') (\<lambda>output_sha256.
            bindE (lift_error EscapedBuild (canonical_finding_output_sha256 dumps sha256 finding)) (\<lambda>actual.
            if actual \<noteq> output_sha256
            then replay_reject OUTPUT_HASH_MISMATCH
                   ''Finding output hash does not match its canonical decision payload.''
            else if deterministic_finding_id sha1 input_sha256 output_sha256 \<noteq> finding_id
            then replay_reject FINDING_ID_MISMATCH
                   ''Finding ID is not bound to its canonical input and output hashes.''
            else Inr \<lparr>ff_idempotency_key = input_sha256, ff_finding_id = finding_id,
                      ff_output_sha256 = output_sha256\<rparr>)))
        | _ \<Rightarrow> replay_reject FINDING_INVALID ''Finding rule_result is invalid.''))"

definition resolve_finding_replay ::
  "json_dumps \<Rightarrow> digest \<Rightarrow> digest \<Rightarrow> dict option \<Rightarrow> dict \<Rightarrow> replay_resolution replay_result" where
  "resolve_finding_replay dumps sha256 sha1 existing candidate =
     bindE (fingerprint_of dumps sha256 sha1 candidate) (\<lambda>candidate_fingerprint.
     (case existing of
        None \<Rightarrow> Inr \<lparr>rr_action = CREATE, rr_fingerprint = candidate_fingerprint\<rparr>
      | Some document \<Rightarrow>
          bindE (fingerprint_of dumps sha256 sha1 document) (\<lambda>existing_fingerprint.
          if ff_idempotency_key existing_fingerprint \<noteq> ff_idempotency_key candidate_fingerprint
          then replay_reject IDEMPOTENCY_SCOPE_MISMATCH
                 ''Existing Finding was loaded for a different idempotency key.''
          else if existing_fingerprint \<noteq> candidate_fingerprint
          then replay_reject IDEMPOTENCY_CONFLICT
                 ''The same canonical input produced a different Finding identity or output.''
          else Inr \<lparr>rr_action = RETURN_EXISTING, rr_fingerprint = existing_fingerprint\<rparr>)))"

subsection \<open>Rows\<close>

datatype persistence_code =
    PERSISTENCE_INPUT_INVALID
  | REPLAY_REJECTED
  | IDEMPOTENT_ROW_MISSING

datatype persistence_failure =
    FindingPersistenceError persistence_code string
  | EscapedReplay replay_failure

type_synonym 'a persistence_result = "(persistence_failure, 'a) result"

definition persistence_reject :: "persistence_code \<Rightarrow> string \<Rightarrow> 'a persistence_result" where
  "persistence_reject code message = raise_error (FindingPersistenceError code message)"

lemma persistence_reject_simps [simp]:
  "persistence_reject code message \<noteq> Inr x"
  "bindE (persistence_reject code message) f = persistence_reject code message"
  by (simp_all add: persistence_reject_def)

lemma if_persistence_reject_Inr [res_simps]:
  "(if c then persistence_reject code message else m) = Inr x \<longleftrightarrow> \<not> c \<and> m = Inr x"
  "(if c then replay_reject rc message else n) = Inr y \<longleftrightarrow> \<not> c \<and> n = Inr y"
  by simp_all

definition change_reasons :: "string list" where
  "change_reasons = [''RECHECK'', ''POLICY_UPDATED'', ''PACK_UPDATED'', ''ENGINE_UPDATED'', ''CORRECTION'']"

record append_command =
  ac_organization_id :: string
  ac_engine_artifact_sha256 :: string
  ac_finding_version :: int
  ac_predecessor_id :: "string option"
  ac_change_reason :: "string option"

text \<open>
  A row: identifiers are the canonical texts of UUIDs and a \<open>datetime\<close> is its local instant with
  its offset, if it has one.
\<close>

record finding_row =
  fr_id :: string
  fr_organization_id :: string
  fr_job_id :: string
  fr_asset_id :: string
  fr_control_id :: string
  fr_subject_scope :: string
  fr_subject_key :: string
  fr_finding_version :: int
  fr_status :: string
  fr_schema_version :: string
  fr_producer_name :: string
  fr_producer_version :: string
  fr_engine_artifact_sha256 :: string
  fr_audit_pack_id :: string
  fr_audit_pack_version :: string
  fr_audit_pack_sha256 :: string
  fr_evidence_set_sha256 :: string
  fr_input_sha256 :: string
  fr_output_sha256 :: string
  fr_finding_document :: dict
  fr_predecessor_id :: "string option"
  fr_change_reason :: "string option"
  fr_evaluated_at :: "int \<times> int option"
  fr_created_at :: "int \<times> int option"

definition row_object :: "dict \<Rightarrow> string \<Rightarrow> dict persistence_result" where
  "row_object mapping key =
     (case py_get mapping key of
        PDict d \<Rightarrow> Inr d
      | _ \<Rightarrow> persistence_reject PERSISTENCE_INPUT_INVALID (''Invalid object: '' @ key @ ''.''))"

definition row_string :: "dict \<Rightarrow> string \<Rightarrow> string persistence_result" where
  "row_string mapping key =
     (case py_get mapping key of
        PStr (c # s) \<Rightarrow> Inr (c # s)
      | _ \<Rightarrow> persistence_reject PERSISTENCE_INPUT_INVALID (''Invalid field: '' @ key @ ''.''))"

definition row_uuid :: "string \<Rightarrow> string \<Rightarrow> string persistence_result" where
  "row_uuid value field_name =
     (case uuid_parse value of
        None \<Rightarrow> persistence_reject PERSISTENCE_INPUT_INVALID (''Invalid UUID: '' @ field_name @ ''.'')
      | Some u \<Rightarrow> Inr u)"

definition row_timestamp :: "string \<Rightarrow> string \<Rightarrow> (int \<times> int option) persistence_result" where
  "row_timestamp value field_name =
     (if value = [] \<or> last value \<noteq> CHR ''Z''
      then persistence_reject PERSISTENCE_INPUT_INVALID (''Invalid UTC timestamp: '' @ field_name @ ''.'')
      else
        (case datetime_fromisoformat (butlast value @ ''+00:00'') of
           None \<Rightarrow> persistence_reject PERSISTENCE_INPUT_INVALID (''Invalid UTC timestamp: '' @ field_name @ ''.'')
         | Some parsed \<Rightarrow> Inr parsed))"

definition row_uuid_of :: "dict \<Rightarrow> string \<Rightarrow> string \<Rightarrow> string persistence_result" where
  "row_uuid_of mapping key field_name = bindE (row_string mapping key) (\<lambda>s. row_uuid s field_name)"

definition row_timestamp_of :: "dict \<Rightarrow> string \<Rightarrow> (int \<times> int option) persistence_result" where
  "row_timestamp_of mapping key = bindE (row_string mapping key) (\<lambda>s. row_timestamp s key)"

text \<open>The predecessor is converted only when there is one.\<close>

definition row_predecessor :: "string option \<Rightarrow> string option persistence_result" where
  "row_predecessor predecessor =
     (case predecessor of
        None \<Rightarrow> Inr None
      | Some p \<Rightarrow> bindE (row_uuid p ''predecessor_id'') (\<lambda>u. Inr (Some u)))"

text \<open>\<open>finding_record_values\<close>: the checks of the command, then one column after the other.\<close>

definition check_command :: "append_command \<Rightarrow> unit persistence_result" where
  "check_command command =
     (if ac_finding_version command \<le> 0
      then persistence_reject PERSISTENCE_INPUT_INVALID ''finding_version must be positive.''
      else if (ac_predecessor_id command = None) \<noteq> (ac_change_reason command = None)
      then persistence_reject PERSISTENCE_INPUT_INVALID
             ''predecessor_id and change_reason must be supplied together.''
      else if (case ac_change_reason command of None \<Rightarrow> False | Some r \<Rightarrow> r \<notin> set change_reasons)
      then persistence_reject PERSISTENCE_INPUT_INVALID ''change_reason is not allowlisted.''
      else if \<not> sha256_text (ac_engine_artifact_sha256 command)
      then persistence_reject PERSISTENCE_INPUT_INVALID ''engine_artifact_sha256 is invalid.''
      else Inr ())"

definition row_fingerprint ::
  "json_dumps \<Rightarrow> digest \<Rightarrow> digest \<Rightarrow> dict \<Rightarrow> finding_fingerprint persistence_result" where
  "row_fingerprint dumps sha256 sha1 finding =
     (case fingerprint_of dumps sha256 sha1 finding of
        Inl (Raised (FindingReplayError code message)) \<Rightarrow>
          persistence_reject PERSISTENCE_INPUT_INVALID ''Finding identity validation failed.''
      | Inl (Raised e) \<Rightarrow> raise_error (EscapedReplay e)
      | Inl (PyError p) \<Rightarrow> Inl (PyError p)
      | Inr fingerprint \<Rightarrow> Inr fingerprint)"

definition finding_record_values ::
  "json_dumps \<Rightarrow> digest \<Rightarrow> digest \<Rightarrow> append_command \<Rightarrow> dict \<Rightarrow> finding_row persistence_result" where
  "finding_record_values dumps sha256 sha1 command document =
     bindE (check_command command) (\<lambda>_.
     bindE (row_fingerprint dumps sha256 sha1 document) (\<lambda>fingerprint.
     bindE (row_object document ''subject'') (\<lambda>subject.
     bindE (row_object document ''audit_pack'') (\<lambda>audit_pack.
     bindE (row_uuid (ff_finding_id fingerprint) ''id'') (\<lambda>row_id.
     bindE (row_uuid (ac_organization_id command) ''organization_id'') (\<lambda>organization_id.
     bindE (row_uuid_of document ''job_id'' ''job_id'') (\<lambda>job_id.
     bindE (row_uuid_of document ''asset_id'' ''asset_id'') (\<lambda>asset_id.
     bindE (row_string document ''control_id'') (\<lambda>control_id.
     bindE (row_string subject ''scope'') (\<lambda>subject_scope.
     bindE (row_string subject ''subject_key'') (\<lambda>subject_key.
     bindE (row_string document ''status'') (\<lambda>status.
     bindE (row_string document ''schema_version'') (\<lambda>schema_version.
     bindE (row_string document ''producer_name'') (\<lambda>producer_name.
     bindE (row_string document ''producer_version'') (\<lambda>producer_version.
     bindE (row_uuid_of audit_pack ''id'' ''audit_pack.id'') (\<lambda>audit_pack_id.
     bindE (row_string audit_pack ''version'') (\<lambda>audit_pack_version.
     bindE (row_string audit_pack ''sha256'') (\<lambda>audit_pack_sha256.
     bindE (row_string document ''evidence_set_sha256'') (\<lambda>evidence_set_sha256.
     bindE (row_predecessor (ac_predecessor_id command)) (\<lambda>predecessor_id.
     bindE (row_timestamp_of document ''evaluated_at'') (\<lambda>evaluated_at.
     bindE (row_timestamp_of document ''created_at'') (\<lambda>created_at.
     Inr \<lparr>fr_id = row_id, fr_organization_id = organization_id, fr_job_id = job_id,
          fr_asset_id = asset_id, fr_control_id = control_id, fr_subject_scope = subject_scope,
          fr_subject_key = subject_key, fr_finding_version = ac_finding_version command,
          fr_status = status, fr_schema_version = schema_version,
          fr_producer_name = producer_name, fr_producer_version = producer_version,
          fr_engine_artifact_sha256 = ac_engine_artifact_sha256 command,
          fr_audit_pack_id = audit_pack_id, fr_audit_pack_version = audit_pack_version,
          fr_audit_pack_sha256 = audit_pack_sha256, fr_evidence_set_sha256 = evidence_set_sha256,
          fr_input_sha256 = ff_idempotency_key fingerprint,
          fr_output_sha256 = ff_output_sha256 fingerprint,
          fr_finding_document = document, fr_predecessor_id = predecessor_id,
          fr_change_reason = ac_change_reason command, fr_evaluated_at = evaluated_at,
          fr_created_at = created_at\<rparr>))))))))))))))))))))))"

subsection \<open>The table\<close>

text \<open>
  The columns: lengths of text in characters, 32-bit versions, and no NUL character in text or in
  the JSON document.
\<close>

definition varchar :: "nat \<Rightarrow> string \<Rightarrow> bool" where
  "varchar n s \<longleftrightarrow> py_len s \<le> n \<and> CHR 0x00 \<notin> set s"

fun nul_free :: "pyval \<Rightarrow> bool" where
  "nul_free (PStr s) \<longleftrightarrow> CHR 0x00 \<notin> set s"
| "nul_free (PList xs) \<longleftrightarrow> list_all nul_free xs"
| "nul_free (PDict d) \<longleftrightarrow> list_all (\<lambda>kv. CHR 0x00 \<notin> set (fst kv) \<and> nul_free (snd kv)) d"
| "nul_free v \<longleftrightarrow> True"

definition columns_fit :: "finding_row \<Rightarrow> bool" where
  "columns_fit r \<longleftrightarrow>
     varchar 16 (fr_control_id r) \<and> varchar 16 (fr_subject_scope r) \<and>
     varchar 128 (fr_subject_key r) \<and> fr_finding_version r < 2 ^ 31 \<and>
     varchar 16 (fr_status r) \<and> varchar 32 (fr_schema_version r) \<and>
     varchar 128 (fr_producer_name r) \<and> varchar 64 (fr_producer_version r) \<and>
     varchar 64 (fr_engine_artifact_sha256 r) \<and> varchar 64 (fr_audit_pack_version r) \<and>
     varchar 64 (fr_audit_pack_sha256 r) \<and> varchar 64 (fr_evidence_set_sha256 r) \<and>
     nul_free (PDict (fr_finding_document r)) \<and>
     (case fr_change_reason r of None \<Rightarrow> True | Some reason \<Rightarrow> varchar 32 reason)"

text \<open>
  \<open>->>\<close> of a string is the string and of a missing value is \<open>NULL\<close>, with which a check passes; the
  fields compared here are strings in every row that the code writes.
\<close>

definition text_matches :: "dict \<Rightarrow> string \<Rightarrow> string \<Rightarrow> bool" where
  "text_matches d k s \<longleftrightarrow>
     (case py_get d k of PNone \<Rightarrow> True | PStr t \<Rightarrow> t = s | _ \<Rightarrow> False)"

definition nested :: "dict \<Rightarrow> string \<Rightarrow> dict" where
  "nested d k = (case py_get d k of PDict e \<Rightarrow> e | _ \<Rightarrow> [])"

definition document_identity :: "finding_row \<Rightarrow> bool" where
  "document_identity r \<longleftrightarrow>
     (let d = fr_finding_document r; rule_result = nested d ''rule_result'';
          audit_pack = nested d ''audit_pack''
      in text_matches d ''id'' (fr_id r) \<and> text_matches d ''job_id'' (fr_job_id r) \<and>
         text_matches d ''asset_id'' (fr_asset_id r) \<and>
         text_matches d ''control_id'' (fr_control_id r) \<and> text_matches d ''status'' (fr_status r) \<and>
         text_matches rule_result ''input_sha256'' (fr_input_sha256 r) \<and>
         text_matches rule_result ''output_sha256'' (fr_output_sha256 r) \<and>
         text_matches d ''evidence_set_sha256'' (fr_evidence_set_sha256 r) \<and>
         text_matches audit_pack ''id'' (fr_audit_pack_id r) \<and>
         text_matches audit_pack ''version'' (fr_audit_pack_version r) \<and>
         text_matches audit_pack ''sha256'' (fr_audit_pack_sha256 r))"

definition row_checks :: "finding_row \<Rightarrow> bool" where
  "row_checks r \<longleftrightarrow>
     0 < fr_finding_version r \<and>
     fr_status r \<in> {''PASS'', ''FAIL'', ''REVIEW'', ''ERROR'', ''N/A''} \<and>
     sha256_text (fr_input_sha256 r) \<and> sha256_text (fr_output_sha256 r) \<and>
     sha256_text (fr_evidence_set_sha256 r) \<and> sha256_text (fr_audit_pack_sha256 r) \<and>
     sha256_text (fr_engine_artifact_sha256 r) \<and>
     (fr_predecessor_id r = None) = (fr_change_reason r = None) \<and>
     (case fr_change_reason r of None \<Rightarrow> True | Some reason \<Rightarrow> reason \<in> set change_reasons) \<and>
     document_identity r"

text \<open>
  The database: the audit jobs that a finding may belong to (job, organization, asset) and the
  findings.  \<open>ON CONFLICT ON CONSTRAINT uq_finding_versions_input_sha256 DO NOTHING\<close> absorbs a clash
  of the input hash only; every other violation is an exception of the driver and nothing is
  inserted.
\<close>

record finding_db =
  fd_jobs :: "(string \<times> string \<times> string) list"
  fd_rows :: "finding_row list"

definition subject_version :: "finding_row \<Rightarrow> string \<times> string \<times> string \<times> string \<times> int" where
  "subject_version r =
     (fr_job_id r, fr_control_id r, fr_subject_scope r, fr_subject_key r, fr_finding_version r)"

definition insert_allowed :: "finding_db \<Rightarrow> finding_row \<Rightarrow> bool" where
  "insert_allowed db r \<longleftrightarrow>
     fr_id r \<notin> set (map fr_id (fd_rows db)) \<and>
     subject_version r \<notin> set (map subject_version (fd_rows db)) \<and>
     (fr_job_id r, fr_organization_id r, fr_asset_id r) \<in> set (fd_jobs db) \<and>
     (case fr_predecessor_id r of
        None \<Rightarrow> True
      | Some p \<Rightarrow> p \<in> set (map fr_id (fd_rows db)) \<or> p = fr_id r)"

type_synonym 'a finding_op = "(finding_db, persistence_failure raised, 'a) op"

definition execute_finding_insert :: "finding_row \<Rightarrow> string option finding_op" where
  "execute_finding_insert r db =
     (if \<not> columns_fit r \<or> \<not> row_checks r then (db, Inl (PyError LibraryError))
      else if fr_input_sha256 r \<in> set (map fr_input_sha256 (fd_rows db)) then (db, Inr None)
      else if \<not> insert_allowed db r then (db, Inl (PyError LibraryError))
      else (db\<lparr>fd_rows := fd_rows db @ [r]\<rparr>, Inr (Some (fr_id r))))"

definition load_finding_document :: "string \<Rightarrow> finding_db \<Rightarrow> dict option" where
  "load_finding_document input_sha256 db =
     map_option fr_finding_document (find (\<lambda>r. fr_input_sha256 r = input_sha256) (fd_rows db))"

definition op_of_result :: "'e + 'a \<Rightarrow> ('s, 'e, 'a) op" where
  "op_of_result r = (case r of Inl e \<Rightarrow> op_raise e | Inr x \<Rightarrow> op_return x)"

text \<open>The \<open>except FindingReplayError\<close> around the resolution.\<close>

definition replay_rejected :: "'a replay_result \<Rightarrow> 'a persistence_result" where
  "replay_rejected m =
     (case m of
        Inl (Raised (FindingReplayError code message)) \<Rightarrow>
          persistence_reject REPLAY_REJECTED ''Existing Finding conflicts with the replay candidate.''
      | Inl (Raised e) \<Rightarrow> raise_error (EscapedReplay e)
      | Inl (PyError p) \<Rightarrow> Inl (PyError p)
      | Inr x \<Rightarrow> Inr x)"

definition append_or_get_finding ::
  "json_dumps \<Rightarrow> digest \<Rightarrow> digest \<Rightarrow> append_command \<Rightarrow> dict \<Rightarrow> replay_resolution finding_op" where
  "append_or_get_finding dumps sha256 sha1 command finding =
     op_bind (op_of_result (finding_record_values dumps sha256 sha1 command finding)) (\<lambda>row.
     op_bind (execute_finding_insert row) (\<lambda>inserted_id.
     case inserted_id of
       Some i \<Rightarrow>
         op_bind (op_of_result (lift_error EscapedReplay (fingerprint_of dumps sha256 sha1 finding))) (\<lambda>fingerprint.
         op_return \<lparr>rr_action = CREATE, rr_fingerprint = fingerprint\<rparr>)
     | None \<Rightarrow>
         op_bind (op_read (load_finding_document (fr_input_sha256 row))) (\<lambda>existing_document.
         case existing_document of
           None \<Rightarrow> op_of_result (persistence_reject IDEMPOTENT_ROW_MISSING
                    ''Unique conflict occurred without a readable existing Finding.'')
         | Some document \<Rightarrow>
             op_of_result (replay_rejected
               (resolve_finding_replay dumps sha256 sha1 (Some document) finding)))))"

end
