(* ===== verification/Finding_Facts.thy ===== *)
theory Finding_Facts
  imports Finding_Repository
begin

section \<open>Facts about built findings\<close>

text \<open>
  What a finding that was built looks like, that its hashes do not depend on the fields excluded
  from them, that its fingerprint is the one it was sealed with, and that the order of the evidence
  does not matter.
\<close>

subsection \<open>Digests and identifiers\<close>

lemma lower_hex_value: "lower_hex_char c \<Longrightarrow> hex_value c \<and> fold_char c = c"
  by (auto simp: lower_hex_char_def hex_value_def fold_char_def Let_def)

lemma lower_hex_variant: "lower_hex_char (variant_digit c)"
  by (auto simp: variant_digit_def lower_hex_char_def split: prod.splits)

lemma uuid5_parses:
  assumes "\<And>b. length (sha1 b) = 40 \<and> list_all lower_hex_char (sha1 b)"
  shows "uuid_parse (uuid5 sha1 namespace name) = Some (uuid5 sha1 namespace name)"
proof -
  let ?h = "take 32 (sha1 (namespace @ name))"
  let ?d = "?h[12 := CHR ''5'', 16 := variant_digit (?h ! 16)]"
  have "set ?d \<subseteq> insert (CHR ''5'') (insert (variant_digit (?h ! 16)) (set (sha1 (namespace @ name))))"
    by (meson insert_subset order_trans set_take_subset set_update_subset_insert insert_mono subset_insertI)
  moreover have "lower_hex_char (CHR ''5'')" by (simp add: lower_hex_char_def)
  ultimately have lower: "list_all lower_hex_char ?d"
    using assms lower_hex_variant by (auto simp: list_all_iff)
  show ?thesis
    unfolding uuid5_def Let_def
    by (rule uuid_text_parses)
      (use lower assms in \<open>auto simp: list_all_iff lower_hex_value intro!: map_idI\<close>)
qed

lemma uuid_text_nonempty: "uuid_text d \<noteq> []"
  by (simp add: uuid_text_def Let_def)

lemma deterministic_id_nonempty [simp]: "deterministic_finding_id sha1 i h \<noteq> []"
  by (simp add: deterministic_finding_id_def uuid5_def Let_def uuid_text_nonempty)

lemma deterministic_id_parses:
  assumes "\<And>b. length (sha1 b) = 40 \<and> list_all lower_hex_char (sha1 b)"
  shows "uuid_parse (deterministic_finding_id sha1 i h) = Some (deterministic_finding_id sha1 i h)"
  unfolding deterministic_finding_id_def by (rule uuid5_parses) (rule assms)

lemma sha256_text_nonempty: "sha256_text s \<Longrightarrow> s \<noteq> []"
  by (auto simp: sha256_text_def)

subsection \<open>Typed access of the replay contract\<close>

lemma replay_string_Inr [res_simps]:
  "replay_string d k = Inr s \<longleftrightarrow> py_get d k = PStr s \<and> s \<noteq> []"
  by (auto simp: replay_string_def split: pyval.splits list.splits)

lemma replay_sha256_Inr [res_simps]:
  "replay_sha256 d k = Inr s \<longleftrightarrow> py_get d k = PStr s \<and> sha256_text s"
  by (auto simp: replay_sha256_def res_simps dest: sha256_text_nonempty split: if_splits)

text \<open>A finding has a fingerprint when its id is the UUID bound to its two hashes.\<close>

lemma fingerprint_of_Inr:
  "fingerprint_of dumps sha256 sha1 finding = Inr fp \<longleftrightarrow>
     (\<exists>rule_result.
        py_get finding ''id'' = PStr (ff_finding_id fp) \<and> ff_finding_id fp \<noteq> [] \<and>
        uuid_parse (ff_finding_id fp) \<noteq> None \<and>
        py_get finding ''rule_result'' = PDict rule_result \<and>
        py_get rule_result ''input_sha256'' = PStr (ff_idempotency_key fp) \<and>
        sha256_text (ff_idempotency_key fp) \<and>
        py_get rule_result ''output_sha256'' = PStr (ff_output_sha256 fp) \<and>
        sha256_text (ff_output_sha256 fp) \<and>
        canonical_finding_output_sha256 dumps sha256 finding = Inr (ff_output_sha256 fp) \<and>
        ff_finding_id fp = deterministic_finding_id sha1 (ff_idempotency_key fp) (ff_output_sha256 fp))"
  unfolding fingerprint_of_def
  by (cases fp; cases "py_get finding ''rule_result''")
    (auto simp: res_simps split: if_splits)

subsection \<open>The sealed document\<close>

text \<open>
  The output hash of a finding document depends on neither its id nor its output hash, nor on the
  instant and the correlation of the run.
\<close>

lemma output_hash_of_document:
  "canonical_finding_output_sha256 dumps sha256
     (finding_document p s refs h i (rule_result_document p s citations inp out)) =
   canonical_finding_output_sha256 dumps sha256
     (finding_document (p\<lparr>fp_correlation_id := c, fp_context := (fp_context p)\<lparr>fc_evaluated_at := t\<rparr>\<rparr>)
        s refs h i' (rule_result_document p s citations inp out'))"
  by (simp add: canonical_finding_output_sha256_def finding_document_def rule_result_document_def
      without_top_level_fields_def output_excluded_fields_def Let_def)

lemma document_ids [simp]:
  "py_get (finding_document p s refs h i rr) ''id'' = PStr i"
  "py_get (finding_document p s refs h i rr) ''rule_result'' = PDict rr"
  "py_get (rule_result_document p s citations inp out) ''input_sha256'' = PStr inp"
  "py_get (rule_result_document p s citations inp out) ''output_sha256'' = PStr out"
  by (simp_all add: finding_document_def rule_result_document_def)

lemma update_document:
  "AList.update ''id'' (PStr i') (finding_document p s refs h i rr) = finding_document p s refs h i' rr"
  "AList.update ''rule_result'' (PDict rr') (finding_document p s refs h i rr) =
     finding_document p s refs h i rr'"
  "AList.update ''output_sha256'' (PStr out') (rule_result_document p s citations inp out) =
     rule_result_document p s citations inp out'"
  by (simp_all add: finding_document_def rule_result_document_def)

lemma validate_schema_Inr [res_simps]:
  "validate_schema schemas d name code = Inr u \<longleftrightarrow>
     schema_validate schemas (PDict d) name ''DESCRIPTOR_SCHEMA_INVALID'' = Inr u"
  by (auto simp: validate_schema_def split: sum.splits raised.splits)

text \<open>What \<open>_assemble\<close> computed when it returned a finding.\<close>

definition assembled ::
  "json_dumps \<Rightarrow> digest \<Rightarrow> finding_parts \<Rightarrow> finding_strings \<Rightarrow> pyval list \<Rightarrow> string \<Rightarrow> pyval list \<Rightarrow>
     string \<Rightarrow> bool" where
  "assembled dumps sha256 p s refs h citations inp \<longleftrightarrow>
     (\<exists>ar er ap guide.
        py_get (fp_control p) ''applicability_rule'' = PDict ar \<and>
        py_get (fp_control p) ''evaluation_rule'' = PDict er \<and>
        evidence_references (fp_documents p) = Inr refs \<and>
        finding_hash dumps sha256 (PList refs) = (Inr h :: string build_result) \<and>
        pack_strings (fp_pack p) = Inr ap \<and>
        finding_hash dumps sha256 (PDict (canonical_input p ar er refs h ap)) =
          (Inr inp :: string build_result) \<and>
        py_get (fp_pack p) ''guide'' = PDict guide \<and>
        control_citations (fp_control p) = Inr citations \<and>
        finding_strings_of p guide ar er = Inr s)"

lemma assemble_Inr:
  assumes "assemble dumps sha256 sha1 schemas p = Inr f"
  obtains s refs h citations inp out where
    "assembled dumps sha256 p s refs h citations inp"
    "f = finding_document p s refs h (deterministic_finding_id sha1 inp out)
           (rule_result_document p s citations inp out)"
    "canonical_finding_output_sha256 dumps sha256 f = Inr out"
    "schema_validate schemas (PDict f) ''finding.schema.json'' ''DESCRIPTOR_SCHEMA_INVALID'' = Inr ()"
proof -
  let ?draft = "\<lambda>s refs h citations inp.
     finding_document p s refs h ''00000000-0000-4000-8000-000000000000''
       (rule_result_document p s citations inp (replicate 64 (CHR ''0'')))"
  obtain s refs h citations inp where a: "assembled dumps sha256 p s refs h citations inp"
    and seal: "seal_finding dumps sha256 sha1 schemas inp (?draft s refs h citations inp) = Inr f"
    using assms unfolding assemble_def bindE_eq_Inr finding_object_Inr assembled_def by blast
  obtain out where out: "canonical_finding_output_sha256 dumps sha256 (?draft s refs h citations inp) = Inr out"
    and f: "f = finding_document p s refs h (deterministic_finding_id sha1 inp out)
                  (rule_result_document p s citations inp out)"
    and schema: "schema_validate schemas (PDict f) ''finding.schema.json'' ''DESCRIPTOR_SCHEMA_INVALID'' = Inr ()"
    using seal unfolding seal_finding_def bindE_eq_Inr Let_def document_ids update_document
      pyval.case validate_schema_Inr by auto
  have "canonical_finding_output_sha256 dumps sha256 f = Inr out"
    using out output_hash_of_document [of dumps sha256 p s refs h
        "''00000000-0000-4000-8000-000000000000''" citations inp "replicate 64 (CHR ''0'')"
        "fc_evaluated_at (fp_context p)" "fp_correlation_id p"]
    by (simp add: f)
  then show ?thesis using schema by (rule that [OF a f])
qed

text \<open>The fingerprint of an assembled finding.\<close>

lemma output_hash_range:
  assumes "canonical_finding_output_sha256 dumps sha256 f = Inr out"
  shows "\<exists>bytes. out = sha256 bytes"
  using assms finding_hash_Inr [of dumps sha256 _ out]
  by (auto simp: canonical_finding_output_sha256_def Let_def split: pyval.splits)

lemma assembled_input_range:
  assumes "assembled dumps sha256 p s refs h citations inp"
  shows "\<exists>bytes. inp = sha256 bytes"
  using assms finding_hash_Inr [of dumps sha256 _ inp] unfolding assembled_def by blast

lemma assembled_fingerprint:
  assumes "\<And>b. sha256_text (sha256 b)"
    and "\<And>b. length (sha1 b) = 40 \<and> list_all lower_hex_char (sha1 b)"
    and "inp = sha256 bytes"
    and "f = finding_document p s refs h (deterministic_finding_id sha1 inp out)
               (rule_result_document p s citations inp out)"
    and "canonical_finding_output_sha256 dumps sha256 f = Inr out"
  shows "fingerprint_of dumps sha256 sha1 f =
           Inr \<lparr>ff_idempotency_key = inp, ff_finding_id = deterministic_finding_id sha1 inp out,
                ff_output_sha256 = out\<rparr>"
proof -
  have "sha256_text inp" "sha256_text out"
    using assms(1,3) output_hash_range [OF assms(5)] by auto
  with assms(5) show ?thesis
    unfolding fingerprint_of_Inr by (simp add: assms(4) deterministic_id_parses [OF assms(2)])
qed

subsection \<open>The run does not reach the identity\<close>

definition at_instant :: "string \<Rightarrow> finding_parts \<Rightarrow> finding_parts" where
  "at_instant t p = p\<lparr>fp_context := (fp_context p)\<lparr>fc_evaluated_at := t\<rparr>\<rparr>"

lemma assembled_at_instant:
  "assembled dumps sha256 (at_instant t p) s refs h citations inp \<longleftrightarrow>
   assembled dumps sha256 p s refs h citations inp"
  by (simp add: assembled_def at_instant_def canonical_input_def finding_strings_of_def)

lemma assembled_functional:
  assumes "assembled dumps sha256 p s refs h citations inp"
    and "assembled dumps sha256 p s' refs' h' citations' inp'"
  shows "s' = s \<and> refs' = refs \<and> h' = h \<and> citations' = citations \<and> inp' = inp"
  using assms unfolding assembled_def by (elim exE conjE) simp

text \<open>
  Assembled again at another instant, a finding has the same identity and differs in its two
  instants only.
\<close>

lemma assemble_again:
  assumes "assemble dumps sha256 sha1 schemas p = Inr f"
    and "assemble dumps sha256 sha1 schemas (at_instant t p) = Inr f'"
  obtains s refs h citations inp out where
    "assembled dumps sha256 p s refs h citations inp"
    "f = finding_document p s refs h (deterministic_finding_id sha1 inp out)
           (rule_result_document p s citations inp out)"
    "f' = finding_document (at_instant t p) s refs h (deterministic_finding_id sha1 inp out)
           (rule_result_document (at_instant t p) s citations inp out)"
    "canonical_finding_output_sha256 dumps sha256 f = Inr out"
    "canonical_finding_output_sha256 dumps sha256 f' = Inr out"
proof -
  obtain s refs h citations inp out where
    a: "assembled dumps sha256 p s refs h citations inp"
    and f: "f = finding_document p s refs h (deterministic_finding_id sha1 inp out)
           (rule_result_document p s citations inp out)"
    and out: "canonical_finding_output_sha256 dumps sha256 f = Inr out"
    using assms(1) by (rule assemble_Inr)
  obtain s' refs' h' citations' inp' out' where
    a': "assembled dumps sha256 (at_instant t p) s' refs' h' citations' inp'"
    and f': "f' = finding_document (at_instant t p) s' refs' h' (deterministic_finding_id sha1 inp' out')
           (rule_result_document (at_instant t p) s' citations' inp' out')"
    and out': "canonical_finding_output_sha256 dumps sha256 f' = Inr out'"
    using assms(2) by (rule assemble_Inr)
  have eq: "s' = s" "refs' = refs" "h' = h" "citations' = citations" "inp' = inp"
    using assembled_functional [OF a a' [unfolded assembled_at_instant]] by simp_all
  have rr: "rule_result_document (at_instant t p) s citations inp out' =
            rule_result_document p s citations inp out'"
    by (simp add: rule_result_document_def at_instant_def)
  have "canonical_finding_output_sha256 dumps sha256 f' = canonical_finding_output_sha256 dumps sha256 f"
    unfolding f f' eq rr
    using output_hash_of_document [of dumps sha256 p s refs h "deterministic_finding_id sha1 inp out"
        citations inp out t "fp_correlation_id p" "deterministic_finding_id sha1 inp out'" out']
    by (simp add: at_instant_def)
  with out out' have "out' = out" by simp
  with a f f' out out' show ?thesis by (intro that) (simp_all add: eq)
qed

subsection \<open>Building is assembling\<close>

lemma build_finding_parts:
  assumes "build_finding dumps sha256 sha1 schemas pack control_id evidence decision ctxt allow_draft = Inr f"
    and "build_finding dumps sha256 sha1 schemas pack control_id evidence decision
           (ctxt\<lparr>fc_evaluated_at := t\<rparr>) allow_draft = Inr f'"
  shows "\<exists>p. assemble dumps sha256 sha1 schemas p = Inr f \<and>
             assemble dumps sha256 sha1 schemas (at_instant t p) = Inr f' \<and>
             fp_pack p = pack \<and> fp_control_id p = control_id \<and> fp_context p = ctxt"
  using assms unfolding build_finding_def bindE_eq_Inr
  apply (elim exE conjE)
  apply (simp split: prod.splits add: bindE_eq_Inr)
  apply (elim exE conjE)
  apply simp
  apply (intro exI conjI, assumption)
  apply (simp_all add: at_instant_def)
  done

lemma build_common_parts:
  assumes "build_common dumps sha256 sha1 schemas pack control_id evidence decision ctxt allow_draft = Inr f"
    and "build_common dumps sha256 sha1 schemas pack control_id evidence decision
           (ctxt\<lparr>fc_evaluated_at := t\<rparr>) allow_draft = Inr f'"
  shows "\<exists>p. assemble dumps sha256 sha1 schemas p = Inr f \<and>
             assemble dumps sha256 sha1 schemas (at_instant t p) = Inr f' \<and>
             fp_pack p = pack \<and> fp_control_id p = control_id \<and> fp_context p = ctxt"
  using assms unfolding build_common_def bindE_eq_Inr Let_def
  apply (elim exE conjE)
  apply (simp only: split_paired_all prod.case bindE_eq_Inr if_finding_reject_Inr)
  apply (elim exE conjE)
  apply (simp only: sum.inject prod.inject)
  apply (elim conjE)
  apply (intro exI conjI, assumption)
  apply (simp_all add: at_instant_def)
  done

subsection \<open>The order of the evidence\<close>

text \<open>A comprehension whose elements can fail in one way only does not show the order of failures.\<close>

lemma mapE_uniform:
  assumes "\<And>x e'. f x = Inl e' \<Longrightarrow> e' = e"
  shows "mapE f xs = (if list_all (\<lambda>x. is_ok (f x)) xs then Inr (map (\<lambda>x. projr (f x)) xs) else Inl e)"
proof (induction xs)
  case (Cons x xs)
  show ?case
  proof (cases "f x")
    case (Inl a)
    with assms have "a = e" by blast
    with Inl show ?thesis by simp
  next
    case (Inr y)
    then show ?thesis by (simp add: Cons.IH)
  qed
qed simp

lemma list_all_perm: "mset xs = mset ys \<Longrightarrow> list_all P xs \<longleftrightarrow> list_all P ys"
  by (metis list_all_iff mset_eq_setD)

lemma mapE_perm:
  assumes "mset xs = mset ys" and "\<And>x e'. f x = Inl e' \<Longrightarrow> e' = e"
  shows "mapE f xs = Inl e \<and> mapE f ys = Inl e \<or>
         (\<exists>g. mapE f xs = Inr (map g xs) \<and> mapE f ys = Inr (map g ys))"
  using mapE_uniform [of f e, OF assms(2)] list_all_perm [OF assms(1), of "\<lambda>x. is_ok (f x)"] by auto

lemma finding_string_uniform:
  "finding_string d k code = Inl e \<Longrightarrow>
     e = Raised (FindingBuildError code (''Expected non-empty string field: '' @ k @ ''.''))"
  by (auto simp: finding_string_def finding_reject_def raise_error_def split: pyval.splits list.splits)

lemma validate_schema_uniform:
  "validate_schema schemas d name code = Inl e \<Longrightarrow>
     e = Raised (FindingBuildError code ''Document failed its approved JSON Schema.'')"
  by (auto simp: validate_schema_def schema_validate_def reject_def finding_reject_def raise_error_def
      split: if_splits schema_outcome.splits)

lemma evidence_field_bind:
  assumes "mset xs = mset ys"
    and "\<And>us vs. evidence_field xs k = Inr us \<Longrightarrow> mset us = mset vs \<Longrightarrow> g us = h vs"
  shows "bindE (evidence_field xs k) g = bindE (evidence_field ys k) h"
proof -
  have "mapE (\<lambda>item. finding_string item k EVIDENCE_SCHEMA_INVALID) xs = Inl e \<and>
        mapE (\<lambda>item. finding_string item k EVIDENCE_SCHEMA_INVALID) ys = Inl e \<or>
        (\<exists>g. mapE (\<lambda>item. finding_string item k EVIDENCE_SCHEMA_INVALID) xs = Inr (map g xs) \<and>
             mapE (\<lambda>item. finding_string item k EVIDENCE_SCHEMA_INVALID) ys = Inr (map g ys))"
    if "e = Raised (FindingBuildError EVIDENCE_SCHEMA_INVALID (''Expected non-empty string field: '' @ k @ ''.''))" for e
    by (rule mapE_perm [OF assms(1)]) (unfold that, rule finding_string_uniform)
  with assms show ?thesis unfolding evidence_field_def by fastforce
qed

lemma remdups_singleton:
  assumes "mset us = mset vs"
  shows "length (remdups us) = length (remdups vs)" "length (remdups us) = 1 \<Longrightarrow> hd us = hd vs"
proof -
  have set: "set us = set vs" using assms by (rule mset_eq_setD)
  then show "length (remdups us) = length (remdups vs)" by (simp add: length_remdups_card_conv)
  assume "length (remdups us) = 1"
  then have "card (set us) = 1" by (simp add: length_remdups_card_conv)
  then obtain x where "set us = {x}" by (auto simp: card_1_singleton_iff)
  with set show "hd us = hd vs" by (metis hd_in_set list.set(1) singletonD insert_not_empty)
qed

lemma distinct_ids_inj:
  assumes "evidence_field documents ''id'' = Inr ids" and "length ids = length (remdups ids)"
  shows "inj_on document_id (set documents)"
proof -
  have "list_all2 (\<lambda>d i. py_get d ''id'' = PStr i) documents ids"
    using assms(1) unfolding evidence_field_def mapE_eq_Inr finding_string_Inr
    by (auto elim: list.rel_mono_strong)
  then have "map document_id documents = ids"
    by (induction rule: list_all2_induct) (auto simp: document_id_def)
  moreover have "distinct ids" using assms(2) by (metis length_remdups_eq remdups_id_iff_distinct)
  ultimately show ?thesis by (metis distinct_map)
qed

lemma evidence_documents_perm:
  fixes schemas
  defines "check \<equiv> \<lambda>item. bindE (validate_schema schemas item ''normalized_evidence.schema.json''
             EVIDENCE_SCHEMA_INVALID) (\<lambda>_. Inr item)"
  assumes "mset xs = mset ys"
  shows "mapE check xs = mapE check ys \<and> \<not> is_ok (mapE check xs) \<or>
         mapE check xs = Inr xs \<and> mapE check ys = Inr ys"
proof -
  have check: "check x = Inl e \<Longrightarrow> e = Raised (FindingBuildError EVIDENCE_SCHEMA_INVALID
             ''Document failed its approved JSON Schema.'')" "check x = Inr y \<Longrightarrow> y = x" for x y e
    unfolding check_def
    by (cases "validate_schema schemas x ''normalized_evidence.schema.json'' EVIDENCE_SCHEMA_INVALID";
        simp add: validate_schema_uniform)+
  have same: "zs = map g zs" if "mapE check zs = Inr (map g zs)" for zs g
  proof -
    have "list_all2 (\<lambda>x y. check x = Inr y) zs (map g zs)" using that by (simp add: mapE_eq_Inr)
    then have "list_all2 (=) zs (map g zs)" by (rule list.rel_mono_strong) (auto dest: check(2))
    then show ?thesis by (simp add: list.rel_eq)
  qed
  show ?thesis
    using mapE_perm [OF assms(2), of check, OF check(1)] same [of xs] same [of ys] by force
qed

lemma validated_evidence_perm:
  assumes "mset xs = mset ys"
  shows "validated_evidence schemas xs control_id = validated_evidence schemas ys control_id"
  using evidence_documents_perm [OF assms, of schemas]
proof (elim disjE conjE)
  let ?check = "\<lambda>item. bindE (validate_schema schemas item ''normalized_evidence.schema.json''
             EVIDENCE_SCHEMA_INVALID) (\<lambda>_. Inr item)"
  assume "mapE ?check xs = mapE ?check ys" "\<not> is_ok (mapE ?check xs)"
  then show ?thesis
    unfolding validated_evidence_def by (cases "mapE ?check ys") simp_all
next
  let ?check = "\<lambda>item. bindE (validate_schema schemas item ''normalized_evidence.schema.json''
             EVIDENCE_SCHEMA_INVALID) (\<lambda>_. Inr item)"
  assume docs: "mapE ?check xs = Inr xs" "mapE ?check ys = Inr ys"
  have sorted: "sort_key document_id xs = sort_key document_id ys"
    if "evidence_field xs ''id'' = Inr ids" "length ids = length (remdups ids)" for ids
    by (rule sort_key_permutation [OF assms distinct_ids_inj [OF that]])
  have empty: "xs = [] \<longleftrightarrow> ys = []" using assms by auto
  show ?thesis
    unfolding validated_evidence_def docs bindE_simps empty
  proof (intro if_cong refl evidence_field_bind [OF assms], goal_cases)
    case (1 js js' as as' cs cs' rs rs' ids ids')
    note m = 1(3,5,7,9,11)
    show ?case
      by (simp only: remdups_singleton(1) [OF m(1)] remdups_singleton(1) [OF m(2)] mset_eq_setD [OF m(3)]
          remdups_singleton(1) [OF m(4)] remdups_singleton(1) [OF m(5)] mset_eq_length [OF m(5)])
  next
    case (2 js js' as as' cs cs' rs rs' ids ids')
    note m = 2(3,5,7,9,11)
    have "length (remdups js) = 1" "length (remdups as) = 1" "length (remdups rs) = 1"
      "length ids = length (remdups ids)"
      using 2(12) remdups_singleton(1) [OF m(1)] remdups_singleton(1) [OF m(2)]
        remdups_singleton(1) [OF m(4)] remdups_singleton(1) [OF m(5)] mset_eq_length [OF m(5)]
      by simp_all
    then show ?case
      by (simp only: remdups_singleton(2) [OF m(1)] remdups_singleton(2) [OF m(2)]
          remdups_singleton(2) [OF m(4)] sorted [OF 2(10)])
  qed
qed

subsection \<open>The pack\<close>

lemma singleton_or_reject [res_simps]:
  "(case xs of [c] \<Rightarrow> Inr c | _ \<Rightarrow> finding_reject code message) = Inr y \<longleftrightarrow> xs = [y]"
  by (auto split: list.splits)

lemma list_or_reject:
  "(case v of PList xs \<Rightarrow> k xs | _ \<Rightarrow> finding_reject code message) = Inr y \<longleftrightarrow>
     (\<exists>xs. v = PList xs \<and> k xs = Inr y)"
  by (cases v) auto

lemma finding_hash_canonical:
  "finding_hash dumps sha256 v = Inr h \<longleftrightarrow> canonical_sha256 dumps sha256 v = Inr h"
  by (auto simp: finding_hash_def split: sum.splits)

text \<open>The comprehension that finds the control.\<close>

definition controls_named :: "string \<Rightarrow> pyval list \<Rightarrow> pyval list" where
  "controls_named control_id controls =
     filter (\<lambda>item. case item of PDict d \<Rightarrow> py_get d ''control_id'' = PStr control_id | _ \<Rightarrow> False) controls"

lemma matching_controls:
  "map PDict (List.map_filter
     (\<lambda>item. case item of
        PDict d \<Rightarrow> if py_get d ''control_id'' = PStr control_id then Some d else None
      | _ \<Rightarrow> None) controls) = controls_named control_id controls"
  by (induction controls) (auto simp: controls_named_def List.map_filter_simps split: pyval.splits)

lemma pack_control_Inr:
  assumes "pack_control dumps sha256 schemas pack control_id allow_draft = Inr control"
  obtains approval declared controls where
    "schema_validate schemas (PDict pack) ''audit_pack.schema.json'' ''DESCRIPTOR_SCHEMA_INVALID'' = Inr ()"
    "py_get pack ''approval'' = PDict approval"
    "py_get approval ''status'' = PStr ''APPROVED'' \<or> py_get approval ''status'' = PStr ''DRAFT'' \<and> allow_draft"
    "py_get pack ''content_sha256'' = PStr declared"
    "canonical_sha256_without_fields dumps sha256 pack [''content_sha256'', ''approval''] = Inr declared"
    "py_get pack ''controls'' = PList controls"
    "controls_named control_id controls = [PDict control]"
  using assms
  unfolding pack_control_def bindE_eq_Inr if_finding_reject_Inr validate_schema_Inr
    finding_object_Inr finding_string_Inr list_or_reject singleton_or_reject finding_hash_canonical
  apply (elim exE conjE)
  apply (rule that)
  by (assumption | simp add: canonical_sha256_without_fields_def matching_controls [symmetric]; blast)+

subsection \<open>The evidence\<close>

lemma remdups_hd:
  "length (remdups xs) = 1 \<Longrightarrow> x \<in> set xs \<Longrightarrow> x = hd xs"
  by (metis One_nat_def card_1_singletonE hd_in_set length_pos_if_in_set length_remdups_card_conv
      list.size(3) less_numeral_extra(3) singletonD)

lemma evidence_field_each:
  assumes "evidence_field documents k = Inr us" "d \<in> set documents"
  shows "\<exists>s \<in> set us. py_get d k = PStr s"
proof -
  have "list_all2 (\<lambda>d s. py_get d k = PStr s) documents us"
    using assms(1) unfolding evidence_field_def mapE_eq_Inr finding_string_Inr
    by (auto elim: list.rel_mono_strong)
  then show ?thesis using assms(2) by (induction rule: list_all2_induct) auto
qed

lemma validated_evidence_Inr:
  assumes "validated_evidence schemas evidence control_id = Inr (documents, job_id, asset_id, correlation_id)"
  shows "documents = sort_key document_id evidence \<and> evidence \<noteq> [] \<and>
         inj_on document_id (set evidence) \<and>
         (\<forall>d \<in> set evidence.
            schema_validate schemas (PDict d) ''normalized_evidence.schema.json''
              ''DESCRIPTOR_SCHEMA_INVALID'' = Inr () \<and>
            py_get d ''job_id'' = PStr job_id \<and> py_get d ''asset_id'' = PStr asset_id \<and>
            py_get d ''control_id'' = PStr control_id \<and>
            py_get d ''correlation_id'' = PStr correlation_id)"
proof -
  obtain docs js as cs rs ids where
    docs: "mapE (\<lambda>item. bindE (validate_schema schemas item ''normalized_evidence.schema.json''
             EVIDENCE_SCHEMA_INVALID) (\<lambda>_. Inr item)) evidence = Inr docs" "docs \<noteq> []"
    and fields: "evidence_field docs ''job_id'' = Inr js" "evidence_field docs ''asset_id'' = Inr as"
      "evidence_field docs ''control_id'' = Inr cs" "evidence_field docs ''correlation_id'' = Inr rs"
      "evidence_field docs ''id'' = Inr ids"
    and one: "length (remdups js) = 1" "length (remdups as) = 1" "set cs = {control_id}"
      "length (remdups rs) = 1" "length ids = length (remdups ids)"
    and out: "documents = sort_key document_id docs" "job_id = hd js" "asset_id = hd as" "correlation_id = hd rs"
    using assms unfolding validated_evidence_def bindE_eq_Inr if_finding_reject_Inr by auto
  have "list_all2 (\<lambda>x y. y = x \<and> schema_validate schemas (PDict x) ''normalized_evidence.schema.json''
              ''DESCRIPTOR_SCHEMA_INVALID'' = Inr ()) evidence docs"
    using docs(1) unfolding mapE_eq_Inr bindE_eq_Inr validate_schema_Inr
    by (auto elim!: list.rel_mono_strong)
  then have same: "docs = evidence" "\<forall>d \<in> set evidence. schema_validate schemas (PDict d)
      ''normalized_evidence.schema.json'' ''DESCRIPTOR_SCHEMA_INVALID'' = Inr ()"
    by (induction rule: list_all2_induct) auto
  have "py_get d ''job_id'' = PStr job_id \<and> py_get d ''asset_id'' = PStr asset_id \<and>
        py_get d ''control_id'' = PStr control_id \<and> py_get d ''correlation_id'' = PStr correlation_id"
    if "d \<in> set evidence" for d
    using evidence_field_each [OF fields(1), of d] evidence_field_each [OF fields(2), of d]
      evidence_field_each [OF fields(3), of d] evidence_field_each [OF fields(4), of d]
      remdups_hd [OF one(1)] remdups_hd [OF one(2)] remdups_hd [OF one(4)] one(3) that
    by (auto simp: same(1) out)
  with same docs(2) out(1) distinct_ids_inj [OF fields(5) one(5)] show ?thesis by auto
qed

text \<open>Both builders start from the pack and the evidence and end in \<open>_assemble\<close>.\<close>

lemma builders_Inr:
  assumes "build_finding dumps sha256 sha1 schemas pack control_id evidence decision ctxt allow_draft = Inr f \<or>
           build_common dumps sha256 sha1 schemas pack control_id evidence cdecision ctxt allow_draft = Inr f"
  obtains p where
    "pack_control dumps sha256 schemas pack control_id allow_draft = Inr (fp_control p)"
    "validated_evidence schemas evidence control_id =
       Inr (fp_documents p, fp_job_id p, fp_asset_id p, fp_correlation_id p)"
    "assemble dumps sha256 sha1 schemas p = Inr f"
    "fp_pack p = pack" "fp_control_id p = control_id" "fp_context p = ctxt"
proof -
  have "\<exists>p. pack_control dumps sha256 schemas pack control_id allow_draft = Inr (fp_control p) \<and>
    validated_evidence schemas evidence control_id =
       Inr (fp_documents p, fp_job_id p, fp_asset_id p, fp_correlation_id p) \<and>
    assemble dumps sha256 sha1 schemas p = Inr f \<and>
    fp_pack p = pack \<and> fp_control_id p = control_id \<and> fp_context p = ctxt"
    using assms
  proof
    assume "build_finding dumps sha256 sha1 schemas pack control_id evidence decision ctxt allow_draft = Inr f"
    then show ?thesis
      unfolding build_finding_def bindE_eq_Inr
      apply (elim exE conjE)
      apply (simp only: split_paired_all prod.case bindE_eq_Inr)
      apply (elim exE conjE)
      apply (intro exI conjI)
      prefer 3 apply assumption
      by simp_all
  next
    assume "build_common dumps sha256 sha1 schemas pack control_id evidence cdecision ctxt allow_draft = Inr f"
    then show ?thesis
      unfolding build_common_def bindE_eq_Inr Let_def
      apply (elim exE conjE)
      apply (simp only: split_paired_all prod.case bindE_eq_Inr if_finding_reject_Inr)
      apply (elim exE conjE)
      apply (intro exI conjI)
      prefer 3 apply assumption
      by simp_all
  qed
  with that show ?thesis by blast
qed

lemma evidence_references_list:
  "evidence_references documents = Inr refs \<Longrightarrow>
     refs = map (\<lambda>d. PDict [(''id'', py_get d ''id''), (''sha256'', py_get d ''evidence_sha256'')]) documents"
  unfolding evidence_references_def
  by (induction documents arbitrary: refs) (auto simp: bindE_eq_Inr finding_string_Inr)

end
