(* ===== verification/Finding_Store.thy ===== *)
theory Finding_Store
  imports Finding_Facts
begin

section \<open>The store of findings\<close>

text \<open>
  What every append keeps of the table of findings, and what a replay of a stored finding returns.
\<close>

subsection \<open>Rows of commands\<close>

lemma row_fingerprint_Inr [res_simps]:
  "row_fingerprint dumps sha256 sha1 d = Inr fp \<longleftrightarrow> fingerprint_of dumps sha256 sha1 d = Inr fp"
  by (auto simp: row_fingerprint_def split: sum.splits raised.splits replay_failure.splits)

lemma row_string_Inr [res_simps]: "row_string d k = Inr s \<longleftrightarrow> py_get d k = PStr s \<and> s \<noteq> []"
  by (auto simp: row_string_def split: pyval.splits list.splits)

lemma row_object_Inr [res_simps]: "row_object d k = Inr e \<longleftrightarrow> py_get d k = PDict e"
  by (auto simp: row_object_def split: pyval.splits)

lemma record_values_Inr:
  assumes "finding_record_values dumps sha256 sha1 command d = Inr row"
  obtains fp where "fingerprint_of dumps sha256 sha1 d = Inr fp"
    "fr_input_sha256 row = ff_idempotency_key fp" "fr_output_sha256 row = ff_output_sha256 fp"
    "fr_finding_document row = d" "uuid_parse (ff_finding_id fp) = Some (fr_id row)"
  using assms
  unfolding finding_record_values_def bindE_eq_Inr row_fingerprint_Inr
  by (elim exE conjE) (rule that, auto simp: row_uuid_def split: option.splits)

text \<open>A stored row has the identity that its document proves.\<close>

definition row_identity :: "json_dumps \<Rightarrow> digest \<Rightarrow> digest \<Rightarrow> finding_row \<Rightarrow> bool" where
  "row_identity dumps sha256 sha1 r \<longleftrightarrow>
     fingerprint_of dumps sha256 sha1 (fr_finding_document r) =
       Inr \<lparr>ff_idempotency_key = fr_input_sha256 r, ff_finding_id = fr_id r,
            ff_output_sha256 = fr_output_sha256 r\<rparr>"

lemma record_values_identity:
  assumes "finding_record_values dumps sha256 sha1 command d = Inr row" and "row_checks row"
  shows "row_identity dumps sha256 sha1 row"
proof -
  obtain fp where fp: "fingerprint_of dumps sha256 sha1 d = Inr fp"
    "fr_input_sha256 row = ff_idempotency_key fp" "fr_output_sha256 row = ff_output_sha256 fp"
    "fr_finding_document row = d"
    using assms(1) by (rule record_values_Inr)
  have "text_matches d ''id'' (fr_id row)"
    using assms(2) fp(4) by (simp add: row_checks_def document_identity_def Let_def)
  then have "fr_id row = ff_finding_id fp"
    using fp(1) by (auto simp: text_matches_def fingerprint_of_Inr)
  with fp show ?thesis by (simp add: row_identity_def)
qed

subsection \<open>The invariant\<close>

definition findings_ok :: "json_dumps \<Rightarrow> digest \<Rightarrow> digest \<Rightarrow> finding_db \<Rightarrow> bool" where
  "findings_ok dumps sha256 sha1 db \<longleftrightarrow>
     distinct (map fr_input_sha256 (fd_rows db)) \<and> distinct (map fr_id (fd_rows db)) \<and>
     distinct (map subject_version (fd_rows db)) \<and>
     (\<forall>r \<in> set (fd_rows db).
        row_checks r \<and> row_identity dumps sha256 sha1 r \<and>
        (fr_job_id r, fr_organization_id r, fr_asset_id r) \<in> set (fd_jobs db) \<and>
        (\<forall>p. fr_predecessor_id r = Some p \<longrightarrow> p \<in> fr_id ` set (fd_rows db)))"

lemma lift_error_Inr [simp]: "lift_error f (Inr x) = Inr x"
  by (simp add: lift_error_def)

lemma fst_op_of_result [simp]: "fst (op_of_result m db) = db"
  by (cases m) (simp_all add: op_of_result_def)

lemma snd_op_of_result [simp]: "snd (op_of_result m db) = m"
  by (cases m) (simp_all add: op_of_result_def)

text \<open>An append changes the table only by a new row.\<close>

lemma append_cases:
  obtains (unchanged) "fst (append_or_get_finding dumps sha256 sha1 command d db) = db"
  | (appended) row where
      "finding_record_values dumps sha256 sha1 command d = Inr row"
      "fst (append_or_get_finding dumps sha256 sha1 command d db) = db\<lparr>fd_rows := fd_rows db @ [row]\<rparr>"
      "row_checks row" "fr_input_sha256 row \<notin> fr_input_sha256 ` set (fd_rows db)"
      "insert_allowed db row"
proof (cases "finding_record_values dumps sha256 sha1 command d")
  case (Inl e)
  then show ?thesis by (intro unchanged) (simp add: append_or_get_finding_def op_bind_fst)
next
  case (Inr row)
  show ?thesis
  proof (cases "columns_fit row \<and> row_checks row \<and>
      fr_input_sha256 row \<notin> fr_input_sha256 ` set (fd_rows db) \<and> insert_allowed db row")
    case True
    with Inr show ?thesis
      by (intro appended [of row])
        (simp_all add: append_or_get_finding_def op_bind_fst op_bind_snd execute_finding_insert_def
          split: sum.splits)
  next
    case False
    with Inr show ?thesis
      by (intro unchanged)
        (auto simp: append_or_get_finding_def op_bind_fst op_bind_snd execute_finding_insert_def
          split: sum.splits option.splits)
  qed
qed

lemma append_keeps_ok:
  assumes "findings_ok dumps sha256 sha1 db"
  shows "findings_ok dumps sha256 sha1 (fst (append_or_get_finding dumps sha256 sha1 command d db))"
proof (cases rule: append_cases [of dumps sha256 sha1 command d db])
  case unchanged
  with assms show ?thesis by simp
next
  case (appended row)
  then show ?thesis
    using assms record_values_identity [OF appended(1,3)]
    by (auto simp: findings_ok_def insert_allowed_def split: option.splits)
qed

lemma append_grows:
  "\<exists>new. fd_rows (fst (append_or_get_finding dumps sha256 sha1 command d db)) = fd_rows db @ new"
  by (cases rule: append_cases [of dumps sha256 sha1 command d db]) auto

definition run_appends ::
  "json_dumps \<Rightarrow> digest \<Rightarrow> digest \<Rightarrow> (append_command \<times> dict) list \<Rightarrow> finding_db \<Rightarrow> finding_db" where
  "run_appends dumps sha256 sha1 calls db =
     fold (\<lambda>(command, d) db. fst (append_or_get_finding dumps sha256 sha1 command d db)) calls db"

lemma run_appends_ok:
  "findings_ok dumps sha256 sha1 db \<Longrightarrow> findings_ok dumps sha256 sha1 (run_appends dumps sha256 sha1 calls db)"
  by (induction calls arbitrary: db) (auto simp: run_appends_def append_keeps_ok)

lemma run_appends_grows:
  "\<exists>new. fd_rows (run_appends dumps sha256 sha1 calls db) = fd_rows db @ new"
proof (induction calls arbitrary: db)
  case (Cons call calls)
  obtain command d where call: "call = (command, d)" by (cases call)
  let ?db = "fst (append_or_get_finding dumps sha256 sha1 command d db)"
  obtain new where "fd_rows ?db = fd_rows db @ new" using append_grows by blast
  moreover obtain new' where "fd_rows (run_appends dumps sha256 sha1 calls ?db) = fd_rows ?db @ new'"
    using Cons by blast
  ultimately show ?case by (simp add: run_appends_def call)
qed (simp add: run_appends_def)

subsection \<open>Replays\<close>

lemma find_input:
  assumes "findings_ok dumps sha256 sha1 db" "r \<in> set (fd_rows db)"
  shows "load_finding_document (fr_input_sha256 r) db = Some (fr_finding_document r)"
proof -
  have "find (\<lambda>s. fr_input_sha256 s = fr_input_sha256 r) (fd_rows db) \<noteq> None"
    using assms(2) by (auto simp: find_None_iff)
  then obtain s where s: "find (\<lambda>s. fr_input_sha256 s = fr_input_sha256 r) (fd_rows db) = Some s" by blast
  have "distinct (map fr_input_sha256 (fd_rows db))" using assms(1) by (simp add: findings_ok_def)
  moreover have "s \<in> set (fd_rows db)" "fr_input_sha256 s = fr_input_sha256 r"
    using find_key_SomeD [OF s] by simp_all
  ultimately have "s = r" using assms(2) by (metis distinct_map inj_on_def)
  with s show ?thesis by (simp add: load_finding_document_def)
qed

lemma append_existing:
  assumes "findings_ok dumps sha256 sha1 db" "r \<in> set (fd_rows db)"
    and "fingerprint_of dumps sha256 sha1 (fr_finding_document r) = Inr fp"
    and "finding_record_values dumps sha256 sha1 command d = Inr row"
    and "columns_fit row" "row_checks row"
    and "fingerprint_of dumps sha256 sha1 d = Inr fp"
  shows "append_or_get_finding dumps sha256 sha1 command d db =
           (db, Inr \<lparr>rr_action = RETURN_EXISTING, rr_fingerprint = fp\<rparr>)"
proof -
  have key: "fr_input_sha256 row = fr_input_sha256 r"
    using assms(1,2,3,4,7) by (auto simp: findings_ok_def row_identity_def elim: record_values_Inr)
  have "execute_finding_insert row db = (db, Inr None)"
    using assms(2,5,6) key by (auto simp: execute_finding_insert_def)
  moreover have "resolve_finding_replay dumps sha256 sha1 (Some (fr_finding_document r)) d =
      Inr \<lparr>rr_action = RETURN_EXISTING, rr_fingerprint = fp\<rparr>"
    by (simp add: resolve_finding_replay_def assms(3,7))
  ultimately show ?thesis
    by (simp add: append_or_get_finding_def op_of_result_def assms(4) op_bind_def op_read_def
        find_input [OF assms(1,2), folded key] replay_rejected_def op_return_def)
qed

text \<open>After an append that returned, a row holds the fingerprint that was returned.\<close>

lemma append_returned:
  assumes "append_or_get_finding dumps sha256 sha1 command d db = (db', Inr res)"
    and "findings_ok dumps sha256 sha1 db"
  obtains r row where "r \<in> set (fd_rows db')"
    "fingerprint_of dumps sha256 sha1 (fr_finding_document r) = Inr (rr_fingerprint res)"
    "fingerprint_of dumps sha256 sha1 d = Inr (rr_fingerprint res)"
    "finding_record_values dumps sha256 sha1 command d = Inr row" "columns_fit row" "row_checks row"
proof -
  obtain row where row: "finding_record_values dumps sha256 sha1 command d = Inr row"
    using assms(1) by (cases "finding_record_values dumps sha256 sha1 command d")
      (auto simp: append_or_get_finding_def op_of_result_def)
  obtain fp where fp: "fingerprint_of dumps sha256 sha1 d = Inr fp" "fr_finding_document row = d"
    "fr_input_sha256 row = ff_idempotency_key fp"
    using row by (rule record_values_Inr)
  have fit: "columns_fit row" "row_checks row"
    using assms(1) row by (auto simp: append_or_get_finding_def op_of_result_def op_bind_def
        execute_finding_insert_def split: if_splits)
  show ?thesis
  proof (cases "fr_input_sha256 row \<in> set (map fr_input_sha256 (fd_rows db))")
    case True
    then obtain r where r: "r \<in> set (fd_rows db)" "fr_input_sha256 r = fr_input_sha256 row" by auto
    then have old: "fingerprint_of dumps sha256 sha1 (fr_finding_document r) =
        Inr \<lparr>ff_idempotency_key = fr_input_sha256 r, ff_finding_id = fr_id r, ff_output_sha256 = fr_output_sha256 r\<rparr>"
      using assms(2) by (auto simp: findings_ok_def row_identity_def)
    have "db' = db" "fp = rr_fingerprint res" "fp = \<lparr>ff_idempotency_key = fr_input_sha256 r, ff_finding_id = fr_id r,
        ff_output_sha256 = fr_output_sha256 r\<rparr>"
      using assms(1) row fit True fp(1) find_input [OF assms(2) r(1)] old r(2)
      by (auto simp: append_or_get_finding_def op_of_result_def op_bind_def execute_finding_insert_def
          op_read_def op_return_def op_raise_def replay_rejected_def resolve_finding_replay_def
          replay_reject_def persistence_reject_def raise_error_def split: if_splits)
    with that [of r row] r old fp row fit show ?thesis by simp
  next
    case False
    then have "db' = db\<lparr>fd_rows := fd_rows db @ [row]\<rparr>" "rr_fingerprint res = fp"
      using assms(1) row fit fp(1)
      by (auto simp: append_or_get_finding_def op_of_result_def op_bind_def execute_finding_insert_def
          op_return_def split: if_splits)
    with that [of row row] fp row fit show ?thesis by simp
  qed
qed

subsection \<open>The row of a rebuilt finding\<close>

lemma document_get:
  assumes "k \<noteq> ''created_at''" "k \<noteq> ''evaluated_at''"
  shows "py_get (finding_document (at_instant t p) s refs h i rr) k =
         py_get (finding_document p s refs h i rr) k"
  using assms by (simp add: finding_document_def at_instant_def)

lemma document_instants:
  "py_get (finding_document (at_instant t p) s refs h i rr) ''created_at'' = PStr t"
  "py_get (finding_document (at_instant t p) s refs h i rr) ''evaluated_at'' = PStr t"
  by (simp_all add: finding_document_def at_instant_def)

lemma row_access_cong:
  assumes "py_get d k = py_get e k"
  shows "row_string d k = row_string e k" "row_object d k = row_object e k"
    "row_uuid_of d k n = row_uuid_of e k n"
  by (simp_all add: row_string_def row_object_def row_uuid_of_def assms)

lemma utc_timestamp_row:
  assumes "utc_timestamp t" "py_get d k = PStr t"
  shows "\<exists>v. row_timestamp_of d k = Inr v"
proof -
  have t: "t \<noteq> []" "last t = CHR ''Z''" "datetime_fromisoformat (butlast t @ ''+00:00'') \<noteq> None"
    using assms(1) by (simp_all add: utc_timestamp_def split: option.splits)
  then have "row_string d k = Inr t" using assms(2) by (simp add: row_string_Inr)
  with t show ?thesis by (auto simp: row_timestamp_of_def row_timestamp_def)
qed

lemma nul_free_document:
  assumes "CHR 0x00 \<notin> set t"
    and "nul_free (PDict (finding_document p s refs h i rr))"
  shows "nul_free (PDict (finding_document (at_instant t p) s refs h i rr))"
  using assms by (simp add: finding_document_def at_instant_def)

lemma document_identity_cong:
  assumes "\<And>k. k \<noteq> ''created_at'' \<Longrightarrow> k \<noteq> ''evaluated_at'' \<Longrightarrow> py_get d' k = py_get d k"
    and "document_identity r" "fr_finding_document r = d"
  shows "document_identity (r\<lparr>fr_finding_document := d', fr_evaluated_at := x, fr_created_at := y\<rparr>)"
  using assms(2) by (simp add: document_identity_def text_matches_def nested_def Let_def assms(1,3))

lemma record_values_rebuilt:
  fixes p s refs h i rr t
  defines "f \<equiv> finding_document p s refs h i rr"
    and "f' \<equiv> finding_document (at_instant t p) s refs h i rr"
  assumes "finding_record_values dumps sha256 sha1 command f = Inr row"
    and "fingerprint_of dumps sha256 sha1 f' = fingerprint_of dumps sha256 sha1 f"
    and "utc_timestamp t"
  shows "\<exists>x y. finding_record_values dumps sha256 sha1 command f' =
           Inr (row\<lparr>fr_finding_document := f', fr_evaluated_at := x, fr_created_at := y\<rparr>)"
proof -
  have get: "py_get f' k = py_get f k" if "k \<noteq> ''created_at''" "k \<noteq> ''evaluated_at''" for k
    unfolding f_def f'_def by (rule document_get [OF that])
  obtain x y where xy: "row_timestamp_of f' ''evaluated_at'' = Inr x" "row_timestamp_of f' ''created_at'' = Inr y"
    using utc_timestamp_row [OF assms(5)] document_instants [of t p s refs h i rr] unfolding f'_def by metis
  have "row_fingerprint dumps sha256 sha1 f' = row_fingerprint dumps sha256 sha1 f"
    by (simp add: row_fingerprint_def assms(4))
  then show ?thesis
    using assms(3)
    unfolding finding_record_values_def bindE_eq_Inr
    by (elim exE conjE) (rule exI [of _ x], rule exI [of _ y], auto simp: xy get row_access_cong [OF get])
qed

lemma rebuilt_row_fits:
  assumes "columns_fit row" "row_checks row"
    and "fr_finding_document row = finding_document p s refs h i rr" "CHR 0x00 \<notin> set t"
  shows "columns_fit (row\<lparr>fr_finding_document := finding_document (at_instant t p) s refs h i rr,
            fr_evaluated_at := x, fr_created_at := y\<rparr>) \<and>
         row_checks (row\<lparr>fr_finding_document := finding_document (at_instant t p) s refs h i rr,
            fr_evaluated_at := x, fr_created_at := y\<rparr>)"
  using assms(1,2) nul_free_document [OF assms(4), of p s refs h i rr]
    document_identity_cong [where x = x and y = y, OF document_get _ assms(3)]
  by (simp add: columns_fit_def row_checks_def assms(3) del: nul_free.simps)

text \<open>
  A stored finding that is built again at another instant and appended again, after any other appends,
  is the stored one.
\<close>

lemma rebuilt_finding_is_stored:
  assumes "\<And>b. sha256_text (sha256 b)"
    and "\<And>b. length (sha1 b) = 40 \<and> list_all lower_hex_char (sha1 b)"
    and "assemble dumps sha256 sha1 schemas p = Inr f"
    and "assemble dumps sha256 sha1 schemas (at_instant t p) = Inr f'"
    and "utc_timestamp t" "CHR 0x00 \<notin> set t"
    and "findings_ok dumps sha256 sha1 db"
    and "append_or_get_finding dumps sha256 sha1 command f db = (db1, Inr res)"
    and "db2 = run_appends dumps sha256 sha1 calls db1"
  shows "append_or_get_finding dumps sha256 sha1 command f' db2 =
           (db2, Inr \<lparr>rr_action = RETURN_EXISTING, rr_fingerprint = rr_fingerprint res\<rparr>)"
proof -
  obtain s refs h citations inp out where
    a: "assembled dumps sha256 p s refs h citations inp"
    and f: "f = finding_document p s refs h (deterministic_finding_id sha1 inp out)
           (rule_result_document p s citations inp out)"
    and f': "f' = finding_document (at_instant t p) s refs h (deterministic_finding_id sha1 inp out)
           (rule_result_document (at_instant t p) s citations inp out)"
    and out: "canonical_finding_output_sha256 dumps sha256 f = Inr out"
      "canonical_finding_output_sha256 dumps sha256 f' = Inr out"
    using assms(3,4) by (rule assemble_again)
  have rr: "rule_result_document (at_instant t p) s citations inp out =
            rule_result_document p s citations inp out"
    by (simp add: rule_result_document_def at_instant_def)
  obtain bytes where inp: "inp = sha256 bytes" using assembled_input_range [OF a] by blast
  have same: "fingerprint_of dumps sha256 sha1 f' = fingerprint_of dumps sha256 sha1 f"
    unfolding assembled_fingerprint [OF assms(1,2) inp f out(1)] assembled_fingerprint [OF assms(1,2) inp f' out(2)] ..
  obtain r row where r: "r \<in> set (fd_rows db1)"
    "fingerprint_of dumps sha256 sha1 (fr_finding_document r) = Inr (rr_fingerprint res)"
    "fingerprint_of dumps sha256 sha1 f = Inr (rr_fingerprint res)"
    and row: "finding_record_values dumps sha256 sha1 command f = Inr row" "columns_fit row" "row_checks row"
    using assms(8,7) by (rule append_returned)
  obtain x y where row': "finding_record_values dumps sha256 sha1 command f' =
      Inr (row\<lparr>fr_finding_document := f', fr_evaluated_at := x, fr_created_at := y\<rparr>)"
    using record_values_rebuilt [OF row(1) [unfolded f] _ assms(5)] same unfolding f f' rr by blast
  have doc: "fr_finding_document row = f" using row(1) by (rule record_values_Inr)
  have fits: "columns_fit (row\<lparr>fr_finding_document := f', fr_evaluated_at := x, fr_created_at := y\<rparr>)"
    "row_checks (row\<lparr>fr_finding_document := f', fr_evaluated_at := x, fr_created_at := y\<rparr>)"
    using rebuilt_row_fits [OF row(2,3) doc [unfolded f] assms(6)] unfolding f' rr by blast+
  have ok: "findings_ok dumps sha256 sha1 db2"
    using append_keeps_ok [OF assms(7), of command f] assms(8,9) by (simp add: run_appends_ok)
  have "r \<in> set (fd_rows db2)"
    using run_appends_grows [of dumps sha256 sha1 calls db1] r(1) assms(9) by auto
  then show ?thesis
    by (rule append_existing [OF ok _ r(2) row' fits]) (simp add: same r(3))
qed

end
