(* ===== verification/Finding_Properties.thy ===== *)
theory Finding_Properties
  imports Finding_Store
begin

section \<open>Properties of findings\<close>

text \<open>
  A sample pack with one control, two pieces of evidence, a decision and a store, on which the
  witnesses evaluate the builder and the repository, and the properties of the two.
\<close>

subsection \<open>A sample\<close>

text \<open>Digests that depend on the first byte; \<open>demo_dumps\<close> prints the first key.\<close>

definition demo_digest :: "nat \<Rightarrow> string \<Rightarrow> string" where
  "demo_digest n b =
     (case b of
        [] \<Rightarrow> replicate n (CHR ''0'')
      | c # _ \<Rightarrow> replicate (n - 1) (CHR ''a'') @ [if digit0 c then CHR ''1'' else CHR ''0''])"

definition demo_finding_dumps :: json_dumps where
  "demo_finding_dumps v = Inr (case v of PDict ((k, _) # _) \<Rightarrow> k | _ \<Rightarrow> ''[]'')"

definition demo_finding_schemas :: schema_catalog where
  "demo_finding_schemas =
     \<lparr>sc_registered = [''audit_pack.schema.json'', ''normalized_evidence.schema.json'', ''finding.schema.json''],
      sc_check = (\<lambda>name document. case document of PDict d \<Rightarrow>
        (if py_get d ''id'' = PNone then Violates else Conforms) | _ \<Rightarrow> Violates)\<rparr>"

definition demo_control :: dict where
  "demo_control =
     [(''control_id'', PStr ''PC-07''), (''severity'', PStr ''HIGH''),
      (''citations'', PList [PStr ''KISA 2026 PC-07'']),
      (''applicability_rule'', PDict [(''rule_id'', PStr ''pc07.applicability'')]),
      (''evaluation_rule'', PDict
        [(''rule_id'', PStr ''pc07.ntfs''), (''rule_version'', PStr ''1.0.0''),
         (''parameters'', PDict [(''required_filesystem'', PStr ''NTFS'')])])]"

definition demo_pack :: dict where
  "demo_pack =
     [(''id'', PStr ''33333333-3333-4333-8333-333333333333''), (''version'', PStr ''1.0.0''),
      (''content_sha256'', PStr (replicate 63 (CHR ''a'') @ ''1'')),
      (''approval'', PDict [(''status'', PStr ''APPROVED'')]),
      (''guide'', PDict [(''version'', PStr ''2026'')]),
      (''controls'', PList [PDict [(''control_id'', PStr ''PC-01'')], PDict demo_control])]"

definition demo_evidence :: "string \<Rightarrow> string \<Rightarrow> string \<Rightarrow> dict" where
  "demo_evidence evidence_id probe_id filesystem =
     [(''id'', PStr evidence_id), (''job_id'', PStr ''11111111-1111-4111-8111-111111111111''),
      (''asset_id'', PStr ''22222222-2222-4222-8222-222222222222''),
      (''control_id'', PStr ''PC-07''), (''correlation_id'', PStr ''run-1''),
      (''evidence_sha256'', PStr (replicate 64 (CHR ''b''))), (''probe_id'', PStr probe_id),
      (''collection_status'', PStr ''COLLECTED''),
      (''subject'', PDict [(''scope'', PStr ''VOLUME''), (''subject_key'', PStr ''volume-c'')]),
      (''normalized_value'', PDict [(''filesystem'', PStr filesystem)])]"

definition demo_documents :: "dict list" where
  "demo_documents =
     [demo_evidence ''ev-2'' ''win.storage.volumes'' ''NTFS'',
      demo_evidence ''ev-1'' ''win.storage.classes'' ''NTFS'']"

definition demo_decision :: decision_candidate where
  "demo_decision =
     \<lparr>dc_status = COMPLIANT,
      dc_applicability = \<lparr>ad_status = APPLICABLE, ad_reason_code = ''VOLUME_IN_SCOPE'',
        ad_candidate_volume_ids = [''volume-c''], ad_excluded_volumes = [], ad_error_codes = []\<rparr>,
      dc_subject_scope = ''VOLUME'', dc_subject_key = ''pc07:evaluated-volume-set'',
      dc_result_code = ''ALL_EVALUATED_VOLUMES_NTFS'', dc_evaluated_volume_ids = [''volume-c''],
      dc_violating_volume_ids = [], dc_error_codes = [],
      dc_rationale_code = ''ALL_EVALUATED_VOLUMES_NTFS''\<rparr>"

definition demo_context :: "string \<Rightarrow> finding_context" where
  "demo_context evaluated_at =
     \<lparr>fc_organization_id = ''44444444-4444-4444-8444-444444444444'',
      fc_evaluation_as_of = ''2026-01-01T00:00:00Z'', fc_evaluated_at = evaluated_at,
      fc_engine_version = ''1.0.0'', fc_engine_artifact_sha256 = replicate 64 (CHR ''c'')\<rparr>"

abbreviation demo_build :: "bool \<Rightarrow> dict list \<Rightarrow> string \<Rightarrow> dict build_result" where
  "demo_build draft documents t \<equiv>
     build_finding demo_finding_dumps (demo_digest 64) (demo_digest 40) demo_finding_schemas
       demo_pack ''PC-07'' documents demo_decision (demo_context t) draft"

definition demo_command :: append_command where
  "demo_command =
     \<lparr>ac_organization_id = ''44444444-4444-4444-8444-444444444444'',
      ac_engine_artifact_sha256 = replicate 64 (CHR ''c''), ac_finding_version = 1,
      ac_predecessor_id = None, ac_change_reason = None\<rparr>"

definition demo_store :: finding_db where
  "demo_store =
     \<lparr>fd_jobs = [(''11111111-1111-4111-8111-111111111111'', ''44444444-4444-4444-8444-444444444444'',
                 ''22222222-2222-4222-8222-222222222222'')], fd_rows = []\<rparr>"

lemma demo_digest_hex:
  assumes "0 < n"
  shows "length (demo_digest n b) = n \<and> list_all lower_hex_char (demo_digest n b)"
  using assms by (auto simp: demo_digest_def list_all_iff lower_hex_char_def split: list.splits)

lemma demo_build_ok: "is_ok (demo_build False demo_documents ''2026-01-02T00:00:00Z'')"
  by code_simp

lemma demo_rebuild_ok: "is_ok (demo_build False demo_documents ''2026-01-03T10:00:00Z'')"
  by code_simp

lemma demo_append_ok:
  "is_ok (snd (append_or_get_finding demo_finding_dumps (demo_digest 64) (demo_digest 40) demo_command
     (projr (demo_build False demo_documents ''2026-01-02T00:00:00Z'')) demo_store))"
  by code_simp

subsection \<open>What a finding rests on\<close>

text \<open>
  C32: A finding that is not a draft rests on an approved pack: the pack passed its schema, its
  approval says APPROVED, its declared content hash is the hash of its content without the approval,
  the control is in it exactly once, and the finding names that hash and passed its own schema.
\<close>

theorem official_finding_needs_approved_pack:
  assumes "build_finding dumps sha256 sha1 schemas pack control_id evidence decision ctxt False = Inr f \<or>
           build_common dumps sha256 sha1 schemas pack control_id evidence cdecision ctxt False = Inr f"
  shows "\<exists>approval declared controls control.
     schema_validate schemas (PDict pack) ''audit_pack.schema.json'' ''DESCRIPTOR_SCHEMA_INVALID'' = Inr () \<and>
     py_get pack ''approval'' = PDict approval \<and> py_get approval ''status'' = PStr ''APPROVED'' \<and>
     py_get pack ''content_sha256'' = PStr declared \<and>
     canonical_sha256_without_fields dumps sha256 pack [''content_sha256'', ''approval''] = Inr declared \<and>
     py_get pack ''controls'' = PList controls \<and> controls_named control_id controls = [PDict control] \<and>
     py_get (nested f ''audit_pack'') ''sha256'' = PStr declared \<and>
     schema_validate schemas (PDict f) ''finding.schema.json'' ''DESCRIPTOR_SCHEMA_INVALID'' = Inr ()"
proof -
  obtain p where p: "pack_control dumps sha256 schemas pack control_id False = Inr (fp_control p)"
    "assemble dumps sha256 sha1 schemas p = Inr f" "fp_pack p = pack"
    using assms by (rule builders_Inr)
  obtain s refs h citations inp out where
    a: "assembled dumps sha256 p s refs h citations inp"
    and f: "f = finding_document p s refs h (deterministic_finding_id sha1 inp out)
           (rule_result_document p s citations inp out)"
    and schema: "schema_validate schemas (PDict f) ''finding.schema.json'' ''DESCRIPTOR_SCHEMA_INVALID'' = Inr ()"
    using p(2) by (rule assemble_Inr)
  have "py_get pack ''content_sha256'' = PStr (fs_pack_sha256 s)"
    using a unfolding assembled_def finding_strings_of_def pack_strings_def
    by (auto simp: res_simps p(3))
  moreover have "py_get (nested f ''audit_pack'') ''sha256'' = PStr (fs_pack_sha256 s)"
    by (simp add: f nested_def finding_document_def)
  moreover obtain approval declared controls where pack:
    "schema_validate schemas (PDict pack) ''audit_pack.schema.json'' ''DESCRIPTOR_SCHEMA_INVALID'' = Inr ()"
    "py_get pack ''approval'' = PDict approval" "py_get approval ''status'' = PStr ''APPROVED''"
    "py_get pack ''content_sha256'' = PStr declared"
    "canonical_sha256_without_fields dumps sha256 pack [''content_sha256'', ''approval''] = Inr declared"
    "py_get pack ''controls'' = PList controls" "controls_named control_id controls = [PDict (fp_control p)]"
    using p(1) by (rule pack_control_Inr) simp
  ultimately show ?thesis
    by (intro exI [of _ approval] exI [of _ declared] exI [of _ controls] exI [of _ "fp_control p"])
      (simp add: schema)
qed

theorem official_finding_needs_approved_pack_witness:
  "\<exists>approval. py_get demo_pack ''approval'' = PDict approval \<and> py_get approval ''status'' = PStr ''APPROVED''"
proof -
  obtain f where "demo_build False demo_documents ''2026-01-02T00:00:00Z'' = Inr f"
    using demo_build_ok by (auto simp: is_ok_iff)
  then show ?thesis using official_finding_needs_approved_pack by blast
qed

text \<open>
  C33: A finding cites exactly its evidence: every piece conforms to its schema and belongs to the job,
  the asset, the control and the run that the finding names, no two have the same id, and the finding
  lists id and hash of each, ordered by id, under the hash of that list.
\<close>

theorem finding_cites_its_evidence:
  assumes "build_finding dumps sha256 sha1 schemas pack control_id evidence decision ctxt allow_draft = Inr f \<or>
           build_common dumps sha256 sha1 schemas pack control_id evidence cdecision ctxt allow_draft = Inr f"
  shows "evidence \<noteq> [] \<and> inj_on document_id (set evidence) \<and>
     (\<forall>d \<in> set evidence.
        schema_validate schemas (PDict d) ''normalized_evidence.schema.json''
          ''DESCRIPTOR_SCHEMA_INVALID'' = Inr () \<and>
        py_get d ''job_id'' = py_get f ''job_id'' \<and> py_get d ''asset_id'' = py_get f ''asset_id'' \<and>
        py_get d ''control_id'' = py_get f ''control_id'' \<and>
        py_get d ''correlation_id'' = py_get f ''correlation_id'') \<and>
     py_get f ''evidence_refs'' =
       PList (map (\<lambda>d. PDict [(''id'', py_get d ''id''), (''sha256'', py_get d ''evidence_sha256'')])
                (sort_key document_id evidence)) \<and>
     (\<exists>h. py_get f ''evidence_set_sha256'' = PStr h \<and>
          canonical_sha256 dumps sha256 (py_get f ''evidence_refs'') = Inr h)"
proof -
  obtain p where p: "validated_evidence schemas evidence control_id =
       Inr (fp_documents p, fp_job_id p, fp_asset_id p, fp_correlation_id p)"
    "assemble dumps sha256 sha1 schemas p = Inr f" "fp_control_id p = control_id"
    using assms by (rule builders_Inr)
  obtain s refs h citations inp out where
    a: "assembled dumps sha256 p s refs h citations inp"
    and f: "f = finding_document p s refs h (deterministic_finding_id sha1 inp out)
           (rule_result_document p s citations inp out)"
    using p(2) by (rule assemble_Inr)
  have refs: "refs = map (\<lambda>d. PDict [(''id'', py_get d ''id''), (''sha256'', py_get d ''evidence_sha256'')]) (fp_documents p)"
    using a unfolding assembled_def by (auto simp: evidence_references_list)
  have hash: "canonical_sha256 dumps sha256 (PList refs) = Inr h"
    using a unfolding assembled_def by (auto simp: finding_hash_canonical)
  have get: "py_get f ''job_id'' = PStr (fp_job_id p)" "py_get f ''asset_id'' = PStr (fp_asset_id p)"
    "py_get f ''control_id'' = PStr control_id" "py_get f ''correlation_id'' = PStr (fp_correlation_id p)"
    "py_get f ''evidence_refs'' = PList refs" "py_get f ''evidence_set_sha256'' = PStr h"
    by (simp_all add: f finding_document_def p(3))
  show ?thesis
    using validated_evidence_Inr [OF p(1)] refs hash unfolding get by simp
qed

theorem finding_cites_its_evidence_witness:
  "\<exists>f. demo_build False demo_documents ''2026-01-02T00:00:00Z'' = Inr f \<and>
       (\<forall>d \<in> set demo_documents. py_get d ''job_id'' = py_get f ''job_id'')"
proof -
  obtain f where f: "demo_build False demo_documents ''2026-01-02T00:00:00Z'' = Inr f"
    using demo_build_ok by (auto simp: is_ok_iff)
  then show ?thesis using finding_cites_its_evidence [OF disjI1 [OF f]] by blast
qed

text \<open>
  C34: The order in which the evidence is passed changes neither the finding nor the error of a build.
\<close>

theorem finding_independent_of_evidence_order:
  assumes "mset evidence = mset evidence'"
  shows "build_finding dumps sha256 sha1 schemas pack control_id evidence decision ctxt allow_draft =
         build_finding dumps sha256 sha1 schemas pack control_id evidence' decision ctxt allow_draft \<and>
         build_common dumps sha256 sha1 schemas pack control_id evidence cdecision ctxt allow_draft =
         build_common dumps sha256 sha1 schemas pack control_id evidence' cdecision ctxt allow_draft"
  by (simp add: build_finding_def build_common_def validated_evidence_perm [OF assms])

theorem finding_independent_of_evidence_order_witness:
  "demo_build False demo_documents ''2026-01-02T00:00:00Z'' =
   demo_build False (rev demo_documents) ''2026-01-02T00:00:00Z''"
  using finding_independent_of_evidence_order [of demo_documents "rev demo_documents"] by simp

subsection \<open>The store\<close>

text \<open>
  C35: The table of findings only grows, and whatever is appended in whatever order, no input hash,
  no id and no version of a subject occurs twice, every row has the identity that its document
  proves, belongs to a job of its organization and asset, and names predecessors that exist.
\<close>

theorem findings_stay_ok:
  assumes "findings_ok dumps sha256 sha1 db"
  shows "findings_ok dumps sha256 sha1 (run_appends dumps sha256 sha1 calls db) \<and>
         (\<exists>new. fd_rows (run_appends dumps sha256 sha1 calls db) = fd_rows db @ new)"
  using run_appends_ok [OF assms] run_appends_grows by blast

lemma demo_store_ok: "findings_ok dumps sha256 sha1 demo_store"
  by (simp add: findings_ok_def demo_store_def)

theorem findings_stay_ok_witness:
  "findings_ok demo_finding_dumps (demo_digest 64) (demo_digest 40)
     (run_appends demo_finding_dumps (demo_digest 64) (demo_digest 40)
        [(demo_command, projr (demo_build False demo_documents ''2026-01-02T00:00:00Z''))] demo_store)"
  using findings_stay_ok [OF demo_store_ok] by blast

text \<open>
  C36: A finding that was stored and is built again from the same pack, evidence and decision at another
  instant is not stored again: whatever was appended in between, the append returns the fingerprint
  of the stored finding and leaves the table as it is.
\<close>

theorem rebuilt_finding_returns_existing:
  assumes "\<And>b. sha256_text (sha256 b)"
    and "\<And>b. length (sha1 b) = 40 \<and> list_all lower_hex_char (sha1 b)"
    and "build_finding dumps sha256 sha1 schemas pack control_id evidence decision ctxt allow_draft = Inr f \<and>
         build_finding dumps sha256 sha1 schemas pack control_id evidence decision
           (ctxt\<lparr>fc_evaluated_at := t\<rparr>) allow_draft = Inr f' \<or>
         build_common dumps sha256 sha1 schemas pack control_id evidence cdecision ctxt allow_draft = Inr f \<and>
         build_common dumps sha256 sha1 schemas pack control_id evidence cdecision
           (ctxt\<lparr>fc_evaluated_at := t\<rparr>) allow_draft = Inr f'"
    and "utc_timestamp t" "CHR 0x00 \<notin> set t"
    and "findings_ok dumps sha256 sha1 db"
    and "append_or_get_finding dumps sha256 sha1 command f db = (db1, Inr res)"
    and "db2 = run_appends dumps sha256 sha1 calls db1"
  shows "append_or_get_finding dumps sha256 sha1 command f' db2 =
           (db2, Inr \<lparr>rr_action = RETURN_EXISTING, rr_fingerprint = rr_fingerprint res\<rparr>)"
proof -
  obtain p where "assemble dumps sha256 sha1 schemas p = Inr f"
    "assemble dumps sha256 sha1 schemas (at_instant t p) = Inr f'"
    using assms(3)
    by (elim disjE conjE) (drule (1) build_finding_parts build_common_parts, elim exE conjE, assumption)+
  then show ?thesis
    by (rule rebuilt_finding_is_stored [OF assms(1,2) _ _ assms(4-8)])
qed

lemma demo_rebuilt_context:
  "(demo_context t)\<lparr>fc_evaluated_at := u\<rparr> = demo_context u"
  by (simp add: demo_context_def)

theorem rebuilt_finding_returns_existing_witness:
  "\<exists>f' db res. demo_build False demo_documents ''2026-01-03T10:00:00Z'' = Inr f' \<and>
     append_or_get_finding demo_finding_dumps (demo_digest 64) (demo_digest 40) demo_command f' db =
       (db, Inr \<lparr>rr_action = RETURN_EXISTING, rr_fingerprint = res\<rparr>)"
proof -
  obtain f f' where f: "demo_build False demo_documents ''2026-01-02T00:00:00Z'' = Inr f"
    "demo_build False demo_documents ''2026-01-03T10:00:00Z'' = Inr f'"
    using demo_build_ok demo_rebuild_ok by (auto simp: is_ok_iff)
  obtain db1 res where app: "append_or_get_finding demo_finding_dumps (demo_digest 64) (demo_digest 40)
      demo_command f demo_store = (db1, Inr res)"
    using demo_append_ok unfolding f(1) is_ok_iff by (metis prod.collapse sum.sel(2))
  have t: "utc_timestamp ''2026-01-03T10:00:00Z''" "CHR 0x00 \<notin> set ''2026-01-03T10:00:00Z''" by code_simp+
  have built: "demo_build False demo_documents ''2026-01-02T00:00:00Z'' = Inr f \<and>
      build_finding demo_finding_dumps (demo_digest 64) (demo_digest 40) demo_finding_schemas
        demo_pack ''PC-07'' demo_documents demo_decision
        (demo_context ''2026-01-02T00:00:00Z''\<lparr>fc_evaluated_at := ''2026-01-03T10:00:00Z''\<rparr>) False = Inr f'"
    by (simp add: f demo_rebuilt_context)
  have "append_or_get_finding demo_finding_dumps (demo_digest 64) (demo_digest 40) demo_command f' db1 =
      (db1, Inr \<lparr>rr_action = RETURN_EXISTING, rr_fingerprint = rr_fingerprint res\<rparr>)"
    by (rule rebuilt_finding_returns_existing [OF _ _ disjI1 [OF built] t demo_store_ok app, where calls = "[]"])
      (use demo_digest_hex in \<open>simp_all add: sha256_text_def run_appends_def\<close>)
  with f(2) show ?thesis by blast
qed

end
