(* ===== verification/Normalizer.thy ===== *)
theory Normalizer
  imports Finding_Builder
begin

section \<open>Evidence normalization (\<^verbatim>\<open>analysis/normalization\<close>)\<close>

text \<open>
  The normalizer turns the evidence records of a validated package into normalized evidence
  (\<open>contracts.py\<close>, \<open>normalizer.py\<close>): it admits the descriptor that was validated and no other, maps
  every record by the mapper that the probe id and version name, and returns the records in one
  order.  A raw value of a list or tuple is a \<open>PList\<close>.
\<close>

subsection \<open>Failures and typed access\<close>

datatype normalization_code =
    UNVALIDATED_PACKAGE
  | DESCRIPTOR_BINDING_MISMATCH
  | NORMALIZER_NOT_ALLOWED
  | NORMALIZATION_INPUT_INVALID
  | NORMALIZED_EVIDENCE_SCHEMA_INVALID

datatype normalization_failure = NormalizationError normalization_code string

type_synonym 'a norm_result = "(normalization_failure, 'a) result"

definition norm_reject :: "normalization_code \<Rightarrow> string \<Rightarrow> 'a norm_result" where
  "norm_reject code message = raise_error (NormalizationError code message)"

lemma norm_reject_simps [simp]:
  "norm_reject code message \<noteq> Inr x"
  "bindE (norm_reject code message) f = norm_reject code message"
  by (simp_all add: norm_reject_def)

lemma if_norm_reject_Inr [res_simps]:
  "(if c then norm_reject code message else m) = Inr x \<longleftrightarrow> \<not> c \<and> m = Inr x"
  by simp

definition norm_mapping :: "pyval \<Rightarrow> dict norm_result" where
  "norm_mapping value =
     (case value of
        PDict d \<Rightarrow> Inr d
      | _ \<Rightarrow> norm_reject NORMALIZATION_INPUT_INVALID ''Expected an object value.'')"

definition norm_sequence :: "pyval \<Rightarrow> pyval list norm_result" where
  "norm_sequence value =
     (case value of
        PList xs \<Rightarrow> Inr xs
      | _ \<Rightarrow> norm_reject NORMALIZATION_INPUT_INVALID ''Expected an array value.'')"

definition norm_string :: "dict \<Rightarrow> string \<Rightarrow> string norm_result" where
  "norm_string mapping key =
     (case py_get mapping key of
        PStr s \<Rightarrow> Inr s
      | _ \<Rightarrow> norm_reject NORMALIZATION_INPUT_INVALID ''Expected a string field.'')"

definition norm_boolean :: "dict \<Rightarrow> string \<Rightarrow> bool norm_result" where
  "norm_boolean mapping key =
     (case py_get mapping key of
        PBool b \<Rightarrow> Inr b
      | _ \<Rightarrow> norm_reject NORMALIZATION_INPUT_INVALID ''Expected a boolean field.'')"

definition exact_keys :: "dict \<Rightarrow> string list \<Rightarrow> unit norm_result" where
  "exact_keys raw required =
     (if set (dict_keys raw) \<noteq> set required
      then norm_reject NORMALIZATION_INPUT_INVALID
             ''Raw evidence fields differ from the allowlisted Probe contract.''
      else Inr ())"

text \<open>
  \<open>str.upper()\<close>: ASCII letters, and the characters outside ASCII whose upper case lies inside it
  (U+00DF to \<open>SS\<close>, U+0131 to \<open>I\<close>, U+017F to \<open>S\<close>, the ligatures U+FB00 to U+FB06).  Every other
  character keeps at least one character outside ASCII and is left as it is; upper-cased text is
  compared with ASCII only.
\<close>

definition upper_char :: "char \<Rightarrow> char" where
  "upper_char c = (let n = of_char c :: nat in if 97 \<le> n \<and> n \<le> 122 then char_of (n - 32) else c)"

definition upper2 :: "nat \<Rightarrow> nat \<Rightarrow> string" where
  "upper2 a b =
     (if a = 195 \<and> b = 159 then ''SS'' else if a = 196 \<and> b = 177 then ''I''
      else if a = 197 \<and> b = 191 then ''S'' else [])"

definition upper3 :: "nat \<Rightarrow> nat \<Rightarrow> nat \<Rightarrow> string" where
  "upper3 a b c =
     (if a = 239 \<and> b = 172 then
        (if c = 128 then ''FF'' else if c = 129 then ''FI'' else if c = 130 then ''FL''
         else if c = 131 then ''FFI'' else if c = 132 then ''FFL''
         else if c = 133 then ''ST'' else if c = 134 then ''ST'' else [])
      else [])"

fun py_upper :: "string \<Rightarrow> string" where
  "py_upper [] = []"
| "py_upper [a] = [upper_char a]"
| "py_upper [a, b] =
     (if upper2 (of_char a) (of_char b) \<noteq> [] then upper2 (of_char a) (of_char b)
      else upper_char a # py_upper [b])"
| "py_upper (a # b # c # s) =
     (if upper2 (of_char a) (of_char b) \<noteq> [] then upper2 (of_char a) (of_char b) @ py_upper (c # s)
      else if upper3 (of_char a) (of_char b) (of_char c) \<noteq> []
      then upper3 (of_char a) (of_char b) (of_char c) @ py_upper s
      else upper_char a # py_upper (b # c # s))"

text \<open>\<open>[A-Za-z0-9._:-]{1,128}\<close> and the pattern of a GUID in capitals.\<close>

definition identifier_char :: "char \<Rightarrow> bool" where
  "identifier_char c \<longleftrightarrow>
     (let n = of_char c :: nat
      in 48 \<le> n \<and> n \<le> 57 \<or> 65 \<le> n \<and> n \<le> 90 \<or> 97 \<le> n \<and> n \<le> 122 \<or>
         c \<in> {CHR ''.'', CHR ''_'', CHR '':'', CHR ''-''})"

definition identifier_pattern :: "string \<Rightarrow> bool" where
  "identifier_pattern s \<longleftrightarrow> s \<noteq> [] \<and> length s \<le> 128 \<and> list_all identifier_char s"

definition upper_hex_char :: "char \<Rightarrow> bool" where
  "upper_hex_char c \<longleftrightarrow> (let n = of_char c :: nat in 48 \<le> n \<and> n \<le> 57 \<or> 65 \<le> n \<and> n \<le> 70)"

definition guid_pattern :: "string \<Rightarrow> bool" where
  "guid_pattern s \<longleftrightarrow>
     length s = 36 \<and>
     list_all (\<lambda>i. if i \<in> {8, 13, 18, 23} then s ! i = CHR ''-'' else upper_hex_char (s ! i)) [0..<36]"

definition norm_identifier :: "dict \<Rightarrow> string \<Rightarrow> string norm_result" where
  "norm_identifier mapping key =
     bindE (norm_string mapping key) (\<lambda>text.
       let value = strip text
       in if \<not> identifier_pattern value
          then norm_reject NORMALIZATION_INPUT_INVALID ''Identifier is invalid.''
          else Inr value)"

definition norm_enum :: "dict \<Rightarrow> string \<Rightarrow> string list \<Rightarrow> string norm_result" where
  "norm_enum mapping key permitted =
     bindE (norm_string mapping key) (\<lambda>text.
       let value = py_upper (strip text)
       in if value \<notin> set permitted
          then norm_reject NORMALIZATION_INPUT_INVALID ''Enum value is not allowed.''
          else Inr value)"

subsection \<open>Mappers\<close>

definition volume_classes :: "string list" where
  "volume_classes =
    [''WINDOWS_OS_VOLUME'', ''LOCAL_FIXED_DATA_VOLUME'', ''MOUNTED_FOLDER_VOLUME'',
     ''ATTACHED_VHD_VOLUME'', ''STORAGE_SPACES_LOGICAL_VOLUME'', ''BITLOCKER_VOLUME'',
     ''EFI_SYSTEM_PARTITION'', ''MICROSOFT_RESERVED_PARTITION'', ''WINDOWS_RECOVERY_PARTITION'',
     ''APPROVED_OEM_UTILITY_PARTITION'', ''OPTICAL_VOLUME'', ''REMOVABLE_VOLUME'',
     ''NETWORK_VOLUME'', ''DETACHED_DISK_IMAGE'', ''VOLATILE_RAM_DISK'']"

definition probe_fields :: "(string \<times> string list) list" where
  "probe_fields =
    [(''win.security.password-age'',
      [''maximum_password_age_days'', ''policy_defined'', ''policy_source'']),
     (''win.security.password-policy'',
      [''minimum_password_length'', ''maximum_password_age_days'', ''complexity_enabled'',
       ''password_required'', ''policy_source'']),
     (''win.security.recovery-console'',
      [''automatic_admin_logon'', ''policy_defined'', ''policy_source'', ''os_edition'',
       ''os_build'']),
     (''win.network.smb-shares'',
      [''default_admin_share_count'', ''unrestricted_everyone_share_count'',
       ''least_privilege_violation_count'', ''authentication_gap_count'',
       ''auto_share_wks_disabled'']),
     (''win.services.inventory'',
      [''evaluated_unnecessary_service_count'', ''running_unnecessary_service_count'',
       ''automatic_unnecessary_service_count'']),
     (''win.software.messengers'',
      [''evaluated_denied_product_count'', ''installed_denied_product_count'',
       ''running_denied_product_count'', ''low_confidence_match_count'']),
     (''win.boot.entries'',
      [''bootable_os_count'', ''excluded_recovery_entry_count'',
       ''excluded_diagnostic_entry_count'', ''excluded_virtualization_entry_count'']),
     (''win.browser.wininet-cache-policy'',
      [''applicability'', ''empty_cache_on_exit'', ''ie_desktop_used'', ''ie_mode_used'',
       ''wininet_used'', ''organization_scope_confirmed'', ''evaluated_user_count'']),
     (''win.update.compliance'',
      [''display_version'', ''os_build'', ''ubr'', ''installed_cumulative_kb'',
       ''missing_required_update_count'', ''automatic_updates_enabled'',
       ''update_inventory_source'', ''restart_pending'', ''last_successful_scan_at'']),
     (''win.os.lifecycle'',
      [''product_name'', ''edition_group'', ''display_version'', ''os_build'', ''ubr'',
       ''architecture'']),
     (''win.autologon.config'',
      [''auto_admin_logon_value'', ''default_password_present'',
       ''related_autologon_configuration_present'']),
     (''win.antivirus.update-status'',
      [''product_id'', ''product_name'', ''product_present'', ''product_state'',
       ''service_enabled'', ''operating_mode'', ''engine_version'', ''signature_version'',
       ''signature_updated_at'', ''automatic_updates_enabled'',
       ''real_time_protection_enabled'', ''health_state'', ''adapter_id'', ''adapter_version'']),
     (''win.antivirus.realtime-status'',
      [''product_id'', ''product_name'', ''product_present'', ''product_state'',
       ''service_enabled'', ''operating_mode'', ''real_time_protection_enabled'',
       ''behavior_monitor_enabled'', ''ioav_protection_enabled'', ''adapter_id'',
       ''adapter_version'']),
     (''win.firewall.effective-profiles'',
      [''adapter_id'', ''adapter_version'', ''policy_store'', ''domain_applicable'',
       ''domain_enabled'', ''private_applicable'', ''private_enabled'', ''public_applicable'',
       ''public_enabled'', ''third_party_present'']),
     (''win.user.screensaver-policy'',
      [''subject_id'', ''screen_save_active'', ''screen_save_timeout_seconds'',
       ''screen_saver_is_secure'', ''screen_saver_executable_present'',
       ''effective_policy_source'', ''user_coverage_complete'']),
     (''win.media.autoplay-policy'',
      [''turn_off_autoplay_enabled'', ''autoplay_scope'', ''autorun_default_behavior'',
       ''non_volume_autoplay_disallowed'', ''effective_policy_source'']),
     (''win.remote-assistance.policy'',
      [''f_allow_to_get_help'', ''f_allow_unsolicited'', ''effective_policy_source''])]"

definition probe_scopes :: "(string \<times> string) list" where
  "probe_scopes =
    [(''win.security.password-age'', ''POLICY''),
     (''win.security.password-policy'', ''POLICY''),
     (''win.security.recovery-console'', ''POLICY''),
     (''win.network.smb-shares'', ''ASSET''),
     (''win.services.inventory'', ''ASSET''),
     (''win.software.messengers'', ''ASSET''),
     (''win.boot.entries'', ''ASSET''),
     (''win.browser.wininet-cache-policy'', ''POLICY''),
     (''win.update.compliance'', ''ASSET''),
     (''win.os.lifecycle'', ''ASSET''),
     (''win.autologon.config'', ''ASSET''),
     (''win.antivirus.update-status'', ''ASSET''),
     (''win.antivirus.realtime-status'', ''ASSET''),
     (''win.firewall.effective-profiles'', ''ASSET''),
     (''win.user.screensaver-policy'', ''USER''),
     (''win.media.autoplay-policy'', ''POLICY''),
     (''win.remote-assistance.policy'', ''POLICY'')]"

definition normalize_disk :: "dict \<Rightarrow> dict norm_result" where
  "normalize_disk raw =
     bindE (exact_keys raw [''volume_id'', ''disk_id'', ''volume_class'', ''bus_type'', ''is_virtual'',
              ''is_removable'', ''is_online'', ''storage_kind'', ''disk_image_state'']) (\<lambda>_.
     bindE (norm_identifier raw ''volume_id'') (\<lambda>volume_id.
     bindE (norm_identifier raw ''disk_id'') (\<lambda>disk_id.
     bindE (norm_enum raw ''volume_class'' volume_classes) (\<lambda>volume_class.
     bindE (norm_enum raw ''bus_type''
              [''NVME'', ''SATA'', ''SAS'', ''USB'', ''FILE_BACKED_VIRTUAL'', ''STORAGE_SPACES'', ''UNKNOWN'']) (\<lambda>bus_type.
     bindE (norm_boolean raw ''is_virtual'') (\<lambda>is_virtual.
     bindE (norm_boolean raw ''is_removable'') (\<lambda>is_removable.
     bindE (norm_boolean raw ''is_online'') (\<lambda>is_online.
     bindE (norm_enum raw ''storage_kind''
              [''BASIC_DISK'', ''VHD'', ''VHDX'', ''STORAGE_SPACES_LOGICAL'', ''UNKNOWN'']) (\<lambda>storage_kind.
     bindE (norm_enum raw ''disk_image_state''
              [''ATTACHED'', ''DETACHED'', ''NOT_APPLICABLE'', ''UNKNOWN'']) (\<lambda>disk_image_state.
     Inr [(''volume_id'', PStr volume_id), (''disk_id'', PStr disk_id),
          (''volume_class'', PStr volume_class), (''bus_type'', PStr bus_type),
          (''is_virtual'', PBool is_virtual), (''is_removable'', PBool is_removable),
          (''is_online'', PBool is_online), (''storage_kind'', PStr storage_kind),
          (''disk_image_state'', PStr disk_image_state)]))))))))))"

definition normalize_partition :: "dict \<Rightarrow> dict norm_result" where
  "normalize_partition raw =
     bindE (exact_keys raw [''volume_id'', ''partition_role'', ''gpt_type'', ''trusted_role_identity'',
              ''is_system'', ''is_boot'', ''is_hidden'']) (\<lambda>_.
     bindE (norm_string raw ''gpt_type'') (\<lambda>text.
     let gpt_type = py_upper (strip text)
     in if \<not> guid_pattern gpt_type
        then norm_reject NORMALIZATION_INPUT_INVALID ''GPT type is invalid.''
        else
          bindE (norm_identifier raw ''volume_id'') (\<lambda>volume_id.
          bindE (norm_enum raw ''partition_role''
                   [''DATA'', ''EFI_SYSTEM'', ''MICROSOFT_RESERVED'', ''WINDOWS_RECOVERY'', ''OEM_UTILITY'',
                    ''UNKNOWN'']) (\<lambda>partition_role.
          bindE (norm_boolean raw ''trusted_role_identity'') (\<lambda>trusted_role_identity.
          bindE (norm_boolean raw ''is_system'') (\<lambda>is_system.
          bindE (norm_boolean raw ''is_boot'') (\<lambda>is_boot.
          bindE (norm_boolean raw ''is_hidden'') (\<lambda>is_hidden.
          Inr [(''volume_id'', PStr volume_id), (''partition_role'', PStr partition_role),
               (''gpt_type'', PStr gpt_type), (''trusted_role_identity'', PBool trusted_role_identity),
               (''is_system'', PBool is_system), (''is_boot'', PBool is_boot),
               (''is_hidden'', PBool is_hidden)]))))))))"

definition known_filesystems :: "(string \<times> string) list" where
  "known_filesystems =
     [(''ntfs'', ''NTFS''), (''fat32'', ''FAT32''), (''exfat'', ''exFAT''), (''refs'', ''ReFS''), (''raw'', ''RAW'')]"

text \<open>A filesystem that is not known has no normalized value.\<close>

definition norm_filesystem :: "pyval \<Rightarrow> pyval norm_result" where
  "norm_filesystem value =
     (case value of
        PNone \<Rightarrow> Inr PNone
      | PStr s \<Rightarrow>
          if strip s = [] \<or> 32 < py_len s
          then norm_reject NORMALIZATION_INPUT_INVALID ''Filesystem value is invalid.''
          else Inr (case map_of known_filesystems (casefold (strip s)) of None \<Rightarrow> PNone | Some f \<Rightarrow> PStr f)
      | _ \<Rightarrow> norm_reject NORMALIZATION_INPUT_INVALID ''Filesystem value is invalid.'')"

definition norm_drive_letter :: "pyval \<Rightarrow> pyval norm_result" where
  "norm_drive_letter value =
     (case value of
        PNone \<Rightarrow> Inr PNone
      | PStr s \<Rightarrow>
          (let normalized = py_upper (remove_suffix '':'' (strip s))
           in case normalized of
                [c] \<Rightarrow>
                  if CHR ''A'' \<le> c \<and> c \<le> CHR ''Z'' then Inr (PStr normalized)
                  else norm_reject NORMALIZATION_INPUT_INVALID ''Drive letter is invalid.''
              | _ \<Rightarrow> norm_reject NORMALIZATION_INPUT_INVALID ''Drive letter is invalid.'')
      | _ \<Rightarrow> norm_reject NORMALIZATION_INPUT_INVALID ''Drive letter is invalid.'')"

definition normalize_volume :: "dict \<Rightarrow> dict norm_result" where
  "normalize_volume raw =
     bindE (exact_keys raw [''volume_id'', ''filesystem'', ''volume_class'', ''drive_type'', ''drive_letter'',
              ''mount_kind'', ''health_status'', ''operational_status'', ''bitlocker_state'']) (\<lambda>_.
     bindE (norm_identifier raw ''volume_id'') (\<lambda>volume_id.
     bindE (norm_filesystem (py_get raw ''filesystem'')) (\<lambda>filesystem.
     bindE (norm_enum raw ''volume_class'' volume_classes) (\<lambda>volume_class.
     bindE (norm_enum raw ''drive_type''
              [''FIXED'', ''REMOVABLE'', ''NETWORK'', ''CDROM'', ''RAMDISK'', ''UNKNOWN'']) (\<lambda>drive_type.
     bindE (norm_drive_letter (py_get raw ''drive_letter'')) (\<lambda>drive_letter.
     bindE (norm_enum raw ''mount_kind''
              [''DRIVE_LETTER'', ''FOLDER_MOUNT'', ''NO_MOUNT'', ''UNKNOWN'']) (\<lambda>mount_kind.
     bindE (norm_enum raw ''health_status''
              [''HEALTHY'', ''WARNING'', ''UNHEALTHY'', ''UNKNOWN'']) (\<lambda>health_status.
     bindE (norm_enum raw ''operational_status''
              [''OK'', ''DEGRADED'', ''ERROR'', ''OFFLINE'', ''UNKNOWN'']) (\<lambda>operational_status.
     bindE (norm_enum raw ''bitlocker_state''
              [''NONE'', ''UNLOCKED_PROTECTED'', ''UNLOCKED_UNPROTECTED'', ''LOCKED'', ''UNKNOWN'']) (\<lambda>bitlocker_state.
     Inr [(''volume_id'', PStr volume_id), (''filesystem'', filesystem),
          (''volume_class'', PStr volume_class), (''drive_type'', PStr drive_type),
          (''drive_letter'', drive_letter), (''mount_kind'', PStr mount_kind),
          (''health_status'', PStr health_status), (''operational_status'', PStr operational_status),
          (''bitlocker_state'', PStr bitlocker_state)]))))))))))"

definition scalar :: "pyval \<Rightarrow> bool" where
  "scalar v = (case v of PList _ \<Rightarrow> False | PDict _ \<Rightarrow> False | _ \<Rightarrow> True)"

definition normalize_probe_object :: "string list \<Rightarrow> dict \<Rightarrow> dict norm_result" where
  "normalize_probe_object expected raw =
     bindE (exact_keys raw expected) (\<lambda>_.
     if list_ex (\<lambda>kv. \<not> scalar (snd kv)) raw
     then norm_reject NORMALIZATION_INPUT_INVALID ''Probe evidence contains a non-scalar value.''
     else Inr raw)"

text \<open>The closed registry of mappers.\<close>

definition raw_mapper :: "string \<Rightarrow> string \<Rightarrow> (dict \<Rightarrow> dict norm_result) option" where
  "raw_mapper probe_id probe_version =
     (if probe_version \<noteq> ''0.1.0'' then None
      else if probe_id = ''win.storage.disks'' then Some normalize_disk
      else if probe_id = ''win.storage.partitions'' then Some normalize_partition
      else if probe_id = ''win.storage.volumes'' then Some normalize_volume
      else map_option normalize_probe_object (map_of probe_fields probe_id))"

definition probe_scope :: "string \<Rightarrow> string" where
  "probe_scope probe_id = (case map_of probe_scopes probe_id of None \<Rightarrow> ''VOLUME'' | Some s \<Rightarrow> s)"

subsection \<open>Instants\<close>

text \<open>
  A \<open>datetime\<close> is its local instant and its offset, if it has one.  Moving it to UTC may leave the
  supported years.
\<close>

definition norm_utc_timestamp :: "int \<times> int option \<Rightarrow> string norm_result" where
  "norm_utc_timestamp value =
     (case value of
        (local, None) \<Rightarrow> norm_reject NORMALIZATION_INPUT_INVALID ''normalized_at must be timezone-aware.''
      | (local, Some offset) \<Rightarrow>
          (let t = local - offset
           in if 0 \<le> t \<and> t < max_ordinal * us_per_day then Inr (utc_isoformat t)
              else Inl (PyError OverflowError)))"

definition norm_parse_utc :: "string \<Rightarrow> (int \<times> int option) norm_result" where
  "norm_parse_utc value =
     (if value = [] \<or> last value \<noteq> CHR ''Z''
      then norm_reject NORMALIZATION_INPUT_INVALID ''Timestamp must use UTC Z form.''
      else
        (case datetime_fromisoformat (butlast value @ ''+00:00'') of
           None \<Rightarrow> norm_reject NORMALIZATION_INPUT_INVALID ''Timestamp is invalid.''
         | Some parsed \<Rightarrow> Inr parsed))"

text \<open>\<open>a > b\<close>; an aware and a naive \<open>datetime\<close> cannot be ordered.\<close>

definition later_than :: "int \<times> int option \<Rightarrow> int \<times> int option \<Rightarrow> ('e, bool) result" where
  "later_than a b =
     (case (snd a, snd b) of
        (Some x, Some y) \<Rightarrow> Inr (fst a - x > fst b - y)
      | (None, None) \<Rightarrow> Inr (fst a > fst b)
      | _ \<Rightarrow> Inl (PyError TypeError))"

subsection \<open>The package\<close>

definition package_mismatch :: "validated_package \<Rightarrow> dict \<Rightarrow> bool norm_result" where
  "package_mismatch validated descriptor =
     bindE (norm_string descriptor ''id'') (\<lambda>i.
     if i \<noteq> vp_package_id validated then Inr True else
     bindE (norm_string descriptor ''job_id'') (\<lambda>j.
     if j \<noteq> vp_job_id validated then Inr True else
     bindE (norm_string descriptor ''asset_id'') (\<lambda>a.
     if a \<noteq> vp_asset_id validated then Inr True else
     bindE (norm_string descriptor ''manifest_id'') (\<lambda>m.
     Inr (m \<noteq> vp_manifest_id validated)))))"

definition archive_mismatch :: "package_inspection \<Rightarrow> dict \<Rightarrow> bool norm_result" where
  "archive_mismatch inspection archive =
     bindE (norm_string archive ''archive_sha256'') (\<lambda>h.
     if h \<noteq> pi_archive_sha256 inspection then Inr True else
     bindE (norm_string archive ''content_set_sha256'') (\<lambda>c.
     Inr (c \<noteq> pi_content_set_sha256 inspection \<or>
          \<not> py_eq (py_get archive ''file_count'') (PInt (pi_file_count inspection)))))"

definition validate_package_binding :: "validated_package \<Rightarrow> dict \<Rightarrow> unit norm_result" where
  "validate_package_binding validated descriptor =
     bindE (package_mismatch validated descriptor) (\<lambda>differs.
     if differs
     then norm_reject DESCRIPTOR_BINDING_MISMATCH ''Descriptor scope differs from the validated package.''
     else
       bindE (norm_mapping (py_get descriptor ''archive'')) (\<lambda>archive.
       bindE (archive_mismatch (vp_inspection validated) archive) (\<lambda>differs.
       if differs
       then norm_reject DESCRIPTOR_BINDING_MISMATCH
              ''Descriptor archive facts differ from the validated package.''
       else Inr ())))"

subsection \<open>One record\<close>

definition source_uuid :: "digest \<Rightarrow> string \<Rightarrow> string \<Rightarrow> string norm_result" where
  "source_uuid sha1 package_id source_id =
     (case uuid_parse package_id of
        None \<Rightarrow> Inl (PyError ValueError)
      | Some u \<Rightarrow> Inr (uuid5 sha1 (hex_text (filter (\<lambda>c. c \<noteq> CHR ''-'') u))
                       (''sec-ai-normalizer:0.1.0:'' @ source_id)))"

text \<open>The value and the subject of a record, by its status and the scope of its probe.\<close>

definition collected_subject ::
  "(dict \<Rightarrow> dict norm_result) \<Rightarrow> string \<Rightarrow> dict \<Rightarrow> (dict option \<times> dict) norm_result" where
  "collected_subject mapper scope record =
     bindE (norm_mapping (py_get record ''raw_value'')) (\<lambda>raw.
     bindE (mapper raw) (\<lambda>normalized_value.
     if scope = ''VOLUME''
     then Inr (Some normalized_value,
            [(''scope'', PStr scope), (''subject_key'', py_get normalized_value ''volume_id'')])
     else if scope = ''USER''
     then
       bindE (norm_mapping (py_get record ''execution_identity'')) (\<lambda>execution_identity.
       bindE (norm_string execution_identity ''user_sid'') (\<lambda>user_sid.
       Inr (Some normalized_value, [(''scope'', PStr scope), (''user_sid'', PStr user_sid)])))
     else Inr (Some normalized_value, [(''scope'', PStr scope)])))"

definition uncollected_subject :: "string \<Rightarrow> dict \<Rightarrow> (dict option \<times> dict) norm_result" where
  "uncollected_subject scope record =
     bindE (norm_mapping (py_get record ''normalized_candidate'')) (\<lambda>candidate.
     if scope = ''VOLUME''
     then bindE (norm_identifier candidate ''volume_id'') (\<lambda>volume_id.
          Inr (None, [(''scope'', PStr scope), (''subject_key'', PStr volume_id)]))
     else if scope = ''USER''
     then bindE (norm_string candidate ''user_sid'') (\<lambda>user_sid.
          Inr (None, [(''scope'', PStr scope), (''user_sid'', PStr user_sid)]))
     else Inr (None, [(''scope'', PStr scope)]))"

definition optional_fields :: "dict \<Rightarrow> dict" where
  "optional_fields record =
     filter (\<lambda>kv. snd kv \<noteq> PNone)
       (map (\<lambda>k. (k, py_get record k)) [''unit'', ''policy_scope'', ''policy_source''])"

definition norm_check_status :: "string \<Rightarrow> string \<Rightarrow> unit norm_result" where
  "norm_check_status status error_code =
     (if status \<notin> {''COLLECTED'', ''ERROR'', ''SKIPPED''}
      then norm_reject NORMALIZATION_INPUT_INVALID ''Collection status is invalid.''
      else if (status = ''COLLECTED'') \<noteq> (error_code = ''NONE'')
      then norm_reject NORMALIZATION_INPUT_INVALID ''Collection status and error code are inconsistent.''
      else Inr ())"

definition norm_check_schema :: "schema_catalog \<Rightarrow> dict \<Rightarrow> unit norm_result" where
  "norm_check_schema schemas output =
     (case schema_validate schemas (PDict output) ''normalized_evidence.schema.json''
             ''DESCRIPTOR_SCHEMA_INVALID'' of
        Inl (Raised _) \<Rightarrow> norm_reject NORMALIZED_EVIDENCE_SCHEMA_INVALID
                           ''Normalizer output failed the normalized evidence Schema.''
      | Inl (PyError p) \<Rightarrow> Inl (PyError p)
      | Inr u \<Rightarrow> Inr u)"

text \<open>
  The output document.  Fields that \<open>_string\<close> reads from the record are the values of the record,
  which \<open>normalize_record\<close> has checked to be strings.
\<close>

definition evidence_document ::
  "validated_package \<Rightarrow> dict \<Rightarrow> string \<Rightarrow> string \<Rightarrow> string \<Rightarrow> string \<Rightarrow> dict \<Rightarrow> dict \<Rightarrow> dict option \<Rightarrow>
     bool \<Rightarrow> dict" where
  "evidence_document validated record timestamp evidence_id correlation_id collector_version
     source_locator subject normalized_value redacted =
     [(''schema_version'', PStr ''1.0.0''), (''id'', PStr evidence_id),
      (''created_at'', PStr timestamp), (''source'', PStr ''normalizer''),
      (''producer_name'', PStr ''sec-ai-normalizer''), (''producer_version'', PStr ''0.1.0''),
      (''correlation_id'', PStr correlation_id),
      (''job_id'', PStr (vp_job_id validated)), (''asset_id'', PStr (vp_asset_id validated)),
      (''package_id'', PStr (vp_package_id validated)),
      (''source_evidence_id'', py_get record ''evidence_id''),
      (''control_id'', py_get record ''control_id''),
      (''guide_version'', py_get record ''guide_version''),
      (''collector_version'', PStr collector_version),
      (''probe_id'', py_get record ''probe_id''), (''probe_version'', py_get record ''probe_version''),
      (''subject'', PDict subject), (''collected_at'', py_get record ''collected_at''),
      (''normalized_at'', PStr timestamp), (''source_locator'', PDict source_locator),
      (''collection_status'', py_get record ''collection_status''),
      (''error_code'', py_get record ''error_code''),
      (''redaction'', PDict
         [(''applied'', PBool redacted),
          (''method'', PStr (if redacted then ''OMITTED'' else ''NONE''))]),
      (''evidence_sha256'', py_get record ''evidence_sha256'')] @
     (if py_get record ''raw_value'' \<noteq> PNone \<and> \<not> redacted
      then [(''raw_value'', py_get record ''raw_value'')] else []) @
     (case normalized_value of None \<Rightarrow> [] | Some v \<Rightarrow> [(''normalized_value'', PDict v)]) @
     optional_fields record"

definition normalize_record ::
  "digest \<Rightarrow> schema_catalog \<Rightarrow> validated_package \<Rightarrow> dict \<Rightarrow> pyval \<Rightarrow> string \<Rightarrow>
     int \<times> int option \<Rightarrow> dict norm_result" where
  "normalize_record sha1 schemas validated descriptor raw_record timestamp normalized_instant =
     bindE (norm_mapping raw_record) (\<lambda>record.
     bindE (norm_string record ''probe_id'') (\<lambda>probe_id.
     bindE (norm_string record ''probe_version'') (\<lambda>probe_version.
     case raw_mapper probe_id probe_version of
       None \<Rightarrow> norm_reject NORMALIZER_NOT_ALLOWED ''Probe normalizer ID and version are not allowlisted.''
     | Some mapper \<Rightarrow>
         bindE (norm_string record ''evidence_id'') (\<lambda>source_id.
         bindE (norm_string record ''collection_status'') (\<lambda>status.
         bindE (norm_string record ''error_code'') (\<lambda>error_code.
         bindE (norm_check_status status error_code) (\<lambda>_.
         bindE (if status = ''COLLECTED'' then collected_subject mapper (probe_scope probe_id) record
                else uncollected_subject (probe_scope probe_id) record) (\<lambda>(normalized_value, subject).
         bindE (norm_string record ''collected_at'') (\<lambda>collected_at.
         bindE (norm_parse_utc collected_at) (\<lambda>collected.
         bindE (later_than collected normalized_instant) (\<lambda>too_late.
         if too_late
         then norm_reject NORMALIZATION_INPUT_INVALID ''Normalization time is earlier than collection time.''
         else
           case py_get record ''redacted'' of
             PBool redacted \<Rightarrow>
               bindE (source_uuid sha1 (vp_package_id validated) source_id) (\<lambda>evidence_id.
               bindE (norm_string descriptor ''correlation_id'') (\<lambda>correlation_id.
               bindE (norm_string record ''control_id'') (\<lambda>_.
               bindE (norm_string record ''guide_version'') (\<lambda>_.
               bindE (norm_mapping (py_get descriptor ''collector'')) (\<lambda>collector.
               bindE (norm_string collector ''version'') (\<lambda>collector_version.
               bindE (norm_mapping (py_get record ''source_locator'')) (\<lambda>source_locator.
               bindE (norm_string record ''evidence_sha256'') (\<lambda>_.
               let output = evidence_document validated record timestamp evidence_id correlation_id
                              collector_version source_locator subject normalized_value redacted
               in bindE (norm_check_schema schemas output) (\<lambda>_. Inr output)))))))))
           | _ \<Rightarrow> norm_reject NORMALIZATION_INPUT_INVALID ''Redaction flag is invalid.'')))))))))))"

subsection \<open>All records\<close>

definition norm_sort_key :: "dict \<Rightarrow> string \<times> string \<times> string" where
  "norm_sort_key record =
     (let text = (\<lambda>v. case v of PStr s \<Rightarrow> s | _ \<Rightarrow> []);
          subject = (case py_get record ''subject'' of PDict d \<Rightarrow> d | _ \<Rightarrow> [])
      in (text (py_get subject ''subject_key''), text (py_get record ''probe_id''),
          text (py_get record ''id'')))"

text \<open>The strict reader is called without the recursion depth that it has: \<open>depth\<close>.\<close>

definition load_descriptor :: "nat \<Rightarrow> string \<Rightarrow> dict norm_result" where
  "load_descriptor depth descriptor_bytes =
     (case load_strict_json depth descriptor_bytes True of
        Inl (Raised _) \<Rightarrow> norm_reject DESCRIPTOR_BINDING_MISMATCH
                           ''Descriptor is not the validated strict JSON document.''
      | Inl (PyError p) \<Rightarrow> Inl (PyError p)
      | Inr (PDict d) \<Rightarrow> Inr d
      | Inr _ \<Rightarrow> Inl (PyError AttributeError))"

text \<open>What follows the checks of the descriptor.\<close>

definition normalize_all ::
  "digest \<Rightarrow> schema_catalog \<Rightarrow> validated_package \<Rightarrow> dict \<Rightarrow> int \<times> int option \<Rightarrow> dict list norm_result" where
  "normalize_all sha1 schemas validated descriptor normalized_at =
     bindE (norm_utc_timestamp normalized_at) (\<lambda>timestamp.
     bindE (norm_parse_utc timestamp) (\<lambda>normalized_instant.
     bindE (norm_sequence (py_get descriptor ''evidence_records'')) (\<lambda>raws.
     bindE (mapE (\<lambda>raw. normalize_record sha1 schemas validated descriptor raw timestamp
                      normalized_instant) raws) (\<lambda>records.
     Inr (sort_key norm_sort_key records)))))"

definition normalize_evidence ::
  "nat \<Rightarrow> json_dumps \<Rightarrow> digest \<Rightarrow> digest \<Rightarrow> schema_catalog \<Rightarrow> validated_package \<Rightarrow> string \<Rightarrow>
     int \<times> int option \<Rightarrow> dict list norm_result" where
  "normalize_evidence depth dumps sha256 sha1 schemas validated descriptor_bytes normalized_at =
     (if \<not> vp_eligible_for_original_promotion validated
      then norm_reject UNVALIDATED_PACKAGE ''Package did not pass validation.''
      else
        bindE (load_descriptor depth descriptor_bytes) (\<lambda>descriptor.
        bindE (finding_hash dumps sha256 (PDict descriptor)) (\<lambda>h.
        if h \<noteq> vp_descriptor_sha256 validated
        then norm_reject DESCRIPTOR_BINDING_MISMATCH ''Descriptor digest differs from the validated package.''
        else
          bindE (validate_package_binding validated descriptor) (\<lambda>_.
          normalize_all sha1 schemas validated descriptor normalized_at))))"

end
