(* ===== verification/Normalizer_Facts.thy ===== *)
theory Normalizer_Facts
  imports Normalizer Finding_Facts
begin

section \<open>Facts about normalized evidence\<close>

text \<open>
  What the normalizer returns for a record, that the normalized evidence of a package is what the
  builder of findings asks for, and that the mappers of storage probes leave their own output alone.
\<close>

subsection \<open>One record\<close>

lemma norm_string_Inr [res_simps]: "norm_string d k = Inr s \<longleftrightarrow> py_get d k = PStr s"
  by (auto simp: norm_string_def split: pyval.splits)

lemma norm_mapping_Inr [res_simps]: "norm_mapping v = Inr d \<longleftrightarrow> v = PDict d"
  by (auto simp: norm_mapping_def split: pyval.splits)

lemma norm_sequence_Inr [res_simps]: "norm_sequence v = Inr xs \<longleftrightarrow> v = PList xs"
  by (auto simp: norm_sequence_def split: pyval.splits)

lemma norm_boolean_Inr [res_simps]: "norm_boolean d k = Inr b \<longleftrightarrow> py_get d k = PBool b"
  by (auto simp: norm_boolean_def split: pyval.splits)

lemma mapper_or_reject:
  "(case m of None \<Rightarrow> norm_reject code message | Some f \<Rightarrow> k f) = Inr y \<longleftrightarrow>
     (\<exists>f. m = Some f \<and> k f = Inr y)"
  by (cases m) auto

lemma bool_or_reject:
  "(case v of PBool b \<Rightarrow> k b | _ \<Rightarrow> norm_reject code message) = Inr y \<longleftrightarrow>
     (\<exists>b. v = PBool b \<and> k b = Inr y)"
  by (cases v) auto

lemma norm_check_schema_Inr [res_simps]:
  "norm_check_schema schemas output = Inr u \<longleftrightarrow>
     schema_validate schemas (PDict output) ''normalized_evidence.schema.json'' ''DESCRIPTOR_SCHEMA_INVALID'' = Inr u"
  by (auto simp: norm_check_schema_def split: sum.splits raised.splits)

lemma norm_check_status_Inr [res_simps]:
  "norm_check_status status error_code = Inr u \<longleftrightarrow>
     status \<in> {''COLLECTED'', ''ERROR'', ''SKIPPED''} \<and> (status = ''COLLECTED'') = (error_code = ''NONE'')"
  by (auto simp: norm_check_status_def res_simps)

lemma py_get_append:
  "py_get (xs @ ys) k = (if k \<in> fst ` set xs then py_get xs k else py_get ys k)"
  by (induction xs) (auto simp: py_get_def)

lemma optional_fields_other:
  "k \<notin> {''unit'', ''policy_scope'', ''policy_source''} \<Longrightarrow> py_get (optional_fields r) k = PNone"
  by (auto simp: optional_fields_def)

text \<open>The fields that a normalized record takes over from the raw record.\<close>

definition carried_fields :: "(string \<times> string) list" where
  "carried_fields =
     [(''source_evidence_id'', ''evidence_id''), (''control_id'', ''control_id''),
      (''probe_id'', ''probe_id''), (''probe_version'', ''probe_version''),
      (''collected_at'', ''collected_at''), (''collection_status'', ''collection_status''),
      (''error_code'', ''error_code''), (''evidence_sha256'', ''evidence_sha256''),
      (''source_locator'', ''source_locator''), (''guide_version'', ''guide_version'')]"

definition record_bound ::
  "schema_catalog \<Rightarrow> validated_package \<Rightarrow> dict \<Rightarrow> dict \<Rightarrow> dict \<Rightarrow> bool" where
  "record_bound schemas validated descriptor r out \<longleftrightarrow>
     py_get out ''job_id'' = PStr (vp_job_id validated) \<and>
     py_get out ''asset_id'' = PStr (vp_asset_id validated) \<and>
     py_get out ''package_id'' = PStr (vp_package_id validated) \<and>
     py_get out ''correlation_id'' = py_get descriptor ''correlation_id'' \<and>
     list_all (\<lambda>(to, from'). py_get out to = py_get r from') carried_fields \<and>
     (py_get r ''collection_status'' = PStr ''COLLECTED'') = (py_get r ''error_code'' = PStr ''NONE'') \<and>
     (py_get r ''redacted'' = PBool True \<longrightarrow> py_get out ''raw_value'' = PNone) \<and>
     (py_get r ''collection_status'' \<noteq> PStr ''COLLECTED'' \<longrightarrow> py_get out ''normalized_value'' = PNone) \<and>
     schema_validate schemas (PDict out) ''normalized_evidence.schema.json'' ''DESCRIPTOR_SCHEMA_INVALID'' = Inr ()"

lemma evidence_document_get:
  "list_all (\<lambda>(to, from'). py_get (evidence_document v r t i c cv sl sub nv red) to =
     (if to = ''source_locator'' then PDict sl else py_get r from')) carried_fields"
  "py_get (evidence_document v r t i c cv sl sub nv red) ''job_id'' = PStr (vp_job_id v)"
  "py_get (evidence_document v r t i c cv sl sub nv red) ''asset_id'' = PStr (vp_asset_id v)"
  "py_get (evidence_document v r t i c cv sl sub nv red) ''package_id'' = PStr (vp_package_id v)"
  "py_get (evidence_document v r t i c cv sl sub nv red) ''correlation_id'' = PStr c"
  "py_get (evidence_document v r t i c cv sl sub nv red) ''id'' = PStr i"
  "py_get (evidence_document v r t i c cv sl sub nv red) ''subject'' = PDict sub"
  by (simp_all add: evidence_document_def carried_fields_def)

lemma evidence_document_raw:
  "py_get (evidence_document v r t i c cv sl sub nv red) ''raw_value'' =
     (if red then PNone else py_get r ''raw_value'')"
  by (simp add: evidence_document_def py_get_append optional_fields_other split: option.splits)

lemma evidence_document_normalized:
  "py_get (evidence_document v r t i c cv sl sub nv red) ''normalized_value'' =
     (case nv of None \<Rightarrow> PNone | Some d \<Rightarrow> PDict d)"
  by (simp add: evidence_document_def py_get_append optional_fields_other split: option.splits)

lemma subject_uncollected:
  "uncollected_subject scope r = Inr (nv, sub) \<Longrightarrow> nv = None"
  by (auto simp: uncollected_subject_def res_simps split: if_splits)

lemma normalize_record_Inr:
  assumes "normalize_record sha1 schemas validated descriptor raw timestamp inst = Inr out"
  shows "\<exists>r probe version mapper i. raw = PDict r \<and> py_get r ''probe_id'' = PStr probe \<and>
     py_get r ''probe_version'' = PStr version \<and> raw_mapper probe version = Some mapper \<and>
     record_bound schemas validated descriptor r out \<and>
     (\<exists>s. py_get r ''evidence_id'' = PStr s \<and> source_uuid sha1 (vp_package_id validated) s = Inr i) \<and>
     py_get out ''id'' = PStr i \<and> (\<exists>c. py_get descriptor ''correlation_id'' = PStr c)"
proof -
  obtain r probe version mapper s status error nv sub at red i c cv sl coll where
    fields: "raw = PDict r" "py_get r ''probe_id'' = PStr probe" "py_get r ''probe_version'' = PStr version"
      "raw_mapper probe version = Some mapper" "py_get r ''evidence_id'' = PStr s"
      "py_get r ''collection_status'' = PStr status" "py_get r ''error_code'' = PStr error"
      "(status = ''COLLECTED'') = (error = ''NONE'')"
    and nv: "(if status = ''COLLECTED'' then collected_subject mapper (probe_scope probe) r
              else uncollected_subject (probe_scope probe) r) = Inr (nv, sub)"
    and more: "py_get r ''redacted'' = PBool red" "source_uuid sha1 (vp_package_id validated) s = Inr i"
      "py_get descriptor ''correlation_id'' = PStr c" "py_get r ''source_locator'' = PDict sl"
      "py_get descriptor ''collector'' = PDict coll" "py_get coll ''version'' = PStr cv"
    and out: "out = evidence_document validated r timestamp i c cv sl sub nv red"
      "schema_validate schemas (PDict out) ''normalized_evidence.schema.json'' ''DESCRIPTOR_SCHEMA_INVALID'' = Inr ()"
  proof -
    show thesis
      using assms
      unfolding normalize_record_def bindE_eq_Inr mapper_or_reject bool_or_reject if_norm_reject_Inr Let_def
        norm_string_Inr norm_mapping_Inr norm_check_status_Inr norm_check_schema_Inr
      by (elim exE conjE) (simp only: split_paired_all prod.case bindE_eq_Inr mapper_or_reject bool_or_reject
          if_norm_reject_Inr norm_string_Inr norm_mapping_Inr norm_check_schema_Inr, elim exE conjE,
          rule that, assumption+, auto)
  qed
  have "list_all (\<lambda>(to, from'). py_get out to = py_get r from') carried_fields"
    using evidence_document_get(1) [of validated r timestamp i c cv sl sub nv red] more(4)
    by (simp add: out(1) carried_fields_def)
  moreover have "nv = None" if "status \<noteq> ''COLLECTED''"
    using nv that subject_uncollected by simp
  ultimately have "record_bound schemas validated descriptor r out"
    using out(2) fields more(1,3) unfolding record_bound_def
    by (simp add: out(1) evidence_document_get(2-) evidence_document_raw evidence_document_normalized)
  with fields more show ?thesis by (auto simp: out(1) evidence_document_get)
qed

subsection \<open>All records\<close>

lemma load_descriptor_Inr: "load_descriptor depth b = Inr d \<Longrightarrow> load_strict_json depth b True = Inr (PDict d)"
  by (auto simp: load_descriptor_def split: sum.splits raised.splits pyval.splits)

lemma package_mismatch_False:
  "package_mismatch validated d = Inr False \<longleftrightarrow>
     py_get d ''id'' = PStr (vp_package_id validated) \<and> py_get d ''job_id'' = PStr (vp_job_id validated) \<and>
     py_get d ''asset_id'' = PStr (vp_asset_id validated) \<and> py_get d ''manifest_id'' = PStr (vp_manifest_id validated)"
  by (auto simp: package_mismatch_def res_simps)

text \<open>
  The descriptor that was normalized is the one that was validated, and the output is one bound
  record for each of its evidence records, in the order of the sort key.
\<close>

lemma normalize_evidence_Inr:
  assumes "normalize_evidence depth dumps sha256 sha1 schemas validated bytes at = Inr records"
  obtains descriptor raws outs where
    "vp_eligible_for_original_promotion validated"
    "load_strict_json depth bytes True = Inr (PDict descriptor)"
    "canonical_sha256 dumps sha256 (PDict descriptor) = Inr (vp_descriptor_sha256 validated)"
    "package_mismatch validated descriptor = Inr False"
    "py_get descriptor ''evidence_records'' = PList raws"
    "records = sort_key norm_sort_key outs"
    "list_all2 (\<lambda>raw out. \<exists>timestamp inst.
        normalize_record sha1 schemas validated descriptor raw timestamp inst = Inr out) raws outs"
proof -
  show thesis
    using assms
    unfolding normalize_evidence_def normalize_all_def bindE_eq_Inr if_norm_reject_Inr validate_package_binding_def
      finding_hash_canonical norm_sequence_Inr mapE_eq_Inr
    apply (elim exE conjE)
    apply (rule that)
          apply simp
         apply (erule load_descriptor_Inr)
        apply simp
       apply simp
      apply assumption
     apply (drule sym [of "Inr _"], simp)
    apply (rule list.rel_mono_strong, assumption)
    apply blast
    done
qed

lemma uuid5_nonempty: "uuid5 sha1 namespace name \<noteq> []"
  by (simp add: uuid5_def Let_def uuid_text_nonempty)

lemma source_uuid_nonempty: "source_uuid sha1 package_id s = Inr i \<Longrightarrow> i \<noteq> []"
  by (auto simp: source_uuid_def uuid5_nonempty split: option.splits)

lemma normalized_record_facts:
  assumes "normalize_record sha1 schemas validated descriptor raw timestamp inst = Inr out"
  shows "(\<exists>r. record_bound schemas validated descriptor r out) \<and>
       (\<exists>i. py_get out ''id'' = PStr i \<and> i \<noteq> []) \<and>
       (\<exists>c. py_get descriptor ''correlation_id'' = PStr c)"
  using normalize_record_Inr [OF assms] source_uuid_nonempty by blast

lemma normalized_evidence_each:
  assumes "normalize_evidence depth dumps sha256 sha1 schemas validated bytes at = Inr records"
  obtains descriptor where
    "load_strict_json depth bytes True = Inr (PDict descriptor)"
    "canonical_sha256 dumps sha256 (PDict descriptor) = Inr (vp_descriptor_sha256 validated)"
    "\<And>out. out \<in> set records \<Longrightarrow>
       (\<exists>r. record_bound schemas validated descriptor r out) \<and>
       (\<exists>i. py_get out ''id'' = PStr i \<and> i \<noteq> []) \<and>
       (\<exists>c. py_get descriptor ''correlation_id'' = PStr c)"
proof -
  obtain descriptor raws outs where d: "load_strict_json depth bytes True = Inr (PDict descriptor)"
    "canonical_sha256 dumps sha256 (PDict descriptor) = Inr (vp_descriptor_sha256 validated)"
    "records = sort_key norm_sort_key outs"
    "list_all2 (\<lambda>raw out. \<exists>timestamp inst.
        normalize_record sha1 schemas validated descriptor raw timestamp inst = Inr out) raws outs"
    using assms by (rule normalize_evidence_Inr)
  have "(\<exists>r. record_bound schemas validated descriptor r out) \<and>
       (\<exists>i. py_get out ''id'' = PStr i \<and> i \<noteq> []) \<and>
       (\<exists>c. py_get descriptor ''correlation_id'' = PStr c)" if "out \<in> set outs" for out
    using d(4) that
  proof (induction rule: list_all2_induct)
    case (Cons raw raws' o' outs')
    then show ?case by (auto dest!: normalized_record_facts)
  qed simp
  then show thesis by (intro that [OF d(1,2)]) (simp add: d(3))
qed

lemma normalized_records_bound:
  assumes "normalize_evidence depth dumps sha256 sha1 schemas validated bytes at = Inr records"
  shows "\<exists>descriptor raws.
     vp_eligible_for_original_promotion validated \<and>
     load_strict_json depth bytes True = Inr (PDict descriptor) \<and>
     canonical_sha256 dumps sha256 (PDict descriptor) = Inr (vp_descriptor_sha256 validated) \<and>
     package_mismatch validated descriptor = Inr False \<and>
     py_get descriptor ''evidence_records'' = PList raws \<and>
     length records = length raws \<and> sorted (map norm_sort_key records) \<and>
     (\<forall>raw \<in> set raws. \<exists>r out. raw = PDict r \<and> out \<in> set records \<and>
        record_bound schemas validated descriptor r out) \<and>
     (\<forall>out \<in> set records. \<exists>r probe version. PDict r \<in> set raws \<and>
        py_get r ''probe_id'' = PStr probe \<and> py_get r ''probe_version'' = PStr version \<and>
        raw_mapper probe version \<noteq> None \<and> record_bound schemas validated descriptor r out)"
proof -
  obtain descriptor raws outs where d: "vp_eligible_for_original_promotion validated"
    "load_strict_json depth bytes True = Inr (PDict descriptor)"
    "canonical_sha256 dumps sha256 (PDict descriptor) = Inr (vp_descriptor_sha256 validated)"
    "package_mismatch validated descriptor = Inr False"
    "py_get descriptor ''evidence_records'' = PList raws" "records = sort_key norm_sort_key outs"
    "list_all2 (\<lambda>raw out. \<exists>timestamp inst.
        normalize_record sha1 schemas validated descriptor raw timestamp inst = Inr out) raws outs"
    using assms by (rule normalize_evidence_Inr)
  have pairs: "list_all2 (\<lambda>raw out. \<exists>r probe version. raw = PDict r \<and>
      py_get r ''probe_id'' = PStr probe \<and> py_get r ''probe_version'' = PStr version \<and>
      raw_mapper probe version \<noteq> None \<and> record_bound schemas validated descriptor r out) raws outs"
    using d(7) by (rule list.rel_mono_strong) (blast dest: normalize_record_Inr)
  then have "length raws = length outs" by (rule list_all2_lengthD)
  moreover have "\<exists>r out. raw = PDict r \<and> out \<in> set outs \<and> record_bound schemas validated descriptor r out"
    if "raw \<in> set raws" for raw
    using pairs that by (induction rule: list_all2_induct) auto
  moreover have "\<exists>r probe version. PDict r \<in> set raws \<and>
        py_get r ''probe_id'' = PStr probe \<and> py_get r ''probe_version'' = PStr version \<and>
        raw_mapper probe version \<noteq> None \<and> record_bound schemas validated descriptor r out"
    if "out \<in> set outs" for out
    using pairs that by (induction rule: list_all2_induct) auto
  ultimately show ?thesis
    using d(1-5) by (intro exI [of _ descriptor] exI [of _ raws]) (simp add: d(6))
qed

subsection \<open>The builder accepts normalized evidence\<close>

lemma evidence_field_const:
  assumes "\<And>d. d \<in> set documents \<Longrightarrow> py_get d k = PStr s" and "s \<noteq> []"
  shows "evidence_field documents k = Inr (map (\<lambda>_. s) documents)"
proof -
  have "finding_string d k EVIDENCE_SCHEMA_INVALID = Inr s" if "d \<in> set documents" for d
    using assms that by (simp add: finding_string_Inr)
  then show ?thesis unfolding evidence_field_def by (induction documents) auto
qed

lemma evidence_field_ids:
  assumes "\<And>d. d \<in> set documents \<Longrightarrow> \<exists>i. py_get d ''id'' = PStr i \<and> i \<noteq> []"
  shows "evidence_field documents ''id'' = Inr (map document_id documents)"
  using assms unfolding evidence_field_def
proof (induction documents)
  case (Cons d documents)
  then obtain i where "py_get d ''id'' = PStr i" "i \<noteq> []" by auto
  then have "finding_string d ''id'' EVIDENCE_SCHEMA_INVALID = Inr (document_id d)"
    by (simp add: finding_string_Inr document_id_def)
  with Cons show ?case by simp
qed simp

lemma remdups_const: "xs \<noteq> [] \<Longrightarrow> length (remdups (map (\<lambda>_. s) xs)) = 1"
  by (auto simp: length_remdups_card_conv image_constant_conv)

lemma validated_evidence_accepts:
  assumes "evidence \<noteq> []" and "distinct (map document_id evidence)"
    and "job \<noteq> []" "asset \<noteq> []" "control \<noteq> []" "correlation \<noteq> []"
    and each: "\<And>d. d \<in> set evidence \<Longrightarrow>
       py_get d ''job_id'' = PStr job \<and> py_get d ''asset_id'' = PStr asset \<and>
       py_get d ''control_id'' = PStr control \<and> py_get d ''correlation_id'' = PStr correlation \<and>
       (\<exists>i. py_get d ''id'' = PStr i \<and> i \<noteq> []) \<and>
       schema_validate schemas (PDict d) ''normalized_evidence.schema.json'' ''DESCRIPTOR_SCHEMA_INVALID'' = Inr ()"
  shows "validated_evidence schemas evidence control =
           Inr (sort_key document_id evidence, job, asset, correlation)"
proof -
  have "mapE (\<lambda>item. bindE (validate_schema schemas item ''normalized_evidence.schema.json''
             EVIDENCE_SCHEMA_INVALID) (\<lambda>_. Inr item)) xs = Inr xs" if "set xs \<subseteq> set evidence" for xs
    using that each by (induction xs) (auto simp: validate_schema_def)
  moreover have "hd (map (\<lambda>_. s) evidence) = s" for s :: string
    using assms(1) by (cases evidence) simp_all
  moreover have "evidence_field evidence ''id'' = Inr (map document_id evidence)"
    by (rule evidence_field_ids) (use each in blast)
  moreover have "evidence_field evidence ''job_id'' = Inr (map (\<lambda>_. job) evidence)"
    "evidence_field evidence ''asset_id'' = Inr (map (\<lambda>_. asset) evidence)"
    "evidence_field evidence ''control_id'' = Inr (map (\<lambda>_. control) evidence)"
    "evidence_field evidence ''correlation_id'' = Inr (map (\<lambda>_. correlation) evidence)"
    using each assms by (blast intro: evidence_field_const)+
  moreover have "set (map (\<lambda>_. control) evidence) = {control}" using assms(1) by (simp add: image_constant_conv)
  ultimately show ?thesis
    using assms(1,2) by (simp add: validated_evidence_def remdups_const distinct_remdups_id del: set_map)
qed

lemma normalized_evidence_accepted:
  assumes "normalize_evidence depth dumps sha256 sha1 schemas validated bytes at = Inr records"
    and "evidence = filter (\<lambda>r. py_get r ''control_id'' = PStr control) records" "evidence \<noteq> []"
    and "distinct (map document_id evidence)"
    and "vp_job_id validated \<noteq> []" "vp_asset_id validated \<noteq> []" "control \<noteq> []"
    and "\<forall>r \<in> set evidence. py_get r ''correlation_id'' \<noteq> PStr []"
  shows "\<exists>correlation. validated_evidence schemas evidence control =
           Inr (sort_key document_id evidence, vp_job_id validated, vp_asset_id validated, correlation)"
proof -
  obtain descriptor where bound: "\<And>out. out \<in> set records \<Longrightarrow>
      (\<exists>r. record_bound schemas validated descriptor r out) \<and>
      (\<exists>i. py_get out ''id'' = PStr i \<and> i \<noteq> []) \<and>
      (\<exists>c. py_get descriptor ''correlation_id'' = PStr c)"
    by (rule normalized_evidence_each [OF assms(1)]) blast
  obtain d where "d \<in> set evidence" using assms(3) by (cases evidence) auto
  then obtain correlation where c: "py_get descriptor ''correlation_id'' = PStr correlation" "correlation \<noteq> []"
    using bound [of d] assms(2,8) by (auto simp: record_bound_def)
  have "validated_evidence schemas evidence control =
          Inr (sort_key document_id evidence, vp_job_id validated, vp_asset_id validated, correlation)"
    by (rule validated_evidence_accepts [OF assms(3-7) c(2)])
      (use bound c(1) assms(2) in \<open>fastforce simp: record_bound_def\<close>)
  then show ?thesis ..
qed

subsection \<open>The mappers leave their output alone\<close>

definition plain_char :: "char \<Rightarrow> bool" where
  "plain_char c \<longleftrightarrow> (of_char c :: nat) < 128 \<and> \<not> ascii_space (of_char c)"

lemma lstrip_plain: "list_all plain_char s \<Longrightarrow> lstrip s = s"
  by (cases s) (auto simp: lstrip.simps plain_char_def wide_space2_def wide_space3_def split: list.splits)

lemma rstrip_plain: "list_all plain_char s \<Longrightarrow> rstrip_rev s = s"
  by (cases s) (auto simp: rstrip_rev.simps plain_char_def wide_space2_def wide_space3_def split: list.splits)

lemma strip_plain: "list_all plain_char s \<Longrightarrow> strip s = s"
  by (simp add: strip_def lstrip_plain rstrip_plain)

lemma py_upper_plain: "list_all plain_char s \<Longrightarrow> py_upper s = map upper_char s"
  by (induction s rule: py_upper.induct)
    (auto simp: plain_char_def upper2_def upper3_def)

lemma plain_identifier: "identifier_char c \<Longrightarrow> plain_char c"
  by (auto simp: identifier_char_def plain_char_def ascii_space_def Let_def)

lemma plain_capital: "upper_hex_char c \<or> c = CHR ''-'' \<Longrightarrow> plain_char c \<and> upper_char c = c"
  by (auto simp: upper_hex_char_def plain_char_def ascii_space_def upper_char_def Let_def)

lemma strip_identifier: "identifier_pattern s \<Longrightarrow> strip s = s"
  by (rule strip_plain) (auto simp: identifier_pattern_def list_all_iff plain_identifier)

lemma upper_strip_guid: "guid_pattern s \<Longrightarrow> py_upper (strip s) = s"
proof -
  assume "guid_pattern s"
  then have len: "length s = 36"
    and all: "\<forall>i \<in> {0..<36}. if i \<in> {8, 13, 18, 23} then s ! i = CHR ''-'' else upper_hex_char (s ! i)"
    unfolding guid_pattern_def list_all_iff set_upt by blast+
  have "upper_hex_char (s ! i) \<or> s ! i = CHR ''-''" if "i < length s" for i
    using bspec [OF all, of i] that len by (simp split: if_splits)
  then have "plain_char c \<and> upper_char c = c" if "c \<in> set s" for c
    using that plain_capital by (metis in_set_conv_nth)
  then show "py_upper (strip s) = s"
    by (simp add: strip_plain py_upper_plain list_all_iff map_idI)
qed

lemma norm_identifier_Inr:
  "norm_identifier d k = Inr s \<Longrightarrow> py_get d' k' = PStr s \<Longrightarrow> norm_identifier d' k' = Inr s"
  by (auto simp: norm_identifier_def res_simps Let_def strip_identifier)

lemma norm_enum_Inr:
  assumes "norm_enum d k permitted = Inr s" "list_all (\<lambda>v. py_upper (strip v) = v) permitted"
    and "py_get d' k' = PStr s"
  shows "norm_enum d' k' permitted = Inr s"
  using assms by (auto simp: norm_enum_def res_simps Let_def list_all_iff norm_string_def)

lemma known_filesystem_fixed:
  "list_all (\<lambda>(k, f). norm_filesystem (PStr f) = Inr (PStr f)) known_filesystems"
  by code_simp

lemma norm_filesystem_fixed:
  assumes "norm_filesystem v = Inr f" shows "norm_filesystem f = Inr f"
proof (cases "f = PNone")
  case True
  then show ?thesis by (simp add: norm_filesystem_def)
next
  case False
  then obtain k g where "(k, g) \<in> set known_filesystems" "f = PStr g"
    using assms by (auto simp: norm_filesystem_def split: pyval.splits option.splits if_splits dest: map_of_SomeD)
  then show ?thesis using known_filesystem_fixed by (auto simp: list_all_iff)
qed

lemma norm_drive_letter_fixed:
  assumes "norm_drive_letter v = Inr f" shows "norm_drive_letter f = Inr f"
proof (cases "f = PNone")
  case True
  then show ?thesis by (simp add: norm_drive_letter_def)
next
  case False
  then obtain c where c: "f = PStr [c]" "CHR ''A'' \<le> c" "c \<le> CHR ''Z''"
    using assms by (auto simp: norm_drive_letter_def Let_def split: pyval.splits list.splits if_splits)
  then have n: "65 \<le> (of_char c :: nat)" "(of_char c :: nat) \<le> 90"
    by (simp_all add: less_eq_char_def)
  then have "list_all plain_char [c]" "upper_char c = c" "c \<noteq> CHR '':''"
    by (auto simp: plain_char_def ascii_space_def upper_char_def)
  then show ?thesis
    using c by (simp add: norm_drive_letter_def strip_plain remove_suffix_def has_suffix_def Let_def)
qed

definition capital :: "char \<Rightarrow> bool" where
  "capital c \<longleftrightarrow> c \<in> set ''ABCDEFGHIJKLMNOPQRSTUVWXYZ_''"

lemma capital_plain: "capital c \<Longrightarrow> plain_char c \<and> upper_char c = c"
  by (auto simp: capital_def plain_char_def ascii_space_def upper_char_def)

lemma capital_fixed: "list_all capital v \<Longrightarrow> py_upper (strip v) = v"
proof -
  assume v: "list_all capital v"
  then have "list_all plain_char v" by (auto simp: list_all_iff capital_plain)
  with v show ?thesis by (simp add: strip_plain py_upper_plain list_all_iff capital_plain map_idI)
qed

lemma capital_tables:
  "list_all (list_all capital) volume_classes"
  "list_all (list_all capital)
     [''NVME'', ''SATA'', ''SAS'', ''USB'', ''FILE_BACKED_VIRTUAL'', ''STORAGE_SPACES'', ''UNKNOWN'']"
  "list_all (list_all capital) [''BASIC_DISK'', ''VHD'', ''VHDX'', ''STORAGE_SPACES_LOGICAL'', ''UNKNOWN'']"
  "list_all (list_all capital) [''ATTACHED'', ''DETACHED'', ''NOT_APPLICABLE'', ''UNKNOWN'']"
  "list_all (list_all capital)
     [''DATA'', ''EFI_SYSTEM'', ''MICROSOFT_RESERVED'', ''WINDOWS_RECOVERY'', ''OEM_UTILITY'', ''UNKNOWN'']"
  "list_all (list_all capital) [''FIXED'', ''REMOVABLE'', ''NETWORK'', ''CDROM'', ''RAMDISK'', ''UNKNOWN'']"
  "list_all (list_all capital) [''DRIVE_LETTER'', ''FOLDER_MOUNT'', ''NO_MOUNT'', ''UNKNOWN'']"
  "list_all (list_all capital) [''HEALTHY'', ''WARNING'', ''UNHEALTHY'', ''UNKNOWN'']"
  "list_all (list_all capital) [''OK'', ''DEGRADED'', ''ERROR'', ''OFFLINE'', ''UNKNOWN'']"
  "list_all (list_all capital) [''NONE'', ''UNLOCKED_PROTECTED'', ''UNLOCKED_UNPROTECTED'', ''LOCKED'', ''UNKNOWN'']"
  by code_simp+

lemma capital_again:
  assumes "list_all (list_all capital) permitted" "norm_enum d k permitted = Inr s" "py_get d' k' = PStr s"
  shows "norm_enum d' k' permitted = Inr s"
  using assms(2) _ assms(3) by (rule norm_enum_Inr) (use assms(1) in \<open>simp add: list_all_iff capital_fixed\<close>)

lemmas enum_again = capital_tables [THEN capital_again]

text \<open>
  Each mapper is read backwards: what it returned is a list of values that the same checks let
  through again.
\<close>

lemma normalize_disk_fixed:
  assumes "normalize_disk raw = Inr v" shows "normalize_disk v = Inr v"
  using assms
  unfolding normalize_disk_def bindE_eq_Inr norm_boolean_Inr
  apply (elim exE conjE)
  apply (simp only: sum.inject)
  apply hypsubst
  apply (rule exI, rule conjI, ((simp add: exact_keys_def; fail) | (erule norm_identifier_Inr, (simp; fail))
    | (erule enum_again, (simp; fail))))+
  by simp

lemma normalize_volume_fixed:
  assumes "normalize_volume raw = Inr v" shows "normalize_volume v = Inr v"
  using assms
  unfolding normalize_volume_def bindE_eq_Inr norm_boolean_Inr
  apply (elim exE conjE)
  apply (simp only: sum.inject)
  apply hypsubst
  apply (rule exI, rule conjI, ((simp add: exact_keys_def; fail) | (erule norm_identifier_Inr, (simp; fail))
    | (erule enum_again, (simp; fail)) | (simp, erule norm_filesystem_fixed) | (simp, erule norm_drive_letter_fixed)))+
  by simp

lemma normalize_partition_fixed:
  assumes "normalize_partition raw = Inr v" shows "normalize_partition v = Inr v"
  using assms
  unfolding normalize_partition_def bindE_eq_Inr norm_boolean_Inr Let_def if_norm_reject_Inr norm_string_Inr
  apply (elim exE conjE)
  apply (simp only: sum.inject not_not)
  apply hypsubst
  apply (rule exI, rule conjI, (simp add: exact_keys_def; fail))
  apply (rule exI, rule conjI, (simp; fail), simp only: upper_strip_guid, rule conjI, (simp; fail))
  apply (rule exI, rule conjI, ((simp; fail) | (erule norm_identifier_Inr, (simp; fail))
    | (erule enum_again, (simp; fail))))+
  by simp

end
