(* ===== verification/Normalizer_Properties.thy ===== *)
theory Normalizer_Properties
  imports Normalizer_Facts Finding_Properties Package_Properties
begin

section \<open>Properties of normalization\<close>

text \<open>
  A sample package whose descriptor is read, checked and normalized, and the properties of the
  normalizer: what its records are bound to, that it admits what the validator passed, that the
  builder of findings takes its output, and that its mappers are idempotent.
\<close>

subsection \<open>A sample\<close>

definition demo_record :: "string \<Rightarrow> string \<Rightarrow> string \<Rightarrow> string \<Rightarrow> string \<Rightarrow> dict \<Rightarrow> dict" where
  "demo_record evidence_id control probe_id status error_code rest =
     [(''evidence_id'', PStr evidence_id), (''probe_id'', PStr probe_id), (''probe_version'', PStr ''0.1.0''),
      (''collection_status'', PStr status), (''error_code'', PStr error_code),
      (''collected_at'', PStr ''2026-01-01T00:00:00Z''), (''control_id'', PStr control),
      (''guide_version'', PStr ''2026''), (''source_locator'', PDict []),
      (''evidence_sha256'', PStr (replicate 64 (CHR ''b'')))] @ rest"

definition demo_raw_volume :: dict where
  "demo_raw_volume =
     [(''volume_id'', PStr '' volume-c ''), (''filesystem'', PStr ''ntfs''),
      (''volume_class'', PStr ''windows_os_volume''), (''drive_type'', PStr ''Fixed''),
      (''drive_letter'', PStr ''c:''), (''mount_kind'', PStr ''DRIVE_LETTER''),
      (''health_status'', PStr ''Healthy''), (''operational_status'', PStr ''ok''),
      (''bitlocker_state'', PStr ''NONE'')]"

definition demo_records :: "dict list" where
  "demo_records =
     [demo_record ''e1'' ''PC-07'' ''win.storage.volumes'' ''COLLECTED'' ''NONE''
        [(''redacted'', PBool False), (''raw_value'', PDict demo_raw_volume)],
      demo_record ''e2'' ''PC-12'' ''win.storage.disks'' ''ERROR'' ''ACCESS_DENIED''
        [(''redacted'', PBool True), (''raw_value'', PStr ''x''),
         (''normalized_candidate'', PDict [(''volume_id'', PStr ''volume-c'')])]]"

definition demo_descriptor :: dict where
  "demo_descriptor =
     [(''id'', PStr ''55555555-5555-4555-8555-555555555555''), (''job_id'', PStr ''j''), (''asset_id'', PStr ''a''),
      (''manifest_id'', PStr ''m''), (''correlation_id'', PStr ''run-1''),
      (''collector'', PDict [(''version'', PStr ''1.4.0'')]),
      (''archive'', PDict [(''archive_sha256'', PStr ''h''), (''content_set_sha256'', PStr ''c''), (''file_count'', PInt 2)]),
      (''evidence_records'', PList (map PDict demo_records))]"

definition demo_validated :: validated_package where
  "demo_validated =
     \<lparr>vp_package_id = ''55555555-5555-4555-8555-555555555555'', vp_manifest_id = ''m'', vp_job_id = ''j'',
      vp_asset_id = ''a'', vp_descriptor_sha256 = demo_digest 64 ''id'', vp_manifest_content_sha256 = ''x'',
      vp_authentication_profile = ''p'',
      vp_inspection = \<lparr>pi_archive_sha256 = ''h'', pi_content_set_sha256 = ''c'', pi_compressed_bytes = 2,
        pi_uncompressed_bytes = 3, pi_file_count = 2, pi_files = []\<rparr>,
      vp_eligible_for_original_promotion = True\<rparr>"

abbreviation demo_normalized :: "dict list norm_result" where
  "demo_normalized \<equiv>
     normalize_evidence 6 demo_finding_dumps (demo_digest 64) (demo_digest 40) demo_finding_schemas
       demo_validated (json_text (PDict demo_descriptor)) (63902995200000000, Some 0)"

lemma demo_descriptor_reads:
  "load_strict_json 6 (json_text (PDict demo_descriptor)) True = Inr (PDict demo_descriptor)"
  by (rule object_text_reads) code_simp+

lemma demo_all_ok:
  "is_ok (normalize_all (demo_digest 40) demo_finding_schemas demo_validated demo_descriptor
     (63902995200000000, Some 0))"
  by code_simp

lemma demo_binding:
  "validate_package_binding demo_validated demo_descriptor = Inr ()"
  "finding_hash demo_finding_dumps (demo_digest 64) (PDict demo_descriptor) =
     (Inr (vp_descriptor_sha256 demo_validated) :: string norm_result)"
  by code_simp+

lemma demo_normalized_all:
  "demo_normalized = normalize_all (demo_digest 40) demo_finding_schemas demo_validated demo_descriptor
     (63902995200000000, Some 0)"
  by (simp add: normalize_evidence_def load_descriptor_def demo_descriptor_reads demo_binding
      demo_validated_def [THEN arg_cong [where f = vp_eligible_for_original_promotion]] del: json_text.simps)

lemma demo_normalized_ok: "is_ok demo_normalized"
  unfolding demo_normalized_all by (rule demo_all_ok)

subsection \<open>What normalized evidence is bound to\<close>



lemma validated_package_admitted:
  assumes "full_validate depth lib dumps sha256 v archive_path bytes manifest context verifications = Inr vp"
  obtains descriptor where "load_descriptor depth bytes = Inr descriptor"
    "finding_hash dumps sha256 (PDict descriptor) = (Inr (vp_descriptor_sha256 vp) :: string norm_result)"
    "validate_package_binding vp descriptor = Inr ()"
    "vp_eligible_for_original_promotion vp"
proof -
  obtain descriptor manifest_hash limits inspection where f:
    "load_strict_json depth bytes True = Inr (PDict descriptor)"
    "validate_package_contract depth lib dumps sha256 archive_path descriptor limits = Inr inspection"
    "validate_descriptor_semantics v descriptor manifest context verifications = Inr ()"
    "the_validated_package dumps sha256 descriptor context manifest_hash inspection = Inr vp"
    using assms by (rule full_validate_Inr)
  have "canonical_sha256 dumps sha256 (PDict descriptor) = Inr (vp_descriptor_sha256 vp)"
    using the_validated_package_Inr [OF f(4)] by (auto simp: canonical_hash_def split: sum.splits)
  then have hash: "finding_hash dumps sha256 (PDict descriptor) = (Inr (vp_descriptor_sha256 vp) :: string norm_result)"
    by (simp add: finding_hash_def)
  have "inventory_agrees (vp_inspection vp) descriptor"
    using contract_Inr [OF f(2)] the_validated_package_Inr [OF f(4)] by simp
  then obtain archive where "py_get descriptor ''archive'' = PDict archive"
    "archive_mismatch (vp_inspection vp) archive = Inr False"
    by (auto simp: inventory_agrees_def archive_mismatch_def res_simps)
  moreover have "package_mismatch vp descriptor = Inr False"
    using the_validated_package_Inr [OF f(4)] descriptor_semantics_Inr [OF f(3)]
    by (simp add: package_mismatch_False descriptor_scope_def)
  ultimately have binding: "validate_package_binding vp descriptor = Inr ()"
    by (simp add: validate_package_binding_def norm_mapping_def)
  have "vp_eligible_for_original_promotion vp"
    using f(4) by (auto simp: the_validated_package_def bindE_eq_Inr)
  with hash binding f(1) show thesis by (intro that [of descriptor]) (simp_all add: load_descriptor_def)
qed

text \<open>
  C29: What the validator passed, the normalizer admits: on the descriptor bytes of a validated package
  none of the checks of the descriptor fails, and the result is the normalization of its records.
\<close>

theorem validated_descriptor_admitted:
  assumes "full_validate depth lib dumps sha256 v archive_path bytes manifest context verifications = Inr vp"
  shows "\<exists>descriptor. load_descriptor depth bytes = Inr descriptor \<and>
     (\<forall>sha1 schemas at. normalize_evidence depth dumps sha256 sha1 schemas vp bytes at =
        normalize_all sha1 schemas vp descriptor at)"
  using assms by (rule validated_package_admitted) (simp add: normalize_evidence_def)

theorem validated_descriptor_admitted_witness:
  "\<exists>vp descriptor. sample_result = Inr vp \<and>
     normalize_evidence 4 sample_dumps sample_digest (demo_digest 40) demo_finding_schemas vp
       (json_text (PDict sample_descriptor)) (0, None) =
     normalize_all (demo_digest 40) demo_finding_schemas vp descriptor (0, None)"
proof -
  obtain vp where vp: "sample_result = Inr vp" using sample_accepted by (auto simp: is_ok_iff)
  with validated_descriptor_admitted [OF vp] show ?thesis by blast
qed

subsection \<open>From normalized evidence to findings\<close>

text \<open>
  C30: The builder of findings takes the normalized evidence of a package: the records of one control,
  with distinct ids and in whatever order, are of one job, asset and run, those of the package, so that
  the check of the evidence returns them in the order of their ids.
\<close>

theorem normalized_evidence_supports_finding:
  assumes "normalize_evidence depth dumps sha256 sha1 schemas validated bytes at = Inr records"
    and "mset evidence = mset (filter (\<lambda>r. py_get r ''control_id'' = PStr control) records)" "evidence \<noteq> []"
    and "distinct (map document_id evidence)"
    and "vp_job_id validated \<noteq> []" "vp_asset_id validated \<noteq> []" "control \<noteq> []"
    and "\<forall>r \<in> set evidence. py_get r ''correlation_id'' \<noteq> PStr []"
  shows "\<exists>correlation. validated_evidence schemas evidence control =
           Inr (sort_key document_id evidence, vp_job_id validated, vp_asset_id validated, correlation)"
proof -
  let ?own = "filter (\<lambda>r. py_get r ''control_id'' = PStr control) records"
  have "mset (map document_id evidence) = mset (map document_id ?own)"
    by (simp only: mset_map assms(2))
  then have "distinct (map document_id ?own)"
    using assms(4) mset_eq_imp_distinct_iff by blast
  moreover have "?own \<noteq> []" using assms(2,3) by (metis mset_zero_iff)
  ultimately have own: "?own \<noteq> []" "distinct (map document_id ?own)" "set ?own = set evidence"
    using mset_eq_setD [OF assms(2)] by simp_all
  have "sort_key document_id evidence = sort_key document_id ?own"
    by (rule sort_key_permutation [OF assms(2)]) (use assms(4) in \<open>simp add: distinct_map\<close>)
  moreover have "validated_evidence schemas evidence control = validated_evidence schemas ?own control"
    using assms(2) by (rule validated_evidence_perm)
  moreover have "\<forall>r \<in> set ?own. py_get r ''correlation_id'' \<noteq> PStr []"
    unfolding own(3) by (rule assms(8))
  note normalized_evidence_accepted [OF assms(1) refl own(1,2) assms(5-7) this]
  ultimately show ?thesis by (simp only:)
qed

lemma demo_evidence_of_control:
  "case normalize_all (demo_digest 40) demo_finding_schemas demo_validated demo_descriptor
          (63902995200000000, Some 0) of
     Inl _ \<Rightarrow> False
   | Inr records \<Rightarrow>
       (let own = filter (\<lambda>r. py_get r ''control_id'' = PStr ''PC-07'') records
        in own \<noteq> [] \<and> distinct (map document_id own) \<and>
           list_all (\<lambda>r. py_get r ''correlation_id'' \<noteq> PStr []) own)"
  by code_simp

theorem normalized_evidence_supports_finding_witness:
  "\<exists>records correlation. demo_normalized = Inr records \<and>
     validated_evidence demo_finding_schemas (filter (\<lambda>r. py_get r ''control_id'' = PStr ''PC-07'') records) ''PC-07'' =
       Inr (sort_key document_id (filter (\<lambda>r. py_get r ''control_id'' = PStr ''PC-07'') records), ''j'', ''a'', correlation)"
proof -
  obtain records where r: "demo_normalized = Inr records" using demo_normalized_ok by (auto simp: is_ok_iff)
  have "normalize_all (demo_digest 40) demo_finding_schemas demo_validated demo_descriptor
      (63902995200000000, Some 0) = Inr records"
    using r unfolding demo_normalized_all .
  note own = demo_evidence_of_control [unfolded this sum.case Let_def]
  show ?thesis
    using normalized_evidence_supports_finding [OF r refl, of "''PC-07''"] own r
    by (auto simp: list_all_iff demo_validated_def simp del: json_text.simps)
qed

text \<open>
  Normalizing twice is normalizing once: what the mapper of a storage probe returns, it returns
  unchanged, so that identifiers are trimmed, enumerations are in capitals and of their closed lists,
  filesystems are known names and drive letters single capitals.
\<close>

theorem mappers_idempotent:
  assumes "mapper \<in> {normalize_disk, normalize_partition, normalize_volume}" "mapper raw = Inr v"
  shows "mapper v = Inr v"
  using assms normalize_disk_fixed normalize_partition_fixed normalize_volume_fixed by blast

end
