(* ===== verification/Scan_Tokens.thy ===== *)
theory Scan_Tokens
  imports Collector_Credentials Py_Crypto
begin

section \<open>Scan tokens (\<^verbatim>\<open>collector/scan_token.py\<close>)\<close>

text \<open>
  The token that a downloaded collector presents: an in-memory store of records under their
  references, and the service above it.  The keyed digest of a secret is a parameter; references and
  secrets are drawn outside and are arguments.  Every operation holds the lock of the store.
\<close>

subsection \<open>Data\<close>

text \<open>The error codes of the scan subsystem, by their values, and the exceptions that carry them.\<close>

datatype scan_token_code =
    SCAN_TOKEN_INVALID | SCAN_TOKEN_EXPIRED | SCAN_TOKEN_RUNS_EXHAUSTED | SCAN_TOKEN_SCOPE_MISMATCH

datatype scan_approval_code =
    SCAN_APPROVAL_NOT_FOUND | SCAN_APPROVAL_OWNER_MISMATCH | SCAN_APPROVAL_ALREADY_DECIDED
  | SCAN_APPROVAL_EXPIRED | SCAN_APPROVAL_DEVICE_NAME_INVALID

datatype scan_session_code = SCAN_SESSION_NOT_APPROVED | SCAN_SESSION_OWNER_MISMATCH

datatype scan_failure =
    ScanTokenError scan_token_code
  | ScanApprovalError scan_approval_code
  | ScanSessionError scan_session_code

record scan_token_record =
  tk_token_ref :: string
  tk_token_hmac :: string
  tk_hash_key_version :: string
  tk_organization_id :: string
  tk_subject_user_id :: string
  tk_server_origin :: string
  tk_issued_at :: int
  tk_expires_at :: int
  tk_used_runs :: int
  tk_failed_attempts :: int

record issued_scan_token =
  it_token :: string
  it_server_origin :: string
  it_expires_at :: int
  it_max_runs :: int

record verified_scan_token =
  vt_organization_id :: string
  vt_subject_user_id :: string
  vt_server_origin :: string
  vt_remaining_runs :: int

record started_scan_run =
  rn_organization_id :: string
  rn_subject_user_id :: string
  rn_server_origin :: string
  rn_remaining_runs :: int

type_synonym token_store = "string \<rightharpoonup> scan_token_record"
type_synonym 'a token_op = "(token_store, scan_failure raised, 'a) op"

definition scan_token_ttl :: int where
  "scan_token_ttl = 24 * 3600 * 1000000"

definition max_scan_token_runs :: int where
  "max_scan_token_runs = 3"

definition token_error :: "scan_token_code \<Rightarrow> ('s, scan_failure raised, 'a) op" where
  "token_error code = op_raise (Raised (ScanTokenError code))"

definition scan_value_error :: "('s, scan_failure raised, 'a) op" where
  "scan_value_error = op_raise (PyError ValueError)"

subsection \<open>Reading a token\<close>

definition reference_char :: "char \<Rightarrow> bool" where
  "reference_char c \<longleftrightarrow> c \<in> set ''0123456789abcdef''"

definition reference_pattern :: "string \<Rightarrow> bool" where
  "reference_pattern s \<longleftrightarrow> length s = 12 \<and> list_all reference_char s"

definition token_reference :: "string \<Rightarrow> string" where
  "token_reference token = takeWhile (\<lambda>c. c \<noteq> CHR ''.'') token"

definition token_secret :: "string \<Rightarrow> string" where
  "token_secret token = tl (dropWhile (\<lambda>c. c \<noteq> CHR ''.'') token)"

definition split_scan_token :: "string \<Rightarrow> ('s, scan_failure raised, string \<times> string) op" where
  "split_scan_token token =
     (if CHR ''.'' \<notin> set token \<or> token_secret token = [] \<or> \<not> reference_pattern (token_reference token)
      then token_error SCAN_TOKEN_INVALID
      else op_return (token_reference token, token_secret token))"

definition scan_aware :: "moment \<Rightarrow> ('s, scan_failure raised, int) op" where
  "scan_aware value = (case value of Aware t \<Rightarrow> op_return t | Naive _ \<Rightarrow> scan_value_error)"

subsection \<open>Store\<close>

definition token_insert :: "scan_token_record \<Rightarrow> unit token_op" where
  "token_insert record =
     op_bind (op_read (\<lambda>store. store (tk_token_ref record))) (\<lambda>found.
     if found \<noteq> None then scan_value_error
     else op_write (\<lambda>store. store(tk_token_ref record \<mapsto> record)))"

text \<open>A wrong secret is counted on the record that the reference names.\<close>

definition token_checked :: "string \<Rightarrow> string \<Rightarrow> string \<Rightarrow> int \<Rightarrow> scan_token_record token_op" where
  "token_checked token_ref presented_hmac server_origin received_at =
     op_bind (op_read (\<lambda>store. store token_ref)) (\<lambda>found.
     case found of
       None \<Rightarrow> token_error SCAN_TOKEN_INVALID
     | Some record \<Rightarrow>
         (case compare_digest (tk_token_hmac record) presented_hmac of
            Inl p \<Rightarrow> op_raise (PyError p)
          | Inr False \<Rightarrow>
              op_bind (op_write (\<lambda>store. store(token_ref \<mapsto>
                record\<lparr>tk_failed_attempts := tk_failed_attempts record + 1\<rparr>))) (\<lambda>_.
              token_error SCAN_TOKEN_INVALID)
          | Inr True \<Rightarrow>
              if received_at > tk_expires_at record then token_error SCAN_TOKEN_EXPIRED
              else if tk_server_origin record \<noteq> server_origin then token_error SCAN_TOKEN_SCOPE_MISMATCH
              else op_return record))"

definition token_start_run :: "string \<Rightarrow> string \<Rightarrow> string \<Rightarrow> int \<Rightarrow> scan_token_record token_op" where
  "token_start_run token_ref presented_hmac server_origin received_at =
     op_bind (token_checked token_ref presented_hmac server_origin received_at) (\<lambda>record.
     if tk_used_runs record \<ge> max_scan_token_runs then token_error SCAN_TOKEN_RUNS_EXHAUSTED
     else
       let started = record\<lparr>tk_used_runs := tk_used_runs record + 1\<rparr>
       in op_bind (op_write (\<lambda>store. store(token_ref \<mapsto> started))) (\<lambda>_. op_return started))"

subsection \<open>Service\<close>

text \<open>The key of the service and its version; \<open>keyed\<close> is HMAC-SHA256 in hexadecimal.\<close>

type_synonym keyed_digest = "string \<Rightarrow> string \<Rightarrow> string"

record token_service =
  ts_hash_key :: string
  ts_hash_key_version :: string

definition token_service_admitted :: "token_service \<Rightarrow> bool" where
  "token_service_admitted service \<longleftrightarrow> 32 \<le> length (ts_hash_key service)"

text \<open>\<open>secret.encode("ascii")\<close> raises a \<open>UnicodeEncodeError\<close>, which is a \<open>ValueError\<close>.\<close>

definition secret_hmac :: "keyed_digest \<Rightarrow> token_service \<Rightarrow> string \<Rightarrow> ('s, scan_failure raised, string) op" where
  "secret_hmac keyed service secret =
     (if \<not> ascii_text secret then scan_value_error
      else op_return (keyed (ts_hash_key service) secret))"

text \<open>
  References are drawn until one is free.  \<open>draws\<close> are those drawn so far; \<open>None\<close> is returned when all
  of them are taken, that is, when the loop still runs.
\<close>

definition issue_scan_token ::
  "keyed_digest \<Rightarrow> token_service \<Rightarrow> string \<Rightarrow> string \<Rightarrow> string \<Rightarrow> moment \<Rightarrow> int \<Rightarrow> string list \<Rightarrow> string \<Rightarrow>
     issued_scan_token option token_op" where
  "issue_scan_token keyed service organization_id subject_user_id server_origin issued ttl draws secret =
     op_bind (scan_aware issued) (\<lambda>issued_at.
     if ttl \<le> 0 \<or> ttl > scan_token_ttl then scan_value_error
     else if organization_id = [] \<or> subject_user_id = [] \<or> server_origin = [] then scan_value_error
     else
       op_bind (op_read (\<lambda>store. find (\<lambda>r. store r = None) draws)) (\<lambda>fresh.
       case fresh of
         None \<Rightarrow> op_return None
       | Some token_ref \<Rightarrow>
           let expires_at = issued_at + ttl
           in op_bind (secret_hmac keyed service secret) (\<lambda>token_hmac.
              op_bind (token_insert
                \<lparr>tk_token_ref = token_ref, tk_token_hmac = token_hmac,
                 tk_hash_key_version = ts_hash_key_version service,
                 tk_organization_id = organization_id, tk_subject_user_id = subject_user_id,
                 tk_server_origin = server_origin, tk_issued_at = issued_at,
                 tk_expires_at = expires_at, tk_used_runs = 0, tk_failed_attempts = 0\<rparr>) (\<lambda>_.
              op_return (Some \<lparr>it_token = token_ref @ ''.'' @ secret, it_server_origin = server_origin,
                it_expires_at = expires_at, it_max_runs = max_scan_token_runs\<rparr>)))))"

definition verify_scan_token ::
  "keyed_digest \<Rightarrow> token_service \<Rightarrow> string \<Rightarrow> string \<Rightarrow> moment \<Rightarrow> verified_scan_token token_op" where
  "verify_scan_token keyed service token server_origin received =
     op_bind (scan_aware received) (\<lambda>received_at.
     op_bind (split_scan_token token) (\<lambda>(token_ref, secret).
     op_bind (secret_hmac keyed service secret) (\<lambda>presented.
     op_bind (token_checked token_ref presented server_origin received_at) (\<lambda>record.
     op_return \<lparr>vt_organization_id = tk_organization_id record,
       vt_subject_user_id = tk_subject_user_id record, vt_server_origin = tk_server_origin record,
       vt_remaining_runs = max_scan_token_runs - tk_used_runs record\<rparr>))))"

definition start_scan_run ::
  "keyed_digest \<Rightarrow> token_service \<Rightarrow> string \<Rightarrow> string \<Rightarrow> moment \<Rightarrow> started_scan_run token_op" where
  "start_scan_run keyed service token server_origin received =
     op_bind (scan_aware received) (\<lambda>received_at.
     op_bind (split_scan_token token) (\<lambda>(token_ref, secret).
     op_bind (secret_hmac keyed service secret) (\<lambda>presented.
     op_bind (token_start_run token_ref presented server_origin received_at) (\<lambda>started.
     op_return \<lparr>rn_organization_id = tk_organization_id started,
       rn_subject_user_id = tk_subject_user_id started, rn_server_origin = tk_server_origin started,
       rn_remaining_runs = max_scan_token_runs - tk_used_runs started\<rparr>))))"

end
