(* ===== verification/Scan_Approvals.thy ===== *)
theory Scan_Approvals
  imports Scan_Tokens
begin

section \<open>Scan approvals (\<^verbatim>\<open>collector/scan_approval.py\<close>)\<close>

text \<open>
  The decision of the owner of a token on one run of the collector: an in-memory store of requests
  and the service above it.  The id of a request (\<open>uuid4\<close>) is an argument.
\<close>

subsection \<open>Data\<close>

datatype scan_approval_state = PENDING | APPROVED | DECLINED | EXPIRED

record scan_approval_record =
  sap_request_id :: string
  sap_organization_id :: string
  sap_subject_user_id :: string
  sap_device_name :: string
  sap_requested_at :: int
  sap_expires_at :: int
  sap_state :: scan_approval_state
  sap_elevated_consent :: bool
  sap_decided_at :: "int option"
  sap_grant_code :: "string option"
  sap_asset_id :: "string option"

record requested_scan_approval =
  rsa_request_id :: string
  rsa_device_name :: string
  rsa_expires_at :: int

record scan_approval_view =
  vw_request_id :: string
  vw_device_name :: string
  vw_state :: scan_approval_state
  vw_elevated_consent :: bool
  vw_decided_at :: "int option"
  vw_grant_code :: "string option"
  vw_asset_id :: "string option"

type_synonym approval_store = "string \<rightharpoonup> scan_approval_record"
type_synonym 'a approval_op = "(approval_store, scan_failure raised, 'a) op"

definition scan_approval_ttl :: int where
  "scan_approval_ttl = 10 * 60 * 1000000"

definition approval_error :: "scan_approval_code \<Rightarrow> ('s, scan_failure raised, 'a) op" where
  "approval_error code = op_raise (Raised (ScanApprovalError code))"

text \<open>\<open>[A-Za-z0-9][A-Za-z0-9._-]{0,63}\<close>\<close>

definition device_first_char :: "char \<Rightarrow> bool" where
  "device_first_char c \<longleftrightarrow>
     (let n = of_char c :: nat
      in 48 \<le> n \<and> n \<le> 57 \<or> 65 \<le> n \<and> n \<le> 90 \<or> 97 \<le> n \<and> n \<le> 122)"

definition device_char :: "char \<Rightarrow> bool" where
  "device_char c \<longleftrightarrow> device_first_char c \<or> c \<in> {CHR ''.'', CHR ''_'', CHR ''-''}"

definition device_name_pattern :: "string \<Rightarrow> bool" where
  "device_name_pattern s \<longleftrightarrow>
     (case s of [] \<Rightarrow> False | c # rest \<Rightarrow> device_first_char c \<and> length rest \<le> 63 \<and> list_all device_char rest)"

definition effective_state :: "scan_approval_record \<Rightarrow> int \<Rightarrow> scan_approval_state" where
  "effective_state record received_at =
     (if sap_state record = PENDING \<and> received_at > sap_expires_at record then EXPIRED else sap_state record)"

definition approval_view :: "scan_approval_record \<Rightarrow> scan_approval_state \<Rightarrow> bool \<Rightarrow> scan_approval_view" where
  "approval_view record state include_grant =
     \<lparr>vw_request_id = sap_request_id record, vw_device_name = sap_device_name record, vw_state = state,
      vw_elevated_consent = sap_elevated_consent record, vw_decided_at = sap_decided_at record,
      vw_grant_code = (if include_grant \<and> state = APPROVED then sap_grant_code record else None),
      vw_asset_id = sap_asset_id record\<rparr>"

subsection \<open>Store and service\<close>

definition approval_insert :: "scan_approval_record \<Rightarrow> unit approval_op" where
  "approval_insert record =
     op_bind (op_read (\<lambda>store. store (sap_request_id record))) (\<lambda>found.
     if found \<noteq> None then scan_value_error
     else op_write (\<lambda>store. store(sap_request_id record \<mapsto> record)))"

definition approval_replace :: "scan_approval_record \<Rightarrow> unit approval_op" where
  "approval_replace record = op_write (\<lambda>store. store(sap_request_id record \<mapsto> record))"

definition request_approval ::
  "string \<Rightarrow> string \<Rightarrow> string \<Rightarrow> moment \<Rightarrow> int \<Rightarrow> string \<Rightarrow> requested_scan_approval approval_op" where
  "request_approval organization_id subject_user_id device_name requested ttl request_id =
     op_bind (scan_aware requested) (\<lambda>requested_at.
     if \<not> device_name_pattern device_name then approval_error SCAN_APPROVAL_DEVICE_NAME_INVALID
     else if ttl \<le> 0 \<or> ttl > scan_approval_ttl then scan_value_error
     else
       let record = \<lparr>sap_request_id = request_id, sap_organization_id = organization_id,
             sap_subject_user_id = subject_user_id, sap_device_name = device_name,
             sap_requested_at = requested_at, sap_expires_at = requested_at + ttl, sap_state = PENDING,
             sap_elevated_consent = False, sap_decided_at = None, sap_grant_code = None,
             sap_asset_id = None\<rparr>
       in op_bind (approval_insert record) (\<lambda>_.
          op_return \<lparr>rsa_request_id = sap_request_id record, rsa_device_name = sap_device_name record,
            rsa_expires_at = sap_expires_at record\<rparr>))"

definition require_approval :: "string \<Rightarrow> scan_approval_record approval_op" where
  "require_approval request_id =
     op_bind (op_read (\<lambda>store. store request_id)) (\<lambda>found.
     case found of
       None \<Rightarrow> approval_error SCAN_APPROVAL_NOT_FOUND
     | Some record \<Rightarrow> op_return record)"

definition pending_view :: "string \<Rightarrow> string \<Rightarrow> moment \<Rightarrow> bool \<Rightarrow> scan_approval_view approval_op" where
  "pending_view request_id viewer_user_id received include_grant =
     op_bind (scan_aware received) (\<lambda>received_at.
     op_bind (require_approval request_id) (\<lambda>record.
     if sap_subject_user_id record \<noteq> viewer_user_id then approval_error SCAN_APPROVAL_OWNER_MISMATCH
     else op_return (approval_view record (effective_state record received_at) include_grant)))"

definition poll_approval :: "string \<Rightarrow> moment \<Rightarrow> scan_approval_view approval_op" where
  "poll_approval request_id received =
     op_bind (scan_aware received) (\<lambda>received_at.
     op_bind (require_approval request_id) (\<lambda>record.
     op_return (approval_view record (effective_state record received_at) True)))"

definition decide_approval ::
  "string \<Rightarrow> string \<Rightarrow> scan_approval_state \<Rightarrow> bool \<Rightarrow> moment \<Rightarrow> string option \<Rightarrow> string option \<Rightarrow>
     scan_approval_view approval_op" where
  "decide_approval request_id approving_user_id state elevated_consent decided grant_code asset_id =
     op_bind (scan_aware decided) (\<lambda>decided_at.
     op_bind (require_approval request_id) (\<lambda>record.
     if sap_subject_user_id record \<noteq> approving_user_id then approval_error SCAN_APPROVAL_OWNER_MISMATCH
     else if sap_state record \<noteq> PENDING then approval_error SCAN_APPROVAL_ALREADY_DECIDED
     else if decided_at > sap_expires_at record then approval_error SCAN_APPROVAL_EXPIRED
     else
       let decision = record\<lparr>sap_state := state, sap_elevated_consent := elevated_consent,
             sap_decided_at := Some decided_at, sap_grant_code := grant_code, sap_asset_id := asset_id\<rparr>
       in op_bind (approval_replace decision) (\<lambda>_.
          op_return (approval_view decision (sap_state decision) True))))"

definition approve_scan ::
  "string \<Rightarrow> string \<Rightarrow> bool \<Rightarrow> moment \<Rightarrow> string option \<Rightarrow> string option \<Rightarrow> scan_approval_view approval_op" where
  "approve_scan request_id approving_user_id elevated_consent decided grant_code asset_id =
     decide_approval request_id approving_user_id APPROVED elevated_consent decided grant_code asset_id"

definition decline_scan :: "string \<Rightarrow> string \<Rightarrow> moment \<Rightarrow> scan_approval_view approval_op" where
  "decline_scan request_id approving_user_id decided =
     decide_approval request_id approving_user_id DECLINED False decided None None"

end
