(* ===== verification/Scan_Sessions.thy ===== *)
theory Scan_Sessions
  imports Scan_Approvals Rbac Py_Time
begin

section \<open>Scan sessions (\<^verbatim>\<open>collector/scan_session.py\<close>, \<^verbatim>\<open>apps/api/scan_approval.py\<close>)\<close>

text \<open>
  The service that joins tokens and approvals, and the routes above it.  A collector registers with
  its token, which costs a run; the owner of the token decides in the browser; the collector asks for
  the decision, and fetches the one-time code with its token.  Each request is one operation on the
  state of the process.
\<close>

record scan_state =
  sn_tokens :: token_store
  sn_approvals :: approval_store

type_synonym 'a scan_op = "(scan_state, scan_failure raised, 'a) op"

definition empty_scan_state :: scan_state where
  "empty_scan_state = \<lparr>sn_tokens = Map.empty, sn_approvals = Map.empty\<rparr>"

definition with_tokens :: "'a token_op \<Rightarrow> 'a scan_op" where
  "with_tokens m s = (case m (sn_tokens s) of (tokens, r) \<Rightarrow> (s\<lparr>sn_tokens := tokens\<rparr>, r))"

definition with_approvals :: "'a approval_op \<Rightarrow> 'a scan_op" where
  "with_approvals m s = (case m (sn_approvals s) of (approvals, r) \<Rightarrow> (s\<lparr>sn_approvals := approvals\<rparr>, r))"

subsection \<open>Service\<close>

record authorized_scan =
  as_request_id :: string
  as_organization_id :: string
  as_subject_user_id :: string
  as_device_name :: string
  as_elevated_consent :: bool
  as_grant_code :: "string option"
  as_asset_id :: "string option"

record registered_scan_session =
  rg_request_id :: string
  rg_device_name :: string
  rg_approve_url :: string
  rg_expires_at :: int
  rg_remaining_runs :: int

definition approval_path :: string where
  "approval_path = ''/ui/scan-approve''"

definition session_issue_token ::
  "keyed_digest \<Rightarrow> token_service \<Rightarrow> string \<Rightarrow> string \<Rightarrow> string \<Rightarrow> moment \<Rightarrow> string list \<Rightarrow> string \<Rightarrow>
     issued_scan_token option scan_op" where
  "session_issue_token keyed service organization_id subject_user_id server_origin issued draws secret =
     with_tokens (issue_scan_token keyed service organization_id subject_user_id server_origin issued
       scan_token_ttl draws secret)"

definition session_register ::
  "keyed_digest \<Rightarrow> token_service \<Rightarrow> string \<Rightarrow> string \<Rightarrow> string \<Rightarrow> moment \<Rightarrow> string \<Rightarrow>
     registered_scan_session scan_op" where
  "session_register keyed service token device_name server_origin received request_id =
     op_bind (with_tokens (start_scan_run keyed service token server_origin received)) (\<lambda>started.
     op_bind (with_approvals (request_approval (rn_organization_id started) (rn_subject_user_id started)
                device_name received scan_approval_ttl request_id)) (\<lambda>requested.
     op_return \<lparr>rg_request_id = rsa_request_id requested, rg_device_name = rsa_device_name requested,
       rg_approve_url = rn_server_origin started @ approval_path @ ''?req='' @ rsa_request_id requested,
       rg_expires_at = rsa_expires_at requested, rg_remaining_runs = rn_remaining_runs started\<rparr>))"

definition session_pending_view :: "string \<Rightarrow> string \<Rightarrow> moment \<Rightarrow> bool \<Rightarrow> scan_approval_view scan_op" where
  "session_pending_view request_id viewer_user_id received include_grant =
     with_approvals (pending_view request_id viewer_user_id received include_grant)"

definition session_approve ::
  "string \<Rightarrow> string \<Rightarrow> bool \<Rightarrow> moment \<Rightarrow> string option \<Rightarrow> string option \<Rightarrow> scan_approval_view scan_op" where
  "session_approve request_id approving_user_id elevated_consent decided grant_code asset_id =
     with_approvals (approve_scan request_id approving_user_id elevated_consent decided grant_code asset_id)"

definition session_decline :: "string \<Rightarrow> string \<Rightarrow> moment \<Rightarrow> scan_approval_view scan_op" where
  "session_decline request_id approving_user_id decided =
     with_approvals (decline_scan request_id approving_user_id decided)"

text \<open>\<open>except ScanApprovalError\<close>: an owner mismatch becomes an error of the session.\<close>

definition owner_mismatch_as_session :: "'a scan_op \<Rightarrow> 'a scan_op" where
  "owner_mismatch_as_session m s =
     (case m s of
        (s', Inl (Raised (ScanApprovalError SCAN_APPROVAL_OWNER_MISMATCH))) \<Rightarrow>
          (s', Inl (Raised (ScanSessionError SCAN_SESSION_OWNER_MISMATCH)))
      | (s', r) \<Rightarrow> (s', r))"

definition authorize_exchange ::
  "keyed_digest \<Rightarrow> token_service \<Rightarrow> string \<Rightarrow> string \<Rightarrow> string \<Rightarrow> moment \<Rightarrow> authorized_scan scan_op" where
  "authorize_exchange keyed service request_id token server_origin received =
     op_bind (with_tokens (verify_scan_token keyed service token server_origin received)) (\<lambda>verified.
     op_bind (owner_mismatch_as_session
       (with_approvals (pending_view request_id (vt_subject_user_id verified) received True))) (\<lambda>record.
     if vw_state record \<noteq> APPROVED
     then op_raise (Raised (ScanSessionError SCAN_SESSION_NOT_APPROVED))
     else op_return
       \<lparr>as_request_id = vw_request_id record, as_organization_id = vt_organization_id verified,
        as_subject_user_id = vt_subject_user_id verified, as_device_name = vw_device_name record,
        as_elevated_consent = vw_elevated_consent record, as_grant_code = vw_grant_code record,
        as_asset_id = vw_asset_id record\<rparr>))"

definition session_poll :: "string \<Rightarrow> moment \<Rightarrow> scan_approval_view scan_op" where
  "session_poll request_id received =
     op_bind (with_approvals (poll_approval request_id received)) (\<lambda>view.
     op_return (view\<lparr>vw_grant_code := None\<rparr>))"

subsection \<open>Routes\<close>

text \<open>
  A route fails with an \<open>HTTPException\<close>, of which the status and the code or text are kept, or with an
  exception it does not catch.
\<close>

datatype route_failure = HTTPException int string | Unhandled scan_failure

type_synonym 'a route_op = "(scan_state, route_failure raised, 'a) op"

definition http_error :: "int \<Rightarrow> string \<Rightarrow> 'a route_op" where
  "http_error status_code detail = op_raise (Raised (HTTPException status_code detail))"

text \<open>The parts of a request and of its surroundings that the routes look at.\<close>

record scan_site =
  si_demo_enabled :: bool
  si_auth_enabled :: bool
  si_keyed :: keyed_digest
  si_service :: token_service

text \<open>
  \<open>sq_csrf\<close> is the refusal of \<open>verify_browser_csrf\<close>, if it refuses; \<open>sq_now\<close> is \<open>datetime.now(UTC)\<close>.
\<close>

record scan_request =
  sq_base_url :: string
  sq_context :: "session_context option"
  sq_csrf :: "(int \<times> string) option"
  sq_now :: int

definition feature_enabled :: "scan_site \<Rightarrow> unit route_op" where
  "feature_enabled site = (if \<not> si_demo_enabled site then http_error 404 ''Not found.'' else op_return ())"

definition scan_principal :: "scan_request \<Rightarrow> principal route_op" where
  "scan_principal rq =
     (case current_principal (sq_context rq) of
        Inl _ \<Rightarrow> http_error 401 ''Authentication required.''
      | Inr p \<Rightarrow> op_return p)"

definition require_user :: "scan_site \<Rightarrow> scan_request \<Rightarrow> principal route_op" where
  "require_user site rq =
     op_bind (feature_enabled site) (\<lambda>_.
     if \<not> si_auth_enabled site then http_error 403 ''Authentication required.''
     else scan_principal rq)"

definition verify_browser_csrf :: "scan_request \<Rightarrow> unit route_op" where
  "verify_browser_csrf rq =
     (case sq_csrf rq of None \<Rightarrow> op_return () | Some (status_code, detail) \<Rightarrow> http_error status_code detail)"

text \<open>A set of asset ids has one element that \<open>next(iter(...))\<close> can only be.\<close>

definition single_assigned_asset :: "principal \<Rightarrow> string option" where
  "single_assigned_asset p =
     (if card (pr_asset_ids p) \<noteq> 1 then None else Some (the_elem (pr_asset_ids p)))"

definition server_origin_of :: "scan_request \<Rightarrow> string" where
  "server_origin_of rq = rev (dropWhile (\<lambda>c. c = CHR ''/'') (rev (sq_base_url rq)))"

definition scan_code_text :: "scan_failure \<Rightarrow> string" where
  "scan_code_text e =
     (case e of
        ScanTokenError SCAN_TOKEN_INVALID \<Rightarrow> ''SCAN_TOKEN_INVALID''
      | ScanTokenError SCAN_TOKEN_EXPIRED \<Rightarrow> ''SCAN_TOKEN_EXPIRED''
      | ScanTokenError SCAN_TOKEN_RUNS_EXHAUSTED \<Rightarrow> ''SCAN_TOKEN_RUNS_EXHAUSTED''
      | ScanTokenError SCAN_TOKEN_SCOPE_MISMATCH \<Rightarrow> ''SCAN_TOKEN_SCOPE_MISMATCH''
      | ScanApprovalError SCAN_APPROVAL_NOT_FOUND \<Rightarrow> ''SCAN_APPROVAL_NOT_FOUND''
      | ScanApprovalError SCAN_APPROVAL_OWNER_MISMATCH \<Rightarrow> ''SCAN_APPROVAL_OWNER_MISMATCH''
      | ScanApprovalError SCAN_APPROVAL_ALREADY_DECIDED \<Rightarrow> ''SCAN_APPROVAL_ALREADY_DECIDED''
      | ScanApprovalError SCAN_APPROVAL_EXPIRED \<Rightarrow> ''SCAN_APPROVAL_EXPIRED''
      | ScanApprovalError SCAN_APPROVAL_DEVICE_NAME_INVALID \<Rightarrow> ''SCAN_APPROVAL_DEVICE_NAME_INVALID''
      | ScanSessionError SCAN_SESSION_NOT_APPROVED \<Rightarrow> ''SCAN_SESSION_NOT_APPROVED''
      | ScanSessionError SCAN_SESSION_OWNER_MISMATCH \<Rightarrow> ''SCAN_SESSION_OWNER_MISMATCH'')"

definition state_text :: "scan_approval_state \<Rightarrow> string" where
  "state_text state =
     (case state of PENDING \<Rightarrow> ''PENDING'' | APPROVED \<Rightarrow> ''APPROVED'' | DECLINED \<Rightarrow> ''DECLINED''
      | EXPIRED \<Rightarrow> ''EXPIRED'')"

definition safe_error :: "scan_failure \<Rightarrow> route_failure" where
  "safe_error e = HTTPException 400 (scan_code_text e)"

definition is_token_error :: "scan_failure \<Rightarrow> bool" where
  "is_token_error e = (case e of ScanTokenError _ \<Rightarrow> True | _ \<Rightarrow> False)"

definition is_approval_error :: "scan_failure \<Rightarrow> bool" where
  "is_approval_error e = (case e of ScanApprovalError _ \<Rightarrow> True | _ \<Rightarrow> False)"

text \<open>\<open>try: ... except (...) as exc: raise _safe_error(exc)\<close>\<close>

definition catching :: "(scan_failure \<Rightarrow> bool) \<Rightarrow> 'a scan_op \<Rightarrow> 'a route_op" where
  "catching caught m s =
     (case m s of
        (s', Inl (Raised e)) \<Rightarrow> (s', Inl (Raised (if caught e then safe_error e else Unhandled e)))
      | (s', Inl (PyError p)) \<Rightarrow> (s', Inl (PyError p))
      | (s', Inr x) \<Rightarrow> (s', Inr x))"

text \<open>The limits of the request bodies; a body outside them is refused before the route runs.\<close>

definition max_token_bytes :: nat where
  "max_token_bytes = 128"

definition checked_body :: "bool \<Rightarrow> unit route_op" where
  "checked_body admitted = (if admitted then op_return () else http_error 422 [])"

definition token_body_ok :: "string \<Rightarrow> bool" where
  "token_body_ok token \<longleftrightarrow> token \<noteq> [] \<and> py_len token \<le> max_token_bytes"

definition device_body_ok :: "string \<Rightarrow> bool" where
  "device_body_ok device_name \<longleftrightarrow> device_name \<noteq> [] \<and> py_len device_name \<le> 64"

text \<open>\<open>_UNSAFE_FILENAME.search\<close>\<close>

definition safe_filename :: "string \<Rightarrow> bool" where
  "safe_filename name \<longleftrightarrow> list_all device_char name"

definition filename_message :: string where
  "filename_message = hex_text ''ec8ba4ed968920ed8c8cec9dbc20ec9db4eba684ec9db420ec98acebb094eba5b4eca78020ec958aec8ab5eb8b88eb8ba42e''"

text \<open>The sidecar document around the token is built by \<open>sidecar\<close>, which may refuse.\<close>

definition issue_scan_sidecar ::
  "scan_site \<Rightarrow> scan_request \<Rightarrow> string \<Rightarrow> string list \<Rightarrow> string \<Rightarrow>
     (issued_scan_token \<Rightarrow> route_failure raised + string) \<Rightarrow> string option route_op" where
  "issue_scan_sidecar site rq artifact_filename draws secret sidecar =
     op_bind (checked_body (artifact_filename \<noteq> [] \<and> py_len artifact_filename \<le> 128)) (\<lambda>_.
     op_bind (require_user site rq) (\<lambda>p.
     op_bind (verify_browser_csrf rq) (\<lambda>_.
     if \<not> safe_filename artifact_filename then http_error 422 ''artifact_filename''
     else
       op_bind (catching (\<lambda>_. False)
         (session_issue_token (si_keyed site) (si_service site) (pr_organization_id p) (pr_user_id p)
            (server_origin_of rq) (Aware (sq_now rq)) draws secret)) (\<lambda>issued.
       case issued of
         None \<Rightarrow> op_return None
       | Some token \<Rightarrow>
           (case sidecar token of Inl e \<Rightarrow> op_raise e | Inr document \<Rightarrow> op_return (Some document))))))"

definition register_scan_session ::
  "scan_site \<Rightarrow> scan_request \<Rightarrow> string \<Rightarrow> string \<Rightarrow> string \<Rightarrow> dict route_op" where
  "register_scan_session site rq token device_name request_id =
     op_bind (checked_body (token_body_ok token \<and> device_body_ok device_name)) (\<lambda>_.
     op_bind (feature_enabled site) (\<lambda>_.
     op_bind (catching (\<lambda>e. is_token_error e \<or> is_approval_error e)
       (session_register (si_keyed site) (si_service site) token device_name (server_origin_of rq)
          (Aware (sq_now rq)) request_id)) (\<lambda>registered.
     op_return
       [(''request_id'', PStr (rg_request_id registered)),
        (''approve_url'', PStr (rg_approve_url registered)),
        (''expires_at'', PStr (utc_isoformat (rg_expires_at registered))),
        (''remaining_runs'', PInt (rg_remaining_runs registered))])))"

definition approval_view_payload :: "scan_approval_view \<Rightarrow> dict" where
  "approval_view_payload view =
     [(''request_id'', PStr (vw_request_id view)), (''state'', PStr (state_text (vw_state view))),
      (''elevated_consent'', PBool (vw_elevated_consent view))]"

definition poll_scan_approval :: "scan_site \<Rightarrow> scan_request \<Rightarrow> string \<Rightarrow> dict route_op" where
  "poll_scan_approval site rq request_id =
     op_bind (feature_enabled site) (\<lambda>_.
     op_bind (catching is_approval_error (session_poll request_id (Aware (sq_now rq)))) (\<lambda>view.
     op_return (approval_view_payload view)))"

definition grant_scan_code :: "scan_site \<Rightarrow> scan_request \<Rightarrow> string \<Rightarrow> string \<Rightarrow> dict route_op" where
  "grant_scan_code site rq request_id token =
     op_bind (checked_body (token_body_ok token)) (\<lambda>_.
     op_bind (feature_enabled site) (\<lambda>_.
     op_bind (catching (\<lambda>_. True)
       (authorize_exchange (si_keyed site) (si_service site) request_id token (server_origin_of rq)
          (Aware (sq_now rq)))) (\<lambda>authorized.
     case as_grant_code authorized of
       None \<Rightarrow> http_error 409 ''SCAN_GRANT_UNAVAILABLE''
     | Some grant_code \<Rightarrow> op_return
         [(''request_id'', PStr (as_request_id authorized)), (''grant_code'', PStr grant_code),
          (''elevated_consent'', PBool (as_elevated_consent authorized))])))"

text \<open>
  What follows the authorization of a Windows result: the snapshot is checked and appended by
  \<open>append_snapshot\<close>, for the organization, the owner and the asset of the approval.
\<close>

definition submit_windows_scan_result ::
  "scan_site \<Rightarrow> scan_request \<Rightarrow> string \<Rightarrow> string \<Rightarrow>
     (string \<Rightarrow> string \<Rightarrow> string \<Rightarrow> route_failure raised + dict) \<Rightarrow> dict route_op" where
  "submit_windows_scan_result site rq request_id token append_snapshot =
     op_bind (checked_body (token_body_ok token)) (\<lambda>_.
     op_bind (feature_enabled site) (\<lambda>_.
     op_bind (catching (\<lambda>_. True)
       (authorize_exchange (si_keyed site) (si_service site) request_id token (server_origin_of rq)
          (Aware (sq_now rq)))) (\<lambda>authorized.
     case as_asset_id authorized of
       None \<Rightarrow> http_error 409 ''SCAN_ASSET_UNAVAILABLE''
     | Some asset_id \<Rightarrow>
         (case append_snapshot (as_organization_id authorized) (as_subject_user_id authorized) asset_id of
            Inl e \<Rightarrow> op_raise e
          | Inr record \<Rightarrow> op_return record))))"

text \<open>The values of the page; the token against request forgery in it is left out.\<close>

definition page_context :: "scan_approval_view \<Rightarrow> dict" where
  "page_context view =
     [(''request_id'', PStr (vw_request_id view)), (''device_name'', PStr (vw_device_name view)),
      (''state'', PStr (state_text (vw_state view))),
      (''elevated_consent'', PBool (vw_elevated_consent view))]"

definition scan_approval_page :: "scan_site \<Rightarrow> scan_request \<Rightarrow> string \<Rightarrow> dict route_op" where
  "scan_approval_page site rq req =
     op_bind (require_user site rq) (\<lambda>p.
     op_bind (catching is_approval_error
       (session_pending_view req (pr_user_id p) (Aware (sq_now rq)) False)) (\<lambda>view.
     op_return (page_context view)))"

text \<open>
  \<open>provisioned\<close> is the outcome of \<open>provision_linux_self_scan\<close>, the code of a new run; it is made before
  the request is looked up.
\<close>

definition decide_scan_approval ::
  "scan_site \<Rightarrow> scan_request \<Rightarrow> string \<Rightarrow> string \<Rightarrow> bool \<Rightarrow> route_failure raised + string \<Rightarrow> dict route_op" where
  "decide_scan_approval site rq request_id choice elevated_consent provisioned =
     op_bind (checked_body (choice \<in> {''APPROVE'', ''DECLINE''})) (\<lambda>_.
     op_bind (require_user site rq) (\<lambda>p.
     op_bind (verify_browser_csrf rq) (\<lambda>_.
     op_bind
       (if choice = ''APPROVE''
        then
          (case provisioned of
             Inl e \<Rightarrow> op_raise e
           | Inr device_code \<Rightarrow>
               catching is_approval_error
                 (session_approve request_id (pr_user_id p) elevated_consent (Aware (sq_now rq))
                    (Some device_code) (single_assigned_asset p)))
        else catching is_approval_error
               (session_decline request_id (pr_user_id p) (Aware (sq_now rq)))) (\<lambda>view.
     op_return (page_context view)))))"

end
