(* ===== verification/Scan_Log.thy ===== *)
theory Scan_Log
  imports Scan_Sessions
begin

section \<open>Histories of scan requests\<close>

text \<open>
  The requests to the routes as one datatype, the states that a history of them reaches together with
  the log of requests and outcomes, and the invariant that ties every stored token and approval to the
  requests that made it.
\<close>

datatype scan_call =
    IssueCall scan_request string "string list" string "issued_scan_token \<Rightarrow> route_failure raised + string"
  | RegisterCall scan_request string string string
  | PollCall scan_request string
  | GrantCall scan_request string string
  | SubmitCall scan_request string string "string \<Rightarrow> string \<Rightarrow> string \<Rightarrow> route_failure raised + dict"
  | PageCall scan_request string
  | DecideCall scan_request string string bool "route_failure raised + string"

datatype scan_reply = Document "string option" | Payload dict

definition op_map :: "('a \<Rightarrow> 'b) \<Rightarrow> ('s, 'e, 'a) op \<Rightarrow> ('s, 'e, 'b) op" where
  "op_map f m = op_bind m (\<lambda>x. op_return (f x))"

fun perform_scan :: "scan_site \<Rightarrow> scan_call \<Rightarrow> scan_reply route_op" where
  "perform_scan site (IssueCall rq name draws secret sidecar) =
     op_map Document (issue_scan_sidecar site rq name draws secret sidecar)"
| "perform_scan site (RegisterCall rq token device i) =
     op_map Payload (register_scan_session site rq token device i)"
| "perform_scan site (PollCall rq i) = op_map Payload (poll_scan_approval site rq i)"
| "perform_scan site (GrantCall rq i token) = op_map Payload (grant_scan_code site rq i token)"
| "perform_scan site (SubmitCall rq i token append_snapshot) =
     op_map Payload (submit_windows_scan_result site rq i token append_snapshot)"
| "perform_scan site (PageCall rq i) = op_map Payload (scan_approval_page site rq i)"
| "perform_scan site (DecideCall rq i choice consent provisioned) =
     op_map Payload (decide_scan_approval site rq i choice consent provisioned)"

type_synonym log_entry = "scan_call \<times> (route_failure raised + scan_reply)"

inductive scan_reaches :: "scan_site \<Rightarrow> scan_state \<Rightarrow> log_entry list \<Rightarrow> bool" for site where
  start: "scan_reaches site empty_scan_state []"
| request: "scan_reaches site s log \<Longrightarrow> perform_scan site c s = (s', out) \<Longrightarrow>
    scan_reaches site s' ((c, out) # log)"

subsection \<open>What the log proves\<close>

text \<open>The user of a request: demo and authentication are on, and the session has a principal.\<close>

definition request_user :: "scan_site \<Rightarrow> scan_request \<Rightarrow> principal \<Rightarrow> bool" where
  "request_user site rq p \<longleftrightarrow>
     si_demo_enabled site \<and> si_auth_enabled site \<and> current_principal (sq_context rq) = Inr p"

definition token_issued :: "scan_site \<Rightarrow> log_entry list \<Rightarrow> scan_token_record \<Rightarrow> bool" where
  "token_issued site log r \<longleftrightarrow>
     (\<exists>rq name draws secret sidecar out p.
        (IssueCall rq name draws secret sidecar, out) \<in> set log \<and> request_user site rq p \<and> sq_csrf rq = None \<and>
        tk_token_ref r \<in> set draws \<and> tk_token_hmac r = si_keyed site (ts_hash_key (si_service site)) secret \<and>
        tk_organization_id r = pr_organization_id p \<and> tk_subject_user_id r = pr_user_id p \<and>
        tk_server_origin r = server_origin_of rq \<and> tk_expires_at r = sq_now rq + scan_token_ttl)"

text \<open>A token that passes at a request: it names the record, and its secret has the stored digest.\<close>

definition token_presented :: "scan_site \<Rightarrow> scan_request \<Rightarrow> string \<Rightarrow> scan_token_record \<Rightarrow> bool" where
  "token_presented site rq token r \<longleftrightarrow>
     token_reference token = tk_token_ref r \<and>
     si_keyed site (ts_hash_key (si_service site)) (token_secret token) = tk_token_hmac r \<and>
     sq_now rq \<le> tk_expires_at r \<and> server_origin_of rq = tk_server_origin r"

definition registered_by ::
  "scan_site \<Rightarrow> log_entry list \<Rightarrow> scan_token_record \<Rightarrow> scan_approval_record \<Rightarrow> bool" where
  "registered_by site log r a \<longleftrightarrow>
     (\<exists>rq token out.
        (RegisterCall rq token (sap_device_name a) (sap_request_id a), Inr out) \<in> set log \<and>
        token_presented site rq token r \<and> sap_requested_at a = sq_now rq \<and>
        sap_expires_at a = sq_now rq + scan_approval_ttl) \<and>
     sap_organization_id a = tk_organization_id r \<and> sap_subject_user_id a = tk_subject_user_id r"

definition decided_by_owner ::
  "scan_site \<Rightarrow> log_entry list \<Rightarrow> scan_approval_record \<Rightarrow> string \<Rightarrow> string option \<Rightarrow> string option \<Rightarrow> bool" where
  "decided_by_owner site log a choice grant asset \<longleftrightarrow>
     (\<exists>rq consent provisioned out p.
        (DecideCall rq (sap_request_id a) choice consent provisioned, Inr out) \<in> set log \<and>
        request_user site rq p \<and> sq_csrf rq = None \<and> pr_user_id p = sap_subject_user_id a \<and>
        sq_now rq \<le> sap_expires_at a \<and> sap_decided_at a = Some (sq_now rq) \<and>
        (choice = ''APPROVE'' \<longrightarrow> sap_elevated_consent a = consent \<and> grant \<noteq> None \<and>
           provisioned = Inr (the grant) \<and> asset = single_assigned_asset p))"

definition decision_of :: "string \<Rightarrow> log_entry \<Rightarrow> bool" where
  "decision_of i entry \<longleftrightarrow>
     (case entry of (DecideCall _ j _ _ _, Inr _) \<Rightarrow> i = j | _ \<Rightarrow> False)"

definition run_of :: "string \<Rightarrow> log_entry \<Rightarrow> bool" where
  "run_of k entry \<longleftrightarrow>
     (case entry of (RegisterCall _ token _ _, Inr _) \<Rightarrow> token_reference token = k | _ \<Rightarrow> False)"

definition entries :: "(log_entry \<Rightarrow> bool) \<Rightarrow> log_entry list \<Rightarrow> nat" where
  "entries P log = length (filter P log)"

definition token_ok :: "scan_site \<Rightarrow> log_entry list \<Rightarrow> string \<Rightarrow> scan_token_record \<Rightarrow> bool" where
  "token_ok site log k r \<longleftrightarrow>
     tk_token_ref r = k \<and> token_issued site log r \<and>
     int (entries (run_of k) log) \<le> tk_used_runs r \<and> tk_used_runs r \<le> max_scan_token_runs"

definition approval_ok ::
  "scan_site \<Rightarrow> log_entry list \<Rightarrow> token_store \<Rightarrow> string \<Rightarrow> scan_approval_record \<Rightarrow> bool" where
  "approval_ok site log tokens i a \<longleftrightarrow>
     sap_request_id a = i \<and> (\<exists>k r. tokens k = Some r \<and> registered_by site log r a) \<and>
     (case sap_state a of
        PENDING \<Rightarrow> entries (decision_of i) log = 0 \<and> sap_grant_code a = None
      | APPROVED \<Rightarrow> entries (decision_of i) log = 1 \<and>
          decided_by_owner site log a ''APPROVE'' (sap_grant_code a) (sap_asset_id a)
      | DECLINED \<Rightarrow> entries (decision_of i) log = 1 \<and> sap_grant_code a = None \<and>
          decided_by_owner site log a ''DECLINE'' None None
      | EXPIRED \<Rightarrow> False)"

definition tokens_ok :: "scan_site \<Rightarrow> log_entry list \<Rightarrow> token_store \<Rightarrow> bool" where
  "tokens_ok site log tokens \<longleftrightarrow>
     (\<forall>k. case tokens k of None \<Rightarrow> entries (run_of k) log = 0 | Some r \<Rightarrow> token_ok site log k r)"

definition approvals_ok :: "scan_site \<Rightarrow> log_entry list \<Rightarrow> token_store \<Rightarrow> approval_store \<Rightarrow> bool" where
  "approvals_ok site log tokens approvals \<longleftrightarrow>
     (\<forall>i. case approvals i of None \<Rightarrow> entries (decision_of i) log = 0
          | Some a \<Rightarrow> approval_ok site log tokens i a)"

definition scan_ok :: "scan_site \<Rightarrow> scan_state \<Rightarrow> log_entry list \<Rightarrow> bool" where
  "scan_ok site s log \<longleftrightarrow>
     tokens_ok site log (sn_tokens s) \<and> approvals_ok site log (sn_tokens s) (sn_approvals s)"

subsection \<open>Growing logs\<close>

lemma entries_simps [simp]:
  "entries P [] = 0"
  "entries P (e # log) = (if P e then Suc (entries P log) else entries P log)"
  by (simp_all add: entries_def)

lemma token_issued_mono: "token_issued site log r \<Longrightarrow> set log \<subseteq> set log' \<Longrightarrow> token_issued site log' r"
  unfolding token_issued_def by blast

lemma registered_by_mono: "registered_by site log r a \<Longrightarrow> set log \<subseteq> set log' \<Longrightarrow> registered_by site log' r a"
  unfolding registered_by_def by blast

lemma decided_by_mono:
  "decided_by_owner site log a choice grant asset \<Longrightarrow> set log \<subseteq> set log' \<Longrightarrow>
   decided_by_owner site log' a choice grant asset"
  unfolding decided_by_owner_def by blast

text \<open>The counters of a token may move, and only they.\<close>

definition token_later :: "scan_token_record \<Rightarrow> scan_token_record \<Rightarrow> bool" where
  "token_later r r' \<longleftrightarrow>
     (\<exists>used failed. r' = r\<lparr>tk_used_runs := used, tk_failed_attempts := failed\<rparr> \<and> tk_used_runs r \<le> used)"

lemma token_later_refl [simp]: "token_later r r"
  unfolding token_later_def by (rule exI [of _ "tk_used_runs r"], rule exI [of _ "tk_failed_attempts r"]) simp

lemma token_later_issued: "token_later r r' \<Longrightarrow> token_issued site log r' = token_issued site log r"
  unfolding token_later_def by (elim exE conjE) (simp add: token_issued_def)

lemma token_later_registered: "token_later r r' \<Longrightarrow> registered_by site log r' a = registered_by site log r a"
  unfolding token_later_def by (elim exE conjE) (simp add: registered_by_def token_presented_def)

definition tokens_later :: "token_store \<Rightarrow> token_store \<Rightarrow> bool" where
  "tokens_later tokens tokens' \<longleftrightarrow>
     (\<forall>k r. tokens k = Some r \<longrightarrow> (\<exists>r'. tokens' k = Some r' \<and> token_later r r'))"

lemma tokens_later_refl [simp]: "tokens_later tokens tokens"
  by (simp add: tokens_later_def)

lemma tokens_later_update:
  "tokens k = Some r \<Longrightarrow> token_later r r' \<Longrightarrow> tokens_later tokens (tokens(k \<mapsto> r'))"
  by (auto simp: tokens_later_def)

lemma tokens_later_insert: "tokens k = None \<Longrightarrow> tokens_later tokens (tokens(k \<mapsto> r))"
  by (auto simp: tokens_later_def)

lemma approval_ok_later:
  assumes "approval_ok site log tokens i a" "tokens_later tokens tokens'"
    and "entries (decision_of i) log' = entries (decision_of i) log" "set log \<subseteq> set log'"
  shows "approval_ok site log' tokens' i a"
proof -
  obtain k r where "tokens k = Some r" and reg: "registered_by site log r a"
    using assms(1) by (auto simp: approval_ok_def)
  then obtain r' where r': "tokens' k = Some r'" "token_later r r'"
    using assms(2) by (auto simp: tokens_later_def)
  have "registered_by site log' r' a"
    using registered_by_mono [OF reg assms(4)] token_later_registered [OF r'(2)] by simp
  with r'(1) have "\<exists>k r. tokens' k = Some r \<and> registered_by site log' r a" by blast
  with assms(1,3) show ?thesis
    by (auto simp: approval_ok_def intro: decided_by_mono [OF _ assms(4)] split: scan_approval_state.splits)
qed

lemma approvals_ok_later:
  assumes "approvals_ok site log tokens approvals" "tokens_later tokens tokens'"
    and "\<And>i. \<not> decision_of i e"
  shows "approvals_ok site (e # log) tokens' approvals"
  unfolding approvals_ok_def
proof
  fix i
  have "case approvals i of None \<Rightarrow> entries (decision_of i) log = 0
        | Some a \<Rightarrow> approval_ok site log tokens i a"
    using assms(1) by (simp add: approvals_ok_def)
  then show "case approvals i of None \<Rightarrow> entries (decision_of i) (e # log) = 0
        | Some a \<Rightarrow> approval_ok site (e # log) tokens' i a"
    using assms(3) by (auto intro: approval_ok_later [OF _ assms(2)] split: option.splits)
qed

lemma tokens_ok_entry:
  assumes "tokens_ok site log tokens" "\<And>k. \<not> run_of k e"
  shows "tokens_ok site (e # log) tokens"
  unfolding tokens_ok_def
proof
  fix k
  have "case tokens k of None \<Rightarrow> entries (run_of k) log = 0 | Some r \<Rightarrow> token_ok site log k r"
    using assms(1) by (simp add: tokens_ok_def)
  then show "case tokens k of None \<Rightarrow> entries (run_of k) (e # log) = 0
      | Some r \<Rightarrow> token_ok site (e # log) k r"
    using assms(2) by (auto simp: token_ok_def intro: token_issued_mono split: option.splits)
qed

text \<open>A record of the store is replaced; a run may be counted on it.\<close>

lemma tokens_ok_update:
  assumes "tokens_ok site log tokens" "tokens k = Some r" "token_later r r'"
    and "tk_used_runs r' \<le> max_scan_token_runs" "\<And>k'. k' \<noteq> k \<Longrightarrow> \<not> run_of k' e"
    and "run_of k e \<Longrightarrow> tk_used_runs r < tk_used_runs r'"
  shows "tokens_ok site (e # log) (tokens(k \<mapsto> r'))"
  unfolding tokens_ok_def
proof
  fix j
  have old: "case tokens j of None \<Rightarrow> entries (run_of j) log = 0 | Some r \<Rightarrow> token_ok site log j r"
    using assms(1) by (simp add: tokens_ok_def)
  have issued: "token_issued site (e # log) r'" if "token_issued site log r"
    using that token_later_issued [OF assms(3)] by (auto intro: token_issued_mono)
  have later: "tk_token_ref r' = tk_token_ref r" "tk_used_runs r \<le> tk_used_runs r'"
    using assms(3) by (auto simp: token_later_def)
  show "case (tokens(k \<mapsto> r')) j of None \<Rightarrow> entries (run_of j) (e # log) = 0
      | Some r \<Rightarrow> token_ok site (e # log) j r"
  proof (cases "j = k")
    case True
    with old issued later assms(2,4,6) show ?thesis by (auto simp: token_ok_def)
  next
    case False
    with old assms(5) show ?thesis
      by (auto simp: token_ok_def intro: token_issued_mono split: option.splits)
  qed
qed

end
