(* ===== verification/Scan_Facts.thy ===== *)
theory Scan_Facts
  imports Scan_Log
begin

section \<open>What the scan operations do\<close>

text \<open>
  For every operation of the token service, the approval service and the routes: the state after it
  and what its success proves; then the invariant of \<open>Scan_Log\<close> along every history.
\<close>

lemmas scan_errors = token_error_def approval_error_def scan_value_error_def http_error_def

subsection \<open>Tokens\<close>

text \<open>A failed attempt is counted, or nothing happens.\<close>

definition counted :: "token_store \<Rightarrow> token_store \<Rightarrow> bool" where
  "counted tokens tokens' \<longleftrightarrow> tokens' = tokens \<or>
     (\<exists>k r. tokens k = Some r \<and> tokens' = tokens(k \<mapsto> r\<lparr>tk_failed_attempts := tk_failed_attempts r + 1\<rparr>))"

lemma counted_refl [simp]: "counted tokens tokens"
  by (simp add: counted_def)

lemma split_scan_token_simps [simp]:
  "fst (split_scan_token token s) = s"
  "snd (split_scan_token token s) = Inr (k, secret) \<Longrightarrow> k = token_reference token \<and> secret = token_secret token"
  by (auto simp: split_scan_token_def scan_errors split: if_splits)

lemma scan_aware_simps [simp]:
  "fst (scan_aware m s) = s" "snd (scan_aware m s) = Inr t \<longleftrightarrow> m = Aware t"
  by (auto simp: scan_aware_def scan_errors split: moment.splits)

lemma scan_aware_at [simp]:
  "scan_aware (Aware t) = op_return t" "scan_aware (Naive t) = scan_value_error"
  by (simp_all add: scan_aware_def)

lemma secret_hmac_at [simp]:
  "ascii_text secret \<Longrightarrow> secret_hmac keyed service secret = op_return (keyed (ts_hash_key service) secret)"
  "\<not> ascii_text secret \<Longrightarrow> secret_hmac keyed service secret = scan_value_error"
  by (simp_all add: secret_hmac_def)

lemma secret_hmac_simps [simp]:
  "fst (secret_hmac keyed service secret s) = s"
  "snd (secret_hmac keyed service secret s) = Inr h \<longleftrightarrow>
     ascii_text secret \<and> h = keyed (ts_hash_key service) secret"
  by (auto simp: secret_hmac_def scan_errors)

lemma token_checked_fst: "counted tokens (fst (token_checked k h origin t tokens))"
  by (auto simp: token_checked_def op_bind_fst scan_errors counted_def
      split: option.splits sum.splits bool.splits)

lemma token_checked_Inr:
  "snd (token_checked k h origin t tokens) = Inr r \<longleftrightarrow>
     tokens k = Some r \<and> tk_token_hmac r = h \<and> ascii_text h \<and> t \<le> tk_expires_at r \<and> tk_server_origin r = origin"
  by (auto simp: token_checked_def op_bind_snd op_bind_fst scan_errors compare_digest_def
      split: option.splits sum.splits bool.splits if_splits)

lemma token_checked_keeps: "snd (token_checked k h origin t tokens) = Inr r \<Longrightarrow> fst (token_checked k h origin t tokens) = tokens"
  unfolding token_checked_def compare_digest_def
  by (auto simp: op_bind_snd op_bind_fst scan_errors
      split: option.splits sum.splits bool.splits if_splits)

lemma verify_scan_token_fst: "counted tokens (fst (verify_scan_token keyed service token origin m tokens))"
  by (auto simp: verify_scan_token_def op_bind_fst intro: token_checked_fst split: sum.splits)

lemma verify_scan_token_Inr:
  assumes "snd (verify_scan_token keyed service token origin (Aware t) tokens) = Inr v"
  obtains r where "tokens (token_reference token) = Some r"
    "tk_token_hmac r = keyed (ts_hash_key service) (token_secret token)"
    "t \<le> tk_expires_at r" "tk_server_origin r = origin"
    "vt_subject_user_id v = tk_subject_user_id r" "vt_organization_id v = tk_organization_id r"
    "fst (verify_scan_token keyed service token origin (Aware t) tokens) = tokens"
proof -
  let ?k = "token_reference token" and ?h = "keyed (ts_hash_key service) (token_secret token)"
  obtain r where r: "snd (token_checked ?k ?h origin t tokens) = Inr r"
    and v: "vt_subject_user_id v = tk_subject_user_id r" "vt_organization_id v = tk_organization_id r"
    and state: "fst (verify_scan_token keyed service token origin (Aware t) tokens) =
      fst (token_checked ?k ?h origin t tokens)"
    using assms by (auto simp: verify_scan_token_def op_bind_fst op_bind_snd split: sum.splits
        dest!: split_scan_token_simps(2))
  show thesis
    by (rule that [of r]) (use r [unfolded token_checked_Inr] token_checked_keeps [OF r] v state in simp_all)
qed

lemma token_start_run_Inr:
  assumes "snd (token_start_run k h origin t tokens) = Inr r'"
  obtains r where "tokens k = Some r" "tk_token_hmac r = h" "t \<le> tk_expires_at r" "tk_server_origin r = origin"
    "tk_used_runs r < max_scan_token_runs" "r' = r\<lparr>tk_used_runs := tk_used_runs r + 1\<rparr>"
    "fst (token_start_run k h origin t tokens) = tokens(k \<mapsto> r')"
proof -
  obtain r where r: "snd (token_checked k h origin t tokens) = Inr r" "tk_used_runs r < max_scan_token_runs"
    "r' = r\<lparr>tk_used_runs := tk_used_runs r + 1\<rparr>"
    using assms by (auto simp: token_start_run_def op_bind_snd Let_def scan_errors split: sum.splits if_splits)
  then have "fst (token_start_run k h origin t tokens) = tokens(k \<mapsto> r')"
    by (simp add: token_start_run_def op_bind_fst token_checked_keeps Let_def)
  then show thesis
    by (intro that [of r]) (use r(2,3) r(1) [unfolded token_checked_Inr] in simp_all)
qed

lemma token_start_run_Inl:
  "snd (token_start_run k h origin t tokens) = Inl e \<Longrightarrow> counted tokens (fst (token_start_run k h origin t tokens))"
  by (auto simp: token_start_run_def op_bind_fst op_bind_snd Let_def scan_errors token_checked_fst
      token_checked_keeps split: sum.splits if_splits)

lemma start_scan_run_Inr:
  assumes "snd (start_scan_run keyed service token origin (Aware t) tokens) = Inr x"
  obtains r where "tokens (token_reference token) = Some r"
    "tk_token_hmac r = keyed (ts_hash_key service) (token_secret token)"
    "t \<le> tk_expires_at r" "tk_server_origin r = origin" "tk_used_runs r < max_scan_token_runs"
    "rn_subject_user_id x = tk_subject_user_id r" "rn_organization_id x = tk_organization_id r"
    "fst (start_scan_run keyed service token origin (Aware t) tokens) =
       tokens(token_reference token \<mapsto> r\<lparr>tk_used_runs := tk_used_runs r + 1\<rparr>)"
proof -
  obtain r' where run: "snd (token_start_run (token_reference token) (keyed (ts_hash_key service) (token_secret token))
      origin t tokens) = Inr r'"
    and x: "rn_subject_user_id x = tk_subject_user_id r'" "rn_organization_id x = tk_organization_id r'"
    and state: "fst (start_scan_run keyed service token origin (Aware t) tokens) =
      fst (token_start_run (token_reference token) (keyed (ts_hash_key service) (token_secret token)) origin t tokens)"
    using assms by (auto simp: start_scan_run_def op_bind_fst op_bind_snd split: sum.splits
        dest!: split_scan_token_simps(2))
  from run obtain r where "tokens (token_reference token) = Some r"
    "tk_token_hmac r = keyed (ts_hash_key service) (token_secret token)" "t \<le> tk_expires_at r"
    "tk_server_origin r = origin" "tk_used_runs r < max_scan_token_runs"
    and r': "r' = r\<lparr>tk_used_runs := tk_used_runs r + 1\<rparr>"
    "fst (token_start_run (token_reference token) (keyed (ts_hash_key service) (token_secret token))
       origin t tokens) = tokens(token_reference token \<mapsto> r')"
    by (rule token_start_run_Inr)
  then show thesis by (intro that [of r]) (use x state r' in simp_all)
qed

lemma start_scan_run_Inl:
  "snd (start_scan_run keyed service token origin m tokens) = Inl e \<Longrightarrow>
   counted tokens (fst (start_scan_run keyed service token origin m tokens))"
proof (cases m)
  case (Aware t)
  have "counted tokens (fst (start_scan_run keyed service token origin (Aware t) tokens))"
    if "snd (start_scan_run keyed service token origin (Aware t) tokens) = Inl e"
  proof (cases "snd (split_scan_token token tokens)")
    case (Inr x)
    with that show ?thesis
      by (cases x; cases "ascii_text (snd x)")
        (auto simp: start_scan_run_def op_bind_fst op_bind_snd scan_errors split: sum.splits
          intro: token_start_run_Inl)
  qed (simp add: start_scan_run_def op_bind_fst)
  with Aware show "snd (start_scan_run keyed service token origin m tokens) = Inl e \<Longrightarrow> ?thesis" by simp
qed (simp add: start_scan_run_def scan_errors)

lemma issue_scan_token_Inr:
  assumes "snd (issue_scan_token keyed service org user origin (Aware t) ttl draws secret tokens) = Inr (Some issued)"
  obtains k r where "tokens k = None" "k \<in> set draws"
    "fst (issue_scan_token keyed service org user origin (Aware t) ttl draws secret tokens) = tokens(k \<mapsto> r)"
    "tk_token_ref r = k" "tk_token_hmac r = keyed (ts_hash_key service) secret" "tk_organization_id r = org"
    "tk_subject_user_id r = user" "tk_server_origin r = origin" "tk_expires_at r = t + ttl" "tk_used_runs r = 0"
proof -
  obtain k where k: "find (\<lambda>k. tokens k = None) draws = Some k" and "ascii_text secret"
    using assms by (auto simp: issue_scan_token_def op_bind_snd op_bind_fst scan_errors Let_def
        split: option.splits if_splits sum.splits)
  then have "tokens k = None" "k \<in> set draws" by (auto simp: find_Some_iff)
  with k assms show thesis
    by (auto simp: issue_scan_token_def op_bind_snd op_bind_fst scan_errors Let_def token_insert_def
        split: if_splits sum.splits intro!: that)
qed

lemma issue_scan_token_else:
  "\<nexists>issued. snd (issue_scan_token keyed service org user origin m ttl draws secret tokens) = Inr (Some issued) \<Longrightarrow>
   fst (issue_scan_token keyed service org user origin m ttl draws secret tokens) = tokens"
  by (cases m; cases "ascii_text secret")
    (auto simp: issue_scan_token_def op_bind_snd op_bind_fst scan_errors Let_def token_insert_def
      split: option.splits if_splits sum.splits)

subsection \<open>Approvals\<close>

lemma request_approval_Inr:
  assumes "snd (request_approval org user device (Aware t) ttl i approvals) = Inr x"
  shows "approvals i = None" "rsa_request_id x = i"
    "fst (request_approval org user device (Aware t) ttl i approvals) = approvals(i \<mapsto>
       \<lparr>sap_request_id = i, sap_organization_id = org, sap_subject_user_id = user, sap_device_name = device,
        sap_requested_at = t, sap_expires_at = t + ttl, sap_state = PENDING, sap_elevated_consent = False,
        sap_decided_at = None, sap_grant_code = None, sap_asset_id = None\<rparr>)"
  using assms by (auto simp: request_approval_def approval_insert_def op_bind_snd op_bind_fst Let_def
      scan_errors split: if_splits sum.splits)

lemma request_approval_Inl:
  "snd (request_approval org user device m ttl i approvals) = Inl e \<Longrightarrow>
   fst (request_approval org user device m ttl i approvals) = approvals"
  by (cases m) (auto simp: request_approval_def approval_insert_def op_bind_snd op_bind_fst Let_def
      scan_errors split: if_splits sum.splits)

lemma require_approval_simps [simp]:
  "fst (require_approval i approvals) = approvals"
  "snd (require_approval i approvals) = Inr a \<longleftrightarrow> approvals i = Some a"
  by (auto simp: require_approval_def scan_errors split: option.splits)

lemma pending_view_simps [simp]:
  "fst (pending_view i viewer m g approvals) = approvals"
  "snd (pending_view i viewer (Aware t) g approvals) = Inr view \<longleftrightarrow>
     (\<exists>a. approvals i = Some a \<and> sap_subject_user_id a = viewer \<and>
        view = approval_view a (effective_state a t) g)"
  by (auto simp: pending_view_def require_approval_def op_bind_fst op_bind_snd scan_errors
      split: sum.splits option.splits)

lemma poll_approval_simps [simp]:
  "fst (poll_approval i m approvals) = approvals"
  "snd (poll_approval i (Aware t) approvals) = Inr view \<longleftrightarrow>
     (\<exists>a. approvals i = Some a \<and> view = approval_view a (effective_state a t) True)"
  by (auto simp: poll_approval_def require_approval_def op_bind_fst op_bind_snd scan_errors
      split: sum.splits option.splits)

definition decided :: "scan_approval_record \<Rightarrow> scan_approval_state \<Rightarrow> bool \<Rightarrow> int \<Rightarrow> string option \<Rightarrow>
    string option \<Rightarrow> scan_approval_record" where
  "decided a state consent t grant asset =
     a\<lparr>sap_state := state, sap_elevated_consent := consent, sap_decided_at := Some t,
       sap_grant_code := grant, sap_asset_id := asset\<rparr>"

lemma decide_approval_Inr:
  assumes "snd (decide_approval i user state consent (Aware t) grant asset approvals) = Inr view"
  obtains a where "approvals i = Some a" "sap_subject_user_id a = user" "sap_state a = PENDING"
    "t \<le> sap_expires_at a"
    "fst (decide_approval i user state consent (Aware t) grant asset approvals) =
       approvals(sap_request_id a \<mapsto> decided a state consent t grant asset)"
proof -
  obtain a where a: "approvals i = Some a" "sap_subject_user_id a = user" "sap_state a = PENDING"
    "t \<le> sap_expires_at a"
    using assms by (auto simp: decide_approval_def op_bind_snd scan_errors split: sum.splits if_splits)
  then have "require_approval i approvals = op_return a approvals"
    by (simp add: require_approval_def)
  with a show thesis
    by (intro that [of a])
      (auto simp: decide_approval_def op_bind_fst approval_replace_def decided_def Let_def split: sum.splits)
qed

lemma decide_approval_Inl:
  "snd (decide_approval i user state consent m grant asset approvals) = Inl e \<Longrightarrow>
   fst (decide_approval i user state consent m grant asset approvals) = approvals"
  by (cases m) (auto simp: decide_approval_def require_approval_def op_bind_snd op_bind_fst
      approval_replace_def Let_def scan_errors split: sum.splits option.splits if_splits)

subsection \<open>Routes\<close>

lemma with_stores_simps [simp]:
  "fst (with_tokens m s) = s\<lparr>sn_tokens := fst (m (sn_tokens s))\<rparr>"
  "snd (with_tokens m s) = snd (m (sn_tokens s))"
  "fst (with_approvals n s) = s\<lparr>sn_approvals := fst (n (sn_approvals s))\<rparr>"
  "snd (with_approvals n s) = snd (n (sn_approvals s))"
  by (simp_all add: with_tokens_def with_approvals_def split: prod.splits)

lemma catching_simps [simp]:
  "fst (catching caught m s) = fst (m s)"
  "snd (catching caught m s) = Inr x \<longleftrightarrow> snd (m s) = Inr x"
  by (auto simp: catching_def split: prod.splits sum.splits raised.splits)

lemma is_ok_catching [simp]: "is_ok (snd (catching caught m s)) = is_ok (snd (m s))"
  by (auto simp: is_ok_iff)

lemma op_map_outcome: "op_map f m s = (s', out) \<Longrightarrow> s' = fst (m s) \<and> is_ok out = is_ok (snd (m s))"
  by (auto simp: op_map_def op_bind_def op_return_def split: prod.splits sum.splits)

lemma is_ok_op_bind:
  "is_ok (snd (op_bind m f s)) \<longleftrightarrow> (\<exists>x. snd (m s) = Inr x \<and> is_ok (snd (f x (fst (m s)))))"
  by (auto simp: op_bind_snd split: sum.splits)

lemma owner_mismatch_simps [simp]:
  "fst (owner_mismatch_as_session m s) = fst (m s)"
  "snd (owner_mismatch_as_session m s) = Inr x \<longleftrightarrow> snd (m s) = Inr x"
  by (auto simp: owner_mismatch_as_session_def
      split: prod.splits sum.splits raised.splits scan_failure.splits scan_approval_code.splits)

lemma op_map_simps [simp]:
  "fst (op_map f m s) = fst (m s)"
  "snd (op_map f m s) = Inr y \<longleftrightarrow> (\<exists>x. snd (m s) = Inr x \<and> y = f x)"
  by (auto simp: op_map_def op_bind_fst op_bind_snd split: sum.splits)

lemma guard_simps [simp]:
  "fst (checked_body b s) = s" "snd (checked_body b s) = Inr u \<longleftrightarrow> b"
  "fst (feature_enabled site s) = s" "snd (feature_enabled site s) = Inr u \<longleftrightarrow> si_demo_enabled site"
  "fst (verify_browser_csrf rq s) = s" "snd (verify_browser_csrf rq s) = Inr u \<longleftrightarrow> sq_csrf rq = None"
  "fst (require_user site rq s) = s" "snd (require_user site rq s) = Inr p \<longleftrightarrow> request_user site rq p"
  by (auto simp: checked_body_def feature_enabled_def verify_browser_csrf_def require_user_def
      scan_principal_def request_user_def op_bind_fst op_bind_snd scan_errors split: option.splits sum.splits)

lemma require_user_at: "request_user site rq p \<Longrightarrow> require_user site rq = op_return p"
  by (simp add: request_user_def require_user_def feature_enabled_def scan_principal_def)

lemma issue_route_fst:
  assumes "s' = fst (issue_scan_sidecar site rq name draws secret sidecar s)" "s' \<noteq> s"
  obtains p k r where "request_user site rq p" "sq_csrf rq = None" "sn_tokens s k = None" "k \<in> set draws"
    "s' = s\<lparr>sn_tokens := (sn_tokens s)(k \<mapsto> r)\<rparr>" "tk_token_ref r = k"
    "tk_token_hmac r = si_keyed site (ts_hash_key (si_service site)) secret"
    "tk_organization_id r = pr_organization_id p" "tk_subject_user_id r = pr_user_id p"
    "tk_server_origin r = server_origin_of rq" "tk_expires_at r = sq_now rq + scan_token_ttl" "tk_used_runs r = 0"
proof -
  let ?issue = "\<lambda>p. issue_scan_token (si_keyed site) (si_service site) (pr_organization_id p) (pr_user_id p)
     (server_origin_of rq) (Aware (sq_now rq)) scan_token_ttl draws secret (sn_tokens s)"
  have "s' = s \<or> (\<exists>p. request_user site rq p \<and> sq_csrf rq = None \<and> s' = s\<lparr>sn_tokens := fst (?issue p)\<rparr>)"
    using assms(1) by (auto simp: issue_scan_sidecar_def session_issue_token_def op_bind_fst scan_errors
        split: sum.splits option.splits)
  with assms(2) obtain p where p: "request_user site rq p" "sq_csrf rq = None"
    and s': "s' = s\<lparr>sn_tokens := fst (?issue p)\<rparr>" by blast
  from s' assms(2) have "fst (?issue p) \<noteq> sn_tokens s" by auto
  then obtain issued where "snd (?issue p) = Inr (Some issued)" using issue_scan_token_else by metis
  then obtain k r where "sn_tokens s k = None" "k \<in> set draws" "fst (?issue p) = (sn_tokens s)(k \<mapsto> r)"
    "tk_token_ref r = k" "tk_token_hmac r = si_keyed site (ts_hash_key (si_service site)) secret"
    "tk_organization_id r = pr_organization_id p" "tk_subject_user_id r = pr_user_id p"
    "tk_server_origin r = server_origin_of rq" "tk_expires_at r = sq_now rq + scan_token_ttl" "tk_used_runs r = 0"
    by (rule issue_scan_token_Inr)
  then show thesis by (intro that [OF p]) (use s' in simp_all)
qed

text \<open>A token that passed at a request, before and after its run is counted.\<close>

definition token_passed :: "scan_site \<Rightarrow> scan_request \<Rightarrow> string \<Rightarrow> scan_token_record \<Rightarrow> bool" where
  "token_passed site rq token r \<longleftrightarrow>
     tk_token_hmac r = si_keyed site (ts_hash_key (si_service site)) (token_secret token) \<and>
     sq_now rq \<le> tk_expires_at r \<and> tk_server_origin r = server_origin_of rq"

definition run_counted :: "token_store \<Rightarrow> string \<Rightarrow> scan_token_record \<Rightarrow> token_store" where
  "run_counted tokens k r = tokens(k \<mapsto> r\<lparr>tk_used_runs := tk_used_runs r + 1\<rparr>)"

definition new_approval :: "scan_request \<Rightarrow> scan_token_record \<Rightarrow> string \<Rightarrow> string \<Rightarrow> scan_approval_record" where
  "new_approval rq r device i =
     \<lparr>sap_request_id = i, sap_organization_id = tk_organization_id r,
      sap_subject_user_id = tk_subject_user_id r, sap_device_name = device, sap_requested_at = sq_now rq,
      sap_expires_at = sq_now rq + scan_approval_ttl, sap_state = PENDING, sap_elevated_consent = False,
      sap_decided_at = None, sap_grant_code = None, sap_asset_id = None\<rparr>"

lemma session_register_cases:
  obtains "counted (sn_tokens s) (sn_tokens (fst (session_register keyed service token device origin m i s)))"
      "sn_approvals (fst (session_register keyed service token device origin m i s)) = sn_approvals s"
      "\<And>x. snd (session_register keyed service token device origin m i s) \<noteq> Inr x"
  | x where "snd (start_scan_run keyed service token origin m (sn_tokens s)) = Inr x"
      "sn_tokens (fst (session_register keyed service token device origin m i s)) =
         fst (start_scan_run keyed service token origin m (sn_tokens s))"
      "fst (session_register keyed service token device origin m i s) =
         s\<lparr>sn_tokens := fst (start_scan_run keyed service token origin m (sn_tokens s)),
           sn_approvals := fst (request_approval (rn_organization_id x) (rn_subject_user_id x) device m
             scan_approval_ttl i (sn_approvals s))\<rparr>"
      "is_ok (snd (session_register keyed service token device origin m i s)) =
         is_ok (snd (request_approval (rn_organization_id x) (rn_subject_user_id x) device m
             scan_approval_ttl i (sn_approvals s)))"
proof (cases "snd (start_scan_run keyed service token origin m (sn_tokens s))")
  case (Inl e)
  then show thesis
    by (intro that(1)) (auto simp: session_register_def op_bind_fst op_bind_snd intro: start_scan_run_Inl)
next
  case (Inr x)
  then show thesis
    by (intro that(2) [of x]) (auto simp: session_register_def op_bind_fst op_bind_snd split: sum.splits)
qed

subsection \<open>The invariant along a history\<close>

lemma token_later_counters [simp]:
  "token_later r (r\<lparr>tk_failed_attempts := n\<rparr>)" "token_later r (r\<lparr>tk_used_runs := tk_used_runs r + 1\<rparr>)"
  unfolding token_later_def
  by (rule exI [of _ "tk_used_runs r"], rule exI [of _ n], simp)
    (rule exI [of _ "tk_used_runs r + 1"], rule exI [of _ "tk_failed_attempts r"], simp)

lemma counted_later: "counted tokens tokens' \<Longrightarrow> tokens_later tokens tokens'"
  unfolding counted_def
proof (elim disjE exE conjE)
  fix k r assume *: "tokens k = Some r" "tokens' = tokens(k \<mapsto> r\<lparr>tk_failed_attempts := tk_failed_attempts r + 1\<rparr>)"
  then show ?thesis by (auto intro: tokens_later_update)
qed simp

lemma counted_tokens_ok:
  assumes "tokens_ok site log tokens" "counted tokens tokens'" "\<And>k. \<not> run_of k e"
  shows "tokens_ok site (e # log) tokens'"
  using assms(2) unfolding counted_def
proof (elim disjE exE conjE)
  fix k r assume *: "tokens k = Some r" "tokens' = tokens(k \<mapsto> r\<lparr>tk_failed_attempts := tk_failed_attempts r + 1\<rparr>)"
  have "token_ok site log k r" using assms(1) * by (auto simp: tokens_ok_def split: option.splits)
  then show ?thesis
    unfolding *(2) by (intro tokens_ok_update [OF assms(1) *(1)]) (simp_all add: token_ok_def assms(3))
qed (simp add: tokens_ok_entry [OF assms(1,3)])

lemma quiet_entry:
  assumes "scan_ok site s log" "counted (sn_tokens s) (sn_tokens s')" "sn_approvals s' = sn_approvals s"
    and "\<And>k. \<not> run_of k e" "\<And>i. \<not> decision_of i e"
  shows "scan_ok site s' (e # log)"
  using assms(1) counted_tokens_ok [OF _ assms(2,4)] approvals_ok_later [OF _ counted_later [OF assms(2)] assms(5)]
  by (simp add: scan_ok_def assms(3))

lemma token_of_store: "scan_ok site s log \<Longrightarrow> sn_tokens s k = Some r \<Longrightarrow> token_ok site log k r"
  by (auto simp: scan_ok_def tokens_ok_def split: option.splits)

lemma approval_of_store:
  "scan_ok site s log \<Longrightarrow> sn_approvals s i = Some a \<Longrightarrow> approval_ok site log (sn_tokens s) i a"
  by (auto simp: scan_ok_def approvals_ok_def split: option.splits)

lemma issue_keeps_ok:
  assumes "scan_ok site s log" "s' = fst (issue_scan_sidecar site rq name draws secret sidecar s)"
  shows "scan_ok site s' ((IssueCall rq name draws secret sidecar, out) # log)"
proof (cases "s' = s")
  case True
  then show ?thesis by (intro quiet_entry [OF assms(1)]) (simp_all add: run_of_def decision_of_def)
next
  case False
  let ?e = "(IssueCall rq name draws secret sidecar, out)"
  obtain p k r where p: "request_user site rq p" "sq_csrf rq = None" "sn_tokens s k = None" "k \<in> set draws"
    and s': "s' = s\<lparr>sn_tokens := (sn_tokens s)(k \<mapsto> r)\<rparr>"
    and r: "tk_token_ref r = k" "tk_token_hmac r = si_keyed site (ts_hash_key (si_service site)) secret"
      "tk_organization_id r = pr_organization_id p" "tk_subject_user_id r = pr_user_id p"
      "tk_server_origin r = server_origin_of rq" "tk_expires_at r = sq_now rq + scan_token_ttl" "tk_used_runs r = 0"
    using assms(2) False by (rule issue_route_fst)
  have "token_issued site (?e # log) r"
    unfolding token_issued_def using p r
    by (intro exI [of _ rq] exI [of _ name] exI [of _ draws] exI [of _ secret] exI [of _ sidecar] exI [of _ out]
        exI [of _ p]) simp
  moreover have "entries (run_of k) log = 0"
  proof -
    have "case sn_tokens s k of None \<Rightarrow> entries (run_of k) log = 0 | Some r \<Rightarrow> token_ok site log k r"
      using assms(1) by (simp add: scan_ok_def tokens_ok_def)
    with p(3) show ?thesis by simp
  qed
  ultimately have new: "token_ok site (?e # log) k r"
    using r by (simp add: token_ok_def run_of_def max_scan_token_runs_def)
  have "tokens_ok site (?e # log) (sn_tokens s)"
    using assms(1) by (intro tokens_ok_entry) (simp_all add: scan_ok_def run_of_def)
  with new have "tokens_ok site (?e # log) ((sn_tokens s)(k \<mapsto> r))" by (simp add: tokens_ok_def)
  moreover have "approvals_ok site (?e # log) ((sn_tokens s)(k \<mapsto> r)) (sn_approvals s)"
    by (rule approvals_ok_later [where tokens = "sn_tokens s"])
      (use assms(1) tokens_later_insert [where tokens = "sn_tokens s", OF p(3)]
       in \<open>simp_all add: scan_ok_def decision_of_def\<close>)
  ultimately show ?thesis by (simp add: scan_ok_def s')
qed

text \<open>A run is counted: of a failed registration, or of one that leaves a new approval.\<close>

lemma run_keeps_ok:
  assumes "scan_ok site s log" "sn_tokens s k = Some r" "tk_used_runs r < max_scan_token_runs"
    and "\<And>k'. k' \<noteq> k \<Longrightarrow> \<not> run_of k' e" "\<And>i. \<not> decision_of i e"
  shows "scan_ok site (s\<lparr>sn_tokens := run_counted (sn_tokens s) k r\<rparr>) (e # log)"
proof -
  let ?r = "r\<lparr>tk_used_runs := tk_used_runs r + 1\<rparr>"
  have later: "token_later r ?r" by simp
  have "tokens_ok site (e # log) (run_counted (sn_tokens s) k r)"
    unfolding run_counted_def
    by (rule tokens_ok_update [where r = r]) (use assms later in \<open>simp_all add: scan_ok_def\<close>)
  moreover have "approvals_ok site (e # log) (run_counted (sn_tokens s) k r) (sn_approvals s)"
    unfolding run_counted_def
    by (rule approvals_ok_later [where tokens = "sn_tokens s"])
      (use assms(1,5) tokens_later_update [where tokens = "sn_tokens s" and r = r, OF assms(2)]
       in \<open>simp_all add: scan_ok_def\<close>)
  ultimately show ?thesis by (simp add: scan_ok_def)
qed

lemma put_approval_ok:
  assumes "scan_ok site s (e # log)" "approval_ok site (e # log) (sn_tokens s) i a"
  shows "scan_ok site (s\<lparr>sn_approvals := (sn_approvals s)(i \<mapsto> a)\<rparr>) (e # log)"
  using assms by (simp add: scan_ok_def approvals_ok_def)

lemma register_route_cases:
  assumes "s' = fst (register_scan_session site rq token device i s)"
  obtains "counted (sn_tokens s) (sn_tokens s')" "sn_approvals s' = sn_approvals s"
      "\<not> is_ok (snd (register_scan_session site rq token device i s))"
  | r where "sn_tokens s (token_reference token) = Some r" "token_passed site rq token r"
      "tk_used_runs r < max_scan_token_runs"
      "s' = s\<lparr>sn_tokens := run_counted (sn_tokens s) (token_reference token) r\<rparr>"
      "\<not> is_ok (snd (register_scan_session site rq token device i s))"
  | r where "sn_tokens s (token_reference token) = Some r" "token_passed site rq token r"
      "tk_used_runs r < max_scan_token_runs" "sn_approvals s i = None"
      "s' = s\<lparr>sn_tokens := run_counted (sn_tokens s) (token_reference token) r,
              sn_approvals := (sn_approvals s)(i \<mapsto> new_approval rq r device i)\<rparr>"
      "is_ok (snd (register_scan_session site rq token device i s))"
proof -
  let ?register = "session_register (si_keyed site) (si_service site) token device (server_origin_of rq)
    (Aware (sq_now rq)) i s"
  consider "s' = s" "\<not> is_ok (snd (register_scan_session site rq token device i s))"
    | "s' = fst ?register" "is_ok (snd (register_scan_session site rq token device i s)) = is_ok (snd ?register)"
  proof (cases "token_body_ok token \<and> device_body_ok device \<and> si_demo_enabled site")
    case True
    then have "register_scan_session site rq token device i s =
        op_bind (catching (\<lambda>e. is_token_error e \<or> is_approval_error e)
          (session_register (si_keyed site) (si_service site) token device (server_origin_of rq)
            (Aware (sq_now rq)) i)) (\<lambda>registered. op_return
          [(''request_id'', PStr (rg_request_id registered)),
           (''approve_url'', PStr (rg_approve_url registered)),
           (''expires_at'', PStr (utc_isoformat (rg_expires_at registered))),
           (''remaining_runs'', PInt (rg_remaining_runs registered))]) s"
      by (simp add: register_scan_session_def checked_body_def feature_enabled_def)
    then show thesis
      using assms by (intro that(2); simp add: op_bind_fst is_ok_op_bind split: sum.splits) (simp add: is_ok_iff)
  next
    case False
    then show thesis
      using assms by (intro that(1)) (auto simp: register_scan_session_def op_bind_fst is_ok_op_bind split: sum.splits)
  qed
  then show thesis
  proof cases
    case 1
    with that(1) show thesis by simp
  next
    case 2
    show thesis
    proof (cases rule: session_register_cases [of s "si_keyed site" "si_service site" token device
        "server_origin_of rq" "Aware (sq_now rq)" i])
      case 1
      with 2 that(1) show thesis by (auto simp: is_ok_iff)
    next
      case (2 x)
      note run = this
      let ?request = "request_approval (rn_organization_id x) (rn_subject_user_id x) device (Aware (sq_now rq))
        scan_approval_ttl i (sn_approvals s)"
      obtain r where r: "sn_tokens s (token_reference token) = Some r"
        "tk_token_hmac r = si_keyed site (ts_hash_key (si_service site)) (token_secret token)"
        "sq_now rq \<le> tk_expires_at r" "tk_server_origin r = server_origin_of rq"
        "tk_used_runs r < max_scan_token_runs" "rn_subject_user_id x = tk_subject_user_id r"
        "rn_organization_id x = tk_organization_id r"
        "fst (start_scan_run (si_keyed site) (si_service site) token (server_origin_of rq) (Aware (sq_now rq))
           (sn_tokens s)) = run_counted (sn_tokens s) (token_reference token) r"
        using run(1) unfolding run_counted_def by (rule start_scan_run_Inr)
      have passed: "token_passed site rq token r" using r by (simp add: token_passed_def)
      have s': "s' = s\<lparr>sn_tokens := run_counted (sn_tokens s) (token_reference token) r, sn_approvals := fst ?request\<rparr>"
        "is_ok (snd (register_scan_session site rq token device i s)) = is_ok (snd ?request)"
        using \<open>s' = fst ?register\<close> \<open>is_ok (snd (register_scan_session site rq token device i s)) = is_ok (snd ?register)\<close>
          run(3,4) r(8) by simp_all
      show thesis
      proof (cases "snd ?request")
        case (Inl e)
        then show thesis using that(2) [OF r(1) passed r(5)] s' request_approval_Inl [OF Inl] by simp
      next
        case (Inr y)
        then show thesis
          using that(3) [OF r(1) passed r(5)] s' request_approval_Inr [OF Inr] r(6,7)
          by (simp add: new_approval_def)
      qed
    qed
  qed
qed

lemma register_keeps_ok:
  assumes "scan_ok site s log" "perform_scan site (RegisterCall rq token device i) s = (s', out)"
  shows "scan_ok site s' ((RegisterCall rq token device i, out) # log)"
proof -
  let ?e = "(RegisterCall rq token device i, out)" and ?k = "token_reference token"
  have s': "s' = fst (register_scan_session site rq token device i s)"
    and out: "is_ok out = is_ok (snd (register_scan_session site rq token device i s))"
    using assms(2) by (auto dest!: op_map_outcome)
  from s' show ?thesis
  proof (cases rule: register_route_cases)
    case 1
    then show ?thesis
      using out by (intro quiet_entry [OF assms(1)])
        (auto simp: run_of_def decision_of_def is_ok_iff split: sum.splits)
  next
    case (2 r)
    have "scan_ok site (s\<lparr>sn_tokens := run_counted (sn_tokens s) ?k r\<rparr>) (?e # log)"
      using 2 out by (intro run_keeps_ok [OF assms(1)]) (auto simp: run_of_def decision_of_def is_ok_iff split: sum.splits)
    with 2 show ?thesis by simp
  next
    case (3 r)
    let ?s = "s\<lparr>sn_tokens := run_counted (sn_tokens s) ?k r\<rparr>" and ?r = "r\<lparr>tk_used_runs := tk_used_runs r + 1\<rparr>"
    have run: "scan_ok site ?s (?e # log)"
      using 3 by (intro run_keeps_ok [OF assms(1)]) (auto simp: run_of_def decision_of_def split: sum.splits)
    obtain x where x: "out = Inr x" using 3(6) out by (auto simp: is_ok_iff)
    have "tk_token_ref r = ?k" using token_of_store [OF assms(1) 3(1)] by (simp add: token_ok_def)
    then have "token_presented site rq token ?r"
      using 3(2) by (simp add: token_presented_def token_passed_def)
    then have "registered_by site (?e # log) ?r (new_approval rq r device i)"
      unfolding registered_by_def new_approval_def using x by auto
    moreover have "entries (decision_of i) (?e # log) = 0"
    proof -
      have "case sn_approvals s i of None \<Rightarrow> entries (decision_of i) log = 0
          | Some a \<Rightarrow> approval_ok site log (sn_tokens s) i a"
        using assms(1) by (simp add: scan_ok_def approvals_ok_def)
      with 3(4) show ?thesis by (simp add: decision_of_def)
    qed
    ultimately have "approval_ok site (?e # log) (sn_tokens ?s) i (new_approval rq r device i)"
      by (auto simp: approval_ok_def new_approval_def run_counted_def)
    from put_approval_ok [OF run this] 3(5) show ?thesis by simp
  qed
qed

subsection \<open>The other routes\<close>

lemma authorize_exchange_fst:
  "counted (sn_tokens s) (sn_tokens (fst (authorize_exchange keyed service i token origin m s)))"
  "sn_approvals (fst (authorize_exchange keyed service i token origin m s)) = sn_approvals s"
  by (simp_all add: authorize_exchange_def op_bind_fst verify_scan_token_fst split: sum.splits)

lemma authorize_exchange_Inr:
  assumes "snd (authorize_exchange (si_keyed site) (si_service site) i token (server_origin_of rq)
      (Aware (sq_now rq)) s) = Inr x"
  obtains r a where "sn_tokens s (token_reference token) = Some r" "token_passed site rq token r"
    "sn_approvals s i = Some a" "sap_subject_user_id a = tk_subject_user_id r" "sap_state a = APPROVED"
    "as_request_id x = sap_request_id a" "as_organization_id x = tk_organization_id r"
    "as_subject_user_id x = tk_subject_user_id r" "as_elevated_consent x = sap_elevated_consent a"
    "as_grant_code x = sap_grant_code a" "as_asset_id x = sap_asset_id a"
    "fst (authorize_exchange (si_keyed site) (si_service site) i token (server_origin_of rq)
       (Aware (sq_now rq)) s) = s"
proof -
  let ?verify = "verify_scan_token (si_keyed site) (si_service site) token (server_origin_of rq)
    (Aware (sq_now rq)) (sn_tokens s)"
  obtain v a where v: "snd ?verify = Inr v" and a: "sn_approvals s i = Some a"
    "sap_subject_user_id a = vt_subject_user_id v" "effective_state a (sq_now rq) = APPROVED"
    and x: "x = \<lparr>as_request_id = sap_request_id a, as_organization_id = vt_organization_id v,
      as_subject_user_id = vt_subject_user_id v, as_device_name = sap_device_name a,
      as_elevated_consent = sap_elevated_consent a, as_grant_code = sap_grant_code a,
      as_asset_id = sap_asset_id a\<rparr>"
    using assms by (auto simp: authorize_exchange_def op_bind_snd approval_view_def split: sum.splits if_splits)
  obtain r where r: "sn_tokens s (token_reference token) = Some r"
    "tk_token_hmac r = si_keyed site (ts_hash_key (si_service site)) (token_secret token)"
    "sq_now rq \<le> tk_expires_at r" "tk_server_origin r = server_origin_of rq"
    "vt_subject_user_id v = tk_subject_user_id r" "vt_organization_id v = tk_organization_id r"
    "fst ?verify = sn_tokens s"
    using v by (rule verify_scan_token_Inr)
  moreover from this(7) have "fst (authorize_exchange (si_keyed site) (si_service site) i token
      (server_origin_of rq) (Aware (sq_now rq)) s) = s"
    using assms by (auto simp: authorize_exchange_def op_bind_fst op_bind_snd split: sum.splits)
  moreover have "sap_state a = APPROVED" using a(3) by (auto simp: effective_state_def split: if_splits)
  ultimately show thesis using a x by (intro that [of r a]) (simp_all add: token_passed_def)
qed

lemma asking_routes_fst:
  "fst (poll_scan_approval site rq i s) = s"
  "fst (scan_approval_page site rq i s) = s"
  "counted (sn_tokens s) (sn_tokens (fst (grant_scan_code site rq i token s)))"
  "sn_approvals (fst (grant_scan_code site rq i token s)) = sn_approvals s"
  "counted (sn_tokens s) (sn_tokens (fst (submit_windows_scan_result site rq i token append_snapshot s)))"
  "sn_approvals (fst (submit_windows_scan_result site rq i token append_snapshot s)) = sn_approvals s"
  by (simp_all add: poll_scan_approval_def scan_approval_page_def grant_scan_code_def session_poll_def
      session_pending_view_def submit_windows_scan_result_def op_bind_fst authorize_exchange_fst scan_errors
      split: sum.splits option.splits)

text \<open>The call of the service that a decision makes.\<close>

definition decide_call :: "string \<Rightarrow> principal \<Rightarrow> scan_approval_state \<Rightarrow> bool \<Rightarrow> scan_request \<Rightarrow>
    string option \<Rightarrow> string option \<Rightarrow> scan_approval_view approval_op" where
  "decide_call i p state consent rq grant asset =
     decide_approval i (pr_user_id p) state (state = APPROVED \<and> consent) (Aware (sq_now rq)) grant asset"

lemma decide_route_calls:
  assumes "s' = fst (decide_scan_approval site rq i choice consent provisioned s)"
  shows "s' = s \<and> \<not> is_ok (snd (decide_scan_approval site rq i choice consent provisioned s)) \<or>
     (\<exists>p state grant asset. request_user site rq p \<and> sq_csrf rq = None \<and>
        s' = s\<lparr>sn_approvals := fst (decide_call i p state consent rq grant asset (sn_approvals s))\<rparr> \<and>
        is_ok (snd (decide_scan_approval site rq i choice consent provisioned s)) =
          is_ok (snd (decide_call i p state consent rq grant asset (sn_approvals s))) \<and>
        ((choice, state, grant, asset) = (''DECLINE'', DECLINED, None, None) \<or>
         (\<exists>code. provisioned = Inr code \<and>
            (choice, state, grant, asset) = (''APPROVE'', APPROVED, Some code, single_assigned_asset p))))"
proof (cases "(\<exists>p. request_user site rq p) \<and> sq_csrf rq = None \<and> choice \<in> {''APPROVE'', ''DECLINE''}")
  case False
  have "\<not> is_ok (snd (decide_scan_approval site rq i choice consent provisioned s))"
    using False by (auto simp: decide_scan_approval_def is_ok_op_bind)
  moreover have "s' = s"
  proof (cases "choice \<in> {''APPROVE'', ''DECLINE''} \<and> (\<exists>p. request_user site rq p)")
    case True
    with False obtain status_code detail where "sq_csrf rq = Some (status_code, detail)" by auto
    then have "verify_browser_csrf rq = http_error status_code detail" by (simp add: verify_browser_csrf_def)
    with True assms show ?thesis
      by (elim conjE exE) (simp add: decide_scan_approval_def checked_body_def require_user_at http_error_def)
  next
    case False
    then consider "choice \<notin> {''APPROVE'', ''DECLINE''}" | "\<nexists>p. request_user site rq p" by blast
    then show ?thesis
    proof cases
      case 1
      with assms show ?thesis by (simp add: decide_scan_approval_def checked_body_def http_error_def)
    next
      case 2
      then obtain e where "snd (require_user site rq s) = Inl e" by (cases "snd (require_user site rq s)") auto
      with assms show ?thesis
        by (simp add: decide_scan_approval_def op_bind_fst op_bind_snd split: sum.splits)
    qed
  qed
  ultimately show ?thesis by blast
next
  case True
  then obtain p where p: "request_user site rq p" "sq_csrf rq = None" by blast
  have route: "decide_scan_approval site rq i choice consent provisioned s =
      op_bind (if choice = ''APPROVE''
               then case provisioned of Inl e \<Rightarrow> op_raise e
                    | Inr code \<Rightarrow> catching is_approval_error (session_approve i (pr_user_id p) consent
                        (Aware (sq_now rq)) (Some code) (single_assigned_asset p))
               else catching is_approval_error (session_decline i (pr_user_id p) (Aware (sq_now rq))))
        (\<lambda>view. op_return (page_context view)) s"
    using True p(2) require_user_at [OF p(1)]
    by (auto simp: decide_scan_approval_def checked_body_def verify_browser_csrf_def)
  consider (fails) e where "choice = ''APPROVE''" "provisioned = Inl e"
    | (approve) code where "choice = ''APPROVE''" "provisioned = Inr code" | (decline) "choice = ''DECLINE''"
    using True by (cases provisioned) auto
  then show ?thesis
  proof cases
    case fails
    with assms route show ?thesis by simp
  next
    case (approve code)
    have "s' = s\<lparr>sn_approvals := fst (decide_call i p APPROVED consent rq (Some code) (single_assigned_asset p) (sn_approvals s))\<rparr> \<and>
        is_ok (snd (decide_scan_approval site rq i choice consent provisioned s)) =
          is_ok (snd (decide_call i p APPROVED consent rq (Some code) (single_assigned_asset p) (sn_approvals s)))"
      using assms route approve
      by (simp add: op_bind_fst is_ok_op_bind session_approve_def approve_scan_def decide_call_def split: sum.splits)
        (simp add: is_ok_iff)
    with p approve show ?thesis by blast
  next
    case decline
    have "s' = s\<lparr>sn_approvals := fst (decide_call i p DECLINED consent rq None None (sn_approvals s))\<rparr> \<and>
        is_ok (snd (decide_scan_approval site rq i choice consent provisioned s)) =
          is_ok (snd (decide_call i p DECLINED consent rq None None (sn_approvals s)))"
      using assms route decline
      by (simp add: op_bind_fst is_ok_op_bind session_decline_def decline_scan_def decide_call_def split: sum.splits)
        (simp add: is_ok_iff)
    with p decline show ?thesis by blast
  qed
qed

lemma decide_route_cases:
  assumes "s' = fst (decide_scan_approval site rq i choice consent provisioned s)"
  obtains "s' = s" "\<not> is_ok (snd (decide_scan_approval site rq i choice consent provisioned s))"
  | p a state grant asset where "request_user site rq p" "sq_csrf rq = None" "sn_approvals s i = Some a"
      "sap_subject_user_id a = pr_user_id p" "sap_state a = PENDING" "sq_now rq \<le> sap_expires_at a"
      "s' = s\<lparr>sn_approvals := (sn_approvals s)(sap_request_id a \<mapsto>
         decided a state (state = APPROVED \<and> consent) (sq_now rq) grant asset)\<rparr>"
      "is_ok (snd (decide_scan_approval site rq i choice consent provisioned s))"
      "(choice, state, grant, asset) = (''DECLINE'', DECLINED, None, None) \<or>
       (\<exists>code. provisioned = Inr code \<and>
          (choice, state, grant, asset) = (''APPROVE'', APPROVED, Some code, single_assigned_asset p))"
proof -
  let ?route = "snd (decide_scan_approval site rq i choice consent provisioned s)"
  from decide_route_calls [OF assms] show thesis
  proof
    assume "\<exists>p state grant asset. request_user site rq p \<and> sq_csrf rq = None \<and>
        s' = s\<lparr>sn_approvals := fst (decide_call i p state consent rq grant asset (sn_approvals s))\<rparr> \<and>
        is_ok ?route = is_ok (snd (decide_call i p state consent rq grant asset (sn_approvals s))) \<and>
        ((choice, state, grant, asset) = (''DECLINE'', DECLINED, None, None) \<or>
         (\<exists>code. provisioned = Inr code \<and>
            (choice, state, grant, asset) = (''APPROVE'', APPROVED, Some code, single_assigned_asset p)))"
    then obtain p state grant asset where d: "request_user site rq p" "sq_csrf rq = None"
      "s' = s\<lparr>sn_approvals := fst (decide_call i p state consent rq grant asset (sn_approvals s))\<rparr>"
      "is_ok ?route = is_ok (snd (decide_call i p state consent rq grant asset (sn_approvals s)))"
      and choice: "(choice, state, grant, asset) = (''DECLINE'', DECLINED, None, None) \<or>
         (\<exists>code. provisioned = Inr code \<and>
            (choice, state, grant, asset) = (''APPROVE'', APPROVED, Some code, single_assigned_asset p))"
      by (elim exE conjE) (rule that, assumption+)
    show thesis
    proof (cases "snd (decide_call i p state consent rq grant asset (sn_approvals s))")
      case (Inl e)
      with d decide_approval_Inl [OF Inl [unfolded decide_call_def]] that(1) show thesis by (simp add: decide_call_def)
    next
      case (Inr view)
      then obtain a where "sn_approvals s i = Some a" "sap_subject_user_id a = pr_user_id p"
        "sap_state a = PENDING" "sq_now rq \<le> sap_expires_at a"
        "fst (decide_call i p state consent rq grant asset (sn_approvals s)) = (sn_approvals s)(sap_request_id a \<mapsto>
           decided a state (state = APPROVED \<and> consent) (sq_now rq) grant asset)"
        unfolding decide_call_def by (rule decide_approval_Inr)
      then show thesis using that(2) [OF d(1,2) _ _ _ _ _ _ choice] d(3,4) Inr by simp
    qed
  qed (use that(1) in blast)
qed

lemma decided_fields [simp]:
  "sap_request_id (decided a state consent t grant asset) = sap_request_id a"
  "sap_state (decided a state consent t grant asset) = state"
  "sap_grant_code (decided a state consent t grant asset) = grant"
  "sap_asset_id (decided a state consent t grant asset) = asset"
  by (simp_all add: decided_def)

lemma decided_keeps_registered [simp]:
  "registered_by site log r (decided a state consent t grant asset) = registered_by site log r a"
  by (simp add: registered_by_def decided_def)

lemma decide_keeps_ok:
  assumes "scan_ok site s log" "perform_scan site (DecideCall rq i choice consent provisioned) s = (s', out)"
  shows "scan_ok site s' ((DecideCall rq i choice consent provisioned, out) # log)"
proof -
  let ?e = "(DecideCall rq i choice consent provisioned, out)"
  have s': "s' = fst (decide_scan_approval site rq i choice consent provisioned s)"
    and out: "is_ok out = is_ok (snd (decide_scan_approval site rq i choice consent provisioned s))"
    using assms(2) by (auto dest!: op_map_outcome)
  from s' show ?thesis
  proof (cases rule: decide_route_cases)
    case 1
    then show ?thesis
      using out by (intro quiet_entry [OF assms(1)]) (auto simp: run_of_def decision_of_def is_ok_iff split: sum.splits)
  next
    case (2 p a state grant asset)
    let ?a = "decided a state (state = APPROVED \<and> consent) (sq_now rq) grant asset"
    have old: "approval_ok site log (sn_tokens s) i a" by (rule approval_of_store [OF assms(1) 2(3)])
    obtain x where x: "out = Inr x" using 2 out by (auto simp: is_ok_iff)
    have i: "sap_request_id a = i" using old by (simp add: approval_ok_def)
    obtain k r where "sn_tokens s k = Some r" "registered_by site log r a"
      using old by (auto simp: approval_ok_def)
    then have registered: "\<exists>k r. sn_tokens s k = Some r \<and> registered_by site (?e # log) r a"
      by (meson registered_by_mono set_subset_Cons)
    have "entries (decision_of i) (?e # log) = 1" using old 2(5) x by (simp add: approval_ok_def decision_of_def)
    moreover have "decided_by_owner site (?e # log) ?a choice grant asset"
      unfolding decided_by_owner_def using 2 x i
      by (intro exI [of _ rq] exI [of _ consent] exI [of _ provisioned] exI [of _ x] exI [of _ p])
        (auto simp: decided_def)
    ultimately have new: "approval_ok site (?e # log) (sn_tokens s) i ?a"
      using registered i 2(9) by (auto simp: approval_ok_def)
    have tokens: "tokens_ok site (?e # log) (sn_tokens s)"
      using assms(1) by (intro tokens_ok_entry) (simp_all add: scan_ok_def run_of_def)
    have "approvals_ok site (?e # log) (sn_tokens s) ((sn_approvals s)(i \<mapsto> ?a))"
      unfolding approvals_ok_def
    proof
      fix j
      have "case sn_approvals s j of None \<Rightarrow> entries (decision_of j) log = 0
          | Some a \<Rightarrow> approval_ok site log (sn_tokens s) j a"
        using assms(1) by (simp add: scan_ok_def approvals_ok_def)
      then show "case ((sn_approvals s)(i \<mapsto> ?a)) j of None \<Rightarrow> entries (decision_of j) (?e # log) = 0
          | Some a \<Rightarrow> approval_ok site (?e # log) (sn_tokens s) j a"
        using new x by (auto simp: decision_of_def intro: approval_ok_later split: option.splits)
    qed
    with tokens 2(7) i show ?thesis by (simp add: scan_ok_def)
  qed
qed

theorem scan_history_ok: "scan_reaches site s log \<Longrightarrow> scan_ok site s log"
proof (induction rule: scan_reaches.induct)
  case start
  show ?case by (simp add: scan_ok_def tokens_ok_def approvals_ok_def empty_scan_state_def)
next
  case (request s log c s' out)
  show ?case
  proof (cases c)
    case (IssueCall rq name draws secret sidecar)
    with request show ?thesis by (auto dest!: op_map_outcome intro: issue_keeps_ok)
  next
    case (RegisterCall rq token device i)
    with request register_keeps_ok show ?thesis by blast
  next
    case (DecideCall rq i choice consent provisioned)
    with request decide_keeps_ok show ?thesis by blast
  qed (use request in \<open>auto dest!: op_map_outcome intro!: quiet_entry
      simp: asking_routes_fst run_of_def decision_of_def\<close>)
qed

end
