(* ===== verification/Scan_Handshake.thy ===== *)
theory Scan_Handshake
  imports Scan_Facts
begin

section \<open>The handshake of the collector (\<^verbatim>\<open>collector/scan_handshake.py\<close>)\<close>

text \<open>
  The collector's side of an approval: it registers, opens the browser, asks for the decision at most
  \<open>max_attempts\<close> times and fetches the one-time code.  Its callbacks change a world of any type; an
  exception of theirs passes through.  Below, the world is the scan state with its log, the callbacks
  are requests to the routes, and whatever others request meanwhile happens while it sleeps.
\<close>

subsection \<open>Client\<close>

datatype handshake_code =
    SCAN_HANDSHAKE_DECLINED | SCAN_HANDSHAKE_EXPIRED | SCAN_HANDSHAKE_TIMED_OUT
  | SCAN_HANDSHAKE_RESPONSE_INVALID

datatype handshake_failure = ScanHandshakeError handshake_code

type_synonym ('w, 'a) client_op = "('w, handshake_failure raised, 'a) op"

record scan_sidecar =
  sd_server_origin :: string
  sd_token :: string
  sd_expires_at :: int
  sd_max_runs :: int

record granted_scan =
  gs_request_id :: string
  gs_approve_url :: string
  gs_elevated_consent :: bool
  gs_browser_opened :: bool
  gs_grant_code :: "string option"

definition approval_api_path :: string where
  "approval_api_path = ''/api/v1/scan/approvals''"

text \<open>\<open>bool(value)\<close>\<close>

definition py_truth :: "pyval \<Rightarrow> bool" where
  "py_truth v =
     (case v of
        PNone \<Rightarrow> False | PBool b \<Rightarrow> b | PInt i \<Rightarrow> i \<noteq> 0 | PFloat m e \<Rightarrow> m \<noteq> 0 | PStr s \<Rightarrow> s \<noteq> []
      | PList xs \<Rightarrow> xs \<noteq> [] | PDict d \<Rightarrow> d \<noteq> [])"

definition handshake_error :: "handshake_code \<Rightarrow> ('w, 'a) client_op" where
  "handshake_error code = op_raise (Raised (ScanHandshakeError code))"

definition handshake_text :: "dict \<Rightarrow> string \<Rightarrow> ('w, string) client_op" where
  "handshake_text payload key =
     (case py_get payload key of
        PStr (c # s) \<Rightarrow> op_return (c # s)
      | _ \<Rightarrow> handshake_error SCAN_HANDSHAKE_RESPONSE_INVALID)"

text \<open>The callbacks of one handshake.\<close>

record 'w scan_client =
  cl_register :: "string \<Rightarrow> dict \<Rightarrow> ('w, dict) client_op"
  cl_poll :: "string \<Rightarrow> ('w, dict) client_op"
  cl_grant :: "(string \<Rightarrow> dict \<Rightarrow> ('w, dict) client_op) option"
  cl_open_browser :: "string \<Rightarrow> ('w, pyval) client_op"
  cl_sleep :: "pyval \<Rightarrow> ('w, unit) client_op"

text \<open>What follows a decision that is \<open>APPROVED\<close>.\<close>

definition granted_code ::
  "'w scan_client \<Rightarrow> string \<Rightarrow> string \<Rightarrow> dict \<Rightarrow> ('w, string option \<times> bool) client_op" where
  "granted_code client poll_url token told =
     (case cl_grant client of
        None \<Rightarrow> op_return (None, py_truth (py_get told ''elevated_consent''))
      | Some grant \<Rightarrow>
          op_bind (grant (poll_url @ ''/grant'') [(''token'', PStr token)]) (\<lambda>issued.
          op_bind (handshake_text issued ''grant_code'') (\<lambda>code.
          op_return (Some code, py_truth (py_get issued ''elevated_consent'')))))"

text \<open>\<open>for attempt in range(max_attempts)\<close>, with the attempts that are left.\<close>

fun await_decision ::
  "'w scan_client \<Rightarrow> string \<Rightarrow> string \<Rightarrow> pyval \<Rightarrow> nat \<Rightarrow> ('w, string option \<times> bool) client_op" where
  "await_decision client poll_url token poll_seconds 0 = handshake_error SCAN_HANDSHAKE_TIMED_OUT"
| "await_decision client poll_url token poll_seconds (Suc n) =
     op_bind (cl_poll client poll_url) (\<lambda>told.
     op_bind (handshake_text told ''state'') (\<lambda>state.
     if state = ''APPROVED'' then granted_code client poll_url token told
     else if state = ''DECLINED'' then handshake_error SCAN_HANDSHAKE_DECLINED
     else if state = ''EXPIRED'' then handshake_error SCAN_HANDSHAKE_EXPIRED
     else
       op_bind (if 0 < n then cl_sleep client poll_seconds else op_return ()) (\<lambda>_.
       await_decision client poll_url token poll_seconds n)))"

definition perform_scan_handshake ::
  "'w scan_client \<Rightarrow> scan_sidecar \<Rightarrow> string \<Rightarrow> pyval \<Rightarrow> int \<Rightarrow> ('w, granted_scan) client_op" where
  "perform_scan_handshake client sidecar device_name poll_seconds max_attempts =
     (if max_attempts \<le> 0 then op_raise (PyError ValueError)
      else
        op_bind (cl_register client (sd_server_origin sidecar @ approval_api_path)
          [(''token'', PStr (sd_token sidecar)), (''device_name'', PStr device_name)]) (\<lambda>registered.
        op_bind (handshake_text registered ''request_id'') (\<lambda>request_id.
        op_bind (handshake_text registered ''approve_url'') (\<lambda>approve_url.
        op_bind (cl_open_browser client approve_url) (\<lambda>opened.
        op_bind (await_decision client (sd_server_origin sidecar @ approval_api_path @ ''/'' @ request_id)
          (sd_token sidecar) poll_seconds (nat max_attempts)) (\<lambda>(grant_code, elevated).
        op_return
          \<lparr>gs_request_id = request_id, gs_approve_url = approve_url, gs_elevated_consent = elevated,
           gs_browser_opened = py_truth opened, gs_grant_code = grant_code\<rparr>))))))"

subsection \<open>What the client relies on\<close>

lemma op_bind_run:
  "op_bind m f w = (w', Inr y) \<longleftrightarrow> (\<exists>x w1. m w = (w1, Inr x) \<and> f x w1 = (w', Inr y))"
  by (auto simp: op_bind_def split: prod.splits sum.splits)

lemma handshake_text_run:
  "handshake_text payload key w = (w', Inr s) \<longleftrightarrow> w' = w \<and> py_get payload key = PStr s \<and> s \<noteq> []"
  by (auto simp: handshake_text_def handshake_error_def split: pyval.splits list.splits)

text \<open>
  A world whose reachable states every callback keeps, and a grant callback that answers only what is
  vouched for in the world it leaves.
\<close>

definition answered ::
  "('w \<Rightarrow> string \<Rightarrow> dict \<Rightarrow> dict \<Rightarrow> bool) \<Rightarrow> 'w \<Rightarrow> string \<Rightarrow> string \<Rightarrow> string option \<times> bool \<Rightarrow> bool" where
  "answered vouched w poll_url token result \<longleftrightarrow>
     (\<exists>issued code. vouched w (poll_url @ ''/grant'') [(''token'', PStr token)] issued \<and>
        py_get issued ''grant_code'' = PStr code \<and>
        result = (Some code, py_truth (py_get issued ''elevated_consent'')))"

locale grant_server =
  fixes reach :: "'w \<Rightarrow> bool"
    and vouched :: "'w \<Rightarrow> string \<Rightarrow> dict \<Rightarrow> dict \<Rightarrow> bool"
    and client :: "'w scan_client"
    and grant :: "string \<Rightarrow> dict \<Rightarrow> ('w, dict) client_op"
  assumes has_grant: "cl_grant client = Some grant"
    and register_keeps: "reach w \<Longrightarrow> cl_register client url payload w = (w', out) \<Longrightarrow> reach w'"
    and poll_keeps: "reach w \<Longrightarrow> cl_poll client url w = (w', out) \<Longrightarrow> reach w'"
    and browser_keeps: "reach w \<Longrightarrow> cl_open_browser client url w = (w', opened) \<Longrightarrow> reach w'"
    and sleep_keeps: "reach w \<Longrightarrow> cl_sleep client seconds w = (w', woken) \<Longrightarrow> reach w'"
    and grant_keeps: "reach w \<Longrightarrow> grant url payload w = (w', out) \<Longrightarrow> reach w'"
    and grant_vouched: "reach w \<Longrightarrow> grant url payload w = (w', Inr issued) \<Longrightarrow>
      vouched w' url payload issued"
begin

lemma granted_code_answered:
  assumes "reach w" "granted_code client poll_url token told w = (w', Inr result)"
  shows "reach w' \<and> answered vouched w' poll_url token result"
proof -
  obtain issued code where
    "grant (poll_url @ ''/grant'') [(''token'', PStr token)] w = (w', Inr issued)"
    "py_get issued ''grant_code'' = PStr code"
    "result = (Some code, py_truth (py_get issued ''elevated_consent''))"
    using assms(2) by (auto simp: granted_code_def has_grant op_bind_run handshake_text_run)
  with assms(1) show ?thesis by (auto simp: answered_def dest: grant_keeps grant_vouched)
qed

lemma await_decision_answered:
  "reach w \<Longrightarrow> await_decision client poll_url token seconds n w = (w', Inr result) \<Longrightarrow>
   reach w' \<and> answered vouched w' poll_url token result"
proof (induction n arbitrary: w)
  case 0
  then show ?case by (simp add: handshake_error_def)
next
  case (Suc n)
  obtain told state w1 where w1: "cl_poll client poll_url w = (w1, Inr told)"
    and rest: "(if state = ''APPROVED'' then granted_code client poll_url token told
       else if state = ''DECLINED'' then handshake_error SCAN_HANDSHAKE_DECLINED
       else if state = ''EXPIRED'' then handshake_error SCAN_HANDSHAKE_EXPIRED
       else op_bind (if 0 < n then cl_sleep client seconds else op_return ())
              (\<lambda>_. await_decision client poll_url token seconds n)) w1 = (w', Inr result)"
    using Suc.prems(2) by (simp only: await_decision.simps op_bind_run handshake_text_run) blast
  have "reach w1" using Suc.prems(1) w1 by (rule poll_keeps)
  show ?case
  proof (cases "state \<in> {''APPROVED'', ''DECLINED'', ''EXPIRED''}")
    case True
    with rest granted_code_answered [OF \<open>reach w1\<close>] show ?thesis
      by (auto simp: handshake_error_def split: if_splits)
  next
    case False
    with rest obtain w2 where "(if 0 < n then cl_sleep client seconds else op_return ()) w1 = (w2, Inr ())"
      "await_decision client poll_url token seconds n w2 = (w', Inr result)"
      by (auto simp: op_bind_run)
    moreover from this(1) have "reach w2"
      using \<open>reach w1\<close> by (auto split: if_splits intro: sleep_keeps)
    ultimately show ?thesis using Suc.IH by blast
  qed
qed

theorem handshake_answered:
  assumes "reach w" "perform_scan_handshake client sidecar device seconds attempts w = (w', Inr g)"
  shows "reach w' \<and> answered vouched w'
    (sd_server_origin sidecar @ approval_api_path @ ''/'' @ gs_request_id g)
    (sd_token sidecar) (gs_grant_code g, gs_elevated_consent g)"
proof -
  let ?url = "sd_server_origin sidecar @ approval_api_path"
  have "\<not> attempts \<le> 0" using assms(2) by (auto simp: perform_scan_handshake_def)
  with assms(2) obtain registered approve_url opened w1 w2 where
    w1: "cl_register client ?url [(''token'', PStr (sd_token sidecar)), (''device_name'', PStr device)] w =
       (w1, Inr registered)" and
    w2: "cl_open_browser client approve_url w1 = (w2, Inr opened)" and
    w': "await_decision client (?url @ ''/'' @ gs_request_id g) (sd_token sidecar) seconds (nat attempts) w2 =
      (w', Inr (gs_grant_code g, gs_elevated_consent g))"
    by (auto simp: perform_scan_handshake_def op_bind_run handshake_text_run)
  have "reach w2" using register_keeps [OF assms(1) w1] w2 by (rule browser_keeps)
  from await_decision_answered [OF this w'] show ?thesis by simp
qed

end

subsection \<open>The routes as the server\<close>

text \<open>
  The world of a handshake: the state of the server, its log and its clock.  A request of the collector
  carries no browser session; its URL is the origin of the sidecar and the path of a route.
\<close>

record scan_world =
  wd_state :: scan_state
  wd_log :: "log_entry list"
  wd_now :: int

definition world_call :: "scan_site \<Rightarrow> scan_call \<Rightarrow> scan_world \<Rightarrow> scan_world \<times> (route_failure raised + scan_reply)" where
  "world_call site c w =
     (case perform_scan site c (wd_state w) of (s, out) \<Rightarrow>
        (w\<lparr>wd_state := s, wd_log := (c, out) # wd_log w\<rparr>, out))"

definition collector_request :: "string \<Rightarrow> int \<Rightarrow> scan_request" where
  "collector_request origin now =
     \<lparr>sq_base_url = origin, sq_context = None, sq_csrf = None, sq_now = now\<rparr>"

text \<open>\<open>raise_for_status\<close> turns every refusal into an exception of the HTTP library.\<close>

definition answer :: "route_failure raised + scan_reply \<Rightarrow> handshake_failure raised + dict" where
  "answer out = (case out of Inr (Payload d) \<Rightarrow> Inr d | _ \<Rightarrow> Inl (PyError LibraryError))"

text \<open>\<open>prefix/{request_id}suffix\<close>: the id, a path segment, if the URL has this form.\<close>

definition id_of_url :: "string \<Rightarrow> string \<Rightarrow> string \<Rightarrow> string option" where
  "id_of_url origin suffix url =
     (let prefix = origin @ approval_api_path @ ''/'';
          i = take (length url - length prefix - length suffix) (drop (length prefix) url)
      in if url = prefix @ i @ suffix \<and> i \<noteq> [] \<and> CHR ''/'' \<notin> set i then Some i else None)"

definition refused :: "(scan_world, dict) client_op" where
  "refused = op_raise (PyError LibraryError)"

definition payload_text :: "dict \<Rightarrow> string \<Rightarrow> string" where
  "payload_text payload key = (case py_get payload key of PStr s \<Rightarrow> s | _ \<Rightarrow> [])"

definition post_register :: "scan_site \<Rightarrow> string \<Rightarrow> (scan_world \<Rightarrow> string) \<Rightarrow> string \<Rightarrow> dict \<Rightarrow> (scan_world, dict) client_op" where
  "post_register site origin fresh url payload w =
     (if url \<noteq> origin @ approval_api_path then refused w
      else
        (case world_call site (RegisterCall (collector_request origin (wd_now w)) (payload_text payload ''token'')
                (payload_text payload ''device_name'') (fresh w)) w of
           (w', out) \<Rightarrow> (w', answer out)))"

definition get_decision :: "scan_site \<Rightarrow> string \<Rightarrow> string \<Rightarrow> (scan_world, dict) client_op" where
  "get_decision site origin url w =
     (case id_of_url origin [] url of
        None \<Rightarrow> refused w
      | Some i \<Rightarrow>
          (case world_call site (PollCall (collector_request origin (wd_now w)) i) w of
             (w', out) \<Rightarrow> (w', answer out)))"

definition post_grant :: "scan_site \<Rightarrow> string \<Rightarrow> string \<Rightarrow> dict \<Rightarrow> (scan_world, dict) client_op" where
  "post_grant site origin url payload w =
     (case id_of_url origin ''/grant'' url of
        None \<Rightarrow> refused w
      | Some i \<Rightarrow>
          (case world_call site (GrantCall (collector_request origin (wd_now w)) i (payload_text payload ''token'')) w of
             (w', out) \<Rightarrow> (w', answer out)))"

text \<open>
  While the collector opens the browser or sleeps, others make requests of any kind: \<open>others\<close> says
  which, and how the clock moves.
\<close>

definition meanwhile :: "scan_site \<Rightarrow> (scan_world \<Rightarrow> scan_call list \<times> int) \<Rightarrow> scan_world \<Rightarrow> scan_world" where
  "meanwhile site others w =
     (case others w of (calls, now) \<Rightarrow>
        (fold (\<lambda>c w. fst (world_call site c w)) calls w)\<lparr>wd_now := now\<rparr>)"

definition collector_client ::
  "scan_site \<Rightarrow> string \<Rightarrow> (scan_world \<Rightarrow> string) \<Rightarrow> (scan_world \<Rightarrow> scan_call list \<times> int) \<Rightarrow> bool \<Rightarrow>
     scan_world scan_client" where
  "collector_client site origin fresh others opens =
     \<lparr>cl_register = post_register site origin fresh, cl_poll = get_decision site origin,
      cl_grant = Some (post_grant site origin),
      cl_open_browser = (\<lambda>_ w. (meanwhile site others w, Inr (PBool opens))),
      cl_sleep = (\<lambda>_ w. (meanwhile site others w, Inr ()))\<rparr>"

definition world_reached :: "scan_site \<Rightarrow> scan_world \<Rightarrow> bool" where
  "world_reached site w \<longleftrightarrow> scan_reaches site (wd_state w) (wd_log w)"

text \<open>What a grant proves: the owner of the token approved, with this code and this consent.\<close>

definition grant_vouched_for :: "scan_site \<Rightarrow> scan_state \<Rightarrow> log_entry list \<Rightarrow> string \<Rightarrow> string \<Rightarrow> string \<Rightarrow> bool \<Rightarrow> bool" where
  "grant_vouched_for site s log i token code consent \<longleftrightarrow>
     (\<exists>r a r'. sn_tokens s (token_reference token) = Some r \<and> token_issued site log r \<and>
        tk_token_hmac r = si_keyed site (ts_hash_key (si_service site)) (token_secret token) \<and>
        sn_approvals s i = Some a \<and> sap_state a = APPROVED \<and> sap_elevated_consent a = consent \<and>
        sap_subject_user_id a = tk_subject_user_id r \<and> registered_by site log r' a \<and>
        decided_by_owner site log a ''APPROVE'' (Some code) (sap_asset_id a))"

lemma grant_route_Inr:
  assumes "scan_reaches site s log" "snd (grant_scan_code site rq i token s) = Inr reply"
  obtains code consent r where "grant_vouched_for site s log i token code consent"
    "sn_tokens s (token_reference token) = Some r" "token_passed site rq token r"
    "reply = [(''request_id'', PStr i), (''grant_code'', PStr code), (''elevated_consent'', PBool consent)]"
    "fst (grant_scan_code site rq i token s) = s"
proof -
  let ?exchange = "authorize_exchange (si_keyed site) (si_service site) i token (server_origin_of rq) (Aware (sq_now rq)) s"
  obtain x code where x: "snd ?exchange = Inr x" "as_grant_code x = Some code"
    and reply: "reply = [(''request_id'', PStr (as_request_id x)), (''grant_code'', PStr code),
      (''elevated_consent'', PBool (as_elevated_consent x))]"
    using assms(2) by (auto simp: grant_scan_code_def op_bind_snd scan_errors split: sum.splits option.splits)
  from x(1) obtain r a where ra: "sn_tokens s (token_reference token) = Some r" "token_passed site rq token r"
    "sn_approvals s i = Some a" "sap_subject_user_id a = tk_subject_user_id r" "sap_state a = APPROVED"
    "as_request_id x = sap_request_id a" "as_elevated_consent x = sap_elevated_consent a"
    "as_grant_code x = sap_grant_code a" "fst ?exchange = s"
    by (rule authorize_exchange_Inr)
  have "fst (grant_scan_code site rq i token s) = s"
    using assms(2) ra(9) by (auto simp: grant_scan_code_def op_bind_fst op_bind_snd scan_errors
        split: sum.splits option.splits)
  have ok: "scan_ok site s log" using assms(1) by (rule scan_history_ok)
  have "approval_ok site log (sn_tokens s) i a" using ok ra(3) by (rule approval_of_store)
  then obtain r' where a: "sap_request_id a = i" "registered_by site log r' a"
    "decided_by_owner site log a ''APPROVE'' (Some code) (sap_asset_id a)"
    using ra(5,8) x(2) by (auto simp: approval_ok_def)
  have "token_issued site log r" using token_of_store [OF ok ra(1)] by (simp add: token_ok_def)
  then have "grant_vouched_for site s log i token code (sap_elevated_consent a)"
    using ra a by (auto simp: grant_vouched_for_def token_passed_def)
  with ra a reply \<open>fst (grant_scan_code site rq i token s) = s\<close> show thesis by (intro that) simp_all
qed

end
