(* ===== verification/Scan_Properties.thy ===== *)
theory Scan_Properties
  imports Scan_Handshake
begin

section \<open>Properties of scan sessions\<close>

text \<open>
  The routes as the server that a handshake relies on, a sample history, and the properties: what a
  one-time code needs, how many runs and decisions there are, who can learn a code, and what a
  handshake that succeeds has behind it.
\<close>

subsection \<open>The routes keep what the handshake relies on\<close>

lemma world_call_reached:
  "world_reached site w \<Longrightarrow> world_call site c w = (w', out) \<Longrightarrow> world_reached site w'"
  by (auto simp: world_reached_def world_call_def split: prod.splits intro: scan_reaches.request)

lemma meanwhile_reached: "world_reached site w \<Longrightarrow> world_reached site (meanwhile site others w)"
proof -
  have calls: "world_reached site w \<Longrightarrow> world_reached site (fold (\<lambda>c w. fst (world_call site c w)) calls w)" for calls w
  proof (induction calls arbitrary: w)
    case (Cons c calls)
    have "world_reached site (fst (world_call site c w))"
      using Cons.prems by (rule world_call_reached) (rule prod.collapse [symmetric])
    with Cons.IH show ?case by simp
  qed simp
  assume "world_reached site w"
  with calls show ?thesis
    by (auto simp: meanwhile_def world_reached_def split: prod.splits)
qed

lemma grant_vouched_mono:
  "grant_vouched_for site s log i token code consent \<Longrightarrow> grant_vouched_for site s (e # log) i token code consent"
  unfolding grant_vouched_for_def
  by (meson set_subset_Cons token_issued_mono registered_by_mono decided_by_mono)

lemma answer_Inr: "answer out = Inr d \<longleftrightarrow> out = Inr (Payload d)"
  by (auto simp: answer_def split: sum.splits scan_reply.splits)

definition grant_answer :: "scan_site \<Rightarrow> string \<Rightarrow> scan_world \<Rightarrow> string \<Rightarrow> dict \<Rightarrow> dict \<Rightarrow> bool" where
  "grant_answer site origin w url payload issued \<longleftrightarrow>
     (\<exists>i code consent. id_of_url origin ''/grant'' url = Some i \<and>
        grant_vouched_for site (wd_state w) (wd_log w) i (payload_text payload ''token'') code consent \<and>
        issued = [(''request_id'', PStr i), (''grant_code'', PStr code), (''elevated_consent'', PBool consent)])"

lemma post_grant_answered:
  assumes "world_reached site w" "post_grant site origin url payload w = (w', Inr issued)"
  shows "grant_answer site origin w' url payload issued"
proof -
  obtain i out where i: "id_of_url origin ''/grant'' url = Some i" and
    call: "world_call site (GrantCall (collector_request origin (wd_now w)) i (payload_text payload ''token'')) w =
      (w', Inr (Payload issued))"
    using assms(2) by (auto simp: post_grant_def refused_def answer_Inr split: option.splits prod.splits)
  let ?rq = "collector_request origin (wd_now w)" and ?token = "payload_text payload ''token''"
  have route: "snd (grant_scan_code site ?rq i ?token (wd_state w)) = Inr issued"
    "wd_state w' = fst (grant_scan_code site ?rq i ?token (wd_state w))"
    "wd_log w' = (GrantCall ?rq i ?token, Inr (Payload issued)) # wd_log w"
    using call by (auto simp: world_call_def op_map_def op_bind_def op_return_def split: prod.splits sum.splits)
  from assms(1) [unfolded world_reached_def] route(1) show ?thesis
    by (rule grant_route_Inr)
      (use i route(2,3) in \<open>auto simp: grant_answer_def intro: grant_vouched_mono\<close>)
qed

interpretation scan_grants: grant_server "world_reached site" "grant_answer site origin"
    "collector_client site origin fresh others opens" "post_grant site origin"
  for site origin fresh others opens
proof (unfold_locales, goal_cases)
  case 1
  show ?case by (simp add: collector_client_def)
next
  case (2 w url payload w' out)
  then show ?case
    by (auto simp: collector_client_def post_register_def refused_def op_raise_def
        split: if_splits prod.splits intro: world_call_reached)
next
  case (3 w url w' out)
  then show ?case
    by (auto simp: collector_client_def get_decision_def refused_def op_raise_def
        split: option.splits prod.splits intro: world_call_reached)
next
  case (6 w url payload w' out)
  then show ?case
    by (auto simp: post_grant_def refused_def op_raise_def
        split: option.splits prod.splits intro: world_call_reached)
next
  case (7 w url payload w' issued)
  then show ?case by (rule post_grant_answered)
qed (auto simp: collector_client_def intro: meanwhile_reached)

subsection \<open>A sample history\<close>

definition scan_demo_site :: scan_site where
  "scan_demo_site =
     \<lparr>si_demo_enabled = True, si_auth_enabled = True, si_keyed = (\<lambda>key message. rev message),
      si_service = \<lparr>ts_hash_key = replicate 32 (CHR ''k''), ts_hash_key_version = ''v1''\<rparr>\<rparr>"

definition scan_demo_owner :: principal where
  "scan_demo_owner =
     \<lparr>pr_user_id = ''u1'', pr_username = ''kim'', pr_display_name = ''Kim'', pr_organization_id = ''o1'',
      pr_roles = {USER}, pr_asset_ids = {''asset-1''}, pr_auth_methods = {}, pr_session_created_at = 0,
      pr_reauthenticated_at = 0\<rparr>"

definition scan_demo_browser :: "int \<Rightarrow> scan_request" where
  "scan_demo_browser now =
     \<lparr>sq_base_url = ''https://secai/'', sq_context = Some \<lparr>sc_token = ''t'', sc_csrf_token = ''c'',
        sc_phase = AUTHENTICATED, sc_expires_at = 0, sc_principal = Some scan_demo_owner\<rparr>,
      sq_csrf = None, sq_now = now\<rparr>"

definition scan_demo_issue :: scan_call where
  "scan_demo_issue = IssueCall (scan_demo_browser 63902995200000000) ''collector.exe''
     [''0123456789ab''] ''secret'' (\<lambda>issued. Inr (it_token issued))"

definition scan_demo_approve :: scan_call where
  "scan_demo_approve = DecideCall (scan_demo_browser 63902995260000000) ''r1'' ''APPROVE'' True (Inr ''code-1'')"

definition scan_demo_start :: scan_world where
  "scan_demo_start =
     fst (world_call scan_demo_site scan_demo_issue
       \<lparr>wd_state = empty_scan_state, wd_log = [], wd_now = 63902995200000000\<rparr>)"

text \<open>While the collector waits, the owner approves, once.\<close>

definition scan_demo_others :: "scan_world \<Rightarrow> scan_call list \<times> int" where
  "scan_demo_others w =
     (if length (wd_log w) = 3 then [scan_demo_approve] else [], wd_now w + 2000000)"

definition scan_demo_sidecar :: scan_sidecar where
  "scan_demo_sidecar =
     \<lparr>sd_server_origin = ''https://secai'', sd_token = ''0123456789ab.secret'', sd_expires_at = 0, sd_max_runs = 3\<rparr>"

definition scan_demo_client :: "scan_world scan_client" where
  "scan_demo_client = collector_client scan_demo_site ''https://secai'' (\<lambda>_. ''r1'') scan_demo_others True"

definition scan_demo_result :: "scan_world \<times> (handshake_failure raised + granted_scan)" where
  "scan_demo_result =
     perform_scan_handshake scan_demo_client scan_demo_sidecar ''PC-1'' (PFloat 1 1) 5 scan_demo_start"

lemma scan_demo_reached: "world_reached scan_demo_site scan_demo_start"
  unfolding scan_demo_start_def
  by (rule world_call_reached [OF _ prod.collapse [symmetric]])
    (simp add: world_reached_def scan_reaches.start)

lemma scan_demo_granted:
  "case snd scan_demo_result of Inl _ \<Rightarrow> False
   | Inr g \<Rightarrow> gs_request_id g = ''r1'' \<and> gs_grant_code g = Some ''code-1'' \<and> gs_elevated_consent g"
  by code_simp

definition scan_demo_register :: scan_call where
  "scan_demo_register =
     RegisterCall (collector_request ''https://secai'' 63902995230000000) ''0123456789ab.secret'' ''PC-1'' ''r1''"

definition scan_demo_approved :: scan_world where
  "scan_demo_approved =
     fst (world_call scan_demo_site scan_demo_approve
       (fst (world_call scan_demo_site scan_demo_register scan_demo_start)))"

lemma scan_demo_approved_reached: "scan_reaches scan_demo_site (wd_state scan_demo_approved) (wd_log scan_demo_approved)"
  unfolding scan_demo_approved_def world_reached_def [symmetric]
  by (rule world_call_reached [OF world_call_reached [OF scan_demo_reached prod.collapse [symmetric]]
        prod.collapse [symmetric]])

subsection \<open>Who may fetch a code, and how often\<close>

text \<open>
  C25: A one-time code is given out only against the approval of the owner of the token.  When the grant
  route answers in any reachable state, the token is that of an issued record, within its 24 hours and
  for this server, and the log holds: the request of a user with an authenticated session that made the
  token's record, the registration of this request with a token of the same user, and a decision
  APPROVE of that user, within ten minutes of the registration and with a valid CSRF check, which
  brought exactly this code and this consent.
\<close>

theorem scan_grant_needs_owner_approval:
  assumes "scan_reaches site s log" "grant_scan_code site rq i token s = (s', Inr reply)"
  shows "\<exists>code consent r.
     reply = [(''request_id'', PStr i), (''grant_code'', PStr code), (''elevated_consent'', PBool consent)] \<and>
     sn_tokens s (token_reference token) = Some r \<and> token_passed site rq token r \<and>
     grant_vouched_for site s log i token code consent"
proof -
  have "snd (grant_scan_code site rq i token s) = Inr reply" using assms(2) by simp
  with assms(1) show ?thesis by (rule grant_route_Inr) blast
qed

theorem scan_grant_needs_owner_approval_witness:
  "\<exists>s' reply code consent.
     grant_scan_code scan_demo_site (collector_request ''https://secai'' 63902995270000000) ''r1''
       ''0123456789ab.secret'' (wd_state scan_demo_approved) = (s', Inr reply) \<and>
     py_get reply ''grant_code'' = PStr code \<and>
     grant_vouched_for scan_demo_site (wd_state scan_demo_approved) (wd_log scan_demo_approved) ''r1''
       ''0123456789ab.secret'' code consent"
proof -
  let ?grant = "grant_scan_code scan_demo_site (collector_request ''https://secai'' 63902995270000000) ''r1''
       ''0123456789ab.secret'' (wd_state scan_demo_approved)"
  have "is_ok (snd ?grant)" by code_simp
  then obtain reply where "?grant = (fst ?grant, Inr reply)" by (metis is_ok_iff prod.collapse)
  from this scan_grant_needs_owner_approval [OF scan_demo_approved_reached this] show ?thesis
    by (elim exE conjE) (intro exI conjI, assumption, simp, assumption)
qed

text \<open>
  C26: In every history a token starts at most three runs, and a request is decided at most once.
\<close>

theorem scan_runs_bounded:
  assumes "scan_reaches site s log"
  shows "entries (run_of k) log \<le> 3 \<and> entries (decision_of i) log \<le> 1"
proof -
  have "case sn_tokens s k of None \<Rightarrow> entries (run_of k) log = 0 | Some r \<Rightarrow> token_ok site log k r"
    "case sn_approvals s i of None \<Rightarrow> entries (decision_of i) log = 0
     | Some a \<Rightarrow> approval_ok site log (sn_tokens s) i a"
    using scan_history_ok [OF assms] by (simp_all add: scan_ok_def tokens_ok_def approvals_ok_def)
  then show ?thesis
    by (auto simp: token_ok_def approval_ok_def max_scan_token_runs_def
        split: option.splits scan_approval_state.splits)
qed

theorem scan_runs_bounded_witness:
  "entries (run_of ''0123456789ab'') (wd_log scan_demo_approved) \<le> 3 \<and>
   entries (decision_of ''r1'') (wd_log scan_demo_approved) \<le> 1"
  using scan_runs_bounded [OF scan_demo_approved_reached] by blast

text \<open>
  C31: A handshake that succeeds has the approval of the owner behind it.  Whatever others request while
  the collector waits, and whenever, the code and the consent that the handshake returns are those of
  a decision APPROVE that the owner of the sidecar's token made on the request of this handshake.
\<close>

theorem handshake_needs_owner_approval:
  assumes "world_reached site w"
    and "perform_scan_handshake (collector_client site (sd_server_origin sidecar) fresh others opens) sidecar
      device seconds attempts w = (w', Inr g)"
  shows "world_reached site w' \<and>
     (\<exists>code. gs_grant_code g = Some code \<and>
        grant_vouched_for site (wd_state w') (wd_log w') (gs_request_id g) (sd_token sidecar) code
          (gs_elevated_consent g))"
  using scan_grants.handshake_answered [OF assms]
  by (auto simp: answered_def grant_answer_def id_of_url_def payload_text_def py_truth_def Let_def
      split: if_splits)

theorem handshake_needs_owner_approval_witness:
  "\<exists>g. snd scan_demo_result = Inr g \<and> gs_grant_code g = Some ''code-1'' \<and> gs_elevated_consent g \<and>
     grant_vouched_for scan_demo_site (wd_state (fst scan_demo_result)) (wd_log (fst scan_demo_result)) ''r1''
       ''0123456789ab.secret'' ''code-1'' True"
proof -
  obtain g where snd: "snd scan_demo_result = Inr g" and
    granted: "gs_request_id g = ''r1''" "gs_grant_code g = Some ''code-1''" "gs_elevated_consent g"
    using scan_demo_granted by (auto split: sum.splits)
  then have g: "scan_demo_result = (fst scan_demo_result, Inr g)" by (metis prod.collapse)
  have sidecar: "sd_server_origin scan_demo_sidecar = ''https://secai''" "sd_token scan_demo_sidecar = ''0123456789ab.secret''"
    by (simp_all add: scan_demo_sidecar_def)
  have "perform_scan_handshake (collector_client scan_demo_site (sd_server_origin scan_demo_sidecar)
      (\<lambda>_. ''r1'') scan_demo_others True) scan_demo_sidecar ''PC-1'' (PFloat 1 1) 5 scan_demo_start =
      (fst scan_demo_result, Inr g)"
    using g unfolding sidecar by (simp add: scan_demo_result_def scan_demo_client_def)
  from handshake_needs_owner_approval [OF scan_demo_reached this] granted snd sidecar show ?thesis
    by (intro exI [of _ g]) auto
qed

subsection \<open>Who may learn a code\<close>

text \<open>
  Two states that differ in the one-time codes of their approvals only; an operation is blind if it
  ends in such states again and has the same outcome in both.
\<close>

definition same_approval :: "scan_approval_record \<Rightarrow> scan_approval_record \<Rightarrow> bool" where
  "same_approval a b \<longleftrightarrow> a\<lparr>sap_grant_code := None\<rparr> = b\<lparr>sap_grant_code := None\<rparr>"

definition same_approvals :: "approval_store \<Rightarrow> approval_store \<Rightarrow> bool" where
  "same_approvals store store' \<longleftrightarrow> (\<forall>i. rel_option same_approval (store i) (store' i))"

definition same_but_codes :: "scan_state \<Rightarrow> scan_state \<Rightarrow> bool" where
  "same_but_codes s t \<longleftrightarrow> sn_tokens s = sn_tokens t \<and> same_approvals (sn_approvals s) (sn_approvals t)"

definition blind :: "('s \<Rightarrow> 's \<Rightarrow> bool) \<Rightarrow> ('s, 'e, 'a) op \<Rightarrow> bool" where
  "blind R m \<longleftrightarrow> (\<forall>s t. R s t \<longrightarrow> R (fst (m s)) (fst (m t)) \<and> snd (m s) = snd (m t))"

lemma same_approval_refl [simp]: "same_approval a a"
  by (simp add: same_approval_def)

lemma same_approvals_at:
  assumes "same_approvals store store'"
  obtains "store i = None" "store' i = None" | a b where "store i = Some a" "store' i = Some b" "same_approval a b"
proof -
  have "rel_option same_approval (store i) (store' i)" using assms by (simp add: same_approvals_def)
  then show thesis using that by (cases rule: option.rel_cases) auto
qed

lemma same_approvals_update:
  "same_approvals store store' \<Longrightarrow> same_approval a b \<Longrightarrow> same_approvals (store(i \<mapsto> a)) (store'(i \<mapsto> b))"
  by (simp add: same_approvals_def)

lemma blindD: "blind R m \<Longrightarrow> R s t \<Longrightarrow> R (fst (m s)) (fst (m t)) \<and> snd (m s) = snd (m t)"
  by (simp add: blind_def)

lemma blind_simple [simp]:
  "blind R (op_return x)" "blind S (op_raise e)" "blind T (http_error n d)" "blind U (approval_error c)"
  "blind V scan_value_error"
  by (simp_all add: blind_def scan_errors)

lemma blind_bind: "blind R m \<Longrightarrow> (\<And>x. blind R (f x)) \<Longrightarrow> blind R (op_bind m f)"
  unfolding blind_def by (auto simp: op_bind_fst op_bind_snd split: sum.splits)

lemma blind_map: "blind R m \<Longrightarrow> blind R (op_map f m)"
  unfolding op_map_def by (rule blind_bind) simp_all

lemma blind_aware [simp]: "blind R (scan_aware m)"
  by (simp add: scan_aware_def split: moment.splits)

lemma blind_guards [simp]:
  "blind R (checked_body b)" "blind R (feature_enabled site)" "blind R (verify_browser_csrf rq)"
  "blind R (require_user site rq)"
proof -
  show *: "blind R (checked_body b)" "blind R (feature_enabled site)" "blind R (verify_browser_csrf rq)" for R
    by (auto simp: checked_body_def feature_enabled_def verify_browser_csrf_def split: option.splits)
  show "blind R (require_user site rq)"
    unfolding require_user_def
    by (rule blind_bind) (auto simp: * scan_principal_def split: sum.splits)
qed

lemma blind_tokens [simp]: "blind same_but_codes (with_tokens m)"
  by (simp add: blind_def same_but_codes_def)

lemma blind_approvals: "blind same_approvals m \<Longrightarrow> blind same_but_codes (with_approvals m)"
  by (simp add: blind_def same_but_codes_def)

lemma blind_catching: "blind R m \<Longrightarrow> blind R (catching caught m)"
  unfolding blind_def by (simp add: catching_def split_beta split: sum.splits raised.splits) 

lemma blind_require:
  assumes "\<And>a b. same_approval a b \<Longrightarrow> f a = f b" "\<And>a. blind same_approvals (f a)"
  shows "blind same_approvals (op_bind (require_approval i) f)"
  unfolding blind_def
proof (intro allI impI)
  fix store store' assume same: "same_approvals store store'"
  then show "same_approvals (fst (op_bind (require_approval i) f store)) (fst (op_bind (require_approval i) f store')) \<and>
      snd (op_bind (require_approval i) f store) = snd (op_bind (require_approval i) f store')"
  proof (cases rule: same_approvals_at [of store store' i])
    case 1
    with same show ?thesis by (simp add: require_approval_def scan_errors op_bind_fst op_bind_snd)
  next
    case (2 a b)
    with assms(1) [of a b] blindD [where R = same_approvals and m = "f b", OF assms(2) same] show ?thesis
      by (simp add: require_approval_def op_bind_fst op_bind_snd)
  qed
qed

lemma blind_request: "blind same_approvals (request_approval org user device m ttl i)"
proof (cases m)
  case (Aware t)
  show ?thesis unfolding blind_def
  proof (intro allI impI)
    fix store store' assume same: "same_approvals store store'"
    then show "same_approvals (fst (request_approval org user device m ttl i store))
          (fst (request_approval org user device m ttl i store')) \<and>
        snd (request_approval org user device m ttl i store) = snd (request_approval org user device m ttl i store')"
    proof (cases rule: same_approvals_at [of store store' i])
      case 1
      with same Aware show ?thesis
        by (auto simp: request_approval_def approval_insert_def Let_def op_bind_fst op_bind_snd scan_errors
            intro: same_approvals_update)
    next
      case (2 a b)
      with same Aware show ?thesis
        by (auto simp: request_approval_def approval_insert_def Let_def op_bind_fst op_bind_snd scan_errors)
    qed
  qed
qed (simp add: request_approval_def scan_value_error_def)

lemma same_approvalE:
  assumes "same_approval a b" obtains g where "b = a\<lparr>sap_grant_code := g\<rparr>"
proof
  show "b = a\<lparr>sap_grant_code := sap_grant_code b\<rparr>" using assms by (cases a; cases b) (simp add: same_approval_def)
qed

lemma blind_page_view: "blind same_approvals (pending_view i viewer m False)"
  unfolding pending_view_def
proof (rule blind_bind [OF blind_aware], rule blind_require, goal_cases)
  case (1 t a b)
  then obtain g where "b = a\<lparr>sap_grant_code := g\<rparr>" by (rule same_approvalE)
  then show ?case by (simp add: approval_view_def effective_state_def)
qed simp

lemma blind_replace: "blind same_approvals (approval_replace r)"
  by (auto simp: blind_def approval_replace_def intro: same_approvals_update)

lemma blind_decide: "blind same_approvals (decide_approval i user state consent m grant asset)"
  unfolding decide_approval_def
proof (rule blind_bind [OF blind_aware], rule blind_require, goal_cases)
  case (1 t a b)
  then obtain g where "b = a\<lparr>sap_grant_code := g\<rparr>" by (rule same_approvalE)
  then show ?case by (simp add: Let_def)
qed (auto simp: Let_def intro: blind_bind blind_replace)

lemma blind_poll: "blind same_but_codes (session_poll i m)"
proof (cases m)
  case (Aware t)
  show ?thesis unfolding blind_def
  proof (intro allI impI)
    fix s s' assume same: "same_but_codes s s'"
    then have "same_approvals (sn_approvals s) (sn_approvals s')" by (simp add: same_but_codes_def)
    then show "same_but_codes (fst (session_poll i m s)) (fst (session_poll i m s')) \<and>
        snd (session_poll i m s) = snd (session_poll i m s')"
    proof (cases rule: same_approvals_at [of "sn_approvals s" "sn_approvals s'" i])
      case 1
      with same Aware show ?thesis
        by (simp add: session_poll_def poll_approval_def require_approval_def op_bind_fst op_bind_snd scan_errors)
    next
      case (2 a b)
      from 2(3) obtain g where "b = a\<lparr>sap_grant_code := g\<rparr>" by (rule same_approvalE)
      with 2 same Aware show ?thesis
        by (simp add: session_poll_def poll_approval_def require_approval_def op_bind_fst op_bind_snd
            approval_view_def effective_state_def)
    qed
  qed
next
  case (Naive t)
  then show ?thesis
    by (simp add: session_poll_def poll_approval_def blind_def op_bind_fst op_bind_snd scan_errors)
qed

text \<open>An exchange is blind but for the code that it returns.\<close>

lemma exchange_fst:
  "fst (authorize_exchange keyed service i token origin m s) =
     s\<lparr>sn_tokens := fst (verify_scan_token keyed service token origin m (sn_tokens s))\<rparr>"
  by (simp add: authorize_exchange_def op_bind_fst split: sum.splits)

lemma view_with_code:
  assumes "same_approvals store store'"
  obtains e where "snd (pending_view i viewer m True store) = Inl e" "snd (pending_view i viewer m True store') = Inl e"
  | view g where "snd (pending_view i viewer m True store) = Inr view"
      "snd (pending_view i viewer m True store') = Inr (view\<lparr>vw_grant_code := g\<rparr>)"
proof (cases m)
  case (Naive t)
  then show thesis by (intro that(1)) (simp_all add: pending_view_def scan_errors)
next
  case (Aware t)
  from assms show thesis
  proof (cases rule: same_approvals_at [of store store' i])
    case 1
    with Aware show thesis
      by (intro that(1)) (simp_all add: pending_view_def require_approval_def op_bind_snd scan_errors)
  next
    case (2 a b)
    from 2(3) obtain g where b: "b = a\<lparr>sap_grant_code := g\<rparr>" by (rule same_approvalE)
    show thesis
    proof (cases "sap_subject_user_id a = viewer")
      case True
      with 2 b Aware show thesis
        by (intro that(2) [of "approval_view a (effective_state a t) True"
              "if effective_state a t = APPROVED then g else None"])
          (auto simp: approval_view_def effective_state_def)
    next
      case False
      with 2 b Aware show thesis
        by (intro that(1)) (simp_all add: pending_view_def require_approval_def op_bind_snd op_bind_fst scan_errors)
    qed
  qed
qed

lemma exchange_snd:
  assumes "same_but_codes s t"
  obtains e where "snd (authorize_exchange keyed service i token origin m s) = Inl e"
      "snd (authorize_exchange keyed service i token origin m t) = Inl e"
  | x g where "snd (authorize_exchange keyed service i token origin m s) = Inr x"
      "snd (authorize_exchange keyed service i token origin m t) = Inr (x\<lparr>as_grant_code := g\<rparr>)"
proof (cases "snd (verify_scan_token keyed service token origin m (sn_tokens s))")
  case (Inl e)
  with assms show thesis
    by (intro that(1)) (simp_all add: authorize_exchange_def op_bind_snd same_but_codes_def)
next
  case (Inr v)
  have same: "same_approvals (sn_approvals s) (sn_approvals t)" "sn_tokens t = sn_tokens s"
    using assms by (simp_all add: same_but_codes_def)
  from same(1) show thesis
  proof (cases rule: view_with_code [of "sn_approvals s" "sn_approvals t" i "vt_subject_user_id v" m])
    case (1 e)
    have "\<exists>e'. snd (owner_mismatch_as_session (with_approvals (pending_view i (vt_subject_user_id v) m True)) s') = Inl e'
        \<and> e' = (if e = Raised (ScanApprovalError SCAN_APPROVAL_OWNER_MISMATCH)
                then Raised (ScanSessionError SCAN_SESSION_OWNER_MISMATCH) else e)"
      if "snd (pending_view i (vt_subject_user_id v) m True (sn_approvals s')) = Inl e" for s'
      using that by (auto simp: owner_mismatch_as_session_def with_approvals_def
          split: prod.splits sum.splits raised.splits scan_failure.splits scan_approval_code.splits)
    with 1 Inr same show thesis
      by (intro that(1)) (auto simp: authorize_exchange_def op_bind_snd op_bind_fst)
  next
    case (2 view g)
    have ok: "snd (owner_mismatch_as_session (with_approvals (pending_view i (vt_subject_user_id v) m True)) s') = Inr view'"
      if "snd (pending_view i (vt_subject_user_id v) m True (sn_approvals s')) = Inr view'" for s' view'
      using that by simp
    show thesis
    proof (cases "vw_state view = APPROVED")
      case True
      with 2 Inr same show thesis
        by (intro that(2)) (auto simp: authorize_exchange_def op_bind_snd op_bind_fst ok)
    next
      case False
      with 2 Inr same show thesis
        by (intro that(1)) (auto simp: authorize_exchange_def op_bind_snd op_bind_fst ok)
    qed
  qed
qed

lemma exchange_keeps_same:
  "same_but_codes s t \<Longrightarrow> same_but_codes (fst (authorize_exchange keyed service i token origin m s))
     (fst (authorize_exchange keyed service i token origin m t))"
  by (simp add: exchange_fst same_but_codes_def)

lemma blind_register_session: "blind same_but_codes (session_register keyed service token device origin m i)"
  unfolding session_register_def
  by (intro blind_bind blind_tokens blind_approvals blind_request) simp

lemma catching_cong: "snd (m s) = snd (m t) \<Longrightarrow> snd (catching caught m s) = snd (catching caught m t)"
  by (simp add: catching_def split_beta split: sum.splits raised.splits)

lemma blind_exchange:
  fixes f :: "authorized_scan \<Rightarrow> 'a route_op"
  assumes "\<And>x g. f (x\<lparr>as_grant_code := g\<rparr>) = f x" "\<And>x. blind same_but_codes (f x)"
  shows "blind same_but_codes (op_bind (catching caught (authorize_exchange keyed service i token origin m)) f)"
  unfolding blind_def
proof (intro allI impI)
  fix s t assume same: "same_but_codes s t"
  let ?m = "authorize_exchange keyed service i token origin m"
  have states: "same_but_codes (fst (?m s)) (fst (?m t))" using same by (rule exchange_keeps_same)
  from same show "same_but_codes (fst (op_bind (catching caught ?m) f s)) (fst (op_bind (catching caught ?m) f t)) \<and>
      snd (op_bind (catching caught ?m) f s) = snd (op_bind (catching caught ?m) f t)"
  proof (cases rule: exchange_snd [of s t keyed service i token origin m])
    case (1 e)
    then have "snd (catching caught ?m s) = snd (catching caught ?m t)" by (intro catching_cong) simp
    moreover have "\<nexists>x. snd (catching caught ?m t) = Inr x" using 1 by simp
    then obtain e' where "snd (catching caught ?m t) = Inl e'" by (cases "snd (catching caught ?m t)") auto
    ultimately show ?thesis using states by (simp only: op_bind_fst op_bind_snd sum.case catching_simps(1))
  next
    case (2 x g)
    then have "snd (catching caught ?m s) = Inr x" "snd (catching caught ?m t) = Inr (x\<lparr>as_grant_code := g\<rparr>)"
      by simp_all
    then have "fst (op_bind (catching caught ?m) f s) = fst (f x (fst (?m s)))"
      "snd (op_bind (catching caught ?m) f s) = snd (f x (fst (?m s)))"
      "fst (op_bind (catching caught ?m) f t) = fst (f x (fst (?m t)))"
      "snd (op_bind (catching caught ?m) f t) = snd (f x (fst (?m t)))"
      by (simp_all only: op_bind_fst op_bind_snd sum.case catching_simps(1) assms(1))
    with blindD [where R = same_but_codes and m = "f x", OF assms(2) states] show ?thesis by simp
  qed
qed

lemma blind_submit: "blind same_but_codes (submit_windows_scan_result site rq i token append_snapshot)"
  unfolding submit_windows_scan_result_def
  by (intro blind_bind blind_guards blind_exchange) (auto split: option.splits sum.splits)

lemma blind_routes:
  "blind same_but_codes (issue_scan_sidecar site rq name draws secret sidecar)"
  "blind same_but_codes (register_scan_session site rq token device i)"
  "blind same_but_codes (poll_scan_approval site rq i)"
  "blind same_but_codes (scan_approval_page site rq i)"
  "blind same_but_codes (decide_scan_approval site rq i choice consent provisioned)"
proof -
  show "blind same_but_codes (issue_scan_sidecar site rq name draws secret sidecar)"
    unfolding issue_scan_sidecar_def session_issue_token_def
    by (intro blind_bind blind_guards) (auto intro!: blind_bind blind_catching split: option.splits sum.splits)
  show "blind same_but_codes (register_scan_session site rq token device i)"
    unfolding register_scan_session_def
    by (intro blind_bind blind_guards blind_catching blind_register_session) simp
  show "blind same_but_codes (poll_scan_approval site rq i)"
    unfolding poll_scan_approval_def by (intro blind_bind blind_guards blind_catching blind_poll) simp
  show "blind same_but_codes (scan_approval_page site rq i)"
    unfolding scan_approval_page_def session_pending_view_def
    by (intro blind_bind blind_guards blind_catching blind_approvals blind_page_view) simp
  have decide: "blind same_but_codes (session_approve i user consent m g a)"
    "blind same_but_codes (session_decline i user m)" for user m g a
    unfolding session_approve_def session_decline_def approve_scan_def decline_scan_def
    by (intro blind_approvals blind_decide)+
  show "blind same_but_codes (decide_scan_approval site rq i choice consent provisioned)"
    unfolding decide_scan_approval_def
    by (intro blind_bind blind_guards) (auto intro!: blind_catching decide split: sum.splits)
qed

lemma grant_route_fst:
  "fst (grant_scan_code site rq i token s) =
     (if token_body_ok token \<and> si_demo_enabled site
      then fst (authorize_exchange (si_keyed site) (si_service site) i token (server_origin_of rq) (Aware (sq_now rq)) s)
      else s)"
  by (simp add: grant_scan_code_def checked_body_def feature_enabled_def http_error_def op_bind_fst
      split: sum.splits option.splits)

lemma blind_outcome:
  assumes "blind R m" "R s t" "op_map f m s = (s', out)" "op_map f m t = (t', out')"
  shows "R s' t' \<and> out = out'"
  using blindD [OF blind_map [OF assms(1)] assms(2), where f1 = f] assms(3,4) by simp

lemma grant_route_same:
  assumes "same_but_codes s t"
  shows "same_but_codes (fst (grant_scan_code site rq i token s)) (fst (grant_scan_code site rq i token t))"
    and "snd (grant_scan_code site rq i token s) = snd (grant_scan_code site rq i token t) \<or>
      is_ok (snd (authorize_exchange (si_keyed site) (si_service site) i token (server_origin_of rq)
        (Aware (sq_now rq)) s))"
proof -
  let ?m = "authorize_exchange (si_keyed site) (si_service site) i token (server_origin_of rq) (Aware (sq_now rq))"
  show "same_but_codes (fst (grant_scan_code site rq i token s)) (fst (grant_scan_code site rq i token t))"
    using exchange_keeps_same [OF assms] assms by (simp add: grant_route_fst)
  from assms show "snd (grant_scan_code site rq i token s) = snd (grant_scan_code site rq i token t) \<or> is_ok (snd (?m s))"
  proof (cases rule: exchange_snd [of s t "si_keyed site" "si_service site" i token "server_origin_of rq" "Aware (sq_now rq)"])
    case (1 e)
    then have "snd (catching (\<lambda>_. True) ?m s) = snd (catching (\<lambda>_. True) ?m t)"
      "\<nexists>x. snd (catching (\<lambda>_. True) ?m t) = Inr x" by (auto intro: catching_cong)
    moreover from this(2) obtain e' where "snd (catching (\<lambda>_. True) ?m t) = Inl e'"
      by (cases "snd (catching (\<lambda>_. True) ?m t)") auto
    ultimately show ?thesis
      by (cases "token_body_ok token"; cases "si_demo_enabled site")
        (simp_all add: grant_scan_code_def checked_body_def feature_enabled_def op_bind_snd op_bind_fst scan_errors)
  qed simp
qed

text \<open>
  C27: Nothing tells the one-time code of an approval but an authorised exchange.  Two states that differ
  in the codes of their approvals only stay so under every request, and every request has the same
  outcome in both, unless it is the grant request of a token whose owner is that of an approved
  request.
\<close>

theorem scan_codes_confidential:
  assumes "same_but_codes s t" "perform_scan site c s = (s', out)" "perform_scan site c t = (t', out')"
  shows "same_but_codes s' t' \<and>
    (out = out' \<or>
     (\<exists>rq i token r a. c = GrantCall rq i token \<and> sn_tokens s (token_reference token) = Some r \<and>
        token_passed site rq token r \<and> sn_approvals s i = Some a \<and> sap_state a = APPROVED \<and>
        sap_subject_user_id a = tk_subject_user_id r))"
proof (cases c)
  case (GrantCall rq i token)
  let ?m = "authorize_exchange (si_keyed site) (si_service site) i token (server_origin_of rq) (Aware (sq_now rq))"
  have "same_but_codes s' t'"
    using assms(2,3) GrantCall grant_route_same(1) [OF assms(1)] by (auto dest!: op_map_outcome)
  moreover have "out = out'" if "snd (grant_scan_code site rq i token s) = snd (grant_scan_code site rq i token t)"
    using assms(2,3) GrantCall that by (simp add: op_map_def op_bind_def op_return_def split: prod.splits sum.splits)
  moreover have "\<exists>r a. sn_tokens s (token_reference token) = Some r \<and> token_passed site rq token r \<and>
      sn_approvals s i = Some a \<and> sap_state a = APPROVED \<and> sap_subject_user_id a = tk_subject_user_id r"
    if "is_ok (snd (?m s))"
  proof -
    obtain x where "snd (?m s) = Inr x" using \<open>is_ok (snd (?m s))\<close> by (auto simp: is_ok_iff)
    then show ?thesis by (rule authorize_exchange_Inr) blast
  qed
  ultimately show ?thesis using grant_route_same(2) [OF assms(1)] GrantCall by blast
next
  case (SubmitCall rq i token append_snapshot)
  from blind_outcome [OF blind_submit assms(1)] assms(2,3) show ?thesis unfolding SubmitCall perform_scan.simps by blast
next
  case (IssueCall rq name draws secret sidecar)
  from blind_outcome [OF blind_routes(1) assms(1)] assms(2,3) show ?thesis unfolding IssueCall perform_scan.simps by blast
next
  case (RegisterCall rq token device i)
  from blind_outcome [OF blind_routes(2) assms(1)] assms(2,3) show ?thesis unfolding RegisterCall perform_scan.simps by blast
next
  case (PollCall rq i)
  from blind_outcome [OF blind_routes(3) assms(1)] assms(2,3) show ?thesis unfolding PollCall perform_scan.simps by blast
next
  case (PageCall rq i)
  from blind_outcome [OF blind_routes(4) assms(1)] assms(2,3) show ?thesis unfolding PageCall perform_scan.simps by blast
next
  case (DecideCall rq i choice consent provisioned)
  from blind_outcome [OF blind_routes(5) assms(1)] assms(2,3) show ?thesis unfolding DecideCall perform_scan.simps by blast
qed

definition with_other_codes :: "string \<Rightarrow> scan_state \<Rightarrow> scan_state" where
  "with_other_codes code s =
     s\<lparr>sn_approvals := (\<lambda>i. map_option (\<lambda>a. a\<lparr>sap_grant_code := Some code\<rparr>) (sn_approvals s i))\<rparr>"

lemma with_other_codes_same: "same_but_codes s (with_other_codes code s)"
proof -
  have "rel_option same_approval x (map_option (\<lambda>a. a\<lparr>sap_grant_code := Some code\<rparr>) x)" for x
    by (cases x) (simp_all add: same_approval_def)
  then show ?thesis by (simp add: same_but_codes_def same_approvals_def with_other_codes_def)
qed

theorem scan_codes_confidential_witness:
  "let s = wd_state scan_demo_approved; t = with_other_codes ''code-2'' s;
       c = PollCall (collector_request ''https://secai'' 63902995270000000) ''r1''
   in is_ok (snd (perform_scan scan_demo_site c s)) \<and>
      snd (perform_scan scan_demo_site c s) = snd (perform_scan scan_demo_site c t)"
proof -
  let ?s = "wd_state scan_demo_approved" and ?c = "PollCall (collector_request ''https://secai'' 63902995270000000) ''r1''"
  have "is_ok (snd (perform_scan scan_demo_site ?c ?s))" by code_simp
  moreover have "snd (perform_scan scan_demo_site ?c ?s) = snd (perform_scan scan_demo_site ?c (with_other_codes ''code-2'' ?s))"
    using scan_codes_confidential [OF with_other_codes_same prod.collapse [symmetric] prod.collapse [symmetric]]
    by blast
  ultimately show ?thesis by (simp add: Let_def del: perform_scan.simps)
qed

subsection \<open>An error without a code\<close>

text \<open>
  A token whose secret holds a character outside ASCII is not refused with a code: the encoding error of
  \<open>_hmac\<close> is caught neither by the service nor by the route.
\<close>

lemma non_ascii_token_escapes:
  assumes "si_demo_enabled site" "token_body_ok token" "device_body_ok device"
    and "CHR ''.'' \<in> set token" "reference_pattern (token_reference token)" "\<not> ascii_text (token_secret token)"
  shows "register_scan_session site rq token device i s = (s, Inl (PyError ValueError))"
proof -
  have "token_secret token \<noteq> []" using assms(6) by (auto simp: ascii_text_def)
  then have "start_scan_run (si_keyed site) (si_service site) token (server_origin_of rq) (Aware (sq_now rq)) =
      (scan_value_error :: started_scan_run token_op)"
    using assms by (simp add: start_scan_run_def split_scan_token_def scan_value_error_def)
  then show ?thesis
    using assms by (simp add: register_scan_session_def checked_body_def feature_enabled_def session_register_def
        catching_def with_tokens_def op_bind_def scan_errors op_raise_def)
qed

end
