(* ===== verification/Spec2Isabelle.thy ===== *)
theory Spec2Isabelle
  imports Rule_PC07 Account_Policy Service_Management User_Media_Remote Patch_Lifecycle
    Endpoint_Protection Rbac Credential_Lifecycle Queue_Delivery Json_Documents Package_Properties
    Submission_Properties Finding_Properties Normalizer_Properties Scan_Properties
begin

text \<open>
  Verification library of Sec_AI, a server that audits computers against a security guide (controls
  PC-01 to PC-18).  This theory loads the whole library; the path names below are those of the
  repository, \<^verbatim>\<open>A/\<close> standing for \<^verbatim>\<open>src/security_audit/analysis/\<close>, \<^verbatim>\<open>S/\<close> for \<^verbatim>\<open>src/security_audit/\<close>.

  \<^bold>\<open>The program and how its parts interact.\<close>  A user logs in (\<^verbatim>\<open>S/security/auth\<close>, \<^verbatim>\<open>S/security/rbac\<close>) and
  starts an audit.  A collector runs on the computer to be audited.  It is let in either by a
  credential of one job or by a token whose owner approves the run in the browser
  (\<^verbatim>\<open>S/collector/scan_*.py\<close>, \<^verbatim>\<open>apps/api/scan_approval.py\<close>).  It delivers a ZIP package of evidence online,
  or offline with a detached signature.  The validator (\<^verbatim>\<open>A/package_validation\<close>) trusts nothing in it:
  strict JSON, archive preflight, schemas, manifest, scope, external proofs and evidence hashes.  The
  normalizer (\<^verbatim>\<open>A/normalization\<close>) turns the records of a validated package into normalized evidence.
  The rules (\<^verbatim>\<open>A/applicability\<close>, \<^verbatim>\<open>A/rule_engine\<close>) judge the evidence of a control; the builder
  (\<^verbatim>\<open>A/finding\<close>) makes the official finding from an approved pack, the evidence and the decision; the
  repository (\<^verbatim>\<open>S/persistence/database\<close>) appends it to the table of findings.  Work that has to survive
  a crash goes through an outbox and a task queue.

  \<^bold>\<open>Prelude.\<close>  \<open>Sec_Prelude\<close> has results (\<open>'e raised + 'a\<close>, with \<open>bindE\<close> for sequencing), operations with
  effects (\<open>op\<close>: what an operation changed before it raised stays changed), dictionaries as association
  lists in insertion order, and sorting; the collections \<open>res_simps\<close>, \<open>rule_defs\<close> and \<open>decision_defs\<close>.
  \<open>Py_Values\<close>, \<open>Py_Time\<close>, \<open>Py_Uuid\<close> and \<open>Py_Crypto\<close> model what the program uses of the Python library:
  decoded JSON values, strings as UTF-8 bytes, \<open>strip\<close>, \<open>casefold\<close>, \<open>repr\<close>, exact binary floats, ISO dates,
  UUID texts, Base64, \<open>compare_digest\<close>.  \<open>Tables\<close> has database tables as lists of rows.

  \<^bold>\<open>Rules.\<close>
  \<^item> \<open>Applicability\<close>: \<^verbatim>\<open>A/applicability/{contracts,pc07}.py\<close>.  No subject of the evidence gets lost.
  \<^item> \<open>Rule_PC07\<close>: \<^verbatim>\<open>A/rule_engine/{contracts,pc07,registry}.py\<close>.  When PC-07 passes, fails or errs, from
    the raw evidence to the decision; the order of the evidence does not matter.
  \<^item> \<open>Rule_Inputs\<close>: the input checks that the other registries share, and the locale
    \<open>decision_registry\<close>, the contract of a registry (a decision has the control that was asked for and
    a status that fits its codes).  It is interpreted by each of the five modules.
  \<^item> \<open>Account_Policy\<close>, \<open>Service_Management\<close>, \<open>User_Media_Remote\<close>, \<open>Patch_Lifecycle\<close>,
    \<open>Endpoint_Protection\<close>: the modules of the same names in \<^verbatim>\<open>A/rule_engine\<close>.  Each verdict is
    characterised by a predicate on the collected value and the parameters of the rule that does not
    follow the branches of the code.
  \<^item> \<open>Canonical_Json\<close>: \<^verbatim>\<open>S/common/canonical_json.py\<close>.

  \<^bold>\<open>Accounts and sessions.\<close>
  \<^item> \<open>Auth_Repository\<close>, \<open>Password_Policy\<close>, \<open>Auth_Service\<close>, \<open>Account_Management\<close>: the files
    \<^verbatim>\<open>contracts.py\<close>, \<^verbatim>\<open>repository.py\<close>, \<^verbatim>\<open>passwords.py\<close>, \<^verbatim>\<open>service.py\<close>, \<^verbatim>\<open>settings.py\<close> and
    \<^verbatim>\<open>account_management.py\<close> of \<^verbatim>\<open>S/security/auth\<close>, over a record of tables.
  \<^item> \<open>Auth_Steps\<close>: all operations as requests and the locale \<open>auth_discipline\<close>, the contract of a relation
    that every table update keeps.  \<open>Auth_Evolution\<close> interprets it three times; \<open>Auth_Properties\<close> has
    what follows: revoked sessions stay refused, an account that is stopped has no session, both
    factors precede a session, only administrators administer, and a correct login succeeds.
  \<^item> \<open>Rbac\<close>: \<^verbatim>\<open>S/security/rbac/policy.py\<close>, \<^verbatim>\<open>apps/api/auth_support.py\<close>, \<^verbatim>\<open>apps/api/security_surface.py\<close>.

  \<^bold>\<open>Packages.\<close>
  \<^item> \<open>Package_Contracts\<close>, \<open>Strict_Json\<close>, \<open>Archive_Contract\<close>, \<open>Package_Validator\<close>, \<open>Package_Gates\<close>: the
    files of \<^verbatim>\<open>A/package_validation\<close>.  \<open>Json_Documents\<close>: the scanner ends, what it loads is free of
    duplicate keys and unsafe numbers, and printed values are read back.  \<open>Package_Safety\<close>,
    \<open>Package_Acceptance\<close>, \<open>Package_Errors\<close> and \<open>Package_Properties\<close>: what acceptance proves and how
    validation fails.
  \<^item> \<open>Collector_Credentials\<close> and \<open>Credential_Lifecycle\<close>: \<^verbatim>\<open>S/security/auth/collector_credentials.py\<close>, with
    the abstract machine that every record follows and the locale \<open>credential_discipline\<close>.
  \<^item> \<open>Online_Submission\<close>, \<open>Offline_Signature\<close>, \<open>Offline_Submission\<close>:
    \<^verbatim>\<open>S/security/auth/online_submission.py\<close>, \<^verbatim>\<open>S/security/signatures/offline.py\<close>,
    \<^verbatim>\<open>S/application/offline_submission.py\<close>; \<open>Submission_Properties\<close> has their properties.

  \<^bold>\<open>Scans.\<close>
  \<^item> \<open>Scan_Tokens\<close>, \<open>Scan_Approvals\<close>, \<open>Scan_Sessions\<close>: \<^verbatim>\<open>S/collector/scan_token.py\<close>, \<^verbatim>\<open>scan_approval.py\<close>,
    \<^verbatim>\<open>scan_session.py\<close> and the routes of \<^verbatim>\<open>apps/api/scan_approval.py\<close>.
  \<^item> \<open>Scan_Log\<close> and \<open>Scan_Facts\<close>: histories of requests with their log, and the invariant that ties
    every token and approval to the requests that made it.
  \<^item> \<open>Scan_Handshake\<close>: \<^verbatim>\<open>S/collector/scan_handshake.py\<close> over any world, the locale \<open>grant_server\<close> of what the
    client relies on, and the routes as such a server, with arbitrary requests of others in between.
  \<^item> \<open>Scan_Properties\<close>: the interpretation of \<open>grant_server\<close> and the properties: a one-time code needs the
    approval of the token's owner, three runs for a token, one decision for a request, and no other
    request tells a code.

  \<^bold>\<open>From evidence to findings.\<close>
  \<^item> \<open>Normalizer\<close>, \<open>Normalizer_Facts\<close>, \<open>Normalizer_Properties\<close>: \<^verbatim>\<open>A/normalization\<close>; what normalized evidence is
    bound to, and the composition with the validator before it and the builder after it.
  \<^item> \<open>Finding_Builder\<close> and \<open>Finding_Repository\<close>: \<^verbatim>\<open>A/finding/{contracts,builder,idempotency}.py\<close> and
    \<^verbatim>\<open>S/persistence/database/finding_repository.py\<close> with its table; \<open>Finding_Facts\<close>, \<open>Finding_Store\<close>,
    \<open>Finding_Properties\<close>: what a finding rests on, the invariant of the table, and that a finding that
    is built again is recognised.
  \<^item> \<open>Recovery_Queue\<close> and \<open>Queue_Delivery\<close>: \<^verbatim>\<open>S/persistence/database/queue_repository.py\<close> and
    \<^verbatim>\<open>apps/worker/tasks.py\<close>; results are final, and a task that is delivered once undisturbed ends.

  \<^bold>\<open>Parameters.\<close>  Code that is not in the repository is an argument of the definitions that use it: SHA-256
  and SHA-1, RFC 8785 (\<^verbatim>\<open>rfc8785.dumps\<close>), \<^verbatim>\<open>zipfile\<close>, X.509 and Ed25519 (\<^verbatim>\<open>cryptography\<close>), \<^verbatim>\<open>jsonschema\<close>,
  Argon2, keyed hashes and the Unicode tables of user names.  Fresh identifiers, secrets and the clock are
  arguments too.  Hypotheses on such parameters are few and are stated in the theorems (a digest is
  lower-case hexadecimal of its length, a ZIP library that raises nothing but its documented
  exceptions); the samples instantiate them by functions that compute.

  \<^bold>\<open>Bounds and fuel.\<close>  Integers of Python are unbounded, so are those here.  The JSON scanner has the fuel
  \<open>2 * length + 1\<close>, which is never used up (\<open>Json_Documents\<close>); the depth of recursion that the
  interpreter has left is an argument, and running out of it is the \<open>RecursionError\<close> of the code.  The
  search for a free token reference takes the references drawn so far and says when all were taken.  The
  handshake counts its attempts down.  All other loops are recursion on data.

  \<^bold>\<open>Where the model is coarser than the program.\<close>
  \<^item> An operation that holds a lock or a transaction is one step; steps follow each other in any order.
    Where the code takes a lock twice, as in a submission, the model keeps the second check.
  \<^item> Of exceptions, class and code are kept, and the text where it is a constant of the repository.
  \<^item> Upper and lower case and the white space of strings follow Unicode as far as the result can meet
    ASCII text, with which it is compared; \<open>int(text, 16)\<close> of a UUID is that of ASCII digits.
  \<^item> Floats have no signed zero; ratios of integers are compared exactly.
  \<^item> A JSONB column keeps the value of a document.  The conflict clause of the insertion of findings
    catches the input hash only, as in the code; other violations raise.
  \<^item> Datetimes of the credential, scan and session services are instants; an instant after the year
    9999 is not excluded there.

  \<^bold>\<open>Not modelled.\<close>  The collector itself (processes, files and registry of the host) and the files that carry
  a token to it, which rest on \<^verbatim>\<open>urllib.parse\<close>, Ed25519 and the file system; the audits of Linux hosts and
  network devices, which judge the text output of remote commands; guide retrieval, language model,
  chat and report features, whose results no later check uses; vulnerability feeds; assessment criteria
  and audit history pages; storage recovery probes; the malware scanner client, whose outcome is an
  argument of the validator; supply-chain and deployment tools; configuration, FastAPI plumbing, templates
  and the acceptance programs.  The schema files are data; loading them is left out.
\<close>

end
